(* ===== verification/Prelude.thy ===== *)
theory Prelude
  imports Complex_Main "HOL-Library.AList"
begin

text \<open>
  Shared vocabulary of the development.

  Time stamps, durations, powers and voltages of the service are Python floats; they are modelled as
  rational numbers (\<open>secs\<close>, \<open>watts\<close>, \<open>volts\<close>), that is, as finite floats whose sums and
  differences are exact.  Rounding is not modelled.  Where the code itself distinguishes non-finite
  values, the type \<open>pyfloat\<close> below keeps them.  Python's ordered dictionaries are association
  lists in insertion order: \<open>AList.update\<close> assigns (an existing key keeps its place, a new one goes
  to the end), \<open>AList.delete\<close> removes, \<open>map_of\<close> looks up.  Exceptions are values of \<open>exc\<close>, and a
  routine that may raise after it mutated its state returns the new state beside the outcome.
\<close>

section \<open>Types and lemma collections\<close>

type_synonym secs = rat
type_synonym watts = rat
type_synonym volts = rat
type_synonym amps = rat

named_theorems od_simps \<open>ordered dictionaries\<close>
named_theorems text_simps \<open>Python text normalisation\<close>
named_theorems frame_simps \<open>fields an operation leaves alone\<close>
named_theorems inv_intros \<open>preservation of the component invariants\<close>

text \<open>The exception classes the modelled code catches or raises.\<close>

datatype exc =
    KeyError | OSError | RuntimeErr | TypeErr | ValueErr | AttributeErr | IndexErr | OverflowErr | OtherExc

section \<open>Floats with their non-finite values\<close>

datatype pyfloat = Fin rat | PosInf | NegInf | NaN

fun is_finite :: "pyfloat \<Rightarrow> bool" where
  "is_finite (Fin _) = True"
| "is_finite _ = False"

text \<open>IEEE comparison: every comparison with a NaN is false.\<close>

fun pf_less :: "pyfloat \<Rightarrow> pyfloat \<Rightarrow> bool" where
  "pf_less NaN _ = False"
| "pf_less _ NaN = False"
| "pf_less PosInf _ = False"
| "pf_less _ NegInf = False"
| "pf_less NegInf _ = True"
| "pf_less _ PosInf = True"
| "pf_less (Fin x) (Fin y) = (x < y)"

fun pf_le :: "pyfloat \<Rightarrow> pyfloat \<Rightarrow> bool" where
  "pf_le NaN _ = False"
| "pf_le _ NaN = False"
| "pf_le NegInf _ = True"
| "pf_le _ PosInf = True"
| "pf_le PosInf _ = False"
| "pf_le _ NegInf = False"
| "pf_le (Fin x) (Fin y) = (x \<le> y)"

section \<open>Routines that may raise\<close>

text \<open>
  \<open>('a, 's) outcome\<close> is what a routine leaves behind: the exception or the value, and the state
  as mutated so far.  \<open>and_then\<close> sequences two routines, \<open>try_except\<close> is \<open>try: ... except classes:\<close>.
\<close>

type_synonym ('a, 's) outcome = "(exc + 'a) \<times> 's"

definition and_then :: "('a, 's) outcome \<Rightarrow> ('a \<Rightarrow> 's \<Rightarrow> ('b, 's) outcome) \<Rightarrow> ('b, 's) outcome" where
  "and_then r f = (case r of (Inl e, s) \<Rightarrow> (Inl e, s) | (Inr a, s) \<Rightarrow> f a s)"

definition try_except ::
  "('a, 's) outcome \<Rightarrow> exc list \<Rightarrow> (exc \<Rightarrow> 's \<Rightarrow> ('a, 's) outcome) \<Rightarrow> ('a, 's) outcome" where
  "try_except r classes handler =
    (case r of (Inl e, s) \<Rightarrow> if e \<in> set classes then handler e s else (Inl e, s)
     | (Inr a, s) \<Rightarrow> (Inr a, s))"

lemma and_then_simps [simp]:
  "and_then (Inl e, s) f = (Inl e, s)" "and_then (Inr a, s) f = f a s"
  by (simp_all add: and_then_def)

lemma try_except_simps [simp]:
  "try_except (Inr a, s) cs h = (Inr a, s)"
  "try_except (Inl e, s) cs h = (if e \<in> set cs then h e s else (Inl e, s))"
  by (simp_all add: try_except_def)

lemma and_then_cases:
  "and_then r f = (x, t) \<longleftrightarrow>
    (\<exists>e. r = (Inl e, t) \<and> x = Inl e) \<or> (\<exists>a s. r = (Inr a, s) \<and> f a s = (x, t))"
  by (cases r; cases "fst r") auto

text \<open>\<open>bind_result\<close> sequences computations that raise but change no state.\<close>

definition bind_result :: "'e + 'a \<Rightarrow> ('a \<Rightarrow> 'e + 'b) \<Rightarrow> 'e + 'b" where
  "bind_result r f = (case r of Inl e \<Rightarrow> Inl e | Inr a \<Rightarrow> f a)"

lemma bind_result_simps [simp]:
  "bind_result (Inl e) f = Inl e" "bind_result (Inr a) f = f a"
  by (simp_all add: bind_result_def)

lemma bind_result_Inr: "bind_result r f = Inr b \<longleftrightarrow> (\<exists>a. r = Inr a \<and> f a = Inr b)"
  by (cases r) simp_all

section \<open>Rounding\<close>

text \<open>Nearest integer, ties to even: Python's \<open>round\<close> and the rounding mode of IEEE arithmetic.\<close>

definition round_half_even :: "rat \<Rightarrow> int" where
  "round_half_even x =
    (let f = \<lfloor>x\<rfloor>; d = x - of_int f
     in if d < 1/2 then f else if 1/2 < d then f + 1 else if even f then f else f + 1)"

lemma round_half_even_mono: "x \<le> y \<Longrightarrow> round_half_even x \<le> round_half_even y"
proof -
  assume le: "x \<le> y"
  then have f: "\<lfloor>x\<rfloor> \<le> \<lfloor>y\<rfloor>" by (rule floor_mono)
  show ?thesis
  proof (cases "\<lfloor>x\<rfloor> = \<lfloor>y\<rfloor>")
    case True
    then show ?thesis using le by (auto simp: round_half_even_def Let_def)
  next
    case False
    with f have "\<lfloor>x\<rfloor> + 1 \<le> \<lfloor>y\<rfloor>" by simp
    moreover have "round_half_even x \<le> \<lfloor>x\<rfloor> + 1" "\<lfloor>y\<rfloor> \<le> round_half_even y"
      by (auto simp: round_half_even_def Let_def)
    ultimately show ?thesis by simp
  qed
qed

section \<open>Optional numbers\<close>

text \<open>\<open>finite_float_or_none\<close> on a value that is a float or absent.\<close>

fun finite_float_or_none :: "pyfloat option \<Rightarrow> rat option" where
  "finite_float_or_none (Some (Fin x)) = Some x"
| "finite_float_or_none _ = None"

section \<open>Text\<close>

text \<open>
  \<open>str.strip\<close>, \<open>str.upper\<close> and \<open>str.lower\<close> on code points below 256.  Case mapping is the ASCII
  one: the tables the results are looked up in hold ASCII keys only, and no other Latin-1 letter maps
  to an ASCII one.
\<close>

definition py_space :: "char \<Rightarrow> bool" where
  "py_space c = (let n = (of_char c :: nat) in (9 \<le> n \<and> n \<le> 13) \<or> (28 \<le> n \<and> n \<le> 32) \<or> n = 133 \<or> n = 160)"

definition py_strip :: "string \<Rightarrow> string" where
  "py_strip s = rev (dropWhile py_space (rev (dropWhile py_space s)))"

definition py_upper :: "string \<Rightarrow> string" where
  "py_upper = map (\<lambda>c. let n = (of_char c :: nat) in if 97 \<le> n \<and> n \<le> 122 then char_of (n - 32) else c)"

definition py_lower :: "string \<Rightarrow> string" where
  "py_lower = map (\<lambda>c. let n = (of_char c :: nat) in if 65 \<le> n \<and> n \<le> 90 then char_of (n + 32) else c)"

lemma py_strip_idem [simp]: "py_strip (py_strip s) = py_strip s"
proof -
  have "dropWhile P (rev (dropWhile P (rev (dropWhile P (xs :: char list))))) = rev (dropWhile P (rev (dropWhile P xs)))" for P and xs
  proof (cases "dropWhile P xs")
    case (Cons y ys)
    then have y: "\<not> P y" by (metis dropWhile_eq_Cons_conv)
    then have "rev (dropWhile P (rev (y # ys))) = y # rev (dropWhile P (rev ys))"
      by (simp add: dropWhile_append1 dropWhile_append3 dropWhile_append)
    with Cons y show ?thesis by simp
  next
    case Nil
    show ?thesis by (simp only: Nil rev.simps dropWhile.simps)
  qed
  moreover have "dropWhile P (dropWhile P xs) = dropWhile P xs" for P and xs :: "char list" by (induction xs) auto
  ultimately show ?thesis by (simp add: py_strip_def)
qed

lemma lower_char_space: "py_space (hd (py_lower [c])) \<longleftrightarrow> py_space c"
  by (simp add: py_lower_def py_space_def Let_def) 

lemma py_lower_map: "py_lower s = map (\<lambda>c. hd (py_lower [c])) s"
  by (simp add: py_lower_def)

lemma py_strip_lower: "py_strip (py_lower s) = py_lower (py_strip s)"
  by (simp add: py_strip_def py_lower_map [of s] dropWhile_map rev_map comp_def lower_char_space
   py_lower_map [of "rev _"])

lemma py_lower_idem: "py_lower (py_lower s) = py_lower s"
  by (simp add: py_lower_def Let_def)

text \<open>\<open>str.split\<close> at a character.\<close>

fun split_at :: "char \<Rightarrow> string \<Rightarrow> string list" where
  "split_at c [] = [[]]"
| "split_at c (x # xs) =
    (if x = c then [] # split_at c xs
     else case split_at c xs of [] \<Rightarrow> [[x]] | w # ws \<Rightarrow> (x # w) # ws)"

section \<open>Ordered dictionaries\<close>

text \<open>\<open>OrderedDict.move_to_end\<close>, for a key that is present.\<close>

definition od_move_to_end :: "'k \<Rightarrow> ('k \<times> 'v) list \<Rightarrow> ('k \<times> 'v) list" where
  "od_move_to_end k m = (case map_of m k of None \<Rightarrow> m | Some v \<Rightarrow> AList.delete k m @ [(k, v)])"

text \<open>The loop that pops the oldest entry while more than \<open>n\<close> are held.\<close>

fun evict_oldest :: "nat \<Rightarrow> 'a list \<Rightarrow> 'a list" where
  "evict_oldest n [] = []"
| "evict_oldest n (x # xs) = (if n < length (x # xs) then evict_oldest n xs else x # xs)"

abbreviation od_keys :: "('k \<times> 'v) list \<Rightarrow> 'k list" where
  "od_keys m \<equiv> map fst m"

abbreviation od_ok :: "('k \<times> 'v) list \<Rightarrow> bool" where
  "od_ok m \<equiv> distinct (map fst m)"

lemma evict_oldest_drop: "evict_oldest n xs = drop (length xs - n) xs"
  by (induction xs) (auto simp: Suc_diff_le not_less)

lemma evict_oldest_length [simp]: "length (evict_oldest n xs) = min n (length xs)"
  by (simp add: evict_oldest_drop)

lemma evict_oldest_id [simp]: "length xs \<le> n \<Longrightarrow> evict_oldest n xs = xs"
  by (simp add: evict_oldest_drop)

lemma evict_oldest_last: "0 < n \<Longrightarrow> evict_oldest n (xs @ [y]) = evict_oldest (n - 1) xs @ [y]"
  by (auto simp: evict_oldest_drop Suc_diff_le)

lemma od_ok_drop: "od_ok m \<Longrightarrow> od_ok (drop n m)"
  by (simp add: drop_map [symmetric] distinct_drop)

lemma od_ok_evict [od_simps]: "od_ok m \<Longrightarrow> od_ok (evict_oldest n m)"
  by (simp add: evict_oldest_drop od_ok_drop)

lemma od_ok_update [od_simps]: "od_ok m \<Longrightarrow> od_ok (AList.update k v m)"
  by (simp add: distinct_update)

lemma od_ok_delete [od_simps]: "od_ok m \<Longrightarrow> od_ok (AList.delete k m)"
  by (simp add: distinct_delete)

lemma od_lookup_update [od_simps]: "map_of (AList.update k v m) j = (if j = k then Some v else map_of m j)"
  by (simp add: update_conv')

lemma od_lookup_delete [od_simps]: "map_of (AList.delete k m) j = (if j = k then None else map_of m j)"
  by (simp add: delete_conv')

lemma map_of_append_if: "map_of (xs @ ys) j = (case map_of xs j of None \<Rightarrow> map_of ys j | Some v \<Rightarrow> Some v)"
  by (simp add: map_add_def)

lemma od_lookup_move [od_simps]: "map_of (od_move_to_end k m) j = map_of m j"
  by (simp add: od_move_to_end_def map_of_append_if od_lookup_delete split: option.splits del: map_of_append)

lemma od_ok_move [od_simps]: "od_ok m \<Longrightarrow> od_ok (od_move_to_end k m)"
  by (auto simp: od_move_to_end_def delete_keys distinct_removeAll split: option.splits)

lemma length_delete_present:
  "od_ok m \<Longrightarrow> map_of m k = Some v \<Longrightarrow> length (AList.delete k m) = length m - 1"
proof (induction m)
  case (Cons p m)
  then show ?case
  proof (cases "fst p = k")
    case True
    with Cons.prems have "k \<notin> fst ` set m" by auto
    with True show ?thesis by (cases p) simp
  next
    case False
    with Cons show ?thesis by (cases p; cases m) auto
  qed
qed simp

lemma od_length_move [od_simps]: "od_ok m \<Longrightarrow> length (od_move_to_end k m) = length m"
proof (cases "map_of m k")
  case (Some v)
  moreover from Some have "m \<noteq> []" by auto
  ultimately show "od_ok m \<Longrightarrow> length (od_move_to_end k m) = length m"
    by (simp add: od_move_to_end_def length_delete_present Suc_diff_1)
qed (simp add: od_move_to_end_def)

lemma od_keys_move: "set (od_keys (od_move_to_end k m)) = set (od_keys m)"
proof -
  have "dom (map_of (od_move_to_end k m)) = dom (map_of m)"
    by (auto simp: od_lookup_move dom_def)
  then show ?thesis by (simp add: dom_map_of_conv_image_fst)
qed

lemma map_of_drop_some: "od_ok m \<Longrightarrow> map_of (drop n m) k = Some v \<Longrightarrow> map_of m k = Some v"
  by (meson map_of_SomeD map_of_eq_Some_iff od_ok_drop in_set_dropD)

lemma od_lookup_evict: "od_ok m \<Longrightarrow> map_of (evict_oldest n m) k = Some v \<Longrightarrow> map_of m k = Some v"
  by (simp add: evict_oldest_drop map_of_drop_some)

lemma update_move_to_end:
  "od_move_to_end k (AList.update k v m) = AList.delete k m @ [(k, v)]"
  by (simp add: od_move_to_end_def od_lookup_update delete_update_same)

section \<open>Runs and invariants\<close>

text \<open>
  A component whose operations are steps over events keeps its invariant along every run.  Each
  stateful component interprets this interface with its own step function and invariant.
\<close>

locale stepwise =
  fixes step :: "'s \<Rightarrow> 'e \<Rightarrow> 's" and inv :: "'s \<Rightarrow> bool"
  assumes step_inv: "inv s \<Longrightarrow> inv (step s e)"
begin

lemma run_inv: "inv s \<Longrightarrow> inv (foldl step s es)"
  by (induction es arbitrary: s) (auto simp: step_inv)

lemma run_prefix_inv: "inv s \<Longrightarrow> inv (foldl step s (take n es))"
  by (rule run_inv)

end

text \<open>The same when only well-formed events keep the invariant; a component without such a condition is a special case.\<close>

locale guarded_steps =
  fixes step :: "'s \<Rightarrow> 'e \<Rightarrow> 's" and ok :: "'e \<Rightarrow> bool" and inv :: "'s \<Rightarrow> bool"
  assumes step_inv: "inv s \<Longrightarrow> ok e \<Longrightarrow> inv (step s e)"
begin

lemma run_inv: "inv s \<Longrightarrow> list_all ok es \<Longrightarrow> inv (foldl step s es)"
  by (induction es arbitrary: s) (auto simp: step_inv)

end

sublocale stepwise \<subseteq> guarded: guarded_steps step "\<lambda>_. True" inv
  by unfold_locales (rule step_inv)

text \<open>
  A bounded store that keeps the newest entries: what an insertion promises, and what follows for any
  sequence of insertions.  The idempotency store of the Control API and the quarantine list of the
  command mailbox are such stores.
\<close>

locale recency_store =
  fixes put :: "'k \<Rightarrow> 'v \<Rightarrow> ('k \<times> 'v) list \<Rightarrow> ('k \<times> 'v) list" and cap :: nat
  assumes put_ok: "od_ok m \<Longrightarrow> od_ok (put k v m)"
    and put_bound: "od_ok m \<Longrightarrow> length m \<le> cap \<Longrightarrow> length (put k v m) \<le> cap"
    and put_get: "od_ok m \<Longrightarrow> map_of (put k v m) k = Some v"
    and put_other: "od_ok m \<Longrightarrow> j \<noteq> k \<Longrightarrow> map_of (put k v m) j = Some w \<Longrightarrow> map_of m j = Some w"
begin

definition puts :: "('k \<times> 'v) list \<Rightarrow> ('k \<times> 'v) list \<Rightarrow> ('k \<times> 'v) list" where
  "puts m kvs = foldl (\<lambda>m (k, v). put k v m) m kvs"

lemma puts_simps [simp]: "puts m [] = m" "puts m ((k, v) # kvs) = puts (put k v m) kvs"
  by (simp_all add: puts_def)

lemma puts_ok: "od_ok m \<Longrightarrow> od_ok (puts m kvs)"
  by (induction kvs arbitrary: m) (auto simp: put_ok)

lemma puts_bound: "od_ok m \<Longrightarrow> length m \<le> cap \<Longrightarrow> length (puts m kvs) \<le> cap"
  by (induction kvs arbitrary: m) (auto simp: put_ok put_bound)

lemma puts_value: "od_ok m \<Longrightarrow> map_of (puts m kvs) k = Some v \<Longrightarrow> map_of m k = Some v \<or> (k, v) \<in> set kvs"
proof (induction kvs arbitrary: m)
  case (Cons p kvs)
  obtain k' v' where p: "p = (k', v')" by (cases p)
  from Cons have "map_of (put k' v' m) k = Some v \<or> (k, v) \<in> set kvs"
    by (simp add: p put_ok)
  with Cons.prems(1) show ?case
    by (cases "k = k'") (auto simp: p put_get simp del: map_of_eq_Some_iff dest: put_other)
qed simp

end

end
