(* ===== verification/Phases.thy ===== *)
theory Phases
  imports Prelude
begin

text \<open>
  Phase layouts (\<open>venus_evcharger/backend/models.py\<close>): the three layouts, their normalisation
  from free text, the number of energised phases, and the layouts that stay available while a
  phase-switch lockout degrades the installation.  A value of Python type \<open>object\<close> that the code
  passes through \<open>str()\<close> is represented by that text; \<open>None\<close> is \<open>None\<close>.
\<close>

section \<open>Layouts and their normalisation\<close>

datatype phase = P1 | P1_P2 | P1_P2_P3

definition phase_selection_aliases :: "(string \<times> phase) list" where
  "phase_selection_aliases =
    [(''P1'', P1), (''L1'', P1), (''L2'', P1), (''L3'', P1), (''1P'', P1),
     (''P1_P2'', P1_P2), (''P1+P2'', P1_P2), (''2P'', P1_P2),
     (''P1_P2_P3'', P1_P2_P3), (''P1+P2+P3'', P1_P2_P3), (''3P'', P1_P2_P3)]"

fun phase_text :: "phase \<Rightarrow> string" where
  "phase_text P1 = ''P1''"
| "phase_text P1_P2 = ''P1_P2''"
| "phase_text P1_P2_P3 = ''P1_P2_P3''"

definition normalize_phase_selection_or_none :: "string option \<Rightarrow> phase option" where
  "normalize_phase_selection_or_none value =
    (case value of None \<Rightarrow> None
     | Some text \<Rightarrow> map_of phase_selection_aliases (py_upper (py_strip text)))"

definition normalize_phase_selection :: "string option \<Rightarrow> phase \<Rightarrow> phase" where
  "normalize_phase_selection value dflt =
    (case normalize_phase_selection_or_none value of Some p \<Rightarrow> p | None \<Rightarrow> dflt)"

definition phase_selection_count :: "string option \<Rightarrow> nat" where
  "phase_selection_count value =
    (let normalized = normalize_phase_selection value P1 in
     if normalized = P1_P2_P3 then 3 else if normalized = P1_P2 then 2 else 1)"

text \<open>The same count for a value that already is a layout.\<close>

fun phase_count :: "phase \<Rightarrow> nat" where
  "phase_count P1 = 1"
| "phase_count P1_P2 = 2"
| "phase_count P1_P2_P3 = 3"

datatype switching_mode = Direct | Contactor

definition normalize_switching_mode :: "string option \<Rightarrow> switching_mode \<Rightarrow> switching_mode" where
  "normalize_switching_mode value dflt =
    (case value of None \<Rightarrow> dflt
     | Some text \<Rightarrow>
        let mode = py_lower (py_strip text) in
        if mode = ''contactor'' then Contactor
        else if mode = ''direct'' then Direct else dflt)"

text \<open>Runtime data is a sequence of values, or one value whose text is split at commas.\<close>

datatype phase_values = Sequence "string option list" | Single "string option"

definition phase_selection_text :: "string option \<Rightarrow> string" where
  "phase_selection_text value = (case value of None \<Rightarrow> '''' | Some text \<Rightarrow> py_strip text)"

fun normalized_phase_selection_values :: "phase_values \<Rightarrow> phase list" where
  "normalized_phase_selection_values (Sequence vs) = map (\<lambda>v. normalize_phase_selection v P1) vs"
| "normalized_phase_selection_values (Single v) =
    (let text = phase_selection_text v in
     if text = '''' then []
     else map (\<lambda>part. normalize_phase_selection (Some part) P1) (split_at (CHR '','') text))"

definition normalize_phase_selection_tuple :: "phase_values \<Rightarrow> phase list \<Rightarrow> phase list" where
  "normalize_phase_selection_tuple vs dflt =
    (let normalized = normalized_phase_selection_values vs in
     if normalized = [] then dflt else normalized)"

section \<open>Lockout degradation\<close>

text \<open>
  \<open>lockout_until\<close> is the float the recorded value converts to, \<open>None\<close> where it is not a number or
  a text or where the conversion fails.  \<open>current < until\<close> is false for a NaN.
\<close>

definition phase_switch_lockout_active :: "string option \<Rightarrow> pyfloat option \<Rightarrow> secs \<Rightarrow> bool" where
  "phase_switch_lockout_active lockout_selection lockout_until now =
    (if phase_selection_text lockout_selection = '''' then False
     else case lockout_until of None \<Rightarrow> False | Some until \<Rightarrow> pf_less (Fin now) until)"

definition effective_supported_phase_selections ::
  "phase_values \<Rightarrow> string option \<Rightarrow> pyfloat option \<Rightarrow> secs \<Rightarrow> phase list" where
  "effective_supported_phase_selections vs lockout_selection lockout_until now =
    (let normalized = normalize_phase_selection_tuple vs [P1] in
     if \<not> phase_switch_lockout_active lockout_selection lockout_until now then normalized
     else let allowed = max 1 (phase_selection_count lockout_selection - 1);
              filtered = filter (\<lambda>s. phase_count s \<le> allowed) normalized
          in if filtered = [] then normalized else filtered)"

text \<open>\<open>bool(enabled) != bool(feedback_closed)\<close> when feedback exists.\<close>

definition switch_feedback_mismatch :: "bool \<Rightarrow> bool option \<Rightarrow> bool" where
  "switch_feedback_mismatch enabled feedback_closed =
    (case feedback_closed of None \<Rightarrow> False | Some fb \<Rightarrow> enabled \<noteq> fb)"

section \<open>Phase voltage\<close>

text \<open>
  \<open>RelayTelemetry.phase_voltage\<close>: the three-phase layout measured line to line divides by the float
  \<open>math.sqrt(3.0)\<close>, whose exact value is the fraction below.
\<close>

definition sqrt3_float :: rat where
  "sqrt3_float = 7800463371553962 / 4503599627370496"

definition normalized_voltage_mode :: "string option \<Rightarrow> string" where
  "normalized_voltage_mode mode = (case mode of None \<Rightarrow> ''phase'' | Some text \<Rightarrow> py_lower (py_strip text))"

definition selection_uses_line_to_line_voltage :: "phase \<Rightarrow> string \<Rightarrow> bool" where
  "selection_uses_line_to_line_voltage selection mode \<longleftrightarrow> selection = P1_P2_P3 \<and> mode \<noteq> ''phase''"

definition phase_voltage :: "volts \<Rightarrow> phase \<Rightarrow> string option \<Rightarrow> volts" where
  "phase_voltage voltage selection mode =
    (if \<not> selection_uses_line_to_line_voltage selection (normalized_voltage_mode mode) then voltage
     else max 0 voltage / sqrt3_float)"

section \<open>Facts\<close>

lemma normalize_canonical:
  "normalize_phase_selection_or_none (Some ''P1'') = Some P1"
  "normalize_phase_selection_or_none (Some ''P1_P2'') = Some P1_P2"
  "normalize_phase_selection_or_none (Some ''P1_P2_P3'') = Some P1_P2_P3"
  by code_simp+

lemma normalize_phase_text [simp]: "normalize_phase_selection_or_none (Some (phase_text p)) = Some p"
  by (cases p) (simp_all add: normalize_canonical)

lemma normalize_phase_selection_text [simp]: "normalize_phase_selection (Some (phase_text p)) d = p"
  by (simp add: normalize_phase_selection_def)

lemma phase_selection_count_text [simp]: "phase_selection_count (Some (phase_text p)) = phase_count p"
  by (cases p) (simp_all add: phase_selection_count_def flip: phase_text.simps)

lemma normalize_none [simp]: "normalize_phase_selection_or_none None = None"
  by (simp add: normalize_phase_selection_or_none_def)

lemma phase_count_bounds: "1 \<le> phase_count p" "phase_count p \<le> 3"
  by (cases p; simp)+

lemma phase_count_inj: "phase_count p = phase_count q \<Longrightarrow> p = q"
  by (cases p; cases q) auto

lemma phase_selection_count_normalize:
  "phase_selection_count v = phase_count (normalize_phase_selection v P1)"
  by (cases "normalize_phase_selection v P1") (simp_all add: phase_selection_count_def)

lemma normalize_tuple_nonempty: "normalize_phase_selection_tuple vs [P1] \<noteq> []"
  by (simp add: normalize_phase_selection_tuple_def Let_def)

lemma sqrt3_float_pos: "0 < sqrt3_float"
  by (simp add: sqrt3_float_def)

instantiation phase :: linorder
begin

definition less_eq_phase :: "phase \<Rightarrow> phase \<Rightarrow> bool" where
  "less_eq_phase p q \<longleftrightarrow> phase_count p \<le> phase_count q"

definition less_phase :: "phase \<Rightarrow> phase \<Rightarrow> bool" where
  "less_phase p q \<longleftrightarrow> phase_count p < phase_count q"

instance
  by standard (auto simp: less_eq_phase_def less_phase_def dest: phase_count_inj)

end

text \<open>
  While a lockout is active, a layout the locked target rules out is offered only if the
  installation supports no smaller one; the list of offered layouts is never empty, and no layout
  is offered that the installation does not support.
\<close>

theorem effective_phase_selections_degrade:
  assumes "phase_switch_lockout_active sel until now"
    and "\<exists>s \<in> set (normalize_phase_selection_tuple vs [P1]). phase_count s \<le> max 1 (phase_selection_count sel - 1)"
    and "1 < phase_selection_count sel"
  shows "effective_supported_phase_selections vs sel until now \<noteq> []
    \<and> set (effective_supported_phase_selections vs sel until now) \<subseteq> set (normalize_phase_selection_tuple vs [P1])
    \<and> (\<forall>s \<in> set (effective_supported_phase_selections vs sel until now). phase_count s < phase_selection_count sel)"
  using assms
  by (auto simp: effective_supported_phase_selections_def Let_def filter_empty_conv)

theorem effective_phase_selections_degrade_witness:
  "effective_supported_phase_selections (Single (Some ''P1, P1_P2, P1_P2_P3'')) (Some ''P1_P2_P3'') (Some (Fin 500)) 100
    \<noteq> []"
proof -
  have "phase_switch_lockout_active (Some ''P1_P2_P3'') (Some (Fin 500)) 100"
    "\<exists>s \<in> set (normalize_phase_selection_tuple (Single (Some ''P1, P1_P2, P1_P2_P3'')) [P1]).
       phase_count s \<le> max 1 (phase_selection_count (Some ''P1_P2_P3'') - 1)"
    "1 < phase_selection_count (Some ''P1_P2_P3'')"
    by code_simp+
  from effective_phase_selections_degrade [OF this] show ?thesis by blast
qed

end
