(* ===== verification/Phase_Mismatch.thy ===== *)
theory Phase_Mismatch
  imports Phases
begin

text \<open>
  Retry windows and lockouts after a phase switch that was not confirmed
  (\<open>venus_evcharger/update/relay_phase_switch_mismatch.py\<close>), the phase part of the service state
  (\<open>PhaseSwitchServicePort\<close> of \<open>update/relay_ports.py\<close>) and its policy (\<open>AutoPhasePolicy\<close> of
  \<open>auto/policy.py\<close>).  Attributes of type \<open>str | None\<close> are kept as text because the code
  normalises them at every use; the effects on collaborators (a physical switch, a failure mark, a
  health reason, a throttled warning, a save, a publication) are appended to \<open>ps_log\<close>.
\<close>

section \<open>State\<close>

record auto_phase_policy =
  pp_enabled :: bool
  pp_upshift_delay :: secs
  pp_downshift_delay :: secs
  pp_upshift_headroom :: watts
  pp_downshift_margin :: watts
  pp_mismatch_retry :: secs
  pp_lockout_count :: int
  pp_lockout_seconds :: secs
  pp_prefer_lowest_when_idle :: bool

definition clamp_non_negative :: "rat \<Rightarrow> rat" where
  "clamp_non_negative v = (if 0 \<le> v then v else 0)"

definition clamp_non_negative_int :: "int \<Rightarrow> int" where
  "clamp_non_negative_int v = (if 0 \<le> v then v else 0)"

definition auto_phase_policy_clamp :: "auto_phase_policy \<Rightarrow> auto_phase_policy" where
  "auto_phase_policy_clamp p = p\<lparr>
     pp_upshift_delay := clamp_non_negative (pp_upshift_delay p),
     pp_downshift_delay := clamp_non_negative (pp_downshift_delay p),
     pp_upshift_headroom := clamp_non_negative (pp_upshift_headroom p),
     pp_downshift_margin := clamp_non_negative (pp_downshift_margin p),
     pp_mismatch_retry := clamp_non_negative (pp_mismatch_retry p),
     pp_lockout_count := clamp_non_negative_int (pp_lockout_count p),
     pp_lockout_seconds := clamp_non_negative (pp_lockout_seconds p)\<rparr>"

datatype phase_effect =
    ApplyPhase phase | EnableTarget bool | MarkFailure string | SetHealth string
  | WarnThrottled string | SaveState | PublishLocalPm bool

text \<open>The keys \<open>phase_*\<close> of \<open>_last_auto_metrics\<close>, written together.\<close>

record phase_metrics =
  pm_current :: phase
  pm_target :: "phase option"
  pm_reason :: string
  pm_threshold :: "watts option"
  pm_candidate :: "phase option"
  pm_candidate_since :: "secs option"

record phase_svc =
  ps_policy :: auto_phase_policy
  ps_requested :: "phase option"
  ps_active :: "phase option"
  ps_supported :: "string list"
  ps_soft_fail :: "secs option"
  ps_pause :: "secs option"
  ps_stabilization :: "secs option"
  ps_min_current :: "amps option"
  ps_voltage_mode :: "string option"
  ps_surplus :: "watts option"
  ps_metrics :: "phase_metrics option"
  ps_candidate :: "phase option"
  ps_candidate_since :: "secs option"
  ps_pending :: "string option"
  ps_switch_state :: "string option"
  ps_requested_at :: "secs option"
  ps_stable_until :: "secs option"
  ps_resume_relay :: bool
  ps_mismatch_active :: bool
  ps_mismatch_counts :: "(string \<times> int) list"
  ps_last_mismatch_sel :: "string option"
  ps_last_mismatch_at :: "secs option"
  ps_lockout_sel :: "string option"
  ps_lockout_reason :: string
  ps_lockout_at :: "secs option"
  ps_lockout_until :: "secs option"
  ps_ignore_min_offtime_once :: bool
  ps_log :: "phase_effect list"

definition emit :: "phase_effect \<Rightarrow> phase_svc \<Rightarrow> phase_svc" where
  "emit e s = s\<lparr>ps_log := ps_log s @ [e]\<rparr>"

section \<open>Mismatch retry window\<close>

definition phase_selection_is_upshift :: "phase \<Rightarrow> phase \<Rightarrow> bool" where
  "phase_selection_is_upshift current target \<longleftrightarrow> phase_count target > phase_count current"

definition phase_switch_mismatch_timestamp :: "phase_svc \<Rightarrow> phase \<Rightarrow> secs option" where
  "phase_switch_mismatch_timestamp s target =
    (case ps_last_mismatch_sel s of None \<Rightarrow> None
     | Some sel \<Rightarrow>
        if normalize_phase_selection (Some sel) P1 \<noteq> target then None else ps_last_mismatch_at s)"

definition phase_switch_mismatch_retry_seconds :: "phase_svc \<Rightarrow> secs" where
  "phase_switch_mismatch_retry_seconds s = max 0 (pp_mismatch_retry (ps_policy s))"

definition phase_switch_lockout_threshold :: "phase_svc \<Rightarrow> int" where
  "phase_switch_lockout_threshold s = max 0 (pp_lockout_count (ps_policy s))"

definition phase_switch_lockout_seconds :: "phase_svc \<Rightarrow> secs" where
  "phase_switch_lockout_seconds s = max 0 (pp_lockout_seconds (ps_policy s))"

definition phase_switch_mismatch_retry_active :: "phase_svc \<Rightarrow> phase \<Rightarrow> phase \<Rightarrow> secs \<Rightarrow> bool" where
  "phase_switch_mismatch_retry_active s current target now =
    (if \<not> phase_selection_is_upshift current target then False
     else case phase_switch_mismatch_timestamp s target of None \<Rightarrow> False
          | Some mismatch_at \<Rightarrow> max 0 (now - mismatch_at) < phase_switch_mismatch_retry_seconds s)"

section \<open>Mismatch counters\<close>

definition phase_selection_values :: "string list" where
  "phase_selection_values = [''P1'', ''P1_P2'', ''P1_P2_P3'']"

definition normalized_phase_switch_mismatch_counts :: "(string \<times> int) list \<Rightarrow> (string \<times> int) list" where
  "normalized_phase_switch_mismatch_counts counts =
    map (\<lambda>(sel, n). (sel, max 0 n)) (filter (\<lambda>(sel, n). sel \<in> set phase_selection_values) counts)"

text \<open>The accessor stores the normalised dictionary back and returns it (the caller then mutates it).\<close>

definition phase_switch_mismatch_counts :: "phase_svc \<Rightarrow> (string \<times> int) list \<times> phase_svc" where
  "phase_switch_mismatch_counts s =
    (let normalized = normalized_phase_switch_mismatch_counts (ps_mismatch_counts s)
     in (normalized, s\<lparr>ps_mismatch_counts := normalized\<rparr>))"

definition count_of :: "(string \<times> int) list \<Rightarrow> phase \<Rightarrow> int" where
  "count_of counts sel = max 0 (case map_of counts (phase_text sel) of None \<Rightarrow> 0 | Some n \<Rightarrow> n)"

definition phase_switch_mismatch_count :: "phase_svc \<Rightarrow> phase \<Rightarrow> int \<times> phase_svc" where
  "phase_switch_mismatch_count s sel =
    (let (counts, s') = phase_switch_mismatch_counts s in (count_of counts sel, s'))"

definition remember_phase_switch_mismatch :: "phase_svc \<Rightarrow> phase \<Rightarrow> secs \<Rightarrow> int \<times> phase_svc" where
  "remember_phase_switch_mismatch s sel now =
    (let (counts, s1) = phase_switch_mismatch_counts s;
         next_count = count_of counts sel + 1
     in (next_count,
         s1\<lparr>ps_mismatch_counts := AList.update (phase_text sel) next_count counts,
            ps_mismatch_active := True,
            ps_last_mismatch_sel := Some (phase_text sel),
            ps_last_mismatch_at := Some now\<rparr>))"

definition clear_phase_switch_mismatch_tracking :: "phase_svc \<Rightarrow> phase option \<Rightarrow> phase_svc" where
  "clear_phase_switch_mismatch_tracking s selection =
    (let s0 = s\<lparr>ps_mismatch_active := False\<rparr> in
     case selection of
       None \<Rightarrow> s0\<lparr>ps_mismatch_counts := [], ps_last_mismatch_sel := None, ps_last_mismatch_at := None\<rparr>
     | Some sel \<Rightarrow>
        let (counts, s1) = phase_switch_mismatch_counts s0;
            s2 = s1\<lparr>ps_mismatch_counts := AList.delete (phase_text sel) counts\<rparr>
        in if ps_last_mismatch_sel s2 = Some (phase_text sel)
           then s2\<lparr>ps_last_mismatch_sel := None, ps_last_mismatch_at := None\<rparr> else s2)"

section \<open>Lockout\<close>

definition clear_phase_switch_lockout :: "phase_svc \<Rightarrow> phase_svc" where
  "clear_phase_switch_lockout s = s\<lparr>
     ps_lockout_sel := None, ps_lockout_reason := '''', ps_lockout_at := None, ps_lockout_until := None\<rparr>"

definition engage_phase_switch_lockout :: "phase_svc \<Rightarrow> phase \<Rightarrow> secs \<Rightarrow> phase_svc" where
  "engage_phase_switch_lockout s sel now =
    (let duration = phase_switch_lockout_seconds s in
     if duration \<le> 0 then clear_phase_switch_lockout s
     else s\<lparr>ps_lockout_sel := Some (phase_text sel),
            ps_lockout_reason := ''mismatch-threshold'',
            ps_lockout_at := Some now,
            ps_lockout_until := Some (now + duration)\<rparr>)"

definition active_lockout_selection :: "phase_svc \<Rightarrow> string \<Rightarrow> phase option \<times> phase_svc" where
  "active_lockout_selection s lockout =
    (case normalize_phase_selection_or_none (Some lockout) of
       None \<Rightarrow> (None, clear_phase_switch_lockout s)
     | Some p \<Rightarrow> (Some p, s))"

definition current_lockout_selection :: "phase_svc \<Rightarrow> secs \<Rightarrow> phase option \<times> phase_svc" where
  "current_lockout_selection s now =
    (case (ps_lockout_sel s, ps_lockout_until s) of
       (Some sel, Some until) \<Rightarrow>
         if now \<ge> until then (None, clear_phase_switch_lockout s)
         else active_lockout_selection s sel
     | _ \<Rightarrow> (None, s))"

definition phase_switch_lockout_active_for :: "phase_svc \<Rightarrow> secs \<Rightarrow> phase option \<Rightarrow> bool \<times> phase_svc" where
  "phase_switch_lockout_active_for s now selection =
    (let (current, s') = current_lockout_selection s now in
     (case current of None \<Rightarrow> False
      | Some p \<Rightarrow> (case selection of None \<Rightarrow> True | Some sel \<Rightarrow> p = sel), s'))"

definition phase_switch_fallback_selection :: "phase_svc \<Rightarrow> phase option \<Rightarrow> phase \<Rightarrow> phase" where
  "phase_switch_fallback_selection s observed pending =
    (case observed of Some p \<Rightarrow> p
     | None \<Rightarrow> case ps_active s of Some p \<Rightarrow> p
     | None \<Rightarrow> case ps_requested s of Some p \<Rightarrow> p
     | None \<Rightarrow> pending)"

section \<open>Facts\<close>

lemma emit_fields [simp]:
  "ps_policy (emit e s) = ps_policy s" "ps_requested (emit e s) = ps_requested s"
  "ps_active (emit e s) = ps_active s" "ps_candidate (emit e s) = ps_candidate s"
  "ps_candidate_since (emit e s) = ps_candidate_since s"
  "ps_pending (emit e s) = ps_pending s" "ps_switch_state (emit e s) = ps_switch_state s"
  "ps_requested_at (emit e s) = ps_requested_at s" "ps_stable_until (emit e s) = ps_stable_until s"
  "ps_resume_relay (emit e s) = ps_resume_relay s"
  "ps_mismatch_active (emit e s) = ps_mismatch_active s"
  "ps_mismatch_counts (emit e s) = ps_mismatch_counts s"
  "ps_lockout_sel (emit e s) = ps_lockout_sel s" "ps_lockout_until (emit e s) = ps_lockout_until s"
  "ps_last_mismatch_sel (emit e s) = ps_last_mismatch_sel s"
  "ps_last_mismatch_at (emit e s) = ps_last_mismatch_at s"
  "ps_ignore_min_offtime_once (emit e s) = ps_ignore_min_offtime_once s"
  "ps_log (emit e s) = ps_log s @ [e]"
  "ps_pause (emit e s) = ps_pause s" "ps_stabilization (emit e s) = ps_stabilization s"
  "ps_soft_fail (emit e s) = ps_soft_fail s" "ps_metrics (emit e s) = ps_metrics s"
  by (simp_all add: emit_def)

lemma phase_text_values [simp]: "phase_text p \<in> set phase_selection_values"
  by (cases p) (simp_all add: phase_selection_values_def)

lemma phase_text_inj [simp]: "phase_text p = phase_text q \<longleftrightarrow> p = q"
  by (cases p; cases q) auto

lemma map_of_normalized_counts:
  "map_of (normalized_phase_switch_mismatch_counts cs) (phase_text p) = map_option (max 0) (map_of cs (phase_text p))"
  by (induction cs) (auto simp: normalized_phase_switch_mismatch_counts_def)

lemma count_of_normalized [simp]:
  "count_of (normalized_phase_switch_mismatch_counts cs) p = count_of cs p"
  by (auto simp: count_of_def map_of_normalized_counts split: option.splits)

lemma count_of_update [simp]:
  "count_of (AList.update (phase_text q) n cs) p = (if p = q then max 0 n else count_of cs p)"
  by (auto simp: count_of_def od_lookup_update)

lemma count_of_delete [simp]:
  "count_of (AList.delete (phase_text q) cs) p = (if p = q then 0 else count_of cs p)"
  by (auto simp: count_of_def od_lookup_delete)

lemma count_of_nonneg [simp]: "0 \<le> count_of cs p"
  by (simp add: count_of_def)

lemma remember_count:
  "fst (remember_phase_switch_mismatch s p now) = count_of (ps_mismatch_counts s) p + 1"
  "count_of (ps_mismatch_counts (snd (remember_phase_switch_mismatch s p now))) q =
    count_of (ps_mismatch_counts s) q + (if q = p then 1 else 0)"
  by (auto simp: remember_phase_switch_mismatch_def phase_switch_mismatch_counts_def Let_def)

text \<open>Frame facts: what the tracking and lockout routines leave alone.\<close>

lemma remember_frame [frame_simps]:
  "ps_policy (snd (remember_phase_switch_mismatch s p now)) = ps_policy s"
  "ps_log (snd (remember_phase_switch_mismatch s p now)) = ps_log s"
  "ps_requested (snd (remember_phase_switch_mismatch s p now)) = ps_requested s"
  "ps_active (snd (remember_phase_switch_mismatch s p now)) = ps_active s"
  "ps_resume_relay (snd (remember_phase_switch_mismatch s p now)) = ps_resume_relay s"
  "ps_lockout_sel (snd (remember_phase_switch_mismatch s p now)) = ps_lockout_sel s"
  "ps_lockout_until (snd (remember_phase_switch_mismatch s p now)) = ps_lockout_until s"
  "ps_candidate (snd (remember_phase_switch_mismatch s p now)) = ps_candidate s"
  "ps_candidate_since (snd (remember_phase_switch_mismatch s p now)) = ps_candidate_since s"
  by (simp_all add: remember_phase_switch_mismatch_def phase_switch_mismatch_counts_def Let_def)

lemma lockout_routines_frame [frame_simps]:
  "ps_log (engage_phase_switch_lockout s p now) = ps_log s"
  "ps_log (clear_phase_switch_lockout s) = ps_log s"
  "ps_log (snd (phase_switch_lockout_active_for s now sel)) = ps_log s"
  "ps_resume_relay (engage_phase_switch_lockout s p now) = ps_resume_relay s"
  "ps_resume_relay (snd (phase_switch_lockout_active_for s now sel)) = ps_resume_relay s"
  "ps_active (engage_phase_switch_lockout s p now) = ps_active s"
  "ps_active (snd (phase_switch_lockout_active_for s now sel)) = ps_active s"
  "ps_requested (engage_phase_switch_lockout s p now) = ps_requested s"
  "ps_requested (snd (phase_switch_lockout_active_for s now sel)) = ps_requested s"
  "ps_mismatch_counts (engage_phase_switch_lockout s p now) = ps_mismatch_counts s"
  "ps_mismatch_counts (snd (phase_switch_lockout_active_for s now sel)) = ps_mismatch_counts s"
  "ps_policy (snd (phase_switch_lockout_active_for s now sel)) = ps_policy s"
  "ps_candidate (snd (phase_switch_lockout_active_for s now sel)) = ps_candidate s"
  "ps_candidate_since (snd (phase_switch_lockout_active_for s now sel)) = ps_candidate_since s"
  by (auto simp: engage_phase_switch_lockout_def clear_phase_switch_lockout_def
      phase_switch_lockout_active_for_def current_lockout_selection_def active_lockout_selection_def
      Let_def split: prod.splits option.splits if_splits)

lemma clear_tracking_frame [frame_simps]:
  "ps_log (clear_phase_switch_mismatch_tracking s sel) = ps_log s"
  "ps_resume_relay (clear_phase_switch_mismatch_tracking s sel) = ps_resume_relay s"
  "ps_lockout_sel (clear_phase_switch_mismatch_tracking s sel) = ps_lockout_sel s"
  "ps_lockout_until (clear_phase_switch_mismatch_tracking s sel) = ps_lockout_until s"
  "ps_active (clear_phase_switch_mismatch_tracking s sel) = ps_active s"
  "ps_requested (clear_phase_switch_mismatch_tracking s sel) = ps_requested s"
  by (auto simp: clear_phase_switch_mismatch_tracking_def phase_switch_mismatch_counts_def Let_def
      split: option.splits)

lemma engage_then_active:
  assumes "0 < phase_switch_lockout_seconds s" "now \<le> later" "later < now + phase_switch_lockout_seconds s"
  shows "phase_switch_lockout_active_for (engage_phase_switch_lockout s p now) later (Some p)
    = (True, engage_phase_switch_lockout s p now)"
  using assms
  by (simp add: engage_phase_switch_lockout_def phase_switch_lockout_active_for_def
      current_lockout_selection_def active_lockout_selection_def Let_def not_le)

lemma engage_then_expired:
  assumes "now + phase_switch_lockout_seconds s \<le> later"
  shows "\<not> fst (phase_switch_lockout_active_for (engage_phase_switch_lockout s p now) later sel)"
  using assms
  by (auto simp: engage_phase_switch_lockout_def phase_switch_lockout_active_for_def
      current_lockout_selection_def clear_phase_switch_lockout_def Let_def)

lemma lockout_other_target:
  assumes "ps_lockout_sel s = Some (phase_text p)" "q \<noteq> p"
  shows "\<not> fst (phase_switch_lockout_active_for s now (Some q))"
  using assms
  by (auto simp: phase_switch_lockout_active_for_def current_lockout_selection_def
      active_lockout_selection_def Let_def split: option.splits)

end
