(* ===== verification/Phase_Target.thy ===== *)
theory Phase_Target
  imports Phase_Mismatch
begin

text \<open>
  The automatic phase target (\<open>AutoPhaseTargetSelector\<close> of
  \<open>venus_evcharger/update/relay_phase_decision.py\<close>): the ordered supported layouts, the current
  layout, the surplus each layout needs, and the decision to hold, shift up or shift down.
  A decision is the triple of target, reason and threshold that the code returns.  Checking the
  lockout may clear an expired one, so the upshift branch also returns the state.
\<close>

section \<open>Layouts\<close>

definition ordered_auto_phase_selections :: "phase_svc \<Rightarrow> phase list" where
  "ordered_auto_phase_selections s =
    sort (remdups (List.map_filter (\<lambda>sel. normalize_phase_selection_or_none (Some sel)) (ps_supported s)))"

definition fallback_phase_selection :: "phase_svc \<Rightarrow> phase" where
  "fallback_phase_selection s =
    (case ps_active s of Some p \<Rightarrow> p
     | None \<Rightarrow> case ps_requested s of None \<Rightarrow> P1 | Some p \<Rightarrow> p)"

definition supported_phase_selection :: "phase_svc \<Rightarrow> phase list \<Rightarrow> phase" where
  "supported_phase_selection s supported =
    (case ps_requested s of None \<Rightarrow> hd supported
     | Some requested \<Rightarrow>
        if requested \<in> set supported then requested
        else case ps_active s of
               Some active \<Rightarrow> if active \<in> set supported then active else hd supported
             | None \<Rightarrow> hd supported)"

definition current_phase_selection :: "phase_svc \<Rightarrow> phase list \<Rightarrow> phase" where
  "current_phase_selection s supported =
    (if supported = [] then fallback_phase_selection s else supported_phase_selection s supported)"

definition record_auto_phase_metrics ::
  "phase_svc \<Rightarrow> phase \<Rightarrow> phase option \<Rightarrow> string \<Rightarrow> watts option \<Rightarrow> phase_svc" where
  "record_auto_phase_metrics s current target reason threshold =
    s\<lparr>ps_metrics := Some \<lparr>pm_current = current, pm_target = target, pm_reason = reason,
        pm_threshold = threshold, pm_candidate = ps_candidate s,
        pm_candidate_since = ps_candidate_since s\<rparr>\<rparr>"

section \<open>Thresholds\<close>

definition phase_selection_voltage :: "phase_svc \<Rightarrow> phase \<Rightarrow> volts \<Rightarrow> volts option" where
  "phase_selection_voltage s sel voltage =
    (let v = phase_voltage voltage sel (ps_voltage_mode s) in if v \<le> 0 then None else Some v)"

definition phase_selection_min_surplus_watts :: "phase_svc \<Rightarrow> phase \<Rightarrow> volts \<Rightarrow> watts option" where
  "phase_selection_min_surplus_watts s sel voltage =
    (case (ps_min_current s, phase_selection_voltage s sel voltage) of
       (Some min_current, Some v) \<Rightarrow>
         if min_current \<le> 0 then None else Some (min_current * v * of_nat (phase_count sel))
     | _ \<Rightarrow> None)"

definition phase_upshift_threshold :: "phase_svc \<Rightarrow> phase \<Rightarrow> volts \<Rightarrow> watts option" where
  "phase_upshift_threshold s next voltage =
    (case phase_selection_min_surplus_watts s next voltage of None \<Rightarrow> None
     | Some w \<Rightarrow> Some (w + pp_upshift_headroom (ps_policy s)))"

section \<open>The decision\<close>

type_synonym phase_decision = "phase option \<times> string \<times> watts option"

definition auto_phase_policy_state :: "phase_svc \<Rightarrow> phase list \<Rightarrow> phase_decision option" where
  "auto_phase_policy_state s supported =
    (if \<not> pp_enabled (ps_policy s) then Some (None, ''phase-policy-disabled'', None)
     else if supported = [] then Some (None, ''phase-capabilities-unavailable'', None)
     else if length supported \<le> 1 then Some (None, ''single-phase-only'', None)
     else None)"

definition idle_auto_phase_target ::
  "auto_phase_policy \<Rightarrow> phase list \<Rightarrow> phase \<Rightarrow> bool \<Rightarrow> bool \<Rightarrow> phase_decision option" where
  "idle_auto_phase_target policy supported current desired_relay relay_on =
    (if desired_relay \<or> relay_on then None
     else let lowest = hd supported in
       if pp_prefer_lowest_when_idle policy \<and> current \<noteq> lowest
       then Some (Some lowest, ''idle-lowest-phase'', None)
       else Some (None, ''idle-hold-phase'', None))"

definition phase_upshift_block_reason ::
  "phase_svc \<Rightarrow> phase \<Rightarrow> phase \<Rightarrow> secs \<Rightarrow> string option \<times> phase_svc" where
  "phase_upshift_block_reason s current next now =
    (let (locked, s') = phase_switch_lockout_active_for s now (Some next) in
     if locked then (Some ''phase-upshift-blocked-lockout'', s')
     else if phase_switch_mismatch_retry_active s' current next now
     then (Some ''phase-upshift-blocked-mismatch'', s')
     else (None, s'))"

definition upshift_auto_phase_target ::
  "phase_svc \<Rightarrow> phase list \<Rightarrow> nat \<Rightarrow> phase \<Rightarrow> watts \<Rightarrow> volts \<Rightarrow> secs \<Rightarrow> phase_decision option \<times> phase_svc" where
  "upshift_auto_phase_target s supported current_index current surplus voltage now =
    (if current_index + 1 \<ge> length supported then (None, s)
     else let next = supported ! (current_index + 1) in
       case phase_upshift_threshold s next voltage of None \<Rightarrow> (None, s)
       | Some threshold \<Rightarrow>
          if surplus < threshold then (None, s)
          else case phase_upshift_block_reason s current next now of
                 (Some reason, s') \<Rightarrow> (Some (None, reason, Some threshold), s')
               | (None, s') \<Rightarrow> (Some (Some next, ''phase-upshift'', Some threshold), s'))"

definition downshift_auto_phase_target ::
  "phase_svc \<Rightarrow> phase list \<Rightarrow> phase \<Rightarrow> nat \<Rightarrow> watts \<Rightarrow> volts \<Rightarrow> phase_decision option" where
  "downshift_auto_phase_target s supported current current_index surplus voltage =
    (if current_index = 0 then None
     else case phase_selection_min_surplus_watts s current voltage of None \<Rightarrow> None
     | Some current_min \<Rightarrow>
        let threshold = max 0 (current_min - pp_downshift_margin (ps_policy s)) in
        if surplus \<ge> threshold then None
        else Some (Some (supported ! (current_index - 1)), ''phase-downshift'', Some threshold))"

text \<open>\<open>supported.index(current)\<close> raises a \<open>ValueError\<close> when the layout is not listed.\<close>

fun index_of :: "'a \<Rightarrow> 'a list \<Rightarrow> nat option" where
  "index_of x [] = None"
| "index_of x (y # ys) = (if x = y then Some 0 else map_option Suc (index_of x ys))"

definition surplus_auto_phase_target ::
  "phase_svc \<Rightarrow> phase list \<Rightarrow> phase \<Rightarrow> volts \<Rightarrow> secs \<Rightarrow> (exc + phase_decision) \<times> phase_svc" where
  "surplus_auto_phase_target s supported current voltage now =
    (case ps_surplus s of None \<Rightarrow> (Inr (None, ''phase-surplus-missing'', None), s)
     | Some surplus \<Rightarrow>
        case index_of current supported of None \<Rightarrow> (Inl ValueErr, s)
        | Some i \<Rightarrow>
          (case upshift_auto_phase_target s supported i current surplus voltage now of
             (Some d, s') \<Rightarrow> (Inr d, s')
           | (None, s') \<Rightarrow>
              (case downshift_auto_phase_target s' supported current i surplus voltage of
                 Some d \<Rightarrow> (Inr d, s')
               | None \<Rightarrow> (Inr (None, ''phase-hold'', None), s'))))"

definition auto_phase_target_selection ::
  "phase_svc \<Rightarrow> phase list \<Rightarrow> phase \<Rightarrow> bool \<Rightarrow> bool \<Rightarrow> volts \<Rightarrow> secs \<Rightarrow> (exc + phase_decision) \<times> phase_svc" where
  "auto_phase_target_selection s supported current desired_relay relay_on voltage now =
    (case auto_phase_policy_state s supported of Some d \<Rightarrow> (Inr d, s)
     | None \<Rightarrow>
       case idle_auto_phase_target (ps_policy s) supported current desired_relay relay_on of
         Some d \<Rightarrow> (Inr d, s)
       | None \<Rightarrow> surplus_auto_phase_target s supported current voltage now)"

section \<open>Facts\<close>

lemma ordered_auto_phase_selections_sorted:
  "sorted (ordered_auto_phase_selections s)" "distinct (ordered_auto_phase_selections s)"
  by (simp_all add: ordered_auto_phase_selections_def)

lemma index_of_some: "index_of x ys = Some i \<Longrightarrow> i < length ys \<and> ys ! i = x"
  by (induction ys arbitrary: i) (auto split: if_splits)

lemma index_of_none: "index_of x ys = None \<longleftrightarrow> x \<notin> set ys"
  by (induction ys) auto

lemma current_in_supported:
  "supported \<noteq> [] \<Longrightarrow> current_phase_selection s supported \<in> set supported"
  by (auto simp: current_phase_selection_def supported_phase_selection_def split: option.splits)

lemma strictly_ascending:
  assumes "sorted xs" "distinct xs" "i < j" "j < length xs"
  shows "xs ! i < xs ! j"
  using assms by (simp add: sorted_wrt_nth_less [of "(<)"] strict_sorted_iff)

lemma lockout_check_frame:
  "snd (phase_switch_lockout_active_for s now sel) = s \<or>
   snd (phase_switch_lockout_active_for s now sel) = clear_phase_switch_lockout s"
  by (auto simp: phase_switch_lockout_active_for_def current_lockout_selection_def
      active_lockout_selection_def Let_def split: prod.splits option.splits if_splits)

lemma block_reason_state:
  "phase_upshift_block_reason s c n now = (r, s') \<Longrightarrow> s' = s \<or> s' = clear_phase_switch_lockout s"
  using lockout_check_frame [of s now "Some n"]
  by (auto simp: phase_upshift_block_reason_def Let_def split: prod.splits if_splits)

lemma upshift_state:
  "upshift_auto_phase_target s ls i c w v now = (d, s') \<Longrightarrow> s' = s \<or> s' = clear_phase_switch_lockout s"
  by (auto simp: upshift_auto_phase_target_def Let_def dest: block_reason_state
      split: if_splits option.splits prod.splits)

lemma target_selection_state:
  "auto_phase_target_selection s ls c d r v now = (res, s') \<Longrightarrow> s' = s \<or> s' = clear_phase_switch_lockout s"
  by (auto simp: auto_phase_target_selection_def surplus_auto_phase_target_def dest: upshift_state
      split: if_splits option.splits prod.splits sum.splits)

lemma min_surplus_clear_lockout [simp]:
  "phase_selection_min_surplus_watts (clear_phase_switch_lockout s) sel v = phase_selection_min_surplus_watts s sel v"
  by (simp add: phase_selection_min_surplus_watts_def phase_selection_voltage_def clear_phase_switch_lockout_def)

lemma min_surplus_pos:
  "phase_selection_min_surplus_watts s sel v = Some w \<Longrightarrow> 0 < w"
  using phase_count_bounds [of sel]
  by (auto simp: phase_selection_min_surplus_watts_def phase_selection_voltage_def Let_def not_le
      intro!: mult_pos_pos split: option.splits if_splits)

text \<open>No decision asks for a layout the installation does not support; the index lookup never fails.\<close>

lemma target_selection_total:
  assumes "c \<in> set ls"
  shows "\<exists>d s'. auto_phase_target_selection s ls c des rel v now = (Inr d, s')"
proof -
  obtain i where "index_of c ls = Some i" using assms by (cases "index_of c ls") (auto simp: index_of_none)
  then show ?thesis
    by (auto simp: auto_phase_target_selection_def surplus_auto_phase_target_def
        split: option.splits prod.splits)
qed

lemma target_selection_supported:
  assumes "auto_phase_target_selection s ls c des rel v now = (Inr (Some t, reason, th), s')"
  shows "t \<in> set ls"
  using assms
  by (auto simp: auto_phase_target_selection_def surplus_auto_phase_target_def auto_phase_policy_state_def
      idle_auto_phase_target_def upshift_auto_phase_target_def downshift_auto_phase_target_def Let_def
      dest!: index_of_some intro!: nth_mem split: if_splits option.splits prod.splits)

text \<open>A shift up is only decided when neither the lockout nor the retry window blocks the target.\<close>

lemma retry_clear_lockout [simp]:
  "phase_switch_mismatch_retry_active (clear_phase_switch_lockout s) c n now
    = phase_switch_mismatch_retry_active s c n now"
  by (simp add: phase_switch_mismatch_retry_active_def phase_switch_mismatch_timestamp_def
      phase_switch_mismatch_retry_seconds_def clear_phase_switch_lockout_def split: option.splits)

lemma block_reason_none:
  assumes "phase_upshift_block_reason s c n now = (None, s')"
  shows "\<not> fst (phase_switch_lockout_active_for s now (Some n)) \<and> \<not> phase_switch_mismatch_retry_active s c n now"
proof -
  obtain b s1 where b: "phase_switch_lockout_active_for s now (Some n) = (b, s1)"
    by (cases "phase_switch_lockout_active_for s now (Some n)")
  then have "s1 = s \<or> s1 = clear_phase_switch_lockout s"
    using lockout_check_frame [of s now "Some n"] by simp
  then have "phase_switch_mismatch_retry_active s1 c n now = phase_switch_mismatch_retry_active s c n now"
    by (elim disjE) simp_all
  with assms b show ?thesis
    by (simp add: phase_upshift_block_reason_def split: if_splits)
qed

lemma upshift_unblocked:
  assumes "upshift_auto_phase_target s ls i c w v now = (Some (Some t, reason, th), s')"
  shows "\<not> fst (phase_switch_lockout_active_for s now (Some t)) \<and> \<not> phase_switch_mismatch_retry_active s c t now
    \<and> i + 1 < length ls \<and> t = ls ! (i + 1) \<and> reason = ''phase-upshift''
    \<and> (\<exists>m. phase_selection_min_surplus_watts s t v = Some m \<and> th = Some (m + pp_upshift_headroom (ps_policy s))
         \<and> m + pp_upshift_headroom (ps_policy s) \<le> w)"
  using assms
  by (auto simp: upshift_auto_phase_target_def phase_upshift_threshold_def Let_def not_le not_less
      dest: block_reason_none split: if_splits option.splits prod.splits)

lemma downshift_when:
  assumes "downshift_auto_phase_target s ls c i w v = Some (t, reason, th)"
  shows "0 < i \<and> t = Some (ls ! (i - 1)) \<and> reason = ''phase-downshift''
    \<and> (\<exists>m. phase_selection_min_surplus_watts s c v = Some m
        \<and> th = Some (max 0 (m - pp_downshift_margin (ps_policy s)))
        \<and> w < max 0 (m - pp_downshift_margin (ps_policy s)))"
  using assms by (auto simp: downshift_auto_phase_target_def Let_def not_le split: if_splits option.splits)

end
