(* ===== verification/Relay_Sample.thy ===== *)
theory Relay_Sample
  imports Prelude
begin

text \<open>
  The confirmed relay sample (\<open>venus_evcharger/core/common_auto.py\<close>): how old it may be and what a
  fresh one says about the relay output.  \<open>cr_status\<close> is \<open>None\<close> where the stored status is no
  dictionary, and \<open>Some None\<close> where it has no key \<open>output\<close>.
\<close>

record confirmed_relay =
  cr_worker_poll :: "secs option"
  cr_sync_timeout :: "secs option"
  cr_status :: "bool option option"
  cr_captured_at :: "secs option"

definition positive_service_float :: "rat option \<Rightarrow> rat option" where
  "positive_service_float raw = (case raw of None \<Rightarrow> None | Some x \<Rightarrow> if 0 < x then Some x else None)"

definition confirmed_relay_state_max_age_seconds :: "confirmed_relay \<Rightarrow> secs" where
  "confirmed_relay_state_max_age_seconds r =
    (let c0 = [5];
         c1 = (case positive_service_float (cr_worker_poll r) of None \<Rightarrow> c0 | Some p \<Rightarrow> c0 @ [p * 2]);
         c2 = (case positive_service_float (cr_sync_timeout r) of None \<Rightarrow> c1 | Some t \<Rightarrow> c1 @ [t])
     in max 1 (fold min (tl c2) (hd c2)))"

definition confirmed_relay_sample_valid :: "bool option option \<Rightarrow> secs option \<Rightarrow> bool" where
  "confirmed_relay_sample_valid status captured_at \<longleftrightarrow>
    (case status of Some (Some _) \<Rightarrow> captured_at \<noteq> None | _ \<Rightarrow> False)"

definition confirmed_relay_sample_fresh :: "secs \<Rightarrow> secs \<Rightarrow> secs \<Rightarrow> bool" where
  "confirmed_relay_sample_fresh captured_at current max_age =
    (let age = current - captured_at in -1 \<le> age \<and> age \<le> max_age)"

text \<open>The fresh sample, as the relay output and its capture time.\<close>

definition fresh_confirmed_relay_sample :: "confirmed_relay \<Rightarrow> secs \<Rightarrow> (bool \<times> secs) option" where
  "fresh_confirmed_relay_sample r current =
    (let max_age = confirmed_relay_state_max_age_seconds r in
     if \<not> confirmed_relay_sample_valid (cr_status r) (cr_captured_at r) then None
     else case (cr_status r, cr_captured_at r) of
            (Some (Some output), Some t) \<Rightarrow>
              if confirmed_relay_sample_fresh t current max_age then Some (output, t) else None
          | _ \<Rightarrow> None)"

definition fresh_confirmed_relay_output :: "confirmed_relay \<Rightarrow> secs \<Rightarrow> bool option" where
  "fresh_confirmed_relay_output r current = map_option fst (fresh_confirmed_relay_sample r current)"

lemma max_age_bounds:
  "1 \<le> confirmed_relay_state_max_age_seconds r" "confirmed_relay_state_max_age_seconds r \<le> 5"
  by (auto simp: confirmed_relay_state_max_age_seconds_def Let_def min_def max_def split: option.splits)

lemma fresh_confirmed_relay_output_recent:
  "fresh_confirmed_relay_output r now = Some b \<Longrightarrow>
    \<exists>t. cr_captured_at r = Some t \<and> cr_status r = Some (Some b) \<and> now - 5 \<le> t \<and> t \<le> now + 1"
  using max_age_bounds(2) [of r]
  by (auto simp: fresh_confirmed_relay_output_def fresh_confirmed_relay_sample_def
      confirmed_relay_sample_fresh_def Let_def split: option.splits if_splits)

end
