(* ===== verification/Phase_Switch.thy ===== *)
theory Phase_Switch
  imports Phase_Target Relay_Sample
begin

text \<open>
  The staged phase switch: the Auto policy that stages or applies a target
  (\<open>venus_evcharger/update/relay_phase_switch_policy.py\<close>), the coordinator that advances the waiting
  and stabilising states (\<open>relay_phase_switch_runtime.py\<close>) and its recovery paths
  (\<open>relay_phase_switch_runtime_recovery.py\<close>).

  Everything the controllers ask of collaborators in one cycle is in \<open>phase_env\<close>: the physical
  switch, whether it needs a pause, the pending relay command, the confirmed relay sample, the
  charger readback, the enable target and the outcome of a save.  The caught exception classes are the
  ones the code lists.
\<close>

section \<open>Environment\<close>

record phase_env =
  pe_apply :: "phase \<Rightarrow> exc + phase"
  pe_requires_pause :: bool
  pe_pending_relay :: "bool option"
  pe_relay :: confirmed_relay
  pe_charger :: "string option option"
  pe_enable :: "exc + bool"
  pe_save :: "exc option"

definition waiting_state :: string where "waiting_state = ''waiting-relay-off''"
definition stabilizing_state :: string where "stabilizing_state = ''stabilizing''"

definition phase_selection_apply_errors :: "exc list" where
  "phase_selection_apply_errors = [KeyError, OSError, RuntimeErr, TypeErr, ValueErr]"

definition phase_switch_state_save_errors :: "exc list" where
  "phase_switch_state_save_errors = [OSError, RuntimeErr, TypeErr, ValueErr]"

definition phase_switch_runtime_apply_errors :: "exc list" where
  "phase_switch_runtime_apply_errors = [AttributeErr, KeyError, OSError, RuntimeErr, TypeErr, ValueErr]"

definition save_runtime_state :: "phase_env \<Rightarrow> phase_svc \<Rightarrow> (unit, phase_svc) outcome" where
  "save_runtime_state env s =
    (case pe_save env of None \<Rightarrow> (Inr (), emit SaveState s) | Some e \<Rightarrow> (Inl e, emit SaveState s))"

definition apply_phase_selection :: "phase_env \<Rightarrow> phase \<Rightarrow> phase_svc \<Rightarrow> (phase, phase_svc) outcome" where
  "apply_phase_selection env sel s = (pe_apply env sel, emit (ApplyPhase sel) s)"

definition apply_enabled_target :: "phase_env \<Rightarrow> bool \<Rightarrow> phase_svc \<Rightarrow> (bool, phase_svc) outcome" where
  "apply_enabled_target env enabled s = (pe_enable env, emit (EnableTarget enabled) s)"

section \<open>Policy: candidates, staging, direct application\<close>

definition clear_auto_phase_candidate :: "phase_svc \<Rightarrow> phase_svc" where
  "clear_auto_phase_candidate s = s\<lparr>ps_candidate := None, ps_candidate_since := None\<rparr>"

definition auto_phase_switch_delay_seconds :: "phase_svc \<Rightarrow> phase \<Rightarrow> phase \<Rightarrow> secs" where
  "auto_phase_switch_delay_seconds s current target =
    (if phase_count target > phase_count current then max 0 (pp_upshift_delay (ps_policy s))
     else max 0 (pp_downshift_delay (ps_policy s)))"

definition auto_phase_candidate_ready :: "phase_svc \<Rightarrow> phase \<Rightarrow> phase \<Rightarrow> secs \<Rightarrow> bool \<times> phase_svc" where
  "auto_phase_candidate_ready s current target now =
    (if ps_candidate s \<noteq> Some target
     then (False, s\<lparr>ps_candidate := Some target, ps_candidate_since := Some now\<rparr>)
     else case ps_candidate_since s of
            None \<Rightarrow> (False, s\<lparr>ps_candidate_since := Some now\<rparr>)
          | Some since \<Rightarrow> (now - since \<ge> auto_phase_switch_delay_seconds s current target, s))"

definition stage_phase_switch :: "phase_svc \<Rightarrow> phase \<Rightarrow> secs \<Rightarrow> bool \<Rightarrow> phase_svc" where
  "stage_phase_switch s requested current_time resume_relay = s\<lparr>
     ps_requested := Some requested,
     ps_pending := Some (phase_text requested),
     ps_switch_state := Some waiting_state,
     ps_requested_at := Some current_time,
     ps_stable_until := None,
     ps_resume_relay := resume_relay\<rparr>"

definition phase_change_requires_staging :: "phase_env \<Rightarrow> bool \<Rightarrow> secs \<Rightarrow> bool" where
  "phase_change_requires_staging env relay_on now =
    (if \<not> pe_requires_pause env then False
     else if pe_pending_relay env \<noteq> None then True
     else case fresh_confirmed_relay_output (pe_relay env) now of
            Some output \<Rightarrow> output
          | None \<Rightarrow> relay_on)"

definition persist_phase_switch_state_best_effort ::
  "phase_env \<Rightarrow> string \<Rightarrow> phase_svc \<Rightarrow> (unit, phase_svc) outcome" where
  "persist_phase_switch_state_best_effort env transition s =
    try_except (save_runtime_state env s) phase_switch_state_save_errors
      (\<lambda>e s'. (Inr (), emit (WarnThrottled (''phase-switch-state-save-failed-'' @ transition)) s'))"

definition clear_lockout_of :: "phase_svc \<Rightarrow> phase \<Rightarrow> phase_svc" where
  "clear_lockout_of s applied =
    (case ps_lockout_sel s of
       Some sel \<Rightarrow> if normalize_phase_selection (Some sel) P1 = applied then clear_phase_switch_lockout s else s
     | None \<Rightarrow> s)"

definition apply_auto_phase_target ::
  "phase_env \<Rightarrow> phase_svc \<Rightarrow> phase \<Rightarrow> bool \<Rightarrow> bool \<Rightarrow> secs \<Rightarrow> (bool option, phase_svc) outcome" where
  "apply_auto_phase_target env s target desired_relay relay_on now =
    (if phase_change_requires_staging env relay_on now
     then and_then (persist_phase_switch_state_best_effort env ''staging''
                     (clear_auto_phase_candidate (stage_phase_switch s target now desired_relay)))
            (\<lambda>_ s'. (Inr (Some False), emit (PublishLocalPm False) s'))
     else case apply_phase_selection env target s of
       (Inl e, s') \<Rightarrow>
         if e \<in> set phase_selection_apply_errors
         then (Inr None, clear_auto_phase_candidate
                (emit (WarnThrottled ''auto-phase-switch-failed'') (emit (MarkFailure ''shelly'') s')))
         else (Inl e, s')
     | (Inr applied, s') \<Rightarrow>
         let s1 = s'\<lparr>ps_requested := Some applied, ps_active := Some applied\<rparr>;
             s2 = clear_phase_switch_mismatch_tracking s1 (Some applied);
             s3 = clear_auto_phase_candidate (clear_lockout_of s2 applied)
         in and_then (persist_phase_switch_state_best_effort env ''physical-apply'' s3)
              (\<lambda>_ s4. (Inr None, s4)))"

text \<open>\<open>PhaseSwitchCoordinator.pending_selection\<close> and \<open>state_active\<close>.\<close>

definition pending_selection :: "phase_svc \<Rightarrow> phase option" where
  "pending_selection s =
    (case ps_pending s of None \<Rightarrow> None
     | Some text \<Rightarrow> Some (case normalize_phase_selection_or_none (Some text) of Some p \<Rightarrow> p | None \<Rightarrow> P1))"

definition switch_state_text :: "phase_svc \<Rightarrow> string" where
  "switch_state_text s = (case ps_switch_state s of None \<Rightarrow> '''' | Some t \<Rightarrow> t)"

definition state_active :: "phase option \<Rightarrow> string \<Rightarrow> bool" where
  "state_active pending state \<longleftrightarrow> pending \<noteq> None \<and> (state = waiting_state \<or> state = stabilizing_state)"

definition switch_active :: "phase_svc \<Rightarrow> bool" where
  "switch_active s = state_active (pending_selection s) (switch_state_text s)"

text \<open>Both blocking checks run, so leaving Auto mode always drops the candidate.\<close>

definition auto_phase_selection_inactive :: "phase_svc \<Rightarrow> bool \<Rightarrow> bool \<times> phase_svc" where
  "auto_phase_selection_inactive s auto_mode_active =
    (if auto_mode_active then (False, s) else (True, clear_auto_phase_candidate s))"

definition auto_phase_selection_blocked :: "phase_svc \<Rightarrow> bool \<Rightarrow> bool \<times> phase_svc" where
  "auto_phase_selection_blocked s auto_mode_active =
    (let (inactive, s') = auto_phase_selection_inactive s auto_mode_active
     in (inactive \<or> switch_active s', s'))"

definition auto_phase_selection_decision ::
  "phase_svc \<Rightarrow> bool \<Rightarrow> bool \<Rightarrow> volts \<Rightarrow> secs \<Rightarrow> (phase \<times> phase_decision, phase_svc) outcome" where
  "auto_phase_selection_decision s desired_relay relay_on voltage now =
    (let supported = ordered_auto_phase_selections s;
         current = current_phase_selection s supported
     in and_then (auto_phase_target_selection s supported current desired_relay relay_on voltage now)
          (\<lambda>(target, reason, threshold) s'.
             (Inr (current, target, reason, threshold),
              record_auto_phase_metrics s' current target reason threshold)))"

definition pending_auto_phase_target_ready ::
  "phase_svc \<Rightarrow> phase \<Rightarrow> phase \<Rightarrow> secs \<Rightarrow> string \<Rightarrow> watts option \<Rightarrow> bool \<times> phase_svc" where
  "pending_auto_phase_target_ready s current target now reason threshold =
    (case auto_phase_candidate_ready s current target now of
       (True, s') \<Rightarrow> (True, s')
     | (False, s') \<Rightarrow>
         (False, record_auto_phase_metrics s' current (Some target) (reason @ ''-pending'') threshold))"

definition maybe_apply_auto_phase_selection ::
  "phase_env \<Rightarrow> phase_svc \<Rightarrow> bool \<Rightarrow> bool \<Rightarrow> volts \<Rightarrow> secs \<Rightarrow> bool \<Rightarrow> (bool option, phase_svc) outcome" where
  "maybe_apply_auto_phase_selection env s desired_relay relay_on voltage now auto_mode_active =
    (case auto_phase_selection_blocked s auto_mode_active of
       (True, s') \<Rightarrow> (Inr None, s')
     | (False, s') \<Rightarrow>
        and_then (auto_phase_selection_decision s' desired_relay relay_on voltage now)
          (\<lambda>(current, target, reason, threshold) s1.
            case target of
              None \<Rightarrow> (Inr None, clear_auto_phase_candidate s1)
            | Some t \<Rightarrow>
                if t = current then (Inr None, clear_auto_phase_candidate s1)
                else case pending_auto_phase_target_ready s1 current t now reason threshold of
                       (False, s2) \<Rightarrow> (Inr None, s2)
                     | (True, s2) \<Rightarrow> apply_auto_phase_target env s2 t desired_relay relay_on now))"

section \<open>Recovery\<close>

text \<open>What the cycle measured: relay state, power, current, and whether the sample is confirmed.\<close>

type_synonym reading = "bool \<times> watts \<times> amps \<times> bool"

definition non_negative_seconds_attr :: "secs option \<Rightarrow> secs \<Rightarrow> secs" where
  "non_negative_seconds_attr configured dflt = (case configured of None \<Rightarrow> dflt | Some x \<Rightarrow> max 0 x)"

definition clear_phase_switch_state :: "phase_svc \<Rightarrow> phase_svc" where
  "clear_phase_switch_state s = s\<lparr>
     ps_pending := None, ps_switch_state := None, ps_requested_at := None,
     ps_stable_until := None, ps_resume_relay := False, ps_mismatch_active := False\<rparr>"

definition report_phase_switch_mismatch :: "phase_svc \<Rightarrow> phase \<Rightarrow> secs \<Rightarrow> phase_svc" where
  "report_phase_switch_mismatch s pending now =
    (let (mismatch_count, s1) = remember_phase_switch_mismatch s pending now;
         threshold = phase_switch_lockout_threshold s1;
         s2 = (if threshold > 0 \<and> mismatch_count \<ge> threshold
               then snd (phase_switch_lockout_active_for
                           (engage_phase_switch_lockout s1 pending now) now (Some pending))
               else s1)
     in emit (WarnThrottled ''phase-switch-mismatch'')
          (emit (SetHealth ''phase-switch-mismatch'') (emit (MarkFailure ''shelly'') s2)))"

definition resume_relay_after_phase_switch_failure ::
  "phase_env \<Rightarrow> phase_svc \<Rightarrow> reading \<Rightarrow> (reading, phase_svc) outcome" where
  "resume_relay_after_phase_switch_failure env s reading =
    and_then (save_runtime_state env
       (emit (WarnThrottled ''phase-switch-resume-failed'') (emit (MarkFailure ''enable-control'') s)))
      (\<lambda>_ s'. (Inr reading, s'))"

definition resume_relay_after_phase_switch ::
  "phase_env \<Rightarrow> phase_svc \<Rightarrow> reading \<Rightarrow> (reading, phase_svc) outcome" where
  "resume_relay_after_phase_switch env s reading =
    (case apply_enabled_target env True s of
       (Inl e, s') \<Rightarrow>
         if e \<in> set phase_switch_runtime_apply_errors
         then resume_relay_after_phase_switch_failure env s' reading else (Inl e, s')
     | (Inr applied, s') \<Rightarrow>
         if \<not> applied then and_then (save_runtime_state env s') (\<lambda>_ t. (Inr reading, t))
         else and_then (save_runtime_state env (emit (PublishLocalPm True) s'))
                (\<lambda>_ t. (Inr (True, 0, 0, False), t)))"

definition resume_after_phase_switch_pause ::
  "phase_env \<Rightarrow> phase_svc \<Rightarrow> reading \<Rightarrow> bool \<Rightarrow> (reading, phase_svc) outcome" where
  "resume_after_phase_switch_pause env s reading auto_mode_active =
    (let resume_relay = ps_resume_relay s; s1 = clear_phase_switch_state s in
     if \<not> resume_relay then and_then (save_runtime_state env s1) (\<lambda>_ t. (Inr reading, t))
     else if auto_mode_active
     then and_then (save_runtime_state env (s1\<lparr>ps_ignore_min_offtime_once := True\<rparr>)) (\<lambda>_ t. (Inr reading, t))
     else resume_relay_after_phase_switch env s1 reading)"

definition abort_phase_switch_after_mismatch ::
  "phase_env \<Rightarrow> phase_svc \<Rightarrow> phase \<Rightarrow> phase option \<Rightarrow> reading \<Rightarrow> bool \<Rightarrow> (reading, phase_svc) outcome" where
  "abort_phase_switch_after_mismatch env s pending observed reading auto_mode_active =
    (let fallback = phase_switch_fallback_selection s observed pending;
         s1 = clear_auto_phase_candidate (s\<lparr>ps_requested := Some fallback, ps_active := Some fallback\<rparr>)
     in resume_after_phase_switch_pause env s1 reading auto_mode_active)"

definition abort_pending_phase_switch ::
  "phase_env \<Rightarrow> phase_svc \<Rightarrow> reading \<Rightarrow> bool \<Rightarrow> (reading, phase_svc) outcome" where
  "abort_pending_phase_switch env s reading auto_mode_active =
    (let requested = (case ps_active s of Some p \<Rightarrow> p
                      | None \<Rightarrow> case ps_requested s of Some p \<Rightarrow> p | None \<Rightarrow> P1);
         s1 = emit (WarnThrottled ''phase-switch-apply-failed'')
                (emit (MarkFailure ''shelly'') (s\<lparr>ps_requested := Some requested\<rparr>))
     in resume_after_phase_switch_pause env s1 reading auto_mode_active)"

section \<open>The coordinator\<close>

definition phase_switch_pause_seconds :: "phase_svc \<Rightarrow> secs" where
  "phase_switch_pause_seconds s = non_negative_seconds_attr (ps_pause s) 1"

definition phase_switch_stabilization_seconds :: "phase_svc \<Rightarrow> secs" where
  "phase_switch_stabilization_seconds s = non_negative_seconds_attr (ps_stabilization s) 2"

definition fallback_normalized :: "string option \<Rightarrow> phase option" where
  "fallback_normalized raw =
    (case raw of None \<Rightarrow> None
     | Some text \<Rightarrow> Some (case normalize_phase_selection_or_none (Some text) of Some p \<Rightarrow> p | None \<Rightarrow> P1))"

definition observed_phase_selection :: "phase_env \<Rightarrow> string option \<Rightarrow> phase option" where
  "observed_phase_selection env pm_phase =
    (case fallback_normalized pm_phase of Some p \<Rightarrow> Some p
     | None \<Rightarrow> (case pe_charger env of None \<Rightarrow> None | Some raw \<Rightarrow> fallback_normalized raw))"

definition phase_switch_verification_deadline :: "phase_svc \<Rightarrow> secs option" where
  "phase_switch_verification_deadline s =
    (let soft_fail = non_negative_seconds_attr (ps_soft_fail s) 10 in
     case ps_stable_until s of Some until \<Rightarrow> Some (until + soft_fail)
     | None \<Rightarrow> (case ps_requested_at s of None \<Rightarrow> None
         | Some requested \<Rightarrow> Some (requested + phase_switch_pause_seconds s
             + phase_switch_stabilization_seconds s + soft_fail)))"

definition phase_switch_verification_expired :: "phase_svc \<Rightarrow> secs \<Rightarrow> bool" where
  "phase_switch_verification_expired s now =
    (case phase_switch_verification_deadline s of None \<Rightarrow> False | Some deadline \<Rightarrow> now \<ge> deadline)"

definition phase_switch_pause_elapsed :: "phase_svc \<Rightarrow> secs \<Rightarrow> bool" where
  "phase_switch_pause_elapsed s now =
    (case ps_requested_at s of None \<Rightarrow> True
     | Some requested \<Rightarrow> now - requested \<ge> phase_switch_pause_seconds s)"

definition phase_switch_waiting_blocked :: "bool \<Rightarrow> bool option \<Rightarrow> bool \<Rightarrow> bool" where
  "phase_switch_waiting_blocked relay_on pending_relay pm_confirmed \<longleftrightarrow>
    relay_on \<or> pending_relay \<noteq> None \<or> \<not> pm_confirmed"

definition phase_switch_waiting_ready :: "phase_env \<Rightarrow> phase_svc \<Rightarrow> bool \<Rightarrow> bool \<Rightarrow> secs \<Rightarrow> bool" where
  "phase_switch_waiting_ready env s relay_on pm_confirmed now =
    (if phase_switch_waiting_blocked relay_on (pe_pending_relay env) pm_confirmed then False
     else phase_switch_pause_elapsed s now)"

definition apply_pending_phase_selection ::
  "phase_env \<Rightarrow> phase_svc \<Rightarrow> phase \<Rightarrow> secs \<Rightarrow> (reading \<times> bool option, phase_svc) outcome" where
  "apply_pending_phase_selection env s pending now =
    and_then (apply_phase_selection env pending s)
      (\<lambda>applied s1.
        let s2 = s1\<lparr>ps_mismatch_active := False, ps_requested := Some applied,
                     ps_switch_state := Some stabilizing_state,
                     ps_stable_until := Some (now + phase_switch_stabilization_seconds s1)\<rparr>
        in and_then (save_runtime_state env s2)
             (\<lambda>_ s3. (Inr ((False, 0, 0, False), Some False), s3)))"

definition orchestrate_waiting_phase_switch ::
  "phase_env \<Rightarrow> phase_svc \<Rightarrow> phase \<Rightarrow> reading \<Rightarrow> secs \<Rightarrow> bool \<Rightarrow> (reading \<times> bool option, phase_svc) outcome" where
  "orchestrate_waiting_phase_switch env s pending reading now auto_mode_active =
    (case reading of (relay_on, power_w, current_a, pm_confirmed) \<Rightarrow>
      if \<not> phase_switch_waiting_ready env s relay_on pm_confirmed now
      then (Inr (reading, Some False), s)
      else try_except (apply_pending_phase_selection env s pending now)
             phase_switch_runtime_apply_errors
             (\<lambda>e s'. and_then (abort_pending_phase_switch env s' reading auto_mode_active)
                (\<lambda>r t. (Inr (r, None), t))))"

definition phase_switch_still_stabilizing :: "phase_svc \<Rightarrow> secs \<Rightarrow> bool" where
  "phase_switch_still_stabilizing s now =
    (case ps_stable_until s of None \<Rightarrow> False | Some until \<Rightarrow> now < until)"

definition remember_observed_phase_selection ::
  "phase_env \<Rightarrow> phase_svc \<Rightarrow> string option \<Rightarrow> phase option \<times> phase_svc" where
  "remember_observed_phase_selection env s pm_phase =
    (let observed = observed_phase_selection env pm_phase in
     (observed, case observed of None \<Rightarrow> s | Some p \<Rightarrow> s\<lparr>ps_active := Some p\<rparr>))"

definition complete_stabilized_phase_switch ::
  "phase_env \<Rightarrow> phase_svc \<Rightarrow> phase \<Rightarrow> reading \<Rightarrow> bool \<Rightarrow> (reading \<times> bool option, phase_svc) outcome" where
  "complete_stabilized_phase_switch env s pending reading auto_mode_active =
    (let s1 = s\<lparr>ps_active := Some pending\<rparr>;
         s2 = clear_phase_switch_mismatch_tracking s1 (Some pending);
         s3 = clear_lockout_of s2 pending
     in and_then (resume_after_phase_switch_pause env s3 reading auto_mode_active)
          (\<lambda>r t. (Inr (r, None), t)))"

definition stabilizing_phase_switch_mismatch_result ::
  "phase_env \<Rightarrow> phase_svc \<Rightarrow> phase \<Rightarrow> phase option \<Rightarrow> reading \<Rightarrow> secs \<Rightarrow> bool
    \<Rightarrow> (reading \<times> bool option, phase_svc) outcome option" where
  "stabilizing_phase_switch_mismatch_result env s pending observed reading now auto_mode_active =
    (if observed = Some pending then None
     else if \<not> phase_switch_verification_expired s now
     then Some (Inr ((False, 0, 0, False), Some False), s)
     else Some (and_then
       (abort_phase_switch_after_mismatch env (report_phase_switch_mismatch s pending now)
          pending observed reading auto_mode_active)
       (\<lambda>r t. (Inr (r, None), t))))"

definition orchestrate_stabilizing_phase_switch ::
  "phase_env \<Rightarrow> phase_svc \<Rightarrow> phase \<Rightarrow> string option \<Rightarrow> reading \<Rightarrow> secs \<Rightarrow> bool
    \<Rightarrow> (reading \<times> bool option, phase_svc) outcome" where
  "orchestrate_stabilizing_phase_switch env s pending pm_phase reading now auto_mode_active =
    (let (observed, s1) = remember_observed_phase_selection env s pm_phase in
     if phase_switch_still_stabilizing s1 now then (Inr ((False, 0, 0, False), Some False), s1)
     else case stabilizing_phase_switch_mismatch_result env s1 pending observed reading now auto_mode_active of
            Some result \<Rightarrow> result
          | None \<Rightarrow> complete_stabilized_phase_switch env s1 pending reading auto_mode_active)"

definition orchestrate_pending_phase_switch ::
  "phase_env \<Rightarrow> phase_svc \<Rightarrow> string option \<Rightarrow> reading \<Rightarrow> secs \<Rightarrow> bool
    \<Rightarrow> (reading \<times> bool option, phase_svc) outcome" where
  "orchestrate_pending_phase_switch env s pm_phase reading now auto_mode_active =
    (case pending_selection s of
       None \<Rightarrow> (Inr (reading, None), clear_phase_switch_state s)
     | Some pending \<Rightarrow>
        if \<not> state_active (Some pending) (switch_state_text s)
        then (Inr (reading, None), clear_phase_switch_state s)
        else if switch_state_text s = waiting_state
        then orchestrate_waiting_phase_switch env s pending reading now auto_mode_active
        else orchestrate_stabilizing_phase_switch env s pending pm_phase reading now auto_mode_active)"

end
