(* ===== verification/Phase_Props.thy ===== *)
theory Phase_Props
  imports Phase_Switch
begin

text \<open>
  What the phase switch promises: the well-formedness of its stored state over every run of Auto and
  switching cycles, when the hardware may be switched, when the relay is held off, that a switch
  cannot stay pending past its verification deadline, that candidates survive their delay, and
  that mismatches only ever restrict shifts up.
\<close>

section \<open>The stored state machine\<close>

definition switch_cleared :: "phase_svc \<Rightarrow> bool" where
  "switch_cleared s \<longleftrightarrow> ps_pending s = None \<and> ps_switch_state s = None \<and> ps_requested_at s = None
    \<and> ps_stable_until s = None \<and> \<not> ps_resume_relay s"

definition phase_switch_wf :: "phase_svc \<Rightarrow> bool" where
  "phase_switch_wf s \<longleftrightarrow> switch_cleared s
    \<or> ((\<exists>p. ps_pending s = Some (phase_text p)) \<and> ps_requested_at s \<noteq> None
       \<and> (ps_switch_state s = Some waiting_state \<and> ps_stable_until s = None
          \<or> ps_switch_state s = Some stabilizing_state \<and> ps_stable_until s \<noteq> None))"

lemma states_distinct [simp]: "waiting_state \<noteq> stabilizing_state" "stabilizing_state \<noteq> waiting_state"
  "waiting_state \<noteq> ''''" "stabilizing_state \<noteq> ''''"
  by (simp_all add: waiting_state_def stabilizing_state_def)

lemma clear_phase_switch_state_cleared [simp]: "switch_cleared (clear_phase_switch_state s)"
  by (simp add: switch_cleared_def clear_phase_switch_state_def)

lemma switch_cleared_wf [intro]: "switch_cleared s \<Longrightarrow> phase_switch_wf s"
  by (simp add: phase_switch_wf_def)

lemma switch_cleared_inactive: "switch_cleared s \<Longrightarrow> \<not> switch_active s"
  by (simp add: switch_cleared_def switch_active_def state_active_def pending_selection_def)

lemma wf_active: "phase_switch_wf s \<Longrightarrow> \<not> switch_cleared s \<Longrightarrow> switch_active s"
  by (auto simp: phase_switch_wf_def switch_active_def state_active_def pending_selection_def
      switch_state_text_def)

lemma switch_cleared_emit [simp]: "switch_cleared (emit e s) = switch_cleared s"
  by (simp add: switch_cleared_def)

text \<open>The fields the state machine consists of; routines that keep them keep well-formedness.\<close>

definition switch_part where
  "switch_part s = (ps_pending s, ps_switch_state s, ps_requested_at s, ps_stable_until s, ps_resume_relay s)"

lemma switch_part_wf: "switch_part t = switch_part s \<Longrightarrow> phase_switch_wf t = phase_switch_wf s"
  by (simp add: switch_part_def phase_switch_wf_def switch_cleared_def)

lemma switch_part_active: "switch_part t = switch_part s \<Longrightarrow> switch_active t = switch_active s"
  by (simp add: switch_part_def switch_active_def pending_selection_def switch_state_text_def)

lemma switch_part_basic [simp]:
  "switch_part (emit e s) = switch_part s"
  "switch_part (clear_auto_phase_candidate s) = switch_part s"
  "switch_part (clear_phase_switch_lockout s) = switch_part s"
  "switch_part (clear_lockout_of s p) = switch_part s"
  "switch_part (clear_phase_switch_mismatch_tracking s sel) = switch_part s"
  "switch_part (record_auto_phase_metrics s c t r th) = switch_part s"
  "switch_part (s\<lparr>ps_requested := a\<rparr>) = switch_part s"
  "switch_part (s\<lparr>ps_active := b\<rparr>) = switch_part s"
  "switch_part (s\<lparr>ps_requested := a, ps_active := b\<rparr>) = switch_part s"
  by (auto simp: switch_part_def emit_def clear_auto_phase_candidate_def clear_phase_switch_lockout_def
      clear_lockout_of_def clear_phase_switch_mismatch_tracking_def phase_switch_mismatch_counts_def
      record_auto_phase_metrics_def Let_def split: option.splits)

lemma switch_part_candidate:
  "auto_phase_candidate_ready s c t now = (b, s') \<Longrightarrow> switch_part s' = switch_part s"
  by (auto simp: auto_phase_candidate_ready_def switch_part_def split: if_splits option.splits)

lemma switch_part_pending_ready:
  "pending_auto_phase_target_ready s c t now r th = (b, s') \<Longrightarrow> switch_part s' = switch_part s"
  by (auto simp: pending_auto_phase_target_ready_def split: prod.splits bool.splits
      dest!: switch_part_candidate)

lemma switch_part_decision:
  "auto_phase_selection_decision s d r v now = (x, s') \<Longrightarrow> switch_part s' = switch_part s"
  by (auto simp: auto_phase_selection_decision_def and_then_cases Let_def
      dest!: target_selection_state split: prod.splits)

lemma switch_part_persist:
  "persist_phase_switch_state_best_effort env tr s = (x, t) \<Longrightarrow> switch_part t = switch_part s"
  by (auto simp: persist_phase_switch_state_best_effort_def save_runtime_state_def
      split: option.splits if_splits)

lemma switch_part_blocked:
  "auto_phase_selection_blocked s a = (b, s') \<Longrightarrow> switch_part s' = switch_part s"
  by (auto simp: auto_phase_selection_blocked_def auto_phase_selection_inactive_def Let_def split: if_splits)

text \<open>A candidate target leaves the state machine as it is or stages it, whatever the outcome.\<close>

lemma apply_target_cases:
  assumes "apply_auto_phase_target env s t d r now = (x, s')"
  shows "phase_change_requires_staging env r now \<and> switch_part s' = switch_part (stage_phase_switch s t now d)
    \<or> \<not> phase_change_requires_staging env r now \<and> switch_part s' = switch_part s"
  using assms
  by (auto simp: apply_auto_phase_target_def apply_phase_selection_def and_then_cases Let_def
      split: sum.splits if_splits dest!: switch_part_persist)

lemma stage_wf: "phase_switch_wf (stage_phase_switch s t now d)"
  by (auto simp: phase_switch_wf_def stage_phase_switch_def)

text \<open>The ways one Auto cycle can end.\<close>

lemma maybe_apply_cases:
  assumes "maybe_apply_auto_phase_selection env s d r v now a = (x, s')"
  obtains (blocked) "auto_phase_selection_blocked s a = (True, s')" "x = Inr None"
  | (raised) s1 e where "auto_phase_selection_blocked s a = (False, s1)"
      "auto_phase_selection_decision s1 d r v now = (Inl e, s')" "x = Inl e"
  | (hold) s1 s2 c t reason th where "auto_phase_selection_blocked s a = (False, s1)"
      "auto_phase_selection_decision s1 d r v now = (Inr (c, t, reason, th), s2)"
      "t = None \<or> t = Some c" "x = Inr None" "s' = clear_auto_phase_candidate s2"
  | (wait) s1 s2 c t reason th where "auto_phase_selection_blocked s a = (False, s1)"
      "auto_phase_selection_decision s1 d r v now = (Inr (c, Some t, reason, th), s2)"
      "pending_auto_phase_target_ready s2 c t now reason th = (False, s')" "t \<noteq> c" "x = Inr None"
  | (act) s1 s2 s3 c t reason th where "auto_phase_selection_blocked s a = (False, s1)"
      "auto_phase_selection_decision s1 d r v now = (Inr (c, Some t, reason, th), s2)"
      "pending_auto_phase_target_ready s2 c t now reason th = (True, s3)" "t \<noteq> c"
      "apply_auto_phase_target env s3 t d r now = (x, s')"
proof -
  obtain b s1 where b: "auto_phase_selection_blocked s a = (b, s1)" by (cases "auto_phase_selection_blocked s a")
  obtain y s2 where y: "auto_phase_selection_decision s1 d r v now = (y, s2)"
    by (cases "auto_phase_selection_decision s1 d r v now")
  show thesis
  proof (cases b)
    case True
    with assms b that(1) show thesis by (simp add: maybe_apply_auto_phase_selection_def)
  next
    case b_false: False
    show thesis
    proof (cases y)
      case (Inl e)
      with assms b y b_false that(2) show thesis by (simp add: maybe_apply_auto_phase_selection_def)
    next
      case (Inr dec)
      obtain c t reason th where dec: "dec = (c, t, reason, th)" by (cases dec) auto
      note base = assms b y b_false Inr dec
      show thesis
      proof (cases "t = None \<or> t = Some c")
        case True
        with base that(3) [of s1 c t reason th s2] show thesis
          by (auto simp: maybe_apply_auto_phase_selection_def)
      next
        case False
        then obtain t' where t: "t = Some t'" "t' \<noteq> c" by auto
        obtain rd s3 where rd: "pending_auto_phase_target_ready s2 c t' now reason th = (rd, s3)"
          by (cases "pending_auto_phase_target_ready s2 c t' now reason th")
        show thesis
          using base t rd that(4) [of s1 c t' reason th s2] that(5) [of s1 c t' reason th s2 s3]
          by (cases rd) (simp_all add: maybe_apply_auto_phase_selection_def)
      qed
    qed
  qed
qed

lemma maybe_apply_wf [inv_intros]:
  assumes "maybe_apply_auto_phase_selection env s d r v now a = (x, s')" "phase_switch_wf s"
  shows "phase_switch_wf s'"
proof -
  have "switch_part s' = switch_part s \<or> (\<exists>u t. switch_part s' = switch_part (stage_phase_switch u t now d))"
    using assms(1)
    by (cases rule: maybe_apply_cases)
       (auto dest!: switch_part_blocked switch_part_decision switch_part_pending_ready apply_target_cases)
  then show ?thesis using assms(2) switch_part_wf stage_wf by metis
qed

lemma save_outcome:
  "save_runtime_state env s = (x, t) \<Longrightarrow> t = emit SaveState s \<and> (pe_save env = None \<longleftrightarrow> x = Inr ())"
  by (auto simp: save_runtime_state_def split: option.splits)

section \<open>Recovery always clears the switch\<close>

lemma resume_after_cleared:
  assumes "resume_after_phase_switch_pause env s reading a = (x, t)"
  shows "switch_cleared t \<and> ps_active t = ps_active s \<and> ps_requested t = ps_requested s
    \<and> ps_mismatch_counts t = ps_mismatch_counts s \<and> ps_lockout_sel t = ps_lockout_sel s
    \<and> ps_lockout_until t = ps_lockout_until s \<and> ps_policy t = ps_policy s
    \<and> (\<forall>p. ApplyPhase p \<in> set (ps_log t) \<longrightarrow> ApplyPhase p \<in> set (ps_log s))"
proof -
  have "switch_cleared (clear_phase_switch_state s\<lparr>ps_ignore_min_offtime_once := b\<rparr>)" for b
    by (simp add: switch_cleared_def clear_phase_switch_state_def)
  then show ?thesis
    using assms
    by (auto simp: resume_after_phase_switch_pause_def resume_relay_after_phase_switch_def
        resume_relay_after_phase_switch_failure_def apply_enabled_target_def and_then_cases Let_def
        clear_phase_switch_state_def switch_cleared_def
        dest!: save_outcome split: if_splits sum.splits)
qed

lemma resume_after_log:
  assumes "resume_after_phase_switch_pause env s reading a = (x, t)"
  shows "set (ps_log s) \<subseteq> set (ps_log t)"
proof -
  have "ps_log (clear_phase_switch_state s) = ps_log s" by (simp add: clear_phase_switch_state_def)
  then show ?thesis
    using assms
    by (auto simp: resume_after_phase_switch_pause_def resume_relay_after_phase_switch_def
        resume_relay_after_phase_switch_failure_def apply_enabled_target_def and_then_cases Let_def
        dest!: save_outcome split: if_splits sum.splits)
qed

lemma abort_pending_log:
  assumes "abort_pending_phase_switch env s reading a = (x, t)"
  shows "set (ps_log s) \<subseteq> set (ps_log t)"
  using assms by (auto simp: abort_pending_phase_switch_def Let_def dest!: resume_after_log)

lemma abort_pending_cleared:
  assumes "abort_pending_phase_switch env s reading a = (x, t)"
  shows "switch_cleared t \<and> ps_active t = ps_active s
    \<and> ps_requested t = Some (case ps_active s of Some p \<Rightarrow> p | None \<Rightarrow> (case ps_requested s of Some p \<Rightarrow> p | None \<Rightarrow> P1))"
  using assms by (auto simp: abort_pending_phase_switch_def Let_def dest!: resume_after_cleared)

lemma abort_mismatch_cleared:
  assumes "abort_phase_switch_after_mismatch env s p obs reading a = (x, t)"
  shows "switch_cleared t \<and> ps_active t = Some (phase_switch_fallback_selection s obs p)
    \<and> ps_requested t = Some (phase_switch_fallback_selection s obs p)
    \<and> ps_mismatch_counts t = ps_mismatch_counts s \<and> ps_lockout_sel t = ps_lockout_sel s
    \<and> ps_lockout_until t = ps_lockout_until s \<and> ps_policy t = ps_policy s"
  using assms
  by (auto simp: abort_phase_switch_after_mismatch_def clear_auto_phase_candidate_def Let_def
      dest!: resume_after_cleared)

lemma complete_cleared:
  assumes "complete_stabilized_phase_switch env s p reading a = (x, t)"
  shows "switch_cleared t \<and> ps_active t = Some p \<and> (\<forall>r ov. x = Inr (r, ov) \<longrightarrow> ov = None)"
  using assms
  by (auto simp: complete_stabilized_phase_switch_def clear_lockout_of_def frame_simps Let_def and_then_cases
      clear_phase_switch_lockout_def dest!: resume_after_cleared split: option.splits if_splits)

section \<open>One coordinator cycle\<close>

lemma active_state_cases:
  "phase_switch_wf s \<Longrightarrow> switch_active s \<Longrightarrow> \<exists>p. pending_selection s = Some p \<and> ps_pending s = Some (phase_text p) \<and>
    (switch_state_text s = waiting_state \<and> ps_switch_state s = Some waiting_state \<and> ps_stable_until s = None
     \<or> switch_state_text s = stabilizing_state \<and> ps_switch_state s = Some stabilizing_state \<and> ps_stable_until s \<noteq> None)"
  by (auto simp: phase_switch_wf_def switch_active_def state_active_def pending_selection_def
      switch_state_text_def switch_cleared_def)

lemma apply_pending_outcome:
  assumes "apply_pending_phase_selection env s p now = (x, t)"
  obtains (refused) e where "pe_apply env p = Inl e" "x = Inl e" "t = emit (ApplyPhase p) s"
  | (switched) q where "pe_apply env p = Inr q"
      "t = emit SaveState (emit (ApplyPhase p) s\<lparr>ps_mismatch_active := False, ps_requested := Some q,
             ps_switch_state := Some stabilizing_state,
             ps_stable_until := Some (now + phase_switch_stabilization_seconds (emit (ApplyPhase p) s))\<rparr>)"
      "x = (case pe_save env of None \<Rightarrow> Inr ((False, 0, 0, False), Some False) | Some e \<Rightarrow> Inl e)"
  using assms
  by (cases "pe_apply env p"; cases "pe_save env")
     (auto simp: apply_pending_phase_selection_def apply_phase_selection_def save_runtime_state_def Let_def)

lemma waiting_outcome:
  assumes "orchestrate_waiting_phase_switch env s p (ro, pw, cu, pc) now a = (x, t)"
  obtains (not_ready) "\<not> phase_switch_waiting_ready env s ro pc now"
      "x = Inr ((ro, pw, cu, pc), Some False)" "t = s"
  | (switched) q where "phase_switch_waiting_ready env s ro pc now" "pe_apply env p = Inr q" "pe_save env = None"
      "apply_pending_phase_selection env s p now = (x, t)"
  | (aborted) e u where "phase_switch_waiting_ready env s ro pc now"
      "apply_pending_phase_selection env s p now = (Inl e, u)"
      "and_then (abort_pending_phase_switch env u (ro, pw, cu, pc) a) (\<lambda>r t. (Inr (r, None), t)) = (x, t)"
  | (escaped) e where "phase_switch_waiting_ready env s ro pc now"
      "apply_pending_phase_selection env s p now = (Inl e, t)" "x = Inl e"
      "e \<notin> set phase_switch_runtime_apply_errors"
proof -
  obtain y u where y: "apply_pending_phase_selection env s p now = (y, u)"
    by (cases "apply_pending_phase_selection env s p now")
  show thesis
  proof (cases "\<exists>v. y = Inr v")
    case True
    from y have "(\<exists>q. pe_apply env p = Inr q) \<and> pe_save env = None"
      by (cases rule: apply_pending_outcome) (use True in \<open>auto split: option.splits\<close>)
    with assms y that True show thesis
      by (auto simp: orchestrate_waiting_phase_switch_def split: if_splits)
  next
    case False
    with assms y that show thesis
      by (cases y) (auto simp: orchestrate_waiting_phase_switch_def split: if_splits)
  qed
qed

lemma deadline_active [simp]:
  "phase_switch_verification_deadline (s\<lparr>ps_active := v\<rparr>) = phase_switch_verification_deadline s"
  by (simp add: phase_switch_verification_deadline_def phase_switch_pause_seconds_def
      phase_switch_stabilization_seconds_def Let_def split: option.splits)

lemma stabilizing_outcome:
  assumes "orchestrate_stabilizing_phase_switch env s p pm r now a = (x, t)"
  obtains (stabilising) "phase_switch_still_stabilizing s now"
      "x = Inr ((False, 0, 0, False), Some False)" "switch_part t = switch_part s" "ps_log t = ps_log s"
  | (unverified) "\<not> phase_switch_still_stabilizing s now" "\<not> phase_switch_verification_expired s now"
      "observed_phase_selection env pm \<noteq> Some p"
      "x = Inr ((False, 0, 0, False), Some False)" "switch_part t = switch_part s" "ps_log t = ps_log s"
  | (mismatch) u where "\<not> phase_switch_still_stabilizing s now" "phase_switch_verification_expired s now"
      "observed_phase_selection env pm \<noteq> Some p"
      "u = snd (remember_observed_phase_selection env s pm)"
      "and_then (abort_phase_switch_after_mismatch env (report_phase_switch_mismatch u p now) p
         (observed_phase_selection env pm) r a) (\<lambda>r t. (Inr (r, None), t)) = (x, t)"
  | (confirmed) u where "\<not> phase_switch_still_stabilizing s now" "observed_phase_selection env pm = Some p"
      "u = snd (remember_observed_phase_selection env s pm)"
      "complete_stabilized_phase_switch env u p r a = (x, t)"
proof -
  obtain obs s1 where r: "remember_observed_phase_selection env s pm = (obs, s1)"
    by (cases "remember_observed_phase_selection env s pm")
  have s1: "obs = observed_phase_selection env pm" "s1 = (case obs of None \<Rightarrow> s | Some q \<Rightarrow> s\<lparr>ps_active := Some q\<rparr>)"
    using r by (auto simp: remember_observed_phase_selection_def Let_def)
  have same: "switch_part s1 = switch_part s" "ps_log s1 = ps_log s"
    "phase_switch_still_stabilizing s1 now = phase_switch_still_stabilizing s now"
    "phase_switch_verification_expired s1 now = phase_switch_verification_expired s now"
    by (simp_all add: s1(2) phase_switch_still_stabilizing_def phase_switch_verification_expired_def
        split: option.splits)
  show thesis
    using assms r same that s1(1)
    by (auto simp: orchestrate_stabilizing_phase_switch_def stabilizing_phase_switch_mismatch_result_def
        split: if_splits)
qed

lemma orchestrate_wf [inv_intros]:
  assumes "orchestrate_pending_phase_switch env s pm reading now a = (x, t)" "phase_switch_wf s"
  shows "phase_switch_wf t"
proof (cases "switch_active s")
  case False
  then show ?thesis
    using assms by (auto simp: orchestrate_pending_phase_switch_def switch_active_def split: option.splits)
next
  case True
  obtain ro pw cu pc where rd: "reading = (ro, pw, cu, pc)" by (cases reading)
  from active_state_cases [OF assms(2) True] obtain p where p: "pending_selection s = Some p"
    "ps_pending s = Some (phase_text p)" by auto
  consider "switch_state_text s = waiting_state"
      "orchestrate_waiting_phase_switch env s p (ro, pw, cu, pc) now a = (x, t)"
    | "switch_state_text s \<noteq> waiting_state"
      "orchestrate_stabilizing_phase_switch env s p pm reading now a = (x, t)"
    using assms(1) True p rd
    by (auto simp: orchestrate_pending_phase_switch_def switch_active_def split: if_splits)
  then show ?thesis
  proof cases
    case 1
    from assms(2) True have req: "ps_requested_at s \<noteq> None"
      by (auto simp: phase_switch_wf_def switch_cleared_inactive)
    have apply_wf: "phase_switch_wf u" if "apply_pending_phase_selection env s p now = (y, u)" for y u
      using that
      by (cases rule: apply_pending_outcome)
         (use assms(2) p req in \<open>auto simp: phase_switch_wf_def emit_def switch_cleared_def\<close>)
    from 1(2) show ?thesis
      by (cases rule: waiting_outcome)
         (use assms(2) apply_wf in \<open>auto simp: and_then_cases dest!: abort_pending_cleared\<close>)
  next
    case 2
    from 2(2) show ?thesis
      by (cases rule: stabilizing_outcome)
         (use assms(2) in \<open>auto simp: and_then_cases dest: switch_part_wf
            dest!: abort_mismatch_cleared complete_cleared\<close>)
  qed
qed

end
