(* ===== verification/Phase_Claims.thy ===== *)
theory Phase_Claims
  imports Phase_Props
begin

text \<open>
  The properties of the phase switch, over single cycles and over whole runs of cycles.
\<close>

section \<open>Runs\<close>

text \<open>
  One update cycle either runs the Auto policy or advances a pending switch.  An exception leaves the
  state as the routine mutated it, and the next cycle starts from there.
\<close>

datatype phase_event =
    AutoCycle phase_env bool bool volts secs bool
  | SwitchCycle phase_env "string option" reading secs bool

fun phase_step :: "phase_svc \<Rightarrow> phase_event \<Rightarrow> phase_svc" where
  "phase_step s (AutoCycle env desired relay_on voltage now auto_mode) =
    snd (maybe_apply_auto_phase_selection env s desired relay_on voltage now auto_mode)"
| "phase_step s (SwitchCycle env pm_phase reading now auto_mode) =
    snd (orchestrate_pending_phase_switch env s pm_phase reading now auto_mode)"

lemma phase_step_wf: "phase_switch_wf s \<Longrightarrow> phase_switch_wf (phase_step s e)"
  by (cases e) (auto intro: inv_intros prod.collapse [symmetric])

interpretation phase_run: stepwise phase_step phase_switch_wf
  by unfold_locales (rule phase_step_wf)

text \<open>A service whose attributes have the defaults, used by the witnesses.\<close>

definition sample_policy :: auto_phase_policy where
  "sample_policy = \<lparr>pp_enabled = True, pp_upshift_delay = 120, pp_downshift_delay = 30,
     pp_upshift_headroom = 250, pp_downshift_margin = 150, pp_mismatch_retry = 300,
     pp_lockout_count = 3, pp_lockout_seconds = 1800, pp_prefer_lowest_when_idle = True\<rparr>"

definition sample_svc :: phase_svc where
  "sample_svc = \<lparr>ps_policy = sample_policy, ps_requested = Some P1, ps_active = Some P1,
     ps_supported = [''P1'', ''P1_P2'', ''P1_P2_P3''], ps_soft_fail = Some 10, ps_pause = None,
     ps_stabilization = None, ps_min_current = Some 6, ps_voltage_mode = Some ''phase'',
     ps_surplus = Some 6000, ps_metrics = None, ps_candidate = None, ps_candidate_since = None,
     ps_pending = None, ps_switch_state = None, ps_requested_at = None, ps_stable_until = None,
     ps_resume_relay = False, ps_mismatch_active = False, ps_mismatch_counts = [],
     ps_last_mismatch_sel = None, ps_last_mismatch_at = None, ps_lockout_sel = None,
     ps_lockout_reason = '''', ps_lockout_at = None, ps_lockout_until = None,
     ps_ignore_min_offtime_once = False, ps_log = []\<rparr>"

definition sample_env :: phase_env where
  "sample_env = \<lparr>pe_apply = Inr, pe_requires_pause = True, pe_pending_relay = None,
     pe_relay = \<lparr>cr_worker_poll = None, cr_sync_timeout = None, cr_status = None, cr_captured_at = None\<rparr>,
     pe_charger = None, pe_enable = Inr True, pe_save = None\<rparr>"

lemma sample_cleared: "switch_cleared sample_svc"
  by (simp add: sample_svc_def switch_cleared_def)

definition staged_svc :: phase_svc where
  "staged_svc = stage_phase_switch sample_svc P1_P2 100 True"

lemma staged_wf: "phase_switch_wf staged_svc"
  by (simp add: staged_svc_def stage_wf)

text \<open>
  Claim C4.  Along every run of Auto and switching cycles, with whatever the hardware, the relay, the
  charger and the store answer (exceptions included), the stored phase-switch state is
  well-formed: either nothing is pending and every switch field is cleared, or a normalised target is
  pending with a request time and exactly one of the waiting and stabilising states, the latter
  with a stabilisation deadline.
\<close>

theorem phase_switch_run_wf:
  assumes "phase_switch_wf s"
  shows "phase_switch_wf (foldl phase_step s events)"
  using assms by (rule phase_run.run_inv)

theorem phase_switch_run_wf_witness: "phase_switch_wf (foldl phase_step sample_svc [])"
  by (rule phase_switch_run_wf) (use sample_cleared in blast)

section \<open>When the hardware is switched\<close>

lemma report_log:
  "ApplyPhase p \<in> set (ps_log (report_phase_switch_mismatch s q now)) \<Longrightarrow> ApplyPhase p \<in> set (ps_log s)"
  by (auto simp: report_phase_switch_mismatch_def frame_simps Let_def split: prod.splits if_splits
      dest: arg_cong [where f = "\<lambda>x. ps_log (snd x)"])

lemma clear_lockout_of_log [simp]: "ps_log (clear_lockout_of s p) = ps_log s"
  by (simp add: clear_lockout_of_def frame_simps split: option.splits)

lemma remember_observed_log [simp]: "ps_log (snd (remember_observed_phase_selection env s pm)) = ps_log s"
  by (simp add: remember_observed_phase_selection_def Let_def split: option.splits)

lemma stabilizing_never_applies:
  assumes "orchestrate_stabilizing_phase_switch env s p pm r now a = (x, t)"
    "ApplyPhase q \<in> set (ps_log t)"
  shows "ApplyPhase q \<in> set (ps_log s)"
  using assms(1)
proof (cases rule: stabilizing_outcome)
  case (mismatch u)
  have "ApplyPhase q \<in> set (ps_log (report_phase_switch_mismatch u p now))"
    using mismatch(5) assms(2)
    by (auto simp: and_then_cases abort_phase_switch_after_mismatch_def clear_auto_phase_candidate_def Let_def
        dest!: resume_after_cleared)
  then show ?thesis using mismatch(4) report_log remember_observed_log by metis
next
  case (confirmed u)
  then show ?thesis
    using assms(2)
    by (auto simp: complete_stabilized_phase_switch_def and_then_cases frame_simps Let_def
        dest!: resume_after_cleared)
qed (use assms(2) in auto)

text \<open>
  Claim C3.  A switching cycle asks the hardware for a layout only while the switch waits for that very
  layout, with the relay off, the sample confirmed, no relay command outstanding and the configured
  pause elapsed since the request.
\<close>

theorem phase_apply_only_when_safe:
  assumes "orchestrate_pending_phase_switch env s pm (relay_on, power_w, current_a, pm_confirmed) now auto_mode = (x, t)"
    and "ApplyPhase p \<in> set (ps_log t)" and "ApplyPhase p \<notin> set (ps_log s)"
  shows "switch_state_text s = waiting_state \<and> pending_selection s = Some p \<and> \<not> relay_on \<and> pm_confirmed
    \<and> pe_pending_relay env = None \<and> phase_switch_pause_elapsed s now"
proof -
  have act: "switch_active s"
    using assms by (auto simp: orchestrate_pending_phase_switch_def switch_active_def clear_phase_switch_state_def
        split: option.splits if_splits)
  then obtain q where q: "pending_selection s = Some q"
    by (auto simp: switch_active_def state_active_def)
  have waiting: "switch_state_text s = waiting_state"
  proof (rule ccontr)
    assume "switch_state_text s \<noteq> waiting_state"
    with assms(1) act q have "orchestrate_stabilizing_phase_switch env s q pm (relay_on, power_w, current_a, pm_confirmed) now auto_mode = (x, t)"
      by (simp add: orchestrate_pending_phase_switch_def switch_active_def)
    with assms(2,3) stabilizing_never_applies show False by blast
  qed
  from assms(1) act q waiting
  have w: "orchestrate_waiting_phase_switch env s q (relay_on, power_w, current_a, pm_confirmed) now auto_mode = (x, t)"
    by (simp add: orchestrate_pending_phase_switch_def switch_active_def)
  have applied: "ApplyPhase p \<in> set (ps_log u) \<Longrightarrow> p = q"
    if "apply_pending_phase_selection env s q now = (y, u)" for y u
    using that assms(3) by (cases rule: apply_pending_outcome) auto
  have aborted: "ApplyPhase p \<in> set (ps_log u)"
    if "abort_pending_phase_switch env u r auto_mode = (z, t)" for u r z
    using that assms(2) by (auto simp: abort_pending_phase_switch_def Let_def dest!: resume_after_cleared)
  from w have "p = q \<and> phase_switch_waiting_ready env s relay_on pm_confirmed now"
    by (cases rule: waiting_outcome)
       (use assms(2,3) applied aborted in \<open>auto simp: and_then_cases\<close>)
  with q waiting show ?thesis
    by (auto simp: phase_switch_waiting_ready_def phase_switch_waiting_blocked_def split: if_splits)
qed

theorem phase_apply_only_when_safe_witness:
  "switch_state_text staged_svc = waiting_state \<and> pending_selection staged_svc = Some P1_P2"
proof -
  have run: "orchestrate_pending_phase_switch sample_env staged_svc None (False, 0, 0, True) 101 True
      = (Inr ((False, 0, 0, False), Some False),
         snd (orchestrate_pending_phase_switch sample_env staged_svc None (False, 0, 0, True) 101 True))"
    and log: "ApplyPhase P1_P2 \<in> set (ps_log (snd (orchestrate_pending_phase_switch sample_env staged_svc None (False, 0, 0, True) 101 True)))"
    by (simp_all add: orchestrate_pending_phase_switch_def staged_svc_def stage_phase_switch_def sample_svc_def
        sample_env_def pending_selection_def state_active_def switch_state_text_def normalize_canonical
        orchestrate_waiting_phase_switch_def phase_switch_waiting_ready_def phase_switch_waiting_blocked_def
        phase_switch_pause_elapsed_def phase_switch_pause_seconds_def non_negative_seconds_attr_def
        apply_pending_phase_selection_def apply_phase_selection_def save_runtime_state_def Let_def)
  have "ApplyPhase P1_P2 \<notin> set (ps_log staged_svc)"
    by (simp add: staged_svc_def stage_phase_switch_def sample_svc_def)
  from phase_apply_only_when_safe [OF run log this] show ?thesis by simp
qed

section \<open>Holding the relay, leaving the pending state\<close>

text \<open>
  A switching cycle that returns holds the relay off (override False) exactly as long as
  the switch stays pending: it gives up the override in the same cycle in which the pending state is
  cleared.
\<close>

theorem phase_switch_holds_relay_off:
  assumes "phase_switch_wf s"
    and "orchestrate_pending_phase_switch env s pm reading now auto_mode = (Inr (r, override), t)"
  shows "override = (if switch_active t then Some False else None)"
proof (cases "switch_active s")
  case False
  then show ?thesis
    using assms(2) switch_cleared_inactive [OF clear_phase_switch_state_cleared]
    by (auto simp: orchestrate_pending_phase_switch_def switch_active_def split: option.splits)
next
  case True
  obtain ro pw cu pc where rd: "reading = (ro, pw, cu, pc)" by (cases reading)
  from active_state_cases [OF assms(1) True] obtain p where p: "pending_selection s = Some p" by auto
  consider "orchestrate_waiting_phase_switch env s p (ro, pw, cu, pc) now auto_mode = (Inr (r, override), t)"
    | "orchestrate_stabilizing_phase_switch env s p pm reading now auto_mode = (Inr (r, override), t)"
    using assms(2) True p rd
    by (auto simp: orchestrate_pending_phase_switch_def switch_active_def split: if_splits)
  then show ?thesis
  proof cases
    case 1
    then show ?thesis
    proof (cases rule: waiting_outcome)
      case (switched q)
      from switched(4) show ?thesis
        by (cases rule: apply_pending_outcome)
           (use p switched(3) in \<open>auto simp: switch_active_def state_active_def pending_selection_def
              switch_state_text_def\<close>)
    qed (use True in \<open>auto simp: and_then_cases dest!: abort_pending_cleared switch_cleared_inactive\<close>)
  next
    case 2
    then show ?thesis
      by (cases rule: stabilizing_outcome)
         (use True in \<open>auto simp: and_then_cases dest: switch_part_active
            dest!: abort_mismatch_cleared complete_cleared switch_cleared_inactive\<close>)
  qed
qed

definition stabilizing_svc :: phase_svc where
  "stabilizing_svc = snd (orchestrate_pending_phase_switch sample_env staged_svc None (False, 0, 0, True) 101 True)"

lemmas phase_eval =
  orchestrate_pending_phase_switch_def staged_svc_def stage_phase_switch_def sample_svc_def
  sample_env_def pending_selection_def state_active_def switch_state_text_def normalize_canonical
  orchestrate_waiting_phase_switch_def phase_switch_waiting_ready_def phase_switch_waiting_blocked_def
  phase_switch_pause_elapsed_def phase_switch_pause_seconds_def non_negative_seconds_attr_def
  apply_pending_phase_selection_def apply_phase_selection_def save_runtime_state_def
  phase_switch_stabilization_seconds_def

lemma stabilizing_svc_eq:
  "stabilizing_svc = emit SaveState (emit (ApplyPhase P1_P2) staged_svc\<lparr>ps_mismatch_active := False,
     ps_requested := Some P1_P2, ps_switch_state := Some stabilizing_state, ps_stable_until := Some 103\<rparr>)"
  by (simp add: stabilizing_svc_def phase_eval Let_def emit_def)

lemma stabilizing_svc_wf: "phase_switch_wf stabilizing_svc"
  using orchestrate_wf [OF prod.collapse [symmetric] staged_wf] by (simp add: stabilizing_svc_def)

theorem phase_switch_holds_relay_off_witness:
  "switch_active stabilizing_svc"
proof -
  have "orchestrate_pending_phase_switch sample_env staged_svc None (False, 0, 0, True) 101 True
      = (Inr ((False, 0, 0, False), Some False), stabilizing_svc)"
    by (simp add: stabilizing_svc_def phase_eval Let_def)
  from phase_switch_holds_relay_off [OF staged_wf this] show ?thesis by (simp split: if_splits)
qed

text \<open>
  Claim C10.  A switch cannot stay pending for ever: from its verification deadline on (stabilisation
  deadline plus the soft-fail time), the next switching cycle ends it whatever is observed, and
  whatever the hardware or the store answers.
\<close>

theorem phase_switch_deadline_ends_it:
  assumes "phase_switch_wf s"
    and "ps_switch_state s = Some stabilizing_state"
    and "phase_switch_verification_deadline s = Some deadline" and "deadline \<le> now"
  shows "switch_cleared (snd (orchestrate_pending_phase_switch env s pm reading now auto_mode))"
proof -
  obtain x t where run: "orchestrate_pending_phase_switch env s pm reading now auto_mode = (x, t)"
    by (cases "orchestrate_pending_phase_switch env s pm reading now auto_mode")
  have wf: "\<not> switch_cleared s" using assms(2) by (simp add: switch_cleared_def)
  with wf_active assms(1) have act: "switch_active s" by blast
  from active_state_cases [OF assms(1) this] assms(2) obtain p u where p: "pending_selection s = Some p"
      "switch_state_text s = stabilizing_state" "ps_stable_until s = Some u"
    by auto
  have "0 \<le> non_negative_seconds_attr (ps_soft_fail s) 10"
    by (simp add: non_negative_seconds_attr_def split: option.splits)
  then have over: "phase_switch_verification_expired s now" "\<not> phase_switch_still_stabilizing s now"
    using assms(3,4) p(3)
    by (auto simp: phase_switch_verification_expired_def phase_switch_verification_deadline_def
        phase_switch_still_stabilizing_def Let_def)
  from run p act have "orchestrate_stabilizing_phase_switch env s p pm reading now auto_mode = (x, t)"
    by (simp add: orchestrate_pending_phase_switch_def switch_active_def)
  then have "switch_cleared t"
    by (cases rule: stabilizing_outcome)
       (use over in \<open>auto simp: and_then_cases dest!: abort_mismatch_cleared complete_cleared\<close>)
  with run show ?thesis by simp
qed

theorem phase_switch_deadline_ends_it_witness:
  "switch_cleared (snd (orchestrate_pending_phase_switch sample_env stabilizing_svc (Some ''P1'') (False, 0, 0, True) 113 True))"
  by (rule phase_switch_deadline_ends_it [OF stabilizing_svc_wf, where deadline = 113])
     (simp_all add: stabilizing_svc_eq phase_switch_verification_deadline_def non_negative_seconds_attr_def
        phase_eval Let_def)

text \<open>
  The successful path, end to end: a staged switch whose relay is confirmed off after the
  pause is applied, and once the stabilisation time has passed and the layout is observed, the
  next cycle records it as active and requested, clears the pending state, forgets earlier mismatches
  of that layout, and (in Auto mode, if charging was to resume) waives the minimum off-time once.
\<close>

theorem phase_switch_succeeds:
  assumes "phase_switch_wf s" "ps_switch_state s = Some waiting_state" "pending_selection s = Some p"
    and "phase_switch_pause_elapsed s t1" and "pe_pending_relay env1 = None"
    and "pe_apply env1 p = Inr p" and "pe_save env1 = None" and "pe_save env2 = None"
    and "t1 + phase_switch_stabilization_seconds s \<le> t2"
    and "observed_phase_selection env2 pm2 = Some p"
    and "s1 = snd (orchestrate_pending_phase_switch env1 s pm1 (False, w, c, True) t1 True)"
    and "s2 = snd (orchestrate_pending_phase_switch env2 s1 pm2 reading2 t2 True)"
  shows "switch_cleared s2 \<and> ps_active s2 = Some p \<and> ps_requested s2 = Some p
    \<and> count_of (ps_mismatch_counts s2) p = 0
    \<and> ps_ignore_min_offtime_once s2 = (ps_resume_relay s \<or> ps_ignore_min_offtime_once s)"
proof -
  have st: "switch_state_text s = waiting_state" using assms(2) by (simp add: switch_state_text_def)
  have s1: "s1 = emit SaveState (emit (ApplyPhase p) s\<lparr>ps_mismatch_active := False, ps_requested := Some p,
      ps_switch_state := Some stabilizing_state,
      ps_stable_until := Some (t1 + phase_switch_stabilization_seconds (emit (ApplyPhase p) s))\<rparr>)"
    using assms(3-7) st unfolding assms(11)
    by (simp add: orchestrate_pending_phase_switch_def state_active_def orchestrate_waiting_phase_switch_def
        phase_switch_waiting_ready_def phase_switch_waiting_blocked_def apply_pending_phase_selection_def
        apply_phase_selection_def save_runtime_state_def Let_def)
  have stab: "phase_switch_stabilization_seconds (emit e s) = phase_switch_stabilization_seconds s" for e
    by (simp add: phase_switch_stabilization_seconds_def)
  have pend: "pending_selection s1 = Some p" "switch_state_text s1 = stabilizing_state"
    "\<not> phase_switch_still_stabilizing s1 t2" "ps_resume_relay s1 = ps_resume_relay s"
    "ps_requested s1 = Some p" "ps_ignore_min_offtime_once s1 = ps_ignore_min_offtime_once s"
    using assms(3,9) by (simp_all add: s1 pending_selection_def switch_state_text_def stab
        phase_switch_still_stabilizing_def)
  define u where "u = clear_lockout_of (clear_phase_switch_mismatch_tracking (s1\<lparr>ps_active := Some p\<rparr>) (Some p)) p"
  have u: "ps_resume_relay u = ps_resume_relay s" "ps_requested u = Some p" "ps_active u = Some p"
    "ps_ignore_min_offtime_once u = ps_ignore_min_offtime_once s" "count_of (ps_mismatch_counts u) p = 0"
    using pend
    by (auto simp: u_def clear_lockout_of_def clear_phase_switch_lockout_def frame_simps
        clear_phase_switch_mismatch_tracking_def phase_switch_mismatch_counts_def Let_def split: option.splits)
  have "s2 = snd (resume_after_phase_switch_pause env2 u reading2 True)"
    using pend(1-3) assms(10) unfolding assms(12)
    by (simp add: orchestrate_pending_phase_switch_def state_active_def orchestrate_stabilizing_phase_switch_def
        remember_observed_phase_selection_def stabilizing_phase_switch_mismatch_result_def
        phase_switch_still_stabilizing_def complete_stabilized_phase_switch_def Let_def and_then_def u_def
        split: prod.splits sum.splits)
  with u assms(8) show ?thesis
    by (auto simp: resume_after_phase_switch_pause_def save_runtime_state_def clear_phase_switch_state_def
        switch_cleared_def Let_def)
qed

theorem phase_switch_succeeds_witness:
  "ps_active (snd (orchestrate_pending_phase_switch sample_env stabilizing_svc (Some ''P1_P2'') (False, 0, 0, True) 103 True))
    = Some P1_P2"
  using phase_switch_succeeds [of staged_svc P1_P2 101 sample_env sample_env 103 "Some ''P1_P2''"
      stabilizing_svc None 0 0 _ "(False, 0, 0, True)"] staged_wf
  by (simp add: stabilizing_svc_def phase_eval observed_phase_selection_def fallback_normalized_def Let_def)

section \<open>Auto candidates\<close>

lemma blocked_false:
  "auto_phase_selection_blocked s a = (False, s1) \<Longrightarrow> s1 = s \<and> a \<and> \<not> switch_active s"
  by (auto simp: auto_phase_selection_blocked_def auto_phase_selection_inactive_def Let_def split: if_splits)

lemma blocked_true_log: "auto_phase_selection_blocked s a = (True, s1) \<Longrightarrow> ps_log s1 = ps_log s"
  by (auto simp: auto_phase_selection_blocked_def auto_phase_selection_inactive_def
      clear_auto_phase_candidate_def Let_def split: if_splits)

lemma decision_fields:
  assumes "auto_phase_selection_decision s d r v now = (x, s')"
  shows "ps_log s' = ps_log s \<and> ps_candidate s' = ps_candidate s
    \<and> ps_candidate_since s' = ps_candidate_since s \<and> ps_policy s' = ps_policy s"
  using assms
  by (auto simp: auto_phase_selection_decision_def and_then_cases record_auto_phase_metrics_def Let_def
      clear_phase_switch_lockout_def dest!: target_selection_state split: prod.splits)

lemma decision_current:
  "auto_phase_selection_decision s d r v now = (Inr (c, t, reason, th), s') \<Longrightarrow>
    c = current_phase_selection s (ordered_auto_phase_selections s) \<and>
    (\<exists>u. auto_phase_target_selection s (ordered_auto_phase_selections s) c d r v now = (Inr (t, reason, th), u))"
  by (auto simp: auto_phase_selection_decision_def and_then_cases Let_def split: prod.splits)

lemma candidate_ready_true:
  "auto_phase_candidate_ready s c t now = (True, s') \<Longrightarrow> s' = s \<and> ps_candidate s = Some t \<and>
    (\<exists>since. ps_candidate_since s = Some since \<and> auto_phase_switch_delay_seconds s c t \<le> now - since)"
  by (auto simp: auto_phase_candidate_ready_def split: if_splits option.splits)

lemma pending_ready_true:
  "pending_auto_phase_target_ready s c t now reason th = (True, s') \<Longrightarrow> s' = s \<and> ps_candidate s = Some t \<and>
    (\<exists>since. ps_candidate_since s = Some since \<and> auto_phase_switch_delay_seconds s c t \<le> now - since)"
  by (auto simp: pending_auto_phase_target_ready_def split: prod.splits bool.splits dest!: candidate_ready_true)

lemma pending_ready_false_log:
  "pending_auto_phase_target_ready s c t now reason th = (False, s') \<Longrightarrow> ps_log s' = ps_log s"
  by (auto simp: pending_auto_phase_target_ready_def auto_phase_candidate_ready_def record_auto_phase_metrics_def
      split: prod.splits bool.splits if_splits option.splits)

text \<open>
  Auto acts on a phase target (stages it or switches it) only in Auto mode, only while no
  switch is pending, only for a supported layout other than the current one, and only after that same
  target has been the candidate for the whole configured delay (the shift-up or the shift-down
  delay, whichever applies).
\<close>

theorem auto_phase_waits_for_delay:
  assumes "maybe_apply_auto_phase_selection env s desired relay_on voltage now auto_mode = (x, t)"
    and "ps_log t \<noteq> ps_log s"
  shows "auto_mode \<and> \<not> switch_active s \<and> (\<exists>target since.
      let current = current_phase_selection s (ordered_auto_phase_selections s) in
      target \<in> set (ordered_auto_phase_selections s) \<and> target \<noteq> current
      \<and> ps_candidate s = Some target \<and> ps_candidate_since s = Some since
      \<and> auto_phase_switch_delay_seconds s current target \<le> now - since)"
  using assms(1)
proof (cases rule: maybe_apply_cases)
  case (act s1 s2 s3 c target reason th)
  note s1 = blocked_false [OF act(1)]
  note fields = decision_fields [OF act(2)] and cur = decision_current [OF act(2)]
  from pending_ready_true [OF act(3)] fields s1
  obtain since where "ps_candidate s = Some target" "ps_candidate_since s = Some since"
    "auto_phase_switch_delay_seconds s c target \<le> now - since"
    by (auto simp: auto_phase_switch_delay_seconds_def split: if_splits)
  moreover have "target \<in> set (ordered_auto_phase_selections s)"
    using cur s1 target_selection_supported by auto
  ultimately show ?thesis
    using s1 cur act(4) by (auto simp: Let_def)
qed (use assms(2) in \<open>auto simp: clear_auto_phase_candidate_def dest!: blocked_true_log blocked_false
    decision_fields pending_ready_false_log\<close>)

definition candidate_svc :: phase_svc where
  "candidate_svc = sample_svc\<lparr>ps_candidate := Some P1_P2, ps_candidate_since := Some 0\<rparr>"

theorem auto_phase_waits_for_delay_witness:
  "ps_candidate candidate_svc = Some P1_P2"
proof -
  let ?r = "maybe_apply_auto_phase_selection sample_env candidate_svc True True 230 120 True"
  have log: "ps_log (snd ?r) \<noteq> ps_log candidate_svc"
    by code_simp
  from auto_phase_waits_for_delay [OF prod.collapse [symmetric] log]
  show ?thesis by (auto simp: Let_def candidate_svc_def)
qed

section \<open>Mismatches, lockouts, hysteresis\<close>

definition with_mismatch_state ::
  "phase_svc \<Rightarrow> string option \<Rightarrow> secs option \<Rightarrow> string option \<Rightarrow> secs option \<Rightarrow> phase_svc" where
  "with_mismatch_state s lock until miss miss_at = s\<lparr>ps_lockout_sel := lock, ps_lockout_until := until,
     ps_last_mismatch_sel := miss, ps_last_mismatch_at := miss_at\<rparr>"

lemma with_mismatch_fields [simp]:
  "ps_policy (with_mismatch_state s a b c d) = ps_policy s"
  "ps_surplus (with_mismatch_state s a b c d) = ps_surplus s"
  "ps_min_current (with_mismatch_state s a b c d) = ps_min_current s"
  "ps_voltage_mode (with_mismatch_state s a b c d) = ps_voltage_mode s"
  by (simp_all add: with_mismatch_state_def)

lemma with_mismatch_thresholds [simp]:
  "phase_selection_min_surplus_watts (with_mismatch_state s a b c d) p v = phase_selection_min_surplus_watts s p v"
  "phase_upshift_threshold (with_mismatch_state s a b c d) p v = phase_upshift_threshold s p v"
  "auto_phase_policy_state (with_mismatch_state s a b c d) ls = auto_phase_policy_state s ls"
  by (simp_all add: phase_selection_min_surplus_watts_def phase_selection_voltage_def
      phase_upshift_threshold_def auto_phase_policy_state_def cong: option.case_cong)

lemma downshift_congruent:
  assumes "\<And>p v. phase_selection_min_surplus_watts s p v = phase_selection_min_surplus_watts u p v"
    "ps_policy s = ps_policy u"
  shows "downshift_auto_phase_target s ls c i w v = downshift_auto_phase_target u ls c i w v"
  by (simp add: downshift_auto_phase_target_def assms cong: option.case_cong if_cong)

lemma upshift_none_iff:
  "fst (upshift_auto_phase_target s ls i c w v now) = None \<longleftrightarrow>
    i + 1 \<ge> length ls \<or> (case phase_upshift_threshold s (ls ! (i + 1)) v of None \<Rightarrow> True | Some th \<Rightarrow> w < th)"
  by (auto simp: upshift_auto_phase_target_def Let_def split: option.splits prod.splits)

lemma upshift_none_state:
  "upshift_auto_phase_target s ls i c w v now = (None, s') \<Longrightarrow> s' = s"
  by (auto simp: upshift_auto_phase_target_def Let_def split: if_splits option.splits prod.splits)

text \<open>
  Shifts down stay available: a decision for fewer phases is the same decision whatever
  lockout and whatever earlier mismatch is recorded.
\<close>

theorem downshift_ignores_mismatches:
  assumes "sorted ls" "distinct ls" "current \<in> set ls"
    and "fst (auto_phase_target_selection s ls current desired relay_on voltage now) = Inr (Some target, reason, threshold)"
    and "target < current"
  shows "fst (auto_phase_target_selection (with_mismatch_state s lock until miss miss_at) ls current
           desired relay_on voltage now) = Inr (Some target, reason, threshold)"
proof (cases "auto_phase_policy_state s ls = None
    \<and> idle_auto_phase_target (ps_policy s) ls current desired relay_on = None")
  case False
  with assms(4) show ?thesis
    by (auto simp: auto_phase_target_selection_def split: option.splits)
next
  case True
  obtain i where i: "index_of current ls = Some i"
    using assms(3) by (cases "index_of current ls") (auto simp: index_of_none)
  from True assms(4) i obtain w where w: "ps_surplus s = Some w"
    by (auto simp: auto_phase_target_selection_def surplus_auto_phase_target_def split: option.splits)
  obtain d u where up: "upshift_auto_phase_target s ls i current w voltage now = (d, u)"
    by (cases "upshift_auto_phase_target s ls i current w voltage now")
  have "d = None"
  proof (rule ccontr)
    assume "d \<noteq> None"
    then obtain e where "d = Some e" by auto
    with assms(4) True i w up have e: "d = Some (Some target, reason, threshold)"
      by (auto simp: auto_phase_target_selection_def surplus_auto_phase_target_def)
    from upshift_unblocked [OF up [unfolded e]] have "i + 1 < length ls" "target = ls ! (i + 1)" by auto
    with strictly_ascending [OF assms(1,2), of i "i + 1"] index_of_some [OF i] assms(5) show False by simp
  qed
  moreover from this up have "u = s" by (simp add: upshift_none_state)
  ultimately have up_none: "fst (upshift_auto_phase_target s ls i current w voltage now) = None" using up by simp
  let ?s = "with_mismatch_state s lock until miss miss_at"
  have "fst (upshift_auto_phase_target ?s ls i current w voltage now) = None"
    using up_none by (simp add: upshift_none_iff)
  then have "upshift_auto_phase_target ?s ls i current w voltage now = (None, ?s)"
    by (metis prod.collapse upshift_none_state)
  then show ?thesis
    using assms(4) True i w up \<open>d = None\<close> \<open>u = s\<close> downshift_congruent [of ?s s ls current i w voltage]
    by (simp add: auto_phase_target_selection_def surplus_auto_phase_target_def split: option.splits)
qed

definition low_surplus_svc :: phase_svc where
  "low_surplus_svc = sample_svc\<lparr>ps_requested := Some P1_P2, ps_surplus := Some 500\<rparr>"

theorem downshift_ignores_mismatches_witness:
  "fst (auto_phase_target_selection (with_mismatch_state low_surplus_svc (Some ''P1'') (Some 5000) (Some ''P1'') (Some 99))
     [P1, P1_P2] P1_P2 True True 230 100) = Inr (Some P1, ''phase-downshift'', Some 2610)"
proof (rule downshift_ignores_mismatches)
  show "fst (auto_phase_target_selection low_surplus_svc [P1, P1_P2] P1_P2 True True 230 100)
      = Inr (Some P1, ''phase-downshift'', Some 2610)"
    by code_simp
qed (simp_all add: less_eq_phase_def less_phase_def)

lemma report_engages:
  assumes "0 < phase_switch_lockout_threshold s" "0 < phase_switch_lockout_seconds s"
    "phase_switch_lockout_threshold s \<le> count_of (ps_mismatch_counts s) p + 1"
  shows "ps_lockout_sel (report_phase_switch_mismatch s p now) = Some (phase_text p)
    \<and> ps_lockout_until (report_phase_switch_mismatch s p now) = Some (now + phase_switch_lockout_seconds s)"
proof -
  obtain n s1 where r: "remember_phase_switch_mismatch s p now = (n, s1)"
    by (cases "remember_phase_switch_mismatch s p now")
  have n: "n = count_of (ps_mismatch_counts s) p + 1" "ps_policy s1 = ps_policy s"
    using remember_count(1) [of s p now] remember_frame(1) [of s p now] r by simp_all
  then have same: "phase_switch_lockout_threshold s1 = phase_switch_lockout_threshold s"
    "phase_switch_lockout_seconds s1 = phase_switch_lockout_seconds s"
    by (simp_all add: phase_switch_lockout_threshold_def phase_switch_lockout_seconds_def)
  have "phase_switch_lockout_active_for (engage_phase_switch_lockout s1 p now) now (Some p)
      = (True, engage_phase_switch_lockout s1 p now)"
    using engage_then_active [of s1 now now p] assms(2) same by simp
  then show ?thesis
    using assms n same
    by (simp add: report_phase_switch_mismatch_def r engage_phase_switch_lockout_def Let_def not_le)
qed



text \<open>
  No oscillation: after a shift up decided at some surplus, the same surplus does not decide a
  shift down from the new layout, for every policy whose headroom and margin are not negative.
\<close>

theorem phase_hysteresis:
  assumes "sorted ls" "distinct ls" "index_of current ls = Some i"
    and "0 \<le> pp_upshift_headroom (ps_policy s)" "0 \<le> pp_downshift_margin (ps_policy s)"
    and "upshift_auto_phase_target s ls i current surplus voltage now = (Some (Some target, reason, th), s')"
  shows "downshift_auto_phase_target s ls target (i + 1) surplus voltage = None"
proof (rule ccontr)
  assume "downshift_auto_phase_target s ls target (i + 1) surplus voltage \<noteq> None"
  then obtain t r th' where "downshift_auto_phase_target s ls target (i + 1) surplus voltage = Some (t, r, th')"
    by (cases "downshift_auto_phase_target s ls target (i + 1) surplus voltage") auto
  from downshift_when [OF this] upshift_unblocked [OF assms(6)]
  obtain m where "phase_selection_min_surplus_watts s target voltage = Some m"
    "m + pp_upshift_headroom (ps_policy s) \<le> surplus" "surplus < max 0 (m - pp_downshift_margin (ps_policy s))"
    by auto
  moreover from this(1) have "0 < m" by (rule min_surplus_pos)
  ultimately show False using assms(4,5) by (auto simp: max_def split: if_splits)
qed

theorem phase_hysteresis_witness:
  "downshift_auto_phase_target sample_svc [P1, P1_P2, P1_P2_P3] P1_P2 1 6000 230 = None"
proof -
  let ?u = "upshift_auto_phase_target sample_svc [P1, P1_P2, P1_P2_P3] 0 P1 6000 230 0"
  have "fst ?u = Some (Some P1_P2, ''phase-upshift'', Some 3010)" by code_simp
  then have "?u = (Some (Some P1_P2, ''phase-upshift'', Some 3010), snd ?u)" by (metis prod.collapse)
  from phase_hysteresis [OF _ _ _ _ _ this] show ?thesis
    by (simp add: less_eq_phase_def sample_svc_def sample_policy_def)
qed

text \<open>
  A save that raises right after the hardware accepted the new layout is treated like a
  refused switch: the cycle ends the pending state and asks for the previously active layout again,
  although the hardware was switched.
\<close>

theorem failed_save_reverts_applied_switch:
  assumes "phase_switch_wf s" "ps_switch_state s = Some waiting_state" "pending_selection s = Some p"
    and "phase_switch_pause_elapsed s now" and "pe_pending_relay env = None"
    and "pe_apply env p = Inr p" and "pe_save env = Some e" and "e \<in> set phase_switch_runtime_apply_errors"
    and "ps_active s = Some old"
    and "t = snd (orchestrate_pending_phase_switch env s pm (False, w, c, True) now auto_mode)"
  shows "switch_cleared t \<and> ApplyPhase p \<in> set (ps_log t) \<and> ps_requested t = Some old \<and> ps_active t = Some old"
proof -
  have st: "switch_state_text s = waiting_state" using assms(2) by (simp add: switch_state_text_def)
  obtain x where run: "orchestrate_pending_phase_switch env s pm (False, w, c, True) now auto_mode = (x, t)"
    using assms(10) by (cases "orchestrate_pending_phase_switch env s pm (False, w, c, True) now auto_mode") simp
  have "orchestrate_waiting_phase_switch env s p (False, w, c, True) now auto_mode = (x, t)"
    using run assms(3) st by (simp add: orchestrate_pending_phase_switch_def state_active_def)
  then show ?thesis
  proof (cases rule: waiting_outcome)
    case (aborted f u)
    from aborted(2) show ?thesis
    proof (cases rule: apply_pending_outcome)
      case (switched q)
      from aborted(3) obtain y where ab: "abort_pending_phase_switch env u (False, w, c, True) auto_mode = (y, t)"
        by (auto simp: and_then_cases)
      have "ApplyPhase p \<in> set (ps_log t)"
        using abort_pending_log [OF ab] switched by auto
      with abort_pending_cleared [OF ab] switched assms(9) show ?thesis by simp
    qed (use assms(6) in simp)
  next
    case (escaped f)
    from escaped(2) have "f = e"
      by (cases rule: apply_pending_outcome) (use assms(6,7) in auto)
    with escaped(4) assms(8) show ?thesis by simp
  qed (use assms(4,5,7) in \<open>auto simp: phase_switch_waiting_ready_def phase_switch_waiting_blocked_def\<close>)
qed

theorem failed_save_reverts_applied_switch_witness:
  "ps_requested (snd (orchestrate_pending_phase_switch (sample_env\<lparr>pe_save := Some RuntimeErr\<rparr>) staged_svc None
      (False, 0, 0, True) 101 True)) = Some P1"
  using failed_save_reverts_applied_switch [of staged_svc P1_P2 101 "sample_env\<lparr>pe_save := Some RuntimeErr\<rparr>"
      RuntimeErr P1 _ None 0 0 True, OF staged_wf _ _ _ _ _ _ _ _ refl]
  by (simp add: phase_eval phase_switch_runtime_apply_errors_def)

end
