(* ===== verification/Auto_Policy.thy ===== *)
theory Auto_Policy
  imports Phase_Mismatch
begin

text \<open>
  The Auto policy objects of \<open>venus_evcharger/auto/policy.py\<close>: surplus thresholds per SOC profile,
  the smoothing policy of the stop side, the learned-power policy, and the clamping each applies to
  invalid settings.  The log warnings of the clamping routines are not modelled.  The volatility the
  smoothing policy looks at is a standard deviation; it is carried as its square (the variance), and
  \<open>root_le\<close> and \<open>root_ge\<close> compare its square root with a number.
\<close>

section \<open>Records\<close>

record threshold_profile =
  tp_start :: watts
  tp_stop :: watts

record ewma_policy =
  ew_base :: rat
  ew_stable :: rat
  ew_volatile :: rat
  ew_low :: watts
  ew_high :: watts

record learn_policy =
  lp_enabled :: bool
  lp_reference :: watts
  lp_min :: watts
  lp_alpha :: rat
  lp_start_delay :: secs
  lp_window :: secs
  lp_max_age :: secs

record auto_policy =
  ap_normal :: threshold_profile
  ap_high_soc :: threshold_profile
  ap_high_soc_threshold :: rat
  ap_high_soc_release :: rat
  ap_min_soc :: rat
  ap_resume_soc :: rat
  ap_ev_priority_soc :: rat
  ap_ev_priority_release :: rat
  ap_start_max_grid :: watts
  ap_stop_grid :: watts
  ap_grid_recovery :: secs
  ap_stop_surplus_delay :: secs
  ap_ewma :: ewma_policy
  ap_learn :: learn_policy
  ap_phase :: auto_phase_policy

section \<open>Clamping\<close>

definition threshold_profile_clamp :: "threshold_profile \<Rightarrow> threshold_profile" where
  "threshold_profile_clamp p = (if tp_stop p \<le> tp_start p then p else p\<lparr>tp_stop := tp_start p\<rparr>)"

definition clamp_fraction :: "rat \<Rightarrow> rat \<Rightarrow> rat" where
  "clamp_fraction v dflt = (if 0 < v \<and> v \<le> 1 then v else dflt)"

definition ewma_policy_clamp :: "ewma_policy \<Rightarrow> ewma_policy" where
  "ewma_policy_clamp p =
    (let low = (if ew_low p < 0 then 0 else ew_low p);
         high0 = (if ew_high p < 0 then 0 else ew_high p);
         high = (if high0 < low then low else high0)
     in p\<lparr>ew_base := clamp_fraction (ew_base p) (35/100),
          ew_stable := clamp_fraction (ew_stable p) (55/100),
          ew_volatile := clamp_fraction (ew_volatile p) (15/100),
          ew_low := low, ew_high := high\<rparr>)"

definition learn_policy_clamp :: "learn_policy \<Rightarrow> learn_policy" where
  "learn_policy_clamp p = p\<lparr>
     lp_reference := (if lp_reference p \<le> 0 then 1900 else lp_reference p),
     lp_min := clamp_non_negative (lp_min p),
     lp_alpha := clamp_fraction (lp_alpha p) (2/10),
     lp_start_delay := clamp_non_negative (lp_start_delay p),
     lp_window := clamp_non_negative (lp_window p),
     lp_max_age := clamp_non_negative (lp_max_age p)\<rparr>"

definition clamp_percentage :: "rat \<Rightarrow> rat" where
  "clamp_percentage v = (if 0 \<le> v \<and> v \<le> 100 then v else min 100 (max 0 v))"

definition auto_policy_clamp :: "auto_policy \<Rightarrow> auto_policy" where
  "auto_policy_clamp p =
    (let min_soc = clamp_percentage (ap_min_soc p);
         resume0 = clamp_percentage (ap_resume_soc p);
         ev0 = clamp_percentage (ap_ev_priority_soc p);
         ev_release0 = clamp_percentage (ap_ev_priority_release p);
         high = clamp_percentage (ap_high_soc_threshold p);
         high_release0 = clamp_percentage (ap_high_soc_release p)
     in p\<lparr>ap_min_soc := min_soc,
          ap_resume_soc := (if resume0 < min_soc then min_soc else resume0),
          ap_ev_priority_soc := ev0,
          ap_ev_priority_release := (if ev_release0 > ev0 then ev0 else ev_release0),
          ap_high_soc_threshold := high,
          ap_high_soc_release := (if high_release0 > high then high else high_release0),
          ap_grid_recovery := clamp_non_negative (ap_grid_recovery p),
          ap_stop_surplus_delay := clamp_non_negative (ap_stop_surplus_delay p),
          ap_normal := threshold_profile_clamp (ap_normal p),
          ap_high_soc := threshold_profile_clamp (ap_high_soc p),
          ap_ewma := ewma_policy_clamp (ap_ewma p),
          ap_learn := learn_policy_clamp (ap_learn p),
          ap_phase := auto_phase_policy_clamp (ap_phase p)\<rparr>)"

section \<open>Profile selection and adaptive smoothing\<close>

definition resolved_high_soc_active :: "auto_policy \<Rightarrow> rat \<Rightarrow> bool option \<Rightarrow> bool" where
  "resolved_high_soc_active p soc was_active =
    (case was_active of None \<Rightarrow> soc > ap_high_soc_threshold p
     | Some True \<Rightarrow> soc \<ge> ap_high_soc_release p
     | Some False \<Rightarrow> soc > ap_high_soc_threshold p)"

definition resolve_threshold_profile ::
  "auto_policy \<Rightarrow> rat \<Rightarrow> bool option \<Rightarrow> threshold_profile \<times> bool \<times> string" where
  "resolve_threshold_profile p soc was_active =
    (if resolved_high_soc_active p soc was_active then (ap_high_soc p, True, ''high-soc'')
     else (ap_normal p, False, ''normal''))"

definition root_le :: "rat \<Rightarrow> rat \<Rightarrow> bool" where
  "root_le v x \<longleftrightarrow> 0 \<le> x \<and> v \<le> x * x"

definition root_ge :: "rat \<Rightarrow> rat \<Rightarrow> bool" where
  "root_ge v x \<longleftrightarrow> x \<le> 0 \<or> x * x \<le> v"

definition adaptive_alpha :: "ewma_policy \<Rightarrow> rat option \<Rightarrow> rat \<times> string \<times> rat option" where
  "adaptive_alpha p variance =
    (case variance of None \<Rightarrow> (ew_base p, ''base'', None)
     | Some v \<Rightarrow>
        if root_le v (ew_low p) then (ew_stable p, ''stable'', Some v)
        else if root_ge v (ew_high p) then (ew_volatile p, ''volatile'', Some v)
        else (ew_base p, ''medium'', Some v))"

section \<open>Facts\<close>

lemma root_le_real: "0 \<le> v \<Longrightarrow> root_le v x \<longleftrightarrow> sqrt (of_rat v) \<le> of_rat x"
proof -
  assume v: "0 \<le> v"
  have "sqrt (of_rat v) \<le> of_rat x \<longleftrightarrow> 0 \<le> (of_rat x :: real) \<and> of_rat v \<le> (of_rat x :: real)\<^sup>2"
    using v by (metis order_trans real_sqrt_ge_zero real_sqrt_le_iff real_sqrt_pow2 real_sqrt_unique
        real_sqrt_le_mono zero_le_of_rat_iff)
  then show ?thesis
    by (simp add: root_le_def power2_eq_square of_rat_less_eq flip: of_rat_mult)
qed

lemma root_ge_real: "0 \<le> v \<Longrightarrow> root_ge v x \<longleftrightarrow> of_rat x \<le> sqrt (of_rat v)"
proof -
  assume v: "0 \<le> v"
  have "of_rat x \<le> sqrt (of_rat v) \<longleftrightarrow> (of_rat x :: real) \<le> 0 \<or> (of_rat x :: real)\<^sup>2 \<le> of_rat v"
    using v by (smt (verit) real_le_rsqrt real_sqrt_ge_zero real_sqrt_pow2 sqrt_ge_absD zero_le_of_rat_iff)
  then show ?thesis
    by (simp add: root_ge_def power2_eq_square of_rat_less_eq flip: of_rat_mult)
qed

text \<open>What a clamped policy promises.\<close>

definition fraction :: "rat \<Rightarrow> bool" where "fraction a \<longleftrightarrow> 0 < a \<and> a \<le> 1"

definition percentage :: "rat \<Rightarrow> bool" where "percentage v \<longleftrightarrow> 0 \<le> v \<and> v \<le> 100"

definition auto_policy_ok :: "auto_policy \<Rightarrow> bool" where
  "auto_policy_ok p \<longleftrightarrow>
     percentage (ap_min_soc p) \<and> percentage (ap_resume_soc p) \<and> ap_min_soc p \<le> ap_resume_soc p
   \<and> percentage (ap_ev_priority_soc p) \<and> 0 \<le> ap_ev_priority_release p
   \<and> ap_ev_priority_release p \<le> ap_ev_priority_soc p
   \<and> percentage (ap_high_soc_threshold p) \<and> 0 \<le> ap_high_soc_release p
   \<and> ap_high_soc_release p \<le> ap_high_soc_threshold p
   \<and> 0 \<le> ap_grid_recovery p \<and> 0 \<le> ap_stop_surplus_delay p
   \<and> tp_stop (ap_normal p) \<le> tp_start (ap_normal p)
   \<and> tp_stop (ap_high_soc p) \<le> tp_start (ap_high_soc p)
   \<and> fraction (ew_base (ap_ewma p)) \<and> fraction (ew_stable (ap_ewma p)) \<and> fraction (ew_volatile (ap_ewma p))
   \<and> 0 \<le> ew_low (ap_ewma p) \<and> ew_low (ap_ewma p) \<le> ew_high (ap_ewma p)
   \<and> 0 < lp_reference (ap_learn p) \<and> 0 \<le> lp_min (ap_learn p) \<and> fraction (lp_alpha (ap_learn p))
   \<and> 0 \<le> lp_start_delay (ap_learn p) \<and> 0 \<le> lp_window (ap_learn p) \<and> 0 \<le> lp_max_age (ap_learn p)
   \<and> 0 \<le> pp_upshift_delay (ap_phase p) \<and> 0 \<le> pp_downshift_delay (ap_phase p)
   \<and> 0 \<le> pp_upshift_headroom (ap_phase p) \<and> 0 \<le> pp_downshift_margin (ap_phase p)
   \<and> 0 \<le> pp_mismatch_retry (ap_phase p) \<and> 0 \<le> pp_lockout_count (ap_phase p)
   \<and> 0 \<le> pp_lockout_seconds (ap_phase p)"

lemma clamp_fraction_ok [simp]: "fraction dflt \<Longrightarrow> fraction (clamp_fraction v dflt)"
  by (simp add: fraction_def clamp_fraction_def)

lemma clamp_fraction_id: "fraction v \<Longrightarrow> clamp_fraction v dflt = v"
  by (simp add: fraction_def clamp_fraction_def)

lemma clamp_percentage_ok [simp]: "percentage (clamp_percentage v)"
  by (simp add: percentage_def clamp_percentage_def)

lemma clamp_percentage_bounds [simp]: "0 \<le> clamp_percentage v" "clamp_percentage v \<le> 100"
  by (simp_all add: clamp_percentage_def)

lemma clamp_percentage_id: "percentage v \<Longrightarrow> clamp_percentage v = v"
  by (simp add: percentage_def clamp_percentage_def)

lemma clamp_non_negative_ok [simp]: "0 \<le> clamp_non_negative v"
  by (simp add: clamp_non_negative_def)

lemma clamp_non_negative_int_ok [simp]: "0 \<le> clamp_non_negative_int v"
  by (simp add: clamp_non_negative_int_def)

lemma clamp_non_negative_id: "0 \<le> v \<Longrightarrow> clamp_non_negative v = v"
  by (simp add: clamp_non_negative_def)

lemma clamp_non_negative_int_id: "0 \<le> v \<Longrightarrow> clamp_non_negative_int v = v"
  by (simp add: clamp_non_negative_int_def)

lemma ewma_clamp_ok:
  "fraction (ew_base (ewma_policy_clamp p))" "fraction (ew_stable (ewma_policy_clamp p))"
  "fraction (ew_volatile (ewma_policy_clamp p))"
  "0 \<le> ew_low (ewma_policy_clamp p)" "ew_low (ewma_policy_clamp p) \<le> ew_high (ewma_policy_clamp p)"
  by (auto simp: ewma_policy_clamp_def Let_def clamp_fraction_def fraction_def)

lemma profile_clamp_ok: "tp_stop (threshold_profile_clamp p) \<le> tp_start (threshold_profile_clamp p)"
  by (simp add: threshold_profile_clamp_def)

lemma adaptive_alpha_fraction:
  assumes "fraction (ew_base p)" "fraction (ew_stable p)" "fraction (ew_volatile p)"
  shows "fraction (fst (adaptive_alpha p v))"
  using assms by (auto simp: adaptive_alpha_def split: option.splits)

text \<open>
  Clamping turns every policy into a valid one: percentages within 0..100, release and stop
  thresholds at or below the thresholds they belong to, smoothing factors in (0, 1], nothing negative;
  a policy that is valid already is left as it is.
\<close>

theorem auto_policy_clamp_sound:
  "auto_policy_ok (auto_policy_clamp p) \<and> (auto_policy_ok p \<longrightarrow> auto_policy_clamp p = p)"
proof
  show "auto_policy_ok (auto_policy_clamp p)"
    using ewma_clamp_ok [of "ap_ewma p"]
    by (simp add: auto_policy_clamp_def auto_policy_ok_def Let_def profile_clamp_ok percentage_def
        learn_policy_clamp_def auto_phase_policy_clamp_def fraction_def clamp_fraction_def)
  show "auto_policy_ok p \<longrightarrow> auto_policy_clamp p = p"
    by (auto simp: auto_policy_clamp_def auto_policy_ok_def Let_def clamp_percentage_id clamp_non_negative_id
        clamp_non_negative_int_id clamp_fraction_id percentage_def threshold_profile_clamp_def
        ewma_policy_clamp_def learn_policy_clamp_def auto_phase_policy_clamp_def)
qed

definition default_auto_policy :: auto_policy where
  "default_auto_policy = \<lparr>
     ap_normal = \<lparr>tp_start = 1500, tp_stop = 1100\<rparr>, ap_high_soc = \<lparr>tp_start = 1500, tp_stop = 1100\<rparr>,
     ap_high_soc_threshold = 50, ap_high_soc_release = 50, ap_min_soc = 30, ap_resume_soc = 33,
     ap_ev_priority_soc = 40, ap_ev_priority_release = 38, ap_start_max_grid = 50, ap_stop_grid = 300,
     ap_grid_recovery = 10, ap_stop_surplus_delay = 10,
     ap_ewma = \<lparr>ew_base = 35/100, ew_stable = 55/100, ew_volatile = 15/100, ew_low = 150, ew_high = 400\<rparr>,
     ap_learn = \<lparr>lp_enabled = True, lp_reference = 1900, lp_min = 500, lp_alpha = 2/10,
       lp_start_delay = 30, lp_window = 180, lp_max_age = 21600\<rparr>,
     ap_phase = \<lparr>pp_enabled = True, pp_upshift_delay = 120, pp_downshift_delay = 30,
       pp_upshift_headroom = 250, pp_downshift_margin = 150, pp_mismatch_retry = 300,
       pp_lockout_count = 3, pp_lockout_seconds = 1800, pp_prefer_lowest_when_idle = True\<rparr>\<rparr>"

theorem auto_policy_clamp_sound_witness: "auto_policy_clamp default_auto_policy = default_auto_policy"
  using auto_policy_clamp_sound [of default_auto_policy]
  by (simp add: auto_policy_ok_def default_auto_policy_def percentage_def fraction_def)

end
