(* ===== verification/Auto_State.thy ===== *)
theory Auto_State
  imports Auto_Policy Relay_Sample
begin

text \<open>
  The state the Auto decision works on, and how it is reported outward: health codes and broad states
  (\<open>core/common_types.py\<close>, \<open>core/common_auto.py\<close>), the decision trace (\<open>core/contracts_snapshot.py\<close>,
  \<open>core/contracts_outward.py\<close>), the service attributes the Auto components share, the port they
  act through (\<open>ports/auto.py\<close>), and the sample tracker (\<open>auto/logic_samples.py\<close>).

  The metrics dictionary is a record of its decision-relevant keys; values copied through from the
  battery activity are not kept.  The clock is read once per decision (\<open>ai_now\<close>).  Saves and audit
  events are appended to \<open>au_log\<close>.
\<close>

section \<open>Health codes and broad states\<close>

definition health_codes :: "(string \<times> int) list" where
  "health_codes =
    [(''init'', 0), (''inputs-missing'', 1), (''battery-soc-missing'', 2), (''battery-soc-missing-allowed'', 3),
     (''averaging'', 4), (''running'', 5), (''waiting'', 6), (''auto-start'', 7), (''auto-stop'', 8),
     (''night-lock'', 9), (''inputs-cached'', 10), (''shelly-offline'', 11), (''autostart-disabled'', 12),
     (''warmup'', 13), (''manual-override'', 14), (''waiting-offtime'', 15), (''waiting-daytime'', 16),
     (''waiting-surplus'', 17), (''waiting-grid'', 18), (''waiting-soc'', 19), (''disabled'', 20),
     (''grid-missing'', 21), (''mode-transition'', 22), (''waiting-grid-recovery'', 23),
     (''command-mismatch'', 24), (''relay-sync-failed'', 25), (''charger-fault'', 26),
     (''phase-switch-mismatch'', 27), (''contactor-interlock'', 28), (''contactor-feedback-mismatch'', 29),
     (''contactor-suspected-open'', 30), (''contactor-suspected-welded'', 31),
     (''contactor-lockout-open'', 32), (''contactor-lockout-welded'', 33), (''charger-transport-busy'', 34),
     (''charger-transport-ownership'', 35), (''charger-transport-timeout'', 36),
     (''charger-transport-offline'', 37), (''charger-transport-response'', 38),
     (''charger-transport-error'', 39), (''scheduled-night-charge'', 40), (''not-configured'', 41)]"

definition auto_state_codes :: "(string \<times> int) list" where
  "auto_state_codes = [(''idle'', 0), (''waiting'', 1), (''learning'', 2), (''charging'', 3),
     (''blocked'', 4), (''recovery'', 5)]"

definition recovery_auto_reasons :: "string list" where
  "recovery_auto_reasons =
    [''inputs-missing'', ''battery-soc-missing'', ''battery-soc-missing-allowed'', ''grid-missing'',
     ''waiting-grid-recovery'', ''shelly-offline'', ''charger-fault'', ''command-mismatch'',
     ''relay-sync-failed'', ''phase-switch-mismatch'', ''contactor-feedback-mismatch'',
     ''contactor-suspected-open'', ''contactor-suspected-welded'', ''contactor-lockout-open'',
     ''contactor-lockout-welded'', ''charger-transport-busy'', ''charger-transport-ownership'',
     ''charger-transport-timeout'', ''charger-transport-offline'', ''charger-transport-response'',
     ''charger-transport-error'']"

definition blocked_auto_reasons :: "string list" where
  "blocked_auto_reasons =
    [''not-configured'', ''disabled'', ''autostart-disabled'', ''warmup'', ''manual-override'',
     ''waiting-offtime'', ''waiting-daytime'', ''waiting-grid'', ''waiting-soc'', ''night-lock'',
     ''mode-transition'', ''contactor-interlock'']"

definition charging_auto_reasons :: "string list" where
  "charging_auto_reasons = [''running'', ''auto-start'', ''auto-stop'', ''scheduled-night-charge'']"

definition waiting_auto_reasons :: "string list" where
  "waiting_auto_reasons = [''waiting'', ''waiting-surplus'', ''averaging'']"

definition evse_fault_health_reasons :: "string list" where
  "evse_fault_health_reasons = [''charger-fault'', ''contactor-feedback-mismatch'',
     ''contactor-lockout-open'', ''contactor-lockout-welded'']"

text \<open>\<open>str.replace(sub, "")\<close> for a non-empty \<open>sub\<close>: the counter skips the rest of a match.\<close>

fun py_remove :: "string \<Rightarrow> nat \<Rightarrow> string \<Rightarrow> string" where
  "py_remove sub n [] = []"
| "py_remove sub (Suc n) (c # cs) = py_remove sub n cs"
| "py_remove sub 0 (c # cs) =
    (if take (length sub) (c # cs) = sub then py_remove sub (length sub - 1) cs
     else c # py_remove sub 0 cs)"

definition health_code :: "string \<Rightarrow> int" where
  "health_code reason = (case map_of health_codes reason of None \<Rightarrow> 99 | Some n \<Rightarrow> n)"

definition normalize_auto_state :: "string option \<Rightarrow> string" where
  "normalize_auto_state state =
    (case state of None \<Rightarrow> ''idle''
     | Some text \<Rightarrow> let n = py_lower (py_strip text) in
         if map_of auto_state_codes n \<noteq> None then n else ''idle'')"

definition auto_state_code :: "string option \<Rightarrow> int" where
  "auto_state_code state = the (map_of auto_state_codes (normalize_auto_state state))"

definition base_auto_reason :: "string option \<Rightarrow> string" where
  "base_auto_reason reason = (case reason of None \<Rightarrow> ''init'' | Some text \<Rightarrow> py_remove ''-cached'' 0 text)"

definition evse_fault_reason :: "string option \<Rightarrow> string option" where
  "evse_fault_reason reason =
    (let normalized = base_auto_reason reason in
     if normalized \<in> set evse_fault_health_reasons then Some normalized else None)"

definition normalized_learning_hint :: "string option \<Rightarrow> string" where
  "normalized_learning_hint hint = (case hint of None \<Rightarrow> ''unknown'' | Some text \<Rightarrow> py_lower (py_strip text))"

definition relay_on_auto_state :: "string \<Rightarrow> string" where
  "relay_on_auto_state learned = (if learned = ''learning'' then ''learning'' else ''charging'')"

definition reason_resolved_auto_state :: "string \<Rightarrow> bool \<Rightarrow> string \<Rightarrow> string" where
  "reason_resolved_auto_state from_reason relay_on learned =
    (if from_reason = ''charging''
     then (if relay_on \<and> learned = ''learning'' then ''learning'' else ''charging'')
     else from_reason)"

definition reason_auto_state :: "string \<Rightarrow> string option" where
  "reason_auto_state base =
    (if base = ''init'' then Some ''idle''
     else if base \<in> set recovery_auto_reasons then Some ''recovery''
     else if base \<in> set blocked_auto_reasons then Some ''blocked''
     else if base \<in> set charging_auto_reasons then Some ''charging''
     else if base \<in> set waiting_auto_reasons then Some ''waiting'' else None)"

definition derive_auto_state :: "string option \<Rightarrow> bool \<Rightarrow> string option \<Rightarrow> string" where
  "derive_auto_state reason relay_on hint =
    (let base = base_auto_reason reason; learned = normalized_learning_hint hint in
     case reason_auto_state base of
       Some st \<Rightarrow> reason_resolved_auto_state st relay_on learned
     | None \<Rightarrow> if relay_on then relay_on_auto_state learned else ''idle'')"

definition learned_charge_power_states :: "string list" where
  "learned_charge_power_states = [''unknown'', ''learning'', ''stable'', ''stale'']"

definition normalize_learning_state :: "string option \<Rightarrow> string" where
  "normalize_learning_state v =
    (case v of None \<Rightarrow> ''unknown''
     | Some text \<Rightarrow> let st = py_lower (py_strip text) in
         if st \<in> set learned_charge_power_states then st else ''unknown'')"

definition thresholds_ordered :: "watts option \<Rightarrow> watts option \<Rightarrow> bool" where
  "thresholds_ordered start stop =
    (case (start, stop) of (Some a, Some b) \<Rightarrow> 0 \<le> a \<and> 0 \<le> b \<and> b \<le> a | _ \<Rightarrow> False)"

definition timestamp_age_within :: "secs option \<Rightarrow> secs \<Rightarrow> secs \<Rightarrow> secs \<Rightarrow> bool" where
  "timestamp_age_within timestamp now max_age tolerance =
    (case timestamp of None \<Rightarrow> False | Some t \<Rightarrow> - tolerance \<le> now - t \<and> now - t \<le> max_age)"

section \<open>The service attributes\<close>

record auto_metrics =
  am_surplus :: "watts option"
  am_grid :: "watts option"
  am_raw_surplus :: "watts option"
  am_before_penalty :: "watts option"
  am_raw_grid :: "watts option"
  am_soc :: "rat option"
  am_profile :: "string option"
  am_start :: "watts option"
  am_stop :: "watts option"
  am_learned_power :: "watts option"
  am_learned_state :: "string option"
  am_scale :: "rat option"
  am_mode :: "string option"
  am_alpha :: "rat option"
  am_stage :: "string option"
  am_variance :: "rat option"
  am_penalty :: "watts option"
  am_unadjusted_penalty :: "watts option"
  am_near_term :: "watts option"
  am_ev_active :: "int option"
  am_ev_credit :: "watts option"
  am_ev_available :: "watts option"
  am_ev_reclaimable :: "watts option"
  am_ev_load :: "watts option"
  am_relay_intent :: "int option"
  am_state :: "string option"

text \<open>Time of day in minutes; the windows of a month are its start and end hour and minute.\<close>

type_synonym month_windows = "(nat \<times> ((int \<times> int) \<times> (int \<times> int))) list"

record auto_cfg =
  cf_policy :: auto_policy
  cf_start_delay :: secs
  cf_stop_delay :: secs
  cf_min_runtime :: secs
  cf_min_offtime :: secs
  cf_average_window :: secs
  cf_grid_missing_stop :: secs
  cf_warmup :: secs
  cf_daytime_only :: bool
  cf_night_lock :: bool
  cf_allow_without_soc :: bool
  cf_battery_scan :: secs
  cf_month_windows :: month_windows
  cf_audit :: bool

datatype auto_effect = SaveRuntime | AuditEvent string bool | WarnSoc

record auto_svc =
  au_start_since :: "secs option"
  au_stop_since :: "secs option"
  au_stop_reason :: "string option"
  au_samples :: "(secs \<times> watts \<times> watts) list"
  au_smooth_surplus :: "watts option"
  au_smooth_grid :: "watts option"
  au_relay_changed_at :: "secs option"
  au_relay_off_at :: "secs option"
  au_started_at :: secs
  au_override_until :: secs
  au_grid_at :: "secs option"
  au_recovery_required :: bool
  au_recovery_since :: "secs option"
  au_allow_warning :: "secs option"
  au_high_soc :: "bool option"
  au_ev_priority :: bool
  au_learned_state :: "string option"
  au_learned_power :: "watts option"
  au_learned_at :: "secs option"
  au_cutover_pending :: bool
  au_ignore_offtime :: bool
  au_metrics :: auto_metrics
  au_reason :: string
  au_code :: int
  au_state :: string
  au_state_code :: int
  au_log :: "auto_effect list"

text \<open>
  What one decision reads from outside: the clock, mode and switches, local time of day, whether the
  schedule wants the night boost, the relay command in flight, the confirmed relay sample, and the
  battery activity figures.
\<close>

record battery_activity =
  ba_surplus_penalty :: "watts option"
  ba_charge_penalty :: "watts option"
  ba_charge_power :: "watts option"
  ba_expected_export :: "watts option"
  ba_expected_import :: "watts option"

record auto_in =
  ai_now :: secs
  ai_mode :: int
  ai_enabled :: bool
  ai_autostart :: bool
  ai_month :: nat
  ai_minutes :: int
  ai_night_boost :: bool
  ai_pending_relay :: "bool option"
  ai_relay :: confirmed_relay
  ai_sync_requested_at :: "secs option"
  ai_activity :: battery_activity
  ai_charging_power :: watts
  ai_cached :: bool

section \<open>The port\<close>

definition log_auto :: "auto_effect \<Rightarrow> auto_svc \<Rightarrow> auto_svc" where
  "log_auto e s = s\<lparr>au_log := au_log s @ [e]\<rparr>"

definition clear_minimum_offtime_bypass :: "auto_svc \<Rightarrow> auto_svc" where
  "clear_minimum_offtime_bypass s = s\<lparr>au_ignore_offtime := False\<rparr>"

definition reset_mode_cutover :: "auto_svc \<Rightarrow> auto_svc" where
  "reset_mode_cutover s = s\<lparr>au_cutover_pending := False, au_ignore_offtime := False\<rparr>"

definition complete_mode_cutover :: "auto_svc \<Rightarrow> auto_svc" where
  "complete_mode_cutover s = s\<lparr>au_cutover_pending := False, au_ignore_offtime := True\<rparr>"

definition normalize_mode :: "int \<Rightarrow> int" where
  "normalize_mode m = (if m = 1 then 1 else if m = 2 then 2 else 0)"

definition mode_uses_auto_logic :: "int \<Rightarrow> bool" where
  "mode_uses_auto_logic m \<longleftrightarrow> normalize_mode m \<in> {1, 2}"

definition mode_uses_scheduled_logic :: "int \<Rightarrow> bool" where
  "mode_uses_scheduled_logic m \<longleftrightarrow> normalize_mode m = 2"

section \<open>The decision trace\<close>

definition sanitized_auto_metrics :: "auto_metrics \<Rightarrow> auto_metrics" where
  "sanitized_auto_metrics m =
    (let soc = (case am_soc m of Some v \<Rightarrow> if 0 \<le> v \<and> v \<le> 100 then Some v else None | None \<Rightarrow> None);
         power = (case am_learned_power m of Some v \<Rightarrow> if 0 \<le> v then Some v else None | None \<Rightarrow> None);
         lstate = (case am_learned_state m of None \<Rightarrow> None | Some t \<Rightarrow> Some (normalize_learning_state (Some t)));
         ok = thresholds_ordered (am_start m) (am_stop m)
     in m\<lparr>am_soc := soc, am_learned_power := power, am_learned_state := lstate,
          am_start := (if ok then am_start m else None), am_stop := (if ok then am_stop m else None)\<rparr>)"

definition apply_decision_trace :: "auto_svc \<Rightarrow> string \<Rightarrow> bool \<Rightarrow> bool \<Rightarrow> auto_svc" where
  "apply_decision_trace s reason cached relay_intent =
    (let base = py_remove ''-cached'' 0 reason;
         m = sanitized_auto_metrics (au_metrics s);
         learned = (case am_learned_state m of None \<Rightarrow> normalize_learning_state (au_learned_state s) | Some t \<Rightarrow> t);
         state = normalize_auto_state (Some (derive_auto_state (Some base) relay_intent (Some learned)))
     in s\<lparr>au_reason := (if cached then base @ ''-cached'' else base),
          au_code := health_code base + (if cached then 100 else 0),
          au_state := state,
          au_state_code := auto_state_code (Some state),
          au_metrics := m\<lparr>am_relay_intent := Some (if relay_intent then 1 else 0), am_state := Some state\<rparr>\<rparr>)"

definition set_health :: "auto_cfg \<Rightarrow> auto_svc \<Rightarrow> string \<Rightarrow> bool \<Rightarrow> bool \<Rightarrow> auto_svc" where
  "set_health cfg s reason cached relay_intent =
    (let s1 = apply_decision_trace s reason cached relay_intent
     in if cf_audit cfg then log_auto (AuditEvent reason cached) s1 else s1)"

definition set_auto_state :: "auto_svc \<Rightarrow> string \<Rightarrow> auto_svc" where
  "set_auto_state s state = s\<lparr>au_state := state, au_state_code := auto_state_code (Some state),
     au_metrics := (au_metrics s)\<lparr>am_state := Some state\<rparr>\<rparr>"

section \<open>The sample tracker\<close>

definition get_available_surplus_watts :: "watts \<Rightarrow> watts \<Rightarrow> watts" where
  "get_available_surplus_watts pv grid = min (max 0 pv) (max 0 (- grid))"

definition add_auto_sample :: "auto_cfg \<Rightarrow> auto_svc \<Rightarrow> secs \<Rightarrow> watts \<Rightarrow> watts \<Rightarrow> auto_svc" where
  "add_auto_sample cfg s now surplus grid =
    (let cutoff = now - cf_average_window cfg
     in s\<lparr>au_samples := dropWhile (\<lambda>(t, _). t < cutoff) (au_samples s @ [(now, surplus, grid)])\<rparr>)"

definition clear_auto_samples :: "auto_svc \<Rightarrow> auto_svc" where
  "clear_auto_samples s = s\<lparr>au_samples := [], au_smooth_surplus := None, au_smooth_grid := None\<rparr>"

definition mean :: "rat list \<Rightarrow> rat" where
  "mean xs = sum_list xs / of_nat (length xs)"

definition average_auto_metric :: "auto_svc \<Rightarrow> (secs \<times> watts \<times> watts \<Rightarrow> watts) \<Rightarrow> watts option" where
  "average_auto_metric s field =
    (if au_samples s = [] then None else Some (mean (map field (au_samples s))))"

definition smooth_metric :: "watts option \<Rightarrow> watts \<Rightarrow> rat \<Rightarrow> watts" where
  "smooth_metric previous current alpha =
    (case previous of None \<Rightarrow> current | Some p \<Rightarrow> p + alpha * (current - p))"

text \<open>The square of the code's standard deviation.\<close>

definition stop_surplus_variance :: "auto_svc \<Rightarrow> rat option" where
  "stop_surplus_variance s =
    (if length (au_samples s) < 2 then None
     else let vs = map (\<lambda>(_, surplus, _). surplus) (au_samples s); m = mean vs
          in Some (mean (map (\<lambda>v. (v - m)\<^sup>2) vs)))"

definition adaptive_stop_alpha :: "auto_cfg \<Rightarrow> auto_svc \<Rightarrow> rat \<times> string \<times> rat option" where
  "adaptive_stop_alpha cfg s = adaptive_alpha (ap_ewma (cf_policy cfg)) (stop_surplus_variance s)"

definition mark_relay_changed :: "auto_svc \<Rightarrow> bool \<Rightarrow> secs \<Rightarrow> auto_svc" where
  "mark_relay_changed s relay_on changed_at =
    (let s1 = s\<lparr>au_relay_changed_at := Some changed_at\<rparr>
     in if relay_on then s1 else s1\<lparr>au_relay_off_at := Some changed_at\<rparr>)"

definition daytime_window_minutes_for_month :: "auto_cfg \<Rightarrow> nat \<Rightarrow> int \<times> int" where
  "daytime_window_minutes_for_month cfg month =
    (let ((sh, sm), (eh, em)) =
       (case map_of (cf_month_windows cfg) month of None \<Rightarrow> ((8, 0), (18, 0)) | Some w \<Rightarrow> w)
     in (sh * 60 + sm, eh * 60 + em))"

definition minutes_within_daytime_window :: "int \<Rightarrow> int \<Rightarrow> int \<Rightarrow> bool" where
  "minutes_within_daytime_window current start_minutes end_minutes =
    (let window_length = (end_minutes - start_minutes) mod 1440
     in window_length = 0 \<or> (current - start_minutes) mod 1440 < window_length)"

definition is_within_auto_daytime_window :: "auto_cfg \<Rightarrow> auto_in \<Rightarrow> bool" where
  "is_within_auto_daytime_window cfg i =
    (if \<not> cf_daytime_only cfg then True
     else let (st, en) = daytime_window_minutes_for_month cfg (ai_month i)
          in minutes_within_daytime_window (ai_minutes i) st en)"

definition scheduled_night_charge_active :: "auto_in \<Rightarrow> bool" where
  "scheduled_night_charge_active i \<longleftrightarrow> mode_uses_scheduled_logic (ai_mode i) \<and> ai_night_boost i"

definition reset_auto_state :: "auto_svc \<Rightarrow> auto_svc" where
  "reset_auto_state s = clear_auto_samples
     (s\<lparr>au_start_since := None, au_stop_since := None, au_stop_reason := None\<rparr>)"

definition clear_auto_start_tracking :: "auto_svc \<Rightarrow> bool \<Rightarrow> auto_svc" where
  "clear_auto_start_tracking s clear_samples =
    (let s1 = s\<lparr>au_start_since := None\<rparr> in if clear_samples then clear_auto_samples s1 else s1)"

definition clear_auto_stop_tracking :: "auto_svc \<Rightarrow> auto_svc" where
  "clear_auto_stop_tracking s = s\<lparr>au_stop_since := None, au_stop_reason := None\<rparr>"

definition set_health_result ::
  "auto_cfg \<Rightarrow> auto_svc \<Rightarrow> string \<Rightarrow> bool \<Rightarrow> bool \<Rightarrow> bool \<times> auto_svc" where
  "set_health_result cfg s reason cached result = (result, set_health cfg s reason cached result)"

definition idle_result_with_health :: "auto_cfg \<Rightarrow> auto_svc \<Rightarrow> string \<Rightarrow> bool \<Rightarrow> bool \<times> auto_svc" where
  "idle_result_with_health cfg s reason cached =
    set_health_result cfg (clear_auto_start_tracking s False) reason cached False"

definition running_result_with_health :: "auto_cfg \<Rightarrow> auto_svc \<Rightarrow> string \<Rightarrow> bool \<Rightarrow> bool \<times> auto_svc" where
  "running_result_with_health cfg s reason cached =
    set_health_result cfg (clear_auto_stop_tracking s) reason cached True"

end
