(* ===== verification/Auto_Learning.thy ===== *)
theory Auto_Learning
  imports Auto_State
begin

text \<open>
  Learned charge power and threshold scaling (\<open>venus_evcharger/auto/logic_learning.py\<close>): when the
  learned power is present, stable and fresh it scales the surplus thresholds linearly around the
  reference load; otherwise the configured thresholds hold.  \<open>round(x, 1)\<close> is rounding to one
  decimal, ties to even.
\<close>

definition py_round1 :: "rat \<Rightarrow> rat" where
  "py_round1 x = of_int (round_half_even (x * 10)) / 10"

definition positive_learned_charge_power :: "auto_svc \<Rightarrow> watts option" where
  "positive_learned_charge_power s =
    (case au_learned_power s of None \<Rightarrow> None | Some v \<Rightarrow> if v \<le> 0 then None else Some v)"

definition learned_charge_power_can_expire :: "auto_cfg \<Rightarrow> bool" where
  "learned_charge_power_can_expire cfg \<longleftrightarrow> 0 < lp_max_age (ap_learn (cf_policy cfg))"

definition learned_charge_power_missing_update_time :: "auto_svc \<Rightarrow> bool" where
  "learned_charge_power_missing_update_time s \<longleftrightarrow> au_learned_at s = None"

definition unknown_or_stale_learning_state :: "string \<Rightarrow> string" where
  "unknown_or_stale_learning_state st = (if st = ''unknown'' then ''unknown'' else ''stale'')"

definition learned_charge_power_age_seconds :: "auto_svc \<Rightarrow> secs \<Rightarrow> secs option" where
  "learned_charge_power_age_seconds s now = map_option (\<lambda>t. now - t) (au_learned_at s)"

definition learned_charge_power_expired :: "auto_cfg \<Rightarrow> auto_svc \<Rightarrow> secs \<Rightarrow> bool" where
  "learned_charge_power_expired cfg s now =
    (case learned_charge_power_age_seconds s now of None \<Rightarrow> True
     | Some age \<Rightarrow> age > lp_max_age (ap_learn (cf_policy cfg)))"

definition stale_learned_charge_power_state :: "auto_cfg \<Rightarrow> auto_svc \<Rightarrow> string \<Rightarrow> secs \<Rightarrow> string option" where
  "stale_learned_charge_power_state cfg s st now =
    (if \<not> learned_charge_power_can_expire cfg then None
     else if learned_charge_power_missing_update_time s then Some (unknown_or_stale_learning_state st)
     else if learned_charge_power_expired cfg s now then Some ''stale'' else None)"

definition current_learned_charge_power_state :: "auto_cfg \<Rightarrow> auto_svc \<Rightarrow> secs \<Rightarrow> string" where
  "current_learned_charge_power_state cfg s now =
    (let st = normalize_learning_state (au_learned_state s) in
     if positive_learned_charge_power s = None then ''unknown''
     else case stale_learned_charge_power_state cfg s st now of None \<Rightarrow> st | Some stale \<Rightarrow> stale)"

definition learned_charge_power_age_invalid_for_auto :: "auto_cfg \<Rightarrow> auto_svc \<Rightarrow> secs \<Rightarrow> bool" where
  "learned_charge_power_age_invalid_for_auto cfg s now \<longleftrightarrow>
    learned_charge_power_can_expire cfg
    \<and> (learned_charge_power_missing_update_time s \<or> learned_charge_power_expired cfg s now)"

definition learned_charge_power_inactive_for_auto ::
  "auto_cfg \<Rightarrow> auto_svc \<Rightarrow> watts option \<Rightarrow> secs \<Rightarrow> bool" where
  "learned_charge_power_inactive_for_auto cfg s learned now \<longleftrightarrow>
    \<not> lp_enabled (ap_learn (cf_policy cfg))
    \<or> current_learned_charge_power_state cfg s now \<noteq> ''stable''
    \<or> learned = None
    \<or> learned_charge_power_age_invalid_for_auto cfg s now"

definition active_learned_charge_power :: "auto_cfg \<Rightarrow> auto_svc \<Rightarrow> secs \<Rightarrow> watts option" where
  "active_learned_charge_power cfg s now =
    (let learned = positive_learned_charge_power s in
     if learned_charge_power_inactive_for_auto cfg s learned now then None else learned)"

definition learned_charge_power_scale :: "auto_cfg \<Rightarrow> auto_svc \<Rightarrow> secs \<Rightarrow> rat" where
  "learned_charge_power_scale cfg s now =
    (case active_learned_charge_power cfg s now of None \<Rightarrow> 1
     | Some learned \<Rightarrow>
        if \<not> lp_enabled (ap_learn (cf_policy cfg)) then 1 else learned / lp_reference (ap_learn (cf_policy cfg)))"

definition scale_surplus_thresholds :: "auto_cfg \<Rightarrow> auto_svc \<Rightarrow> secs \<Rightarrow> watts \<Rightarrow> watts \<Rightarrow> watts \<times> watts" where
  "scale_surplus_thresholds cfg s now start stop =
    (let scale = learned_charge_power_scale cfg s now in (py_round1 (start * scale), py_round1 (stop * scale)))"

definition surplus_thresholds_for_soc ::
  "auto_cfg \<Rightarrow> auto_svc \<Rightarrow> secs \<Rightarrow> rat \<Rightarrow> (watts \<times> watts \<times> string) \<times> auto_svc" where
  "surplus_thresholds_for_soc cfg s now soc =
    (let (profile, active, name) = resolve_threshold_profile (cf_policy cfg) soc (au_high_soc s);
         s1 = s\<lparr>au_high_soc := Some active\<rparr>;
         (start, stop) = scale_surplus_thresholds cfg s1 now (tp_start profile) (tp_stop profile)
     in if \<not> thresholds_ordered (Some start) (Some stop)
        then ((tp_start profile, tp_stop profile, name), s1)
        else ((start, stop, name), s1))"

section \<open>Facts\<close>

lemma py_round1_mono: "x \<le> y \<Longrightarrow> py_round1 x \<le> py_round1 y"
  by (auto simp: py_round1_def divide_right_mono intro!: round_half_even_mono mult_right_mono)

lemma py_round1_nonneg: "0 \<le> x \<Longrightarrow> 0 \<le> py_round1 x"
  using py_round1_mono [of 0 x] by (simp add: py_round1_def round_half_even_def)

lemma active_power_pos:
  "active_learned_charge_power cfg s now = Some w \<Longrightarrow> 0 < w"
  by (auto simp: active_learned_charge_power_def positive_learned_charge_power_def Let_def
      split: option.splits if_splits)

lemma scale_nonneg:
  assumes "0 < lp_reference (ap_learn (cf_policy cfg))"
  shows "0 \<le> learned_charge_power_scale cfg s now"
  using assms active_power_pos [of cfg s now]
  by (auto simp: learned_charge_power_scale_def split: option.splits)

lemma thresholds_state:
  "snd (surplus_thresholds_for_soc cfg s now soc) =
    s\<lparr>au_high_soc := Some (resolved_high_soc_active (cf_policy cfg) soc (au_high_soc s))\<rparr>"
  by (auto simp: surplus_thresholds_for_soc_def resolve_threshold_profile_def Let_def split: prod.splits)

text \<open>
  For every valid policy the thresholds Auto works with are ordered: the stop threshold never
  exceeds the start threshold, whatever the learned charge power scales them to.
\<close>

theorem surplus_thresholds_ordered:
  assumes "auto_policy_ok (cf_policy cfg)"
    and "surplus_thresholds_for_soc cfg s now soc = ((start, stop, name), t)"
  shows "stop \<le> start"
  using assms
  by (auto simp: surplus_thresholds_for_soc_def resolve_threshold_profile_def thresholds_ordered_def
      auto_policy_ok_def Let_def split: prod.splits if_splits)

definition default_cfg :: auto_cfg where
  "default_cfg = \<lparr>cf_policy = default_auto_policy, cf_start_delay = 10, cf_stop_delay = 30,
     cf_min_runtime = 300, cf_min_offtime = 60, cf_average_window = 30, cf_grid_missing_stop = 60,
     cf_warmup = 30, cf_daytime_only = True, cf_night_lock = True, cf_allow_without_soc = False,
     cf_battery_scan = 60, cf_month_windows = [], cf_audit = False\<rparr>"

definition empty_metrics :: auto_metrics where
  "empty_metrics = \<lparr>am_surplus = None, am_grid = None, am_raw_surplus = None, am_before_penalty = None,
     am_raw_grid = None, am_soc = None, am_profile = None, am_start = None, am_stop = None,
     am_learned_power = None, am_learned_state = None, am_scale = None, am_mode = None, am_alpha = None,
     am_stage = None, am_variance = None, am_penalty = None, am_unadjusted_penalty = None,
     am_near_term = None, am_ev_active = None, am_ev_credit = None, am_ev_available = None,
     am_ev_reclaimable = None, am_ev_load = None, am_relay_intent = None, am_state = None\<rparr>"

definition idle_auto :: auto_svc where
  "idle_auto = \<lparr>au_start_since = None, au_stop_since = None, au_stop_reason = None, au_samples = [],
     au_smooth_surplus = None, au_smooth_grid = None, au_relay_changed_at = None, au_relay_off_at = None,
     au_started_at = 0, au_override_until = 0, au_grid_at = Some 1000, au_recovery_required = False,
     au_recovery_since = None, au_allow_warning = None, au_high_soc = None, au_ev_priority = False,
     au_learned_state = Some ''stable'', au_learned_power = Some 3800, au_learned_at = Some 900,
     au_cutover_pending = False, au_ignore_offtime = False, au_metrics = empty_metrics,
     au_reason = ''init'', au_code = 0, au_state = ''idle'', au_state_code = 0, au_log = []\<rparr>"

lemma default_policy_ok: "auto_policy_ok default_auto_policy"
  by (simp add: auto_policy_ok_def default_auto_policy_def percentage_def fraction_def)

theorem surplus_thresholds_ordered_witness:
  "fst (snd (fst (surplus_thresholds_for_soc default_cfg idle_auto 1000 45)))
    \<le> fst (fst (surplus_thresholds_for_soc default_cfg idle_auto 1000 45))
   \<and> fst (fst (surplus_thresholds_for_soc default_cfg idle_auto 1000 45)) = 3000"
proof
  let ?r = "surplus_thresholds_for_soc default_cfg idle_auto 1000 45"
  have "?r = ((fst (fst ?r), fst (snd (fst ?r)), snd (snd (fst ?r))), snd ?r)" by simp
  from surplus_thresholds_ordered [OF _ this] default_policy_ok
  show "fst (snd (fst ?r)) \<le> fst (fst ?r)" by (simp add: default_cfg_def)
  show "fst (fst ?r) = 3000" by code_simp
qed

text \<open>
  The learned power has no influence unless learning is enabled, its stored state is stable,
  it is positive, and, where an age limit is set, it is dated and not older than the limit; without it
  the configured thresholds hold unscaled.
\<close>

theorem learned_power_needs_fresh_stable:
  assumes "active_learned_charge_power cfg s now = Some w"
  shows "lp_enabled (ap_learn (cf_policy cfg)) \<and> normalize_learning_state (au_learned_state s) = ''stable''
    \<and> au_learned_power s = Some w \<and> 0 < w
    \<and> (0 < lp_max_age (ap_learn (cf_policy cfg)) \<longrightarrow>
        (\<exists>t. au_learned_at s = Some t \<and> now - t \<le> lp_max_age (ap_learn (cf_policy cfg))))"
  using assms
  by (auto simp: active_learned_charge_power_def learned_charge_power_inactive_for_auto_def
      current_learned_charge_power_state_def stale_learned_charge_power_state_def
      learned_charge_power_can_expire_def learned_charge_power_missing_update_time_def
      learned_charge_power_age_invalid_for_auto_def learned_charge_power_expired_def
      learned_charge_power_age_seconds_def positive_learned_charge_power_def
      unknown_or_stale_learning_state_def Let_def not_less split: option.splits if_splits)

theorem learned_power_needs_fresh_stable_witness:
  "normalize_learning_state (au_learned_state idle_auto) = ''stable''"
proof -
  have "active_learned_charge_power default_cfg idle_auto 1000 = Some 3800" by code_simp
  from learned_power_needs_fresh_stable [OF this] show ?thesis by blast
qed

end
