(* ===== verification/Auto_Gates.thy ===== *)
theory Auto_Gates
  imports Auto_Learning
begin

text \<open>
  The runtime gates of the Auto decision (\<open>venus_evcharger/auto/logic_gates_runtime.py\<close>).  A relay
  decision is \<open>None\<close> while evaluation continues (\<open>NO_RELAY_DECISION\<close>) and \<open>Some b\<close> once settled;
  every gate returns it beside the updated state.
\<close>

type_synonym relay_decision = "bool option"

section \<open>Runtimes\<close>

definition minimum_runtime_elapsed :: "auto_cfg \<Rightarrow> auto_svc \<Rightarrow> secs \<Rightarrow> bool" where
  "minimum_runtime_elapsed cfg s now =
    (case au_relay_changed_at s of None \<Rightarrow> True | Some t \<Rightarrow> now - t \<ge> cf_min_runtime cfg)"

definition minimum_offtime_elapsed :: "auto_cfg \<Rightarrow> auto_svc \<Rightarrow> secs \<Rightarrow> bool" where
  "minimum_offtime_elapsed cfg s now =
    (if au_ignore_offtime s then True
     else case au_relay_off_at s of None \<Rightarrow> True | Some t \<Rightarrow> now - t \<ge> cf_min_offtime cfg)"

definition grid_recently_read :: "auto_cfg \<Rightarrow> auto_svc \<Rightarrow> watts option \<Rightarrow> secs \<Rightarrow> bool" where
  "grid_recently_read cfg s grid now =
    (case au_grid_at s of None \<Rightarrow> grid \<noteq> None | Some t \<Rightarrow> now - t \<le> cf_grid_missing_stop cfg)"

section \<open>Modes\<close>

definition handle_non_auto_mode :: "auto_svc \<Rightarrow> bool \<Rightarrow> bool \<times> auto_svc" where
  "handle_non_auto_mode s relay_on =
    (relay_on, log_auto SaveRuntime (set_auto_state (reset_mode_cutover (reset_auto_state s)) ''idle''))"

definition handle_disabled_mode :: "auto_cfg \<Rightarrow> auto_svc \<Rightarrow> bool \<Rightarrow> bool \<times> auto_svc" where
  "handle_disabled_mode cfg s cached =
    (False, log_auto SaveRuntime
       (set_health cfg (reset_mode_cutover (reset_auto_state s)) ''disabled'' cached False))"

section \<open>Battery SOC\<close>

definition normalized_battery_soc :: "auto_svc \<Rightarrow> rat option \<Rightarrow> rat option \<times> auto_svc" where
  "normalized_battery_soc s soc =
    (case soc of None \<Rightarrow> (None, s)
     | Some v \<Rightarrow>
        if 0 \<le> v \<and> v \<le> 100 then (Some v, s\<lparr>au_allow_warning := None\<rparr>)
        else (None, log_auto WarnSoc s))"

definition allowed_missing_battery_soc ::
  "auto_cfg \<Rightarrow> auto_svc \<Rightarrow> bool \<Rightarrow> secs \<Rightarrow> bool \<Rightarrow> (rat option \<times> relay_decision) \<times> auto_svc" where
  "allowed_missing_battery_soc cfg s relay_on now cached =
    (let due = (case au_allow_warning s of None \<Rightarrow> True | Some t \<Rightarrow> now - t > cf_battery_scan cfg);
         s1 = (if due then s\<lparr>au_allow_warning := Some now\<rparr> else s)
     in ((Some (ap_resume_soc (cf_policy cfg)), None),
         set_health cfg s1 ''battery-soc-missing-allowed'' cached relay_on))"

definition blocked_missing_battery_soc ::
  "auto_cfg \<Rightarrow> auto_svc \<Rightarrow> bool \<Rightarrow> bool \<Rightarrow> (rat option \<times> relay_decision) \<times> auto_svc" where
  "blocked_missing_battery_soc cfg s relay_on cached =
    ((None, Some relay_on), set_health cfg (reset_auto_state s) ''battery-soc-missing'' cached relay_on)"

definition resolve_battery_soc ::
  "auto_cfg \<Rightarrow> auto_svc \<Rightarrow> rat option \<Rightarrow> bool \<Rightarrow> secs \<Rightarrow> bool \<Rightarrow> (rat option \<times> relay_decision) \<times> auto_svc" where
  "resolve_battery_soc cfg s soc relay_on now cached =
    (case normalized_battery_soc s soc of
       (Some v, s1) \<Rightarrow> ((Some v, None), s1)
     | (None, s1) \<Rightarrow>
        if cf_allow_without_soc cfg then allowed_missing_battery_soc cfg s1 relay_on now cached
        else blocked_missing_battery_soc cfg s1 relay_on cached)"

section \<open>The Manual to Auto cutover\<close>

definition cutover_blocked_by_pending_or_active :: "bool option \<Rightarrow> bool \<Rightarrow> bool \<Rightarrow> bool" where
  "cutover_blocked_by_pending_or_active pending relay_on confirmed_output \<longleftrightarrow>
    pending \<noteq> None \<or> relay_on \<or> confirmed_output"

definition confirmed_after_requested :: "secs option \<Rightarrow> secs option \<Rightarrow> bool" where
  "confirmed_after_requested confirmed_at requested_at =
    (case (confirmed_at, requested_at) of (Some c, Some r) \<Rightarrow> c \<ge> r | _ \<Rightarrow> False)"

definition cutover_request_satisfied :: "secs option \<Rightarrow> secs option \<Rightarrow> bool" where
  "cutover_request_satisfied confirmed_at requested_at =
    (if requested_at = None then True else confirmed_after_requested confirmed_at requested_at)"

definition cutover_confirmed_off ::
  "bool \<Rightarrow> bool option \<Rightarrow> bool \<Rightarrow> secs option \<Rightarrow> secs option \<Rightarrow> secs \<Rightarrow> secs \<Rightarrow> bool" where
  "cutover_confirmed_off relay_on pending confirmed_output confirmed_at requested_at now max_age =
    (if cutover_blocked_by_pending_or_active pending relay_on confirmed_output then False
     else if \<not> timestamp_age_within confirmed_at now max_age 1 then False
     else cutover_request_satisfied confirmed_at requested_at)"

text \<open>A status dictionary without the key \<open>output\<close> counts as on.\<close>

definition cutover_relay_off_confirmed :: "auto_in \<Rightarrow> bool \<Rightarrow> bool" where
  "cutover_relay_off_confirmed i relay_on =
    (case cr_status (ai_relay i) of None \<Rightarrow> False
     | Some status \<Rightarrow>
        cutover_confirmed_off relay_on (ai_pending_relay i)
          (case status of None \<Rightarrow> True | Some output \<Rightarrow> output)
          (cr_captured_at (ai_relay i)) (ai_sync_requested_at i) (ai_now i)
          (confirmed_relay_state_max_age_seconds (ai_relay i)))"

definition complete_cutover_pending :: "auto_svc \<Rightarrow> auto_svc" where
  "complete_cutover_pending s = log_auto SaveRuntime (complete_mode_cutover s)"

definition handle_cutover_pending ::
  "auto_cfg \<Rightarrow> auto_in \<Rightarrow> auto_svc \<Rightarrow> bool \<Rightarrow> bool \<Rightarrow> relay_decision \<times> auto_svc" where
  "handle_cutover_pending cfg i s relay_on cached =
    (if \<not> au_cutover_pending s then (None, s)
     else let s1 = reset_auto_state s in
       if \<not> cutover_relay_off_confirmed i relay_on
       then (Some False, set_health cfg s1 ''mode-transition'' cached False)
       else (None, complete_cutover_pending s1))"

section \<open>Delayed stops\<close>

definition stop_tracking_needs_reset :: "secs option \<Rightarrow> string option \<Rightarrow> string \<Rightarrow> bool" where
  "stop_tracking_needs_reset since current_key active_key \<longleftrightarrow>
    since = None \<or> (current_key \<noteq> None \<and> current_key \<noteq> Some active_key)"

definition active_stop_key :: "string \<Rightarrow> string option \<Rightarrow> string" where
  "active_stop_key reason stop_key = (case stop_key of None \<Rightarrow> reason | Some k \<Rightarrow> k)"

definition effective_stop_delay :: "secs \<Rightarrow> secs option \<Rightarrow> secs" where
  "effective_stop_delay dflt delay = (case delay of None \<Rightarrow> dflt | Some d \<Rightarrow> d)"

definition reset_stop_tracking :: "auto_svc \<Rightarrow> secs \<Rightarrow> string \<Rightarrow> bool \<times> auto_svc" where
  "reset_stop_tracking s now key =
    (if \<not> stop_tracking_needs_reset (au_stop_since s) (au_stop_reason s) key then (False, s)
     else (True, s\<lparr>au_stop_since := Some now, au_stop_reason := Some key\<rparr>))"

definition ensure_stop_tracking_reason :: "auto_svc \<Rightarrow> string \<Rightarrow> auto_svc" where
  "ensure_stop_tracking_reason s key =
    (if au_stop_reason s = None then s\<lparr>au_stop_reason := Some key\<rparr> else s)"

definition arm_or_fire_stop ::
  "auto_cfg \<Rightarrow> auto_svc \<Rightarrow> secs \<Rightarrow> string \<Rightarrow> bool \<Rightarrow> secs option \<Rightarrow> string option \<Rightarrow> relay_decision \<times> auto_svc" where
  "arm_or_fire_stop cfg s now reason cached delay stop_key =
    (let key = active_stop_key reason stop_key in
     case reset_stop_tracking s now key of
       (True, s1) \<Rightarrow> (None, s1)
     | (False, s1) \<Rightarrow>
        let s2 = ensure_stop_tracking_reason s1 key;
            effective = effective_stop_delay (cf_stop_delay cfg) delay
        in case au_stop_since s2 of
             None \<Rightarrow> (None, s2)
           | Some since \<Rightarrow>
              if \<not> now - since \<ge> effective then (None, s2)
              else (Some False, set_health cfg s2 reason cached False))"

definition pending_stop_or_running ::
  "auto_cfg \<Rightarrow> auto_svc \<Rightarrow> secs \<Rightarrow> string \<Rightarrow> bool \<Rightarrow> string \<Rightarrow> secs option \<Rightarrow> string option \<Rightarrow> bool \<times> auto_svc" where
  "pending_stop_or_running cfg s now stop_reason cached running_reason delay stop_key =
    (case arm_or_fire_stop cfg s now stop_reason cached delay stop_key of
       (None, s1) \<Rightarrow> set_health_result cfg s1 running_reason cached True
     | (Some _, s1) \<Rightarrow> (False, s1))"

section \<open>Grid loss and recovery\<close>

definition handle_grid_missing :: "auto_cfg \<Rightarrow> auto_svc \<Rightarrow> bool \<Rightarrow> secs \<Rightarrow> bool \<Rightarrow> bool \<times> auto_svc" where
  "handle_grid_missing cfg s relay_on now cached =
    (let s1 = (clear_auto_start_tracking s True)\<lparr>au_recovery_required := True, au_recovery_since := None\<rparr> in
     if \<not> relay_on then idle_result_with_health cfg s1 ''grid-missing'' cached
     else if \<not> minimum_runtime_elapsed cfg s1 now then running_result_with_health cfg s1 ''grid-missing'' cached
     else pending_stop_or_running cfg s1 now ''grid-missing'' cached ''grid-missing'' None None)"

definition grid_recovery_completes_immediately :: "auto_svc \<Rightarrow> secs \<Rightarrow> secs \<Rightarrow> bool \<times> auto_svc" where
  "grid_recovery_completes_immediately s now recovery =
    (if 0 < recovery then (False, s)
     else (True, s\<lparr>au_recovery_since := Some now, au_recovery_required := False\<rparr>))"

definition grid_recovery_waiting :: "auto_svc \<Rightarrow> secs \<Rightarrow> secs \<Rightarrow> bool \<times> auto_svc" where
  "grid_recovery_waiting s now recovery =
    (case au_recovery_since s of None \<Rightarrow> (True, s\<lparr>au_recovery_since := Some now\<rparr>)
     | Some since \<Rightarrow> (now - since < recovery, s))"

definition grid_recovery_wait_decision ::
  "auto_cfg \<Rightarrow> auto_svc \<Rightarrow> bool \<Rightarrow> bool \<Rightarrow> relay_decision \<times> auto_svc" where
  "grid_recovery_wait_decision cfg s relay_on cached =
    (if relay_on then (None, s)
     else let (r, s1) = set_health_result cfg (clear_auto_start_tracking s False) ''waiting-grid-recovery'' cached False
          in (Some r, s1))"

definition handle_grid_recovery_start_gate ::
  "auto_cfg \<Rightarrow> auto_svc \<Rightarrow> bool \<Rightarrow> secs \<Rightarrow> bool \<Rightarrow> relay_decision \<times> auto_svc" where
  "handle_grid_recovery_start_gate cfg s relay_on now cached =
    (if \<not> au_recovery_required s then (None, s)
     else let recovery = ap_grid_recovery (cf_policy cfg) in
       case grid_recovery_completes_immediately s now recovery of
         (True, s1) \<Rightarrow> (None, s1)
       | (False, s1) \<Rightarrow>
          (case grid_recovery_waiting s1 now recovery of
             (True, s2) \<Rightarrow> grid_recovery_wait_decision cfg s2 relay_on cached
           | (False, s2) \<Rightarrow> (None, s2\<lparr>au_recovery_required := False\<rparr>)))"

section \<open>Missing inputs, warmup, manual override\<close>

definition policy_stop_reason :: "auto_cfg \<Rightarrow> rat \<Rightarrow> watts option \<Rightarrow> string option" where
  "policy_stop_reason cfg soc grid =
    (if soc < ap_min_soc (cf_policy cfg) then Some ''auto-stop''
     else case grid of None \<Rightarrow> None
          | Some g \<Rightarrow> if g \<ge> ap_stop_grid (cf_policy cfg) then Some ''auto-stop'' else None)"

definition known_missing_input_stop_reason :: "auto_cfg \<Rightarrow> rat \<Rightarrow> watts option \<Rightarrow> bool \<Rightarrow> string option" where
  "known_missing_input_stop_reason cfg soc grid daytime_open =
    (if cf_night_lock cfg \<or> \<not> daytime_open then Some ''night-lock'' else policy_stop_reason cfg soc grid)"

definition handle_missing_inputs ::
  "auto_cfg \<Rightarrow> auto_in \<Rightarrow> auto_svc \<Rightarrow> bool \<Rightarrow> rat \<Rightarrow> watts option \<Rightarrow> secs \<Rightarrow> bool \<Rightarrow> bool \<times> auto_svc" where
  "handle_missing_inputs cfg i s relay_on soc grid now cached =
    (let s1 = clear_auto_start_tracking s True in
     if \<not> relay_on then idle_result_with_health cfg s1 ''inputs-missing'' cached
     else case known_missing_input_stop_reason cfg soc grid (is_within_auto_daytime_window cfg i) of
            None \<Rightarrow> running_result_with_health cfg s1 ''inputs-missing'' cached
          | Some reason \<Rightarrow>
             if \<not> minimum_runtime_elapsed cfg s1 now
             then running_result_with_health cfg s1 ''inputs-missing'' cached
             else pending_stop_or_running cfg s1 now reason cached ''inputs-missing'' None None)"

definition handle_common_runtime_gates ::
  "auto_cfg \<Rightarrow> auto_svc \<Rightarrow> bool \<Rightarrow> secs \<Rightarrow> bool \<Rightarrow> relay_decision \<times> auto_svc" where
  "handle_common_runtime_gates cfg s relay_on now cached =
    (if now - au_started_at s < cf_warmup cfg
     then (let (r, s1) = set_health_result cfg (reset_auto_state s) ''warmup'' cached relay_on in (Some r, s1))
     else if now < au_override_until s
     then (let (r, s1) = set_health_result cfg (reset_auto_state s) ''manual-override'' cached relay_on in (Some r, s1))
     else (None, s))"

end
