(* ===== verification/Auto_Decision.thy ===== *)
theory Auto_Decision
  imports Auto_Gates
begin

text \<open>
  The Auto decision itself: the averaged and smoothed metrics
  (\<open>venus_evcharger/auto/logic_gates_metrics.py\<close>), the start and stop decisions of the relay
  (\<open>auto/logic_decisions.py\<close>, \<open>auto/tracking.py\<close>), and the workflow that puts gates, metrics and
  decisions in order (\<open>auto/logic_decisions_preaverage.py\<close>).
\<close>

section \<open>EV priority and battery adjustment\<close>

definition update_ev_priority_state :: "auto_svc \<Rightarrow> rat \<Rightarrow> rat \<Rightarrow> rat \<Rightarrow> bool \<times> auto_svc" where
  "update_ev_priority_state s soc activation release =
    (let active = (if au_ev_priority s then (if soc < release then False else True)
                   else if soc \<ge> activation then True else False)
     in (active, s\<lparr>au_ev_priority := active\<rparr>))"

definition activity_power :: "watts option \<Rightarrow> watts" where
  "activity_power v = (case v of None \<Rightarrow> 0 | Some x \<Rightarrow> if x < 0 then 0 else x)"

definition near_term_grid_adjustment :: "battery_activity \<Rightarrow> watts" where
  "near_term_grid_adjustment a =
    activity_power (ba_expected_export a) * (15/100) - activity_power (ba_expected_import a) * (15/100)"

definition applied_surplus_penalty :: "watts \<Rightarrow> watts \<Rightarrow> bool \<Rightarrow> watts" where
  "applied_surplus_penalty total_w charge priority = (if \<not> priority then total_w else max 0 (total_w - charge))"

definition reclaimable_charge_power :: "watts \<Rightarrow> watts \<Rightarrow> watts" where
  "reclaimable_charge_power observed grid = max 0 (observed - max 0 grid)"

definition priority_available_surplus :: "bool \<Rightarrow> watts \<Rightarrow> watts \<Rightarrow> watts \<Rightarrow> watts \<Rightarrow> watts" where
  "priority_available_surplus active base pv reclaimable load =
    (if \<not> active then base else max base (min (max 0 pv) (base + reclaimable + load)))"

definition priority_running_load :: "auto_in \<Rightarrow> bool \<Rightarrow> bool \<Rightarrow> watts" where
  "priority_running_load i active relay_on = (if \<not> active \<or> \<not> relay_on then 0 else max 0 (ai_charging_power i))"

record ev_priority =
  ep_active :: bool
  ep_credit :: watts
  ep_available :: watts
  ep_reclaimable :: watts
  ep_load :: watts

definition ev_priority_metrics ::
  "auto_cfg \<Rightarrow> auto_in \<Rightarrow> auto_svc \<Rightarrow> watts \<Rightarrow> watts \<Rightarrow> watts \<Rightarrow> rat \<Rightarrow> bool \<Rightarrow> ev_priority \<times> auto_svc" where
  "ev_priority_metrics cfg i s decision_surplus pv grid soc relay_on =
    (let (active, s1) = update_ev_priority_state s soc (ap_ev_priority_soc (cf_policy cfg))
                          (ap_ev_priority_release (cf_policy cfg));
         base = max 0 decision_surplus;
         reclaimable = reclaimable_charge_power (activity_power (ba_charge_power (ai_activity i))) grid;
         load = priority_running_load i active relay_on;
         available = priority_available_surplus active base pv reclaimable load
     in (\<lparr>ep_active = active, ep_credit = max 0 (available - base), ep_available = available,
           ep_reclaimable = (if active then reclaimable else 0), ep_load = load\<rparr>, s1))"

record battery_metrics =
  bm_decision_surplus :: watts
  bm_raw :: watts
  bm_penalty :: watts
  bm_unadjusted :: watts
  bm_near_term :: watts
  bm_ev :: ev_priority

definition battery_adjusted_surplus_metrics ::
  "auto_cfg \<Rightarrow> auto_in \<Rightarrow> auto_svc \<Rightarrow> watts \<Rightarrow> watts \<Rightarrow> watts \<Rightarrow> rat \<Rightarrow> bool \<Rightarrow> battery_metrics \<times> auto_svc" where
  "battery_adjusted_surplus_metrics cfg i s decision_surplus pv grid soc relay_on =
    (let total_w = activity_power (ba_surplus_penalty (ai_activity i));
         charge = activity_power (ba_charge_penalty (ai_activity i));
         near_term = near_term_grid_adjustment (ai_activity i);
         (ev, s1) = ev_priority_metrics cfg i s decision_surplus pv grid soc relay_on;
         penalty = applied_surplus_penalty total_w charge (ep_active ev)
     in (\<lparr>bm_decision_surplus = ep_available ev - penalty + near_term, bm_raw = decision_surplus,
           bm_penalty = penalty, bm_unadjusted = total_w, bm_near_term = near_term, bm_ev = ev\<rparr>, s1))"

section \<open>Averages\<close>

definition smoothed_decision_metrics ::
  "auto_svc \<Rightarrow> bool \<Rightarrow> watts \<Rightarrow> watts \<Rightarrow> rat \<Rightarrow> (watts \<times> watts) \<times> auto_svc" where
  "smoothed_decision_metrics s relay_on surplus grid alpha =
    (if \<not> relay_on then ((surplus, grid), s\<lparr>au_smooth_surplus := None, au_smooth_grid := None\<rparr>)
     else let ds = smooth_metric (au_smooth_surplus s) surplus alpha;
              dg = smooth_metric (au_smooth_grid s) grid alpha
          in ((ds, dg), s\<lparr>au_smooth_surplus := Some ds, au_smooth_grid := Some dg\<rparr>))"

definition set_scheduled_night_metrics :: "auto_svc \<Rightarrow> watts option \<Rightarrow> rat option \<Rightarrow> auto_svc" where
  "set_scheduled_night_metrics s grid soc = s\<lparr>au_metrics :=
     \<lparr>am_surplus = None, am_grid = grid, am_raw_surplus = None, am_before_penalty = None, am_raw_grid = None,
      am_soc = soc, am_profile = None, am_start = None, am_stop = None, am_learned_power = None,
      am_learned_state = None, am_scale = None, am_mode = None, am_alpha = None, am_stage = None,
      am_variance = None, am_penalty = None, am_unadjusted_penalty = None, am_near_term = None,
      am_ev_active = None, am_ev_credit = None, am_ev_available = None, am_ev_reclaimable = None,
      am_ev_load = None, am_relay_intent = None, am_state = None\<rparr>\<rparr>"

definition update_average_metrics ::
  "auto_cfg \<Rightarrow> auto_in \<Rightarrow> auto_svc \<Rightarrow> secs \<Rightarrow> watts \<Rightarrow> watts \<Rightarrow> rat \<Rightarrow> bool \<Rightarrow> (watts \<times> watts) option \<times> auto_svc" where
  "update_average_metrics cfg i s now pv grid soc relay_on =
    (let s1 = add_auto_sample cfg s now (get_available_surplus_watts pv grid) grid in
     case (average_auto_metric s1 (\<lambda>(_, surplus, _). surplus), average_auto_metric s1 (\<lambda>(_, _, g). g)) of
       (Some avg_surplus, Some avg_grid) \<Rightarrow>
         let ((start, stop, profile), s2) = surplus_thresholds_for_soc cfg s1 now soc;
             (alpha, stage, variance) = adaptive_stop_alpha cfg s2;
             ((surplus, sgrid), s3) = smoothed_decision_metrics s2 relay_on avg_surplus avg_grid alpha;
             (bm, s4) = battery_adjusted_surplus_metrics cfg i s3 surplus pv sgrid soc relay_on;
             ev = bm_ev bm;
             learned = active_learned_charge_power cfg s4 now;
             s5 = s4\<lparr>au_metrics :=
               \<lparr>am_surplus = Some (bm_decision_surplus bm), am_grid = Some sgrid,
                am_raw_surplus = Some avg_surplus, am_before_penalty = Some (bm_raw bm),
                am_raw_grid = Some avg_grid, am_soc = Some soc, am_profile = Some profile,
                am_start = Some start, am_stop = Some stop, am_learned_power = learned,
                am_learned_state = Some (current_learned_charge_power_state cfg s4 now),
                am_scale = Some (learned_charge_power_scale cfg s4 now),
                am_mode = Some (if learned \<noteq> None then ''adaptive'' else ''static''),
                am_alpha = Some alpha, am_stage = Some stage, am_variance = variance,
                am_penalty = Some (bm_penalty bm), am_unadjusted_penalty = Some (bm_unadjusted bm),
                am_near_term = Some (bm_near_term bm),
                am_ev_active = Some (if ep_active ev then 1 else 0), am_ev_credit = Some (ep_credit ev),
                am_ev_available = Some (ep_available ev), am_ev_reclaimable = Some (ep_reclaimable ev),
                am_ev_load = Some (ep_load ev), am_relay_intent = None, am_state = None\<rparr>\<rparr>
         in (Some (bm_decision_surplus bm, sgrid), s5)
     | _ \<Rightarrow> (None, s1))"

section \<open>Stopping\<close>

definition policy_relay_on_stop_reason ::
  "auto_cfg \<Rightarrow> auto_svc \<Rightarrow> secs \<Rightarrow> watts \<Rightarrow> watts \<Rightarrow> rat \<Rightarrow> string option \<times> auto_svc" where
  "policy_relay_on_stop_reason cfg s now surplus grid soc =
    (let ((_, stop, _), s1) = surplus_thresholds_for_soc cfg s now soc in
     (if soc < ap_min_soc (cf_policy cfg) then Some ''auto-stop-soc''
      else if grid \<ge> ap_stop_grid (cf_policy cfg) then Some ''auto-stop-grid''
      else if surplus \<le> stop then Some ''auto-stop-surplus''
      else None, s1))"

definition night_lock_stop_requested :: "auto_cfg \<Rightarrow> bool \<Rightarrow> bool" where
  "night_lock_stop_requested cfg daytime_open \<longleftrightarrow> cf_night_lock cfg \<and> \<not> daytime_open"

definition relay_on_stop_reason ::
  "auto_cfg \<Rightarrow> auto_svc \<Rightarrow> secs \<Rightarrow> watts \<Rightarrow> watts \<Rightarrow> rat \<Rightarrow> bool \<Rightarrow> bool \<Rightarrow> string option \<times> auto_svc" where
  "relay_on_stop_reason cfg s now surplus grid soc daytime_open runtime_elapsed =
    (if \<not> runtime_elapsed then (None, s)
     else if night_lock_stop_requested cfg daytime_open then (Some ''night-lock'', s)
     else policy_relay_on_stop_reason cfg s now surplus grid soc)"

definition handle_relay_on ::
  "auto_cfg \<Rightarrow> auto_svc \<Rightarrow> watts \<Rightarrow> watts \<Rightarrow> rat \<Rightarrow> bool \<Rightarrow> secs \<Rightarrow> bool \<Rightarrow> bool \<times> auto_svc" where
  "handle_relay_on cfg s surplus grid soc daytime_open now cached =
    (let s1 = s\<lparr>au_start_since := None\<rparr> in
     case relay_on_stop_reason cfg s1 now surplus grid soc daytime_open (minimum_runtime_elapsed cfg s1 now) of
       (None, s2) \<Rightarrow> running_result_with_health cfg s2 ''running'' cached
     | (Some reason, s2) \<Rightarrow>
        let delay = (if reason = ''auto-stop-surplus'' then Some (ap_stop_surplus_delay (cf_policy cfg)) else None);
            reported = (if reason \<in> {''auto-stop-surplus'', ''auto-stop-grid'', ''auto-stop-soc''}
                        then ''auto-stop'' else reason)
        in pending_stop_or_running cfg s2 now reported cached ''running'' delay (Some reason))"

section \<open>Starting\<close>

definition relay_off_start_conditions_met ::
  "bool \<Rightarrow> bool \<Rightarrow> watts \<Rightarrow> watts \<Rightarrow> rat \<Rightarrow> watts \<Rightarrow> auto_policy \<Rightarrow> bool" where
  "relay_off_start_conditions_met offtime_elapsed daytime_open surplus grid soc start policy \<longleftrightarrow>
    offtime_elapsed \<and> daytime_open \<and> surplus \<ge> start \<and> grid \<le> ap_start_max_grid policy \<and> soc \<ge> ap_resume_soc policy"

definition arm_or_fire_start :: "auto_cfg \<Rightarrow> auto_svc \<Rightarrow> secs \<Rightarrow> bool \<Rightarrow> bool \<times> auto_svc" where
  "arm_or_fire_start cfg s now cached =
    (case au_start_since s of None \<Rightarrow> (False, s\<lparr>au_start_since := Some now\<rparr>)
     | Some since \<Rightarrow>
        if now - since \<ge> cf_start_delay cfg
        then (True, set_health cfg (log_auto SaveRuntime (clear_minimum_offtime_bypass s)) ''auto-start'' cached True)
        else (False, s))"

definition threshold_waiting_health_reason ::
  "auto_cfg \<Rightarrow> auto_svc \<Rightarrow> secs \<Rightarrow> watts \<Rightarrow> watts \<Rightarrow> rat \<Rightarrow> string \<times> auto_svc" where
  "threshold_waiting_health_reason cfg s now surplus grid soc =
    (let ((start, _, _), s1) = surplus_thresholds_for_soc cfg s now soc in
     (if surplus < start then ''waiting-surplus''
      else if grid > ap_start_max_grid (cf_policy cfg) then ''waiting-grid''
      else if soc < ap_resume_soc (cf_policy cfg) then ''waiting-soc'' else ''waiting'', s1))"

definition waiting_health_reason ::
  "auto_cfg \<Rightarrow> auto_svc \<Rightarrow> secs \<Rightarrow> bool \<Rightarrow> bool \<Rightarrow> watts \<Rightarrow> watts \<Rightarrow> rat \<Rightarrow> string \<times> auto_svc" where
  "waiting_health_reason cfg s now offtime_elapsed daytime_open surplus grid soc =
    (if \<not> offtime_elapsed then (''waiting-offtime'', s)
     else if \<not> daytime_open then (''waiting-daytime'', s)
     else threshold_waiting_health_reason cfg s now surplus grid soc)"

definition handle_relay_off ::
  "auto_cfg \<Rightarrow> auto_in \<Rightarrow> auto_svc \<Rightarrow> watts \<Rightarrow> watts \<Rightarrow> rat \<Rightarrow> bool \<Rightarrow> secs \<Rightarrow> bool \<Rightarrow> bool \<times> auto_svc" where
  "handle_relay_off cfg i s surplus grid soc daytime_open now cached =
    (let ((start, _, _), s0) = surplus_thresholds_for_soc cfg s now soc;
         s1 = s0\<lparr>au_stop_since := None\<rparr> in
     if \<not> ai_autostart i then idle_result_with_health cfg s1 ''autostart-disabled'' cached
     else let offtime_elapsed = minimum_offtime_elapsed cfg s1 now in
       if relay_off_start_conditions_met offtime_elapsed daytime_open surplus grid soc start (cf_policy cfg)
       then arm_or_fire_start cfg s1 now cached
       else let s2 = clear_auto_start_tracking s1 False;
                (reason, s3) = waiting_health_reason cfg s2 now offtime_elapsed daytime_open surplus grid soc
            in (False, set_health cfg s3 reason cached False))"

section \<open>Scheduled night charging\<close>

definition clear_auto_decision_tracking :: "auto_svc \<Rightarrow> bool \<times> auto_svc" where
  "clear_auto_decision_tracking s =
    (au_start_since s \<noteq> None \<or> au_stop_since s \<noteq> None \<or> au_stop_reason s \<noteq> None,
     s\<lparr>au_start_since := None, au_stop_since := None, au_stop_reason := None\<rparr>)"

definition scheduled_night_blocked_health :: "auto_cfg \<Rightarrow> auto_in \<Rightarrow> auto_svc \<Rightarrow> secs \<Rightarrow> string option" where
  "scheduled_night_blocked_health cfg i s now =
    (if \<not> ai_autostart i then Some ''autostart-disabled''
     else if \<not> minimum_offtime_elapsed cfg s now then Some ''waiting-offtime'' else None)"

definition scheduled_night_start_result ::
  "auto_cfg \<Rightarrow> auto_in \<Rightarrow> auto_svc \<Rightarrow> secs \<Rightarrow> bool \<Rightarrow> bool \<times> auto_svc" where
  "scheduled_night_start_result cfg i s now cached =
    (case scheduled_night_blocked_health cfg i s now of
       Some blocked \<Rightarrow> idle_result_with_health cfg s blocked cached
     | None \<Rightarrow> running_result_with_health cfg (snd (clear_auto_decision_tracking s)) ''scheduled-night-charge'' cached)"

definition scheduled_night_decision ::
  "auto_cfg \<Rightarrow> auto_in \<Rightarrow> auto_svc \<Rightarrow> bool \<Rightarrow> secs \<Rightarrow> bool \<Rightarrow> bool \<times> auto_svc" where
  "scheduled_night_decision cfg i s relay_on now cached =
    (case handle_common_runtime_gates cfg s relay_on now cached of
       (Some b, s1) \<Rightarrow> (b, s1)
     | (None, s1) \<Rightarrow>
        if relay_on
        then running_result_with_health cfg (snd (clear_auto_decision_tracking s1)) ''scheduled-night-charge'' cached
        else scheduled_night_start_result cfg i s1 now cached)"

section \<open>The workflow\<close>

definition pre_average_mode_decision ::
  "auto_cfg \<Rightarrow> auto_in \<Rightarrow> auto_svc \<Rightarrow> bool \<Rightarrow> bool \<Rightarrow> relay_decision \<times> auto_svc" where
  "pre_average_mode_decision cfg i s relay_on cached =
    (if \<not> mode_uses_auto_logic (ai_mode i)
     then (let (b, s1) = handle_non_auto_mode s relay_on in (Some b, s1))
     else if \<not> ai_enabled i then (let (b, s1) = handle_disabled_mode cfg s cached in (Some b, s1))
     else handle_cutover_pending cfg i s relay_on cached)"

definition pre_average_input_gate_decision ::
  "auto_cfg \<Rightarrow> auto_in \<Rightarrow> auto_svc \<Rightarrow> bool \<Rightarrow> watts option \<Rightarrow> secs \<Rightarrow> bool \<Rightarrow> relay_decision \<times> auto_svc" where
  "pre_average_input_gate_decision cfg i s relay_on grid now cached =
    (if scheduled_night_charge_active i then (None, s)
     else if \<not> grid_recently_read cfg s grid now
     then (let (b, s1) = handle_grid_missing cfg s relay_on now cached in (Some b, s1))
     else handle_grid_recovery_start_gate cfg s relay_on now cached)"

text \<open>The two gates in order; the second one runs only while the first left the decision open.\<close>

definition pre_average_gate_chain_result ::
  "auto_cfg \<Rightarrow> auto_in \<Rightarrow> auto_svc \<Rightarrow> bool \<Rightarrow> watts option \<Rightarrow> secs \<Rightarrow> bool \<Rightarrow> relay_decision \<times> auto_svc" where
  "pre_average_gate_chain_result cfg i s relay_on grid now cached =
    (case pre_average_mode_decision cfg i s relay_on cached of
       (Some b, s1) \<Rightarrow> (Some b, s1)
     | (None, s1) \<Rightarrow> pre_average_input_gate_decision cfg i s1 relay_on grid now cached)"

definition pre_average_missing_input_result ::
  "auto_cfg \<Rightarrow> auto_in \<Rightarrow> auto_svc \<Rightarrow> bool \<Rightarrow> watts option \<Rightarrow> rat option \<Rightarrow> watts option \<Rightarrow> secs \<Rightarrow> bool
    \<Rightarrow> (relay_decision \<times> rat option) \<times> auto_svc" where
  "pre_average_missing_input_result cfg i s relay_on pv soc grid now cached =
    (if pv \<noteq> None \<and> grid \<noteq> None then ((None, soc), s)
     else let (b, s1) = handle_missing_inputs cfg i s relay_on (the soc) grid now cached in ((Some b, None), s1))"

definition pre_average_decision ::
  "auto_cfg \<Rightarrow> auto_in \<Rightarrow> auto_svc \<Rightarrow> bool \<Rightarrow> watts option \<Rightarrow> rat option \<Rightarrow> watts option \<Rightarrow> secs \<Rightarrow> bool
    \<Rightarrow> (relay_decision \<times> rat option) \<times> auto_svc" where
  "pre_average_decision cfg i s relay_on pv soc grid now cached =
    (case pre_average_gate_chain_result cfg i s relay_on grid now cached of
       (Some b, s1) \<Rightarrow> ((Some b, None), s1)
     | (None, s1) \<Rightarrow>
        if scheduled_night_charge_active i then ((None, soc), s1)
        else case resolve_battery_soc cfg s1 soc relay_on now cached of
               ((_, Some b), s2) \<Rightarrow> ((Some b, None), s2)
             | ((soc', None), s2) \<Rightarrow> pre_average_missing_input_result cfg i s2 relay_on pv soc' grid now cached)"

definition post_average_decision ::
  "auto_cfg \<Rightarrow> auto_in \<Rightarrow> auto_svc \<Rightarrow> bool \<Rightarrow> secs \<Rightarrow> bool \<Rightarrow> (relay_decision \<times> bool option) \<times> auto_svc" where
  "post_average_decision cfg i s relay_on now cached =
    (case handle_common_runtime_gates cfg s relay_on now cached of
       (Some b, s1) \<Rightarrow> ((Some b, None), s1)
     | (None, s1) \<Rightarrow> ((None, Some (is_within_auto_daytime_window cfg i)), s1))"

definition decision_from_averages ::
  "auto_cfg \<Rightarrow> auto_in \<Rightarrow> auto_svc \<Rightarrow> bool \<Rightarrow> watts \<Rightarrow> watts \<Rightarrow> rat \<Rightarrow> secs \<Rightarrow> bool \<Rightarrow> bool \<times> auto_svc" where
  "decision_from_averages cfg i s relay_on surplus grid soc now cached =
    (case post_average_decision cfg i s relay_on now cached of
       ((Some b, _), s1) \<Rightarrow> (b, s1)
     | ((None, window), s1) \<Rightarrow>
        if relay_on then handle_relay_on cfg s1 surplus grid soc (the window) now cached
        else handle_relay_off cfg i s1 surplus grid soc (the window) now cached)"

definition averaged_auto_metrics ::
  "auto_cfg \<Rightarrow> auto_in \<Rightarrow> auto_svc \<Rightarrow> secs \<Rightarrow> watts \<Rightarrow> watts \<Rightarrow> rat \<Rightarrow> bool \<Rightarrow> bool \<Rightarrow> (watts \<times> watts) option \<times> auto_svc" where
  "averaged_auto_metrics cfg i s now pv grid soc relay_on cached =
    (case update_average_metrics cfg i s now pv grid soc relay_on of
       (None, s1) \<Rightarrow> (None, set_health cfg s1 ''averaging'' cached relay_on)
     | (Some avg, s1) \<Rightarrow> (Some avg, s1))"

definition decision_from_available_averages ::
  "auto_cfg \<Rightarrow> auto_in \<Rightarrow> auto_svc \<Rightarrow> bool \<Rightarrow> rat \<Rightarrow> secs \<Rightarrow> bool \<Rightarrow> (watts \<times> watts) option \<Rightarrow> bool \<times> auto_svc" where
  "decision_from_available_averages cfg i s relay_on soc now cached averages =
    (case averages of None \<Rightarrow> (relay_on, s)
     | Some (surplus, grid) \<Rightarrow> decision_from_averages cfg i s relay_on surplus grid soc now cached)"

text \<open>\<open>assert\<close> on a missing input is an exception.\<close>

definition auto_decision_after_pre_average ::
  "auto_cfg \<Rightarrow> auto_in \<Rightarrow> auto_svc \<Rightarrow> bool \<Rightarrow> watts option \<Rightarrow> rat option \<Rightarrow> watts option \<Rightarrow> secs \<Rightarrow> bool
    \<Rightarrow> relay_decision \<Rightarrow> (bool, auto_svc) outcome" where
  "auto_decision_after_pre_average cfg i s relay_on pv soc grid now cached decision =
    (case decision of Some b \<Rightarrow> (Inr b, s)
     | None \<Rightarrow>
        if scheduled_night_charge_active i
        then (let (b, s1) = scheduled_night_decision cfg i (set_scheduled_night_metrics s grid soc) relay_on now cached
              in (Inr b, s1))
        else case (pv, soc, grid) of
               (Some pv', Some soc', Some grid') \<Rightarrow>
                 let (avg, s1) = averaged_auto_metrics cfg i s now pv' grid' soc' relay_on cached;
                     (b, s2) = decision_from_available_averages cfg i s1 relay_on soc' now cached avg
                 in (Inr b, s2)
             | _ \<Rightarrow> (Inl OtherExc, s))"

definition auto_decide_relay ::
  "auto_cfg \<Rightarrow> auto_in \<Rightarrow> auto_svc \<Rightarrow> bool \<Rightarrow> watts option \<Rightarrow> rat option \<Rightarrow> watts option \<Rightarrow> (bool, auto_svc) outcome" where
  "auto_decide_relay cfg i s relay_on pv soc grid =
    (let now = ai_now i; cached = ai_cached i;
         ((decision, soc'), s1) = pre_average_decision cfg i s relay_on pv soc grid now cached
     in auto_decision_after_pre_average cfg i s1 relay_on pv soc' grid now cached decision)"

end
