(* ===== verification/Auto_Props.thy ===== *)
theory Auto_Props
  imports Auto_Decision
begin

text \<open>
  Lemmas about the Auto decision: what each operation leaves alone, when each handler settles the
  decision, and the invariant of the reported state and the stop timer.
\<close>

section \<open>Frames\<close>

lemma log_auto_fields [simp]:
  "au_start_since (log_auto e s) = au_start_since s" "au_stop_since (log_auto e s) = au_stop_since s"
  "au_stop_reason (log_auto e s) = au_stop_reason s" "au_samples (log_auto e s) = au_samples s"
  "au_smooth_surplus (log_auto e s) = au_smooth_surplus s" "au_smooth_grid (log_auto e s) = au_smooth_grid s"
  "au_relay_changed_at (log_auto e s) = au_relay_changed_at s" "au_relay_off_at (log_auto e s) = au_relay_off_at s"
  "au_started_at (log_auto e s) = au_started_at s" "au_override_until (log_auto e s) = au_override_until s"
  "au_grid_at (log_auto e s) = au_grid_at s" "au_recovery_required (log_auto e s) = au_recovery_required s"
  "au_recovery_since (log_auto e s) = au_recovery_since s" "au_high_soc (log_auto e s) = au_high_soc s"
  "au_ev_priority (log_auto e s) = au_ev_priority s" "au_learned_state (log_auto e s) = au_learned_state s"
  "au_learned_power (log_auto e s) = au_learned_power s" "au_learned_at (log_auto e s) = au_learned_at s"
  "au_cutover_pending (log_auto e s) = au_cutover_pending s" "au_ignore_offtime (log_auto e s) = au_ignore_offtime s"
  "au_metrics (log_auto e s) = au_metrics s" "au_reason (log_auto e s) = au_reason s"
  "au_code (log_auto e s) = au_code s" "au_state (log_auto e s) = au_state s"
  "au_state_code (log_auto e s) = au_state_code s"
  by (simp_all add: log_auto_def)

lemma set_health_fields [simp]:
  "au_start_since (set_health cfg s r c b) = au_start_since s" "au_stop_since (set_health cfg s r c b) = au_stop_since s"
  "au_stop_reason (set_health cfg s r c b) = au_stop_reason s" "au_samples (set_health cfg s r c b) = au_samples s"
  "au_smooth_surplus (set_health cfg s r c b) = au_smooth_surplus s"
  "au_smooth_grid (set_health cfg s r c b) = au_smooth_grid s"
  "au_relay_changed_at (set_health cfg s r c b) = au_relay_changed_at s"
  "au_relay_off_at (set_health cfg s r c b) = au_relay_off_at s"
  "au_started_at (set_health cfg s r c b) = au_started_at s"
  "au_override_until (set_health cfg s r c b) = au_override_until s"
  "au_grid_at (set_health cfg s r c b) = au_grid_at s"
  "au_recovery_required (set_health cfg s r c b) = au_recovery_required s"
  "au_recovery_since (set_health cfg s r c b) = au_recovery_since s"
  "au_high_soc (set_health cfg s r c b) = au_high_soc s"
  "au_learned_state (set_health cfg s r c b) = au_learned_state s"
  "au_cutover_pending (set_health cfg s r c b) = au_cutover_pending s"
  "au_ignore_offtime (set_health cfg s r c b) = au_ignore_offtime s"
  by (simp_all add: set_health_def apply_decision_trace_def Let_def)

lemma reset_auto_state_fields [simp]:
  "au_start_since (reset_auto_state s) = None" "au_stop_since (reset_auto_state s) = None"
  "au_stop_reason (reset_auto_state s) = None" "au_samples (reset_auto_state s) = []"
  "au_relay_changed_at (reset_auto_state s) = au_relay_changed_at s"
  "au_relay_off_at (reset_auto_state s) = au_relay_off_at s"
  "au_started_at (reset_auto_state s) = au_started_at s" "au_override_until (reset_auto_state s) = au_override_until s"
  "au_grid_at (reset_auto_state s) = au_grid_at s" "au_recovery_required (reset_auto_state s) = au_recovery_required s"
  "au_recovery_since (reset_auto_state s) = au_recovery_since s"
  "au_cutover_pending (reset_auto_state s) = au_cutover_pending s"
  "au_ignore_offtime (reset_auto_state s) = au_ignore_offtime s"
  "au_state (reset_auto_state s) = au_state s" "au_state_code (reset_auto_state s) = au_state_code s"
  by (simp_all add: reset_auto_state_def clear_auto_samples_def)

lemma clear_start_fields [simp]:
  "au_start_since (clear_auto_start_tracking s b) = None"
  "au_stop_since (clear_auto_start_tracking s b) = au_stop_since s"
  "au_stop_reason (clear_auto_start_tracking s b) = au_stop_reason s"
  "au_relay_changed_at (clear_auto_start_tracking s b) = au_relay_changed_at s"
  "au_recovery_required (clear_auto_start_tracking s b) = au_recovery_required s"
  "au_state (clear_auto_start_tracking s b) = au_state s"
  "au_state_code (clear_auto_start_tracking s b) = au_state_code s"
  by (simp_all add: clear_auto_start_tracking_def clear_auto_samples_def Let_def)

lemma thresholds_fields:
  assumes "surplus_thresholds_for_soc cfg s now soc = (r, t)"
  shows "au_start_since t = au_start_since s \<and> au_stop_since t = au_stop_since s
    \<and> au_stop_reason t = au_stop_reason s \<and> au_samples t = au_samples s
    \<and> au_relay_changed_at t = au_relay_changed_at s \<and> au_relay_off_at t = au_relay_off_at s
    \<and> au_ignore_offtime t = au_ignore_offtime s \<and> au_started_at t = au_started_at s
    \<and> au_override_until t = au_override_until s \<and> au_recovery_required t = au_recovery_required s
    \<and> au_state t = au_state s \<and> au_state_code t = au_state_code s
    \<and> au_ev_priority t = au_ev_priority s \<and> au_metrics t = au_metrics s"
  using thresholds_state [of cfg s now soc] assms by simp

section \<open>When a stop fires\<close>

text \<open>A stop condition that has been pending under its key for its whole delay.\<close>

definition stop_due :: "auto_svc \<Rightarrow> secs \<Rightarrow> string \<Rightarrow> secs \<Rightarrow> bool" where
  "stop_due s now key delay \<longleftrightarrow>
    (\<exists>since. au_stop_since s = Some since \<and> delay \<le> now - since)
    \<and> (au_stop_reason s = None \<or> au_stop_reason s = Some key)"

lemma arm_or_fire_settles:
  assumes "arm_or_fire_stop cfg s now reason cached delay key = (Some b, t)"
  shows "b = False \<and> stop_due s now (active_stop_key reason key) (effective_stop_delay (cf_stop_delay cfg) delay)"
  using assms
  by (auto simp: arm_or_fire_stop_def reset_stop_tracking_def ensure_stop_tracking_reason_def stop_due_def
      stop_tracking_needs_reset_def Let_def split: if_splits option.splits prod.splits)

lemma pending_stop_false:
  assumes "pending_stop_or_running cfg s now reason cached running delay key = (False, t)"
  shows "stop_due s now (active_stop_key reason key) (effective_stop_delay (cf_stop_delay cfg) delay)"
proof -
  obtain d u where a: "arm_or_fire_stop cfg s now reason cached delay key = (d, u)"
    by (cases "arm_or_fire_stop cfg s now reason cached delay key")
  show ?thesis
  proof (cases d)
    case None
    with assms a show ?thesis by (simp add: pending_stop_or_running_def set_health_result_def)
  next
    case (Some b)
    with arm_or_fire_settles a show ?thesis by blast
  qed
qed

lemma stop_due_cong:
  "au_stop_since t = au_stop_since s \<Longrightarrow> au_stop_reason t = au_stop_reason s \<Longrightarrow>
    stop_due t now k d = stop_due s now k d"
  by (simp add: stop_due_def)

lemma runtime_cong:
  "au_relay_changed_at t = au_relay_changed_at s \<Longrightarrow> minimum_runtime_elapsed cfg t now = minimum_runtime_elapsed cfg s now"
  by (simp add: minimum_runtime_elapsed_def)

lemma running_result [simp]: "fst (running_result_with_health cfg s r c) = True"
  by (simp add: running_result_with_health_def set_health_result_def)

lemma running_not_false [simp]: "running_result_with_health cfg s r c \<noteq> (False, t)"
  by (simp add: running_result_with_health_def set_health_result_def)

lemma idle_result [simp]: "fst (idle_result_with_health cfg s r c) = False"
  by (simp add: idle_result_with_health_def set_health_result_def)

lemma idle_not_true [simp]: "idle_result_with_health cfg s r c \<noteq> (True, t)"
  by (simp add: idle_result_with_health_def set_health_result_def)

text \<open>The stop key and delay the running-side decision used.\<close>

definition stop_delay_of :: "auto_cfg \<Rightarrow> string \<Rightarrow> secs" where
  "stop_delay_of cfg key =
    (if key = ''auto-stop-surplus'' then ap_stop_surplus_delay (cf_policy cfg) else cf_stop_delay cfg)"

lemma stop_reason_runtime:
  assumes "relay_on_stop_reason cfg s now su gr soc open_w elapsed = (Some reason, t)"
  shows "elapsed \<and> reason \<in> {''night-lock'', ''auto-stop-soc'', ''auto-stop-grid'', ''auto-stop-surplus''}
    \<and> au_stop_since t = au_stop_since s \<and> au_stop_reason t = au_stop_reason s"
  using assms
  by (auto simp: relay_on_stop_reason_def policy_relay_on_stop_reason_def split: if_splits prod.splits
      dest!: thresholds_fields)

lemma handle_relay_on_false:
  assumes "handle_relay_on cfg s su gr soc open_w now cached = (False, t)"
  shows "minimum_runtime_elapsed cfg s now \<and> (\<exists>key. stop_due s now key (stop_delay_of cfg key))"
proof -
  let ?s1 = "s\<lparr>au_start_since := None\<rparr>"
  obtain r s2 where r: "relay_on_stop_reason cfg ?s1 now su gr soc open_w (minimum_runtime_elapsed cfg ?s1 now) = (r, s2)"
    by (cases "relay_on_stop_reason cfg ?s1 now su gr soc open_w (minimum_runtime_elapsed cfg ?s1 now)")
  show ?thesis
  proof (cases r)
    case None
    with assms r show ?thesis by (simp add: handle_relay_on_def)
  next
    case (Some reason)
    note sr = stop_reason_runtime [OF r [unfolded Some]]
    have "stop_due s2 now reason (stop_delay_of cfg reason)"
      using assms r Some
      by (auto simp: handle_relay_on_def Let_def stop_delay_of_def active_stop_key_def effective_stop_delay_def
          dest!: pending_stop_false)
    then have "stop_due s now reason (stop_delay_of cfg reason)" using sr by (simp add: stop_due_def)
    moreover have "minimum_runtime_elapsed cfg s now" using sr by (simp add: minimum_runtime_elapsed_def)
    ultimately show ?thesis by blast
  qed
qed


section \<open>The timers across a decision\<close>

text \<open>What the stop and start decisions look at, as one projection.\<close>

definition timers where
  "timers s = (au_start_since s, au_stop_since s, au_stop_reason s, au_relay_changed_at s, au_relay_off_at s,
     au_ignore_offtime s, au_started_at s, au_override_until s)"

lemma timers_eq:
  assumes "timers t = timers s"
  shows "au_start_since t = au_start_since s" "au_stop_since t = au_stop_since s"
    "au_stop_reason t = au_stop_reason s" "au_relay_changed_at t = au_relay_changed_at s"
    "au_relay_off_at t = au_relay_off_at s" "au_ignore_offtime t = au_ignore_offtime s"
    "au_started_at t = au_started_at s" "au_override_until t = au_override_until s"
  using assms by (simp_all add: timers_def)

lemma timers_health [simp]: "timers (set_health cfg s r c b) = timers s"
  by (simp add: timers_def)

lemma timers_log [simp]: "timers (log_auto e s) = timers s"
  by (simp add: timers_def)

lemma timers_soc:
  "resolve_battery_soc cfg s soc on now c = ((v, None), t) \<Longrightarrow> timers t = timers s \<and> v \<noteq> None"
  by (auto simp: resolve_battery_soc_def normalized_battery_soc_def allowed_missing_battery_soc_def
      blocked_missing_battery_soc_def timers_def Let_def split: option.splits if_splits prod.splits)

lemma timers_metrics [simp]: "timers (s\<lparr>au_metrics := m\<rparr>) = timers s"
  by (simp add: timers_def)

lemma timers_thresholds [simp]: "timers (snd (surplus_thresholds_for_soc cfg s now soc)) = timers s"
  by (simp add: thresholds_state timers_def)

lemma timers_sample [simp]: "timers (add_auto_sample cfg s now su gr) = timers s"
  by (simp add: add_auto_sample_def timers_def Let_def)

lemma timers_smoothed [simp]: "timers (snd (smoothed_decision_metrics s on su gr a)) = timers s"
  by (simp add: smoothed_decision_metrics_def timers_def Let_def)

lemma timers_battery [simp]: "timers (snd (battery_adjusted_surplus_metrics cfg i s d pv gr soc on)) = timers s"
  by (simp add: battery_adjusted_surplus_metrics_def ev_priority_metrics_def update_ev_priority_state_def
      timers_def Let_def split_def)

lemma timers_averages:
  assumes "averaged_auto_metrics cfg i s now pv gr soc on c = (r, t)"
  shows "timers t = timers s"
proof -
  have "timers (snd (update_average_metrics cfg i s now pv gr soc on)) = timers s"
    by (simp add: update_average_metrics_def Let_def split_def split: option.split)
  with assms show ?thesis
    by (auto simp: averaged_auto_metrics_def split: prod.splits option.splits)
qed

lemma timers_common_gates:
  "handle_common_runtime_gates cfg s on now c = (None, t) \<Longrightarrow>
    t = s \<and> cf_warmup cfg \<le> now - au_started_at s \<and> au_override_until s \<le> now"
  by (auto simp: handle_common_runtime_gates_def split: if_splits prod.splits)

lemma common_gates_decide:
  "handle_common_runtime_gates cfg s on now c = (Some b, t) \<Longrightarrow> b = on"
  by (auto simp: handle_common_runtime_gates_def set_health_result_def split: if_splits)

lemma timers_recovery:
  "handle_grid_recovery_start_gate cfg s on now c = (None, t) \<Longrightarrow> timers t = timers s"
  by (auto simp: handle_grid_recovery_start_gate_def grid_recovery_completes_immediately_def
      grid_recovery_waiting_def grid_recovery_wait_decision_def set_health_result_def timers_def Let_def
      split: if_splits option.splits prod.splits bool.splits)

lemma recovery_gate_running [simp]:
  "fst (handle_grid_recovery_start_gate cfg s True now c) = None"
  by (auto simp: handle_grid_recovery_start_gate_def grid_recovery_wait_decision_def Let_def
      split: bool.splits prod.splits)

lemma recovery_gate_not_running [simp]:
  "handle_grid_recovery_start_gate cfg s True now c \<noteq> (Some b, t)"
proof
  assume "handle_grid_recovery_start_gate cfg s True now c = (Some b, t)"
  then have "fst (handle_grid_recovery_start_gate cfg s True now c) = Some b" by (metis fst_conv)
  then show False by simp
qed

lemma recovery_gate_idle:
  assumes "handle_grid_recovery_start_gate cfg s False now c = (None, t)" "au_recovery_required s"
  shows "ap_grid_recovery (cf_policy cfg) \<le> 0
    \<or> (\<exists>since. au_recovery_since s = Some since \<and> ap_grid_recovery (cf_policy cfg) \<le> now - since)"
  using assms
  by (auto simp: handle_grid_recovery_start_gate_def grid_recovery_completes_immediately_def not_less
      grid_recovery_waiting_def grid_recovery_wait_decision_def set_health_result_def Let_def
      split: if_splits option.splits bool.splits)

section \<open>Gates that settle the decision\<close>

lemma cutover_running:
  "handle_cutover_pending cfg i s True c = (d, t) \<Longrightarrow>
    (if au_cutover_pending s then d = Some False else d = None \<and> t = s)"
  by (auto simp: handle_cutover_pending_def cutover_relay_off_confirmed_def cutover_confirmed_off_def
      cutover_blocked_by_pending_or_active_def Let_def split: if_splits option.splits)

lemma grid_missing_false:
  assumes "handle_grid_missing cfg s True now c = (False, t)"
  shows "minimum_runtime_elapsed cfg s now \<and> stop_due s now ''grid-missing'' (cf_stop_delay cfg)"
  using assms
  by (auto simp: handle_grid_missing_def Let_def active_stop_key_def effective_stop_delay_def
      minimum_runtime_elapsed_def stop_due_def dest!: pending_stop_false split: if_splits)

lemma missing_inputs_false:
  assumes "handle_missing_inputs cfg i s True soc gr now c = (False, t)"
  shows "minimum_runtime_elapsed cfg s now \<and> (\<exists>key. key \<in> {''night-lock'', ''auto-stop''} \<and> stop_due s now key (cf_stop_delay cfg))"
  using assms
  by (auto simp: handle_missing_inputs_def Let_def active_stop_key_def effective_stop_delay_def
      minimum_runtime_elapsed_def stop_due_def known_missing_input_stop_reason_def policy_stop_reason_def
      dest!: pending_stop_false split: if_splits option.splits)

lemma missing_inputs_idle: "fst (handle_missing_inputs cfg i s False soc gr now c) = False"
  by (simp add: handle_missing_inputs_def Let_def)

lemma grid_missing_idle: "fst (handle_grid_missing cfg s False now c) = False"
  by (simp add: handle_grid_missing_def Let_def)

lemma scheduled_night_on: "scheduled_night_decision cfg i s True now c \<noteq> (False, t)"
  by (auto simp: scheduled_night_decision_def dest: common_gates_decide split: prod.splits option.splits)

lemma stop_delay_default [simp]:
  "stop_delay_of cfg ''grid-missing'' = cf_stop_delay cfg" "stop_delay_of cfg ''night-lock'' = cf_stop_delay cfg"
  "stop_delay_of cfg ''auto-stop'' = cf_stop_delay cfg"
  by (simp_all add: stop_delay_of_def)

section \<open>How a decision comes about\<close>

text \<open>The stages a decision can end in.\<close>

lemma auto_decide_cases:
  assumes "auto_decide_relay cfg i s on pv soc gr = (x, t)"
  obtains (mode) b where "pre_average_mode_decision cfg i s on (ai_cached i) = (Some b, t)" "x = Inr b"
  | (input_gate) b s1 where "pre_average_mode_decision cfg i s on (ai_cached i) = (None, s1)"
      "pre_average_input_gate_decision cfg i s1 on gr (ai_now i) (ai_cached i) = (Some b, t)" "x = Inr b"
  | (night) s1 s2 b where "pre_average_mode_decision cfg i s on (ai_cached i) = (None, s1)"
      "pre_average_input_gate_decision cfg i s1 on gr (ai_now i) (ai_cached i) = (None, s2)"
      "scheduled_night_charge_active i"
      "scheduled_night_decision cfg i (set_scheduled_night_metrics s2 gr soc) on (ai_now i) (ai_cached i) = (b, t)"
      "x = Inr b"
  | (no_soc) s1 s2 v b where "pre_average_mode_decision cfg i s on (ai_cached i) = (None, s1)"
      "pre_average_input_gate_decision cfg i s1 on gr (ai_now i) (ai_cached i) = (None, s2)"
      "resolve_battery_soc cfg s2 soc on (ai_now i) (ai_cached i) = ((v, Some b), t)" "x = Inr b"
  | (missing) s1 s2 s3 v b where "pre_average_mode_decision cfg i s on (ai_cached i) = (None, s1)"
      "pre_average_input_gate_decision cfg i s1 on gr (ai_now i) (ai_cached i) = (None, s2)"
      "resolve_battery_soc cfg s2 soc on (ai_now i) (ai_cached i) = ((Some v, None), s3)"
      "handle_missing_inputs cfg i s3 on v gr (ai_now i) (ai_cached i) = (b, t)" "x = Inr b"
  | (averaged) s1 s2 s3 s4 v pv' gr' avg b where "pre_average_mode_decision cfg i s on (ai_cached i) = (None, s1)"
      "pre_average_input_gate_decision cfg i s1 on gr (ai_now i) (ai_cached i) = (None, s2)"
      "\<not> scheduled_night_charge_active i"
      "resolve_battery_soc cfg s2 soc on (ai_now i) (ai_cached i) = ((Some v, None), s3)"
      "pv = Some pv'" "gr = Some gr'"
      "averaged_auto_metrics cfg i s3 (ai_now i) pv' gr' v on (ai_cached i) = (avg, s4)"
      "decision_from_available_averages cfg i s4 on v (ai_now i) (ai_cached i) avg = (b, t)" "x = Inr b"
proof -
  let ?now = "ai_now i" and ?c = "ai_cached i"
  obtain d1 s1 where m: "pre_average_mode_decision cfg i s on ?c = (d1, s1)"
    by (cases "pre_average_mode_decision cfg i s on ?c")
  obtain d2 s2 where g: "pre_average_input_gate_decision cfg i s1 on gr ?now ?c = (d2, s2)"
    by (cases "pre_average_input_gate_decision cfg i s1 on gr ?now ?c")
  obtain v d3 s3 where r: "resolve_battery_soc cfg s2 soc on ?now ?c = ((v, d3), s3)"
    by (metis prod.collapse)
  note defs = auto_decide_relay_def pre_average_decision_def pre_average_gate_chain_result_def
    auto_decision_after_pre_average_def Let_def
  show thesis
  proof (cases d1)
    case (Some b)
    with assms m that(1) show thesis by (simp add: defs)
  next
    case None
    note d1 = None
    show thesis
    proof (cases d2)
      case (Some b)
      with assms m g d1 that(2) show thesis by (simp add: defs)
    next
      case None
      note d2 = None
      show thesis
      proof (cases "scheduled_night_charge_active i")
        case True
        obtain b u where "scheduled_night_decision cfg i (set_scheduled_night_metrics s2 gr soc) on ?now ?c = (b, u)"
          by (cases "scheduled_night_decision cfg i (set_scheduled_night_metrics s2 gr soc) on ?now ?c")
        with assms m g d1 d2 True that(3) show thesis by (simp add: defs)
      next
        case False
        note base = assms m g d1 d2 False r
        show thesis
        proof (cases d3)
          case (Some b)
          with base that(4) show thesis by (simp add: defs)
        next
          case None
          with timers_soc r obtain w where v: "v = Some w" by blast
          show thesis
          proof (cases "pv \<noteq> None \<and> gr \<noteq> None")
            case True
            then obtain pv' gr' where in': "pv = Some pv'" "gr = Some gr'" by auto
            obtain avg s4 where a: "averaged_auto_metrics cfg i s3 ?now pv' gr' w on ?c = (avg, s4)"
              by (cases "averaged_auto_metrics cfg i s3 ?now pv' gr' w on ?c")
            obtain b u where "decision_from_available_averages cfg i s4 on w ?now ?c avg = (b, u)"
              by (cases "decision_from_available_averages cfg i s4 on w ?now ?c avg")
            with base None v in' a that(6) show thesis
              by (simp add: defs pre_average_missing_input_result_def)
          next
            case False
            obtain b u where "handle_missing_inputs cfg i s3 on w gr ?now ?c = (b, u)"
              by (cases "handle_missing_inputs cfg i s3 on w gr ?now ?c")
            with base None v False that(5) show thesis
              by (auto simp: defs pre_average_missing_input_result_def)
          qed
        qed
      qed
    qed
  qed
qed

end
