(* ===== verification/Auto_Claims.thy ===== *)
theory Auto_Claims
  imports Auto_Props
begin

text \<open>
  The properties of the Auto decision: when it stops, when it starts, that it always decides, what it
  reports, and the averages and windows it decides on.
\<close>

section \<open>Stopping\<close>

lemma mode_decision_cases:
  "pre_average_mode_decision cfg i s on c = (d, t) \<Longrightarrow>
    (\<not> mode_uses_auto_logic (ai_mode i) \<and> d = Some on)
    \<or> (mode_uses_auto_logic (ai_mode i) \<and> \<not> ai_enabled i \<and> d = Some False)
    \<or> (mode_uses_auto_logic (ai_mode i) \<and> ai_enabled i \<and> handle_cutover_pending cfg i s on c = (d, t))"
  by (auto simp: pre_average_mode_decision_def handle_non_auto_mode_def handle_disabled_mode_def
      split: if_splits prod.splits)

lemma mode_decision_open_running:
  "pre_average_mode_decision cfg i s True c = (None, t) \<Longrightarrow> t = s"
  by (auto dest!: mode_decision_cases cutover_running split: if_splits)

lemma input_gate_open_timers:
  "pre_average_input_gate_decision cfg i s on gr now c = (None, t) \<Longrightarrow> timers t = timers s"
  by (auto simp: pre_average_input_gate_decision_def dest: timers_recovery split: if_splits prod.splits)

lemma input_gate_false_running:
  assumes "pre_average_input_gate_decision cfg i s True gr now c = (Some False, t)"
  shows "minimum_runtime_elapsed cfg s now \<and> stop_due s now ''grid-missing'' (cf_stop_delay cfg)"
  using assms
  by (auto simp: pre_average_input_gate_decision_def dest: grid_missing_false split: if_splits prod.splits)

lemma stop_due_timers: "timers t = timers s \<Longrightarrow> stop_due t now k d = stop_due s now k d"
  by (simp add: timers_def stop_due_def)

lemma runtime_timers: "timers t = timers s \<Longrightarrow> minimum_runtime_elapsed cfg t now = minimum_runtime_elapsed cfg s now"
  by (simp add: timers_def minimum_runtime_elapsed_def)

lemma averages_false_running:
  assumes "decision_from_available_averages cfg i s True soc now c avg = (False, t)"
  shows "minimum_runtime_elapsed cfg s now \<and> (\<exists>key. stop_due s now key (stop_delay_of cfg key))"
proof -
  obtain su gr d w u where a: "avg = Some (su, gr)" "post_average_decision cfg i s True now c = ((d, w), u)"
    using assms
    by (cases avg; cases "post_average_decision cfg i s True now c")
       (auto simp: decision_from_available_averages_def)
  from a(2) have "(d = None \<and> u = s) \<or> d = Some True"
    by (auto simp: post_average_decision_def dest: timers_common_gates common_gates_decide
        split: prod.splits option.splits)
  with assms a show ?thesis
    by (auto simp: decision_from_available_averages_def decision_from_averages_def dest!: handle_relay_on_false)
qed


definition sample_in :: auto_in where
  "sample_in = \<lparr>ai_now = 1000, ai_mode = 1, ai_enabled = True, ai_autostart = True, ai_month = 6,
     ai_minutes = 720, ai_night_boost = False, ai_pending_relay = None,
     ai_relay = \<lparr>cr_worker_poll = None, cr_sync_timeout = None, cr_status = None, cr_captured_at = None\<rparr>,
     ai_sync_requested_at = None,
     ai_activity = \<lparr>ba_surplus_penalty = None, ba_charge_penalty = None, ba_charge_power = None,
       ba_expected_export = None, ba_expected_import = None\<rparr>,
     ai_charging_power = 0, ai_cached = False\<rparr>"

definition importing_svc :: auto_svc where
  "importing_svc = idle_auto\<lparr>au_stop_since := Some 900, au_stop_reason := Some ''auto-stop-grid'',
     au_relay_changed_at := Some 100\<rparr>"



section \<open>Starting\<close>

text \<open>What the thresholds depend on.\<close>

definition thr_part where
  "thr_part s = (au_high_soc s, au_learned_state s, au_learned_power s, au_learned_at s)"

lemma thresholds_depend:
  assumes "thr_part t = thr_part s"
  shows "fst (surplus_thresholds_for_soc cfg t now soc) = fst (surplus_thresholds_for_soc cfg s now soc)"
proof -
  have f: "au_high_soc t = au_high_soc s" "au_learned_state t = au_learned_state s"
    "au_learned_power t = au_learned_power s" "au_learned_at t = au_learned_at s"
    using assms by (simp_all add: thr_part_def)
  have pos: "positive_learned_charge_power (t\<lparr>au_high_soc := h\<rparr>) = positive_learned_charge_power (s\<lparr>au_high_soc := h\<rparr>)" for h
    by (simp add: positive_learned_charge_power_def f)
  have ages: "learned_charge_power_expired cfg (t\<lparr>au_high_soc := h\<rparr>) now = learned_charge_power_expired cfg (s\<lparr>au_high_soc := h\<rparr>) now"
    "learned_charge_power_missing_update_time (t\<lparr>au_high_soc := h\<rparr>) = learned_charge_power_missing_update_time (s\<lparr>au_high_soc := h\<rparr>)" for h
    by (simp_all add: learned_charge_power_expired_def learned_charge_power_age_seconds_def
        learned_charge_power_missing_update_time_def f)
  have "current_learned_charge_power_state cfg (t\<lparr>au_high_soc := h\<rparr>) now = current_learned_charge_power_state cfg (s\<lparr>au_high_soc := h\<rparr>) now" for h
    by (simp add: current_learned_charge_power_state_def stale_learned_charge_power_state_def pos ages f Let_def)
  then have "active_learned_charge_power cfg (t\<lparr>au_high_soc := h\<rparr>) now = active_learned_charge_power cfg (s\<lparr>au_high_soc := h\<rparr>) now" for h
    by (simp add: active_learned_charge_power_def learned_charge_power_inactive_for_auto_def
        learned_charge_power_age_invalid_for_auto_def pos ages)
  then have "learned_charge_power_scale cfg (t\<lparr>au_high_soc := h\<rparr>) now = learned_charge_power_scale cfg (s\<lparr>au_high_soc := h\<rparr>) now" for h
    by (simp add: learned_charge_power_scale_def)
  then show ?thesis
    by (simp add: surplus_thresholds_for_soc_def scale_surplus_thresholds_def f Let_def split_def)
qed

lemma thresholds_twice:
  assumes "auto_policy_ok (cf_policy cfg)"
    and "thr_part t = thr_part (snd (surplus_thresholds_for_soc cfg s now soc))"
  shows "fst (surplus_thresholds_for_soc cfg t now soc) = fst (surplus_thresholds_for_soc cfg s now soc)"
proof -
  let ?p = "cf_policy cfg" and ?s1 = "snd (surplus_thresholds_for_soc cfg s now soc)"
  have s1: "?s1 = s\<lparr>au_high_soc := Some (resolved_high_soc_active ?p soc (au_high_soc s))\<rparr>"
    by (rule thresholds_state)
  have "resolved_high_soc_active ?p soc (au_high_soc ?s1) = resolved_high_soc_active ?p soc (au_high_soc s)"
    using assms(1) unfolding s1
    by (auto simp: resolved_high_soc_active_def auto_policy_ok_def split: option.splits bool.splits)
  then have "resolve_threshold_profile ?p soc (au_high_soc ?s1) = resolve_threshold_profile ?p soc (au_high_soc s)"
    by (simp add: resolve_threshold_profile_def)
  then have "fst (surplus_thresholds_for_soc cfg ?s1 now soc) = fst (surplus_thresholds_for_soc cfg s now soc)"
    by (simp add: surplus_thresholds_for_soc_def s1 Let_def split_def)
  with thresholds_depend [OF assms(2)] show ?thesis by simp
qed

lemma thr_basic [simp]:
  "thr_part (set_health cfg s r c b) = thr_part s" "thr_part (log_auto e s) = thr_part s"
  "thr_part (s\<lparr>au_metrics := m\<rparr>) = thr_part s" "thr_part (add_auto_sample cfg s now su gr) = thr_part s"
  "thr_part (snd (smoothed_decision_metrics s on su gr a)) = thr_part s"
  "thr_part (snd (battery_adjusted_surplus_metrics cfg i s d pv gr soc on)) = thr_part s"
  "thr_part (s\<lparr>au_allow_warning := w\<rparr>) = thr_part s"
  "thr_part (reset_auto_state s) = thr_part s" "thr_part (complete_mode_cutover s) = thr_part s"
  by (simp_all add: thr_part_def set_health_def apply_decision_trace_def add_auto_sample_def
      smoothed_decision_metrics_def battery_adjusted_surplus_metrics_def ev_priority_metrics_def
      update_ev_priority_state_def reset_auto_state_def clear_auto_samples_def complete_mode_cutover_def
      Let_def split_def)

lemma averaged_result:
  assumes "averaged_auto_metrics cfg i s now pv gr soc on c = (Some (su, g), t)"
  shows "thr_part t = thr_part (snd (surplus_thresholds_for_soc cfg s now soc))"
    "am_surplus (au_metrics t) = Some su" "am_grid (au_metrics t) = Some g"
proof -
  let ?s1 = "add_auto_sample cfg s now (get_available_surplus_watts pv gr) gr"
  have same: "thr_part (snd (surplus_thresholds_for_soc cfg ?s1 now soc))
      = thr_part (snd (surplus_thresholds_for_soc cfg s now soc))"
    by (simp add: thresholds_state thr_part_def add_auto_sample_def Let_def)
  have u: "update_average_metrics cfg i s now pv gr soc on = (Some (su, g), t)"
    using assms by (auto simp: averaged_auto_metrics_def split: prod.splits option.splits)
  have "fst (update_average_metrics cfg i s now pv gr soc on) = Some (a, b) \<Longrightarrow>
      thr_part (snd (update_average_metrics cfg i s now pv gr soc on))
        = thr_part (snd (surplus_thresholds_for_soc cfg ?s1 now soc))
      \<and> am_surplus (au_metrics (snd (update_average_metrics cfg i s now pv gr soc on))) = Some a
      \<and> am_grid (au_metrics (snd (update_average_metrics cfg i s now pv gr soc on))) = Some b" for a b
    by (auto simp: update_average_metrics_def Let_def split_def split: option.splits)
  from this [of su g] u same
  show "thr_part t = thr_part (snd (surplus_thresholds_for_soc cfg s now soc))"
    "am_surplus (au_metrics t) = Some su" "am_grid (au_metrics t) = Some g"
    by simp_all
qed

lemma arm_start_true:
  assumes "arm_or_fire_start cfg s now c = (True, t)"
  shows "(\<exists>since. au_start_since s = Some since \<and> cf_start_delay cfg \<le> now - since)
    \<and> am_surplus (au_metrics t) = am_surplus (au_metrics s) \<and> am_grid (au_metrics t) = am_grid (au_metrics s)"
  using assms
  by (auto simp: arm_or_fire_start_def set_health_def apply_decision_trace_def sanitized_auto_metrics_def
      clear_minimum_offtime_bypass_def Let_def split: option.splits if_splits)

lemma handle_relay_off_true:
  assumes "handle_relay_off cfg i s su g soc open_w now c = (True, t)"
  shows "ai_autostart i \<and> open_w \<and> minimum_offtime_elapsed cfg s now
    \<and> fst (fst (surplus_thresholds_for_soc cfg s now soc)) \<le> su \<and> g \<le> ap_start_max_grid (cf_policy cfg)
    \<and> ap_resume_soc (cf_policy cfg) \<le> soc
    \<and> (\<exists>since. au_start_since s = Some since \<and> cf_start_delay cfg \<le> now - since)
    \<and> am_surplus (au_metrics t) = am_surplus (au_metrics s) \<and> am_grid (au_metrics t) = am_grid (au_metrics s)"
proof -
  obtain st sp nm s0 where th: "surplus_thresholds_for_soc cfg s now soc = ((st, sp, nm), s0)"
    by (metis prod.collapse)
  note f = thresholds_fields [OF th]
  let ?s1 = "s0\<lparr>au_stop_since := None\<rparr>"
  have "ai_autostart i"
    and m: "relay_off_start_conditions_met (minimum_offtime_elapsed cfg ?s1 now) open_w su g soc st (cf_policy cfg)"
    and "arm_or_fire_start cfg ?s1 now c = (True, t)"
    using assms th by (auto simp: handle_relay_off_def Let_def split: if_splits prod.splits)
  with arm_start_true [OF this(3)] f th show ?thesis
    by (auto simp: relay_off_start_conditions_met_def minimum_offtime_elapsed_def)
qed

lemma mode_decision_open_idle:
  assumes "pre_average_mode_decision cfg i s on c = (None, t)"
  shows "mode_uses_auto_logic (ai_mode i) \<and> ai_enabled i \<and> thr_part t = thr_part s
    \<and> au_recovery_required t = au_recovery_required s \<and> au_recovery_since t = au_recovery_since s
    \<and> au_grid_at t = au_grid_at s \<and> au_started_at t = au_started_at s \<and> au_override_until t = au_override_until s
    \<and> (if au_cutover_pending s then au_start_since t = None \<and> cutover_relay_off_confirmed i on else t = s)"
  using mode_decision_cases [OF assms]
  by (auto simp: handle_cutover_pending_def complete_cutover_pending_def complete_mode_cutover_def
      Let_def thr_part_def reset_auto_state_def clear_auto_samples_def split: if_splits)

lemma input_gate_open_idle:
  assumes "pre_average_input_gate_decision cfg i s False gr now c = (None, t)" "\<not> scheduled_night_charge_active i"
  shows "grid_recently_read cfg s gr now \<and> thr_part t = thr_part s \<and> (au_recovery_required s \<longrightarrow>
    ap_grid_recovery (cf_policy cfg) \<le> 0
    \<or> (\<exists>since. au_recovery_since s = Some since \<and> ap_grid_recovery (cf_policy cfg) \<le> now - since))"
proof -
  from assms have g: "grid_recently_read cfg s gr now"
    "handle_grid_recovery_start_gate cfg s False now c = (None, t)"
    by (auto simp: pre_average_input_gate_decision_def split: if_splits prod.splits)
  moreover from g(2) have "thr_part t = thr_part s"
    by (auto simp: handle_grid_recovery_start_gate_def grid_recovery_completes_immediately_def thr_part_def
        grid_recovery_waiting_def grid_recovery_wait_decision_def set_health_result_def Let_def
        split: if_splits option.splits bool.splits)
  ultimately show ?thesis using recovery_gate_idle [OF g(2)] by auto
qed

lemma recovery_gate_settles:
  "handle_grid_recovery_start_gate cfg s on now c = (Some b, t) \<Longrightarrow> b = False"
  by (auto simp: handle_grid_recovery_start_gate_def grid_recovery_wait_decision_def set_health_result_def Let_def
      split: if_splits bool.splits prod.splits)

lemma soc_settles:
  "resolve_battery_soc cfg s soc on now c = ((v, Some b), t) \<Longrightarrow> b = on"
  by (auto simp: resolve_battery_soc_def allowed_missing_battery_soc_def blocked_missing_battery_soc_def Let_def
      split: option.splits if_splits prod.splits)

lemma soc_open:
  assumes "resolve_battery_soc cfg s soc on now c = ((Some v, None), t)"
  shows "thr_part t = thr_part s \<and> (soc = Some v \<and> 0 \<le> v \<and> v \<le> 100 \<or> cf_allow_without_soc cfg \<and> v = ap_resume_soc (cf_policy cfg))"
  using assms
  by (auto simp: resolve_battery_soc_def normalized_battery_soc_def allowed_missing_battery_soc_def
      blocked_missing_battery_soc_def Let_def split: option.splits if_splits prod.splits)

lemma decision_from_averages_true:
  assumes "decision_from_available_averages cfg i s False soc now c avg = (True, t)"
  obtains su g where "avg = Some (su, g)" "cf_warmup cfg \<le> now - au_started_at s" "au_override_until s \<le> now"
    "handle_relay_off cfg i s su g soc (is_within_auto_daytime_window cfg i) now c = (True, t)"
proof -
  obtain su g where a: "avg = Some (su, g)"
    using assms by (cases avg) (auto simp: decision_from_available_averages_def)
  obtain d u where gates: "handle_common_runtime_gates cfg s False now c = (d, u)"
    by (cases "handle_common_runtime_gates cfg s False now c")
  with assms a common_gates_decide [of cfg s False now c] have "d = None"
    by (cases d) (auto simp: decision_from_available_averages_def decision_from_averages_def post_average_decision_def)
  with gates timers_common_gates have "u = s" "cf_warmup cfg \<le> now - au_started_at s" "au_override_until s \<le> now"
    by blast+
  with assms a gates \<open>d = None\<close> that show thesis
    by (auto simp: decision_from_available_averages_def decision_from_averages_def post_average_decision_def)
qed


definition armed_svc :: auto_svc where
  "armed_svc = idle_auto\<lparr>au_start_since := Some 980\<rparr>"


section \<open>Every input gets a decision\<close>

text \<open>
  The workflow decides for every state and every combination of present and missing inputs:
  no assertion in it can fail.
\<close>

theorem auto_decide_total:
  "\<exists>b t. auto_decide_relay cfg i s relay_on pv soc grid = (Inr b, t)"
proof -
  obtain x t where r: "auto_decide_relay cfg i s relay_on pv soc grid = (x, t)"
    by (cases "auto_decide_relay cfg i s relay_on pv soc grid")
  then have "\<exists>b. x = Inr b" by (cases rule: auto_decide_cases) auto
  with r show ?thesis by auto
qed

text \<open>
  Outside the Auto modes the relay is left as it is, and with Auto disabled it is switched off;
  either way the start and stop timers and the sample window are cleared.
\<close>

theorem auto_mode_and_enable_gate:
  assumes "\<not> mode_uses_auto_logic (ai_mode i) \<or> \<not> ai_enabled i"
    and "auto_decide_relay cfg i s relay_on pv soc grid = (x, t)"
  shows "x = Inr (if mode_uses_auto_logic (ai_mode i) then False else relay_on)
    \<and> au_start_since t = None \<and> au_stop_since t = None \<and> au_samples t = [] \<and> \<not> au_cutover_pending t"
  using assms
  by (auto simp: auto_decide_relay_def pre_average_decision_def pre_average_gate_chain_result_def
      pre_average_mode_decision_def handle_non_auto_mode_def handle_disabled_mode_def reset_mode_cutover_def
      auto_decision_after_pre_average_def set_auto_state_def Let_def)

theorem auto_mode_and_enable_gate_witness:
  "fst (auto_decide_relay default_cfg (sample_in\<lparr>ai_enabled := False\<rparr>) armed_svc True None None None) = Inr False"
proof -
  have "\<not> ai_enabled (sample_in\<lparr>ai_enabled := False\<rparr>)" by simp
  from auto_mode_and_enable_gate [OF disjI2 [OF this] prod.collapse [symmetric]]
  show ?thesis by (simp add: sample_in_def mode_uses_auto_logic_def normalize_mode_def)
qed

section \<open>The stop timer\<close>

text \<open>
  A stop condition that gives way to another one does not inherit its waiting time: the charger
  keeps running and the timer restarts under the new reason.
\<close>

theorem stop_timer_restarts_per_reason:
  assumes "relay_on_stop_reason cfg (s\<lparr>au_start_since := None\<rparr>) now surplus grid soc window
      (minimum_runtime_elapsed cfg s now) = (Some reason, u)"
    and "au_stop_reason s = Some other" "other \<noteq> reason"
    and "handle_relay_on cfg s surplus grid soc window now cached = (b, t)"
  shows "b \<and> au_stop_since t = Some now \<and> au_stop_reason t = Some reason"
proof -
  have rt: "minimum_runtime_elapsed cfg (s\<lparr>au_start_since := None\<rparr>) now = minimum_runtime_elapsed cfg s now"
    by (simp add: minimum_runtime_elapsed_def)
  from stop_reason_runtime [OF assms(1)] assms(2) have "au_stop_reason u = Some other" by simp
  then show ?thesis
    using assms rt
    by (auto simp: handle_relay_on_def pending_stop_or_running_def arm_or_fire_stop_def reset_stop_tracking_def
        stop_tracking_needs_reset_def active_stop_key_def set_health_result_def Let_def split: if_splits)
qed

theorem stop_timer_restarts_per_reason_witness:
  "fst (handle_relay_on default_cfg importing_svc 0 900 10 True 1000 False)"
proof -
  have r: "fst (relay_on_stop_reason default_cfg (importing_svc\<lparr>au_start_since := None\<rparr>) 1000 0 900 10 True
      (minimum_runtime_elapsed default_cfg importing_svc 1000)) = Some ''auto-stop-soc''"
    by code_simp
  then have "relay_on_stop_reason default_cfg (importing_svc\<lparr>au_start_since := None\<rparr>) 1000 0 900 10 True
      (minimum_runtime_elapsed default_cfg importing_svc 1000) = (Some ''auto-stop-soc'',
        snd (relay_on_stop_reason default_cfg (importing_svc\<lparr>au_start_since := None\<rparr>) 1000 0 900 10 True
      (minimum_runtime_elapsed default_cfg importing_svc 1000)))"
    by (metis prod.collapse)
  from stop_timer_restarts_per_reason [OF this _ _ prod.collapse [symmetric], of "''auto-stop-grid''" False]
  show ?thesis by (simp add: importing_svc_def)
qed

section \<open>The sample window\<close>

lemma dropWhile_sorted:
  assumes "sorted (map fst xs)"
  shows "set (dropWhile (\<lambda>(t, _). t < c) xs) = {x \<in> set xs. (c :: rat) \<le> fst x}"
  using assms
proof (induction xs)
  case (Cons x xs)
  then show ?case by (cases x) (auto dest: order.trans)
qed simp

lemma sorted_dropWhile: "sorted (map fst xs) \<Longrightarrow> sorted (map fst (dropWhile P xs))"
  by (metis dropWhile_eq_drop drop_map sorted_wrt_drop)

lemma sum_list_above: "xs \<noteq> [] \<Longrightarrow> \<forall>x\<in>set xs. (m :: rat) < x \<Longrightarrow> of_nat (length xs) * m < sum_list xs"
  by (induction xs rule: list_nonempty_induct) (auto simp: algebra_simps add_strict_mono)

lemma sum_list_below: "xs \<noteq> [] \<Longrightarrow> \<forall>x\<in>set xs. x < (m :: rat) \<Longrightarrow> sum_list xs < of_nat (length xs) * m"
  by (induction xs rule: list_nonempty_induct) (auto simp: algebra_simps add_strict_mono)

lemma mean_bounds:
  assumes "xs \<noteq> []"
  shows "\<exists>lo\<in>set xs. lo \<le> mean xs" "\<exists>hi\<in>set xs. mean xs \<le> hi"
proof -
  have "of_nat (length xs) * mean xs = sum_list xs" using assms by (simp add: mean_def)
  with sum_list_above [OF assms, of "mean xs"] sum_list_below [OF assms, of "mean xs"]
  show "\<exists>lo\<in>set xs. lo \<le> mean xs" "\<exists>hi\<in>set xs. mean xs \<le> hi"
    by (auto simp: not_le [symmetric])
qed

text \<open>
  The sample buffer is exactly the averaging window: in time order, adding a sample keeps every
  earlier sample that is not older than the window and drops every older one; the new sample is
  always kept, and the average lies between two of the kept values.
\<close>

theorem auto_sample_window:
  assumes "sorted (map fst (au_samples s))" "\<forall>x\<in>set (au_samples s). fst x \<le> now"
    and "0 \<le> cf_average_window cfg" "t = add_auto_sample cfg s now surplus grid"
  shows "set (au_samples t) = {x \<in> set (au_samples s). now - cf_average_window cfg \<le> fst x} \<union> {(now, surplus, grid)}
    \<and> sorted (map fst (au_samples t))
    \<and> (\<exists>m lo hi. average_auto_metric t f = Some m \<and> lo \<in> f ` set (au_samples t) \<and> hi \<in> f ` set (au_samples t)
        \<and> lo \<le> m \<and> m \<le> hi)"
proof -
  let ?xs = "au_samples s @ [(now, surplus, grid)]"
  have srt: "sorted (map fst ?xs)" using assms(1,2) by (auto simp: sorted_append)
  have set_t: "set (au_samples t) = {x \<in> set (au_samples s). now - cf_average_window cfg \<le> fst x} \<union> {(now, surplus, grid)}"
    using assms(3,4) dropWhile_sorted [OF srt] by (auto simp: add_auto_sample_def)
  then have "map f (au_samples t) \<noteq> []" by auto
  from mean_bounds [OF this] have "\<exists>m lo hi. average_auto_metric t f = Some m \<and> lo \<in> f ` set (au_samples t)
      \<and> hi \<in> f ` set (au_samples t) \<and> lo \<le> m \<and> m \<le> hi"
    using \<open>map f (au_samples t) \<noteq> []\<close> unfolding average_auto_metric_def by (fastforce simp del: set_t)
  moreover have "sorted (map fst (au_samples t))"
    using sorted_dropWhile [OF srt] assms(4) by (simp add: add_auto_sample_def)
  ultimately show ?thesis using set_t by blast
qed

theorem auto_sample_window_witness:
  "set (au_samples (add_auto_sample default_cfg (idle_auto\<lparr>au_samples := [(10, 1, 2), (80, 3, 4)]\<rparr>) 100 5 6))
    = {(80, 3, 4), (100, 5, 6)}"
  using auto_sample_window [of "idle_auto\<lparr>au_samples := [(10, 1, 2), (80, 3, 4)]\<rparr>" 100 default_cfg, OF _ _ _ refl,
      of 5 6 fst]
  by (auto simp: default_cfg_def)

text \<open>
  While the charger runs, the smoothed surplus and import lie between the previous smoothed
  value and the current average, for every valid policy and every volatility of the samples.
\<close>

theorem smoothing_stays_between:
  assumes "auto_policy_ok (cf_policy cfg)" "adaptive_stop_alpha cfg u = (alpha, stage, variance)"
    and "au_smooth_surplus s = Some previous"
    and "smoothed_decision_metrics s True surplus grid alpha = ((ds, dg), t)"
  shows "min previous surplus \<le> ds \<and> ds \<le> max previous surplus \<and> au_smooth_surplus t = Some ds"
proof -
  have "fraction alpha"
    using adaptive_alpha_fraction [of "ap_ewma (cf_policy cfg)" "stop_surplus_variance u"] assms(1,2)
    by (simp add: adaptive_stop_alpha_def auto_policy_ok_def)
  then have a: "0 \<le> alpha" "alpha \<le> 1" by (simp_all add: fraction_def)
  have ds: "ds = previous + alpha * (surplus - previous)" "au_smooth_surplus t = Some ds"
    using assms(3,4) by (auto simp: smoothed_decision_metrics_def smooth_metric_def Let_def)
  show ?thesis
  proof (cases "previous \<le> surplus")
    case True
    then have "0 \<le> alpha * (surplus - previous)" "alpha * (surplus - previous) \<le> surplus - previous"
      using a mult_left_le_one_le [of "surplus - previous" alpha] by simp_all
    with True ds show ?thesis by simp
  next
    case False
    then have "0 \<le> alpha * (previous - surplus)" "alpha * (previous - surplus) \<le> previous - surplus"
      using a mult_left_le_one_le [of "previous - surplus" alpha] by simp_all
    with False ds show ?thesis by (simp add: algebra_simps)
  qed
qed

theorem smoothing_stays_between_witness:
  "fst (fst (smoothed_decision_metrics (idle_auto\<lparr>au_smooth_surplus := Some 1000\<rparr>) True 2000 0 (35/100))) \<le> 2000"
proof -
  have "fst (adaptive_stop_alpha default_cfg idle_auto) = 35/100" by code_simp
  then obtain st v where "adaptive_stop_alpha default_cfg idle_auto = (35/100, st, v)" by (metis prod.collapse)
  moreover have "auto_policy_ok (cf_policy default_cfg)" by (simp add: default_cfg_def default_policy_ok)
  moreover let ?u = "idle_auto\<lparr>au_smooth_surplus := Some 1000\<rparr>"
  obtain ds dg t where "smoothed_decision_metrics ?u True 2000 0 (35/100) = ((ds, dg), t)"
    by (metis prod.collapse)
  ultimately show ?thesis
    using smoothing_stays_between [of default_cfg idle_auto "35/100" st v ?u 1000 2000 0 ds dg t] by simp
qed

section \<open>The daytime window\<close>

text \<open>
  The daytime window is the half-open interval from its start to its end, also when it runs
  over midnight, and the whole day when both are equal.
\<close>

theorem daytime_window_wraps:
  assumes "0 \<le> current" "current < 1440" "0 \<le> st" "st < 1440" "0 \<le> en" "en < 1440"
  shows "minutes_within_daytime_window current st en \<longleftrightarrow>
    (if st = en then True else if st < en then st \<le> current \<and> current < en else st \<le> current \<or> current < en)"
proof -
  have m: "(a - b) mod 1440 = (if b \<le> a then a - b else a - b + 1440)" if "0 \<le> a" "a < 1440" "0 \<le> b" "b < 1440" for a b :: int
    using that mod_pos_pos_trivial [of "a - b" 1440] mod_pos_pos_trivial [of "a - b + 1440" 1440] by auto
  show ?thesis
    using assms m [of en st] m [of current st] by (auto simp: minutes_within_daytime_window_def Let_def)
qed

theorem daytime_window_wraps_witness: "minutes_within_daytime_window 100 1320 360"
  using daytime_window_wraps [of 100 1320 360] by simp

section \<open>Runs of decisions\<close>

text \<open>
  What holds of the stored state between cycles: the reported state is one of the broad states with its
  own code, and a running stop timer knows its reason.
\<close>

definition auto_ok :: "auto_svc \<Rightarrow> bool" where
  "auto_ok s \<longleftrightarrow> map_of auto_state_codes (au_state s) = Some (au_state_code s)
    \<and> (au_stop_since s \<noteq> None \<longrightarrow> au_stop_reason s \<noteq> None)"

lemma auto_state_code_known: "map_of auto_state_codes (normalize_auto_state st) \<noteq> None"
  by (auto simp: normalize_auto_state_def auto_state_codes_def Let_def split: option.splits)

lemma normalize_auto_state_idem:
  assumes "map_of auto_state_codes n \<noteq> None"
  shows "normalize_auto_state (Some n) = n"
proof -
  have "normalize_auto_state (Some ''idle'') = ''idle''" "normalize_auto_state (Some ''waiting'') = ''waiting''"
    "normalize_auto_state (Some ''learning'') = ''learning''" "normalize_auto_state (Some ''charging'') = ''charging''"
    "normalize_auto_state (Some ''blocked'') = ''blocked''" "normalize_auto_state (Some ''recovery'') = ''recovery''"
    by code_simp+
  with assms show ?thesis by (auto simp: auto_state_codes_def split: if_splits)
qed

lemma reported_pair:
  "map_of auto_state_codes (normalize_auto_state st) = Some (auto_state_code (Some (normalize_auto_state st)))"
  using auto_state_code_known [of st] by (auto simp: auto_state_code_def normalize_auto_state_idem)

lemma ok_health [inv_intros]: "auto_ok s \<Longrightarrow> auto_ok (set_health cfg s r c b)"
  by (simp add: auto_ok_def) (simp add: set_health_def apply_decision_trace_def Let_def reported_pair)

lemma ok_frame [simp]:
  "auto_ok (s\<lparr>au_start_since := a\<rparr>) = auto_ok s" "auto_ok (log_auto e s) = auto_ok s"
  "auto_ok (s\<lparr>au_metrics := m\<rparr>) = auto_ok s" "auto_ok (s\<lparr>au_allow_warning := w\<rparr>) = auto_ok s"
  "auto_ok (s\<lparr>au_recovery_since := r\<rparr>) = auto_ok s" "auto_ok (s\<lparr>au_recovery_required := q\<rparr>) = auto_ok s"
  "auto_ok (s\<lparr>au_recovery_since := r, au_recovery_required := q\<rparr>) = auto_ok s"
  "auto_ok (s\<lparr>au_recovery_required := q, au_recovery_since := r\<rparr>) = auto_ok s"
  "auto_ok (clear_auto_start_tracking s k) = auto_ok s"
  "auto_ok (snd (surplus_thresholds_for_soc cfg s now soc)) = auto_ok s"
  "auto_ok (add_auto_sample cfg s now su gr) = auto_ok s"
  "auto_ok (snd (smoothed_decision_metrics s on su gr al)) = auto_ok s"
  "auto_ok (snd (battery_adjusted_surplus_metrics cfg i s d pv gr soc on)) = auto_ok s"
  "auto_ok (set_scheduled_night_metrics s g so) = auto_ok s"
  "auto_ok (clear_minimum_offtime_bypass s) = auto_ok s"
  "auto_ok (mark_relay_changed s on now) = auto_ok s"
  by (simp_all add: auto_ok_def thresholds_state add_auto_sample_def smoothed_decision_metrics_def
      battery_adjusted_surplus_metrics_def ev_priority_metrics_def update_ev_priority_state_def
      set_scheduled_night_metrics_def clear_minimum_offtime_bypass_def mark_relay_changed_def Let_def split_def)

lemma ok_cleared [inv_intros]:
  "auto_ok s \<Longrightarrow> auto_ok (reset_auto_state s)" "auto_ok s \<Longrightarrow> auto_ok (clear_auto_stop_tracking s)"
  "auto_ok s \<Longrightarrow> auto_ok (s\<lparr>au_stop_since := None\<rparr>)" "auto_ok s \<Longrightarrow> auto_ok (snd (clear_auto_decision_tracking s))"
  "auto_ok s \<Longrightarrow> auto_ok (reset_mode_cutover s)" "auto_ok s \<Longrightarrow> auto_ok (complete_mode_cutover s)"
  by (simp_all add: auto_ok_def clear_auto_stop_tracking_def clear_auto_decision_tracking_def
      reset_mode_cutover_def complete_mode_cutover_def)

lemma ok_results [inv_intros]:
  "auto_ok s \<Longrightarrow> auto_ok (snd (set_health_result cfg s r c b))"
  "auto_ok s \<Longrightarrow> auto_ok (snd (idle_result_with_health cfg s r c))"
  "auto_ok s \<Longrightarrow> auto_ok (snd (running_result_with_health cfg s r c))"
  by (simp_all add: set_health_result_def idle_result_with_health_def running_result_with_health_def inv_intros)

lemma ok_idle_state [inv_intros]: "auto_ok s \<Longrightarrow> auto_ok (set_auto_state s ''idle'')"
proof -
  have "auto_state_code (Some ''idle'') = 0" by code_simp
  then show "auto_ok s \<Longrightarrow> auto_ok (set_auto_state s ''idle'')"
    by (simp add: auto_ok_def set_auto_state_def auto_state_codes_def)
qed

lemma ok_arm_stop [inv_intros]: "auto_ok s \<Longrightarrow> auto_ok (snd (arm_or_fire_stop cfg s now r c d k))"
  by (auto simp: arm_or_fire_stop_def reset_stop_tracking_def ensure_stop_tracking_reason_def Let_def
      auto_ok_def split: option.splits if_splits bool.splits prod.splits)
     (auto simp: set_health_def apply_decision_trace_def Let_def reported_pair)

lemma ok_pending [inv_intros]: "auto_ok s \<Longrightarrow> auto_ok (snd (pending_stop_or_running cfg s now r c rr d k))"
  by (simp add: pending_stop_or_running_def split_def inv_intros split: option.split)

lemma ok_averages [inv_intros]: "auto_ok s \<Longrightarrow> auto_ok (snd (averaged_auto_metrics cfg i s now pv gr soc on c))"
proof -
  assume "auto_ok s"
  then have "auto_ok (snd (update_average_metrics cfg i s now pv gr soc on))"
    by (simp add: update_average_metrics_def Let_def split_def split: option.split)
  then show ?thesis
    by (auto simp: averaged_auto_metrics_def split: prod.splits option.splits simp: inv_intros)
qed

lemma ok_gates [inv_intros]:
  "auto_ok s \<Longrightarrow> auto_ok (snd (handle_common_runtime_gates cfg s on now c))"
  "auto_ok s \<Longrightarrow> auto_ok (snd (handle_grid_missing cfg s on now c))"
  "auto_ok s \<Longrightarrow> auto_ok (snd (handle_missing_inputs cfg i s on v gr now c))"
  "auto_ok s \<Longrightarrow> auto_ok (snd (handle_cutover_pending cfg i s on c))"
  "auto_ok s \<Longrightarrow> auto_ok (snd (handle_non_auto_mode s on))"
  "auto_ok s \<Longrightarrow> auto_ok (snd (handle_disabled_mode cfg s c))"
  by (auto simp: handle_common_runtime_gates_def handle_grid_missing_def handle_missing_inputs_def Let_def
      handle_cutover_pending_def handle_non_auto_mode_def handle_disabled_mode_def complete_cutover_pending_def
      split_def split: option.splits simp: inv_intros)

lemma ok_recovery [inv_intros]:
  "auto_ok s \<Longrightarrow> auto_ok (snd (handle_grid_recovery_start_gate cfg s on now c))"
  by (auto simp: handle_grid_recovery_start_gate_def grid_recovery_completes_immediately_def
      grid_recovery_waiting_def grid_recovery_wait_decision_def Let_def split_def
      split: option.splits bool.splits simp: inv_intros)

lemma ok_soc [inv_intros]: "auto_ok s \<Longrightarrow> auto_ok (snd (resolve_battery_soc cfg s soc on now c))"
  by (auto simp: resolve_battery_soc_def normalized_battery_soc_def allowed_missing_battery_soc_def
      blocked_missing_battery_soc_def Let_def split: option.splits simp: inv_intros)

lemma ok_pre_gates [inv_intros]:
  "auto_ok s \<Longrightarrow> auto_ok (snd (pre_average_mode_decision cfg i s on c))"
  "auto_ok s \<Longrightarrow> auto_ok (snd (pre_average_input_gate_decision cfg i s on gr now c))"
  by (auto simp: pre_average_mode_decision_def pre_average_input_gate_decision_def split_def Let_def simp: inv_intros)

lemma ok_relay_on [inv_intros]: "auto_ok s \<Longrightarrow> auto_ok (snd (handle_relay_on cfg s su gr soc w now c))"
proof -
  assume "auto_ok s"
  let ?s1 = "s\<lparr>au_start_since := None\<rparr>"
  obtain r u where r: "relay_on_stop_reason cfg ?s1 now su gr soc w (minimum_runtime_elapsed cfg ?s1 now) = (r, u)"
    by (cases "relay_on_stop_reason cfg ?s1 now su gr soc w (minimum_runtime_elapsed cfg ?s1 now)")
  have "auto_ok (snd (relay_on_stop_reason cfg ?s1 now su gr soc w (minimum_runtime_elapsed cfg ?s1 now)))"
    using \<open>auto_ok s\<close> by (simp add: relay_on_stop_reason_def policy_relay_on_stop_reason_def split_def Let_def)
  with r have "auto_ok u" by simp
  then show ?thesis
    by (auto simp: handle_relay_on_def r Let_def split: option.splits simp: inv_intros)
qed

lemma ok_relay_off [inv_intros]: "auto_ok s \<Longrightarrow> auto_ok (snd (handle_relay_off cfg i s su gr soc w now c))"
proof -
  assume "auto_ok s"
  then have s1: "auto_ok ((snd (surplus_thresholds_for_soc cfg s now soc))\<lparr>au_stop_since := None\<rparr>)" (is "auto_ok ?s1")
    by (simp add: inv_intros)
  then have "auto_ok (snd (arm_or_fire_start cfg ?s1 now c))"
    by (auto simp: arm_or_fire_start_def split: option.splits simp: inv_intros)
  moreover have "auto_ok (snd (waiting_health_reason cfg (clear_auto_start_tracking ?s1 False) now ot w su gr soc))" for ot
    using s1 by (auto simp: waiting_health_reason_def threshold_waiting_health_reason_def split_def Let_def)
  ultimately show ?thesis
    using s1 by (auto simp: handle_relay_off_def Let_def split_def simp: inv_intros)
qed

lemma ok_night [inv_intros]: "auto_ok s \<Longrightarrow> auto_ok (snd (scheduled_night_decision cfg i s on now c))"
  by (simp add: scheduled_night_decision_def scheduled_night_start_result_def split_def inv_intros
      split: option.split)

lemma ok_decision [inv_intros]:
  "auto_ok s \<Longrightarrow> auto_ok (snd (decision_from_available_averages cfg i s on soc now c avg))"
  by (simp add: decision_from_available_averages_def decision_from_averages_def post_average_decision_def
      split_def inv_intros split: option.split)

lemma ok_decide [inv_intros]:
  assumes "auto_ok s"
  shows "auto_ok (snd (auto_decide_relay cfg i s on pv soc gr))"
proof -
  obtain x t where r: "auto_decide_relay cfg i s on pv soc gr = (x, t)"
    by (cases "auto_decide_relay cfg i s on pv soc gr")
  then have "auto_ok t"
    by (cases rule: auto_decide_cases) (use assms in \<open>metis inv_intros snd_conv ok_frame\<close>)+
  with r show ?thesis by simp
qed

text \<open>Between two decisions the relay may change; each cycle may see other settings and other inputs.\<close>

datatype auto_event =
    Decide auto_cfg auto_in bool "watts option" "rat option" "watts option"
  | RelayChanged bool secs

fun auto_step :: "auto_svc \<Rightarrow> auto_event \<Rightarrow> auto_svc" where
  "auto_step s (Decide cfg i relay_on pv soc grid) = snd (auto_decide_relay cfg i s relay_on pv soc grid)"
| "auto_step s (RelayChanged relay_on now) = mark_relay_changed s relay_on now"

lemma auto_step_ok: "auto_ok s \<Longrightarrow> auto_ok (auto_step s e)"
  by (cases e) (simp_all add: inv_intros)

interpretation auto_run: stepwise auto_step auto_ok
  by unfold_locales (rule auto_step_ok)

text \<open>
  Along every run of decisions and relay changes, under whatever settings and inputs, the
  reported broad state is a known one and its numeric code is the code of that state, and a running
  stop timer knows the reason it runs for.
\<close>

theorem auto_run_reports_consistently:
  assumes "auto_ok s"
  shows "auto_ok (foldl auto_step s es)"
  using assms by (rule auto_run.run_inv)

theorem auto_run_reports_consistently_witness:
  "auto_ok (foldl auto_step idle_auto [Decide default_cfg sample_in False (Some 5000) (Some 60) (Some (- 4000))])"
  by (rule auto_run_reports_consistently) (simp add: auto_ok_def idle_auto_def auto_state_codes_def)

section \<open>The night lock without inputs\<close>

text \<open>
  With the night lock configured, a charger that runs while PV or grid readings are missing is
  stopped as night-locked after the stop delay also while the daytime window is open, whatever the SOC
  and the import; with complete inputs the night lock stops it only outside the window.
\<close>

theorem night_lock_ignores_daytime_without_inputs:
  assumes "cf_night_lock cfg" "is_within_auto_daytime_window cfg i"
    and "minimum_runtime_elapsed cfg s now" "au_stop_since s = Some since" "cf_stop_delay cfg \<le> now - since"
    and "au_stop_reason s = Some ''night-lock''"
  shows "fst (handle_missing_inputs cfg i s True soc gr now cached) = False
    \<and> \<not> night_lock_stop_requested cfg (is_within_auto_daytime_window cfg i)"
proof -
  have "minimum_runtime_elapsed cfg (clear_auto_start_tracking s True) now"
    using assms(3) by (simp add: minimum_runtime_elapsed_def)
  then show ?thesis
    using assms
    by (simp add: handle_missing_inputs_def known_missing_input_stop_reason_def pending_stop_or_running_def
        arm_or_fire_stop_def reset_stop_tracking_def stop_tracking_needs_reset_def active_stop_key_def
        ensure_stop_tracking_reason_def effective_stop_delay_def night_lock_stop_requested_def Let_def)
qed

theorem night_lock_ignores_daytime_without_inputs_witness:
  "fst (handle_missing_inputs default_cfg sample_in
     (idle_auto\<lparr>au_stop_since := Some 900, au_stop_reason := Some ''night-lock''\<rparr>) True 80 None 1000 False) = False"
proof -
  have w: "is_within_auto_daytime_window default_cfg sample_in" by code_simp
  from night_lock_ignores_daytime_without_inputs [OF _ w, of "idle_auto\<lparr>au_stop_since := Some 900,
      au_stop_reason := Some ''night-lock''\<rparr>" 1000 900 80 None False]
  show ?thesis by (simp add: default_cfg_def idle_auto_def minimum_runtime_elapsed_def)
qed

end
