(* ===== verification/Py_Values.thy ===== *)
theory Py_Values
  imports Prelude
begin

text \<open>
  The dynamically typed values that reach the service from JSON, and the built-in conversions the
  service applies to them: \<open>str\<close>, \<open>int\<close>, \<open>float\<close> and \<open>bool\<close>.  A float carries the text \<open>str()\<close> gives
  it; an array or object is represented by its text alone.  Float values are exact rationals; the
  conversion limit of binary64 is kept, rounding is not.  CPython's limit on the number of digits in
  an integer literal is not modelled.
\<close>

datatype pyval = PNone | PBool bool | PInt int | PFloat pyfloat string | PStr string | PJson string

section \<open>Text of a value\<close>

definition digit_char :: "nat \<Rightarrow> char" where
  "digit_char d = char_of (48 + d)"

fun nat_text :: "nat \<Rightarrow> string" where
  "nat_text n = (if n < 10 then [digit_char n] else nat_text (n div 10) @ [digit_char (n mod 10)])"

declare nat_text.simps [simp del]

definition int_text :: "int \<Rightarrow> string" where
  "int_text i = (if i < 0 then CHR ''-'' # nat_text (nat (- i)) else nat_text (nat i))"

fun py_str :: "pyval \<Rightarrow> string" where
  "py_str PNone = ''None''"
| "py_str (PBool b) = (if b then ''True'' else ''False'')"
| "py_str (PInt i) = int_text i"
| "py_str (PFloat _ s) = s"
| "py_str (PStr s) = s"
| "py_str (PJson s) = s"

section \<open>Searching in text\<close>

fun py_in :: "string \<Rightarrow> string \<Rightarrow> bool" where
  "py_in t [] = (t = [])"
| "py_in t (c # s) = (take (length t) (c # s) = t \<or> py_in t s)"

fun py_join :: "string \<Rightarrow> string list \<Rightarrow> string" where
  "py_join sep [] = ''''"
| "py_join sep [w] = w"
| "py_join sep (w # v # ws) = w @ sep @ py_join sep (v # ws)"

section \<open>Integers from text\<close>

definition digit_value :: "char \<Rightarrow> nat option" where
  "digit_value c = (let n = (of_char c :: nat) in if 48 \<le> n \<and> n \<le> 57 then Some (n - 48) else None)"

text \<open>A run of digits with single underscores between them, read onto an accumulator.\<close>

fun digits_onto :: "nat \<Rightarrow> string \<Rightarrow> nat option" where
  "digits_onto acc [] = Some acc"
| "digits_onto acc (c # s) =
    (case digit_value c of
       Some d \<Rightarrow> digits_onto (10 * acc + d) s
     | None \<Rightarrow> if c = CHR ''_'' then (case s of d # s' \<Rightarrow>
         (case digit_value d of Some v \<Rightarrow> digits_onto (10 * acc + v) s' | None \<Rightarrow> None) | [] \<Rightarrow> None) else None)"

definition digits_value :: "string \<Rightarrow> nat option" where
  "digits_value s = (case s of [] \<Rightarrow> None | c # s' \<Rightarrow>
     (case digit_value c of Some d \<Rightarrow> digits_onto d s' | None \<Rightarrow> None))"

fun split_sign :: "string \<Rightarrow> bool \<times> string" where
  "split_sign [] = (False, [])"
| "split_sign (c # s) = (if c = CHR ''-'' then (True, s) else if c = CHR ''+'' then (False, s) else (False, c # s))"

definition int_of_text :: "string \<Rightarrow> int option" where
  "int_of_text s = (case split_sign (py_strip s) of (neg, t) \<Rightarrow>
     map_option (\<lambda>n. if neg then - int n else int n) (digits_value t))"

text \<open>\<open>str.isdigit\<close> is also true for the superscripts two, three and one of Latin-1.\<close>

definition py_isdigit :: "string \<Rightarrow> bool" where
  "py_isdigit s \<longleftrightarrow> s \<noteq> [] \<and> (\<forall>c\<in>set s. digit_value c \<noteq> None \<or> (of_char c :: nat) \<in> {178, 179, 185})"

section \<open>Floats\<close>

text \<open>The least magnitude that rounds to infinity.\<close>

definition float_overflow :: rat where
  "float_overflow = 2 ^ 1024 - 2 ^ 970"

definition float_of_rat :: "rat \<Rightarrow> pyfloat" where
  "float_of_rat x = (if float_overflow \<le> x then PosInf else if x \<le> - float_overflow then NegInf else Fin x)"

fun fraction_digits :: "string \<Rightarrow> rat option" where
  "fraction_digits s = (if s = [] then Some 0
     else map_option (\<lambda>n. of_nat n / 10 ^ length (filter (\<lambda>c. c \<noteq> CHR ''_'') s)) (digits_value s))"

definition decimal_mantissa :: "string \<Rightarrow> rat option" where
  "decimal_mantissa s = (case split_at (CHR ''.'') s of
       [whole] \<Rightarrow> map_option of_nat (digits_value whole)
     | [whole, part] \<Rightarrow>
         if whole = [] \<and> part = [] then None
         else if whole = [] then fraction_digits part
         else (case (digits_value whole, fraction_digits part) of
             (Some n, Some f) \<Rightarrow> Some (of_nat n + f) | _ \<Rightarrow> None)
     | _ \<Rightarrow> None)"

definition decimal_of_text :: "string \<Rightarrow> rat option" where
  "decimal_of_text s = (case split_at (CHR ''e'') (py_lower s) of
       [m] \<Rightarrow> decimal_mantissa m
     | [m, e] \<Rightarrow> (case (decimal_mantissa m, split_sign e) of
           (Some x, (neg, t)) \<Rightarrow>
             map_option (\<lambda>n. if neg then x / 10 ^ n else x * 10 ^ n) (digits_value t)
         | (None, _) \<Rightarrow> None)
     | _ \<Rightarrow> None)"

definition float_of_text :: "string \<Rightarrow> pyfloat option" where
  "float_of_text s = (case split_sign (py_strip s) of (neg, t) \<Rightarrow>
     let word = py_lower t in
     if word = ''inf'' \<or> word = ''infinity'' then Some (if neg then NegInf else PosInf)
     else if word = ''nan'' then Some NaN
     else map_option (\<lambda>x. float_of_rat (if neg then - x else x)) (decimal_of_text t))"

section \<open>Conversions\<close>

definition trunc_rat :: "rat \<Rightarrow> int" where
  "trunc_rat x = (if 0 \<le> x then \<lfloor>x\<rfloor> else \<lceil>x\<rceil>)"

fun py_int :: "pyval \<Rightarrow> exc + int" where
  "py_int PNone = Inl TypeErr"
| "py_int (PBool b) = Inr (if b then 1 else 0)"
| "py_int (PInt i) = Inr i"
| "py_int (PFloat (Fin x) _) = Inr (trunc_rat x)"
| "py_int (PFloat NaN _) = Inl ValueErr"
| "py_int (PFloat _ _) = Inl OverflowErr"
| "py_int (PStr s) = (case int_of_text s of Some i \<Rightarrow> Inr i | None \<Rightarrow> Inl ValueErr)"
| "py_int (PJson _) = Inl TypeErr"

fun py_float :: "pyval \<Rightarrow> exc + pyfloat" where
  "py_float PNone = Inl TypeErr"
| "py_float (PBool b) = Inr (Fin (if b then 1 else 0))"
| "py_float (PInt i) =
    (case float_of_rat (of_int i) of Fin x \<Rightarrow> Inr (Fin x) | _ \<Rightarrow> Inl OverflowErr)"
| "py_float (PFloat x _) = Inr x"
| "py_float (PStr s) = (case float_of_text s of Some x \<Rightarrow> Inr x | None \<Rightarrow> Inl ValueErr)"
| "py_float (PJson _) = Inl TypeErr"

section \<open>Facts\<close>

lemma py_float_int_small: "\<bar>of_int i\<bar> < float_overflow \<Longrightarrow> py_float (PInt i) = Inr (Fin (of_int i))"
  by (auto simp: float_of_rat_def)

text \<open>Evaluation need not compute the overflow bound for small magnitudes.\<close>

lemma float_of_rat_code [code]:
  "float_of_rat x = (if \<bar>x\<bar> < 9223372036854775808 then Fin x
     else if float_overflow \<le> x then PosInf else if x \<le> - float_overflow then NegInf else Fin x)"
proof -
  have "9223372036854775808 < float_overflow" by (simp add: float_overflow_def)
  then show ?thesis by (auto simp: float_of_rat_def abs_less_iff)
qed

lemma digit_value_char: "d < 10 \<Longrightarrow> digit_value (digit_char d) = Some d"
  by (simp add: digit_value_def digit_char_def)

lemma digit_value_underscore [simp]: "digit_value (CHR ''_'') = None"
  by (simp add: digit_value_def)

lemma digits_onto_append:
  "digits_onto acc s = Some v \<Longrightarrow> d < 10 \<Longrightarrow> digits_onto acc (s @ [digit_char d]) = Some (10 * v + d)"
proof (induction acc s arbitrary: v rule: digits_onto.induct)
  case (2 acc c s)
  then show ?case
    by (cases "digit_value c"; cases s) (auto simp: digit_value_char split: option.splits if_splits)
qed (simp add: digit_value_char)

lemma digits_value_text: "digits_value (nat_text n) = Some n"
proof (induction n rule: nat_text.induct)
  case (1 n)
  show ?case
  proof (cases "n < 10")
    case False
    with 1 have IH: "digits_value (nat_text (n div 10)) = Some (n div 10)" by simp
    then obtain c s d where cs: "nat_text (n div 10) = c # s" "digit_value c = Some d" "digits_onto d s = Some (n div 10)"
      by (auto simp: digits_value_def split: list.splits option.splits)
    from digits_onto_append [OF cs(3), of "n mod 10"] cs False show ?thesis
      by (subst nat_text.simps) (simp add: digits_value_def)
  qed (subst nat_text.simps, simp add: digits_value_def digit_value_char)
qed

end
