(* ===== verification/Control_Command.thy ===== *)
theory Control_Command
  imports Py_Values "HOL-Library.List_Lexorder" "HOL-Library.Char_ord"
begin

text \<open>
  Validation of Control API commands (\<open>control/service.py\<close>) against the registry of writable targets
  (\<open>core/contracts_control_surface.py\<close>), and the command and result models (\<open>control/models.py\<close>).
  A payload is a JSON object: an ordered dictionary of \<open>pyval\<close>.  The validators raise \<open>ValueError\<close>
  with a message the HTTP layer inspects, so an error carries its class and message; the one other
  class they let through is the \<open>OverflowError\<close> of \<open>float()\<close> on a huge integer.
\<close>

section \<open>The registry of control targets\<close>

datatype value_kind = KBinary | KCurrent | KFloat | KInteger | KMode | KPhaseSelection | KString

record target_contract =
  tc_target :: string
  tc_writable :: bool
  tc_rollback_snapshot :: bool
  tc_direct_command :: "string option"
  tc_value_kind :: "value_kind option"
  tc_required_order :: "nat option"

definition plain_target :: "string \<Rightarrow> value_kind option \<Rightarrow> target_contract" where
  "plain_target t k = \<lparr>tc_target = t, tc_writable = True, tc_rollback_snapshot = True,
     tc_direct_command = None, tc_value_kind = k, tc_required_order = None\<rparr>"

definition direct_target :: "string \<Rightarrow> string \<Rightarrow> value_kind \<Rightarrow> nat option \<Rightarrow> target_contract" where
  "direct_target t c k ord =
    (plain_target t (Some k))\<lparr>tc_direct_command := Some c, tc_required_order := ord\<rparr>"

definition direct_control_targets :: "target_contract list" where
  "direct_control_targets =
    [direct_target ''mode'' ''set_mode'' KMode (Some 0),
     direct_target ''auto_start'' ''set_auto_start'' KBinary (Some 4),
     direct_target ''start_stop'' ''set_start_stop'' KBinary (Some 1),
     direct_target ''enable'' ''set_enable'' KBinary (Some 2),
     direct_target ''phase_selection'' ''set_phase_selection'' KPhaseSelection None]"

definition phase_status_targets :: "string list" where
  "phase_status_targets =
    [''phase_selection_active'', ''supported_phase_selections'', ''auto_phase_lockout_active'',
     ''auto_phase_lockout_target'', ''auto_phase_lockout_reason'', ''auto_phase_supported_configured'',
     ''auto_phase_supported_effective'', ''auto_phase_degraded_active'']"

definition contactor_status_targets :: "string list" where
  "contactor_status_targets =
    [''auto_contactor_fault_count'', ''auto_contactor_lockout_active'', ''auto_contactor_lockout_reason'',
     ''auto_contactor_lockout_source'', ''auto_contactor_lockout_age'']"

definition current_setting_contracts :: "target_contract list" where
  "current_setting_contracts =
    [(plain_target ''set_current'' (Some KCurrent))\<lparr>tc_required_order := Some 3\<rparr>,
     plain_target ''min_current'' (Some KCurrent), plain_target ''max_current'' (Some KCurrent)]"

definition phase_lockout_reset_contract :: target_contract where
  "phase_lockout_reset_contract = direct_target ''auto_phase_lockout_reset'' ''reset_phase_lockout'' KBinary None"

definition contactor_lockout_reset_contract :: target_contract where
  "contactor_lockout_reset_contract =
    direct_target ''auto_contactor_lockout_reset'' ''reset_contactor_lockout'' KBinary None"

definition auto_runtime_target_specs :: "(string \<times> value_kind) list" where
  "auto_runtime_target_specs =
    [(''auto_start_surplus_watts'', KFloat), (''auto_stop_surplus_watts'', KFloat), (''auto_min_soc'', KFloat),
     (''auto_resume_soc'', KFloat), (''auto_start_delay_seconds'', KFloat), (''auto_stop_delay_seconds'', KFloat),
     (''auto_scheduled_enabled_days'', KString), (''auto_scheduled_fallback_delay_seconds'', KFloat),
     (''auto_scheduled_latest_end_time'', KString), (''auto_scheduled_night_current'', KFloat),
     (''auto_dbus_backoff_base_seconds'', KFloat), (''auto_dbus_backoff_max_seconds'', KFloat),
     (''auto_grid_recovery_start_seconds'', KFloat), (''auto_stop_surplus_delay_seconds'', KFloat),
     (''auto_stop_surplus_volatility_low_watts'', KFloat), (''auto_stop_surplus_volatility_high_watts'', KFloat),
     (''auto_reference_charge_power_watts'', KFloat), (''auto_learn_charge_power_enabled'', KBinary),
     (''auto_learn_charge_power_min_watts'', KFloat), (''auto_learn_charge_power_alpha'', KFloat),
     (''auto_learn_charge_power_start_delay_seconds'', KFloat), (''auto_learn_charge_power_window_seconds'', KFloat),
     (''auto_learn_charge_power_max_age_seconds'', KFloat), (''auto_phase_switching'', KBinary),
     (''auto_phase_prefer_lowest_when_idle'', KBinary), (''auto_phase_upshift_delay_seconds'', KFloat),
     (''auto_phase_downshift_delay_seconds'', KFloat), (''auto_phase_upshift_headroom_watts'', KFloat),
     (''auto_phase_downshift_margin_watts'', KFloat), (''auto_phase_mismatch_retry_seconds'', KFloat),
     (''auto_phase_mismatch_lockout_count'', KInteger), (''auto_phase_mismatch_lockout_seconds'', KFloat)]"

definition software_update_contract :: target_contract where
  "software_update_contract = (direct_target ''auto_software_update_run'' ''trigger_software_update'' KBinary None)
     \<lparr>tc_rollback_snapshot := False\<rparr>"

definition control_target_contracts :: "target_contract list" where
  "control_target_contracts =
    direct_control_targets
    @ map (\<lambda>t. (plain_target t None)\<lparr>tc_writable := False\<rparr>) phase_status_targets
    @ [phase_lockout_reset_contract]
    @ map (\<lambda>t. (plain_target t None)\<lparr>tc_writable := False\<rparr>) contactor_status_targets
    @ [contactor_lockout_reset_contract]
    @ current_setting_contracts
    @ map (\<lambda>(t, k). plain_target t (Some k)) auto_runtime_target_specs
    @ [software_update_contract]"

text \<open>The derived tables.\<close>

definition control_writable_targets :: "string list" where
  "control_writable_targets = map tc_target (filter tc_writable control_target_contracts)"

definition control_write_snapshot_targets :: "string list" where
  "control_write_snapshot_targets = map tc_target (filter tc_rollback_snapshot control_target_contracts)"

definition control_required_targets :: "string list" where
  "control_required_targets =
    map tc_target (sort_key (\<lambda>c. case tc_required_order c of Some n \<Rightarrow> n | None \<Rightarrow> 0)
      (filter (\<lambda>c. tc_required_order c \<noteq> None) control_target_contracts))"

definition control_direct_target_commands :: "(string \<times> string) list" where
  "control_direct_target_commands =
    List.map_filter (\<lambda>c. map_option (\<lambda>d. (tc_target c, d)) (tc_direct_command c)) control_target_contracts"

definition control_command_default_targets :: "(string \<times> string) list" where
  "control_command_default_targets =
    foldl (\<lambda>m (target, command). AList.update command target m) [] control_direct_target_commands"

definition control_current_setting_targets :: "string list" where
  "control_current_setting_targets = map tc_target current_setting_contracts"

definition control_phase_selections :: "string list" where
  "control_phase_selections = [''P1'', ''P1_P2'', ''P1_P2_P3'']"

definition control_auto_runtime_targets :: "string list" where
  "control_auto_runtime_targets = map fst auto_runtime_target_specs"

definition control_command_names :: "string list" where
  "control_command_names =
    [''set_auto_runtime_setting'', ''set_current_setting''] @ map snd control_direct_target_commands"

definition control_binary_commands :: "string list" where
  "control_binary_commands =
    List.map_filter (\<lambda>c. if tc_value_kind c = Some KBinary then tc_direct_command c else None) control_target_contracts"

definition auto_runtime_targets :: "value_kind \<Rightarrow> string list" where
  "auto_runtime_targets kind =
    map tc_target (filter (\<lambda>c. tc_direct_command c = None \<and> tc_target c \<in> set control_auto_runtime_targets
      \<and> tc_value_kind c = Some kind) control_target_contracts)"

definition control_auto_runtime_value_kind_by_target :: "(string \<times> value_kind) list" where
  "control_auto_runtime_value_kind_by_target =
    concat (map (\<lambda>k. map (\<lambda>t. (t, k)) (auto_runtime_targets k)) [KFloat, KString, KBinary, KInteger])"

section \<open>Commands and results\<close>

datatype command_source = FromControlSurface | FromHttp | FromInternal | FromMqtt

record control_command =
  cc_name :: string
  cc_target :: string
  cc_value :: pyval
  cc_source :: command_source
  cc_detail :: string
  cc_command_id :: string
  cc_key :: string

datatype command_status = AcceptedInFlight | Applied | RejectedStatus

record control_result =
  res_command :: control_command
  res_status :: command_status
  res_accepted :: bool
  res_applied :: bool
  res_persisted :: bool
  res_reversible_failure :: bool
  res_side_effect :: bool
  res_detail :: string

definition applied_result :: "control_command \<Rightarrow> string \<Rightarrow> bool \<Rightarrow> control_result" where
  "applied_result command detail side_effect =
    \<lparr>res_command = command, res_status = Applied, res_accepted = True, res_applied = True, res_persisted = True,
     res_reversible_failure = False, res_side_effect = side_effect, res_detail = detail\<rparr>"

definition rejected_result :: "control_command \<Rightarrow> string \<Rightarrow> bool \<Rightarrow> control_result" where
  "rejected_result command detail reversible =
    \<lparr>res_command = command, res_status = RejectedStatus, res_accepted = False, res_applied = False, res_persisted = False,
     res_reversible_failure = reversible, res_side_effect = False, res_detail = detail\<rparr>"

definition accepted_in_flight_result :: "control_command \<Rightarrow> string \<Rightarrow> bool \<Rightarrow> control_result" where
  "accepted_in_flight_result command detail side_effect =
    \<lparr>res_command = command, res_status = AcceptedInFlight, res_accepted = True, res_applied = False, res_persisted = False,
     res_reversible_failure = False, res_side_effect = side_effect, res_detail = detail\<rparr>"

section \<open>Errors of the validators\<close>

datatype command_error = ValidationError string | ConversionOverflow | MessageKeyError

type_synonym 'a checked = "command_error + 'a"

definition quoted :: "string \<Rightarrow> string" where
  "quoted s = [char_of (39::nat)] @ s @ [char_of (39::nat)]"

text \<open>A failed conversion inside a validator: a \<open>ValueError\<close> with its message, or the overflow.\<close>

fun converted :: "string \<Rightarrow> exc + 'a \<Rightarrow> 'a checked" where
  "converted message (Inr a) = Inr a"
| "converted message (Inl e) = (if e = OverflowErr then Inl ConversionOverflow else Inl (ValidationError message))"

section \<open>Validation of one command\<close>

text \<open>The service and the sets of targets its controller accepts.\<close>

record control_api_service =
  cas_current :: "string list"
  cas_auto :: "string list"

definition tracking_keys :: "string list" where
  "tracking_keys = [''command_id'', ''detail'', ''idempotency_key'']"

definition named_payload_keys :: "string list" where
  "named_payload_keys = [''name'', ''target'', ''value''] @ tracking_keys"

definition is_command_name :: "string \<Rightarrow> bool" where
  "is_command_name value \<longleftrightarrow> value \<in> set control_command_names"

fun is_bool_or_binary_int :: "pyval \<Rightarrow> bool" where
  "is_bool_or_binary_int (PBool _) = True"
| "is_bool_or_binary_int (PInt i) = (i \<in> {0, 1})"
| "is_bool_or_binary_int _ = False"

fun is_numeric :: "pyval \<Rightarrow> bool" where
  "is_numeric (PInt _) = True"
| "is_numeric (PFloat _ _) = True"
| "is_numeric _ = False"

fun is_non_bool_integer :: "pyval \<Rightarrow> bool" where
  "is_non_bool_integer (PInt _) = True"
| "is_non_bool_integer _ = False"

fun is_non_empty_text :: "pyval \<Rightarrow> bool" where
  "is_non_empty_text (PStr s) = (py_strip s \<noteq> '''')"
| "is_non_empty_text _ = False"

fun is_known_mode_value :: "pyval \<Rightarrow> bool" where
  "is_known_mode_value (PInt i) = (i \<in> {0, 1, 2})"
| "is_known_mode_value _ = False"

fun is_known_phase_selection :: "pyval \<Rightarrow> bool" where
  "is_known_phase_selection (PStr s) = (py_strip s \<in> set control_phase_selections)"
| "is_known_phase_selection _ = False"

definition is_non_negative_numeric :: "pyval \<Rightarrow> bool checked" where
  "is_non_negative_numeric value =
    (if \<not> is_numeric value then Inr False
     else bind_result (converted '''' (py_float value)) (\<lambda>x. Inr (pf_le (Fin 0) x)))"

definition hour_in_range :: "string \<Rightarrow> bool checked" where
  "hour_in_range text = (case digits_value text of Some n \<Rightarrow> Inr (n \<le> 23)
     | None \<Rightarrow> Inl (ValidationError (''invalid literal for int() with base 10: '' @ quoted text)))"

definition minute_in_range :: "string \<Rightarrow> bool checked" where
  "minute_in_range text = (case digits_value text of Some n \<Rightarrow> Inr (n \<le> 59)
     | None \<Rightarrow> Inl (ValidationError (''invalid literal for int() with base 10: '' @ quoted text)))"

definition is_valid_hour_minute :: "string \<Rightarrow> bool checked" where
  "is_valid_hour_minute value =
    (case split_at (CHR '':'') (py_strip value) of
       [hour_text, minute_text] \<Rightarrow>
         if \<not> py_isdigit hour_text \<or> \<not> py_isdigit minute_text then Inr False
         else bind_result (hour_in_range hour_text) (\<lambda>ok. if ok then minute_in_range minute_text else Inr False)
     | _ \<Rightarrow> Inr False)"

definition valid_auto_runtime_text :: "string \<Rightarrow> string \<Rightarrow> bool checked" where
  "valid_auto_runtime_text target value =
    (if target \<noteq> ''auto_scheduled_latest_end_time'' then Inr True else is_valid_hour_minute value)"

definition within_auto_runtime_bounds :: "string \<Rightarrow> pyfloat \<Rightarrow> bool" where
  "within_auto_runtime_bounds target value =
    (if target \<in> {''auto_min_soc'', ''auto_resume_soc''} then pf_le value (Fin 100)
     else if target = ''auto_learn_charge_power_alpha'' then pf_less (Fin 0) value \<and> pf_le value (Fin 1)
     else True)"

definition auto_runtime_value_kind :: "string \<Rightarrow> value_kind option" where
  "auto_runtime_value_kind target = map_of control_auto_runtime_value_kind_by_target target"

definition auto_runtime_value_validator :: "string \<Rightarrow> pyval \<Rightarrow> bool checked" where
  "auto_runtime_value_validator target value =
    (case auto_runtime_value_kind target of
       Some KFloat \<Rightarrow> bind_result (is_non_negative_numeric value) (\<lambda>ok.
         if \<not> ok then Inr False
         else bind_result (converted '''' (py_float value)) (\<lambda>x. Inr (within_auto_runtime_bounds target x)))
     | Some KString \<Rightarrow> if \<not> is_non_empty_text value then Inr False else valid_auto_runtime_text target (py_str value)
     | Some KBinary \<Rightarrow> Inr (is_bool_or_binary_int value)
     | Some KInteger \<Rightarrow> Inr (case value of PInt i \<Rightarrow> 0 \<le> i | _ \<Rightarrow> False)
     | _ \<Rightarrow> Inr True)"

definition command_value_validator :: "string \<Rightarrow> string \<Rightarrow> pyval \<Rightarrow> bool checked" where
  "command_value_validator name target value =
    (if name \<in> set control_binary_commands then Inr (is_bool_or_binary_int value)
     else if name = ''set_auto_runtime_setting'' then auto_runtime_value_validator target value
     else if name = ''set_mode'' then Inr (is_known_mode_value value)
     else if name = ''set_phase_selection'' then Inr (is_known_phase_selection value)
     else if name = ''set_current_setting'' then is_non_negative_numeric value
     else Inr True)"

subsection \<open>Messages\<close>

definition auto_runtime_error_kind :: "string \<Rightarrow> string" where
  "auto_runtime_error_kind target =
    (if target \<in> set (auto_runtime_targets KFloat) then ''numeric''
     else if target \<in> set (auto_runtime_targets KString) then ''string''
     else if target \<in> set (auto_runtime_targets KBinary) then ''binary''
     else if target \<in> set (auto_runtime_targets KInteger) then ''integer'' else ''generic'')"

definition auto_runtime_numeric_error :: "string \<Rightarrow> string" where
  "auto_runtime_numeric_error target =
    ''Control command '' @ quoted ''set_auto_runtime_setting'' @
    (if target \<in> {''auto_min_soc'', ''auto_resume_soc''}
     then '' requires a numeric value between 0 and 100 for target '' @ quoted target @ ''.''
     else if target = ''auto_learn_charge_power_alpha''
     then '' requires a numeric value in the interval (0, 1] for target '' @ quoted target @ ''.''
     else '' requires a non-negative numeric value for target '' @ quoted target @ ''.'')"

definition auto_runtime_string_error :: "string \<Rightarrow> string" where
  "auto_runtime_string_error target =
    ''Control command '' @ quoted ''set_auto_runtime_setting'' @
    (if target = ''auto_scheduled_latest_end_time''
     then '' requires a HH:MM time string for target '' @ quoted target @ ''.''
     else '' requires a non-empty string value for target '' @ quoted target @ ''.'')"

definition auto_runtime_value_error :: "string \<Rightarrow> string" where
  "auto_runtime_value_error target =
    (let kind = auto_runtime_error_kind target in
     if kind = ''numeric'' then auto_runtime_numeric_error target
     else if kind = ''string'' then auto_runtime_string_error target
     else ''Control command '' @ quoted ''set_auto_runtime_setting'' @
       (if kind = ''binary'' then '' requires a boolean or binary integer value (0 or 1) for target ''
        else if kind = ''integer'' then '' requires a non-negative integer value for target ''
        else '' received an invalid value for target '') @ quoted target @ ''.'')"

text \<open>The lookup of the simple messages raises \<open>KeyError\<close> for a name without one: \<open>None\<close>.\<close>

definition command_value_error :: "string \<Rightarrow> string \<Rightarrow> string option" where
  "command_value_error name target =
    (if name \<in> set control_binary_commands
     then Some (''Control command '' @ quoted name @ '' requires a boolean or binary integer value (0 or 1).'')
     else if name = ''set_auto_runtime_setting'' then Some (auto_runtime_value_error target)
     else if name = ''set_current_setting''
     then Some (''Control command '' @ quoted name @ '' requires a non-negative numeric value for target '' @ quoted target @ ''.'')
     else map_of
       [(''set_mode'', ''Control command '' @ quoted ''set_mode'' @ '' requires one of: 0, 1, 2.''),
        (''set_phase_selection'', ''Control command '' @ quoted ''set_phase_selection'' @ '' requires one of: P1, P1_P2, P1_P2_P3.'')]
       name)"

definition validate_command_value :: "string \<Rightarrow> string \<Rightarrow> pyval \<Rightarrow> unit checked" where
  "validate_command_value name target value =
    bind_result (command_value_validator name target value) (\<lambda>ok.
      if ok then Inr ()
      else case command_value_error name target of
        Some message \<Rightarrow> Inl (ValidationError message) | None \<Rightarrow> Inl MessageKeyError)"

subsection \<open>Targets\<close>

definition default_command_target_error :: "string \<Rightarrow> string \<Rightarrow> string" where
  "default_command_target_error name target =
    (case map_of control_command_default_targets name of
       None \<Rightarrow> ''''
     | Some dflt \<Rightarrow> if dflt = target then ''''
         else ''Control command '' @ quoted name @ '' does not support target '' @ quoted target @ ''.'')"

definition target_membership_error :: "string \<Rightarrow> string \<Rightarrow> string list \<Rightarrow> string" where
  "target_membership_error name target allowed =
    (if target \<in> set allowed then ''''
     else ''Control command '' @ quoted name @ '' requires one of: '' @ py_join '', '' (sort (remdups allowed)) @ ''.'')"

definition specialized_command_target_error :: "control_api_service \<Rightarrow> string \<Rightarrow> string \<Rightarrow> string" where
  "specialized_command_target_error sv name target =
    (if name = ''set_auto_runtime_setting'' then target_membership_error name target (cas_auto sv)
     else if name = ''set_current_setting'' then target_membership_error name target (cas_current sv)
     else '''')"

definition command_target_error :: "control_api_service \<Rightarrow> string \<Rightarrow> string \<Rightarrow> string" where
  "command_target_error sv name target =
    (let e = default_command_target_error name target
     in if e \<noteq> '''' then e else specialized_command_target_error sv name target)"

definition validate_command_target :: "control_api_service \<Rightarrow> string \<Rightarrow> string \<Rightarrow> unit checked" where
  "validate_command_target sv name target =
    (let e = command_target_error sv name target in if e \<noteq> '''' then Inl (ValidationError e) else Inr ())"

definition payload_str :: "(string \<times> pyval) list \<Rightarrow> string \<Rightarrow> string" where
  "payload_str payload key = (case map_of payload key of None \<Rightarrow> '''' | Some v \<Rightarrow> py_strip (py_str v))"

definition resolved_command_target :: "control_api_service \<Rightarrow> string \<Rightarrow> (string \<times> pyval) list \<Rightarrow> string checked" where
  "resolved_command_target sv name payload =
    (let explicit = payload_str payload ''target'' in
     if explicit \<noteq> '''' then bind_result (validate_command_target sv name explicit) (\<lambda>_. Inr explicit)
     else case map_of control_command_default_targets name of
       Some dflt \<Rightarrow> Inr dflt
     | None \<Rightarrow> Inl (ValidationError (''Control command '' @ quoted name @ '' requires an explicit '' @ quoted ''target'' @ ''.'')))"

subsection \<open>From payloads and targets to commands\<close>

definition reject_extra_keys :: "(string \<times> pyval) list \<Rightarrow> string list \<Rightarrow> unit checked" where
  "reject_extra_keys payload allowed =
    (let extra = sort (filter (\<lambda>k. k \<notin> set allowed) (od_keys payload))
     in if extra \<noteq> [] then Inl (ValidationError (''Unsupported payload field(s): '' @ py_join '', '' extra @ ''.''))
        else Inr ())"

definition validated_command_name :: "string \<Rightarrow> string checked" where
  "validated_command_name raw_name =
    (if \<not> is_command_name raw_name
     then Inl (ValidationError (''Unsupported control command '' @ quoted raw_name @ ''.'')) else Inr raw_name)"

definition command_from_named_payload ::
  "control_api_service \<Rightarrow> (string \<times> pyval) list \<Rightarrow> command_source \<Rightarrow> control_command checked" where
  "command_from_named_payload sv payload source =
    bind_result (reject_extra_keys payload named_payload_keys) (\<lambda>_.
    bind_result (validated_command_name (payload_str payload ''name'')) (\<lambda>name.
    bind_result (resolved_command_target sv name payload) (\<lambda>target.
      let value = (case map_of payload ''value'' of None \<Rightarrow> PNone | Some v \<Rightarrow> v) in
    bind_result (validate_command_value name target value) (\<lambda>_.
      Inr \<lparr>cc_name = name, cc_target = target, cc_value = value, cc_source = source,
           cc_detail = payload_str payload ''detail'', cc_command_id = payload_str payload ''command_id'',
           cc_key = payload_str payload ''idempotency_key''\<rparr>))))"

definition command_from_payload ::
  "control_api_service \<Rightarrow> (string \<times> pyval) list \<Rightarrow> command_source \<Rightarrow> control_command checked" where
  "command_from_payload sv payload source =
    (if map_of payload ''name'' \<noteq> None then command_from_named_payload sv payload source
     else Inl (ValidationError (''Control command payload must include '' @ quoted ''name'' @ ''.'')))"

definition command_for_target ::
  "control_api_service \<Rightarrow> string \<Rightarrow> string \<Rightarrow> pyval \<Rightarrow> command_source \<Rightarrow> control_command checked" where
  "command_for_target sv name target value source =
    (let normalized = py_strip target in
    bind_result (validate_command_target sv name normalized) (\<lambda>_.
    bind_result (validate_command_value name normalized value) (\<lambda>_.
      Inr \<lparr>cc_name = name, cc_target = normalized, cc_value = value, cc_source = source,
           cc_detail = '''', cc_command_id = '''', cc_key = ''''\<rparr>)))"

section \<open>What an accepted command looks like\<close>

text \<open>The contract of the API, target by target and value by value, without the code's tables.\<close>

definition binary_command_target :: "(string \<times> string) list" where
  "binary_command_target =
    [(''set_auto_start'', ''auto_start''), (''set_start_stop'', ''start_stop''), (''set_enable'', ''enable''),
     (''reset_phase_lockout'', ''auto_phase_lockout_reset''), (''reset_contactor_lockout'', ''auto_contactor_lockout_reset''),
     (''trigger_software_update'', ''auto_software_update_run'')]"

lemma control_tables [simp]:
  "control_command_names = [''set_auto_runtime_setting'', ''set_current_setting'', ''set_mode'', ''set_auto_start'',
     ''set_start_stop'', ''set_enable'', ''set_phase_selection'', ''reset_phase_lockout'',
     ''reset_contactor_lockout'', ''trigger_software_update'']"
  "control_command_default_targets = [(''set_mode'', ''mode''), (''set_auto_start'', ''auto_start''),
     (''set_start_stop'', ''start_stop''), (''set_enable'', ''enable''), (''set_phase_selection'', ''phase_selection''),
     (''reset_phase_lockout'', ''auto_phase_lockout_reset''), (''reset_contactor_lockout'', ''auto_contactor_lockout_reset''),
     (''trigger_software_update'', ''auto_software_update_run'')]"
  "control_binary_commands = [''set_auto_start'', ''set_start_stop'', ''set_enable'',
     ''reset_phase_lockout'', ''reset_contactor_lockout'', ''trigger_software_update'']"
  by code_simp+

definition known_targets :: "control_api_service \<Rightarrow> string \<Rightarrow> string list" where
  "known_targets sv name =
    (if name = ''set_auto_runtime_setting'' then cas_auto sv
     else if name = ''set_current_setting'' then cas_current sv
     else if name = ''set_mode'' then [''mode'']
     else if name = ''set_phase_selection'' then [''phase_selection'']
     else (case map_of binary_command_target name of Some t \<Rightarrow> [t] | None \<Rightarrow> []))"

fun finite_or_infinite_at_least_zero :: "pyval \<Rightarrow> pyfloat option" where
  "finite_or_infinite_at_least_zero (PInt i) = (if 0 \<le> i \<and> of_int i < float_overflow then Some (Fin (of_int i)) else None)"
| "finite_or_infinite_at_least_zero (PFloat x _) = (if pf_le (Fin 0) x then Some x else None)"
| "finite_or_infinite_at_least_zero _ = None"

definition clock_text :: "string \<Rightarrow> bool" where
  "clock_text s = (case split_at (CHR '':'') (py_strip s) of
     [h, m] \<Rightarrow> py_isdigit h \<and> py_isdigit m \<and> (case digits_value h of Some n \<Rightarrow> n \<le> 23 | None \<Rightarrow> False)
       \<and> (case digits_value m of Some n \<Rightarrow> n \<le> 59 | None \<Rightarrow> False)
   | _ \<Rightarrow> False)"

definition runtime_value_in_domain :: "string \<Rightarrow> pyval \<Rightarrow> bool" where
  "runtime_value_in_domain target v =
    (case map_of auto_runtime_target_specs target of
       Some KFloat \<Rightarrow> (case finite_or_infinite_at_least_zero v of None \<Rightarrow> False
         | Some x \<Rightarrow> if target = ''auto_min_soc'' \<or> target = ''auto_resume_soc'' then pf_le x (Fin 100)
             else target = ''auto_learn_charge_power_alpha'' \<longrightarrow> pf_less (Fin 0) x \<and> pf_le x (Fin 1))
     | Some KString \<Rightarrow> (case v of PStr s \<Rightarrow> py_strip s \<noteq> ''''
         \<and> (target = ''auto_scheduled_latest_end_time'' \<longrightarrow> clock_text s) | _ \<Rightarrow> False)
     | Some KBinary \<Rightarrow> is_bool_or_binary_int v
     | Some KInteger \<Rightarrow> (case v of PInt i \<Rightarrow> 0 \<le> i | _ \<Rightarrow> False)
     | _ \<Rightarrow> True)"

definition value_in_domain :: "string \<Rightarrow> string \<Rightarrow> pyval \<Rightarrow> bool" where
  "value_in_domain name target v =
    (if name = ''set_auto_runtime_setting'' then runtime_value_in_domain target v
     else if name = ''set_current_setting'' then finite_or_infinite_at_least_zero v \<noteq> None
     else if name = ''set_mode'' then v \<in> {PInt 0, PInt 1, PInt 2}
     else if name = ''set_phase_selection''
     then (case v of PStr s \<Rightarrow> py_strip s \<in> {''P1'', ''P1_P2'', ''P1_P2_P3''} | _ \<Rightarrow> False)
     else v \<in> {PBool True, PBool False, PInt 0, PInt 1})"

definition command_of :: "string \<Rightarrow> string \<Rightarrow> pyval \<Rightarrow> command_source \<Rightarrow> control_command" where
  "command_of name target v source = \<lparr>cc_name = name, cc_target = target, cc_value = v, cc_source = source,
     cc_detail = '''', cc_command_id = '''', cc_key = ''''\<rparr>"

lemma bool_or_binary: "is_bool_or_binary_int v \<longleftrightarrow> v \<in> {PBool True, PBool False, PInt 0, PInt 1}"
  by (cases v) auto

lemma mode_value: "is_known_mode_value v \<longleftrightarrow> v \<in> {PInt 0, PInt 1, PInt 2}"
  by (cases v) auto

lemma overflow_pos: "0 < float_overflow"
  by (simp add: float_overflow_def)

lemma non_negative_numeric_iff:
  "is_non_negative_numeric v = Inr True \<longleftrightarrow> finite_or_infinite_at_least_zero v \<noteq> None"
proof (cases v)
  case (PInt i)
  then show ?thesis
    using overflow_pos by (auto simp: is_non_negative_numeric_def float_of_rat_def split: if_splits)
qed (auto simp: is_non_negative_numeric_def)

lemma non_negative_numeric_value:
  "finite_or_infinite_at_least_zero v = Some x \<Longrightarrow> py_float v = Inr x"
  using overflow_pos by (cases v) (auto simp: float_of_rat_def split: if_splits)

lemma auto_runtime_targets_by_kind:
  assumes "k \<in> {KFloat, KString, KBinary, KInteger}"
  shows "auto_runtime_targets k = map fst (filter (\<lambda>p. snd p = k) auto_runtime_target_specs)"
proof -
  have "filter (\<lambda>c. tc_direct_command c = None \<and> tc_target c \<in> set control_auto_runtime_targets \<and> tc_value_kind c = Some k)
      (map (\<lambda>(t, k). plain_target t (Some k)) specs) = map (\<lambda>(t, k). plain_target t (Some k)) (filter (\<lambda>p. snd p = k) specs)"
    if "fst ` set specs \<subseteq> set control_auto_runtime_targets" for specs
    using that by (induction specs) (auto simp: plain_target_def)
  from this [of auto_runtime_target_specs] assms show ?thesis
    by (auto simp: auto_runtime_targets_def control_target_contracts_def direct_control_targets_def direct_target_def
        plain_target_def current_setting_contracts_def phase_lockout_reset_contract_def contactor_lockout_reset_contract_def
        software_update_contract_def control_auto_runtime_targets_def filter_map o_def split_def)
qed

lemma map_of_grouped:
  assumes "distinct (map fst xs)" "\<forall>p\<in>set xs. snd p \<in> set ks"
  shows "map_of (concat (map (\<lambda>k. map (\<lambda>t. (t, k)) (map fst (filter (\<lambda>p. snd p = k) xs))) ks)) t = map_of xs t"
    (is "map_of ?g t = _")
proof -
  have "x \<in> set ?g \<longleftrightarrow> x \<in> set xs" for x using assms(2) by (cases x) (force intro: rev_image_eqI)
  then have g: "set ?g = set xs" by blast
  show ?thesis
  proof (cases "map_of ?g t")
    case None
    then have "t \<notin> fst ` set xs" unfolding map_of_eq_None_iff g .
    then have "map_of xs t = None" unfolding map_of_eq_None_iff .
    with None show ?thesis by (simp only:)
  next
    case (Some v)
    have "(t, v) \<in> set xs" using map_of_SomeD [OF Some] unfolding g .
    with assms(1) have "map_of xs t = Some v" by (rule map_of_is_SomeI)
    with Some show ?thesis by (simp only:)
  qed
qed

lemma runtime_kind: "auto_runtime_value_kind target = map_of auto_runtime_target_specs target"
proof -
  have "distinct (map fst auto_runtime_target_specs)" by code_simp
  moreover have "\<forall>p\<in>set auto_runtime_target_specs. snd p \<in> set [KFloat, KString, KBinary, KInteger]"
    by (simp add: auto_runtime_target_specs_def)
  ultimately have "map_of (concat (map (\<lambda>k. map (\<lambda>t. (t, k)) (map fst (filter (\<lambda>p. snd p = k) auto_runtime_target_specs)))
      [KFloat, KString, KBinary, KInteger])) target = map_of auto_runtime_target_specs target"
    by (rule map_of_grouped)
  then show ?thesis
    by (simp add: auto_runtime_value_kind_def control_auto_runtime_value_kind_by_target_def auto_runtime_targets_by_kind)
qed

lemma hour_minute_iff: "is_valid_hour_minute s = Inr True \<longleftrightarrow> clock_text s"
  by (auto simp: is_valid_hour_minute_def clock_text_def hour_in_range_def minute_in_range_def
      split: list.splits option.splits)

lemma runtime_validator_iff:
  "auto_runtime_value_validator target v = Inr True \<longleftrightarrow> runtime_value_in_domain target v"
proof -
  have float: "bind_result (is_non_negative_numeric v) (\<lambda>ok. if \<not> ok then Inr False
         else bind_result (converted '''' (py_float v)) (\<lambda>x. Inr (P x))) = Inr True
      \<longleftrightarrow> (\<exists>x. finite_or_infinite_at_least_zero v = Some x \<and> P x)" for P
    using non_negative_numeric_iff [of v] non_negative_numeric_value [of v]
    by (cases "finite_or_infinite_at_least_zero v") (auto simp: bind_result_Inr)
  show ?thesis
    by (cases "map_of auto_runtime_target_specs target"; (cases "the (map_of auto_runtime_target_specs target)")?)
      (auto simp: auto_runtime_value_validator_def runtime_value_in_domain_def runtime_kind float
        within_auto_runtime_bounds_def valid_auto_runtime_text_def hour_minute_iff
        split: option.splits pyval.splits elim: is_non_empty_text.elims)
qed

lemma command_name_cases:
  assumes "name \<in> set control_command_names"
  obtains "name = ''set_auto_runtime_setting''" | "name = ''set_current_setting''" | "name = ''set_mode''"
    | "name = ''set_phase_selection''" | t where "map_of binary_command_target name = Some t" "name \<in> set control_binary_commands"
  using assms by (auto simp: binary_command_target_def)

lemma validator_iff:
  assumes "name \<in> set control_command_names"
  shows "command_value_validator name target v = Inr True \<longleftrightarrow> value_in_domain name target v"
  using assms
  by (auto simp: command_value_validator_def value_in_domain_def runtime_validator_iff mode_value bool_or_binary
      non_negative_numeric_iff control_phase_selections_def split: pyval.splits)

lemma target_error_iff:
  assumes "name \<in> set control_command_names"
  shows "command_target_error sv name target = '''' \<longleftrightarrow> target \<in> set (known_targets sv name)"
  using assms unfolding control_tables list.set insert_iff empty_iff
  by (elim disjE) (simp_all add: command_target_error_def default_command_target_error_def
      specialized_command_target_error_def target_membership_error_def known_targets_def binary_command_target_def Let_def)

lemma validate_value_iff:
  assumes "name \<in> set control_command_names"
  shows "validate_command_value name target v = Inr () \<longleftrightarrow> value_in_domain name target v"
  using validator_iff [OF assms, of target v]
  by (auto simp: validate_command_value_def bind_result_Inr split: option.splits)

lemma validate_target_iff:
  assumes "name \<in> set control_command_names"
  shows "validate_command_target sv name target = Inr () \<longleftrightarrow> target \<in> set (known_targets sv name)"
  using target_error_iff [OF assms, of sv target] by (simp add: validate_command_target_def Let_def)

text \<open>
  A payload is turned into a command exactly when it has no unknown field, names a known
  command, its target (or the default of that command) is one the command accepts, and its value lies in the
  domain of that target: binary flags, modes 0 to 2, the three layouts, non-negative currents, and
  for the Auto settings the kind and the bounds of the setting.  In particular no boolean passes as a mode or a
  current, no NaN as a current, and no settings text that is not a time of day as the schedule's end.
\<close>

theorem command_payload_contract:
  "command_from_payload sv payload source = Inr c \<longleftrightarrow>
    set (od_keys payload) \<subseteq> {''name'', ''target'', ''value'', ''command_id'', ''detail'', ''idempotency_key''}
    \<and> map_of payload ''name'' \<noteq> None
    \<and> (let name = payload_str payload ''name''; explicit = payload_str payload ''target'';
          v = (case map_of payload ''value'' of None \<Rightarrow> PNone | Some v \<Rightarrow> v)
       in name \<in> set control_command_names
        \<and> (\<exists>target. (if explicit \<noteq> '''' then target = explicit \<and> target \<in> set (known_targets sv name)
              else map_of control_command_default_targets name = Some target)
          \<and> value_in_domain name target v
          \<and> c = \<lparr>cc_name = name, cc_target = target, cc_value = v, cc_source = source,
              cc_detail = payload_str payload ''detail'', cc_command_id = payload_str payload ''command_id'',
              cc_key = payload_str payload ''idempotency_key''\<rparr>))"
proof -
  let ?name = "payload_str payload ''name''"
  have [simp]: "sort xs = [] \<longleftrightarrow> xs = []" for xs :: "string list"
    by (metis set_empty set_sort)
  have keys: "reject_extra_keys payload named_payload_keys = Inr () \<longleftrightarrow>
      set (od_keys payload) \<subseteq> {''name'', ''target'', ''value'', ''command_id'', ''detail'', ''idempotency_key''}"
    by (auto simp: reject_extra_keys_def named_payload_keys_def tracking_keys_def Let_def filter_empty_conv)
  have name: "validated_command_name ?name = Inr n \<longleftrightarrow> n = ?name \<and> ?name \<in> set control_command_names" for n
    by (auto simp: validated_command_name_def is_command_name_def simp del: control_tables)
  have target: "resolved_command_target sv ?name payload = Inr t \<longleftrightarrow>
      (if payload_str payload ''target'' \<noteq> ''''
       then t = payload_str payload ''target'' \<and> t \<in> set (known_targets sv ?name)
       else map_of control_command_default_targets ?name = Some t)" if "?name \<in> set control_command_names" for t
    using validate_target_iff [OF that]
    by (auto simp: resolved_command_target_def Let_def bind_result_Inr simp del: control_tables split: option.splits)
  show ?thesis
    by (auto simp: command_from_payload_def command_from_named_payload_def bind_result_Inr keys [simplified] name target
        validate_value_iff Let_def simp del: control_tables split: if_splits)
qed

end
