(* ===== verification/Relay_Cutover.thy ===== *)
theory Relay_Cutover
  imports Py_Values
begin

text \<open>
  What the write path knows about the relay: the normalised worker snapshot
  (\<open>core/contracts_snapshot.py\<close>) and the conservative question whether the relay may be on
  (\<open>ports/write.py\<close>).  A relay status is the JSON object the relay reported.
\<close>

type_synonym pm_status = "(string \<times> pyval) list"

record worker_snapshot =
  wk_captured_at :: "pyfloat option"
  wk_auto_mode :: bool
  wk_pv :: "pyfloat option"
  wk_soc :: "pyfloat option"
  wk_grid :: "pyfloat option"
  wk_pm_captured_at :: "pyfloat option"
  wk_pm_status :: "pm_status option"
  wk_pm_confirmed :: bool

section \<open>The normalised snapshot\<close>

definition non_negative_float_or_none :: "pyfloat option \<Rightarrow> rat option" where
  "non_negative_float_or_none value =
    (case finite_float_or_none value of None \<Rightarrow> None | Some x \<Rightarrow> if x < 0 then None else Some x)"

definition timestamp_not_future :: "secs \<Rightarrow> secs \<Rightarrow> secs \<Rightarrow> bool" where
  "timestamp_not_future timestamp now tolerance \<longleftrightarrow> timestamp \<le> now + tolerance"

definition resolved_snapshot_captured_at :: "secs option \<Rightarrow> secs option \<Rightarrow> secs option \<Rightarrow> secs" where
  "resolved_snapshot_captured_at captured_at pm_captured_at current =
    (case captured_at of Some x \<Rightarrow> x | None \<Rightarrow> (case current of Some x \<Rightarrow> x
      | None \<Rightarrow> (case pm_captured_at of Some x \<Rightarrow> x | None \<Rightarrow> 0)))"

definition snapshot_future_invalid :: "secs \<Rightarrow> secs option \<Rightarrow> secs \<Rightarrow> bool \<Rightarrow> bool" where
  "snapshot_future_invalid timestamp current tolerance clamp \<longleftrightarrow>
    (case current of None \<Rightarrow> False | Some c \<Rightarrow> clamp \<and> \<not> timestamp_not_future timestamp c tolerance)"

definition clamped_snapshot_timestamp :: "secs \<Rightarrow> secs option \<Rightarrow> secs \<Rightarrow> bool \<Rightarrow> secs" where
  "clamped_snapshot_timestamp timestamp current tolerance clamp =
    (if snapshot_future_invalid timestamp current tolerance clamp then the current else timestamp)"

definition valid_pm_snapshot_payload :: "pm_status option \<Rightarrow> bool" where
  "valid_pm_snapshot_payload status = (case status of None \<Rightarrow> False | Some m \<Rightarrow> map_of m ''output'' \<noteq> None)"

definition normalized_pm_snapshot_payload ::
  "pm_status option \<Rightarrow> secs option \<Rightarrow> bool \<Rightarrow> secs \<Rightarrow> secs option \<Rightarrow> secs \<Rightarrow> bool
    \<Rightarrow> pm_status option \<times> secs option \<times> bool \<times> secs" where
  "normalized_pm_snapshot_payload status pm_captured_at confirmed captured_at current tolerance clamp =
    (if \<not> valid_pm_snapshot_payload status then (None, None, False, captured_at)
     else let resolved = (case pm_captured_at of None \<Rightarrow> captured_at | Some t \<Rightarrow> t) in
       if snapshot_future_invalid resolved current tolerance clamp then (None, None, False, captured_at)
       else (status, Some resolved, confirmed, max captured_at resolved))"

definition normalized_worker_snapshot ::
  "worker_snapshot \<Rightarrow> secs option \<Rightarrow> secs \<Rightarrow> bool \<Rightarrow> worker_snapshot" where
  "normalized_worker_snapshot snapshot current tolerance clamp =
    (let pm_at = non_negative_float_or_none (wk_pm_captured_at snapshot);
         resolved = resolved_snapshot_captured_at (non_negative_float_or_none (wk_captured_at snapshot)) pm_at current;
         clamped = clamped_snapshot_timestamp resolved current tolerance clamp
     in case normalized_pm_snapshot_payload (wk_pm_status snapshot) pm_at (wk_pm_confirmed snapshot) clamped current tolerance clamp of
       (status, status_at, confirmed, captured_at) \<Rightarrow>
         snapshot\<lparr>wk_captured_at := Some (Fin captured_at), wk_pm_status := status,
           wk_pm_captured_at := map_option Fin status_at,
           wk_pm_confirmed := (confirmed \<and> status \<noteq> None \<and> status_at \<noteq> None)\<rparr>)"

section \<open>May the relay be on?\<close>

fun normalized_binary_value :: "pyval \<Rightarrow> bool option" where
  "normalized_binary_value (PBool b) = Some b"
| "normalized_binary_value (PInt i) = (if i = 0 then Some False else if i = 1 then Some True else None)"
| "normalized_binary_value (PFloat (Fin x) _) = (if x = 0 then Some False else if x = 1 then Some True else None)"
| "normalized_binary_value _ = None"

definition relay_status_freshness_seconds :: "secs option \<Rightarrow> secs option \<Rightarrow> secs" where
  "relay_status_freshness_seconds worker_poll sync_timeout =
    (let candidates = [2] @ (case worker_poll of Some p \<Rightarrow> if 0 < p then [p * 2] else [] | None \<Rightarrow> [])
           @ (case sync_timeout of Some t \<Rightarrow> if 0 < t then [t] else [] | None \<Rightarrow> [])
     in max 1 (Min (set candidates)))"

definition relay_output_payload_present :: "bool \<Rightarrow> pm_status option \<Rightarrow> pyfloat option \<Rightarrow> bool" where
  "relay_output_payload_present confirmed status captured_at \<longleftrightarrow>
    confirmed \<and> valid_pm_snapshot_payload status \<and> captured_at \<noteq> None"

text \<open>The comparison with a non-finite time stamp is false on one side.\<close>

fun relay_output_timestamp_fresh :: "secs \<Rightarrow> pyfloat \<Rightarrow> secs \<Rightarrow> bool" where
  "relay_output_timestamp_fresh now (Fin t) max_age = (- 1 \<le> now - t \<and> now - t \<le> max_age)"
| "relay_output_timestamp_fresh now _ max_age = False"

definition relay_output_value :: "pm_status option \<Rightarrow> bool option" where
  "relay_output_value status =
    (case status of None \<Rightarrow> None | Some m \<Rightarrow>
      (case map_of m ''output'' of None \<Rightarrow> None | Some v \<Rightarrow> normalized_binary_value v))"

definition fresh_output :: "bool \<Rightarrow> pm_status option \<Rightarrow> pyfloat option \<Rightarrow> secs \<Rightarrow> secs \<Rightarrow> bool option" where
  "fresh_output confirmed status captured_at now max_age =
    (if \<not> relay_output_payload_present confirmed status captured_at then None
     else if \<not> relay_output_timestamp_fresh now (the captured_at) max_age then None
     else relay_output_value status)"

definition fresh_snapshot_output :: "worker_snapshot \<Rightarrow> secs \<Rightarrow> secs \<Rightarrow> bool option" where
  "fresh_snapshot_output snapshot now max_age =
    (let n = normalized_worker_snapshot snapshot (Some now) 1 False
     in fresh_output (wk_pm_confirmed n) (wk_pm_status n) (wk_pm_captured_at n) now max_age)"

definition fresh_last_output :: "pm_status option \<Rightarrow> pyfloat option \<Rightarrow> secs \<Rightarrow> secs \<Rightarrow> bool option" where
  "fresh_last_output last_status last_at now max_age = fresh_output True last_status last_at now max_age"

definition port_fresh_confirmed_output ::
  "worker_snapshot \<Rightarrow> pm_status option \<Rightarrow> pyfloat option \<Rightarrow> secs \<Rightarrow> secs \<Rightarrow> bool option" where
  "port_fresh_confirmed_output snapshot last_status last_at now max_age =
    (case fresh_snapshot_output snapshot now max_age of
       Some b \<Rightarrow> Some b | None \<Rightarrow> fresh_last_output last_status last_at now max_age)"

definition pending_relay_state_on :: "pyval \<Rightarrow> bool" where
  "pending_relay_state_on pending =
    (if pending = PNone then False
     else case normalized_binary_value pending of Some b \<Rightarrow> b | None \<Rightarrow> True)"

definition relay_may_be_on_for_cutover ::
  "pyval \<Rightarrow> worker_snapshot \<Rightarrow> pm_status option \<Rightarrow> pyfloat option \<Rightarrow> secs \<Rightarrow> secs \<Rightarrow> bool" where
  "relay_may_be_on_for_cutover pending snapshot last_status last_at now max_age =
    (if pending_relay_state_on pending then True
     else case port_fresh_confirmed_output snapshot last_status last_at now max_age of
       Some b \<Rightarrow> b | None \<Rightarrow> True)"

section \<open>Facts\<close>

lemma freshness_bounds:
  "1 \<le> relay_status_freshness_seconds p t" "relay_status_freshness_seconds p t \<le> 2"
proof -
  have "Min (set ([2] @ xs)) \<le> (2::rat)" for xs by (rule Min_le) simp_all
  then show "relay_status_freshness_seconds p t \<le> 2"
    unfolding relay_status_freshness_seconds_def Let_def append_assoc by (simp only: max.bounded_iff) simp
qed (simp add: relay_status_freshness_seconds_def Let_def)

lemma fresh_output_some:
  assumes "fresh_output confirmed status captured_at now max_age = Some b"
  obtains m t v where "confirmed" "status = Some m" "captured_at = Some (Fin t)" "now - max_age \<le> t" "t \<le> now + 1"
    "map_of m ''output'' = Some v" "normalized_binary_value v = Some b"
proof -
  from assms obtain x where x: "captured_at = Some x" "confirmed" "relay_output_timestamp_fresh now x max_age"
    "relay_output_value status = Some b"
    by (auto simp: fresh_output_def relay_output_payload_present_def split: if_splits)
  then obtain t where "x = Fin t" by (cases x) auto
  with x show ?thesis
    by (intro that [of "the status" t "the (map_of (the status) ''output'')"])
      (auto simp: relay_output_value_def split: option.splits)
qed

lemma normalized_snapshot_pm:
  assumes "wk_pm_confirmed (normalized_worker_snapshot w c tol cl)"
  shows "wk_pm_confirmed w" "wk_pm_status (normalized_worker_snapshot w c tol cl) = wk_pm_status w"
  using assms
  by (auto simp: normalized_worker_snapshot_def normalized_pm_snapshot_payload_def Let_def split: if_splits prod.splits)

end
