(* ===== verification/Schedule.thy ===== *)
theory Schedule
  imports Py_Values
begin

text \<open>
  Scheduled charging (\<open>core/common_schedule.py\<close>): the weekday selection and clock texts an operator may
  write, and the state of the schedule at one local time: the automatic daytime window, the fallback delay after
  the previous window, the night boost before the target day, or nothing.  A local time is an ordinal day (Python's
  \<open>date.toordinal\<close>) and the seconds since midnight; calendar arithmetic is the proleptic Gregorian one.
\<close>

section \<open>Weekday selections\<close>

type_synonym weekdays = "nat list"

definition weekday_labels :: "string list" where
  "weekday_labels = [''Mon'', ''Tue'', ''Wed'', ''Thu'', ''Fri'', ''Sat'', ''Sun'']"

definition weekday_token_map :: "(string \<times> nat) list" where
  "weekday_token_map =
    [(''mon'', 0), (''monday'', 0), (''mo'', 0), (''tue'', 1), (''tues'', 1), (''tuesday'', 1), (''tu'', 1),
     (''wed'', 2), (''wednesday'', 2), (''we'', 2), (''thu'', 3), (''thur'', 3), (''thurs'', 3), (''thursday'', 3),
     (''th'', 3), (''fri'', 4), (''friday'', 4), (''fr'', 4), (''sat'', 5), (''saturday'', 5), (''sa'', 5),
     (''sun'', 6), (''sunday'', 6), (''su'', 6)]"

definition default_scheduled_enabled_days :: weekdays where
  "default_scheduled_enabled_days = [0, 1, 2, 3, 4]"

definition special_scheduled_day_selections :: "(string \<times> weekdays) list" where
  "special_scheduled_day_selections =
    (let every = [0, 1, 2, 3, 4, 5, 6]; work = default_scheduled_enabled_days in
     [(''all'', every), (''daily'', every), (''everyday'', every), (''*'', every),
      (''weekdays'', work), (''weekday'', work), (''workdays'', work), (''workday'', work), (''mon-fri'', work),
      (''mo-fr'', work), (''weekend'', [5, 6]), (''weekends'', [5, 6]), (''sat-sun'', [5, 6]), (''sa-su'', [5, 6])])"

definition day_separator :: "char \<Rightarrow> char" where
  "day_separator c = (if c \<in> set '';|/ '' \<or> c = char_of (92::nat) then CHR '','' else c)"

text \<open>The days come as one text or as a Python sequence, whose items are given by their texts.\<close>

datatype enabled_days = DayText pyval | DayItems "string list"

definition normalized_weekday_candidates :: "pyval \<Rightarrow> string list" where
  "normalized_weekday_candidates value =
    (let raw = (if value = PNone then '''' else py_strip (py_str value)) in
     if raw = '''' then []
     else filter (\<lambda>t. t \<noteq> '''') (map py_strip (split_at (CHR '','') (map day_separator (py_lower raw)))))"

fun normalized_weekday_tokens :: "enabled_days \<Rightarrow> string list" where
  "normalized_weekday_tokens (DayText v) = normalized_weekday_candidates v"
| "normalized_weekday_tokens (DayItems items) =
    map (\<lambda>t. py_lower (py_strip t)) (filter (\<lambda>t. py_strip t \<noteq> '''') items)"

definition special_scheduled_day_selection :: "string list \<Rightarrow> weekdays option" where
  "special_scheduled_day_selection tokens =
    (case tokens of [t] \<Rightarrow> map_of special_scheduled_day_selections t | _ \<Rightarrow> None)"

definition append_unique_weekday :: "weekdays \<Rightarrow> nat \<Rightarrow> weekdays" where
  "append_unique_weekday target weekday = (if weekday \<in> set target then target else target @ [weekday])"

definition weekday_range_bounds :: "string \<Rightarrow> (nat \<times> nat) option" where
  "weekday_range_bounds token =
    (case split_at (CHR ''-'') token of
       [a, b] \<Rightarrow> (case (map_of weekday_token_map (py_strip a), map_of weekday_token_map (py_strip b)) of
         (Some s, Some e) \<Rightarrow> Some (s, e) | _ \<Rightarrow> None)
     | _ \<Rightarrow> None)"

definition weekday_range_values :: "nat \<Rightarrow> nat \<Rightarrow> weekdays" where
  "weekday_range_values start_day end_day =
    (let distance = nat ((int end_day - int start_day) mod 7)
     in map (\<lambda>offset. (start_day + offset) mod 7) [0..<distance + 1])"

definition extend_weekday_range :: "weekdays \<Rightarrow> string \<Rightarrow> weekdays" where
  "extend_weekday_range target token =
    (case weekday_range_bounds token of None \<Rightarrow> target
     | Some (s, e) \<Rightarrow> foldl append_unique_weekday target (weekday_range_values s e))"

definition weekday_indices_for_token :: "string \<Rightarrow> weekdays" where
  "weekday_indices_for_token token =
    (case map_of weekday_token_map token of Some d \<Rightarrow> [d] | None \<Rightarrow> extend_weekday_range [] token)"

definition extend_normalized_weekday_selection :: "weekdays \<Rightarrow> string \<Rightarrow> weekdays" where
  "extend_normalized_weekday_selection normalized token =
    foldl append_unique_weekday normalized (weekday_indices_for_token token)"

definition normalized_weekday_selection :: "string list \<Rightarrow> weekdays \<Rightarrow> weekdays" where
  "normalized_weekday_selection tokens fb =
    (let normalized = foldl extend_normalized_weekday_selection [] tokens
     in if normalized \<noteq> [] then normalized else fb)"

definition normalize_scheduled_enabled_days :: "enabled_days \<Rightarrow> weekdays \<Rightarrow> weekdays" where
  "normalize_scheduled_enabled_days value fb =
    (let tokens = normalized_weekday_tokens value in
     if tokens = [] then fb
     else case special_scheduled_day_selection tokens of Some days \<Rightarrow> days
       | None \<Rightarrow> normalized_weekday_selection tokens fb)"

definition scheduled_enabled_days_text :: "enabled_days \<Rightarrow> weekdays \<Rightarrow> string" where
  "scheduled_enabled_days_text value fb =
    py_join '','' (map (\<lambda>i. weekday_labels ! i) (normalize_scheduled_enabled_days value fb))"

section \<open>Clock texts\<close>

definition parse_hhmm :: "pyval \<Rightarrow> int \<times> int \<Rightarrow> int \<times> int" where
  "parse_hhmm value fb =
    (case split_at (CHR '':'') (py_strip (py_str value)) of
       [hour_text, minute_text] \<Rightarrow> (case (int_of_text hour_text, int_of_text minute_text) of
         (Some h, Some m) \<Rightarrow> if 0 \<le> h \<and> h \<le> 23 \<and> 0 \<le> m \<and> m \<le> 59 then (h, m) else fb
       | _ \<Rightarrow> fb)
     | _ \<Rightarrow> fb)"

definition two_digits :: "int \<Rightarrow> string" where
  "two_digits n = (if 0 \<le> n \<and> n < 10 then CHR ''0'' # int_text n else int_text n)"

definition normalize_hhmm_text :: "pyval \<Rightarrow> pyval option \<Rightarrow> string" where
  "normalize_hhmm_text value fb =
    (let window = (case fb of None \<Rightarrow> (6, 30) | Some f \<Rightarrow> parse_hhmm f (6, 30));
         hm = parse_hhmm value window
     in two_digits (fst hm) @ '':'' @ two_digits (snd hm))"

section \<open>Local time\<close>

record moment =
  dt_day :: int
  dt_secs :: rat

definition dt_abs :: "moment \<Rightarrow> rat" where
  "dt_abs w = of_int (dt_day w) * 86400 + dt_secs w"

definition dt_minutes :: "moment \<Rightarrow> int" where
  "dt_minutes w = \<lfloor>dt_secs w / 60\<rfloor>"

definition weekday_of :: "int \<Rightarrow> nat" where
  "weekday_of day = nat ((day + 6) mod 7)"

definition civil_date :: "int \<Rightarrow> int \<times> int \<times> int" where
  "civil_date day =
    (let z = day + 305; era = z div 146097; doe = z mod 146097;
         yoe = (doe - doe div 1460 + doe div 36524 - doe div 146096) div 365;
         doy = doe - (365 * yoe + yoe div 4 - yoe div 100);
         mp = (5 * doy + 2) div 153; d = doy - (153 * mp + 2) div 5 + 1;
         m = (if mp < 10 then mp + 3 else mp - 9)
     in (yoe + era * 400 + (if m \<le> 2 then 1 else 0), m, d))"

definition month_of :: "int \<Rightarrow> nat" where
  "month_of day = nat (fst (snd (civil_date day)))"

definition date_text :: "int \<Rightarrow> string" where
  "date_text day = (case civil_date day of (y, m, d) \<Rightarrow> int_text y @ ''-'' @ two_digits m @ ''-'' @ two_digits d)"

definition datetime_text :: "rat \<Rightarrow> string" where
  "datetime_text t = (let day = \<lfloor>t / 86400\<rfloor>; minutes = \<lfloor>t / 60\<rfloor> mod 1440
     in date_text day @ '' '' @ two_digits (minutes div 60) @ '':'' @ two_digits (minutes mod 60))"

section \<open>The schedule at one moment\<close>

type_synonym month_table = "(nat \<times> ((int \<times> int) \<times> (int \<times> int))) list"

definition window_minutes_for_date :: "int \<Rightarrow> month_table \<Rightarrow> int \<times> int" where
  "window_minutes_for_date day windows =
    (case (case map_of windows (month_of day) of Some w \<Rightarrow> w | None \<Rightarrow> ((8, 0), (18, 0))) of
       ((sh, sm), (eh, em)) \<Rightarrow> (sh * 60 + sm, eh * 60 + em))"

definition datetime_for_minutes :: "int \<Rightarrow> int \<Rightarrow> rat" where
  "datetime_for_minutes day minute_of_day = of_int day * 86400 + of_int minute_of_day * 60"

definition scheduled_target_day :: "moment \<Rightarrow> month_table \<Rightarrow> int" where
  "scheduled_target_day w windows =
    (case window_minutes_for_date (dt_day w) windows of (s, e) \<Rightarrow>
       if s < e \<and> e \<le> dt_minutes w then dt_day w + 1 else dt_day w)"

record schedule_context =
  sx_target :: int
  sx_weekday :: nat
  sx_enabled :: bool
  sx_start :: int
  sx_end :: int
  sx_fallback_start :: rat
  sx_boost_end :: rat

definition scheduled_snapshot_context :: "moment \<Rightarrow> month_table \<Rightarrow> enabled_days \<Rightarrow> secs \<Rightarrow> pyval \<Rightarrow> schedule_context" where
  "scheduled_snapshot_context w windows enabled_days delay latest_end =
    (let target = scheduled_target_day w windows;
         bounds = window_minutes_for_date target windows;
         previous_end = snd (window_minutes_for_date (target - 1) windows);
         latest = parse_hhmm latest_end (6, 30);
         latest_dt = datetime_for_minutes target (fst latest * 60 + snd latest)
     in \<lparr>sx_target = target, sx_weekday = weekday_of target,
         sx_enabled = weekday_of target \<in> set (normalize_scheduled_enabled_days enabled_days default_scheduled_enabled_days),
         sx_start = fst bounds, sx_end = snd bounds,
         sx_fallback_start = datetime_for_minutes (target - 1) previous_end + max 0 delay,
         sx_boost_end = min latest_dt (datetime_for_minutes target (fst bounds))\<rparr>)"

definition scheduled_state_codes :: "(string \<times> int) list" where
  "scheduled_state_codes = [(''disabled'', 0), (''auto-window'', 1), (''inactive-day'', 2), (''waiting-fallback'', 3),
     (''night-boost'', 4), (''after-latest-end'', 5)]"

definition scheduled_reason_codes :: "(string \<times> int) list" where
  "scheduled_reason_codes = [(''disabled'', 0), (''daytime-auto'', 1), (''target-day-disabled'', 2),
     (''waiting-fallback-delay'', 3), (''night-boost-window'', 4), (''latest-end-reached'', 5)]"

record schedule_snapshot =
  ss_state :: string
  ss_state_code :: int
  ss_reason :: string
  ss_reason_code :: int
  ss_night_boost :: bool
  ss_target_index :: nat
  ss_target_label :: string
  ss_target_date :: string
  ss_target_enabled :: bool
  ss_fallback_start :: string
  ss_boost_until :: string

definition scheduled_snapshot :: "schedule_context \<Rightarrow> string \<Rightarrow> string \<Rightarrow> bool \<Rightarrow> schedule_snapshot" where
  "scheduled_snapshot c state reason enabled =
    \<lparr>ss_state = state, ss_state_code = the (map_of scheduled_state_codes state),
     ss_reason = reason, ss_reason_code = the (map_of scheduled_reason_codes reason),
     ss_night_boost = (state = ''night-boost''), ss_target_index = sx_weekday c,
     ss_target_label = weekday_labels ! sx_weekday c, ss_target_date = date_text (sx_target c),
     ss_target_enabled = enabled, ss_fallback_start = datetime_text (sx_fallback_start c),
     ss_boost_until = datetime_text (sx_boost_end c)\<rparr>"

definition scheduled_daytime_window_active :: "moment \<Rightarrow> schedule_context \<Rightarrow> bool" where
  "scheduled_daytime_window_active w c \<longleftrightarrow>
    sx_start c \<le> dt_minutes w \<and> dt_minutes w < sx_end c \<and> dt_day w = sx_target c"

definition scheduled_post_night_state :: "moment \<Rightarrow> schedule_context \<Rightarrow> string \<times> string" where
  "scheduled_post_night_state w c =
    (if dt_abs w < sx_fallback_start c then (''waiting-fallback'', ''waiting-fallback-delay'')
     else if dt_abs w < sx_boost_end c then (''night-boost'', ''night-boost-window'')
     else if dt_day w = sx_target c \<and> sx_start c < sx_end c \<and> sx_start c \<le> dt_minutes w
     then (''auto-window'', ''daytime-auto'')
     else (''after-latest-end'', ''latest-end-reached''))"

definition scheduled_mode_snapshot :: "moment \<Rightarrow> month_table \<Rightarrow> enabled_days \<Rightarrow> secs \<Rightarrow> pyval \<Rightarrow> schedule_snapshot" where
  "scheduled_mode_snapshot w windows enabled_days delay latest_end =
    (let c = scheduled_snapshot_context w windows enabled_days delay latest_end in
     if scheduled_daytime_window_active w c then scheduled_snapshot c ''auto-window'' ''daytime-auto'' (sx_enabled c)
     else if \<not> sx_enabled c then scheduled_snapshot c ''inactive-day'' ''target-day-disabled'' False
     else case scheduled_post_night_state w c of (state, reason) \<Rightarrow> scheduled_snapshot c state reason True)"

definition scheduled_night_window_active :: "moment \<Rightarrow> month_table \<Rightarrow> secs \<Rightarrow> bool" where
  "scheduled_night_window_active w windows delay =
    ss_night_boost (scheduled_mode_snapshot w windows (DayItems (map (\<lambda>d. int_text (int d)) default_scheduled_enabled_days)) delay (PStr ''23:59''))"

definition month_in_range :: "nat \<Rightarrow> nat \<Rightarrow> nat \<Rightarrow> bool" where
  "month_in_range month start_month end_month =
    (if start_month \<le> end_month then start_month \<le> month \<and> month \<le> end_month
     else start_month \<le> month \<or> month \<le> end_month)"

definition month_in_ranges :: "nat \<Rightarrow> (nat \<times> nat) list \<Rightarrow> bool" where
  "month_in_ranges month ranges = list_ex (\<lambda>(s, e). month_in_range month s e) ranges"

end
