(* ===== verification/Control_Write.thy ===== *)
theory Control_Write
  imports Control_Command Relay_Cutover Schedule Phases Auto_State
begin

text \<open>
  The write controller (\<open>controllers/write.py\<close>, \<open>write_support.py\<close>, \<open>write_snapshot.py\<close>) behind its port
  (\<open>ports/write.py\<close>, \<open>ports/write_runtime.py\<close>): one handler per command, inside a transaction that
  snapshots the service, stages publications, persists, and rolls back while nothing irreversible happened.

  A command runs under the controller's lock, so it is one step; the clock is read once per command.
  The charger backend, the phase switch, persistence, the gateway, the Auto policy and the validation of the whole
  configuration are the environment \<open>write_env\<close>: functions that return an exception or succeed.
\<close>

section \<open>The service as the write path sees it\<close>

record phase_attrs =
  pa_requested :: string
  pa_active :: string
  pa_supported :: "string list"
  pa_pending :: "string option"
  pa_state :: "string option"
  pa_requested_at :: "secs option"
  pa_stable_until :: "secs option"
  pa_resume :: bool
  pa_mismatch_active :: bool
  pa_mismatch_counts :: "(string \<times> int) list"
  pa_mismatch_sel :: "string option"
  pa_mismatch_at :: "secs option"
  pa_lock_sel :: "string option"
  pa_lock_reason :: string
  pa_lock_at :: "secs option"
  pa_lock_until :: "secs option"

record contactor_attrs =
  ca_counts :: "(string \<times> int) list"
  ca_reason :: "string option"
  ca_since :: "secs option"
  ca_lock_reason :: string
  ca_lock_source :: string
  ca_lock_at :: "secs option"
  ca_open_since :: "secs option"
  ca_welded_since :: "secs option"

record relay_attrs =
  ra_pending :: "bool option"
  ra_requested_at :: "secs option"
  ra_expected :: "bool option"
  ra_sync_at :: "secs option"
  ra_deadline :: "secs option"
  ra_reported :: bool

record pm_attrs =
  pm_last :: "pm_status option"
  pm_last_at :: "pyfloat option"
  pm_last_confirmed :: bool
  pm_conf :: "pm_status option"
  pm_conf_at :: "pyfloat option"
  pm_worker :: worker_snapshot

record setting_attrs =
  sa_start_delay :: secs
  sa_stop_delay :: secs
  sa_days :: string
  sa_fallback_delay :: secs
  sa_latest_end :: string
  sa_night_current :: amps
  sa_backoff_base :: secs
  sa_backoff_max :: secs

text \<open>What the commands do outside the service, in order; a hardware call is listed when it is made.\<close>

datatype write_effect =
    SetEnabled bool
  | SetCurrent pyfloat
  | ApplyPhase string
  | SavedState
  | SavedOverrides
  | Published string pyval

record 'p write_svc =
  ws_mode :: int
  ws_autostart :: int
  ws_startstop :: int
  ws_enable :: int
  ws_set_current :: amps
  ws_min_current :: amps
  ws_max_current :: amps
  ws_override_until :: secs
  ws_start_since :: "secs option"
  ws_stop_since :: "secs option"
  ws_stop_reason :: "string option"
  ws_samples :: "(secs \<times> watts \<times> watts) list"
  ws_smooth_surplus :: "watts option"
  ws_smooth_grid :: "watts option"
  ws_cutover :: bool
  ws_ignore_offtime :: bool
  ws_policy :: 'p
  ws_phase :: phase_attrs
  ws_contactor :: contactor_attrs
  ws_relay :: relay_attrs
  ws_pm :: pm_attrs
  ws_settings :: setting_attrs
  ws_update_at :: "secs option"
  ws_staged :: "(string \<times> pyval) list option"
  ws_side_effect :: bool
  ws_log :: "write_effect list"

record 'p write_env =
  we_now :: secs
  we_override_seconds :: secs
  we_worker_poll :: "secs option"
  we_sync_timeout :: secs
  we_current_backend :: bool
  we_enable_backend :: bool
  we_requires_pause :: bool
  we_set_current :: "pyfloat \<Rightarrow> exc option"
  we_set_enabled :: "bool \<Rightarrow> exc option"
  we_apply_phase :: "string \<Rightarrow> exc + string"
  we_local_status :: "pm_status option \<Rightarrow> bool \<Rightarrow> exc + pm_status"
  we_policy_update :: "string \<Rightarrow> pyval \<Rightarrow> 'p \<Rightarrow> (exc + pyval) \<times> 'p"
  we_validate :: "'p write_svc \<Rightarrow> exc option"
  we_save_state :: "'p write_svc \<Rightarrow> exc option"
  we_save_overrides :: "'p write_svc \<Rightarrow> exc option"
  we_publish :: "string \<Rightarrow> pyval \<Rightarrow> exc + bool"
  we_error_text :: "exc \<Rightarrow> string"

type_synonym 'p step = "(unit, 'p write_svc) outcome"

definition log_write :: "write_effect \<Rightarrow> 'p write_svc \<Rightarrow> 'p write_svc" where
  "log_write e s = s\<lparr>ws_log := ws_log s @ [e]\<rparr>"

definition finish :: "'p write_svc \<Rightarrow> 'p step" where
  "finish s = (Inr (), s)"

definition raise_if :: "exc option \<Rightarrow> 'p write_svc \<Rightarrow> 'p step" where
  "raise_if e s = (case e of None \<Rightarrow> (Inr (), s) | Some x \<Rightarrow> (Inl x, s))"

section \<open>The port\<close>

definition finite_or_zero :: "pyfloat \<Rightarrow> rat" where
  "finite_or_zero x = (case x of Fin v \<Rightarrow> v | _ \<Rightarrow> 0)"

definition set_binary_flag :: "int \<Rightarrow> int" where
  "set_binary_flag v = (if v \<le> 0 then 0 else 1)"

text \<open>The flags are read normalised.\<close>

definition port_enable :: "'p write_svc \<Rightarrow> int" where
  "port_enable s = set_binary_flag (ws_enable s)"

definition port_startstop :: "'p write_svc \<Rightarrow> int" where
  "port_startstop s = set_binary_flag (ws_startstop s)"

definition port_supported :: "secs \<Rightarrow> 'p write_svc \<Rightarrow> phase list" where
  "port_supported now s = effective_supported_phase_selections
     (Sequence (map (\<lambda>p. Some (phase_text p)) (normalize_phase_selection_tuple (Sequence (map Some (pa_supported (ws_phase s)))) [P1])))
     (pa_lock_sel (ws_phase s)) (map_option Fin (pa_lock_until (ws_phase s))) now"

definition port_requested :: "secs \<Rightarrow> 'p write_svc \<Rightarrow> phase" where
  "port_requested now s = normalize_phase_selection (Some (pa_requested (ws_phase s))) (hd (port_supported now s))"

definition port_active :: "secs \<Rightarrow> 'p write_svc \<Rightarrow> phase" where
  "port_active now s = normalize_phase_selection (Some (pa_active (ws_phase s))) (port_requested now s)"

definition publish_field :: "'p write_env \<Rightarrow> string \<Rightarrow> pyval \<Rightarrow> 'p write_svc \<Rightarrow> 'p step" where
  "publish_field e f v s =
    (case ws_staged s of
       Some ps \<Rightarrow> finish (s\<lparr>ws_staged := Some (ps @ [(f, v)])\<rparr>)
     | None \<Rightarrow> (case we_publish e f v of
         Inl x \<Rightarrow> (Inl x, s) | Inr ok \<Rightarrow> finish (if ok then log_write (Published f v) s else s)))"

definition begin_publication_transaction :: "'p write_svc \<Rightarrow> 'p step" where
  "begin_publication_transaction s =
    (if ws_staged s \<noteq> None then (Inl RuntimeErr, s) else finish (s\<lparr>ws_staged := Some []\<rparr>))"

fun publish_staged :: "'p write_env \<Rightarrow> (string \<times> pyval) list \<Rightarrow> 'p write_svc \<Rightarrow> 'p step" where
  "publish_staged e [] s = finish s"
| "publish_staged e ((f, v) # ps) s =
    (case we_publish e f v of
       Inl x \<Rightarrow> (Inl x, s)
     | Inr accepted \<Rightarrow> if \<not> accepted then (Inl RuntimeErr, s) else publish_staged e ps (log_write (Published f v) s))"

definition commit_publication_transaction :: "'p write_env \<Rightarrow> 'p write_svc \<Rightarrow> 'p step" where
  "commit_publication_transaction e s =
    (case ws_staged s of None \<Rightarrow> (Inl RuntimeErr, s)
     | Some ps \<Rightarrow> and_then (publish_staged e ps s) (\<lambda>_ s. finish (s\<lparr>ws_staged := None\<rparr>)))"

definition discard_publication_transaction :: "'p write_svc \<Rightarrow> 'p write_svc" where
  "discard_publication_transaction s = s\<lparr>ws_staged := None\<rparr>"

text \<open>\<open>queue_relay_command\<close> of the worker (\<open>backend/shelly_io_worker.py\<close>) and the controller's wrapper.\<close>

definition worker_queue_relay_command :: "'p write_env \<Rightarrow> bool \<Rightarrow> 'p write_svc \<Rightarrow> 'p write_svc" where
  "worker_queue_relay_command e on s = s\<lparr>ws_relay :=
     \<lparr>ra_pending = Some on, ra_requested_at = Some (we_now e), ra_expected = Some on, ra_sync_at = Some (we_now e),
      ra_deadline = Some (we_now e + we_sync_timeout e), ra_reported = False\<rparr>\<rparr>"

definition queue_relay_command :: "'p write_env \<Rightarrow> bool \<Rightarrow> 'p write_svc \<Rightarrow> 'p write_svc" where
  "queue_relay_command e on s = worker_queue_relay_command e on s\<lparr>ws_side_effect := True\<rparr>"

definition update_worker_snapshot :: "'p write_env \<Rightarrow> (worker_snapshot \<Rightarrow> worker_snapshot) \<Rightarrow> 'p write_svc \<Rightarrow> 'p write_svc" where
  "update_worker_snapshot e f s = s\<lparr>ws_pm := (ws_pm s)
     \<lparr>pm_worker := normalized_worker_snapshot (f (pm_worker (ws_pm s))) (Some (we_now e)) 1 True\<rparr>\<rparr>"

definition publish_local_pm_status :: "'p write_env \<Rightarrow> bool \<Rightarrow> 'p write_svc \<Rightarrow> 'p step" where
  "publish_local_pm_status e on s =
    (case we_local_status e (pm_last (ws_pm s)) on of
       Inl x \<Rightarrow> (Inl x, s)
     | Inr status \<Rightarrow>
         let unconfirmed = AList.update ''_pm_confirmed'' (PBool False) status;
             s1 = s\<lparr>ws_pm := (ws_pm s)\<lparr>pm_last := Some unconfirmed, pm_last_at := Some (Fin (we_now e)), pm_last_confirmed := False\<rparr>\<rparr>
         in finish (update_worker_snapshot e (\<lambda>w. w\<lparr>wk_captured_at := Some (Fin (we_now e)),
              wk_pm_captured_at := Some (Fin (we_now e)), wk_pm_status := Some unconfirmed, wk_pm_confirmed := False\<rparr>) s1))"

definition control_command_errors :: "exc list" where
  "control_command_errors = [KeyError, OSError, RuntimeErr, TypeErr, ValueErr]"

definition publish_local_pm_status_best_effort :: "'p write_env \<Rightarrow> bool \<Rightarrow> 'p write_svc \<Rightarrow> 'p step" where
  "publish_local_pm_status_best_effort e on s =
    try_except (publish_local_pm_status e on s) control_command_errors (\<lambda>_ s. finish s)"

definition port_relay_may_be_on :: "'p write_env \<Rightarrow> 'p write_svc \<Rightarrow> bool" where
  "port_relay_may_be_on e s = relay_may_be_on_for_cutover
     (case ra_pending (ws_relay s) of None \<Rightarrow> PNone | Some b \<Rightarrow> PBool b)
     (pm_worker (ws_pm s)) (pm_conf (ws_pm s)) (pm_conf_at (ws_pm s)) (we_now e)
     (relay_status_freshness_seconds (we_worker_poll e) (Some (we_sync_timeout e)))"

definition charger_set_enabled :: "'p write_env \<Rightarrow> bool \<Rightarrow> 'p write_svc \<Rightarrow> 'p step" where
  "charger_set_enabled e on s = raise_if (we_set_enabled e on) (log_write (SetEnabled on) s)"

definition charger_set_current :: "'p write_env \<Rightarrow> pyfloat \<Rightarrow> 'p write_svc \<Rightarrow> 'p step" where
  "charger_set_current e x s = raise_if (we_set_current e x) (log_write (SetCurrent x) s)"

definition apply_phase_selection :: "'p write_env \<Rightarrow> string \<Rightarrow> 'p write_svc \<Rightarrow> (string, 'p write_svc) outcome" where
  "apply_phase_selection e p s = (we_apply_phase e p, log_write (ApplyPhase p) s)"

section \<open>Publishing the semantic fields\<close>

definition publish_startstop_enable :: "'p write_env \<Rightarrow> bool \<Rightarrow> 'p write_svc \<Rightarrow> 'p step" where
  "publish_startstop_enable e auto s =
    and_then (publish_field e ''start_stop''
        (PInt (if auto then (if port_enable s \<noteq> 0 then port_enable s else port_startstop s) else port_startstop s)) s)
      (\<lambda>_ s. publish_field e ''enable'' (PInt (port_enable s)) s)"

definition publish_mode_paths :: "'p write_env \<Rightarrow> bool \<Rightarrow> 'p write_svc \<Rightarrow> 'p step" where
  "publish_mode_paths e auto s =
    and_then (publish_field e ''mode'' (PInt (max 0 (ws_mode s))) s) (\<lambda>_ s. publish_startstop_enable e auto s)"

fun publish_fields :: "'p write_env \<Rightarrow> (string \<times> pyval) list \<Rightarrow> 'p write_svc \<Rightarrow> 'p step" where
  "publish_fields e [] s = finish s"
| "publish_fields e ((f, v) # fs) s = and_then (publish_field e f v s) (\<lambda>_ s. publish_fields e fs s)"

text \<open>The port has no lockout attributes, so the text repeats the layouts its own property already filtered.\<close>

definition supported_phase_selection_text :: "'p write_env \<Rightarrow> 'p write_svc \<Rightarrow> string" where
  "supported_phase_selection_text e s = py_join '','' (map phase_text
    (effective_supported_phase_selections (Sequence (map (\<lambda>p. Some (phase_text p)) (port_supported (we_now e) s))) None None (we_now e)))"

definition publish_phase_selection_paths :: "'p write_env \<Rightarrow> 'p write_svc \<Rightarrow> 'p step" where
  "publish_phase_selection_paths e s = publish_fields e
    [(''phase_selection'', PStr (phase_text (port_requested (we_now e) s))),
     (''phase_selection_active'', PStr (phase_text (port_active (we_now e) s))),
     (''supported_phase_selections'', PStr (supported_phase_selection_text e s))] s"

definition publish_phase_lockout_paths :: "'p write_env \<Rightarrow> 'p write_svc \<Rightarrow> 'p step" where
  "publish_phase_lockout_paths e s =
    (let configured = py_join '','' (map phase_text (port_supported (we_now e) s));
         effective = supported_phase_selection_text e s
     in publish_fields e
      [(''auto_phase_lockout_active'', PInt 0), (''auto_phase_lockout_target'', PStr ''''),
       (''auto_phase_lockout_reason'', PStr ''''), (''auto_phase_supported_configured'', PStr configured),
       (''auto_phase_supported_effective'', PStr effective),
       (''auto_phase_degraded_active'', PInt (if configured \<noteq> effective then 1 else 0)),
       (''auto_phase_lockout_age'', PInt (- 1)), (''auto_phase_lockout_reset'', PInt 0)] s)"

definition publish_contactor_lockout_paths :: "'p write_env \<Rightarrow> 'p write_svc \<Rightarrow> 'p step" where
  "publish_contactor_lockout_paths e s = publish_fields e
    [(''auto_contactor_fault_count'', PInt 0), (''auto_contactor_lockout_active'', PInt 0),
     (''auto_contactor_lockout_reason'', PStr ''''), (''auto_contactor_lockout_source'', PStr ''''),
     (''auto_contactor_lockout_age'', PInt (- 1)), (''auto_contactor_lockout_reset'', PInt 0)] s"

section \<open>Mode, start/stop, enable\<close>

definition reset_auto_decision_state :: "'p write_svc \<Rightarrow> 'p write_svc" where
  "reset_auto_decision_state s = s\<lparr>ws_start_since := None, ws_stop_since := None,
     ws_samples := [], ws_smooth_surplus := None, ws_smooth_grid := None\<rparr>"

definition activate_auto_without_cutover :: "'p write_svc \<Rightarrow> 'p write_svc" where
  "activate_auto_without_cutover s = s\<lparr>ws_cutover := False, ws_ignore_offtime := False\<rparr>"

definition queue_auto_cutover :: "'p write_env \<Rightarrow> 'p write_svc \<Rightarrow> 'p step" where
  "queue_auto_cutover e s = publish_local_pm_status_best_effort e False
     (queue_relay_command e False s\<lparr>ws_enable := 1, ws_startstop := 0, ws_cutover := True, ws_ignore_offtime := False\<rparr>)"

definition handle_mode_transition_to_auto :: "'p write_env \<Rightarrow> int \<Rightarrow> 'p write_svc \<Rightarrow> 'p step" where
  "handle_mode_transition_to_auto e previous s =
    (if mode_uses_auto_logic previous then finish s
     else if port_relay_may_be_on e s
     then and_then (queue_auto_cutover e s) (\<lambda>_ s. finish (s\<lparr>ws_override_until := 0\<rparr>))
     else finish (activate_auto_without_cutover s\<lparr>ws_override_until := 0\<rparr>))"

definition apply_manual_enable_like_request :: "'p write_env \<Rightarrow> bool \<Rightarrow> 'p write_svc \<Rightarrow> 'p step" where
  "apply_manual_enable_like_request e on s =
    (let flag = (if on then 1 else 0) in
     if we_enable_backend e
     then and_then (charger_set_enabled e on s) (\<lambda>_ s. finish (s\<lparr>ws_side_effect := True, ws_startstop := flag, ws_enable := flag,
            ws_override_until := we_now e + we_override_seconds e\<rparr>))
     else publish_local_pm_status_best_effort e on
            (queue_relay_command e on s\<lparr>ws_startstop := flag, ws_enable := flag,
              ws_override_until := we_now e + we_override_seconds e\<rparr>))"

definition handle_mode_transition_to_manual :: "'p write_env \<Rightarrow> int \<Rightarrow> 'p write_svc \<Rightarrow> 'p step" where
  "handle_mode_transition_to_manual e previous s =
    (if \<not> mode_uses_auto_logic previous then finish s
     else let wanted_on = port_enable s \<noteq> 0 in
       if (port_startstop s \<noteq> 0) = wanted_on then finish s
       else apply_manual_enable_like_request e wanted_on s)"

definition snapshot_for_mode :: "'p write_env \<Rightarrow> bool \<Rightarrow> 'p write_svc \<Rightarrow> 'p write_svc" where
  "snapshot_for_mode e auto s = update_worker_snapshot e (\<lambda>w. w\<lparr>wk_captured_at := Some (Fin (we_now e)), wk_auto_mode := auto,
     wk_pv := (if auto then wk_pv w else None), wk_soc := (if auto then wk_soc w else None),
     wk_grid := (if auto then wk_grid w else None)\<rparr>) s"

definition handle_mode_write :: "'p write_env \<Rightarrow> int \<Rightarrow> 'p write_svc \<Rightarrow> 'p step" where
  "handle_mode_write e requested s =
    (let previous = max 0 (ws_mode s); normalized = normalize_mode requested; auto = mode_uses_auto_logic normalized
     in and_then (if auto then handle_mode_transition_to_auto e previous s else handle_mode_transition_to_manual e previous s)
       (\<lambda>_ s. publish_mode_paths e auto
          (snapshot_for_mode e auto (reset_auto_decision_state (s\<lparr>ws_mode := normalized\<rparr>)))))"

definition apply_auto_disable :: "'p write_env \<Rightarrow> 'p write_svc \<Rightarrow> 'p step" where
  "apply_auto_disable e s = publish_local_pm_status_best_effort e False
     (queue_relay_command e False s\<lparr>ws_enable := 0, ws_startstop := 0\<rparr>)"

definition handle_autostart_write :: "'p write_env \<Rightarrow> pyval \<Rightarrow> 'p write_svc \<Rightarrow> 'p step" where
  "handle_autostart_write e value s =
    and_then (py_int value, s) (\<lambda>i s. let flag = set_binary_flag i in
      publish_field e ''auto_start'' (PInt flag) (s\<lparr>ws_autostart := flag\<rparr>))"

definition handle_startstop_write :: "'p write_env \<Rightarrow> bool \<Rightarrow> 'p write_svc \<Rightarrow> 'p step" where
  "handle_startstop_write e wanted_on s =
    (if mode_uses_auto_logic (max 0 (ws_mode s))
     then and_then (if \<not> wanted_on then apply_auto_disable e s else finish (s\<lparr>ws_enable := 1\<rparr>))
            (\<lambda>_ s. publish_startstop_enable e True s)
     else and_then (apply_manual_enable_like_request e wanted_on s) (\<lambda>_ s. publish_startstop_enable e False s))"

definition handle_enable_write :: "'p write_env \<Rightarrow> bool \<Rightarrow> 'p write_svc \<Rightarrow> 'p step" where
  "handle_enable_write e wanted_on s =
    and_then
      (if mode_uses_auto_logic (max 0 (ws_mode s))
       then if \<not> wanted_on then apply_auto_disable e s else finish (s\<lparr>ws_enable := 1\<rparr>)
       else apply_manual_enable_like_request e wanted_on s)
      (\<lambda>_ s. publish_startstop_enable e (mode_uses_auto_logic (max 0 (ws_mode s))) s)"

section \<open>Currents and Auto settings\<close>

definition float_value :: "pyfloat \<Rightarrow> pyval" where
  "float_value x = PFloat x ''''"

definition handle_current_setting_write :: "'p write_env \<Rightarrow> string \<Rightarrow> pyval \<Rightarrow> 'p write_svc \<Rightarrow> 'p step" where
  "handle_current_setting_write e target value s =
    and_then (py_float value, s) (\<lambda>x s. let v = finite_or_zero x in
      if target = ''set_current''
      then and_then (if we_current_backend e
             then and_then (charger_set_current e x s) (\<lambda>_ s. finish (s\<lparr>ws_side_effect := True\<rparr>)) else finish s)
           (\<lambda>_ s. publish_field e target (float_value (Fin v)) (s\<lparr>ws_set_current := v\<rparr>))
      else if target = ''max_current'' then publish_field e target (float_value (Fin v)) (s\<lparr>ws_max_current := v\<rparr>)
      else if target = ''min_current'' then publish_field e target (float_value (Fin v)) (s\<lparr>ws_min_current := v\<rparr>)
      else (Inl KeyError, s\<lparr>ws_min_current := v\<rparr>))"

definition auto_policy_setting_targets :: "string list" where
  "auto_policy_setting_targets =
    [''auto_start_surplus_watts'', ''auto_stop_surplus_watts'', ''auto_min_soc'', ''auto_resume_soc'',
     ''auto_grid_recovery_start_seconds'', ''auto_stop_surplus_delay_seconds'',
     ''auto_stop_surplus_volatility_low_watts'', ''auto_stop_surplus_volatility_high_watts'',
     ''auto_reference_charge_power_watts'', ''auto_learn_charge_power_enabled'',
     ''auto_learn_charge_power_min_watts'', ''auto_learn_charge_power_alpha'',
     ''auto_learn_charge_power_start_delay_seconds'', ''auto_learn_charge_power_window_seconds'',
     ''auto_learn_charge_power_max_age_seconds'', ''auto_phase_switching'', ''auto_phase_prefer_lowest_when_idle'',
     ''auto_phase_upshift_delay_seconds'', ''auto_phase_downshift_delay_seconds'',
     ''auto_phase_upshift_headroom_watts'', ''auto_phase_downshift_margin_watts'',
     ''auto_phase_mismatch_retry_seconds'', ''auto_phase_mismatch_lockout_count'', ''auto_phase_mismatch_lockout_seconds'']"

text \<open>
  \<open>AUTO_RUNTIME_SETTING_SPECS\<close>: the attribute of each remaining setting, with the port's setter, and for the texts what
  the port's getter then reads.
\<close>

fun float_setting :: "string \<Rightarrow> rat \<Rightarrow> setting_attrs \<Rightarrow> setting_attrs option" where
  "float_setting target v a =
    (if target = ''auto_start_delay_seconds'' then Some (a\<lparr>sa_start_delay := v\<rparr>)
     else if target = ''auto_stop_delay_seconds'' then Some (a\<lparr>sa_stop_delay := v\<rparr>)
     else if target = ''auto_scheduled_fallback_delay_seconds'' then Some (a\<lparr>sa_fallback_delay := v\<rparr>)
     else if target = ''auto_scheduled_night_current'' then Some (a\<lparr>sa_night_current := v\<rparr>)
     else if target = ''auto_dbus_backoff_base_seconds'' then Some (a\<lparr>sa_backoff_base := v\<rparr>)
     else if target = ''auto_dbus_backoff_max_seconds'' then Some (a\<lparr>sa_backoff_max := v\<rparr>)
     else None)"

definition text_setting :: "string \<Rightarrow> string \<Rightarrow> setting_attrs \<Rightarrow> (string \<times> setting_attrs) option" where
  "text_setting target v a =
    (if target = ''auto_scheduled_enabled_days''
     then let t = scheduled_enabled_days_text (DayText (PStr v)) default_scheduled_enabled_days
          in Some (scheduled_enabled_days_text (DayText (PStr t)) default_scheduled_enabled_days, a\<lparr>sa_days := t\<rparr>)
     else if target = ''auto_scheduled_latest_end_time''
     then let t = normalize_hhmm_text (PStr v) (Some (PStr ''06:30''))
          in Some (normalize_hhmm_text (PStr t) (Some (PStr ''06:30'')), a\<lparr>sa_latest_end := t\<rparr>)
     else None)"

definition apply_auto_runtime_setting ::
  "'p write_env \<Rightarrow> string \<Rightarrow> pyval \<Rightarrow> 'p write_svc \<Rightarrow> (pyval, 'p write_svc) outcome" where
  "apply_auto_runtime_setting e target value s =
    (let validated = (\<lambda>v s. and_then (raise_if (we_validate e s) s) (\<lambda>_ s. (Inr v, s))) in
     if target \<in> set auto_policy_setting_targets
     then (case we_policy_update e target value (ws_policy s) of
         (Inl x, p) \<Rightarrow> (Inl x, s\<lparr>ws_policy := p\<rparr>)
       | (Inr v, p) \<Rightarrow> validated v (s\<lparr>ws_policy := p\<rparr>))
     else case text_setting target (py_str value) (ws_settings s) of
       Some (t, a) \<Rightarrow> validated (PStr t) (s\<lparr>ws_settings := a\<rparr>)
     | None \<Rightarrow> if float_setting target 0 (ws_settings s) = None then (Inl KeyError, s)
         else and_then (py_float value, s) (\<lambda>x s. case float_setting target (finite_or_zero x) (ws_settings s) of
             Some a \<Rightarrow> validated (float_value (Fin (finite_or_zero x))) (s\<lparr>ws_settings := a\<rparr>)
           | None \<Rightarrow> (Inl KeyError, s)))"

definition handle_auto_runtime_setting_write :: "'p write_env \<Rightarrow> string \<Rightarrow> pyval \<Rightarrow> 'p write_svc \<Rightarrow> 'p step" where
  "handle_auto_runtime_setting_write e target value s =
    and_then (apply_auto_runtime_setting e target value s) (\<lambda>v s. publish_field e target v s)"

section \<open>Phase selection, lockouts, software update\<close>

definition update_phase :: "(phase_attrs \<Rightarrow> phase_attrs) \<Rightarrow> 'p write_svc \<Rightarrow> 'p write_svc" where
  "update_phase f s = s\<lparr>ws_phase := f (ws_phase s)\<rparr>"

definition queue_phase_switch_state :: "phase \<Rightarrow> secs \<Rightarrow> bool \<Rightarrow> 'p write_svc \<Rightarrow> 'p write_svc" where
  "queue_phase_switch_state requested now resume = update_phase (\<lambda>a. a\<lparr>
     pa_requested := phase_text requested, pa_pending := Some (phase_text requested), pa_state := Some ''waiting-relay-off'',
     pa_requested_at := Some now, pa_stable_until := None, pa_resume := resume\<rparr>)"

definition set_requested_phase :: "'p write_env \<Rightarrow> string \<Rightarrow> 'p write_svc \<Rightarrow> 'p write_svc" where
  "set_requested_phase e v s = update_phase (\<lambda>a. a\<lparr>pa_requested :=
     phase_text (normalize_phase_selection (Some v) (hd (port_supported (we_now e) s)))\<rparr>) s"

definition set_active_phase :: "'p write_env \<Rightarrow> string \<Rightarrow> 'p write_svc \<Rightarrow> 'p write_svc" where
  "set_active_phase e v s = update_phase (\<lambda>a. a\<lparr>pa_active :=
     phase_text (normalize_phase_selection (Some v) (port_requested (we_now e) s))\<rparr>) s"

definition py_text_or_none :: "pyval \<Rightarrow> string option" where
  "py_text_or_none v = (if v = PNone then None else Some (py_str v))"

definition handle_phase_selection_write :: "'p write_env \<Rightarrow> pyval \<Rightarrow> 'p write_svc \<Rightarrow> 'p step" where
  "handle_phase_selection_write e value s =
    (let supported = port_supported (we_now e) s;
         requested = normalize_phase_selection (py_text_or_none value) (hd supported) in
     if requested \<notin> set supported then (Inl ValueErr, s)
     else if we_requires_pause e \<and> port_relay_may_be_on e s
     then and_then (publish_local_pm_status_best_effort e False
              (queue_relay_command e False (queue_phase_switch_state requested (we_now e) True s)))
            (\<lambda>_ s. publish_phase_selection_paths e s)
     else and_then (apply_phase_selection e (phase_text requested) s)
            (\<lambda>applied s. publish_phase_selection_paths e (set_active_phase e applied (set_requested_phase e applied s))))"

definition clear_phase_lockout_state :: "'p write_svc \<Rightarrow> 'p write_svc" where
  "clear_phase_lockout_state = update_phase (\<lambda>a. a\<lparr>pa_mismatch_active := False, pa_mismatch_counts := [],
     pa_mismatch_sel := None, pa_mismatch_at := None, pa_lock_sel := None, pa_lock_reason := '''',
     pa_lock_at := None, pa_lock_until := None\<rparr>)"

definition clear_contactor_lockout_state :: "'p write_svc \<Rightarrow> 'p write_svc" where
  "clear_contactor_lockout_state s = s\<lparr>ws_contactor := \<lparr>ca_counts = [], ca_reason = None, ca_since = None,
     ca_lock_reason = '''', ca_lock_source = '''', ca_lock_at = None, ca_open_since = None, ca_welded_since = None\<rparr>\<rparr>"

definition handle_phase_lockout_reset_write :: "'p write_env \<Rightarrow> pyval \<Rightarrow> 'p write_svc \<Rightarrow> 'p step" where
  "handle_phase_lockout_reset_write e value s =
    and_then (py_int value, s) (\<lambda>i s.
      if i = 0 then publish_field e ''auto_phase_lockout_reset'' (PInt 0) s
      else and_then (publish_phase_selection_paths e (clear_phase_lockout_state s)) (\<lambda>_ s. publish_phase_lockout_paths e s))"

definition handle_contactor_lockout_reset_write :: "'p write_env \<Rightarrow> pyval \<Rightarrow> 'p write_svc \<Rightarrow> 'p step" where
  "handle_contactor_lockout_reset_write e value s =
    and_then (py_int value, s) (\<lambda>i s.
      if i = 0 then publish_field e ''auto_contactor_lockout_reset'' (PInt 0) s
      else publish_contactor_lockout_paths e (clear_contactor_lockout_state s))"

definition handle_software_update_run_write :: "'p write_env \<Rightarrow> pyval \<Rightarrow> 'p write_svc \<Rightarrow> 'p step" where
  "handle_software_update_run_write e value s =
    and_then (py_int value, s) (\<lambda>i s.
      publish_field e ''auto_software_update_run'' (PInt 0) (if i = 0 then s else s\<lparr>ws_update_at := Some (we_now e)\<rparr>))"

definition handle_mode_value_write :: "'p write_env \<Rightarrow> pyval \<Rightarrow> 'p write_svc \<Rightarrow> 'p step" where
  "handle_mode_value_write e value s = and_then (py_int value, s) (\<lambda>i s. handle_mode_write e i s)"

definition handle_startstop_value_write :: "'p write_env \<Rightarrow> pyval \<Rightarrow> 'p write_svc \<Rightarrow> 'p step" where
  "handle_startstop_value_write e value s = and_then (py_int value, s) (\<lambda>i s. handle_startstop_write e (i \<noteq> 0) s)"

definition handle_enable_value_write :: "'p write_env \<Rightarrow> pyval \<Rightarrow> 'p write_svc \<Rightarrow> 'p step" where
  "handle_enable_value_write e value s = and_then (py_int value, s) (\<lambda>i s. handle_enable_write e (i \<noteq> 0) s)"

section \<open>Dispatch\<close>

definition current_setting_targets :: "string list" where
  "current_setting_targets = [''set_current'', ''max_current'', ''min_current'']"

definition auto_runtime_setting_specs :: "string list" where
  "auto_runtime_setting_specs =
    [''auto_start_delay_seconds'', ''auto_stop_delay_seconds'', ''auto_scheduled_enabled_days'',
     ''auto_scheduled_fallback_delay_seconds'', ''auto_scheduled_latest_end_time'', ''auto_scheduled_night_current'',
     ''auto_dbus_backoff_base_seconds'', ''auto_dbus_backoff_max_seconds'']"

definition write_control_api :: control_api_service where
  "write_control_api = \<lparr>cas_current = current_setting_targets,
     cas_auto = auto_runtime_setting_specs @ auto_policy_setting_targets\<rparr>"

definition handler_for :: "'p write_env \<Rightarrow> string \<Rightarrow> (string \<Rightarrow> pyval \<Rightarrow> 'p write_svc \<Rightarrow> 'p step) option" where
  "handler_for e name = map_of
    [(''reset_contactor_lockout'', \<lambda>_. handle_contactor_lockout_reset_write e),
     (''reset_phase_lockout'', \<lambda>_. handle_phase_lockout_reset_write e),
     (''set_auto_runtime_setting'', handle_auto_runtime_setting_write e),
     (''set_auto_start'', \<lambda>_. handle_autostart_write e),
     (''set_current_setting'', handle_current_setting_write e),
     (''set_enable'', \<lambda>_. handle_enable_value_write e),
     (''set_mode'', \<lambda>_. handle_mode_value_write e),
     (''set_phase_selection'', \<lambda>_. handle_phase_selection_write e),
     (''set_start_stop'', \<lambda>_. handle_startstop_value_write e),
     (''trigger_software_update'', \<lambda>_. handle_software_update_run_write e)] name"

text \<open>The validators raise \<open>ValueError\<close>; the name and the target are validated again, the value is not.\<close>

definition execute_command :: "'p write_env \<Rightarrow> control_command \<Rightarrow> 'p write_svc \<Rightarrow> 'p step" where
  "execute_command e c s =
    (case bind_result (validated_command_name (cc_name c)) (\<lambda>n. validate_command_target write_control_api n (cc_target c)) of
       Inl _ \<Rightarrow> (Inl ValueErr, s)
     | Inr _ \<Rightarrow> (case handler_for e (cc_name c) of None \<Rightarrow> (Inl KeyError, s) | Some h \<Rightarrow> h (cc_target c) (cc_value c) s))"

section \<open>Snapshot and rollback\<close>

text \<open>The snapshot is a deep copy of the service; restoring assigns exactly the listed attributes.\<close>

definition restore_phase :: "phase_attrs \<Rightarrow> phase_attrs \<Rightarrow> phase_attrs" where
  "restore_phase saved a = a\<lparr>pa_requested := pa_requested saved, pa_active := pa_active saved,
     pa_supported := pa_supported saved, pa_pending := pa_pending saved, pa_state := pa_state saved,
     pa_requested_at := pa_requested_at saved, pa_stable_until := pa_stable_until saved, pa_resume := pa_resume saved,
     pa_mismatch_active := pa_mismatch_active saved, pa_mismatch_sel := pa_mismatch_sel saved,
     pa_mismatch_at := pa_mismatch_at saved, pa_lock_sel := pa_lock_sel saved, pa_lock_reason := pa_lock_reason saved,
     pa_lock_at := pa_lock_at saved, pa_lock_until := pa_lock_until saved, pa_mismatch_counts := pa_mismatch_counts saved\<rparr>"

definition restore_contactor :: "contactor_attrs \<Rightarrow> contactor_attrs \<Rightarrow> contactor_attrs" where
  "restore_contactor saved a = a\<lparr>ca_reason := ca_reason saved, ca_since := ca_since saved,
     ca_lock_reason := ca_lock_reason saved, ca_lock_source := ca_lock_source saved, ca_lock_at := ca_lock_at saved,
     ca_open_since := ca_open_since saved, ca_welded_since := ca_welded_since saved, ca_counts := ca_counts saved\<rparr>"

definition restore_relay :: "relay_attrs \<Rightarrow> relay_attrs \<Rightarrow> relay_attrs" where
  "restore_relay saved a = a\<lparr>ra_pending := ra_pending saved, ra_requested_at := ra_requested_at saved,
     ra_expected := ra_expected saved, ra_sync_at := ra_sync_at saved, ra_deadline := ra_deadline saved,
     ra_reported := ra_reported saved\<rparr>"

definition restore_pm :: "pm_attrs \<Rightarrow> pm_attrs \<Rightarrow> pm_attrs" where
  "restore_pm saved a = a\<lparr>pm_last_at := pm_last_at saved, pm_last_confirmed := pm_last_confirmed saved,
     pm_conf_at := pm_conf_at saved, pm_worker := pm_worker saved, pm_last := pm_last saved, pm_conf := pm_conf saved\<rparr>"

definition restore_settings :: "setting_attrs \<Rightarrow> setting_attrs \<Rightarrow> setting_attrs" where
  "restore_settings saved a = a\<lparr>sa_start_delay := sa_start_delay saved, sa_stop_delay := sa_stop_delay saved,
     sa_days := sa_days saved, sa_fallback_delay := sa_fallback_delay saved, sa_latest_end := sa_latest_end saved,
     sa_night_current := sa_night_current saved, sa_backoff_base := sa_backoff_base saved, sa_backoff_max := sa_backoff_max saved\<rparr>"

definition restore_write_state :: "'p write_svc \<Rightarrow> 'p write_svc \<Rightarrow> 'p write_svc" where
  "restore_write_state saved s = s\<lparr>ws_mode := ws_mode saved, ws_autostart := ws_autostart saved,
     ws_startstop := ws_startstop saved, ws_enable := ws_enable saved, ws_set_current := ws_set_current saved,
     ws_phase := restore_phase (ws_phase saved) (ws_phase s),
     ws_contactor := restore_contactor (ws_contactor saved) (ws_contactor s),
     ws_min_current := ws_min_current saved, ws_max_current := ws_max_current saved, ws_policy := ws_policy saved,
     ws_settings := restore_settings (ws_settings saved) (ws_settings s),
     ws_override_until := ws_override_until saved, ws_start_since := ws_start_since saved,
     ws_stop_since := ws_stop_since saved, ws_stop_reason := ws_stop_reason saved, ws_cutover := ws_cutover saved,
     ws_ignore_offtime := ws_ignore_offtime saved, ws_relay := restore_relay (ws_relay saved) (ws_relay s),
     ws_pm := restore_pm (ws_pm saved) (ws_pm s), ws_samples := ws_samples saved,
     ws_smooth_surplus := ws_smooth_surplus saved, ws_smooth_grid := ws_smooth_grid saved\<rparr>"

section \<open>The transaction\<close>

definition write_failure_is_reversible :: "bool \<Rightarrow> bool" where
  "write_failure_is_reversible side_effect_started \<longleftrightarrow> \<not> side_effect_started"

fun exc_name :: "exc \<Rightarrow> string" where
  "exc_name KeyError = ''KeyError''"
| "exc_name OSError = ''OSError''"
| "exc_name RuntimeErr = ''RuntimeError''"
| "exc_name TypeErr = ''TypeError''"
| "exc_name ValueErr = ''ValueError''"
| "exc_name AttributeErr = ''AttributeError''"
| "exc_name IndexErr = ''IndexError''"
| "exc_name OverflowErr = ''OverflowError''"
| "exc_name OtherExc = ''Exception''"

definition write_failure_detail :: "'p write_env \<Rightarrow> exc \<Rightarrow> string" where
  "write_failure_detail e x = (if we_error_text e x \<noteq> '''' then we_error_text e x else exc_name x)"

definition commit_in_flight_publications :: "'p write_env \<Rightarrow> 'p write_svc \<Rightarrow> 'p step" where
  "commit_in_flight_publications e s =
    try_except (commit_publication_transaction e s) control_command_errors (\<lambda>_ s. finish s)"

definition save_runtime_state :: "'p write_env \<Rightarrow> 'p write_svc \<Rightarrow> 'p step" where
  "save_runtime_state e s = (case we_save_state e s of Some x \<Rightarrow> (Inl x, s) | None \<Rightarrow> finish (log_write SavedState s))"

definition save_runtime_overrides :: "'p write_env \<Rightarrow> 'p write_svc \<Rightarrow> 'p step" where
  "save_runtime_overrides e s = (case we_save_overrides e s of Some x \<Rightarrow> (Inl x, s) | None \<Rightarrow> finish (log_write SavedOverrides s))"

text \<open>The \<open>except\<close> block.  \<open>saved\<close> is the snapshot, \<open>persisted\<close> whether the runtime state was saved.\<close>

definition command_failed ::
  "'p write_env \<Rightarrow> control_command \<Rightarrow> 'p write_svc \<Rightarrow> bool \<Rightarrow> exc \<Rightarrow> 'p write_svc \<Rightarrow> (control_result, 'p write_svc) outcome" where
  "command_failed e c saved persisted x s =
    (if x \<notin> set control_command_errors then (Inl x, s)
     else let irreversible = ws_side_effect s \<or> persisted; detail = write_failure_detail e x in
       if write_failure_is_reversible irreversible
       then (Inr (rejected_result c detail True), restore_write_state saved (discard_publication_transaction s))
       else and_then (commit_in_flight_publications e s) (\<lambda>_ s. (Inr (accepted_in_flight_result c detail irreversible), s)))"

definition command_body :: "'p write_env \<Rightarrow> control_command \<Rightarrow> 'p write_svc \<Rightarrow> 'p step" where
  "command_body e c s =
    and_then (begin_publication_transaction s) (\<lambda>_ s.
    and_then (execute_command e c s) (\<lambda>_ s. save_runtime_state e s))"

definition command_transaction :: "'p write_env \<Rightarrow> control_command \<Rightarrow> 'p write_svc \<Rightarrow> (control_result, 'p write_svc) outcome" where
  "command_transaction e c s =
    (case command_body e c (s\<lparr>ws_side_effect := False\<rparr>) of
       (Inl x, t) \<Rightarrow> command_failed e c s False x t
     | (Inr _, t) \<Rightarrow>
        (case and_then (save_runtime_overrides e t) (\<lambda>_ t. commit_publication_transaction e t) of
           (Inl x, u) \<Rightarrow> command_failed e c s True x u
         | (Inr _, u) \<Rightarrow> (Inr (applied_result c '''' (ws_side_effect u)), u)))"

definition handle_control_command :: "'p write_env \<Rightarrow> control_command \<Rightarrow> 'p write_svc \<Rightarrow> (control_result, 'p write_svc) outcome" where
  "handle_control_command e c s =
    (case command_transaction e c s of (r, t) \<Rightarrow> (r, discard_publication_transaction t\<lparr>ws_side_effect := False\<rparr>))"

end
