(* ===== verification/Control_Write_Props.thy ===== *)
theory Control_Write_Props
  imports Control_Write
begin

text \<open>
  What every handler of the write controller leaves alone while its transaction is open, and what the rollback
  restores.
\<close>

section \<open>The rollback\<close>

lemma restore_parts [simp]:
  "restore_phase p q = p" "restore_contactor c d = c" "restore_relay r r' = r" "restore_pm m m' = m" "restore_settings a b = a"
  by (simp_all add: restore_phase_def restore_contactor_def restore_relay_def restore_pm_def restore_settings_def)

lemma restore_all:
  "restore_write_state saved s = saved\<lparr>ws_update_at := ws_update_at s, ws_staged := ws_staged s,
     ws_side_effect := ws_side_effect s, ws_log := ws_log s\<rparr>"
  by (simp add: restore_write_state_def)

section \<open>Handlers stage, they do not publish or persist\<close>

fun hardware_effect :: "write_effect \<Rightarrow> bool" where
  "hardware_effect (SetEnabled _) = True"
| "hardware_effect (SetCurrent _) = True"
| "hardware_effect (ApplyPhase _) = True"
| "hardware_effect _ = False"

text \<open>
  From \<open>s\<close> to \<open>t\<close> inside a transaction: publications stay staged, only hardware calls are logged, the side-effect mark is
  not taken back, a changed relay command is marked, and (with \<open>b\<close>) no software update is requested.
\<close>

definition contained :: "bool \<Rightarrow> 'p write_svc \<Rightarrow> 'p write_svc \<Rightarrow> bool" where
  "contained b s t \<longleftrightarrow> ws_staged s \<noteq> None \<longrightarrow>
    ws_staged t \<noteq> None \<and> (\<exists>new. ws_log t = ws_log s @ new \<and> list_all hardware_effect new)
    \<and> (ws_side_effect s \<longrightarrow> ws_side_effect t) \<and> (ws_relay t \<noteq> ws_relay s \<longrightarrow> ws_side_effect t)
    \<and> (b \<longrightarrow> ws_update_at t = ws_update_at s)"

lemma contained_refl [simp]: "contained b s s"
  by (auto simp: contained_def)

lemma contained_trans: "contained b s t \<Longrightarrow> contained b t u \<Longrightarrow> contained b s u"
  by (fastforce simp: contained_def)

lemma contained_and_then:
  assumes "contained b s (snd r)" "\<And>a u. contained b u (snd (f a u))"
  shows "contained b s (snd (and_then r f))"
  using assms by (cases r; cases "fst r") (auto intro: contained_trans)

lemma contained_try:
  assumes "contained b s (snd r)" "\<And>x u. contained b u (snd (h x u))"
  shows "contained b s (snd (try_except r cs h))"
  using assms by (cases r; cases "fst r") (auto intro: contained_trans)

text \<open>An assignment to attributes the relation does not mention.\<close>

lemma contained_same:
  assumes "ws_staged t = ws_staged s" "ws_log t = ws_log s" "ws_side_effect t = ws_side_effect s"
    "ws_relay t = ws_relay s" "ws_update_at t = ws_update_at s"
  shows "contained b s t"
  using assms by (auto simp: contained_def)

lemma contained_same_then:
  assumes "contained b s' t"
    and "ws_staged s' = ws_staged s" "ws_log s' = ws_log s" "ws_side_effect s' = ws_side_effect s"
      "ws_relay s' = ws_relay s" "ws_update_at s' = ws_update_at s"
  shows "contained b s t"
  using contained_same [OF assms(2-6)] assms(1) by (rule contained_trans)

named_theorems contained_rules

lemma contained_finish [contained_rules]: "contained b s (snd (finish s))"
  by (simp add: finish_def)

lemma contained_publish [contained_rules]: "contained b s (snd (publish_field e f v s))"
  by (auto simp: contained_def publish_field_def finish_def split: option.splits)

lemma contained_publish_fields [contained_rules]: "contained b s (snd (publish_fields e fs s))"
  by (induction e fs s rule: publish_fields.induct) (auto intro!: contained_and_then contained_rules)

lemma contained_queue: "contained b s (queue_relay_command e on s)"
  by (auto simp: contained_def queue_relay_command_def worker_queue_relay_command_def)

lemma contained_worker [contained_rules]: "contained b s (update_worker_snapshot e f s)"
  by (rule contained_same) (simp_all add: update_worker_snapshot_def)

lemma contained_local [contained_rules]: "contained b s (snd (publish_local_pm_status_best_effort e on s))"
  unfolding publish_local_pm_status_best_effort_def
  by (rule contained_try) (auto intro!: contained_same simp: publish_local_pm_status_def finish_def update_worker_snapshot_def
      Let_def split: sum.splits)

lemma contained_hardware [contained_rules]:
  "contained b s (snd (charger_set_enabled e on s))" "contained b s (snd (charger_set_current e x s))"
  "contained b s (snd (apply_phase_selection e p s))"
  by (auto simp: contained_def charger_set_enabled_def charger_set_current_def apply_phase_selection_def raise_if_def
      log_write_def split: option.splits)

lemma contained_pair [contained_rules]: "contained b s (snd (r, s))"
  by simp

text \<open>A queued relay command, then assignments, then a contained step.\<close>

lemma contained_after_queue:
  assumes "\<And>u. contained b u (snd (g u))"
    and "ws_staged s' = ws_staged (queue_relay_command e on s)" "ws_log s' = ws_log (queue_relay_command e on s)"
      "ws_side_effect s' = ws_side_effect (queue_relay_command e on s)" "ws_relay s' = ws_relay (queue_relay_command e on s)"
      "ws_update_at s' = ws_update_at (queue_relay_command e on s)"
  shows "contained b s (snd (g s'))"
  using contained_trans [OF contained_queue contained_same_then [OF assms]] .

lemma contained_step_then:
  assumes "contained b s s'" "\<And>u. contained b u (snd (g u))"
  shows "contained b s (snd (g s'))"
  using assms by (meson contained_trans)

lemma contained_startstop_enable [contained_rules]: "contained b s (snd (publish_startstop_enable e auto s))"
  unfolding publish_startstop_enable_def by (intro contained_and_then contained_rules)

lemma contained_mode_paths [contained_rules]: "contained b s (snd (publish_mode_paths e auto s))"
  unfolding publish_mode_paths_def by (intro contained_and_then contained_rules)

lemma contained_phase_paths [contained_rules]:
  "contained b s (snd (publish_phase_selection_paths e s))" "contained b s (snd (publish_phase_lockout_paths e s))"
  "contained b s (snd (publish_contactor_lockout_paths e s))"
  unfolding publish_phase_selection_paths_def publish_phase_lockout_paths_def publish_contactor_lockout_paths_def Let_def
  by (rule contained_publish_fields)+

lemma contained_auto_disable [contained_rules]: "contained b s (snd (apply_auto_disable e s))"
  unfolding apply_auto_disable_def by (rule contained_after_queue [OF contained_local]) simp_all

lemma contained_cutover [contained_rules]: "contained b s (snd (queue_auto_cutover e s))"
  unfolding queue_auto_cutover_def by (rule contained_after_queue [OF contained_local]) simp_all

lemma contained_assign [contained_rules]:
  "contained b s (snd (finish (s\<lparr>ws_enable := i\<rparr>)))" "contained b s (snd (finish (s\<lparr>ws_override_until := w\<rparr>)))"
  "contained b s (snd (finish (s\<lparr>ws_side_effect := True\<rparr>)))"
  "contained b s (snd (finish (s\<lparr>ws_side_effect := True, ws_startstop := i, ws_enable := j, ws_override_until := w\<rparr>)))"
  by (auto simp: contained_def finish_def)

lemma contained_manual [contained_rules]: "contained b s (snd (apply_manual_enable_like_request e on s))"
proof (cases "we_enable_backend e")
  case True
  then show ?thesis
    unfolding apply_manual_enable_like_request_def Let_def
    by (auto intro!: contained_and_then contained_rules)
next
  case False
  have "contained b s (snd (publish_local_pm_status_best_effort e on
      (queue_relay_command e on s\<lparr>ws_startstop := flag, ws_enable := flag, ws_override_until := v\<rparr>)))" for flag v
    by (rule contained_after_queue [OF contained_local]) simp_all
  with False show ?thesis by (simp add: apply_manual_enable_like_request_def Let_def)
qed

lemma contained_to_auto [contained_rules]: "contained b s (snd (handle_mode_transition_to_auto e p s))"
proof -
  have "contained b s (snd (finish (activate_auto_without_cutover s\<lparr>ws_override_until := 0\<rparr>)))"
    by (auto simp: contained_def finish_def activate_auto_without_cutover_def)
  then show ?thesis
    unfolding handle_mode_transition_to_auto_def by (auto intro: contained_and_then contained_rules)
qed

lemma contained_to_manual [contained_rules]: "contained b s (snd (handle_mode_transition_to_manual e p s))"
  unfolding handle_mode_transition_to_manual_def Let_def by (auto intro: contained_rules)

lemma contained_mode [contained_rules]: "contained b s (snd (handle_mode_write e m s))"
proof -
  have "contained b u (snapshot_for_mode e auto (reset_auto_decision_state (u\<lparr>ws_mode := n\<rparr>)))"
    for u :: "'a write_svc" and auto n
    by (rule contained_same) (simp_all add: snapshot_for_mode_def update_worker_snapshot_def reset_auto_decision_state_def)
  then show ?thesis
    unfolding handle_mode_write_def Let_def
    by (intro contained_and_then) (auto intro: contained_rules contained_step_then [OF _ contained_mode_paths])
qed

lemma contained_autostart [contained_rules]: "contained b s (snd (handle_autostart_write e v s))"
  unfolding handle_autostart_write_def Let_def
  by (intro contained_and_then contained_rules contained_step_then [OF contained_same contained_publish]) simp_all

lemma contained_startstop [contained_rules]: "contained b s (snd (handle_startstop_write e on s))"
  unfolding handle_startstop_write_def by (auto intro: contained_and_then contained_rules)

lemma contained_enable [contained_rules]: "contained b s (snd (handle_enable_write e on s))"
  unfolding handle_enable_write_def by (intro contained_and_then) (auto intro: contained_rules)

lemma contained_publish_after [contained_rules]:
  "contained b s (snd (publish_field e f v (s\<lparr>ws_set_current := x\<rparr>)))" "contained b s (snd (publish_field e f v (s\<lparr>ws_max_current := x\<rparr>)))"
  "contained b s (snd (publish_field e f v (s\<lparr>ws_min_current := x\<rparr>)))"
  by (rule contained_step_then [OF contained_same contained_publish]; simp)+

lemma contained_current [contained_rules]: "contained b s (snd (handle_current_setting_write e target v s))"
proof -
  have key: "contained b u (snd (Inl KeyError, u\<lparr>ws_min_current := x\<rparr>))" for u :: "'a write_svc" and x
    by (rule contained_same) simp_all
  show ?thesis
    unfolding handle_current_setting_write_def Let_def
    by (intro contained_and_then contained_rules) (auto intro!: contained_and_then contained_rules key [simplified])
qed

lemma contained_raised [contained_rules]:
  "contained b s (snd (raise_if x (s\<lparr>ws_policy := p\<rparr>)))" "contained b s (snd (raise_if x (s\<lparr>ws_settings := a\<rparr>)))"
  by (rule contained_same; simp add: raise_if_def split: option.split)+

lemma contained_runtime [contained_rules]: "contained b s (snd (handle_auto_runtime_setting_write e target v s))"
proof -
  have policy: "contained b s (s\<lparr>ws_policy := p\<rparr>)" for p by (rule contained_same) simp_all
  have "contained b s (snd (apply_auto_runtime_setting e target v s))"
    unfolding apply_auto_runtime_setting_def Let_def
    by (auto intro!: contained_and_then contained_raised policy split: option.splits prod.splits sum.splits
        simp del: float_setting.simps)
  then show ?thesis
    unfolding handle_auto_runtime_setting_write_def by (intro contained_and_then contained_rules)
qed

lemma contained_phase_selection [contained_rules]: "contained b s (snd (handle_phase_selection_write e v s))"
proof -
  have queued: "contained b s (snd (publish_local_pm_status_best_effort e False
      (queue_relay_command e False (queue_phase_switch_state p t r s))))" for p t r
  proof -
    have "contained b s (queue_phase_switch_state p t r s)"
      by (rule contained_same) (simp_all add: queue_phase_switch_state_def update_phase_def)
    from contained_trans [OF this contained_queue] show ?thesis by (rule contained_step_then [OF _ contained_local])
  qed
  have applied: "contained b u (snd (publish_phase_selection_paths e (set_active_phase e a (set_requested_phase e a u))))"
    for u :: "'a write_svc" and a
    by (rule contained_step_then [OF contained_same contained_phase_paths(1)])
      (simp_all add: set_active_phase_def set_requested_phase_def update_phase_def)
  show ?thesis
    unfolding handle_phase_selection_write_def Let_def
    by (auto intro!: contained_and_then queued contained_rules applied)
qed

lemma contained_resets [contained_rules]:
  "contained b s (snd (handle_phase_lockout_reset_write e v s))" "contained b s (snd (handle_contactor_lockout_reset_write e v s))"
proof -
  have "contained b u (clear_phase_lockout_state u)" "contained b u (clear_contactor_lockout_state u)" for u :: "'a write_svc"
    by (rule contained_same; simp add: clear_phase_lockout_state_def update_phase_def clear_contactor_lockout_state_def)+
  then show "contained b s (snd (handle_phase_lockout_reset_write e v s))"
    "contained b s (snd (handle_contactor_lockout_reset_write e v s))"
    unfolding handle_phase_lockout_reset_write_def handle_contactor_lockout_reset_write_def
    by (auto intro!: contained_and_then contained_rules contained_step_then [OF _ contained_phase_paths(1)]
        contained_step_then [OF _ contained_phase_paths(3)])
qed

lemma contained_software: "contained False s (snd (handle_software_update_run_write e v s))"
proof -
  have "contained False u (u\<lparr>ws_update_at := t\<rparr>)" for u :: "'a write_svc" and t
    by (auto simp: contained_def)
  then show ?thesis
    unfolding handle_software_update_run_write_def
    by (auto intro!: contained_and_then contained_step_then [OF _ contained_publish])
qed

lemma contained_execute: "contained (cc_name c \<noteq> ''trigger_software_update'') s (snd (execute_command e c s))"
proof -
  have "contained (cc_name c \<noteq> ''trigger_software_update'') s (snd (h t v s))"
    if "handler_for e (cc_name c) = Some h" for h t v
    using that contained_software [of s e v]
    by (auto simp: handler_for_def handle_mode_value_write_def handle_startstop_value_write_def handle_enable_value_write_def
        split: if_splits intro!: contained_and_then contained_rules)
  then show ?thesis
    unfolding execute_command_def by (auto split: sum.splits option.splits)
qed

section \<open>A charger for the witnesses\<close>

definition idle_service :: "unit write_svc" where
  "idle_service = \<lparr>ws_mode = 0, ws_autostart = 1, ws_startstop = 0, ws_enable = 1, ws_set_current = 10, ws_min_current = 6,
     ws_max_current = 16, ws_override_until = 0, ws_start_since = None, ws_stop_since = None, ws_stop_reason = None,
     ws_samples = [(1, 2, 3)], ws_smooth_surplus = Some 4, ws_smooth_grid = None, ws_cutover = False, ws_ignore_offtime = False,
     ws_policy = (),
     ws_phase = \<lparr>pa_requested = ''P1'', pa_active = ''P1'', pa_supported = [''P1'', ''P1_P2_P3''], pa_pending = None, pa_state = None,
       pa_requested_at = None, pa_stable_until = None, pa_resume = False, pa_mismatch_active = False, pa_mismatch_counts = [],
       pa_mismatch_sel = None, pa_mismatch_at = None, pa_lock_sel = None, pa_lock_reason = '''', pa_lock_at = None, pa_lock_until = None\<rparr>,
     ws_contactor = \<lparr>ca_counts = [], ca_reason = None, ca_since = None, ca_lock_reason = '''', ca_lock_source = '''',
       ca_lock_at = None, ca_open_since = None, ca_welded_since = None\<rparr>,
     ws_relay = \<lparr>ra_pending = None, ra_requested_at = None, ra_expected = None, ra_sync_at = None, ra_deadline = None, ra_reported = False\<rparr>,
     ws_pm = \<lparr>pm_last = None, pm_last_at = None, pm_last_confirmed = False, pm_conf = None, pm_conf_at = None,
       pm_worker = \<lparr>wk_captured_at = None, wk_auto_mode = False, wk_pv = None, wk_soc = None, wk_grid = None,
         wk_pm_captured_at = None, wk_pm_status = None, wk_pm_confirmed = False\<rparr>\<rparr>,
     ws_settings = \<lparr>sa_start_delay = 60, sa_stop_delay = 60, sa_days = ''Mon'', sa_fallback_delay = 3600, sa_latest_end = ''06:30'',
       sa_night_current = 6, sa_backoff_base = 5, sa_backoff_max = 60\<rparr>,
     ws_update_at = None, ws_staged = None, ws_side_effect = False, ws_log = []\<rparr>"

definition plain_env :: "exc option \<Rightarrow> unit write_env" where
  "plain_env save = \<lparr>we_now = 100, we_override_seconds = 300, we_worker_poll = Some 1, we_sync_timeout = 2,
     we_current_backend = True, we_enable_backend = False, we_requires_pause = True,
     we_set_current = (\<lambda>_. None), we_set_enabled = (\<lambda>_. None), we_apply_phase = Inr, we_local_status = (\<lambda>_ on. Inr [(''output'', PBool on)]),
     we_policy_update = (\<lambda>_ v p. (Inr v, p)), we_validate = (\<lambda>_. None), we_save_state = (\<lambda>_. save), we_save_overrides = (\<lambda>_. None),
     we_publish = (\<lambda>_ _. Inr True), we_error_text = (\<lambda>_. '''')\<rparr>"

lemma idle_not_staged: "ws_staged idle_service = None"
  by (simp add: idle_service_def)

end
