(* ===== verification/Control_Write_Claims.thy ===== *)
theory Control_Write_Claims
  imports Control_Write_Props
begin

text \<open>
  The guarantees of the write transaction, and what its commands may do to the relay.
\<close>

section \<open>The stages of a transaction\<close>

fun published_effect :: "write_effect \<Rightarrow> bool" where
  "published_effect (Published _ _) = True"
| "published_effect _ = False"

lemma publish_staged_log:
  "publish_staged e ps s = (r, t) \<Longrightarrow> \<exists>pubs. t = s\<lparr>ws_log := ws_log s @ pubs\<rparr> \<and> list_all published_effect pubs"
proof (induction e ps s arbitrary: t rule: publish_staged.induct)
  case (1 e s)
  then show ?case by (intro exI [of _ "[]"]) (simp add: finish_def)
next
  case (2 e f v ps s)
  show ?case
  proof (cases "we_publish e f v = Inr True")
    case True
    with 2 obtain pubs where "t = log_write (Published f v) s\<lparr>ws_log := ws_log (log_write (Published f v) s) @ pubs\<rparr>"
      "list_all published_effect pubs" by auto
    then show ?thesis by (intro exI [of _ "Published f v # pubs"]) (simp add: log_write_def)
  next
    case False
    with "2.prems" have "t = s" by (auto split: sum.splits)
    then show ?thesis by (intro exI [of _ "[]"]) simp
  qed
qed

lemma commit_log:
  assumes "commit_publication_transaction e s = (r, t)"
  obtains pubs st where "t = s\<lparr>ws_log := ws_log s @ pubs, ws_staged := st\<rparr>" "list_all published_effect pubs"
proof (cases "ws_staged s")
  case None
  with assms show ?thesis by (intro that [where pubs = "[]" and st = "ws_staged s"]) (auto simp: commit_publication_transaction_def)
next
  case (Some ps)
  obtain r' u where u: "publish_staged e ps s = (r', u)" by (metis prod.collapse)
  from publish_staged_log [OF u] obtain pubs where pubs: "u = s\<lparr>ws_log := ws_log s @ pubs\<rparr>" "list_all published_effect pubs" by blast
  show ?thesis
    using assms Some u pubs by (intro that [where pubs = pubs and st = "ws_staged t"]) (cases r'; auto simp: commit_publication_transaction_def finish_def)+
qed

lemma commit_in_flight_log:
  assumes "commit_in_flight_publications e s = (r, t)"
  obtains pubs st where "t = s\<lparr>ws_log := ws_log s @ pubs, ws_staged := st\<rparr>" "list_all published_effect pubs"
proof -
  obtain r' u where u: "commit_publication_transaction e s = (r', u)" by (metis prod.collapse)
  from commit_log [OF u] obtain pubs st where "u = s\<lparr>ws_log := ws_log s @ pubs, ws_staged := st\<rparr>" "list_all published_effect pubs" .
  moreover have "t = u" using assms u by (cases r') (auto simp: commit_in_flight_publications_def finish_def split: if_splits)
  ultimately show ?thesis using that by blast
qed

text \<open>The state the handlers start from.\<close>

abbreviation opened :: "'p write_svc \<Rightarrow> 'p write_svc" where
  "opened s \<equiv> s\<lparr>ws_side_effect := False, ws_staged := Some []\<rparr>"

lemma save_state_cases:
  "save_runtime_state e s = (Inr (), log_write SavedState s) \<or> (\<exists>x. save_runtime_state e s = (Inl x, s))"
  "save_runtime_overrides e s = (Inr (), log_write SavedOverrides s) \<or> (\<exists>x. save_runtime_overrides e s = (Inl x, s))"
  by (auto simp: save_runtime_state_def save_runtime_overrides_def finish_def split: option.splits)

lemma command_body_opened:
  "ws_staged s = None \<Longrightarrow> command_body e c (s\<lparr>ws_side_effect := False\<rparr>)
    = and_then (execute_command e c (opened s)) (\<lambda>_ s. save_runtime_state e s)"
  by (simp add: command_body_def begin_publication_transaction_def finish_def)

lemma failed_stages:
  assumes "command_failed e c s p y v = (Inr r, t)"
  obtains "y \<in> set control_command_errors" "\<not> ws_side_effect v" "\<not> p" "res_status r = RejectedStatus"
      "t = s\<lparr>ws_update_at := ws_update_at v, ws_staged := None, ws_side_effect := ws_side_effect v, ws_log := ws_log v\<rparr>"
  | pubs st where "y \<in> set control_command_errors" "ws_side_effect v \<or> p" "res_status r = AcceptedInFlight"
      "t = v\<lparr>ws_log := ws_log v @ pubs, ws_staged := st\<rparr>" "list_all published_effect pubs"
proof (cases "ws_side_effect v \<or> p")
  case False
  with assms show ?thesis
    by (intro that(1)) (auto simp: command_failed_def write_failure_is_reversible_def rejected_result_def Let_def
        restore_all discard_publication_transaction_def split: if_splits)
next
  case True
  obtain z w where z: "commit_in_flight_publications e v = (z, w)" by (metis prod.collapse)
  from commit_in_flight_log [OF z] obtain pubs st where w: "w = v\<lparr>ws_log := ws_log v @ pubs, ws_staged := st\<rparr>"
    "list_all published_effect pubs" .
  from assms z True have "t = w" "res_status r = AcceptedInFlight" "y \<in> set control_command_errors"
    by (cases z; auto simp: command_failed_def write_failure_is_reversible_def accepted_in_flight_result_def Let_def split: if_splits)+
  with w True show ?thesis by (intro that(2)) auto
qed

text \<open>
  The run of a command that returns a result, as the stages it went through: the handler, the first save, the second
  save and the publication.
\<close>

lemma transaction_stages:
  assumes tr: "command_transaction e c s = (Inr r, t0)" and ex: "execute_command e c (opened s) = (x, u)"
    and idle: "ws_staged s = None"
  obtains y p saves pubs st where
      "command_failed e c s p y (u\<lparr>ws_log := ws_log u @ saves @ pubs, ws_staged := st\<rparr>) = (Inr r, t0)"
      "x = Inr () \<or> x = Inl y" "list_all published_effect pubs" "saves \<in> {[], [SavedState], [SavedState, SavedOverrides]}"
      "\<not> p \<Longrightarrow> saves = [] \<and> pubs = []"
  | pubs st where "t0 = u\<lparr>ws_log := ws_log u @ [SavedState, SavedOverrides] @ pubs, ws_staged := st\<rparr>" "x = Inr ()"
      "list_all published_effect pubs" "res_status r = Applied"
proof (cases x)
  case (Inl y)
  with ex tr idle show ?thesis
    by (intro that(1) [where p = False and saves = "[]" and pubs = "[]" and st = "ws_staged u" and y = y])
      (simp_all add: command_transaction_def command_body_opened)
next
  case (Inr y)
  let ?v = "log_write SavedState u"
  let ?w = "log_write SavedOverrides ?v"
  note run = command_transaction_def command_body_opened [OF idle] ex
  obtain z w where z: "commit_publication_transaction e ?w = (z, w)" by (metis prod.collapse)
  from commit_log [OF z] obtain pubs st where w: "w = ?w\<lparr>ws_log := ws_log ?w @ pubs, ws_staged := st\<rparr>"
    "list_all published_effect pubs" .
  consider y where "save_runtime_state e u = (Inl y, u)"
    | y where "save_runtime_state e u = (Inr (), ?v)" "save_runtime_overrides e ?v = (Inl y, ?v)"
    | "save_runtime_state e u = (Inr (), ?v)" "save_runtime_overrides e ?v = (Inr (), ?w)"
    using save_state_cases(1) [of e u] save_state_cases(2) [of e ?v] by blast
  then show ?thesis
  proof cases
    case (1 y)
    with tr Inr show ?thesis
      by (intro that(1) [where p = False and saves = "[]" and pubs = "[]" and st = "ws_staged u" and y = y]) (simp_all add: run)
  next
    case (2 y)
    with tr Inr show ?thesis
      by (intro that(1) [where p = True and saves = "[SavedState]" and pubs = "[]" and st = "ws_staged u" and y = y])
        (simp_all add: run log_write_def)
  next
    case 3
    show ?thesis
    proof (cases z)
      case (Inl y)
      with 3 z w tr \<open>x = Inr _\<close> show ?thesis
        by (intro that(1) [where p = True and saves = "[SavedState, SavedOverrides]" and pubs = pubs and st = st and y = y])
          (simp_all add: run log_write_def)
    next
      case (Inr y)
      with 3 z w tr \<open>x = Inr _\<close> show ?thesis
        by (intro that(2) [where pubs = pubs and st = st]) (auto simp: run log_write_def applied_result_def)
    qed
  qed
qed

lemma command_stages:
  assumes h: "handle_control_command e c s = (Inr r, t)" and idle: "ws_staged s = None"
  obtains x u saves pubs where
    "execute_command e c (opened s) = (x, u)" "x = Inr () \<or> (\<exists>y\<in>set control_command_errors. x = Inl y)"
    "list_all published_effect pubs" "saves \<in> {[], [SavedState], [SavedState, SavedOverrides]}"
    "if res_status r = RejectedStatus
     then \<not> ws_side_effect u \<and> saves = [] \<and> pubs = [] \<and>
       t = s\<lparr>ws_update_at := ws_update_at u, ws_side_effect := False, ws_log := ws_log u\<rparr>
     else t = u\<lparr>ws_staged := None, ws_side_effect := False, ws_log := ws_log u @ saves @ pubs\<rparr>
       \<and> (res_status r = Applied \<longrightarrow> x = Inr () \<and> saves = [SavedState, SavedOverrides])"
proof -
  obtain t0 where tr: "command_transaction e c s = (Inr r, t0)"
    and t: "t = discard_publication_transaction t0\<lparr>ws_side_effect := False\<rparr>"
    using h by (cases "command_transaction e c s") (auto simp: handle_control_command_def)
  obtain x u where ex: "execute_command e c (opened s) = (x, u)" by (metis prod.collapse)
  note t = t [unfolded discard_publication_transaction_def]
  from tr ex idle show thesis
  proof (cases rule: transaction_stages)
    case (1 y p saves pubs st)
    from 1(1) show thesis
    proof (cases rule: failed_stages)
      case 1
      with \<open>\<not> p \<Longrightarrow> _\<close> \<open>x = _ \<or> _\<close> t idle show thesis by (intro that [OF ex, where saves = "[]" and pubs = "[]"]) auto
    next
      case (2 pubs' st')
      with 1 t show thesis by (intro that [OF ex, where saves = saves and pubs = "pubs @ pubs'"]) auto
    qed
  next
    case (2 pubs st)
    with t show thesis by (intro that [OF ex, where saves = "[SavedState, SavedOverrides]" and pubs = pubs]) auto
  qed
qed

text \<open>What the handler leaves, seen from the idle service.\<close>

lemma executed_contained:
  assumes "execute_command e c (opened s) = (x, u)"
  obtains hw where "ws_log u = ws_log s @ hw" "list_all hardware_effect hw"
    "\<not> ws_side_effect u \<longrightarrow> ws_relay u = ws_relay s"
    "cc_name c \<noteq> ''trigger_software_update'' \<longrightarrow> ws_update_at u = ws_update_at s"
  using contained_execute [of c "opened s" e] assms by (auto simp: contained_def)

section \<open>Claims about the transaction\<close>

text \<open>
  Claim C7.  A rejected command leaves no trace: every attribute of the service is what it was, no relay command stays
  queued, nothing was saved and nothing was published; all that can have happened is a hardware call, and
  (for the update command only) the request for a software update.
\<close>

theorem rejected_command_leaves_no_trace:
  assumes "handle_control_command e c s = (Inr r, t)" "res_status r = RejectedStatus" "ws_staged s = None"
  shows "\<exists>hw. list_all hardware_effect hw \<and>
    t = s\<lparr>ws_log := ws_log s @ hw, ws_side_effect := False,
      ws_update_at := (if cc_name c = ''trigger_software_update'' then ws_update_at t else ws_update_at s)\<rparr>"
  using assms(1,3)
proof (cases rule: command_stages)
  case (1 x u saves pubs)
  from executed_contained [OF 1(1)] obtain hw where "ws_log u = ws_log s @ hw" "list_all hardware_effect hw"
    "cc_name c \<noteq> ''trigger_software_update'' \<longrightarrow> ws_update_at u = ws_update_at s" by blast
  with 1(5) assms(2) show ?thesis by (intro exI [of _ hw]) auto
qed

text \<open>
  What a result says is what happened, in this order: hardware calls, then the runtime state and the overrides
  saved, then publications.  An applied command did both saves before anything was published;
  a rejected one saved and published nothing; and the result carries the command it answers.
\<close>

theorem command_result_truthful:
  assumes "handle_control_command e c s = (Inr r, t)" "ws_staged s = None"
  shows "\<exists>hw saves pubs. ws_log t = ws_log s @ hw @ saves @ pubs
    \<and> list_all hardware_effect hw \<and> list_all published_effect pubs
    \<and> (case res_status r of
         Applied \<Rightarrow> saves = [SavedState, SavedOverrides]
       | RejectedStatus \<Rightarrow> saves = [] \<and> pubs = [] \<and> ws_relay t = ws_relay s
       | AcceptedInFlight \<Rightarrow> saves \<in> {[], [SavedState], [SavedState, SavedOverrides]})"
  using assms
proof (cases rule: command_stages)
  case (1 x u saves pubs)
  from executed_contained [OF 1(1)] obtain hw where hw: "ws_log u = ws_log s @ hw" "list_all hardware_effect hw"
    by blast
  show ?thesis
    using 1(3-5) hw by (intro exI [of _ hw] exI [of _ saves] exI [of _ pubs]) (auto split: command_status.split if_splits)
qed

theorem rejected_command_leaves_no_trace_witness:
  "let c = command_of ''set_auto_start'' ''auto_start'' (PInt 0) FromHttp;
       t = snd (handle_control_command (plain_env (Some OSError)) c idle_service)
   in \<exists>hw. list_all hardware_effect hw \<and>
    t = idle_service\<lparr>ws_log := ws_log idle_service @ hw, ws_side_effect := False,
      ws_update_at := (if cc_name c = ''trigger_software_update'' then ws_update_at t else ws_update_at idle_service)\<rparr>"
proof -
  let ?c = "command_of ''set_auto_start'' ''auto_start'' (PInt 0) FromHttp"
  let ?h = "handle_control_command (plain_env (Some OSError)) ?c idle_service"
  have "fst ?h = Inr (rejected_result ?c ''OSError'' True)" by code_simp
  then have "?h = (Inr (rejected_result ?c ''OSError'' True), snd ?h)" by (metis prod.collapse)
  from rejected_command_leaves_no_trace [OF this _ idle_not_staged] show ?thesis
    unfolding Let_def by (simp only: rejected_result_def control_result.select_convs)
qed

theorem command_result_truthful_witness:
  "let c = command_of ''set_mode'' ''mode'' (PInt 1) FromHttp;
       t = snd (handle_control_command (plain_env None) c idle_service)
   in \<exists>hw pubs. ws_log t = ws_log idle_service @ hw @ [SavedState, SavedOverrides] @ pubs"
proof -
  let ?c = "command_of ''set_mode'' ''mode'' (PInt 1) FromHttp"
  let ?h = "handle_control_command (plain_env None) ?c idle_service"
  have "fst ?h = Inr (applied_result ?c '''' True)" by code_simp
  then have "?h = (Inr (applied_result ?c '''' True), snd ?h)" by (metis prod.collapse)
  from command_result_truthful [OF this idle_not_staged] show ?thesis
    unfolding Let_def applied_result_def control_result.select_convs command_status.case by blast
qed

text \<open>
  A request for a software update survives its own rejection: when saving the runtime state fails, the command is
  answered as rejected, but the queued update request is not among the attributes the rollback restores, and the
  periodic loop will run it.
\<close>

theorem rejected_update_still_runs:
  assumes "we_save_state e = (\<lambda>_. Some x)" "x \<in> set control_command_errors" "ws_staged s = None"
    and "cc_name c = ''trigger_software_update''" "cc_target c = ''auto_software_update_run''" "cc_value c = PInt 1"
  shows "\<exists>r t. handle_control_command e c s = (Inr r, t) \<and> res_status r = RejectedStatus \<and> ws_update_at t = Some (we_now e)"
proof -
  have "validate_command_target write_control_api ''trigger_software_update'' ''auto_software_update_run'' = Inr ()"
    "validated_command_name ''trigger_software_update'' = Inr ''trigger_software_update''"
    by (simp_all add: validate_target_iff validated_command_name_def is_command_name_def known_targets_def binary_command_target_def)
  then have "execute_command e c (opened s)
      = (Inr (), opened s\<lparr>ws_update_at := Some (we_now e), ws_staged := Some [(''auto_software_update_run'', PInt 0)]\<rparr>)"
    using assms(4-6) by (simp add: execute_command_def handler_for_def handle_software_update_run_write_def publish_field_def finish_def)
  with assms(1-3) show ?thesis
    by (simp add: handle_control_command_def command_transaction_def command_body_opened save_runtime_state_def
        command_failed_def write_failure_is_reversible_def rejected_result_def Let_def restore_all discard_publication_transaction_def)
qed

theorem rejected_update_still_runs_witness:
  "\<exists>r t. handle_control_command (plain_env (Some OSError))
      (command_of ''trigger_software_update'' ''auto_software_update_run'' (PInt 1) FromHttp) idle_service = (Inr r, t)
    \<and> res_status r = RejectedStatus \<and> ws_update_at t = Some 100"
  using rejected_update_still_runs [of "plain_env (Some OSError)" OSError idle_service
      "command_of ''trigger_software_update'' ''auto_software_update_run'' (PInt 1) FromHttp"]
  by (simp add: plain_env_def idle_service_def command_of_def control_command_errors_def)

section \<open>Claims about the hardware\<close>

lemma publish_fields_staged:
  "ws_staged s \<noteq> None \<Longrightarrow> publish_fields e fs s = (Inr (), s\<lparr>ws_staged := Some (the (ws_staged s) @ fs)\<rparr>)"
  by (induction e fs s rule: publish_fields.induct) (auto simp: finish_def publish_field_def)

lemma port_views [simp]:
  "port_supported now (s\<lparr>ws_staged := st\<rparr>) = port_supported now s" "port_supported now (s\<lparr>ws_side_effect := b\<rparr>) = port_supported now s"
  "port_supported now (s\<lparr>ws_log := l\<rparr>) = port_supported now s"
  "port_relay_may_be_on e (s\<lparr>ws_staged := st\<rparr>) = port_relay_may_be_on e s"
  "port_relay_may_be_on e (s\<lparr>ws_side_effect := b\<rparr>) = port_relay_may_be_on e s"
  by (simp_all add: port_supported_def port_relay_may_be_on_def)

lemma command_accepted:
  assumes "cc_name c \<in> set control_command_names" "cc_target c \<in> set (known_targets write_control_api (cc_name c))"
  shows "execute_command e c s
    = (case handler_for e (cc_name c) of None \<Rightarrow> (Inl KeyError, s) | Some h \<Rightarrow> h (cc_target c) (cc_value c) s)"
  using assms validate_target_iff [OF assms(1), of write_control_api "cc_target c"]
  by (simp add: execute_command_def validated_command_name_def is_command_name_def del: control_tables)

text \<open>
  A phase layout the hardware has already switched to is rolled back in memory only: when the switch succeeds at
  once and the save after it fails, the command counts as reversible, is answered as rejected and
  the service believes in the old layout again.  (Relay and charger calls are marked as irreversible, the phase switch is not.)
\<close>

theorem rejected_phase_switch_is_applied:
  assumes "cc_name c = ''set_phase_selection''" "cc_target c = ''phase_selection''" "cc_value c = PStr (phase_text p)"
    and "p \<in> set (port_supported (we_now e) s)" "\<not> we_requires_pause e" "we_apply_phase e (phase_text p) = Inr a"
    and "we_save_state e = (\<lambda>_. Some x)" "x \<in> set control_command_errors" "ws_staged s = None"
  shows "\<exists>r t. handle_control_command e c s = (Inr r, t) \<and> res_status r = RejectedStatus
    \<and> ws_log t = ws_log s @ [ApplyPhase (phase_text p)] \<and> ws_phase t = ws_phase s"
proof -
  let ?h = "handle_phase_selection_write e (PStr (phase_text p)) (opened s)"
  have "execute_command e c (opened s) = ?h"
    using assms(1-3) command_accepted [of c e] by (simp add: known_targets_def handler_for_def)
  moreover have "fst ?h = Inr ()" "ws_log (snd ?h) = ws_log s @ [ApplyPhase (phase_text p)]" "\<not> ws_side_effect (snd ?h)"
    "ws_update_at (snd ?h) = ws_update_at s"
    using assms(4-6)
    by (simp_all add: handle_phase_selection_write_def Let_def py_text_or_none_def apply_phase_selection_def log_write_def
        publish_phase_selection_paths_def publish_fields_staged set_active_phase_def set_requested_phase_def update_phase_def
        del: publish_fields.simps)
  ultimately obtain u where "execute_command e c (opened s) = (Inr (), u)" "ws_log u = ws_log s @ [ApplyPhase (phase_text p)]"
    "\<not> ws_side_effect u" "ws_update_at u = ws_update_at s"
    by (metis prod.collapse)
  with assms(7-9) show ?thesis
    by (simp add: handle_control_command_def command_transaction_def command_body_opened save_runtime_state_def
        command_failed_def write_failure_is_reversible_def rejected_result_def Let_def restore_all discard_publication_transaction_def)
qed

theorem rejected_phase_switch_is_applied_witness:
  "let e = plain_env (Some OSError)\<lparr>we_requires_pause := False\<rparr> in
    \<exists>r t. handle_control_command e (command_of ''set_phase_selection'' ''phase_selection'' (PStr ''P1_P2_P3'') FromHttp) idle_service = (Inr r, t)
    \<and> res_status r = RejectedStatus \<and> ws_log t = [ApplyPhase ''P1_P2_P3''] \<and> ws_phase t = ws_phase idle_service"
proof -
  let ?e = "plain_env (Some OSError)\<lparr>we_requires_pause := False\<rparr>"
  have "P1_P2_P3 \<in> set (port_supported (we_now ?e) idle_service)" by code_simp
  then show ?thesis
    unfolding Let_def
    using rejected_phase_switch_is_applied [of "command_of ''set_phase_selection'' ''phase_selection'' (PStr ''P1_P2_P3'') FromHttp"
        P1_P2_P3 ?e idle_service "''P1_P2_P3''" OSError]
    by (simp add: command_of_def plain_env_def idle_service_def control_command_errors_def)
qed

text \<open>Steps that never ask for charging: no charger enable, and the relay command stays or becomes off.\<close>

definition never_on :: "'p write_svc \<Rightarrow> 'p write_svc \<Rightarrow> bool" where
  "never_on s t \<longleftrightarrow> (\<exists>new. ws_log t = ws_log s @ new \<and> (\<forall>on. SetEnabled on \<notin> set new))
    \<and> (ws_relay t = ws_relay s \<or> ra_pending (ws_relay t) = Some False) \<and> ws_mode t = ws_mode s"

lemma never_on_trans: "never_on s t \<Longrightarrow> never_on t u \<Longrightarrow> never_on s u"
  by (fastforce simp: never_on_def)

lemma never_on_same:
  "ws_log t = ws_log s \<Longrightarrow> ws_relay t = ws_relay s \<Longrightarrow> ws_mode t = ws_mode s \<Longrightarrow> never_on s t"
  by (auto simp: never_on_def)

lemma never_on_publish: "never_on s (snd (publish_field e f v s))"
  by (auto simp: never_on_def publish_field_def finish_def log_write_def split: option.splits sum.splits)

lemma never_on_and_then:
  "never_on s (snd r) \<Longrightarrow> (\<And>a u. r = (Inr a, u) \<Longrightarrow> never_on u (snd (f a u))) \<Longrightarrow> never_on s (snd (and_then r f))"
  by (cases r; cases "fst r") (auto intro: never_on_trans)

lemma never_on_startstop_enable: "never_on s (snd (publish_startstop_enable e auto s))"
  unfolding publish_startstop_enable_def by (intro never_on_and_then never_on_publish)

lemma local_status_frame:
  "ws_log (snd (publish_local_pm_status_best_effort e on s)) = ws_log s"
  "ws_relay (snd (publish_local_pm_status_best_effort e on s)) = ws_relay s"
  "ws_mode (snd (publish_local_pm_status_best_effort e on s)) = ws_mode s"
  "ws_cutover (snd (publish_local_pm_status_best_effort e on s)) = ws_cutover s"
  by (auto simp: publish_local_pm_status_best_effort_def publish_local_pm_status_def finish_def update_worker_snapshot_def Let_def
      split: sum.splits)

lemma never_on_disable: "never_on s (snd (apply_auto_disable e s))"
  by (simp add: never_on_def apply_auto_disable_def local_status_frame queue_relay_command_def worker_queue_relay_command_def)

lemma never_on_auto:
  assumes "mode_uses_auto_logic (max 0 (ws_mode s))"
  shows "never_on s (snd (handle_startstop_write e on s))" "never_on s (snd (handle_enable_write e on s))"
proof -
  have "never_on s (s\<lparr>ws_enable := 1\<rparr>)" by (rule never_on_same) simp_all
  from never_on_trans [OF this never_on_startstop_enable]
  show "never_on s (snd (handle_startstop_write e on s))" "never_on s (snd (handle_enable_write e on s))"
    using assms unfolding handle_startstop_write_def handle_enable_write_def
    by (auto intro!: never_on_and_then never_on_disable never_on_startstop_enable simp: finish_def)
qed

text \<open>
  Claim C8.  In the Auto modes the start/stop and enable commands are permissions only: whatever their value, outcome and
  failures, they never enable the charger and never queue the relay on; the relay command stays what it was
  or becomes off.
\<close>

theorem auto_permission_never_switches_on:
  assumes "cc_name c = ''set_start_stop'' \<or> cc_name c = ''set_enable''" "mode_uses_auto_logic (max 0 (ws_mode s))"
    and "handle_control_command e c s = (Inr r, t)" "ws_staged s = None"
  shows "(\<exists>new. ws_log t = ws_log s @ new \<and> (\<forall>on. SetEnabled on \<notin> set new))
    \<and> (ws_relay t = ws_relay s \<or> ra_pending (ws_relay t) = Some False)"
  using assms(3,4)
proof (cases rule: command_stages)
  case (1 x u saves pubs)
  have "never_on (opened s) (snd (execute_command e c (opened s)))"
    using assms(1,2) never_on_auto [of "opened s" e] never_on_same [of "opened s" "opened s"]
    by (cases "py_int (cc_value c)")
      (auto simp: execute_command_def handler_for_def handle_startstop_value_write_def handle_enable_value_write_def split: sum.splits)
  then have u: "never_on (opened s) u" using 1(1) by simp
  have "SetEnabled on \<notin> set (saves @ pubs)" for on
    using 1(3,4) by (auto simp: list_all_iff)
  with u 1(5) show ?thesis by (auto simp: never_on_def split: if_splits)
qed

theorem auto_permission_never_switches_on_witness:
  "let s = idle_service\<lparr>ws_mode := 1\<rparr>;
       t = snd (handle_control_command (plain_env None) (command_of ''set_enable'' ''enable'' (PBool False) FromHttp) s)
   in ra_pending (ws_relay t) = Some False \<and> (ws_relay t = ws_relay s \<or> ra_pending (ws_relay t) = Some False)"
proof -
  let ?s = "idle_service\<lparr>ws_mode := 1\<rparr>" and ?c = "command_of ''set_enable'' ''enable'' (PBool False) FromHttp"
  let ?h = "handle_control_command (plain_env None) ?c ?s"
  have "fst ?h = Inr (applied_result ?c '''' True)" "ra_pending (ws_relay (snd ?h)) = Some False" by code_simp+
  then have h: "?h = (Inr (applied_result ?c '''' True), snd ?h)" "ra_pending (ws_relay (snd ?h)) = Some False"
    by (metis prod.collapse)+
  from auto_permission_never_switches_on [OF _ _ h(1)] h(2) show ?thesis
    by (simp add: command_of_def idle_service_def mode_uses_auto_logic_def normalize_mode_def Let_def)
qed

text \<open>A relay status sampled no more than two seconds ago (and not from the future) that says off.\<close>

definition off_sample :: "secs \<Rightarrow> pm_status option \<Rightarrow> pyfloat option \<Rightarrow> bool" where
  "off_sample now status captured_at \<longleftrightarrow>
    (\<exists>m t v. status = Some m \<and> captured_at = Some (Fin t) \<and> now - 2 \<le> t \<and> t \<le> now + 1
      \<and> map_of m ''output'' = Some v \<and> normalized_binary_value v = Some False)"

lemma fresh_output_off:
  assumes "fresh_output confirmed status captured_at now (relay_status_freshness_seconds p t) = Some False"
  shows "confirmed \<and> off_sample now status captured_at"
proof -
  from assms obtain m t' v where "confirmed" "status = Some m" "captured_at = Some (Fin t')"
    "now - relay_status_freshness_seconds p t \<le> t'" "t' \<le> now + 1" "map_of m ''output'' = Some v" "normalized_binary_value v = Some False"
    by (rule fresh_output_some)
  then show ?thesis
    using freshness_bounds(2) [of p t] unfolding off_sample_def by fastforce
qed

definition confirmed_off :: "'p write_env \<Rightarrow> 'p write_svc \<Rightarrow> bool" where
  "confirmed_off e s \<longleftrightarrow> ra_pending (ws_relay s) \<noteq> Some True \<and>
    (off_sample (we_now e) (pm_conf (ws_pm s)) (pm_conf_at (ws_pm s))
     \<or> (let w = normalized_worker_snapshot (pm_worker (ws_pm s)) (Some (we_now e)) 1 False
        in wk_pm_confirmed (pm_worker (ws_pm s)) \<and> off_sample (we_now e) (wk_pm_status w) (wk_pm_captured_at w)))"

lemma relay_known_off: "\<not> port_relay_may_be_on e s \<Longrightarrow> confirmed_off e s"
  using normalized_snapshot_pm(1) [of "pm_worker (ws_pm s)" "Some (we_now e)" 1 False]
  by (auto simp: port_relay_may_be_on_def relay_may_be_on_for_cutover_def port_fresh_confirmed_output_def
      fresh_snapshot_output_def fresh_last_output_def pending_relay_state_on_def confirmed_off_def Let_def
      dest!: fresh_output_off split: if_splits option.splits)

lemma publish_field_staged:
  "ws_staged s \<noteq> None \<Longrightarrow> publish_field e f v s = (Inr (), s\<lparr>ws_staged := Some (the (ws_staged s) @ [(f, v)])\<rparr>)"
  by (auto simp: publish_field_def finish_def)

lemma mode_paths_staged:
  assumes "ws_staged s \<noteq> None"
  obtains st where "publish_mode_paths e auto s = (Inr (), s\<lparr>ws_staged := Some st\<rparr>)"
  using assms by (simp add: publish_mode_paths_def publish_startstop_enable_def publish_field_staged)

text \<open>The transition leaves one of two safe relay states; only an unexpected exception can stop it.\<close>

lemma transition_to_auto:
  assumes "handle_mode_transition_to_auto e p s = (x, v)" "\<not> mode_uses_auto_logic p"
  shows "(x = Inr () \<or> (\<exists>y. x = Inl y \<and> y \<notin> set control_command_errors))
    \<and> (x = Inr () \<longrightarrow> ws_cutover v \<and> ra_pending (ws_relay v) = Some False
      \<or> \<not> ws_cutover v \<and> ws_relay v = ws_relay s \<and> \<not> port_relay_may_be_on e s)"
proof (cases "port_relay_may_be_on e s")
  case True
  let ?q = "queue_relay_command e False s\<lparr>ws_enable := 1, ws_startstop := 0, ws_cutover := True, ws_ignore_offtime := False\<rparr>"
  obtain z w where w: "publish_local_pm_status_best_effort e False ?q = (z, w)" by (metis prod.collapse)
  have frame: "ws_cutover w" "ra_pending (ws_relay w) = Some False"
    using local_status_frame [of e False ?q] w by (simp_all add: queue_relay_command_def worker_queue_relay_command_def)
  have "z = Inr () \<or> (\<exists>y. z = Inl y \<and> y \<notin> set control_command_errors)"
    using w by (cases z) (auto simp: publish_local_pm_status_best_effort_def try_except_def finish_def split: prod.splits sum.splits if_splits)
  with frame w assms True show ?thesis
    by (auto simp: handle_mode_transition_to_auto_def queue_auto_cutover_def finish_def)
next
  case False
  with assms show ?thesis
    by (auto simp: handle_mode_transition_to_auto_def activate_auto_without_cutover_def finish_def)
qed

lemma mode_write_to_auto:
  assumes "m = 1 \<or> m = 2" "\<not> mode_uses_auto_logic (max 0 (ws_mode s))" "ws_staged s \<noteq> None"
    and "handle_mode_write e m s = (x, u)" "x = Inr () \<or> (\<exists>y\<in>set control_command_errors. x = Inl y)"
  shows "ws_mode u = m \<and> (ws_cutover u \<and> ra_pending (ws_relay u) = Some False
    \<or> \<not> ws_cutover u \<and> ws_relay u = ws_relay s \<and> \<not> port_relay_may_be_on e s)"
proof -
  have auto: "normalize_mode m = m" "mode_uses_auto_logic m"
    using assms(1) by (auto simp: normalize_mode_def mode_uses_auto_logic_def)
  obtain x' v where v: "handle_mode_transition_to_auto e (max 0 (ws_mode s)) s = (x', v)" by (metis prod.collapse)
  note safe = transition_to_auto [OF v assms(2)]
  have "contained True s v" using contained_to_auto [of True s e] v by (metis snd_conv)
  then have staged: "ws_staged v \<noteq> None" using assms(3) by (simp add: contained_def)
  let ?w = "snapshot_for_mode e True (reset_auto_decision_state (v\<lparr>ws_mode := m\<rparr>))"
  from staged have "ws_staged ?w \<noteq> None"
    by (simp add: snapshot_for_mode_def update_worker_snapshot_def reset_auto_decision_state_def)
  then obtain st where "publish_mode_paths e True ?w = (Inr (), ?w\<lparr>ws_staged := Some st\<rparr>)" by (rule mode_paths_staged)
  then have "handle_mode_write e m s = (case x' of Inl y \<Rightarrow> (Inl y, v) | Inr _ \<Rightarrow> (Inr (), ?w\<lparr>ws_staged := Some st\<rparr>))"
    using auto v by (simp add: handle_mode_write_def Let_def split: sum.split)
  with assms(4,5) safe have "x' = Inr ()" "u = ?w\<lparr>ws_staged := Some st\<rparr>" by (auto split: sum.splits)
  with safe show ?thesis
    by (simp add: snapshot_for_mode_def update_worker_snapshot_def reset_auto_decision_state_def)
qed

text \<open>
  Auto never takes over a relay it does not know to be off: after a mode command from manual to an Auto mode that
  was not rejected, either a relay-off is queued with the cutover pending, or no relay-on was pending and a
  confirmed sample at most two seconds old says the relay is off.
\<close>

theorem auto_takes_over_relay_off:
  assumes "handle_control_command e c s = (Inr r, t)" "res_status r \<noteq> RejectedStatus" "ws_staged s = None"
    and "cc_name c = ''set_mode''" "cc_target c = ''mode''" "cc_value c = PInt m" "m = 1 \<or> m = 2"
    and "\<not> mode_uses_auto_logic (max 0 (ws_mode s))"
  shows "ws_mode t = m \<and> (ws_cutover t \<and> ra_pending (ws_relay t) = Some False
    \<or> \<not> ws_cutover t \<and> ws_relay t = ws_relay s \<and> confirmed_off e s)"
  using assms(1,3)
proof (cases rule: command_stages)
  case (1 x u saves pubs)
  have "execute_command e c (opened s) = handle_mode_write e m (opened s)"
    using assms(4-6) command_accepted [of c e] by (simp add: known_targets_def handler_for_def handle_mode_value_write_def)
  with 1(1) have "handle_mode_write e m (opened s) = (x, u)" by simp
  from mode_write_to_auto [OF assms(7) _ _ this 1(2)] assms(8)
  have "ws_mode u = m \<and> (ws_cutover u \<and> ra_pending (ws_relay u) = Some False
      \<or> \<not> ws_cutover u \<and> ws_relay u = ws_relay s \<and> \<not> port_relay_may_be_on e s)" by simp
  with 1(5) assms(2) relay_known_off show ?thesis by auto
qed

theorem auto_takes_over_relay_off_witness:
  "let t = snd (handle_control_command (plain_env None) (command_of ''set_mode'' ''mode'' (PInt 2) FromHttp) idle_service)
   in ws_mode t = 2 \<and> (ws_cutover t \<and> ra_pending (ws_relay t) = Some False
    \<or> \<not> ws_cutover t \<and> ws_relay t = ws_relay idle_service \<and> confirmed_off (plain_env None) idle_service)"
proof -
  let ?c = "command_of ''set_mode'' ''mode'' (PInt 2) FromHttp"
  let ?h = "handle_control_command (plain_env None) ?c idle_service"
  have "fst ?h = Inr (applied_result ?c '''' True)" by code_simp
  then have "?h = (Inr (applied_result ?c '''' True), snd ?h)" by (metis prod.collapse)
  from auto_takes_over_relay_off [OF this] show ?thesis
    by (simp add: applied_result_def command_of_def idle_not_staged Let_def)
      (simp add: idle_service_def mode_uses_auto_logic_def normalize_mode_def)
qed

end
