(* ===== verification/Control_Auth.thy ===== *)
theory Control_Auth
  imports Control_Command
begin

text \<open>
  Who may do what over the Control API (\<open>control/http_api_auth.py\<close>): the bearer tokens and their scopes, the locality
  rule and the optimistic-concurrency tokens.  A request's header that is absent is \<open>None\<close>; header texts are Latin-1,
  as the HTTP server decodes them.  \<open>ipaddress\<close> is the parameter \<open>loopback\<close>.
\<close>

datatype scope = Read | ControlBasic | ControlAdmin | UpdateAdmin

definition scope_order :: "scope \<Rightarrow> nat" where
  "scope_order s = (case s of Read \<Rightarrow> 0 | ControlBasic \<Rightarrow> 1 | ControlAdmin \<Rightarrow> 2 | UpdateAdmin \<Rightarrow> 3)"

instantiation scope :: linorder
begin

definition less_eq_scope :: "scope \<Rightarrow> scope \<Rightarrow> bool" where
  "less_eq_scope a b \<longleftrightarrow> scope_order a \<le> scope_order b"

definition less_scope :: "scope \<Rightarrow> scope \<Rightarrow> bool" where
  "less_scope a b \<longleftrightarrow> scope_order a < scope_order b"

instance
  by standard (auto simp: less_eq_scope_def less_scope_def scope_order_def split: scope.splits)

end

definition command_scope_requirements :: "(string \<times> scope) list" where
  "command_scope_requirements =
    [(''reset_contactor_lockout'', ControlAdmin), (''reset_phase_lockout'', ControlAdmin),
     (''set_auto_runtime_setting'', ControlAdmin), (''set_auto_start'', ControlBasic),
     (''set_current_setting'', ControlBasic), (''set_enable'', ControlBasic), (''set_mode'', ControlBasic),
     (''set_phase_selection'', ControlBasic), (''set_start_stop'', ControlBasic),
     (''trigger_software_update'', UpdateAdmin)]"

record auth_config =
  ac_auth :: string
  ac_read :: string
  ac_control :: string
  ac_admin :: string
  ac_update :: string
  ac_localhost_only :: bool
  ac_unix_socket :: string

section \<open>Tokens\<close>

definition first_configured_token :: "string list \<Rightarrow> string" where
  "first_configured_token tokens = (case filter (\<lambda>t. t \<noteq> '''') tokens of [] \<Rightarrow> '''' | t # _ \<Rightarrow> t)"

definition effective_read_token :: "auth_config \<Rightarrow> string" where
  "effective_read_token c = first_configured_token [ac_read c, ac_control c, ac_admin c, ac_update c, ac_auth c]"

definition effective_control_token :: "auth_config \<Rightarrow> string" where
  "effective_control_token c = first_configured_token [ac_control c, ac_auth c]"

definition effective_admin_token :: "auth_config \<Rightarrow> string" where
  "effective_admin_token c = first_configured_token [ac_admin c, ac_control c, ac_auth c]"

definition effective_update_token :: "auth_config \<Rightarrow> string" where
  "effective_update_token c = first_configured_token [ac_update c, ac_admin c, ac_control c, ac_auth c]"

definition scope_tokens :: "auth_config \<Rightarrow> (scope \<times> string) list" where
  "scope_tokens c = [(UpdateAdmin, effective_update_token c), (ControlAdmin, effective_admin_token c),
     (ControlBasic, effective_control_token c), (Read, effective_read_token c)]"

definition has_configured_token :: "auth_config \<Rightarrow> bool" where
  "has_configured_token c \<longleftrightarrow> (\<exists>p\<in>set (scope_tokens c). snd p \<noteq> '''')"

text \<open>\<open>secrets.compare_digest\<close> on two texts raises \<open>TypeError\<close> unless both are ASCII.\<close>

definition ascii :: "string \<Rightarrow> bool" where
  "ascii s \<longleftrightarrow> (\<forall>c\<in>set s. (of_char c :: nat) < 128)"

definition compare_digest :: "string \<Rightarrow> string \<Rightarrow> exc + bool" where
  "compare_digest a b = (if ascii a \<and> ascii b then Inr (a = b) else Inl TypeErr)"

definition matches_bearer_token :: "string \<Rightarrow> string \<Rightarrow> exc + bool" where
  "matches_bearer_token header token =
    (if token = '''' then Inr False else compare_digest header (''Bearer '' @ token))"

fun first_matching_scope :: "string \<Rightarrow> (scope \<times> string) list \<Rightarrow> exc + scope option" where
  "first_matching_scope header [] = Inr None"
| "first_matching_scope header ((name, token) # rest) =
    bind_result (matches_bearer_token header token) (\<lambda>m. if m then Inr (Some name) else first_matching_scope header rest)"

definition scope_for_header :: "string option \<Rightarrow> (scope \<times> string) list \<Rightarrow> exc + scope option" where
  "scope_for_header header tokens =
    (case header of None \<Rightarrow> Inr None
     | Some h \<Rightarrow> if h = '''' then Inr None else first_matching_scope (py_strip h) tokens)"

definition authorization_scope :: "auth_config \<Rightarrow> string option \<Rightarrow> exc + scope option" where
  "authorization_scope c header =
    (if \<not> has_configured_token c then Inr (Some UpdateAdmin) else scope_for_header header (scope_tokens c))"

section \<open>Access errors\<close>

text \<open>An access error is its HTTP status, code and message.\<close>

type_synonym access_error = "int \<times> string \<times> string"

definition locality_forbidden :: access_error where
  "locality_forbidden = (403, ''forbidden_remote_client'', ''Remote clients are not allowed for this API.'')"

definition unauthorized_error :: access_error where
  "unauthorized_error = (401, ''unauthorized'', ''Unauthorized.'')"

definition insufficient_scope_error :: access_error where
  "insufficient_scope_error = (403, ''insufficient_scope'',
    ''The supplied token does not grant the required scope for this endpoint.'')"

definition is_loopback_host :: "(string \<Rightarrow> bool) \<Rightarrow> string \<Rightarrow> bool" where
  "is_loopback_host loopback host \<longleftrightarrow> host = ''localhost'' \<or> loopback host"

definition client_host :: "string option \<Rightarrow> string" where
  "client_host address = (case address of Some host \<Rightarrow> host | None \<Rightarrow> ''127.0.0.1'')"

definition locality_error :: "(string \<Rightarrow> bool) \<Rightarrow> auth_config \<Rightarrow> string option \<Rightarrow> access_error option" where
  "locality_error loopback c address =
    (if \<not> ac_localhost_only c \<or> ac_unix_socket c \<noteq> '''' then None
     else if is_loopback_host loopback (client_host address) then None else Some locality_forbidden)"

definition scope_satisfies_requirement :: "scope option \<Rightarrow> scope \<Rightarrow> bool" where
  "scope_satisfies_requirement s required =
    (case s of None \<Rightarrow> False | Some sc \<Rightarrow> scope_order required \<le> scope_order sc)"

definition auth_error :: "auth_config \<Rightarrow> string option \<Rightarrow> scope \<Rightarrow> exc + access_error option" where
  "auth_error c header required =
    bind_result (authorization_scope c header) (\<lambda>s.
      Inr (if scope_satisfies_requirement s required then None
           else if s \<noteq> None \<and> required \<noteq> Read then Some insufficient_scope_error
           else Some unauthorized_error))"

definition required_scope_for_command :: "(string \<times> pyval) list \<Rightarrow> scope" where
  "required_scope_for_command payload =
    (case map_of command_scope_requirements (payload_str payload ''name'') of Some s \<Rightarrow> s | None \<Rightarrow> ControlAdmin)"

definition command_auth_error :: "auth_config \<Rightarrow> string option \<Rightarrow> (string \<times> pyval) list \<Rightarrow> exc + access_error option" where
  "command_auth_error c header payload = auth_error c header (required_scope_for_command payload)"

definition command_transport_auth_error :: "auth_config \<Rightarrow> string option \<Rightarrow> exc + access_error option" where
  "command_transport_auth_error c header = auth_error c header ControlBasic"

section \<open>Optimistic concurrency\<close>

definition normalized_token :: "string \<Rightarrow> string" where
  "normalized_token raw =
    (let t0 = py_strip raw;
         t1 = (if take 2 t0 = ''W/'' then py_strip (drop 2 t0) else t0);
         quote = char_of (34::nat)
     in if 2 \<le> length t1 \<and> hd t1 = quote \<and> last t1 = quote then py_strip (butlast (tl t1)) else t1)"

definition request_state_tokens :: "string \<Rightarrow> string \<Rightarrow> string set" where
  "request_state_tokens if_match state_header =
    set (filter (\<lambda>t. t \<noteq> []) (concat (map (\<lambda>raw. if raw = [] then [] else map normalized_token (split_at (CHR '','') raw))
      [py_strip if_match, py_strip state_header])))"

definition state_conflict :: "string \<Rightarrow> string \<Rightarrow> string \<Rightarrow> bool" where
  "state_conflict if_match state_header current \<longleftrightarrow>
    (let expected = request_state_tokens if_match state_header
     in expected \<noteq> {} \<and> ''*'' \<notin> expected \<and> current \<notin> expected)"

section \<open>Transport security\<close>

definition is_loopback_bind_host :: "(string \<Rightarrow> bool) \<Rightarrow> string \<Rightarrow> bool" where
  "is_loopback_bind_host loopback host =
    (let normalized = py_lower (py_strip host) in normalized = ''localhost'' \<or> loopback normalized)"

definition validate_transport_security :: "(string \<Rightarrow> bool) \<Rightarrow> auth_config \<Rightarrow> string \<Rightarrow> exc + unit" where
  "validate_transport_security loopback c host =
    (if ac_unix_socket c \<noteq> '''' \<or> is_loopback_bind_host loopback host then Inr ()
     else if has_configured_token c then Inr () else Inl ValueErr)"

section \<open>Who gets which scope\<close>

text \<open>The header that presents a token.\<close>

definition bearer :: "string \<Rightarrow> string \<Rightarrow> bool" where
  "bearer header token \<longleftrightarrow> token \<noteq> '''' \<and> py_strip header = ''Bearer '' @ token"

lemma first_matching_scope_iff:
  assumes "ascii header" "\<forall>p\<in>set tokens. ascii (snd p)"
  shows "first_matching_scope header tokens
    = Inr (map_option fst (List.find (\<lambda>p. snd p \<noteq> '''' \<and> header = ''Bearer '' @ snd p) tokens))"
  using assms(2)
proof (induction tokens)
  case (Cons p ps)
  obtain name token where p: "p = (name, token)" by (cases p)
  have "ascii (''Bearer '' @ token)" using Cons.prems by (auto simp: ascii_def p)
  with Cons assms(1) show ?case by (auto simp: p matches_bearer_token_def compare_digest_def)
qed simp

definition ascii_config :: "auth_config \<Rightarrow> bool" where
  "ascii_config c \<longleftrightarrow> ascii (ac_auth c) \<and> ascii (ac_read c) \<and> ascii (ac_control c) \<and> ascii (ac_admin c) \<and> ascii (ac_update c)"

lemma ascii_first_configured: "\<forall>t\<in>set ts. ascii t \<Longrightarrow> ascii (first_configured_token ts)"
proof (induction ts)
  case (Cons t ts)
  then show ?case by (cases "t = ''''") (simp_all add: first_configured_token_def)
qed (simp add: first_configured_token_def ascii_def)

lemma ascii_tokens:
  assumes "ascii_config c"
  shows "\<forall>p\<in>set (scope_tokens c). ascii (snd p)"
proof -
  have fields: "ascii (ac_auth c)" "ascii (ac_read c)" "ascii (ac_control c)" "ascii (ac_admin c)" "ascii (ac_update c)"
    using assms by (simp_all add: ascii_config_def)
  show ?thesis
    unfolding scope_tokens_def effective_update_token_def effective_admin_token_def effective_control_token_def
      effective_read_token_def
    by (simp add: ascii_first_configured fields)
qed

lemma set_dropWhile_subset: "set (dropWhile P xs) \<subseteq> set xs"
  by (auto dest: set_dropWhileD)

lemma set_py_strip: "set (py_strip s) \<subseteq> set s"
  unfolding py_strip_def using set_dropWhile_subset [of py_space] by (metis order_trans set_rev)

lemma authorization_scope_find:
  assumes "has_configured_token c" "ascii_config c" "ascii header"
  shows "authorization_scope c (Some header)
    = Inr (map_option fst (List.find (\<lambda>p. bearer header (snd p)) (scope_tokens c)))"
proof -
  have "ascii (py_strip header)" using assms(3) set_py_strip unfolding ascii_def by blast
  from first_matching_scope_iff [OF this ascii_tokens [OF assms(2)]]
  have "first_matching_scope (py_strip header) (scope_tokens c)
      = Inr (map_option fst (List.find (\<lambda>p. bearer header (snd p)) (scope_tokens c)))"
    by (simp add: bearer_def)
  moreover have "header = '''' \<Longrightarrow> List.find (\<lambda>p. bearer header (snd p)) ps = None" for ps :: "(scope \<times> string) list"
    by (simp add: bearer_def py_strip_def find_None_iff)
  ultimately show ?thesis using assms(1) by (simp add: authorization_scope_def scope_for_header_def)
qed

text \<open>The tokens are tried from the highest scope down, so the scope found is the highest one presented.\<close>

lemma highest_scope_first:
  "(\<exists>(granted, token)\<in>set (scope_tokens c). required \<le> granted \<and> P token)
    \<longleftrightarrow> scope_satisfies_requirement (map_option fst (List.find (\<lambda>p. P (snd p)) (scope_tokens c))) required"
  unfolding scope_tokens_def
  by (cases required)
    (simp_all add: less_eq_scope_def scope_order_def scope_satisfies_requirement_def split: scope.splits if_splits)

text \<open>
  With at least one token configured, a request passes the check for a scope exactly when its Authorization header
  presents, as bearer, the effective token of that scope or of a higher one; every other request is turned away,
  as unauthorized or as lacking the scope, and never let through.
\<close>

theorem scope_needs_its_token:
  assumes "has_configured_token c" "ascii_config c" "ascii header"
  shows "(auth_error c (Some header) required = Inr None \<longleftrightarrow>
      (\<exists>(granted, token)\<in>set (scope_tokens c). required \<le> granted \<and> bearer header token))
    \<and> auth_error c (Some header) required \<in> {Inr None, Inr (Some unauthorized_error), Inr (Some insufficient_scope_error)}
    \<and> auth_error c None required = Inr (Some unauthorized_error)"
proof (intro conjI)
  note sc = authorization_scope_find [OF assms]
  show "auth_error c None required = Inr (Some unauthorized_error)"
    using assms(1) by (simp add: auth_error_def authorization_scope_def scope_for_header_def scope_satisfies_requirement_def)
  show "auth_error c (Some header) required \<in> {Inr None, Inr (Some unauthorized_error), Inr (Some insufficient_scope_error)}"
    by (cases "scope_satisfies_requirement (map_option fst (List.find (\<lambda>p. bearer header (snd p)) (scope_tokens c))) required")
      (auto simp: auth_error_def sc simp del: split_paired_Ex)
  show "auth_error c (Some header) required = Inr None \<longleftrightarrow>
      (\<exists>(granted, token)\<in>set (scope_tokens c). required \<le> granted \<and> bearer header token)"
    unfolding highest_scope_first
    by (simp add: auth_error_def sc split: if_splits del: not_None_eq)
qed

theorem scope_needs_its_token_witness:
  "auth_error \<lparr>ac_auth = '''', ac_read = ''r'', ac_control = ''c'', ac_admin = ''a'', ac_update = ''u'',
      ac_localhost_only = True, ac_unix_socket = ''''\<rparr> (Some ''Bearer c'') ControlAdmin \<noteq> Inr None"
proof -
  let ?c = "\<lparr>ac_auth = '''', ac_read = ''r'', ac_control = ''c'', ac_admin = ''a'', ac_update = ''u'',
      ac_localhost_only = True, ac_unix_socket = ''''\<rparr>"
  have "has_configured_token ?c" "ascii_config ?c" "ascii ''Bearer c''" by code_simp+
  moreover have "\<not> (\<exists>(granted, token)\<in>set (scope_tokens ?c). ControlAdmin \<le> granted \<and> bearer ''Bearer c'' token)" by code_simp
  ultimately show ?thesis using scope_needs_its_token by blast
qed

end
