(* ===== verification/Control_Limits.thy ===== *)
theory Control_Limits
  imports Prelude "HOL-Library.List_Lexorder" "HOL-Library.Char_ord"
begin

text \<open>
  The in-memory guards of the local Control API: the rate limiter (\<open>control/rate_limit.py\<close>), the
  idempotency store (\<open>control/idempotency.py\<close>) and the event bus (\<open>control/events.py\<close>).  Each method
  runs under its lock, so one call is one step.  File access of the store is not modelled; what it
  writes and how it reads it back is.
\<close>

section \<open>Rate limiter\<close>

record rate_limiter =
  rl_max :: nat
  rl_window :: secs
  rl_cooldown :: secs
  rl_times :: "(string \<times> secs list) list"
  rl_deadlines :: "((string \<times> string) \<times> secs) list"

definition rate_limiter_new :: "int \<Rightarrow> secs \<Rightarrow> secs \<Rightarrow> rate_limiter" where
  "rate_limiter_new max_requests window cooldown =
    \<lparr>rl_max = nat (max 1 max_requests), rl_window = max (1/10) window, rl_cooldown = max 0 cooldown,
     rl_times = [], rl_deadlines = []\<rparr>"

definition critical_commands :: "string list" where
  "critical_commands = [''reset_contactor_lockout'', ''reset_phase_lockout'', ''trigger_software_update'']"

definition request_times :: "rate_limiter \<Rightarrow> string \<Rightarrow> secs list" where
  "request_times l client = (case map_of (rl_times l) client of None \<Rightarrow> [] | Some ts \<Rightarrow> ts)"

definition trim_request_times :: "rate_limiter \<Rightarrow> secs list \<Rightarrow> secs \<Rightarrow> secs list" where
  "trim_request_times l ts current = dropWhile (\<lambda>t. rl_window l \<le> current - t) ts"

definition allow_request :: "rate_limiter \<Rightarrow> string \<Rightarrow> secs \<Rightarrow> (bool \<times> secs) \<times> rate_limiter" where
  "allow_request l client current =
    (let ts = trim_request_times l (request_times l client) current in
     if length ts \<ge> rl_max l
     then ((False, max 0 (rl_window l - (current - hd ts))), l\<lparr>rl_times := AList.update client ts (rl_times l)\<rparr>)
     else ((True, 0), l\<lparr>rl_times := AList.update client (ts @ [current]) (rl_times l)\<rparr>))"

definition allow_command :: "rate_limiter \<Rightarrow> string \<Rightarrow> string \<Rightarrow> secs \<Rightarrow> (bool \<times> secs) \<times> rate_limiter" where
  "allow_command l client command current =
    (if command \<notin> set critical_commands \<or> rl_cooldown l \<le> 0 then ((True, 0), l)
     else let deadline = (case map_of (rl_deadlines l) (client, command) of None \<Rightarrow> 0 | Some d \<Rightarrow> d) in
       if current < deadline then ((False, max 0 (deadline - current)), l)
       else ((True, 0), l\<lparr>rl_deadlines := AList.update (client, command) (current + rl_cooldown l) (rl_deadlines l)\<rparr>))"

section \<open>Idempotency store\<close>

text \<open>An entry is the fingerprint of the request, the HTTP status and the response.\<close>

type_synonym ('f, 'r) idem_entry = "'f \<times> int \<times> 'r"

record ('f, 'r) idem_store =
  is_limit :: nat
  is_entries :: "(string \<times> ('f, 'r) idem_entry) list"

definition idem_store_new :: "int \<Rightarrow> ('f, 'r) idem_store" where
  "idem_store_new limit = \<lparr>is_limit = nat (max 1 limit), is_entries = []\<rparr>"

definition idem_get :: "('f, 'r) idem_store \<Rightarrow> string \<Rightarrow> ('f, 'r) idem_entry option \<times> ('f, 'r) idem_store" where
  "idem_get st key =
    (case map_of (is_entries st) key of None \<Rightarrow> (None, st)
     | Some e \<Rightarrow> (Some e, st\<lparr>is_entries := od_move_to_end key (is_entries st)\<rparr>))"

definition idem_insert :: "nat \<Rightarrow> string \<Rightarrow> 'e \<Rightarrow> (string \<times> 'e) list \<Rightarrow> (string \<times> 'e) list" where
  "idem_insert limit key entry m = evict_oldest limit (od_move_to_end key (AList.update key entry m))"

definition idem_put :: "('f, 'r) idem_store \<Rightarrow> string \<Rightarrow> 'f \<Rightarrow> int \<Rightarrow> 'r \<Rightarrow> ('f, 'r) idem_store" where
  "idem_put st key fingerprint status response =
    st\<lparr>is_entries := idem_insert (is_limit st) key (fingerprint, status, response) (is_entries st)\<rparr>"

text \<open>The file holds the entries sorted by key; entries without a fingerprint are dropped on loading.\<close>

definition serialized_entries :: "(string, 'r) idem_store \<Rightarrow> (string \<times> (string, 'r) idem_entry) list" where
  "serialized_entries st = sort_key fst (is_entries st)"

definition loaded_entry :: "(string, 'r) idem_entry \<Rightarrow> (string, 'r) idem_entry option" where
  "loaded_entry e = (case e of (fingerprint, status, response) \<Rightarrow>
     if py_strip fingerprint = '''' then None else Some (py_strip fingerprint, status, response))"

definition load_runtime_entries ::
  "(string, 'r) idem_store \<Rightarrow> (string \<times> (string, 'r) idem_entry) list \<Rightarrow> (string, 'r) idem_store" where
  "load_runtime_entries st payload =
    st\<lparr>is_entries := evict_oldest (is_limit st)
        (fold (\<lambda>(k, e) m. case loaded_entry e of None \<Rightarrow> m | Some e' \<Rightarrow> AList.update k e' m) payload (is_entries st))\<rparr>"

section \<open>Event bus\<close>

text \<open>An event is its sequence number, kind and payload; \<open>deque(maxlen)\<close> drops the oldest.\<close>

record ('k, 'p) event_bus =
  eb_limit :: nat
  eb_events :: "(int \<times> 'k \<times> 'p) list"
  eb_next :: int

definition event_bus_new :: "int \<Rightarrow> ('k, 'p) event_bus" where
  "event_bus_new limit = \<lparr>eb_limit = nat (max 1 limit), eb_events = [], eb_next = 1\<rparr>"

definition publish_event :: "('k, 'p) event_bus \<Rightarrow> 'k \<Rightarrow> 'p \<Rightarrow> (int \<times> 'k \<times> 'p) \<times> ('k, 'p) event_bus" where
  "publish_event b kind payload =
    (let event = (eb_next b, kind, payload)
     in (event, b\<lparr>eb_next := eb_next b + 1, eb_events := evict_oldest (eb_limit b) (eb_events b @ [event])\<rparr>))"

definition recent_events :: "('k, 'p) event_bus \<Rightarrow> int \<Rightarrow> int \<Rightarrow> (int \<times> 'k \<times> 'p) list" where
  "recent_events b limit after_seq =
    (let capped = nat (max 0 limit); events = filter (\<lambda>e. fst e > after_seq) (eb_events b)
     in if capped = 0 then [] else drop (length events - capped) events)"

definition first_after_seq :: "('k, 'p) event_bus \<Rightarrow> int \<Rightarrow> (int \<times> 'k \<times> 'p) option" where
  "first_after_seq b after_seq = List.find (\<lambda>e. fst e > after_seq) (eb_events b)"

section \<open>The rate limit holds in every window\<close>

text \<open>The requests of one client that a run of calls at non-decreasing times lets through.\<close>

fun accepted_requests :: "rate_limiter \<Rightarrow> (string \<times> secs) list \<Rightarrow> (string \<times> secs) list" where
  "accepted_requests l [] = []"
| "accepted_requests l ((client, t) # rest) =
    (case allow_request l client t of
       ((ok, _), l') \<Rightarrow> (if ok then [(client, t)] else []) @ accepted_requests l' rest)"

lemma allow_request_times:
  "request_times (snd (allow_request l client now)) c =
    (if c = client then (let ts = trim_request_times l (request_times l client) now in
       if length ts \<ge> rl_max l then ts else ts @ [now]) else request_times l c)"
  "rl_max (snd (allow_request l client now)) = rl_max l"
  "rl_window (snd (allow_request l client now)) = rl_window l"
  by (auto simp: allow_request_def request_times_def Let_def od_lookup_update)

definition window_count :: "secs \<Rightarrow> secs \<Rightarrow> secs list \<Rightarrow> nat" where
  "window_count a w ts = length (filter (\<lambda>t. a \<le> t \<and> t < a + w) ts)"

text \<open>
  After a history of accepted times \<open>hist\<close>, the last call of the client at \<open>last\<close>: the queue is what is
  younger than the window, and no window holds more than the limit.
\<close>

definition limiter_inv :: "rate_limiter \<Rightarrow> string \<Rightarrow> secs list \<Rightarrow> secs \<Rightarrow> bool" where
  "limiter_inv l c hist lst \<longleftrightarrow> 0 < rl_window l \<and> sorted hist \<and> (\<forall>t\<in>set hist. t \<le> lst)
    \<and> request_times l c = filter (\<lambda>t. lst - t < rl_window l) hist
    \<and> (\<forall>a. window_count a (rl_window l) hist \<le> rl_max l)"

lemma dropWhile_filter_sorted:
  "sorted hist \<Longrightarrow> dropWhile (\<lambda>t. (w::rat) \<le> now - t) hist = filter (\<lambda>t. now - t < w) hist"
proof (induction hist)
  case (Cons x xs)
  show ?case
  proof (cases "w \<le> now - x")
    case False
    with Cons.prems have "\<forall>t\<in>set xs. now - t < w" by auto
    then have "filter (\<lambda>t. now - t < w) xs = xs" by simp
    with False show ?thesis by simp
  qed (use Cons in auto)
qed simp

lemma trim_history:
  assumes "limiter_inv l c hist lst" "lst \<le> now"
  shows "trim_request_times l (request_times l c) now = filter (\<lambda>t. now - t < rl_window l) hist"
proof -
  have "filter (\<lambda>t. now - t < rl_window l) (filter (\<lambda>t. lst - t < rl_window l) hist)
      = filter (\<lambda>t. now - t < rl_window l) hist"
    using assms(2) by (auto intro!: filter_cong)
  moreover have "sorted (filter (\<lambda>t. lst - t < rl_window l) hist)"
    using assms(1) by (simp add: limiter_inv_def sorted_filter [of "\<lambda>x. x", simplified])
  ultimately show ?thesis
    using assms(1) dropWhile_filter_sorted by (simp add: trim_request_times_def limiter_inv_def)
qed

lemma limiter_inv_step:
  assumes inv: "limiter_inv l c hist lst" and le: "lst \<le> now"
    and r: "allow_request l client now = ((ok, retry), l')"
  shows "if client = c then limiter_inv l' c (hist @ (if ok then [now] else [])) now else limiter_inv l' c hist lst"
proof (cases "client = c")
  case False
  then show ?thesis
    using inv allow_request_times [of l client now] r by (simp add: limiter_inv_def)
next
  case True
  let ?W = "rl_window l" and ?q = "filter (\<lambda>t. now - t < rl_window l) hist"
  note l' = allow_request_times [of l client now, unfolded r, simplified]
  have q: "trim_request_times l (request_times l c) now = ?q" by (rule trim_history [OF inv le])
  have ok: "ok \<longleftrightarrow> length ?q < rl_max l"
    using r q True by (auto simp: allow_request_def Let_def not_less split: if_splits)
  have base: "0 < ?W" "sorted hist" "\<forall>t\<in>set hist. t \<le> now" "\<And>a. window_count a ?W hist \<le> rl_max l"
    using inv le by (auto simp: limiter_inv_def)
  show ?thesis
  proof (cases ok)
    case False
    with True base l' q ok show ?thesis by (auto simp: limiter_inv_def not_less)
  next
    case ok_true: True
    have "window_count a ?W (hist @ [now]) \<le> rl_max l" for a
    proof (cases "a \<le> now \<and> now < a + ?W")
      case False
      with base(4) [of a] show ?thesis by (auto simp: window_count_def)
    next
      case True
      then have "filter (\<lambda>t. a \<le> t \<and> t < a + ?W) hist = filter (\<lambda>t. a \<le> t \<and> t < a + ?W) ?q"
        by (auto intro!: filter_cong)
      then have "window_count a ?W hist \<le> length ?q" by (simp add: window_count_def del: filter_filter)
      with True ok ok_true show ?thesis by (simp add: window_count_def)
    qed
    moreover have "request_times l' c = filter (\<lambda>t. now - t < ?W) (hist @ [now])"
      using True l' q ok ok_true inv by (simp add: limiter_inv_def not_le)
    ultimately show ?thesis
      using True base l' ok_true inv by (auto simp: limiter_inv_def sorted_append)
  qed
qed

lemma accepted_in_windows:
  assumes "limiter_inv l c hist lst" "sorted (map snd reqs)" "\<forall>r\<in>set reqs. lst \<le> snd r"
  shows "window_count a (rl_window l) (hist @ map snd (filter (\<lambda>r. fst r = c) (accepted_requests l reqs))) \<le> rl_max l"
  using assms
proof (induction reqs arbitrary: l hist lst)
  case Nil
  then show ?case by (simp add: limiter_inv_def)
next
  case (Cons r reqs)
  obtain client now where r: "r = (client, now)" by (cases r)
  obtain ok retry l' where a: "allow_request l client now = ((ok, retry), l')" by (metis prod.collapse)
  note l' = allow_request_times [of l client now, unfolded a, simplified]
  have le: "lst \<le> now" using Cons.prems(3) by (simp add: r)
  have rest: "sorted (map snd reqs)" "\<forall>r\<in>set reqs. now \<le> snd r" "\<forall>r\<in>set reqs. lst \<le> snd r"
    using Cons.prems(2,3) by (auto simp: r)
  note step = limiter_inv_step [OF Cons.prems(1) le a]
  show ?case
  proof (cases "client = c")
    case True
    with step have "limiter_inv l' c (hist @ (if ok then [now] else [])) now" by simp
    from Cons.IH [OF this rest(1,2)] True a show ?thesis by (cases ok) (simp_all add: r l')
  next
    case False
    with step have "limiter_inv l' c hist lst" by simp
    from Cons.IH [OF this rest(1,3)] False a show ?thesis by (simp add: r l')
  qed
qed

text \<open>
  Claim C12.  However many requests arrive and in whatever rhythm, no window of the configured length
  holds more accepted requests of one client than the limit.
\<close>

theorem rate_limit_every_window:
  assumes "sorted (map snd reqs)"
  shows "length (filter (\<lambda>(c, t). c = client \<and> a \<le> t \<and> t < a + rl_window (rate_limiter_new n w d))
      (accepted_requests (rate_limiter_new n w d) reqs)) \<le> nat (max 1 n)"
proof -
  let ?l = "rate_limiter_new n w d"
  let ?lst = "Min (insert 0 (snd ` set reqs))"
  have "limiter_inv ?l client [] ?lst"
    by (simp add: limiter_inv_def rate_limiter_new_def request_times_def window_count_def)
  moreover have "\<forall>r\<in>set reqs. ?lst \<le> snd r" by (auto intro!: Min_le)
  ultimately have "window_count a (rl_window ?l) ([] @ map snd (filter (\<lambda>r. fst r = client) (accepted_requests ?l reqs))) \<le> rl_max ?l"
    by (rule accepted_in_windows [OF _ assms])
  moreover have "filter (\<lambda>(c, t). c = client \<and> a \<le> t \<and> t < a + rl_window ?l) xs
      = filter (\<lambda>x. a \<le> snd x \<and> snd x < a + rl_window ?l) (filter (\<lambda>r. fst r = client) xs)" for xs :: "(string \<times> secs) list"
    by (auto intro!: filter_cong)
  ultimately show ?thesis
    by (simp add: window_count_def filter_map o_def rate_limiter_new_def del: filter_filter)
qed

theorem rate_limit_every_window_witness:
  "length (filter (\<lambda>(c, t). c = ''a'' \<and> 0 \<le> t \<and> t < 0 + rl_window (rate_limiter_new 2 5 1))
      (accepted_requests (rate_limiter_new 2 5 1) [(''a'', 0), (''a'', 1), (''b'', 1), (''a'', 2), (''a'', 6)])) \<le> nat (max 1 2)"
  by (rule rate_limit_every_window) simp

text \<open>
  A refused client is told the truth: at the announced time its next request is accepted, if
  it stays silent until then.
\<close>

theorem rate_limit_retry_after:
  assumes "allow_request l client now = ((False, retry), l')"
    and "0 < rl_max l" "length (request_times l client) \<le> rl_max l"
  shows "fst (fst (allow_request l' client (now + retry)))"
proof -
  let ?P = "\<lambda>t. rl_window l \<le> now - t"
  let ?ts = "dropWhile ?P (request_times l client)"
  have full: "rl_max l \<le> length ?ts" and retry: "retry = max 0 (rl_window l - (now - hd ?ts))"
    and l': "request_times l' client = ?ts" "rl_window l' = rl_window l" "rl_max l' = rl_max l"
    using assms(1) allow_request_times [of l client now]
    by (auto simp: allow_request_def trim_request_times_def Let_def split: if_splits)
  have ne: "?ts \<noteq> []" using full assms(2) by (metis le_zero_eq list.size(3) not_less0)
  from hd_dropWhile [OF this] have "rl_window l \<le> now + retry - hd ?ts" by (auto simp: retry)
  with ne have "length (dropWhile (\<lambda>t. rl_window l \<le> now + retry - t) ?ts) < length ?ts"
    by (cases ?ts) (auto intro: le_imp_less_Suc length_dropWhile_le)
  also have "length ?ts \<le> rl_max l"
    using assms(3) length_dropWhile_le [of ?P "request_times l client"] by simp
  finally show ?thesis
    by (simp add: allow_request_def trim_request_times_def l' Let_def)
qed

theorem rate_limit_retry_after_witness:
  "fst (fst (allow_request (snd (allow_request (snd (allow_request (rate_limiter_new 1 5 1) ''a'' 0)) ''a'' 2)) ''a'' (2 + 3)))"
proof -
  let ?l = "snd (allow_request (rate_limiter_new 1 5 1) ''a'' 0)"
  have "fst (allow_request ?l ''a'' 2) = (False, 3)" by code_simp
  then have r: "allow_request ?l ''a'' 2 = ((False, 3), snd (allow_request ?l ''a'' 2))" by (metis prod.collapse)
  have "0 < rl_max ?l" "length (request_times ?l ''a'') \<le> rl_max ?l" by code_simp+
  from rate_limit_retry_after [OF r this] show ?thesis .
qed

section \<open>The idempotency store\<close>

lemma idem_insert_ok: "od_ok m \<Longrightarrow> od_ok (idem_insert limit k e m)"
  by (simp add: idem_insert_def od_simps)

lemma idem_insert_lookup:
  assumes "0 < limit"
  shows "map_of (idem_insert limit k e m) k = Some e"
proof -
  have "idem_insert limit k e m = evict_oldest (limit - 1) (AList.delete k m) @ [(k, e)]"
    using assms by (simp add: idem_insert_def update_move_to_end evict_oldest_last)
  moreover have "map_of (evict_oldest n (AList.delete k m)) k = None" for n
  proof -
    have "map_of (AList.delete k m) k = None" by (simp add: od_lookup_delete)
    then show ?thesis by (metis evict_oldest_drop image_mono map_of_eq_None_iff set_drop_subset subsetD)
  qed
  ultimately show ?thesis by (simp add: map_of_append_if del: map_of_append)
qed

lemma idem_insert_length: "length (idem_insert limit k e m) \<le> limit"
  by (simp add: idem_insert_def)

lemma idem_insert_other:
  assumes "od_ok m" "j \<noteq> k" "map_of (idem_insert limit k e m) j = Some v"
  shows "map_of m j = Some v"
proof -
  have "map_of (od_move_to_end k (AList.update k e m)) j = Some v"
  proof (rule od_lookup_evict)
    show "od_ok (od_move_to_end k (AList.update k e m))" using assms(1) by (simp add: od_ok_move od_ok_update)
    show "map_of (evict_oldest limit (od_move_to_end k (AList.update k e m))) j = Some v"
      using assms(3) by (simp only: idem_insert_def)
  qed
  with assms(2) show ?thesis by (simp add: od_lookup_move od_lookup_update)
qed

interpretation idem: recency_store "idem_insert (nat (max 1 limit))" "nat (max 1 limit)"
  for limit :: int
proof
  fix m :: "(string \<times> 'v) list" and k v j w
  show "od_ok m \<Longrightarrow> od_ok (idem_insert (nat (max 1 limit)) k v m)" by (rule idem_insert_ok)
  show "length (idem_insert (nat (max 1 limit)) k v m) \<le> nat (max 1 limit)" by (rule idem_insert_length)
  show "map_of (idem_insert (nat (max 1 limit)) k v m) k = Some v" by (rule idem_insert_lookup) simp
  show "od_ok m \<Longrightarrow> j \<noteq> k \<Longrightarrow> map_of (idem_insert (nat (max 1 limit)) k v m) j = Some w \<Longrightarrow> map_of m j = Some w"
    by (rule idem_insert_other)
qed


text \<open>The store as a list of keys, newest first: what the operations do to the order.\<close>

definition newest_first :: "(string \<times> 'e) list \<Rightarrow> string list" where
  "newest_first m = rev (od_keys m)"

definition bring_front :: "'a \<Rightarrow> 'a list \<Rightarrow> 'a list" where
  "bring_front k ks = k # removeAll k ks"

lemma rev_removeAll: "rev (removeAll k xs) = removeAll k (rev xs)"
  by (simp add: removeAll_filter_not_eq rev_filter)

lemma newest_first_insert:
  "newest_first (idem_insert limit k e m) = take limit (bring_front k (newest_first m))"
proof -
  have "od_keys (idem_insert limit k e m) = drop (length (AList.delete k m) + 1 - limit) (removeAll k (od_keys m) @ [k])"
    by (simp add: idem_insert_def update_move_to_end evict_oldest_drop drop_map [symmetric] delete_keys del: drop_append)
  moreover have "length (AList.delete k m) = length (removeAll k (od_keys m))"
    by (metis delete_keys length_map)
  moreover have "rev (drop (length xs - n) xs) = take n (rev xs)" for xs :: "string list" and n
    by (cases "n \<le> length xs") (simp_all add: rev_drop)
  from this [of "removeAll k (od_keys m) @ [k]" limit]
  have "rev (drop (Suc (length (removeAll k (od_keys m))) - limit) (removeAll k (od_keys m) @ [k]))
      = take limit (k # removeAll k (rev (od_keys m)))"
    by (simp add: rev_removeAll del: drop_append)
  ultimately show ?thesis by (simp add: newest_first_def bring_front_def del: drop_append)
qed

lemma newest_first_move:
  "newest_first (od_move_to_end k m) = (if k \<in> set (newest_first m) then bring_front k (newest_first m) else newest_first m)"
  by (auto simp: newest_first_def od_move_to_end_def bring_front_def delete_keys rev_removeAll
      dest: map_of_SomeD split: option.splits) (metis map_of_eq_None_iff option.distinct(1) fst_conv imageI)+

definition newer_than :: "'a \<Rightarrow> 'a list \<Rightarrow> 'a list" where
  "newer_than k ks = takeWhile (\<lambda>j. j \<noteq> k) ks"

lemma distinct_newer: "distinct ks \<Longrightarrow> distinct (newer_than k ks)"
  by (simp add: newer_than_def distinct_takeWhile)

lemma newer_bring_front:
  "newer_than k (bring_front j ks) = (if j = k then [] else j # removeAll j (newer_than k ks))"
proof -
  have "j \<noteq> k \<Longrightarrow> takeWhile (\<lambda>i. i \<noteq> k) (removeAll j ks) = removeAll j (takeWhile (\<lambda>i. i \<noteq> k) ks)"
    by (induction ks) auto
  then show ?thesis by (simp add: newer_than_def bring_front_def)
qed

lemma take_keeps:
  "k \<in> set ks \<Longrightarrow> length (newer_than k ks) < n \<Longrightarrow> k \<in> set (take n ks) \<and> newer_than k (take n ks) = newer_than k ks"
  by (induction ks arbitrary: n) (auto simp: newer_than_def take_Cons' split: if_splits nat.splits)

datatype ('f, 'r) idem_op = Get string | Put string 'f int 'r

fun idem_run :: "('f, 'r) idem_store \<Rightarrow> ('f, 'r) idem_op list \<Rightarrow> ('f, 'r) idem_store" where
  "idem_run st [] = st"
| "idem_run st (Get k # ops) = idem_run (snd (idem_get st k)) ops"
| "idem_run st (Put k f s r # ops) = idem_run (idem_put st k f s r) ops"

fun op_key :: "('f, 'r) idem_op \<Rightarrow> string" where
  "op_key (Get k) = k"
| "op_key (Put k _ _ _) = k"

fun is_put_of :: "string \<Rightarrow> ('f, 'r) idem_op \<Rightarrow> bool" where
  "is_put_of k (Put j _ _ _) = (j = k)"
| "is_put_of k (Get _) = False"

definition survives :: "('f, 'r) idem_store \<Rightarrow> string \<Rightarrow> ('f, 'r) idem_entry \<Rightarrow> string set \<Rightarrow> bool" where
  "survives st k e others \<longleftrightarrow> od_ok (is_entries st) \<and> map_of (is_entries st) k = Some e
    \<and> set (newer_than k (newest_first (is_entries st))) \<subseteq> others"

lemma survives_in: "survives st k e T \<Longrightarrow> k \<in> set (newest_first (is_entries st))"
  by (force simp: survives_def newest_first_def dest: map_of_SomeD)

lemma newest_first_distinct: "od_ok m \<Longrightarrow> distinct (newest_first m)"
  by (simp add: newest_first_def)

lemma survives_get:
  assumes "survives st k e T" "j = k \<or> j \<in> T"
  shows "survives (snd (idem_get st j)) k e T"
proof (cases "map_of (is_entries st) j")
  case None
  with assms show ?thesis by (simp add: idem_get_def)
next
  case (Some f)
  then have "j \<in> set (newest_first (is_entries st))"
    by (force simp: newest_first_def dest: map_of_SomeD)
  with assms Some show ?thesis
    by (auto simp: survives_def idem_get_def newest_first_move newer_bring_front od_lookup_move od_ok_move)
qed

lemma survives_put_other:
  assumes "survives st k e T" "j \<in> T" "j \<noteq> k" "finite T" "card T < is_limit st"
  shows "survives (idem_put st j f s r) k e T"
proof -
  let ?m = "is_entries st" and ?m' = "is_entries (idem_put st j f s r)"
  let ?b = "bring_front j (newest_first ?m)"
  have m': "newest_first ?m' = take (is_limit st) ?b"
    by (simp add: idem_put_def newest_first_insert)
  have kb: "k \<in> set ?b" using survives_in [OF assms(1)] assms(3) by (simp add: bring_front_def)
  have sub: "set (newer_than k ?b) \<subseteq> T"
    using assms(1,2) by (auto simp: newer_bring_front survives_def)
  have "distinct (newer_than k ?b)"
    using assms(1,3) distinct_newer [of "newest_first ?m" k] newest_first_distinct [of ?m]
    by (auto simp: newer_bring_front survives_def distinct_removeAll)
  then have "length (newer_than k ?b) \<le> card T"
    using card_mono [OF assms(4) sub] by (simp add: distinct_card)
  then have "length (newer_than k ?b) < is_limit st" using assms(5) by simp
  from take_keeps [OF kb this] have keep: "k \<in> set (newest_first ?m')" "newer_than k (newest_first ?m') = newer_than k ?b"
    using m' by simp_all
  have ok: "od_ok ?m'" using assms(1) by (simp add: idem_put_def survives_def idem_insert_ok)
  have "k \<in> fst ` set ?m'" using keep(1) by (simp add: newest_first_def)
  then have "map_of ?m' k \<noteq> None" by (simp add: map_of_eq_None_iff)
  then obtain v where v: "map_of ?m' k = Some v" by blast
  have "map_of ?m k = Some v"
  proof (rule idem_insert_other)
    show "od_ok ?m" using assms(1) unfolding survives_def by blast
    show "k \<noteq> j" using assms(3) by simp
    show "map_of (idem_insert (is_limit st) j (f, s, r) ?m) k = Some v" using v unfolding idem_put_def by simp
  qed
  then have "v = e" using assms(1) unfolding survives_def by (metis option.inject)
  with v ok keep sub show ?thesis unfolding survives_def by metis
qed

lemma idem_limit [simp]:
  "is_limit (snd (idem_get st k)) = is_limit st" "is_limit (idem_put st k f s r) = is_limit st"
  by (auto simp: idem_get_def idem_put_def split: option.splits)

lemma survives_run:
  assumes "survives st k e T" "finite T" "card T < is_limit st"
    and "\<forall>op\<in>set ops. \<not> is_put_of k op \<and> (op_key op = k \<or> op_key op \<in> T)"
  shows "survives (idem_run st ops) k e T"
  using assms
proof (induction ops arbitrary: st)
  case (Cons op ops)
  show ?case
  proof (cases op)
    case (Get j)
    with Cons survives_get [of st k e T j] show ?thesis by simp
  next
    case (Put j f s r)
    with Cons survives_put_other [of st k e T j f s r] show ?thesis by auto
  qed
qed simp

lemma put_survives:
  assumes "od_ok (is_entries st)" "0 < is_limit st"
  shows "survives (idem_put st k f s r) k (f, s, r) T"
  using assms
  by (auto simp: survives_def idem_put_def idem_insert_ok idem_insert_lookup newest_first_insert
      bring_front_def newer_than_def take_Cons' split: if_splits)

text \<open>
  A stored response is not forgotten early: after a put, and any sequence of lookups and puts
  that touches fewer other keys than the history limit, a lookup still returns exactly what was put.
\<close>

theorem idempotency_entry_survives:
  assumes "od_ok (is_entries st)" "finite T" "card T < is_limit st"
    and "\<forall>op\<in>set ops. \<not> is_put_of k op \<and> (op_key op = k \<or> op_key op \<in> T)"
  shows "fst (idem_get (idem_run (idem_put st k f s r) ops) k) = Some (f, s, r)"
proof -
  have "survives (idem_put st k f s r) k (f, s, r) T"
    using assms(1,3) by (intro put_survives) auto
  from survives_run [OF this assms(2) _ assms(4)] assms(3)
  have "survives (idem_run (idem_put st k f s r) ops) k (f, s, r) T" by simp
  then show ?thesis by (simp add: survives_def idem_get_def)
qed

theorem idempotency_entry_survives_witness:
  "fst (idem_get (idem_run (idem_put (idem_store_new 2) ''k'' ''f'' 200 (7::nat)) [Put ''x'' ''g'' 200 8, Get ''k'', Put ''x'' ''h'' 200 9]) ''k'')
    = Some (''f'', 200, 7)"
  by (rule idempotency_entry_survives [where T = "{''x''}"]) (auto simp: idem_store_new_def)

section \<open>What the store file restores\<close>

text \<open>Entries the store holds have a trimmed, non-empty fingerprint: the fingerprint is a JSON object.\<close>

definition clean_entry :: "(string, 'r) idem_entry \<Rightarrow> bool" where
  "clean_entry e \<longleftrightarrow> py_strip (fst e) = fst e \<and> fst e \<noteq> ''''"

lemma loaded_clean: "clean_entry e \<Longrightarrow> loaded_entry e = Some e"
  by (cases e) (simp add: clean_entry_def loaded_entry_def)

lemma update_fresh: "k \<notin> fst ` set m \<Longrightarrow> AList.update k v m = m @ [(k, v)]"
  by (induction m) auto

lemma fold_load_fresh:
  assumes "\<forall>p\<in>set ps. clean_entry (snd p)" "distinct (od_keys (m @ ps))"
  shows "fold (\<lambda>(k, e) m. case loaded_entry e of None \<Rightarrow> m | Some e' \<Rightarrow> AList.update k e' m) ps m = m @ ps"
  using assms
proof (induction ps arbitrary: m)
  case (Cons p ps)
  obtain k e where p: "p = (k, e)" by (cases p)
  from Cons.prems have "clean_entry e" "k \<notin> fst ` set m" by (auto simp: p)
  then have "AList.update k e m = m @ [(k, e)]" "loaded_entry e = Some e"
    by (simp_all add: update_fresh loaded_clean)
  with Cons.IH [of "m @ [(k, e)]"] Cons.prems show ?case by (simp add: p)
qed simp

lemma sort_key_od_ok: "od_ok m \<Longrightarrow> od_ok (sort_key fst m)"
  by (metis distinct_map distinct_sort set_sort)

text \<open>
  A restart forgets no response: what the store writes, a fresh store with the same limit
  reads back with the same entry under every key, whatever was looked up or put before.
\<close>

theorem idempotency_file_roundtrip:
  assumes "od_ok (is_entries st)" "length (is_entries st) \<le> is_limit st"
    and "\<forall>p\<in>set (is_entries st). clean_entry (snd p)"
  shows "fst (idem_get (load_runtime_entries (st\<lparr>is_entries := []\<rparr>) (serialized_entries st)) k) = fst (idem_get st k)"
proof -
  let ?ps = "serialized_entries st"
  have ok: "od_ok ?ps" using assms(1) by (simp add: serialized_entries_def sort_key_od_ok)
  have "set ?ps = set (is_entries st)" "length ?ps = length (is_entries st)"
    by (simp_all add: serialized_entries_def)
  then have "is_entries (load_runtime_entries (st\<lparr>is_entries := []\<rparr>) ?ps) = ?ps"
    using assms ok by (simp add: load_runtime_entries_def fold_load_fresh)
  moreover have "map_of ?ps k = map_of (is_entries st) k"
    using ok assms(1) \<open>set ?ps = _\<close> by (metis map_of_inject_set)
  ultimately show ?thesis by (simp add: idem_get_def split: option.splits)
qed

theorem idempotency_file_roundtrip_witness:
  "fst (idem_get (load_runtime_entries (idem_put (idem_put (idem_store_new 5) ''b'' ''f'' 200 (7::nat)) ''a'' ''g'' 409 8\<lparr>is_entries := []\<rparr>)
      (serialized_entries (idem_put (idem_put (idem_store_new 5) ''b'' ''f'' 200 (7::nat)) ''a'' ''g'' 409 8))) ''b'')
    = fst (idem_get (idem_put (idem_put (idem_store_new 5) ''b'' ''f'' 200 (7::nat)) ''a'' ''g'' 409 8) ''b'')"
  by (rule idempotency_file_roundtrip)
    (simp_all add: idem_put_def idem_store_new_def idem_insert_def od_move_to_end_def clean_entry_def py_strip_def py_space_def)

section \<open>The event bus has no gaps\<close>

fun number_from :: "int \<Rightarrow> ('k \<times> 'p) list \<Rightarrow> (int \<times> 'k \<times> 'p) list" where
  "number_from n [] = []"
| "number_from n (x # xs) = (n, x) # number_from (n + 1) xs"

definition publish_all :: "('k, 'p) event_bus \<Rightarrow> ('k \<times> 'p) list \<Rightarrow> ('k, 'p) event_bus" where
  "publish_all b es = foldl (\<lambda>b (kind, payload). snd (publish_event b kind payload)) b es"

lemma evict_evict: "evict_oldest n (evict_oldest n xs @ ys) = evict_oldest n (xs @ ys)"
  by (cases "length xs \<le> n") (simp_all add: evict_oldest_drop add.commute)

lemma evict_min: "evict_oldest m (evict_oldest n xs) = evict_oldest (min n m) xs"
  by (cases "length xs \<le> n") (auto simp: evict_oldest_drop min_def)

lemma recent_events_evict:
  "recent_events b limit after_seq = evict_oldest (nat (max 0 limit)) (filter (\<lambda>e. fst e > after_seq) (eb_events b))"
  by (simp add: recent_events_def Let_def evict_oldest_drop)

lemma publish_all_simps [simp]:
  "publish_all b [] = b" "publish_all b ((k, p) # es) = publish_all (snd (publish_event b k p)) es"
  by (simp_all add: publish_all_def)

lemma publish_event_fields [simp]:
  "eb_limit (snd (publish_event b k p)) = eb_limit b" "eb_next (snd (publish_event b k p)) = eb_next b + 1"
  "eb_events (snd (publish_event b k p)) = evict_oldest (eb_limit b) (eb_events b @ [(eb_next b, k, p)])"
  by (simp_all add: publish_event_def Let_def)

lemma publish_all_events:
  assumes "length (eb_events b) \<le> eb_limit b"
  shows "eb_events (publish_all b es) = evict_oldest (eb_limit b) (eb_events b @ number_from (eb_next b) es)"
    and "eb_next (publish_all b es) = eb_next b + int (length es)"
    and "eb_limit (publish_all b es) = eb_limit b"
  using assms
proof (induction es arbitrary: b)
  case (Cons e es)
  obtain k p where e: "e = (k, p)" by (cases e)
  { case 1
    with Cons.IH(1) [of "snd (publish_event b k p)"] show ?case
      by (simp add: e evict_evict) }
  { case 2 with Cons.IH(2) [of "snd (publish_event b k p)"] show ?case by (simp add: e) }
  { case 3 with Cons.IH(3) [of "snd (publish_event b k p)"] show ?case by (simp add: e) }
qed simp_all

lemma length_number_from [simp]: "length (number_from n es) = length es"
  by (induction es arbitrary: n) simp_all

lemma number_from_range: "e \<in> set (number_from n es) \<Longrightarrow> n \<le> fst e \<and> fst e < n + int (length es)"
  by (induction es arbitrary: n) fastforce+

lemma number_from_append: "number_from n (xs @ ys) = number_from n xs @ number_from (n + int (length xs)) ys"
  by (induction xs arbitrary: n) (simp_all add: algebra_simps)

lemma filter_drop_tail:
  assumes "\<forall>e\<in>set xs. \<not> P e" "\<forall>e\<in>set ys. P e"
  shows "filter P (evict_oldest n (xs @ ys)) = evict_oldest n ys"
proof -
  have "filter P (drop m xs) = []" "filter P (drop m ys) = drop m ys" for m
    using assms by (auto simp: filter_empty_conv filter_id_conv dest: in_set_dropD)
  then show ?thesis by (simp add: evict_oldest_drop)
qed

text \<open>
  A reader that remembers the sequence number it has seen and asks again gets every event
  published since, each once and in order, unless more were published than the bus or the question
  holds; then it gets exactly the newest ones.
\<close>

theorem event_bus_no_gap:
  "recent_events (publish_all (publish_all (event_bus_new n) old) es) limit (eb_next (publish_all (event_bus_new n) old) - 1)
    = evict_oldest (min (nat (max 1 n)) (nat (max 0 limit))) (number_from (1 + int (length old)) es)"
proof -
  let ?fresh = "event_bus_new n :: ('a, 'b) event_bus"
  let ?b = "publish_all ?fresh old"
  have new: "eb_events ?fresh = []" "eb_next ?fresh = 1" "eb_limit ?fresh = nat (max 1 n)"
    by (simp_all add: event_bus_new_def)
  have b: "eb_events ?b = evict_oldest (nat (max 1 n)) (number_from 1 old)" "eb_next ?b = 1 + int (length old)"
    "eb_limit ?b = nat (max 1 n)"
    using publish_all_events [of ?fresh old, unfolded new, simplified] by simp_all
  have ev: "eb_events (publish_all ?b es)
      = evict_oldest (nat (max 1 n)) (evict_oldest (nat (max 1 n)) (number_from 1 old) @ number_from (1 + int (length old)) es)"
    using publish_all_events(1) [of ?b es] by (simp add: b)
  have "\<not> int (length old) < fst e" if "e \<in> set (evict_oldest (nat (max 1 n)) (number_from 1 old))" for e
    using that number_from_range [of e 1 old] by (auto simp: evict_oldest_drop dest: in_set_dropD)
  moreover have "int (length old) < fst e" if "e \<in> set (number_from (1 + int (length old)) es)" for e
    using number_from_range [OF that] by simp
  ultimately have "filter (\<lambda>e. int (length old) < fst e) (eb_events (publish_all ?b es))
      = evict_oldest (nat (max 1 n)) (number_from (1 + int (length old)) es)"
    unfolding ev by (intro filter_drop_tail) auto
  then show ?thesis
    by (simp add: recent_events_evict b evict_min)
qed

end
