(* ===== verification/Control_Api.thy ===== *)
theory Control_Api
  imports Control_Auth Control_Limits
begin

text \<open>
  The command endpoint of the Control API: routing of a POST (\<open>control/http_api_routing.py\<close>), reading its body,
  replaying, validating, throttling and executing the command (\<open>http_api_commands.py\<close>), the idempotency and
  rate-limit policies over their stores (\<open>http_api_idempotency.py\<close>, \<open>http_api_rate_limit.py\<close>), the payloads
  (\<open>http_api_command_payloads.py\<close>, \<open>http_api_response.py\<close>, the normalisers of \<open>core/contracts_control.py\<close>) and the audit
  trail (\<open>audit.py\<close>).

  A request is what the HTTP server hands over: its path, peer, headers (absent texts are empty, as \<open>headers.get\<close>
  defaults them), and what \<open>json.loads\<close> makes of the first \<open>n\<close> bytes of the body; the fresh \<open>uuid4\<close> and the clock
  readings are fields of it.  The write controller and the state token are parameters.
\<close>

section \<open>Responses\<close>

datatype error_details =
    NoDetails
  | RetryDetails secs
  | KeyDetails string
  | ResultDetails command_status string string string
  | TokenDetails "string set" string

record api_error =
  ae_code :: string
  ae_message :: string
  ae_retryable :: bool
  ae_details :: error_details

record api_body =
  ab_ok :: bool
  ab_detail :: string
  ab_command :: "control_command option"
  ab_result :: "control_result option"
  ab_replayed :: bool
  ab_error :: "api_error option"

record http_reply =
  hr_status :: int
  hr_body :: api_body
  hr_headers :: "(string \<times> string) list"

definition command_api_response ::
  "bool \<Rightarrow> string \<Rightarrow> control_command option \<Rightarrow> control_result option \<Rightarrow> bool \<Rightarrow> api_error option \<Rightarrow> api_body" where
  "command_api_response okay detail command result replayed error =
    \<lparr>ab_ok = okay, ab_detail = detail, ab_command = command, ab_result = result, ab_replayed = replayed, ab_error = error\<rparr>"

definition error_payload :: "string \<Rightarrow> string \<Rightarrow> bool \<Rightarrow> error_details \<Rightarrow> api_error" where
  "error_payload code message retryable details =
    \<lparr>ae_code = code, ae_message = message, ae_retryable = retryable, ae_details = details\<rparr>"

definition plain_error_payload :: "string \<Rightarrow> string \<Rightarrow> api_body" where
  "plain_error_payload code message =
    \<lparr>ab_ok = False, ab_detail = message, ab_command = None, ab_result = None, ab_replayed = False,
     ab_error = Some \<lparr>ae_code = code, ae_message = message, ae_retryable = False, ae_details = NoDetails\<rparr>\<rparr>"

text \<open>Carriage returns and line feeds are cut out of the extra headers; other names are dropped.\<close>

definition safe_extra_headers :: "(string \<times> string) list \<Rightarrow> (string \<times> string) list" where
  "safe_extra_headers hs =
    map (\<lambda>(k, v). (k, filter (\<lambda>c. c \<noteq> char_of (13::nat) \<and> c \<noteq> char_of (10::nat)) v))
      (filter (\<lambda>(k, v). k \<in> {''ETag'', ''Retry-After'', ''X-State-Token''}) hs)"

definition write_json :: "int \<Rightarrow> api_body \<Rightarrow> (string \<times> string) list \<Rightarrow> http_reply" where
  "write_json status payload extra = \<lparr>hr_status = status, hr_body = payload, hr_headers = safe_extra_headers extra\<rparr>"

definition write_error :: "access_error \<Rightarrow> http_reply" where
  "write_error e = (case e of (status, code, message) \<Rightarrow> write_json status (plain_error_payload code message) [])"

section \<open>Payloads of a command\<close>

text \<open>The normaliser of a command rejects an unknown name and strips the texts.\<close>

definition normalized_control_command_fields :: "control_command \<Rightarrow> exc + control_command" where
  "normalized_control_command_fields c =
    (if py_strip (cc_name c) \<in> set control_command_names
     then Inr (c\<lparr>cc_name := py_strip (cc_name c), cc_target := py_strip (cc_target c), cc_detail := py_strip (cc_detail c),
       cc_command_id := py_strip (cc_command_id c), cc_key := py_strip (cc_key c)\<rparr>)
     else Inl ValueErr)"

definition normalized_control_result_fields :: "control_result \<Rightarrow> exc + control_result" where
  "normalized_control_result_fields r =
    bind_result (normalized_control_command_fields (res_command r)) (\<lambda>c. Inr
      (case res_status r of
         Applied \<Rightarrow> \<lparr>res_command = c, res_status = Applied, res_accepted = True, res_applied = True, res_persisted = True,
           res_reversible_failure = False, res_side_effect = res_side_effect r, res_detail = py_strip (res_detail r)\<rparr>
       | AcceptedInFlight \<Rightarrow> \<lparr>res_command = c, res_status = AcceptedInFlight, res_accepted = True, res_applied = False,
           res_persisted = False, res_reversible_failure = False, res_side_effect = True, res_detail = py_strip (res_detail r)\<rparr>
       | RejectedStatus \<Rightarrow> \<lparr>res_command = c, res_status = RejectedStatus, res_accepted = False, res_applied = False,
           res_persisted = False, res_reversible_failure = res_reversible_failure r, res_side_effect = False,
           res_detail = py_strip (res_detail r)\<rparr>))"

definition tracked_command :: "(string \<times> pyval) list \<Rightarrow> control_command \<Rightarrow> control_command" where
  "tracked_command payload c =
    (let command_id = payload_str payload ''command_id''; key = payload_str payload ''idempotency_key''
     in if cc_command_id c = '''' \<or> cc_key c \<noteq> key then c\<lparr>cc_command_id := command_id, cc_key := key\<rparr> else c)"

definition payload_error_code :: "string \<Rightarrow> string" where
  "payload_error_code message =
    (let lowered = py_lower message
     in if \<exists>token\<in>set [''unsupported control command'', ''unsupported core control route'', ''does not support target'',
          ''requires one of:'']. py_in token lowered
        then ''unsupported_command'' else ''validation_error'')"

definition retry_seconds :: "secs \<Rightarrow> int" where
  "retry_seconds retry_after = max 1 (if of_int \<lfloor>retry_after\<rfloor> = retry_after then \<lfloor>retry_after\<rfloor> else \<lfloor>retry_after\<rfloor> + 1)"

definition throttled_response :: "string \<Rightarrow> string \<Rightarrow> secs \<Rightarrow> int \<times> api_body \<times> (string \<times> string) list" where
  "throttled_response code message retry_after =
    (429, command_api_response False message None None False (Some (error_payload code message True (RetryDetails retry_after))),
     [(''Retry-After'', int_text (retry_seconds retry_after))])"

definition idempotency_conflict_response :: "string \<Rightarrow> int \<times> api_body" where
  "idempotency_conflict_response key =
    (let message = ''Idempotency-Key was already used for a different payload.''
     in (409, command_api_response False message None None False
          (Some (error_payload ''idempotency_conflict'' message False (KeyDetails key)))))"

definition replayed_payload :: "api_body \<Rightarrow> api_body" where
  "replayed_payload b = b\<lparr>ab_replayed := True\<rparr>"

text \<open>
  The fingerprint is the JSON text of the payload without its tracking fields, keys sorted; that text determines the
  sorted fields, so the model keeps those.
\<close>

type_synonym fingerprint = "(string \<times> pyval) list"

definition idempotency_fingerprint :: "(string \<times> pyval) list \<Rightarrow> fingerprint" where
  "idempotency_fingerprint payload =
    sort_key fst (filter (\<lambda>(k, v). k \<noteq> ''command_id'' \<and> k \<noteq> ''idempotency_key'') payload)"

definition is_update_progress_error :: "string \<Rightarrow> bool" where
  "is_update_progress_error detail \<longleftrightarrow>
    py_in ''update'' detail \<and> (\<exists>t\<in>set [''progress'', ''running'', ''busy'', ''already'']. py_in t detail)"

definition is_health_error :: "string \<Rightarrow> bool" where
  "is_health_error detail \<longleftrightarrow> (\<exists>t\<in>set [''health'', ''fault'', ''lockout'', ''recovery'']. py_in t detail)"

definition is_mode_block_error :: "string \<Rightarrow> bool" where
  "is_mode_block_error detail \<longleftrightarrow>
    py_in ''mode'' detail \<and> (\<exists>t\<in>set [''blocked'', ''cannot'', ''while'', ''unsupported'']. py_in t detail)"

definition result_error_code :: "control_result \<Rightarrow> string" where
  "result_error_code r =
    (let detail = py_lower (py_strip (res_detail r))
     in if cc_name (res_command r) = ''set_phase_selection'' \<and> py_in ''unsupported'' detail then ''unsupported_for_topology''
        else if is_update_progress_error detail then ''update_in_progress''
        else if is_health_error detail then ''blocked_by_health''
        else if is_mode_block_error detail then ''blocked_by_mode''
        else if res_status r = RejectedStatus then ''command_rejected'' else ''conflict'')"

definition error_payload_for_result :: "control_result \<Rightarrow> api_error" where
  "error_payload_for_result r =
    error_payload (result_error_code r) (if res_detail r \<noteq> '''' then res_detail r else ''Command rejected.'')
      (res_reversible_failure r)
      (ResultDetails (res_status r) (cc_target (res_command r)) (cc_command_id (res_command r)) (cc_key (res_command r)))"

definition command_response_payload :: "control_result \<Rightarrow> bool \<Rightarrow> control_command \<Rightarrow> control_result \<Rightarrow> api_body" where
  "command_response_payload r replayed command_fields result_fields =
    command_api_response (res_accepted r) (res_detail r) (Some command_fields) (Some result_fields) replayed
      (if \<not> res_accepted r then Some (error_payload_for_result r) else None)"

definition http_status_for_result :: "control_result \<Rightarrow> int" where
  "http_status_for_result r = (case res_status r of Applied \<Rightarrow> 200 | AcceptedInFlight \<Rightarrow> 202 | _ \<Rightarrow> 409)"

definition optimistic_concurrency_payload :: "string set \<Rightarrow> string \<Rightarrow> api_body" where
  "optimistic_concurrency_payload expected current =
    (let message = ''If-Match state token does not match the current local service state.''
     in command_api_response False message None None False
          (Some (error_payload ''conflict'' message True (TokenDetails expected current))))"

section \<open>Requests, the audit trail and the endpoint's state\<close>

datatype json_body = JsonObject "(string \<times> pyval) list" | JsonOther | JsonInvalid | JsonRaises exc

record http_request =
  rq_path :: string
  rq_address :: "string option"
  rq_authorization :: "string option"
  rq_command_id :: string
  rq_key :: string
  rq_if_match :: string
  rq_state_token :: string
  rq_length :: "string option"
  rq_body :: "nat \<Rightarrow> json_body"
  rq_uuid :: string
  rq_now :: secs
  rq_cooldown_now :: secs
  rq_wall :: secs

datatype audit_command = AuditCommand control_command | AuditPayload "(string \<times> pyval) list" | NoAuditCommand

record audit_entry =
  au_seq :: int
  au_timestamp :: secs
  au_transport :: string
  au_scope :: string
  au_client :: string
  au_status :: int
  au_replayed :: bool
  au_command :: audit_command
  au_result :: "control_result option"
  au_error :: "api_error option"

record audit_trail =
  at_limit :: nat
  at_entries :: "audit_entry list"
  at_next :: int

definition audit_trail_new :: "int \<Rightarrow> audit_trail" where
  "audit_trail_new history_limit = \<lparr>at_limit = nat (max 1 history_limit), at_entries = [], at_next = 1\<rparr>"

definition audit_append :: "audit_trail \<Rightarrow> audit_entry \<Rightarrow> audit_trail" where
  "audit_append t entry =
    t\<lparr>at_next := at_next t + 1, at_entries := evict_oldest (at_limit t) (at_entries t @ [entry\<lparr>au_seq := at_next t\<rparr>])\<rparr>"

definition audit_recent :: "audit_trail \<Rightarrow> int \<Rightarrow> audit_entry list" where
  "audit_recent t limit =
    (let capped = nat (max 0 limit) in if capped = 0 then [] else drop (length (at_entries t) - capped) (at_entries t))"

datatype event_kind = SnapshotEvent | CommandEvent | StateEvent | HeartbeatEvent

record 's api_state =
  as_service :: 's
  as_limiter :: rate_limiter
  as_store :: "(fingerprint, api_body) idem_store"
  as_events :: "(event_kind, control_command \<times> control_result \<times> bool) event_bus"
  as_audit :: audit_trail

record 's api_env =
  av_auth :: auth_config
  av_loopback :: "string \<Rightarrow> bool"
  av_targets :: control_api_service
  av_handle :: "control_command \<Rightarrow> 's \<Rightarrow> (control_result, 's) outcome"
  av_state_token :: "'s \<Rightarrow> string"

definition state_token_headers :: "'s api_env \<Rightarrow> 's api_state \<Rightarrow> (string \<times> string) list" where
  "state_token_headers e s =
    (let token = py_strip (av_state_token e (as_service s))
     in if token = '''' then [] else [(''ETag'', [char_of (34::nat)] @ token @ [char_of (34::nat)]), (''X-State-Token'', token)])"

definition record_audit ::
  "http_request \<Rightarrow> audit_command \<Rightarrow> control_result option \<Rightarrow> api_error option \<Rightarrow> bool \<Rightarrow> int \<Rightarrow> 's api_state \<Rightarrow> 's api_state" where
  "record_audit rq command result error replayed status s =
    s\<lparr>as_audit := audit_append (as_audit s)
       \<lparr>au_seq = 0, au_timestamp = rq_wall rq, au_transport = ''http'', au_scope = ''control'',
        au_client = client_host (rq_address rq), au_status = status, au_replayed = replayed, au_command = command,
        au_result = result, au_error = error\<rparr>\<rparr>"

definition publish_command_event :: "control_command \<Rightarrow> control_result \<Rightarrow> bool \<Rightarrow> 's api_state \<Rightarrow> 's api_state" where
  "publish_command_event command result replayed s =
    s\<lparr>as_events := snd (publish_event (as_events s) CommandEvent (command, result, replayed))\<rparr>"

section \<open>Reading the body\<close>

definition max_request_body_bytes :: int where
  "max_request_body_bytes = 64 * 1024"

definition content_length :: "http_request \<Rightarrow> http_reply + nat" where
  "content_length rq =
    (case int_of_text (case rq_length rq of None \<Rightarrow> ''0'' | Some t \<Rightarrow> t) of
       None \<Rightarrow> Inl (write_error (400, ''invalid_content_length'', ''Invalid Content-Length.''))
     | Some n \<Rightarrow>
         if n < 0 then Inl (write_error (400, ''invalid_content_length'', ''Content-Length must not be negative.''))
         else if max_request_body_bytes < n
         then Inl (write_error (413, ''payload_too_large'', ''JSON body exceeds the 65536-byte limit.''))
         else Inr (nat n))"

text \<open>Zero bytes read as the empty object.\<close>

definition parsed_json :: "http_request \<Rightarrow> nat \<Rightarrow> json_body" where
  "parsed_json rq n = (if n = 0 then JsonObject [] else rq_body rq n)"

definition read_json_payload :: "http_request \<Rightarrow> exc + (http_reply + (string \<times> pyval) list)" where
  "read_json_payload rq =
    (case content_length rq of
       Inl reply \<Rightarrow> Inr (Inl reply)
     | Inr n \<Rightarrow> (case parsed_json rq n of
         JsonObject payload \<Rightarrow> Inr (Inr payload)
       | JsonOther \<Rightarrow> Inr (Inl (write_error (400, ''invalid_payload'', ''JSON body must be an object.'')))
       | JsonInvalid \<Rightarrow> Inr (Inl (write_error (400, ''invalid_json'', ''Invalid JSON body.'')))
       | JsonRaises x \<Rightarrow> Inl x))"

definition tracked_payload :: "http_request \<Rightarrow> (string \<times> pyval) list \<Rightarrow> (string \<times> pyval) list" where
  "tracked_payload rq payload =
    (let command_id = (if payload_str payload ''command_id'' \<noteq> '''' then payload_str payload ''command_id''
           else py_strip (rq_command_id rq));
         key = (if payload_str payload ''idempotency_key'' \<noteq> '''' then payload_str payload ''idempotency_key''
           else py_strip (rq_key rq))
     in AList.update ''idempotency_key'' (PStr key)
          (AList.update ''command_id'' (PStr (if command_id \<noteq> '''' then command_id else rq_uuid rq)) payload))"

section \<open>Idempotency and rate limit\<close>

text \<open>A stored response to replay, or the conflict; a replay with a command and a result is announced again.\<close>

definition replayed_response ::
  "(string \<times> pyval) list \<Rightarrow> 's api_state \<Rightarrow> (int \<times> api_body) option \<times> 's api_state" where
  "replayed_response payload s =
    (let key = payload_str payload ''idempotency_key'' in
     if key = '''' then (None, s)
     else case idem_get (as_store s) key of
       (None, st) \<Rightarrow> (None, s\<lparr>as_store := st\<rparr>)
     | (Some (fingerprint, status, response), st) \<Rightarrow>
         if fingerprint \<noteq> idempotency_fingerprint payload
         then (Some (idempotency_conflict_response key), s\<lparr>as_store := st\<rparr>)
         else (Some (status, replayed_payload response),
           (case (ab_command response, ab_result response) of
              (Some command, Some result) \<Rightarrow> publish_command_event command result True (s\<lparr>as_store := st\<rparr>)
            | _ \<Rightarrow> s\<lparr>as_store := st\<rparr>)))"

definition cache_response ::
  "(string \<times> pyval) list \<Rightarrow> int \<Rightarrow> api_body \<Rightarrow> control_command \<Rightarrow> control_result \<Rightarrow> 's api_state \<Rightarrow> 's api_state" where
  "cache_response payload status response command result s =
    (let key = payload_str payload ''idempotency_key'' in
     if key = '''' then s
     else s\<lparr>as_store := idem_put (as_store s) key (idempotency_fingerprint payload) status
              (response\<lparr>ab_command := Some command, ab_result := Some result\<rparr>)\<rparr>)"

definition rate_limit_error ::
  "http_request \<Rightarrow> string \<Rightarrow> 's api_state \<Rightarrow> (int \<times> api_body \<times> (string \<times> string) list) option \<times> 's api_state" where
  "rate_limit_error rq command_name s =
    (let host = client_host (rq_address rq); client = (if host \<noteq> '''' then host else ''local'') in
     case allow_request (as_limiter s) client (rq_now rq) of
       ((False, retry), l) \<Rightarrow>
         (Some (throttled_response ''rate_limited'' ''Too many control requests in a short time window.'' retry), s\<lparr>as_limiter := l\<rparr>)
     | ((True, _), l) \<Rightarrow>
         (case allow_command l client command_name (rq_cooldown_now rq) of
            ((True, _), l') \<Rightarrow> (None, s\<lparr>as_limiter := l'\<rparr>)
          | ((False, retry), l') \<Rightarrow>
              (Some (throttled_response ''cooldown_active''
                 (''Command '' @ quoted command_name @ '' is temporarily cooling down.'') retry), s\<lparr>as_limiter := l'\<rparr>)))"

section \<open>Executing a command\<close>

definition handle_command :: "'s api_env \<Rightarrow> control_command \<Rightarrow> 's api_state \<Rightarrow> (control_result, 's api_state) outcome" where
  "handle_command e c s =
    (case av_handle e c (as_service s) of
       (Inl x, t) \<Rightarrow> (Inl x, s\<lparr>as_service := t\<rparr>)
     | (Inr r, t) \<Rightarrow> (Inr r, publish_command_event c r False (s\<lparr>as_service := t\<rparr>)))"

definition write_replayed_response ::
  "'s api_env \<Rightarrow> http_request \<Rightarrow> int \<times> api_body \<Rightarrow> 's api_state \<Rightarrow> (http_reply, 's api_state) outcome" where
  "write_replayed_response e rq replay s =
    (case replay of (status, response) \<Rightarrow>
       let s1 = record_audit rq (case ab_command response of Some c \<Rightarrow> AuditCommand c | None \<Rightarrow> NoAuditCommand)
             (ab_result response) (ab_error response) True status s
       in (Inr (write_json status response (state_token_headers e s1)), s1))"

definition write_validation_error ::
  "'s api_env \<Rightarrow> http_request \<Rightarrow> (string \<times> pyval) list \<Rightarrow> string \<Rightarrow> 's api_state \<Rightarrow> (http_reply, 's api_state) outcome" where
  "write_validation_error e rq payload message s =
    (let response = plain_error_payload (payload_error_code message) message;
         s1 = record_audit rq (AuditPayload payload) None (ab_error response) False 400 s
     in (Inr (write_json 400 response (state_token_headers e s1)), s1))"

definition write_rate_limit_error ::
  "'s api_env \<Rightarrow> http_request \<Rightarrow> control_command \<Rightarrow> int \<times> api_body \<times> (string \<times> string) list \<Rightarrow> 's api_state
    \<Rightarrow> (http_reply, 's api_state) outcome" where
  "write_rate_limit_error e rq c refusal s =
    (case refusal of (status, response, headers) \<Rightarrow>
       let s1 = record_audit rq (AuditCommand c) None (ab_error response) False status s
       in (Inr (write_json status response (state_token_headers e s1 @ headers)), s1))"

definition write_new_response ::
  "'s api_env \<Rightarrow> http_request \<Rightarrow> (string \<times> pyval) list \<Rightarrow> control_command \<Rightarrow> control_result \<Rightarrow> 's api_state
    \<Rightarrow> (http_reply, 's api_state) outcome" where
  "write_new_response e rq payload c r s =
    (case normalized_control_command_fields c of
       Inl x \<Rightarrow> (Inl x, s)
     | Inr cf \<Rightarrow> (case normalized_control_result_fields r of
         Inl x \<Rightarrow> (Inl x, s)
       | Inr rf \<Rightarrow>
           let status = http_status_for_result r; response = command_response_payload r False cf rf;
               s1 = cache_response payload status response cf rf s;
               s2 = record_audit rq (AuditCommand c) (Some r) (ab_error response) False status s1
           in (Inr (write_json status response (state_token_headers e s2)), s2)))"

text \<open>
  Parsing raises \<open>ValueError\<close> with its message, which becomes a 400, or another class, which leaves the handler: the
  server then drops the connection without a response.
\<close>

definition escaping :: "command_error \<Rightarrow> exc" where
  "escaping e = (case e of ValidationError _ \<Rightarrow> ValueErr | ConversionOverflow \<Rightarrow> OverflowErr | MessageKeyError \<Rightarrow> KeyError)"

definition execute_new ::
  "'s api_env \<Rightarrow> http_request \<Rightarrow> (string \<times> pyval) list \<Rightarrow> 's api_state
    \<Rightarrow> (http_reply + control_command \<times> control_result, 's api_state) outcome" where
  "execute_new e rq payload s =
    (case command_from_payload (av_targets e) payload FromHttp of
       Inl (ValidationError message) \<Rightarrow> and_then (write_validation_error e rq payload message s) (\<lambda>reply s. (Inr (Inl reply), s))
     | Inl x \<Rightarrow> (Inl (escaping x), s)
     | Inr parsed \<Rightarrow>
         let c = tracked_command payload parsed in
         (case rate_limit_error rq (cc_name c) s of
            (Some refusal, s1) \<Rightarrow> and_then (write_rate_limit_error e rq c refusal s1) (\<lambda>reply s. (Inr (Inl reply), s))
          | (None, s1) \<Rightarrow> and_then (handle_command e c s1) (\<lambda>r s. (Inr (Inr (c, r)), s))))"

definition write_command_result ::
  "'s api_env \<Rightarrow> http_request \<Rightarrow> (string \<times> pyval) list \<Rightarrow> 's api_state \<Rightarrow> (http_reply, 's api_state) outcome" where
  "write_command_result e rq payload s =
    (let request_payload = tracked_payload rq payload in
     case replayed_response request_payload s of
       (Some replay, s1) \<Rightarrow> write_replayed_response e rq replay s1
     | (None, s1) \<Rightarrow> and_then (execute_new e rq request_payload s1) (\<lambda>result s2.
         case result of Inl reply \<Rightarrow> (Inr reply, s2)
         | Inr (c, r) \<Rightarrow> write_new_response e rq request_payload c r s2))"

section \<open>Routing of a POST\<close>

definition post_target_error :: "string \<Rightarrow> access_error option" where
  "post_target_error path = (if path = ''/v1/control/command'' then None else Some (404, ''not_found'', ''Not found.''))"

definition post_access_error :: "'s api_env \<Rightarrow> http_request \<Rightarrow> exc + access_error option" where
  "post_access_error e rq =
    (case post_target_error (rq_path rq) of
       Some error \<Rightarrow> Inr (Some error)
     | None \<Rightarrow> (case locality_error (av_loopback e) (av_auth e) (rq_address rq) of
         Some error \<Rightarrow> Inr (Some error)
       | None \<Rightarrow> command_transport_auth_error (av_auth e) (rq_authorization rq)))"

definition concurrency_error :: "'s api_env \<Rightarrow> http_request \<Rightarrow> 's api_state \<Rightarrow> http_reply option" where
  "concurrency_error e rq s =
    (let current = py_strip (av_state_token e (as_service s)) in
     if state_conflict (rq_if_match rq) (rq_state_token rq) current
     then Some (write_json 409
       (optimistic_concurrency_payload (request_state_tokens (rq_if_match rq) (rq_state_token rq)) current) (state_token_headers e s))
     else None)"

definition command_guard_error ::
  "'s api_env \<Rightarrow> http_request \<Rightarrow> (string \<times> pyval) list \<Rightarrow> 's api_state \<Rightarrow> exc + http_reply option" where
  "command_guard_error e rq payload s =
    bind_result (command_auth_error (av_auth e) (rq_authorization rq) payload) (\<lambda>error.
      Inr (case error of Some x \<Rightarrow> Some (write_error x) | None \<Rightarrow> concurrency_error e rq s))"

definition handle_post :: "'s api_env \<Rightarrow> http_request \<Rightarrow> 's api_state \<Rightarrow> (http_reply, 's api_state) outcome" where
  "handle_post e rq s =
    (case post_access_error e rq of
       Inl x \<Rightarrow> (Inl x, s)
     | Inr (Some error) \<Rightarrow> (Inr (write_error error), s)
     | Inr None \<Rightarrow>
       (case read_json_payload rq of
          Inl x \<Rightarrow> (Inl x, s)
        | Inr (Inl reply) \<Rightarrow> (Inr reply, s)
        | Inr (Inr payload) \<Rightarrow>
          (case command_guard_error e rq payload s of
             Inl x \<Rightarrow> (Inl x, s)
           | Inr (Some reply) \<Rightarrow> (Inr reply, s)
           | Inr None \<Rightarrow> write_command_result e rq payload s)))"

end
