(* ===== verification/Control_Api_Props.thy ===== *)
theory Control_Api_Props
  imports Control_Api
begin

text \<open>
  What the operations of the command endpoint do to its state, what a stored response guarantees, and a concrete endpoint the
  examples run on.
\<close>

section \<open>What a request does to the idempotency store\<close>

lemma payload_str_update:
  "payload_str (AList.update k v m) j = (if j = k then py_strip (py_str v) else payload_str m j)"
  by (simp add: payload_str_def od_lookup_update)

text \<open>The idempotency key of a request: its body's, else its header's.\<close>

definition request_key :: "http_request \<Rightarrow> (string \<times> pyval) list \<Rightarrow> string" where
  "request_key rq payload =
    (if payload_str payload ''idempotency_key'' \<noteq> '''' then payload_str payload ''idempotency_key'' else py_strip (rq_key rq))"

lemma tracked_key [simp]: "payload_str (tracked_payload rq payload) ''idempotency_key'' = request_key rq payload"
  by (simp add: tracked_payload_def payload_str_update request_key_def Let_def) (simp add: payload_str_def split: option.splits)

lemma record_audit_fields [simp]:
  "as_service (record_audit rq c r x b n s) = as_service s" "as_store (record_audit rq c r x b n s) = as_store s"
  "as_limiter (record_audit rq c r x b n s) = as_limiter s" "as_events (record_audit rq c r x b n s) = as_events s"
  by (simp_all add: record_audit_def)

lemma publish_command_event_fields [simp]:
  "as_service (publish_command_event c r b s) = as_service s" "as_store (publish_command_event c r b s) = as_store s"
  "as_limiter (publish_command_event c r b s) = as_limiter s"
  by (simp_all add: publish_command_event_def)

lemma state_token_headers_cong: "as_service s = as_service t \<Longrightarrow> state_token_headers e s = state_token_headers e t"
  by (simp add: state_token_headers_def)

lemma rate_limit_error_fields [simp]:
  "as_service (snd (rate_limit_error rq c s)) = as_service s" "as_store (snd (rate_limit_error rq c s)) = as_store s"
  by (auto simp: rate_limit_error_def Let_def split: prod.splits bool.splits)

lemma replayed_response_fields [simp]:
  "as_service (snd (replayed_response p s)) = as_service s" "as_limiter (snd (replayed_response p s)) = as_limiter s"
  "as_store (snd (replayed_response p s)) =
    (if payload_str p ''idempotency_key'' = '''' then as_store s
     else snd (idem_get (as_store s) (payload_str p ''idempotency_key'')))"
  by (auto simp: replayed_response_def Let_def split: prod.splits option.splits)

text \<open>
  Every request with key \<open>k\<close> leaves the store alone, looks \<open>k\<close> up, or looks it up in vain and then stores one response.
\<close>

definition store_effect :: "string \<Rightarrow> ('f, 'r) idem_store \<Rightarrow> ('f, 'r) idem_store \<Rightarrow> bool" where
  "store_effect k st st' \<longleftrightarrow> st' = st \<or> (k \<noteq> '''' \<and> (st' = snd (idem_get st k)
    \<or> (map_of (is_entries st) k = None \<and> (\<exists>f status r. st' = idem_put st k f status r))))"

lemma idem_get_None: "fst (idem_get st k) = None \<longleftrightarrow> map_of (is_entries st) k = None"
  by (simp add: idem_get_def split: option.splits)

lemma idem_get_missing: "map_of (is_entries st) k = None \<Longrightarrow> idem_get st k = (None, st)"
  by (simp add: idem_get_def)

lemma rate_limit_error_out:
  "rate_limit_error rq c s = (x, t) \<Longrightarrow> as_service t = as_service s \<and> as_store t = as_store s"
  using rate_limit_error_fields [of rq c s] by simp

lemma handle_command_out:
  "handle_command e c s = (x, t) \<Longrightarrow> as_store t = as_store s \<and> as_limiter t = as_limiter s"
  by (auto simp: handle_command_def split: prod.splits sum.splits)

lemma execute_new_store: "as_store (snd (execute_new e rq p s)) = as_store s"
  by (auto simp: execute_new_def write_validation_error_def write_rate_limit_error_def Let_def and_then_def
      dest!: handle_command_out rate_limit_error_out split: sum.splits prod.splits option.splits command_error.splits)

lemma write_new_response_store:
  assumes "payload_str p ''idempotency_key'' = k" "k \<noteq> '''' \<Longrightarrow> map_of (is_entries (as_store s)) k = None"
  shows "store_effect k (as_store s) (as_store (snd (write_new_response e rq p c r s)))"
  using assms
  by (cases "k = ''''") (auto simp: write_new_response_def cache_response_def store_effect_def Let_def split: sum.splits)

lemma write_command_result_store:
  "store_effect (request_key rq payload) (as_store s) (as_store (snd (write_command_result e rq payload s)))"
proof -
  let ?p = "tracked_payload rq payload" and ?k = "request_key rq payload"
  obtain replay s1 where r: "replayed_response ?p s = (replay, s1)" by (cases "replayed_response ?p s")
  then have s1: "as_store s1 = (if ?k = '''' then as_store s else snd (idem_get (as_store s) ?k))"
    using replayed_response_fields(3) [of ?p s] by simp
  show ?thesis
  proof (cases replay)
    case (Some x)
    then show ?thesis
      using s1 by (auto simp: write_command_result_def r write_replayed_response_def store_effect_def Let_def split: prod.splits)
  next
    case None
    have missing: "?k \<noteq> '''' \<Longrightarrow> map_of (is_entries (as_store s)) ?k = None"
      using r None by (auto simp: replayed_response_def Let_def idem_get_def split: option.splits prod.splits if_splits)
    then have same: "as_store s1 = as_store s"
      using s1 by (auto simp: idem_get_missing)
    obtain x s2 where x: "execute_new e rq ?p s1 = (x, s2)" by (cases "execute_new e rq ?p s1")
    have s2: "as_store s2 = as_store s" using execute_new_store [of e rq ?p s1] same by (simp add: x)
    have "store_effect ?k (as_store s) (as_store (snd (write_new_response e rq ?p c result s2)))" for c result
      using write_new_response_store [of ?p ?k s2 e rq c result] missing by (simp add: s2)
    moreover have "store_effect ?k (as_store s) (as_store s2)" by (simp add: s2 store_effect_def)
    ultimately show ?thesis
      by (simp add: write_command_result_def r None x and_then_def Let_def split: sum.splits prod.splits)
  qed
qed

section \<open>Retries\<close>

definition post_key :: "http_request \<Rightarrow> string" where
  "post_key rq = (case read_json_payload rq of Inr (Inr payload) \<Rightarrow> request_key rq payload | _ \<Rightarrow> '''')"

definition serve :: "'s api_env \<Rightarrow> http_request list \<Rightarrow> 's api_state \<Rightarrow> 's api_state" where
  "serve e rqs s = foldl (\<lambda>s rq. snd (handle_post e rq s)) s rqs"

lemma store_effect_refl [simp]: "store_effect k st st"
  by (simp add: store_effect_def)

lemma handle_post_store: "store_effect (post_key rq) (as_store s) (as_store (snd (handle_post e rq s)))"
proof (cases "post_access_error e rq")
  case (Inr r)
  show ?thesis
  proof (cases "\<exists>payload. read_json_payload rq = Inr (Inr payload)")
    case True
    then obtain payload where "read_json_payload rq = Inr (Inr payload)" ..
    then show ?thesis
      using write_command_result_store [of rq payload s e] Inr
      by (auto simp: handle_post_def post_key_def split: option.splits sum.splits)
  qed (use Inr in \<open>auto simp: handle_post_def split: option.splits sum.splits\<close>)
qed (simp add: handle_post_def)

lemma survives_effect:
  assumes "survives st k entry T" "store_effect j st st'" "j = '''' \<or> j = k \<or> j \<in> T" "finite T" "card T < is_limit st"
  shows "survives st' k entry T \<and> is_limit st' = is_limit st"
proof -
  consider "st' = st" | "j \<noteq> ''''" "st' = snd (idem_get st j)"
    | f status r where "j \<noteq> ''''" "map_of (is_entries st) j = None" "st' = idem_put st j f status r"
    using assms(2) unfolding store_effect_def by blast
  then show ?thesis
  proof cases
    case 2
    with assms(1,3) survives_get [of st k entry T j] show ?thesis by auto
  next
    case 3
    with assms(1) have "j \<noteq> k" by (auto simp: survives_def)
    with 3 assms survives_put_other [of st k entry T j] show ?thesis by auto
  qed (use assms(1) in simp)
qed

lemma survives_serve:
  assumes "survives (as_store s) k entry T" "finite T" "card T < is_limit (as_store s)"
    and "\<forall>rq\<in>set rqs. post_key rq = '''' \<or> post_key rq = k \<or> post_key rq \<in> T"
  shows "survives (as_store (serve e rqs s)) k entry T"
  using assms
proof (induction rqs arbitrary: s)
  case (Cons rq rqs)
  from survives_effect [OF Cons.prems(1) handle_post_store [of rq s e] _ Cons.prems(2,3)] Cons.prems(4)
  have "survives (as_store (snd (handle_post e rq s))) k entry T"
    "is_limit (as_store (snd (handle_post e rq s))) = is_limit (as_store s)" by auto
  with Cons.IH [of "snd (handle_post e rq s)"] Cons.prems show ?case by (simp add: serve_def)
qed (simp add: serve_def)

lemma fingerprint_tracked [simp]: "idempotency_fingerprint (tracked_payload rq payload) = idempotency_fingerprint payload"
proof -
  have "filter P (AList.update k v m) = filter P m" if "\<And>w. \<not> P (k, w)" for P k v and m :: "(string \<times> pyval) list"
    using that by (induction m) auto
  then show ?thesis by (simp add: idempotency_fingerprint_def tracked_payload_def Let_def)
qed

text \<open>An answer that carries a fresh result was executed, and stored under the key.\<close>

lemma write_new_response_stored:
  assumes "write_new_response e rq p c r s = (Inr reply, t)" "payload_str p ''idempotency_key'' = k" "k \<noteq> ''''"
  shows "as_store t = idem_put (as_store s) k (idempotency_fingerprint p) (hr_status reply) (hr_body reply)"
proof -
  have [simp]: "command_response_payload r x cf rf\<lparr>ab_command := Some cf, ab_result := Some rf\<rparr> = command_response_payload r x cf rf"
    for x cf rf by (simp add: command_response_payload_def command_api_response_def)
  show ?thesis
    using assms by (auto simp: write_new_response_def cache_response_def write_json_def Let_def split: sum.splits)
qed

lemma execute_new_refusal:
  assumes "execute_new e rq p s = (Inr (Inl reply), t)"
  shows "ab_result (hr_body reply) = None"
  using assms
  by (auto simp: execute_new_def write_validation_error_def write_rate_limit_error_def plain_error_payload_def write_json_def
      rate_limit_error_def throttled_response_def command_api_response_def Let_def and_then_def handle_command_def
      split: sum.splits prod.splits option.splits command_error.splits bool.splits)

lemma fresh_answer_stored:
  assumes "write_command_result e rq payload s = (Inr reply, t)" "ab_result (hr_body reply) \<noteq> None"
    and "\<not> ab_replayed (hr_body reply)" "request_key rq payload = k" "k \<noteq> ''''"
  shows "as_store t = idem_put (as_store s) k (idempotency_fingerprint payload) (hr_status reply) (hr_body reply)"
proof -
  let ?p = "tracked_payload rq payload"
  obtain replay s1 where r: "replayed_response ?p s = (replay, s1)" by (cases "replayed_response ?p s")
  have None: "replay = None"
  proof (rule ccontr)
    assume "replay \<noteq> None"
    then obtain status b where rep: "replay = Some (status, b)" by auto
    then have "ab_replayed b \<or> ab_result b = None"
      using r by (auto simp: replayed_response_def replayed_payload_def idempotency_conflict_response_def command_api_response_def
          Let_def split: if_splits option.splits prod.splits)
    moreover have "hr_body reply = b"
      using assms(1) by (simp add: write_command_result_def r rep write_replayed_response_def write_json_def Let_def) auto
    ultimately show False using assms(2,3) by simp
  qed
  have missing: "map_of (is_entries (as_store s)) k = None"
    using r None assms(4,5) by (auto simp: replayed_response_def Let_def idem_get_def split: option.splits prod.splits if_splits)
  then have same: "as_store s1 = as_store s"
    using replayed_response_fields(3) [of ?p s] r assms(4,5) by (simp add: idem_get_missing)
  obtain a s2 where a: "execute_new e rq ?p s1 = (Inr a, s2)"
    using assms(1) by (auto simp: write_command_result_def r None Let_def and_then_cases)
  then obtain c result where cr: "a = Inr (c, result)"
    using assms(1,2) execute_new_refusal [of e rq ?p s1]
    by (cases a) (auto simp: write_command_result_def r None Let_def)
  have x: "execute_new e rq ?p s1 = (Inr (Inr (c, result)), s2)"
    and w: "write_new_response e rq ?p c result s2 = (Inr reply, t)"
    using assms(1) a by (simp_all add: write_command_result_def r None Let_def cr)
  have "as_store s2 = as_store s" using execute_new_store [of e rq ?p s1] same by (simp add: x)
  with write_new_response_stored [OF w _ assms(5)] assms(4) show ?thesis by simp
qed

lemma stored_answer:
  assumes "survives (as_store s) k (fingerprint, status, response) T" "request_key rq payload = k" "k \<noteq> ''''"
  shows "\<exists>reply t. write_command_result e rq payload s = (Inr reply, t)
    \<and> as_service t = as_service s \<and> as_limiter t = as_limiter s
    \<and> (if idempotency_fingerprint payload = fingerprint
       then hr_status reply = status \<and> hr_body reply = response\<lparr>ab_replayed := True\<rparr>
       else hr_status reply = 409 \<and> map_option ae_code (ab_error (hr_body reply)) = Some ''idempotency_conflict'')"
proof -
  let ?p = "tracked_payload rq payload"
  obtain st where get: "idem_get (as_store s) k = (Some (fingerprint, status, response), st)"
    using assms(1) by (auto simp: survives_def idem_get_def)
  define replay where "replay = (if idempotency_fingerprint payload = fingerprint then (status, replayed_payload response)
    else idempotency_conflict_response k)"
  have "fst (replayed_response ?p s) = Some replay"
    using get assms(2,3) by (simp add: replayed_response_def replay_def Let_def)
  then obtain s1 where r: "replayed_response ?p s = (Some replay, s1)" by (metis prod.collapse)
  have "as_service s1 = as_service s" "as_limiter s1 = as_limiter s"
    using replayed_response_fields(1,2) [of ?p s] r by simp_all
  then show ?thesis
    by (simp add: write_command_result_def r write_replayed_response_def write_json_def Let_def split: prod.split)
      (auto simp: replay_def replayed_payload_def idempotency_conflict_response_def command_api_response_def error_payload_def Let_def)
qed

lemma executed_answer:
  assumes "handle_post e rq s = (Inr reply, s1)" "read_json_payload rq = Inr (Inr payload)" "ab_result (hr_body reply) \<noteq> None"
  shows "write_command_result e rq payload s = (Inr reply, s1) \<and> post_access_error e rq = Inr None
    \<and> command_guard_error e rq payload s = Inr None"
proof -
  have no_result: "ab_result (hr_body (write_error x)) = None" for x
    by (simp add: write_error_def write_json_def plain_error_payload_def split: prod.splits)
  have "ab_result (hr_body r) = None" if "command_guard_error e rq payload s = Inr (Some r)" for r
    using that by (auto simp: command_guard_error_def bind_result_Inr no_result concurrency_error_def write_json_def
        optimistic_concurrency_payload_def command_api_response_def Let_def split: option.splits if_splits)
  then show ?thesis
    using assms no_result by (auto simp: handle_post_def split: sum.splits option.splits)
qed

lemma command_guard_None:
  "command_guard_error e rq payload s = Inr None \<longleftrightarrow>
    command_auth_error (av_auth e) (rq_authorization rq) payload = Inr None \<and> concurrency_error e rq s = None"
proof (cases "command_auth_error (av_auth e) (rq_authorization rq) payload")
  case (Inr error)
  then show ?thesis by (cases error) (simp_all add: command_guard_error_def)
qed (simp add: command_guard_error_def)

text \<open>A concrete endpoint: no tokens, local clients only, a write controller that applies every command and counts.\<close>

definition counting_handle :: "control_command \<Rightarrow> nat \<Rightarrow> (control_result, nat) outcome" where
  "counting_handle c n = (Inr (applied_result c '''' False), n + 1)"

definition counting_env :: "nat api_env" where
  "counting_env = \<lparr>av_auth = \<lparr>ac_auth = '''', ac_read = '''', ac_control = '''', ac_admin = '''', ac_update = '''',
       ac_localhost_only = True, ac_unix_socket = ''''\<rparr>, av_loopback = (\<lambda>h. h = ''127.0.0.1''),
     av_targets = \<lparr>cas_current = control_current_setting_targets, cas_auto = control_auto_runtime_targets\<rparr>,
     av_handle = counting_handle, av_state_token = (\<lambda>n. if n = 0 then ''t0'' else ''t1'')\<rparr>"

definition fresh_api :: "int \<Rightarrow> nat api_state" where
  "fresh_api limit = \<lparr>as_service = 0, as_limiter = rate_limiter_new 30 5 2, as_store = idem_store_new limit,
     as_events = event_bus_new 10, as_audit = audit_trail_new 10\<rparr>"

definition command_post :: "string \<Rightarrow> string \<Rightarrow> string \<Rightarrow> pyval \<Rightarrow> http_request" where
  "command_post key if_match name v = \<lparr>rq_path = ''/v1/control/command'', rq_address = Some ''127.0.0.1'',
     rq_authorization = None, rq_command_id = '''', rq_key = key, rq_if_match = if_match, rq_state_token = '''',
     rq_length = Some ''40'', rq_body = (\<lambda>_. JsonObject [(''name'', PStr name), (''value'', v)]), rq_uuid = ''u'',
     rq_now = 0, rq_cooldown_now = 0, rq_wall = 0\<rparr>"

definition mode_post :: "string \<Rightarrow> int \<Rightarrow> http_request" where
  "mode_post key mode = command_post key '''' ''set_mode'' (PInt mode)"

lemma command_post_body:
  "read_json_payload (command_post key tag name v) = Inr (Inr [(''name'', PStr name), (''value'', v)])"
proof -
  have "int_of_text ''40'' = Some 40" by code_simp
  then show ?thesis
    by (simp add: read_json_payload_def command_post_def content_length_def max_request_body_bytes_def parsed_json_def)
qed

lemma mode_post_body:
  "read_json_payload (mode_post key mode) = Inr (Inr [(''name'', PStr ''set_mode''), (''value'', PInt mode)])"
  by (simp add: mode_post_def command_post_body)

end
