(* ===== verification/Control_Api_Claims.thy ===== *)
theory Control_Api_Claims
  imports Control_Api_Props
begin

text \<open>
  What a client of the command endpoint can rely on when it retries under an idempotency key, and where the state token
  gets in the way.
\<close>



text \<open>
  A retry does not get its stored answer when it follows the recommended write flow: the state token is
  checked before the idempotency key is looked up.  Once an executed command has moved the state token, the very same
  request (same key, same payload, same If-Match header) is answered with the 409 conflict although its response is stored.
\<close>

theorem guarded_retry_is_refused:
  assumes "handle_post e rq s = (Inr reply, s1)" "ab_result (hr_body reply) \<noteq> None" "\<not> ab_replayed (hr_body reply)"
    and "read_json_payload rq = Inr (Inr payload)" "request_key rq payload = k" "k \<noteq> ''''" "0 < is_limit (as_store s)"
    and "state_conflict (rq_if_match rq) (rq_state_token rq) (py_strip (av_state_token e (as_service s1)))"
  shows "fst (idem_get (as_store s1) k) = Some (idempotency_fingerprint payload, hr_status reply, hr_body reply)
    \<and> (\<exists>refusal. handle_post e rq s1 = (Inr refusal, s1) \<and> hr_status refusal = 409
      \<and> \<not> ab_replayed (hr_body refusal) \<and> map_option ae_code (ab_error (hr_body refusal)) = Some ''conflict'')"
proof -
  note first = executed_answer [OF assms(1,4,2)]
  then have "as_store s1 = idem_put (as_store s) k (idempotency_fingerprint payload) (hr_status reply) (hr_body reply)"
    by (intro fresh_answer_stored [of e rq payload s, OF _ assms(2,3,5,6)]) simp
  with assms(7) have stored: "fst (idem_get (as_store s1) k) = Some (idempotency_fingerprint payload, hr_status reply, hr_body reply)"
    by (simp add: idem_get_def idem_put_def idem_insert_lookup)
  have "command_auth_error (av_auth e) (rq_authorization rq) payload = Inr None"
    using first by (simp add: command_guard_None)
  then have "\<exists>refusal. command_guard_error e rq payload s1 = Inr (Some refusal) \<and> hr_status refusal = 409
      \<and> \<not> ab_replayed (hr_body refusal) \<and> map_option ae_code (ab_error (hr_body refusal)) = Some ''conflict''"
    using assms(8) by (simp add: command_guard_error_def concurrency_error_def Let_def write_json_def
        optimistic_concurrency_payload_def command_api_response_def error_payload_def)
  with stored first assms(4) show ?thesis by (auto simp: handle_post_def)
qed

theorem guarded_retry_is_refused_witness:
  "let rq = command_post ''k'' ''t0'' ''set_mode'' (PInt 1); s1 = snd (handle_post counting_env rq (fresh_api 2))
   in fst (idem_get (as_store s1) ''k'') \<noteq> None
     \<and> (\<exists>refusal. handle_post counting_env rq s1 = (Inr refusal, s1) \<and> hr_status refusal = 409)"
proof -
  let ?rq = "command_post ''k'' ''t0'' ''set_mode'' (PInt 1)" and ?p = "[(''name'', PStr ''set_mode''), (''value'', PInt 1)]"
  let ?h = "handle_post counting_env ?rq (fresh_api 2)"
  have "case fst ?h of Inr reply \<Rightarrow> ab_result (hr_body reply) \<noteq> None \<and> \<not> ab_replayed (hr_body reply) | _ \<Rightarrow> False" by code_simp
  then obtain reply where h: "?h = (Inr reply, snd ?h)" "ab_result (hr_body reply) \<noteq> None" "\<not> ab_replayed (hr_body reply)"
    by (cases "fst ?h") (auto simp: prod_eq_iff)
  have key: "request_key ?rq ?p = ''k''" by code_simp
  have "state_conflict (rq_if_match ?rq) (rq_state_token ?rq) (py_strip (av_state_token counting_env (as_service (snd ?h))))"
    "0 < is_limit (as_store (fresh_api 2))" by code_simp+
  with guarded_retry_is_refused [OF h command_post_body key] show ?thesis by (auto simp: Let_def)
qed

end
