(* ===== verification/Control_Api_Port.thy ===== *)
theory Control_Api_Port
  imports Control_Api_Props Control_Write_Props
begin

text \<open>
  The interface between the command endpoint and the write controller, and the possible outcomes of a command.
\<close>

section \<open>The write controller as the port of the API\<close>

lemma new_response_written:
  assumes "res_command r = c" "cc_name c \<in> set control_command_names" "py_strip (cc_name c) = cc_name c"
  shows "\<exists>reply u. write_new_response e rq p c r t = (Inr reply, u) \<and> hr_status reply = http_status_for_result r
    \<and> map_option res_status (ab_result (hr_body reply)) = Some (res_status r) \<and> ab_replayed (hr_body reply) = False
    \<and> as_service u = as_service t"
proof -
  have "normalized_control_command_fields c \<noteq> Inl x" for x
    using assms(2,3) by (simp add: normalized_control_command_fields_def del: control_tables)
  then obtain cf where cf: "normalized_control_command_fields c = Inr cf" by (cases "normalized_control_command_fields c") auto
  then have "\<exists>rf. normalized_control_result_fields r = Inr rf \<and> res_status rf = res_status r"
    using assms(1) by (simp add: normalized_control_result_fields_def split: command_status.splits)
  with cf show ?thesis
    by (auto simp: write_new_response_def Let_def write_json_def command_response_payload_def command_api_response_def cache_response_def)
qed

text \<open>What the endpoint relies on: a result answers the command it was called with.\<close>

locale command_port =
  fixes handle :: "control_command \<Rightarrow> 's \<Rightarrow> (control_result, 's) outcome"
  assumes answers_its_command: "handle c s = (Inr r, t) \<Longrightarrow> res_command r = c"
begin

lemma handled_fields:
  assumes "handle_command e c s = (Inr r, t)" "av_handle e = handle"
  shows "res_command r = c"
proof -
  obtain x u where h: "handle c (as_service s) = (x, u)" by (cases "handle c (as_service s)")
  with assms have "x = Inr r" by (simp add: handle_command_def split: sum.splits)
  with h show ?thesis by (auto intro: answers_its_command)
qed

lemma response_written:
  assumes "handle_command e c s = (Inr r, t)" "av_handle e = handle" "cc_name c \<in> set control_command_names"
    "py_strip (cc_name c) = cc_name c"
  shows "\<exists>reply u. write_new_response e rq p c r t = (Inr reply, u)"
  using new_response_written [OF handled_fields [OF assms(1,2)] assms(3,4)] by blast

end

lemma handle_answers:
  assumes "handle_control_command we c s = (Inr r, t)"
  shows "res_command r = c"
  using assms
  by (auto simp: handle_control_command_def command_transaction_def command_failed_def applied_result_def rejected_result_def
      accepted_in_flight_result_def and_then_cases Let_def split: prod.splits sum.splits if_splits)

interpretation port: command_port "handle_control_command we" for we :: "'p write_env"
  by unfold_locales (rule handle_answers)

section \<open>Parsing and tracking\<close>

lemma parsed_name:
  assumes "command_from_payload sv p src = Inr c"
  shows "cc_name c = payload_str p ''name''" "cc_name c \<in> set control_command_names"
    "cc_command_id c = payload_str p ''command_id''" "cc_key c = payload_str p ''idempotency_key''"
  using assms
  by (auto simp: command_from_payload_def command_from_named_payload_def bind_result_Inr validated_command_name_def
      is_command_name_def Let_def simp del: control_tables split: if_splits)

lemma tracked_parsed: "command_from_payload sv p src = Inr c \<Longrightarrow> tracked_command p c = c"
  using parsed_name(3,4) [of sv p src c] by (auto simp: tracked_command_def Let_def)

lemma tracked_name: "payload_str (tracked_payload rq payload) ''name'' = payload_str payload ''name''"
  by (simp add: tracked_payload_def payload_str_update Let_def)

lemma name_stripped: "command_from_payload sv p src = Inr c \<Longrightarrow> py_strip (cc_name c) = cc_name c"
  by (cases "map_of p ''name''") (simp_all add: parsed_name(1) payload_str_def, simp add: py_strip_def)

lemma command_has_scope:
  "name \<in> set control_command_names \<Longrightarrow> \<exists>scope. map_of command_scope_requirements name = Some scope"
  by (auto simp: command_scope_requirements_def)

text \<open>Every command of the registry finds its message, so the lookup never fails.\<close>

lemma converted_no_key: "converted m x \<noteq> Inl MessageKeyError"
  by (cases x) auto

lemma numeric_no_key: "is_non_negative_numeric v \<noteq> Inl MessageKeyError"
  using converted_no_key by (auto simp: is_non_negative_numeric_def bind_result_def split: sum.splits)

lemma text_no_key: "valid_auto_runtime_text target v \<noteq> Inl MessageKeyError"
  by (auto simp: valid_auto_runtime_text_def is_valid_hour_minute_def hour_in_range_def minute_in_range_def bind_result_def
      split: list.splits option.splits sum.splits)

lemma runtime_no_key: "auto_runtime_value_validator target v \<noteq> Inl MessageKeyError"
  using numeric_no_key [of v] text_no_key [of target "py_str v"] converted_no_key [of _ "py_float v"]
  by (auto simp: auto_runtime_value_validator_def bind_result_def split: option.splits value_kind.splits sum.splits)

lemma value_no_key:
  assumes "name \<in> set control_command_names"
  shows "validate_command_value name target v \<noteq> Inl MessageKeyError"
proof -
  have "command_value_validator name target v \<noteq> Inl MessageKeyError"
    using numeric_no_key [of v] runtime_no_key [of target v] by (simp add: command_value_validator_def del: control_tables)
  moreover have "command_value_error name target \<noteq> None"
    using assms unfolding control_tables list.set insert_iff empty_iff
    by (elim disjE) (simp_all add: command_value_error_def)
  ultimately show ?thesis
    by (auto simp: validate_command_value_def bind_result_def simp del: control_tables split: sum.splits option.splits)
qed

lemma no_message_key_error: "command_from_payload sv p src \<noteq> Inl MessageKeyError"
proof -
  have target: "resolved_command_target sv name p \<noteq> Inl MessageKeyError" for name
    by (auto simp: resolved_command_target_def validate_command_target_def bind_result_def Let_def
        simp del: control_tables split: option.splits sum.splits)
  have keys: "reject_extra_keys p ks \<noteq> Inl MessageKeyError" for ks
    by (auto simp: reject_extra_keys_def Let_def)
  show ?thesis
    using target keys value_no_key
    by (auto simp: command_from_payload_def command_from_named_payload_def bind_result_def Let_def validated_command_name_def
        is_command_name_def simp del: control_tables split: sum.splits if_splits)
qed

section \<open>The outcomes of a command\<close>

definition unstored :: "'s api_state \<Rightarrow> string \<Rightarrow> bool" where
  "unstored s key \<longleftrightarrow> key = '''' \<or> map_of (is_entries (as_store s)) key = None"

lemma replayed_response_None:
  "fst (replayed_response p s) = None \<longleftrightarrow> unstored s (payload_str p ''idempotency_key'')"
  by (auto simp: replayed_response_def unstored_def idem_get_def Let_def split: option.splits prod.splits)

lemma rate_limit_error_cong:
  "as_limiter s = as_limiter t \<Longrightarrow> fst (rate_limit_error rq n s) = fst (rate_limit_error rq n t)"
  by (simp add: rate_limit_error_def Let_def split: prod.splits bool.splits)

lemma write_new_response_service: "as_service (snd (write_new_response e rq p c r s)) = as_service s"
  by (auto simp: write_new_response_def cache_response_def Let_def split: sum.splits)

lemma command_result_cases:
  assumes w: "write_command_result e rq payload s = (x, s')"
  obtains (quiet) "\<not> isl x" "as_service s' = as_service s"
        "\<not> unstored s (request_key rq payload)
          \<or> (case command_from_payload (av_targets e) (tracked_payload rq payload) FromHttp of
               Inl err \<Rightarrow> err \<noteq> ConversionOverflow | Inr c \<Rightarrow> fst (rate_limit_error rq (cc_name c) s) \<noteq> None)"
    | (overflow) "x = Inl OverflowErr" "as_service s' = as_service s" "unstored s (request_key rq payload)"
        "command_from_payload (av_targets e) (tracked_payload rq payload) FromHttp = Inl ConversionOverflow"
    | (executed) c s1 result t where "unstored s (request_key rq payload)"
        "command_from_payload (av_targets e) (tracked_payload rq payload) FromHttp = Inr c"
        "fst (rate_limit_error rq (cc_name c) s) = None" "as_service s1 = as_service s"
        "handle_command e c s1 = (result, t)" "as_service s' = as_service t"
        "\<And>y. result = Inl y \<Longrightarrow> x = Inl y"
        "\<And>r. result = Inr r \<Longrightarrow> write_new_response e rq (tracked_payload rq payload) c r t = (x, s')"
proof -
  let ?p = "tracked_payload rq payload"
  obtain replay s0 where r: "replayed_response ?p s = (replay, s0)" by (cases "replayed_response ?p s")
  have s0: "as_service s0 = as_service s" "as_limiter s0 = as_limiter s"
    using replayed_response_fields(1,2) [of ?p s] r by simp_all
  show thesis
  proof (cases replay)
    case (Some y)
    moreover from this have "\<not> unstored s (request_key rq payload)" using replayed_response_None [of ?p s] by (simp add: r)
    ultimately show thesis
      using w s0 by (intro quiet) (auto simp: write_command_result_def r write_replayed_response_def Let_def split: prod.splits)
  next
    case None
    then have un: "unstored s (request_key rq payload)" using replayed_response_None [of ?p s] by (simp add: r)
    show thesis
    proof (cases "command_from_payload (av_targets e) ?p FromHttp")
      case (Inl err)
      show thesis
      proof (cases err)
        case (ValidationError m)
        with w s0 Inl show thesis
          by (intro quiet) (auto simp: write_command_result_def r None execute_new_def write_validation_error_def Let_def)
      next
        case ConversionOverflow
        with w s0 Inl un show thesis
          by (intro overflow) (auto simp: write_command_result_def r None execute_new_def escaping_def Let_def)
      qed (use Inl no_message_key_error [of "av_targets e" ?p FromHttp] in simp)
    next
      case (Inr c)
      obtain refusal s1 where rl: "rate_limit_error rq (cc_name c) s0 = (refusal, s1)" by (metis prod.collapse)
      then have s1: "as_service s1 = as_service s" using rate_limit_error_out [OF rl] s0 by simp
      have rate: "fst (rate_limit_error rq (cc_name c) s) = refusal"
        using rate_limit_error_cong [OF s0(2), of rq "cc_name c"] rl by simp
      show thesis
      proof (cases refusal)
        case (Some y)
        with w Inr rl s1 rate show thesis
          by (intro quiet)
            (auto simp: write_command_result_def r None execute_new_def tracked_parsed write_rate_limit_error_def Let_def split: prod.splits)
      next
        case ok: None
        obtain result t where h: "handle_command e c s1 = (result, t)" by (cases "handle_command e c s1")
        have "fst (rate_limit_error rq (cc_name c) s) = None" using rate ok by simp
        moreover have "result = Inl y \<Longrightarrow> x = Inl y \<and> s' = t" for y
          using w Inr rl ok h by (simp add: write_command_result_def r None execute_new_def tracked_parsed Let_def)
        moreover have "result = Inr y \<Longrightarrow> write_new_response e rq ?p c y t = (x, s')" for y
          using w Inr rl ok h by (simp add: write_command_result_def r None execute_new_def tracked_parsed Let_def)
        moreover have "as_service s' = as_service t"
          using calculation(2,3) write_new_response_service [of e rq ?p c _ t] by (cases result) (force, metis snd_conv)
        ultimately show thesis using un Inr s1 h by (intro executed) auto
      qed
    qed
  qed
qed

lemma handle_command_service: "handle_command e c s = (x, t) \<Longrightarrow> as_service t = snd (av_handle e c (as_service s))"
  by (auto simp: handle_command_def split: prod.splits sum.splits)

lemma execute_new_service:
  assumes "execute_new e rq p s = (Inr (Inr (c, r)), t)"
  shows "as_service t = snd (av_handle e c (as_service s))"
  using assms
  by (auto simp: execute_new_def write_validation_error_def write_rate_limit_error_def Let_def and_then_cases
      dest!: handle_command_service rate_limit_error_out split: sum.splits prod.splits option.splits command_error.splits)

lemma missing_lookup:
  assumes "payload_str p ''idempotency_key'' = k" "map_of (is_entries (as_store s)) k = None"
  shows "replayed_response p s = (None, s)"
  using assms by (simp add: replayed_response_def idem_get_def Let_def)

end
