(* ===== verification/Control_Api_Safety.thy ===== *)
theory Control_Api_Safety
  imports Control_Api_Port
begin

text \<open>
  The gates before a command, and when a request stays without an answer.
\<close>

section \<open>The gates\<close>

lemma command_scope_of_parsed:
  assumes "command_from_payload sv (tracked_payload rq payload) src = Inr c"
  shows "map_of command_scope_requirements (cc_name c) = Some (required_scope_for_command payload)"
  using command_has_scope [OF parsed_name(2) [OF assms]] parsed_name(1) [OF assms]
  by (auto simp: required_scope_for_command_def tracked_name split: option.splits)

text \<open>
  Claim C6.  The service is touched only behind every gate: if a POST changes it, then the path is the command
  path, the peer is local where that is required, the authorization covers the scope of the very command that is executed,
  no stale state token was sent, the key has no stored response, and neither the request limit nor the cool-down refused it; and
  the change is that one command handed to the write controller, once.
\<close>

theorem post_needs_every_gate:
  assumes "handle_post e rq s = (x, s')" "as_service s' \<noteq> as_service s"
  shows "\<exists>payload c scope. rq_path rq = ''/v1/control/command''
    \<and> locality_error (av_loopback e) (av_auth e) (rq_address rq) = None
    \<and> auth_error (av_auth e) (rq_authorization rq) ControlBasic = Inr None
    \<and> read_json_payload rq = Inr (Inr payload)
    \<and> command_from_payload (av_targets e) (tracked_payload rq payload) FromHttp = Inr c
    \<and> map_of command_scope_requirements (cc_name c) = Some scope
    \<and> auth_error (av_auth e) (rq_authorization rq) scope = Inr None
    \<and> \<not> state_conflict (rq_if_match rq) (rq_state_token rq) (py_strip (av_state_token e (as_service s)))
    \<and> unstored s (request_key rq payload)
    \<and> fst (rate_limit_error rq (cc_name c) s) = None
    \<and> as_service s' = snd (av_handle e c (as_service s))"
proof -
  have access: "post_access_error e rq = Inr None"
    using assms by (auto simp: handle_post_def split: sum.splits option.splits)
  then obtain payload where p: "read_json_payload rq = Inr (Inr payload)"
    using assms by (auto simp: handle_post_def split: sum.splits)
  with access assms have guard: "command_guard_error e rq payload s = Inr None"
    and w: "write_command_result e rq payload s = (x, s')"
    by (auto simp: handle_post_def split: sum.splits option.splits)
  from w show ?thesis
  proof (cases rule: command_result_cases)
    case (executed c s1 result t)
    have "as_service s' = snd (av_handle e c (as_service s))"
      using handle_command_service [OF executed(5)] executed(4,6) by simp
    moreover have "rq_path rq = ''/v1/control/command''" "locality_error (av_loopback e) (av_auth e) (rq_address rq) = None"
      "auth_error (av_auth e) (rq_authorization rq) ControlBasic = Inr None"
      using access by (auto simp: post_access_error_def post_target_error_def command_transport_auth_error_def
          split: option.splits if_splits)
    moreover have "auth_error (av_auth e) (rq_authorization rq) (required_scope_for_command payload) = Inr None"
      "\<not> state_conflict (rq_if_match rq) (rq_state_token rq) (py_strip (av_state_token e (as_service s)))"
      using guard by (auto simp: command_guard_None command_auth_error_def concurrency_error_def Let_def split: if_splits)
    ultimately show ?thesis
      using p executed(1-3) command_scope_of_parsed [OF executed(2)] by blast
  qed (use assms(2) in simp_all)
qed

theorem post_needs_every_gate_witness:
  "\<exists>(c :: control_command) scope. map_of command_scope_requirements (cc_name c) = Some scope
    \<and> auth_error (av_auth counting_env) (rq_authorization (mode_post ''k'' 1)) scope = Inr None
    \<and> unstored (fresh_api 2) ''k''"
proof -
  let ?h = "handle_post counting_env (mode_post ''k'' 1) (fresh_api 2)"
  have "as_service (snd ?h) \<noteq> as_service (fresh_api 2)" by code_simp
  from post_needs_every_gate [OF prod.collapse [symmetric] this]
  obtain payload scope and c :: control_command where r: "read_json_payload (mode_post ''k'' 1) = Inr (Inr payload)"
    "map_of command_scope_requirements (cc_name c) = Some scope"
    "auth_error (av_auth counting_env) (rq_authorization (mode_post ''k'' 1)) scope = Inr None"
    "unstored (fresh_api 2) (request_key (mode_post ''k'' 1) payload)"
    by blast
  have "payload = [(''name'', PStr ''set_mode''), (''value'', PInt 1)]" using r(1) by (simp add: mode_post_body)
  moreover have "request_key (mode_post ''k'' 1) [(''name'', PStr ''set_mode''), (''value'', PInt 1)] = ''k''" by code_simp
  ultimately show ?thesis using r(2-4) by (intro exI [of _ c] exI [of _ scope]) simp
qed

section \<open>When a request stays without an answer\<close>

definition unreadable_authorization :: "auth_config \<Rightarrow> string option \<Rightarrow> bool" where
  "unreadable_authorization c header \<longleftrightarrow> has_configured_token c \<and> (\<exists>h. header = Some h \<and> h \<noteq> '''' \<and> \<not> ascii (py_strip h))"

lemma first_matching_scope_raises:
  "\<not> ascii h \<Longrightarrow> isl (first_matching_scope h tokens) \<longleftrightarrow> (\<exists>p\<in>set tokens. snd p \<noteq> '''')"
proof (induction tokens)
  case (Cons p ps)
  obtain name token where "p = (name, token)" by (cases p)
  with Cons show ?case by (simp add: matches_bearer_token_def compare_digest_def)
qed simp

lemma auth_error_raises:
  assumes "ascii_config c"
  shows "isl (auth_error c header required) \<longleftrightarrow> unreadable_authorization c header"
proof -
  have isl_bind: "isl (bind_result r (\<lambda>a. Inr (f a))) \<longleftrightarrow> isl r" for r :: "exc + 'x" and f :: "'x \<Rightarrow> 'y"
    by (cases r) simp_all
  have "isl (first_matching_scope (py_strip h) (scope_tokens c)) \<longleftrightarrow> \<not> ascii (py_strip h) \<and> has_configured_token c" for h
    using first_matching_scope_raises [of "py_strip h" "scope_tokens c"]
      first_matching_scope_iff [OF _ ascii_tokens [OF assms], of "py_strip h"]
    by (cases "ascii (py_strip h)") (auto simp: has_configured_token_def)
  then show ?thesis
    by (auto simp: auth_error_def isl_bind authorization_scope_def scope_for_header_def unreadable_authorization_def
        split: option.splits)
qed

lemma post_answer_iff:
  assumes "post_access_error e rq = Inr None" "\<And>p. \<not> isl (command_guard_error e rq p s)"
  shows "isl (fst (handle_post e rq s)) \<longleftrightarrow> isl (read_json_payload rq) \<or> (\<exists>p. read_json_payload rq = Inr (Inr p)
    \<and> command_guard_error e rq p s = Inr None \<and> isl (fst (write_command_result e rq p s)))"
proof (cases "read_json_payload rq")
  case (Inr y)
  show ?thesis
  proof (cases y)
    case (Inr p)
    obtain guard where "command_guard_error e rq p s = Inr guard"
      using assms(2) [of p] by (cases "command_guard_error e rq p s") auto
    then show ?thesis using assms(1) \<open>read_json_payload rq = Inr y\<close> Inr by (cases guard) (simp_all add: handle_post_def)
  qed (use assms(1) Inr in \<open>simp add: handle_post_def\<close>)
qed (use assms(1) in \<open>simp add: handle_post_def\<close>)

text \<open>
  A POST that reaches the endpoint is answered, whatever its body and whatever the write controller
  does, with exactly four exceptions in which the handler raises and the connection drops without a response: an
  Authorization header with non-ASCII characters while a token is configured, a body the JSON parser fails on with
  another error than a decode error, a value too large for a float, and an exception of the write controller that it
  does not turn into a result.
\<close>

theorem post_without_answer:
  assumes "ascii_config (av_auth e)" "av_handle e = handle_control_command we"
  shows "isl (fst (handle_post e rq s)) \<longleftrightarrow>
    rq_path rq = ''/v1/control/command'' \<and> locality_error (av_loopback e) (av_auth e) (rq_address rq) = None
    \<and> (unreadable_authorization (av_auth e) (rq_authorization rq)
      \<or> (auth_error (av_auth e) (rq_authorization rq) ControlBasic = Inr None
        \<and> (isl (read_json_payload rq)
          \<or> (\<exists>payload. read_json_payload rq = Inr (Inr payload) \<and> command_guard_error e rq payload s = Inr None
            \<and> unstored s (request_key rq payload)
            \<and> (case command_from_payload (av_targets e) (tracked_payload rq payload) FromHttp of
                 Inl err \<Rightarrow> err = ConversionOverflow
               | Inr c \<Rightarrow> fst (rate_limit_error rq (cc_name c) s) = None
                   \<and> isl (fst (handle_control_command we c (as_service s))))))))"
    (is "_ \<longleftrightarrow> ?path \<and> ?local \<and> (?bad \<or> ?auth \<and> (isl (read_json_payload rq) \<or> (\<exists>p. ?raises p)))")
proof -
  let ?sc = "auth_error (av_auth e) (rq_authorization rq) ControlBasic"
  note raises = auth_error_raises [OF assms(1)]
  have body: "isl (fst (write_command_result e rq p s)) \<longleftrightarrow> unstored s (request_key rq p)
      \<and> (case command_from_payload (av_targets e) (tracked_payload rq p) FromHttp of
           Inl err \<Rightarrow> err = ConversionOverflow
         | Inr c \<Rightarrow> fst (rate_limit_error rq (cc_name c) s) = None \<and> isl (fst (handle_control_command we c (as_service s))))" for p
  proof -
    obtain x s' where w: "write_command_result e rq p s = (x, s')" by (metis prod.collapse)
    then show ?thesis
    proof (cases rule: command_result_cases)
      case quiet
      with w show ?thesis by (auto split: sum.splits)
    next
      case overflow
      with w show ?thesis by simp
    next
      case (executed c s1 result t)
      have h: "fst (handle_control_command we c (as_service s)) = result"
        using executed(4,5) by (auto simp: handle_command_def assms(2) split: prod.splits sum.splits)
      have "isl x \<longleftrightarrow> isl result"
      proof (cases result)
        case (Inr r)
        from port.response_written [OF executed(5) [unfolded Inr] assms(2) parsed_name(2) [OF executed(2)]
            name_stripped [OF executed(2)], of rq "tracked_payload rq p"]
        obtain reply u where "write_new_response e rq (tracked_payload rq p) c r t = (Inr reply, u)" by blast
        with executed(8) [OF Inr] Inr show ?thesis by auto
      qed (simp add: executed(7))
      with w executed h show ?thesis by simp
    qed
  qed
  have access: "post_access_error e rq = (if \<not> ?path then Inr (Some (404, ''not_found'', ''Not found.''))
      else case locality_error (av_loopback e) (av_auth e) (rq_address rq) of Some error \<Rightarrow> Inr (Some error) | None \<Rightarrow> ?sc)"
    by (simp add: post_access_error_def post_target_error_def command_transport_auth_error_def split: option.split)
  have guard: "isl (command_guard_error e rq p s) \<longleftrightarrow> ?bad" for p
    using raises [of "rq_authorization rq" "required_scope_for_command p"]
    by (cases "auth_error (av_auth e) (rq_authorization rq) (required_scope_for_command p)")
      (auto simp: command_guard_error_def command_auth_error_def)
  show ?thesis
  proof (cases ?sc)
    case (Inl x)
    with raises [of "rq_authorization rq" ControlBasic] show ?thesis
      by (auto simp: handle_post_def access split: option.splits)
  next
    case (Inr error)
    with raises [of "rq_authorization rq" ControlBasic] have ok: "\<not> ?bad" by simp
    show ?thesis
    proof (cases "?path \<and> ?local \<and> error = None")
      case True
      then have "post_access_error e rq = Inr None" using Inr by (simp add: access)
      then have "isl (fst (handle_post e rq s)) \<longleftrightarrow> isl (read_json_payload rq) \<or> (\<exists>p. read_json_payload rq = Inr (Inr p)
          \<and> command_guard_error e rq p s = Inr None \<and> isl (fst (write_command_result e rq p s)))"
        using guard ok by (intro post_answer_iff) auto
      with True Inr ok body show ?thesis by simp
    qed (use Inr ok in \<open>auto simp: handle_post_def access split: option.splits\<close>)
  qed
qed

definition current_post :: "pyval \<Rightarrow> http_request" where
  "current_post v = (command_post '''' '''' ''set_current_setting'' v)\<lparr>rq_body := \<lambda>_. JsonObject
     [(''name'', PStr ''set_current_setting''), (''target'', PStr ''set_current''), (''value'', v)]\<rparr>"

definition charger_api_env :: "unit write_svc api_env" where
  "charger_api_env = \<lparr>av_auth = av_auth counting_env, av_loopback = av_loopback counting_env, av_targets = av_targets counting_env,
     av_handle = handle_control_command (plain_env None), av_state_token = (\<lambda>_. ''t'')\<rparr>"

definition charger_api :: "unit write_svc api_state" where
  "charger_api = \<lparr>as_service = idle_service, as_limiter = rate_limiter_new 30 5 2, as_store = idem_store_new 2,
     as_events = event_bus_new 10, as_audit = audit_trail_new 10\<rparr>"

lemma oversized_current:
  assumes "float_overflow \<le> of_int i"
  shows "validate_command_value ''set_current_setting'' target (PInt i) = Inl ConversionOverflow"
  using assms overflow_pos
  by (simp add: validate_command_value_def command_value_validator_def is_non_negative_numeric_def float_of_rat_def)

theorem post_without_answer_witness:
  "isl (fst (handle_post charger_api_env (current_post (PInt (2 ^ 1024))) charger_api))"
proof -
  let ?rq = "current_post (PInt (2 ^ 1024))"
  let ?p = "[(''name'', PStr ''set_current_setting''), (''target'', PStr ''set_current''), (''value'', PInt (2 ^ 1024))]"
  have env: "ascii_config (av_auth charger_api_env)" "av_handle charger_api_env = handle_control_command (plain_env None)"
    by (code_simp, simp add: charger_api_env_def)
  have "rq_path ?rq = ''/v1/control/command''" by (simp add: current_post_def command_post_def)
  moreover have "locality_error (av_loopback charger_api_env) (av_auth charger_api_env) (rq_address ?rq) = None"
    "auth_error (av_auth charger_api_env) (rq_authorization ?rq) ControlBasic = Inr None" by code_simp+
  moreover have "read_json_payload ?rq = Inr (Inr ?p)" by code_simp
  moreover have "command_guard_error charger_api_env ?rq ?p charger_api = Inr None" by code_simp
  moreover have "unstored charger_api (request_key ?rq ?p)" by code_simp
  moreover have "command_from_payload (av_targets charger_api_env) (tracked_payload ?rq ?p) FromHttp = Inl ConversionOverflow"
  proof -
    let ?t = "tracked_payload ?rq ?p"
    have "float_overflow \<le> of_int (2 ^ 1024)" by (simp add: float_overflow_def)
    moreover have "map_of ?t ''value'' = Some (PInt (2 ^ 1024))" "map_of ?t ''name'' \<noteq> None"
      by (simp_all add: tracked_payload_def od_lookup_update Let_def)
    moreover have "reject_extra_keys ?t named_payload_keys = Inr ()" "payload_str ?t ''name'' = ''set_current_setting''"
      "resolved_command_target (av_targets charger_api_env) ''set_current_setting'' ?t = Inr ''set_current''" by code_simp+
    moreover have "validated_command_name ''set_current_setting'' = Inr ''set_current_setting''" by code_simp
    ultimately show ?thesis
      by (simp only: command_from_payload_def command_from_named_payload_def if_True bind_result_simps Let_def option.case
          oversized_current not_False_eq_True simp_thms)
  qed
  ultimately show ?thesis unfolding post_without_answer [OF env] by auto
qed

end
