(* ===== verification/Control_Api_Race.thy ===== *)
theory Control_Api_Race
  imports Control_Api_Port
begin

text \<open>
  The endpoint under its threaded server (\<open>control/http_api.py\<close>): each request runs in a thread of its own, and
  the lock of the idempotency store covers one lookup or one store, not the command between them.  A thread is cut where
  that lock is released.
\<close>

section \<open>Requests as threads\<close>

datatype phase =
    Arrived
  | Unmatched
  | Executed control_command control_result
  | Answered http_reply
  | Dropped exc

record api_thread =
  th_request :: http_request
  th_payload :: "(string \<times> pyval) list"
  th_phase :: phase

fun finished :: "exc + http_reply \<Rightarrow> phase" where
  "finished (Inl x) = Dropped x"
| "finished (Inr reply) = Answered reply"

inductive thread_step ::
  "'s api_env \<Rightarrow> http_request \<Rightarrow> (string \<times> pyval) list \<Rightarrow> phase \<Rightarrow> 's api_state \<Rightarrow> phase \<Rightarrow> 's api_state \<Rightarrow> bool"
  for e rq payload where
  replays: "replayed_response (tracked_payload rq payload) s = (Some replay, s1)
    \<Longrightarrow> write_replayed_response e rq replay s1 = (r, s2) \<Longrightarrow> thread_step e rq payload Arrived s (finished r) s2"
| misses: "replayed_response (tracked_payload rq payload) s = (None, s1) \<Longrightarrow> thread_step e rq payload Arrived s Unmatched s1"
| raises: "execute_new e rq (tracked_payload rq payload) s = (Inl x, s1) \<Longrightarrow> thread_step e rq payload Unmatched s (Dropped x) s1"
| refuses: "execute_new e rq (tracked_payload rq payload) s = (Inr (Inl reply), s1)
    \<Longrightarrow> thread_step e rq payload Unmatched s (Answered reply) s1"
| executes: "execute_new e rq (tracked_payload rq payload) s = (Inr (Inr (c, r)), s1)
    \<Longrightarrow> thread_step e rq payload Unmatched s (Executed c r) s1"
| answers: "write_new_response e rq (tracked_payload rq payload) c r s = (x, s1)
    \<Longrightarrow> thread_step e rq payload (Executed c r) s (finished x) s1"

inductive_cases arrived_step: "thread_step e rq p Arrived s ph t"
inductive_cases unmatched_step: "thread_step e rq p Unmatched s ph t"
inductive_cases executed_step: "thread_step e rq p (Executed c r) s ph t"

text \<open>One thread of the server moves.\<close>

inductive server_step :: "'s api_env \<Rightarrow> api_thread list \<times> 's api_state \<Rightarrow> api_thread list \<times> 's api_state \<Rightarrow> bool" for e where
  moves: "i < length ths \<Longrightarrow> thread_step e (th_request (ths ! i)) (th_payload (ths ! i)) (th_phase (ths ! i)) s ph t
    \<Longrightarrow> server_step e (ths, s) (ths[i := (ths ! i)\<lparr>th_phase := ph\<rparr>], t)"

section \<open>A thread that runs alone\<close>

text \<open>What is left of a request in a phase, run to its end.\<close>

fun remaining ::
  "'s api_env \<Rightarrow> http_request \<Rightarrow> (string \<times> pyval) list \<Rightarrow> phase \<Rightarrow> 's api_state \<Rightarrow> (http_reply, 's api_state) outcome" where
  "remaining e rq payload Arrived s = write_command_result e rq payload s"
| "remaining e rq payload Unmatched s = and_then (execute_new e rq (tracked_payload rq payload) s) (\<lambda>result s2.
     case result of Inl reply \<Rightarrow> (Inr reply, s2) | Inr (c, r) \<Rightarrow> write_new_response e rq (tracked_payload rq payload) c r s2)"
| "remaining e rq payload (Executed c r) s = write_new_response e rq (tracked_payload rq payload) c r s"
| "remaining e rq payload (Answered reply) s = (Inr reply, s)"
| "remaining e rq payload (Dropped x) s = (Inl x, s)"

lemma remaining_finished [simp]: "remaining e rq payload (finished x) s = (x, s)"
  by (cases x) simp_all

lemma step_keeps_remaining: "thread_step e rq payload ph s ph' t \<Longrightarrow> remaining e rq payload ph s = remaining e rq payload ph' t"
  by (induction rule: thread_step.induct) (simp_all add: write_command_result_def Let_def)

abbreviation thread_run ::
  "'s api_env \<Rightarrow> http_request \<Rightarrow> (string \<times> pyval) list \<Rightarrow> phase \<times> 's api_state \<Rightarrow> phase \<times> 's api_state \<Rightarrow> bool" where
  "thread_run e rq payload \<equiv> (\<lambda>x y. thread_step e rq payload (fst x) (snd x) (fst y) (snd y))\<^sup>*\<^sup>*"

lemma run_keeps_remaining:
  "thread_run e rq payload x y \<Longrightarrow> remaining e rq payload (fst x) (snd x) = remaining e rq payload (fst y) (snd y)"
  by (induction rule: rtranclp_induct) (auto dest: step_keeps_remaining)

lemma executed_runs:
  "write_new_response e rq (tracked_payload rq payload) c r s = (x, t)
    \<Longrightarrow> thread_run e rq payload (Executed c r, s) (finished x, t)"
  by (rule r_into_rtranclp) (auto intro: thread_step.answers)

lemma unmatched_runs:
  assumes "remaining e rq payload Unmatched s = (x, t)"
  shows "thread_run e rq payload (Unmatched, s) (finished x, t)"
proof -
  obtain result s1 where r: "execute_new e rq (tracked_payload rq payload) s = (result, s1)"
    by (cases "execute_new e rq (tracked_payload rq payload) s")
  consider y where "result = Inl y" | reply where "result = Inr (Inl reply)" | c res where "result = Inr (Inr (c, res))"
    by (cases result; cases "projr result") auto
  then show ?thesis
  proof cases
    case 1
    with r assms have "x = Inl y" "t = s1" by simp_all
    with r 1 show ?thesis by (intro r_into_rtranclp) (auto intro: thread_step.raises)
  next
    case 2
    with r assms have "x = Inr reply" "t = s1" by simp_all
    with r 2 show ?thesis by (intro r_into_rtranclp) (auto intro: thread_step.refuses)
  next
    case 3
    with r assms have "thread_run e rq payload (Executed c res, s1) (finished x, t)" by (intro executed_runs) simp
    moreover have "thread_step e rq payload Unmatched s (Executed c res) s1" using r 3 by (auto intro: thread_step.executes)
    ultimately show ?thesis by - (rule converse_rtranclp_into_rtranclp [where b = "(Executed c res, s1)"], simp_all)
  qed
qed

lemma arrived_runs:
  assumes "write_command_result e rq payload s = (x, t)"
  shows "thread_run e rq payload (Arrived, s) (finished x, t)"
proof -
  obtain replay s1 where r: "replayed_response (tracked_payload rq payload) s = (replay, s1)"
    by (cases "replayed_response (tracked_payload rq payload) s")
  show ?thesis
  proof (cases replay)
    case (Some y)
    with r assms have "write_replayed_response e rq y s1 = (x, t)" by (simp add: write_command_result_def)
    with r Some show ?thesis by (intro r_into_rtranclp) (auto intro: thread_step.replays)
  next
    case None
    with r assms have "thread_run e rq payload (Unmatched, s1) (finished x, t)"
      by (intro unmatched_runs) (simp add: write_command_result_def Let_def)
    moreover have "thread_step e rq payload Arrived s Unmatched s1" using r None by (auto intro: thread_step.misses)
    ultimately show ?thesis by - (rule converse_rtranclp_into_rtranclp [where b = "(Unmatched, s1)"], simp_all)
  qed
qed


section \<open>Two requests at once\<close>

lemma server_run_thread:
  assumes "i < length ths" "thread_step e (th_request (ths ! i)) (th_payload (ths ! i)) (th_phase (ths ! i)) s ph t"
    and "(server_step e)\<^sup>*\<^sup>* (ths[i := (ths ! i)\<lparr>th_phase := ph\<rparr>], t) z"
  shows "(server_step e)\<^sup>*\<^sup>* (ths, s) z"
  by (rule converse_rtranclp_into_rtranclp [OF server_step.moves [OF assms(1,2)] assms(3)])

text \<open>
  Two copies of one keyed request that arrive together are both executed: when the second is looked up before the
  first has stored its response, neither is a replay and the write controller runs the command twice, although one after the
  other the second gets the stored response.
\<close>

theorem concurrent_retry_executes_twice:
  assumes "request_key rq1 payload = k" "request_key rq2 payload = k" "k \<noteq> ''''"
    and "map_of (is_entries (as_store s)) k = None" "od_ok (is_entries (as_store s))" "0 < is_limit (as_store s)"
    and "command_from_payload (av_targets e) (tracked_payload rq1 payload) FromHttp = Inr c1"
      "command_from_payload (av_targets e) (tracked_payload rq2 payload) FromHttp = Inr c2"
    and "execute_new e rq1 (tracked_payload rq1 payload) s = (Inr (Inr (c1, r1)), s1)"
      "execute_new e rq2 (tracked_payload rq2 payload) s1 = (Inr (Inr (c2, r2)), s2)"
    and "res_command r1 = c1" "res_command r2 = c2"
  shows "(\<exists>reply1 reply2 t. (server_step e)\<^sup>*\<^sup>*
      ([\<lparr>th_request = rq1, th_payload = payload, th_phase = Arrived\<rparr>, \<lparr>th_request = rq2, th_payload = payload, th_phase = Arrived\<rparr>], s)
      ([\<lparr>th_request = rq1, th_payload = payload, th_phase = Answered reply1\<rparr>,
        \<lparr>th_request = rq2, th_payload = payload, th_phase = Answered reply2\<rparr>], t)
    \<and> \<not> ab_replayed (hr_body reply1) \<and> \<not> ab_replayed (hr_body reply2)
    \<and> as_service t = snd (av_handle e c2 (snd (av_handle e c1 (as_service s)))))
    \<and> (\<exists>reply t. write_command_result e rq2 payload (snd (write_command_result e rq1 payload s)) = (Inr reply, t)
      \<and> ab_replayed (hr_body reply))"
    (is "?race \<and> ?serial")
proof
  have fields: "cc_name c \<in> set control_command_names \<and> py_strip (cc_name c) = cc_name c"
    if "command_from_payload sv p FromHttp = Inr c" for sv p c
    using parsed_name(2) [OF that] name_stripped [OF that] by blast
  obtain reply1 s3 where w1: "write_new_response e rq1 (tracked_payload rq1 payload) c1 r1 s2 = (Inr reply1, s3)"
    "\<not> ab_replayed (hr_body reply1)" "as_service s3 = as_service s2"
    using new_response_written [OF assms(11)] fields [OF assms(7)] by metis
  obtain reply2 s4 where w2: "write_new_response e rq2 (tracked_payload rq2 payload) c2 r2 s3 = (Inr reply2, s4)"
    "\<not> ab_replayed (hr_body reply2)" "as_service s4 = as_service s3"
    using new_response_written [OF assms(12)] fields [OF assms(8)] by metis
  have miss: "replayed_response (tracked_payload rq1 payload) s = (None, s)" "replayed_response (tracked_payload rq2 payload) s = (None, s)"
    using assms(1,2,4) by (simp_all add: missing_lookup)
  let ?th = "\<lambda>rq ph. \<lparr>th_request = rq, th_payload = payload, th_phase = ph\<rparr>"
  have a2: "thread_step e rq2 payload (Executed c2 r2) s3 (Answered reply2) s4"
    using thread_step.answers [OF w2(1)] by simp
  have a1: "thread_step e rq1 payload (Executed c1 r1) s2 (Answered reply1) s3"
    using thread_step.answers [OF w1(1)] by simp
  have "(server_step e)\<^sup>*\<^sup>* ([?th rq1 Arrived, ?th rq2 Arrived], s) ([?th rq1 (Answered reply1), ?th rq2 (Answered reply2)], s4)"
    by (rule server_run_thread [where i = 0, OF _ _ server_run_thread [where i = 1, OF _ _ server_run_thread [where i = 0, OF _ _
          server_run_thread [where i = 1, OF _ _ server_run_thread [where i = 0, OF _ _ server_run_thread [where i = 1]]]]]])
      (simp_all, (rule thread_step.misses miss thread_step.executes assms(9,10) a1 a2 rtranclp.rtrancl_refl)+)
  moreover have "as_service s4 = snd (av_handle e c2 (snd (av_handle e c1 (as_service s))))"
    using execute_new_service [OF assms(9)] execute_new_service [OF assms(10)] w1(3) w2(3) by simp
  ultimately show ?race using w1(2) w2(2) by blast
  obtain reply u where w: "write_new_response e rq1 (tracked_payload rq1 payload) c1 r1 s1 = (Inr reply, u)"
    using new_response_written [OF assms(11)] fields [OF assms(7)] by metis
  then have first: "write_command_result e rq1 payload s = (Inr reply, u)"
    using miss(1) assms(9) by (simp add: write_command_result_def Let_def)
  have "as_store s1 = as_store s" using execute_new_store [of e rq1 "tracked_payload rq1 payload" s] by (simp add: assms(9))
  then have "survives (as_store u) k (idempotency_fingerprint payload, hr_status reply, hr_body reply) {}"
    using write_new_response_stored [OF w _ assms(3)] put_survives [OF assms(5,6)] assms(1) by simp
  from stored_answer [OF this assms(2,3)] show ?serial by (force simp: first)
qed

theorem concurrent_retry_executes_twice_witness:
  "\<exists>reply1 reply2 t. (server_step counting_env)\<^sup>*\<^sup>*
      ([\<lparr>th_request = mode_post ''k'' 1, th_payload = [(''name'', PStr ''set_mode''), (''value'', PInt 1)], th_phase = Arrived\<rparr>,
        \<lparr>th_request = mode_post ''k'' 1, th_payload = [(''name'', PStr ''set_mode''), (''value'', PInt 1)], th_phase = Arrived\<rparr>], fresh_api 2)
      ([\<lparr>th_request = mode_post ''k'' 1, th_payload = [(''name'', PStr ''set_mode''), (''value'', PInt 1)], th_phase = Answered reply1\<rparr>,
        \<lparr>th_request = mode_post ''k'' 1, th_payload = [(''name'', PStr ''set_mode''), (''value'', PInt 1)], th_phase = Answered reply2\<rparr>], t)
    \<and> as_service t = 2"
proof -
  let ?p = "[(''name'', PStr ''set_mode''), (''value'', PInt 1)]" and ?rq = "mode_post ''k'' 1"
  let ?c = "\<lparr>cc_name = ''set_mode'', cc_target = ''mode'', cc_value = PInt 1, cc_source = FromHttp, cc_detail = '''',
    cc_command_id = ''u'', cc_key = ''k''\<rparr>"
  let ?run = "\<lambda>s. execute_new counting_env ?rq (tracked_payload ?rq ?p) s"
  let ?s1 = "snd (?run (fresh_api 2))"
  have key: "request_key ?rq ?p = ''k''" by code_simp
  have parsed: "command_from_payload (av_targets counting_env) (tracked_payload ?rq ?p) FromHttp = Inr ?c" by code_simp
  have "fst (?run (fresh_api 2)) = Inr (Inr (?c, applied_result ?c '''' False))" "fst (?run ?s1) = Inr (Inr (?c, applied_result ?c '''' False))"
    by code_simp+
  then have runs: "?run (fresh_api 2) = (Inr (Inr (?c, applied_result ?c '''' False)), ?s1)"
    "?run ?s1 = (Inr (Inr (?c, applied_result ?c '''' False)), snd (?run ?s1))" by (metis prod.collapse)+
  have "map_of (is_entries (as_store (fresh_api 2))) ''k'' = None" "od_ok (is_entries (as_store (fresh_api 2)))"
    "0 < is_limit (as_store (fresh_api 2))" by (simp_all add: fresh_api_def idem_store_new_def)
  note state = this
  have res: "res_command (applied_result ?c '''' False) = ?c" by (simp add: applied_result_def)
  have two: "snd (av_handle counting_env ?c (snd (av_handle counting_env ?c (as_service (fresh_api 2))))) = 2" by code_simp
  from concurrent_retry_executes_twice [OF key key _ state parsed parsed runs res res, unfolded two] show ?thesis by blast
qed

end
