(* ===== verification/Publication_Order.thy ===== *)
theory Publication_Order
  imports Py_Values "HOL-Library.List_Lexorder" "HOL-Library.Char_ord"
begin

text \<open>
  The order of publications across the fast (socket) and the durable (file) lane of the gateway
  (\<open>ipc/publication_order.py\<close>), and the file that lets it outlive a restart (\<open>ipc/publication_order_state.py\<close>).

  Every field of a publication carries an order; the history holds one high-water mark per coalesce key and field.
  The clock is read once per operation.  Whether a file operation works, and how many bytes a journal line takes, is the
  record \<open>order_io\<close>.
\<close>

unbundle bit_operations_syntax

section \<open>Issuing orders\<close>

record order_sequence =
  os_last :: int
  os_process :: int

definition process_bits :: nat where
  "process_bits = 32"

definition process_mask :: int where
  "process_mask = push_bit process_bits 1 - 1"

definition order_sequence_new :: "int \<Rightarrow> order_sequence" where
  "order_sequence_new process_id = \<lparr>os_last = 0, os_process = process_id\<rparr>"

definition remember_order :: "int \<Rightarrow> order_sequence \<Rightarrow> order_sequence" where
  "remember_order ord q = q\<lparr>os_last := max ord (os_last q)\<rparr>"

definition next_order :: "int \<Rightarrow> order_sequence \<Rightarrow> int \<times> order_sequence" where
  "next_order monotonic_ns q =
    (let ord =
      (if os_process q = 0 then max monotonic_ns (os_last q + 1)
       else let epoch = max monotonic_ns (drop_bit process_bits (os_last q));
                candidate = push_bit process_bits epoch OR (os_process q AND process_mask)
            in if candidate \<le> os_last q then push_bit process_bits (epoch + 1) OR (os_process q AND process_mask)
               else candidate)
     in (ord, q\<lparr>os_last := ord\<rparr>))"

section \<open>Commands and their orders\<close>

text \<open>
  A publication command is a JSON object.  The entries the ordering reads are fields of a record (\<open>None\<close>
  when absent), the others are \<open>cm_rest\<close>.  \<open>cm_fields\<close> and \<open>cm_orders\<close> are \<open>None\<close> unless they are objects with
  text keys.
\<close>

record pub_command =
  cm_key :: "pyval option"
  cm_fields :: "(string \<times> pyval) list option"
  cm_order :: "pyval option"
  cm_orders :: "(string \<times> pyval) list option"
  cm_rest :: "(string \<times> pyval) list"

fun positive_integer :: "pyval option \<Rightarrow> int" where
  "positive_integer (Some (PInt i)) = max 0 i"
| "positive_integer _ = 0"

definition publication_order :: "pub_command \<Rightarrow> int" where
  "publication_order c = positive_integer (cm_order c)"

definition publication_field_orders :: "pub_command \<Rightarrow> (string \<times> int) list" where
  "publication_field_orders c =
    (case cm_fields c of None \<Rightarrow> []
     | Some fs \<Rightarrow>
         let fallback = publication_order c; configured = (case cm_orders c of None \<Rightarrow> [] | Some m \<Rightarrow> m)
         in map (\<lambda>(f, _). (f, let n = positive_integer (map_of configured f) in if n \<noteq> 0 then n else fallback)) fs)"

text \<open>\<open>str(command.get("coalesce_key") or "").strip()\<close>.\<close>

fun falsy :: "pyval \<Rightarrow> bool" where
  "falsy PNone = True"
| "falsy (PBool b) = (\<not> b)"
| "falsy (PInt i) = (i = 0)"
| "falsy (PFloat x _) = (x = Fin 0)"
| "falsy (PStr s) = (s = '''')"
| "falsy (PJson _) = False"

definition command_key :: "pub_command \<Rightarrow> string" where
  "command_key c = (case cm_key c of None \<Rightarrow> '''' | Some v \<Rightarrow> if falsy v then '''' else py_strip (py_str v))"

definition ordered_command :: "int \<Rightarrow> order_sequence \<Rightarrow> pub_command \<Rightarrow> pub_command \<times> order_sequence" where
  "ordered_command monotonic_ns q c =
    (if command_key c = '''' then (c, q)
     else let given = publication_order c;
              (ord, q1, c1) = (if given \<noteq> 0 then (given, remember_order given q, c)
                 else case next_order monotonic_ns q of (n, q1) \<Rightarrow> (n, q1, c\<lparr>cm_order := Some (PInt n)\<rparr>));
              field_orders = publication_field_orders (c1\<lparr>cm_order := Some (PInt ord)\<rparr>)
          in if field_orders = [] then (c1, q1)
             else let highest = Max (snd ` set field_orders)
                  in (c1\<lparr>cm_order := Some (PInt (max ord highest)), cm_orders := Some (map (\<lambda>(f, n). (f, PInt n)) field_orders)\<rparr>,
                      remember_order highest q1))"

section \<open>Marks and claims\<close>

type_synonym field_key = "string \<times> string"

datatype lane = Fast | Durable

record order_mark =
  om_order :: int
  om_lane :: lane
  om_seen :: secs

type_synonym order_marks = "(field_key \<times> order_mark) list"

datatype claim_state = Accepted | Superseded | Full

record field_claim =
  fc_state :: claim_state
  fc_accepted :: "string list"
  fc_superseded :: "string list"

definition full_claim :: field_claim where
  "full_claim = \<lparr>fc_state = Full, fc_accepted = [], fc_superseded = []\<rparr>"

definition fast_order_claim_blocked :: "int \<Rightarrow> order_mark \<Rightarrow> bool" where
  "fast_order_claim_blocked ord mark \<longleftrightarrow> ord \<le> om_order mark"

definition durable_order_claim_blocked :: "int \<Rightarrow> order_mark \<Rightarrow> bool" where
  "durable_order_claim_blocked ord mark =
    (if ord < om_order mark then True else if om_order mark < ord then False else om_lane mark \<noteq> Durable)"

definition field_blocked ::
  "string \<Rightarrow> order_marks \<Rightarrow> (int \<Rightarrow> order_mark \<Rightarrow> bool) \<Rightarrow> string \<times> int \<Rightarrow> bool" where
  "field_blocked key marks blocked p =
    (case map_of marks (key, fst p) of None \<Rightarrow> False | Some mark \<Rightarrow> blocked (snd p) mark)"

definition field_claim_of ::
  "string \<Rightarrow> (string \<times> int) list \<Rightarrow> order_marks \<Rightarrow> (int \<Rightarrow> order_mark \<Rightarrow> bool) \<Rightarrow> field_claim" where
  "field_claim_of key orders marks blocked =
    (let accepted = map fst (filter (\<lambda>p. \<not> field_blocked key marks blocked p) orders);
         superseded = map fst (filter (field_blocked key marks blocked) orders)
     in \<lparr>fc_state = (if accepted \<noteq> [] then Accepted else Superseded), fc_accepted = accepted, fc_superseded = superseded\<rparr>)"

definition order_of :: "(string \<times> int) list \<Rightarrow> string \<Rightarrow> int" where
  "order_of orders f = (case map_of orders f of Some n \<Rightarrow> n | None \<Rightarrow> 0)"

definition claimed_order_mark :: "int \<Rightarrow> lane \<Rightarrow> secs \<Rightarrow> order_mark option" where
  "claimed_order_mark ord l now = (if ord \<le> 0 then None else Some \<lparr>om_order = ord, om_lane = l, om_seen = now\<rparr>)"

definition claimed_field_keys :: "string \<Rightarrow> (string \<times> int) list \<Rightarrow> field_claim \<Rightarrow> field_key list" where
  "claimed_field_keys key orders claim =
    map (\<lambda>f. (key, f)) (filter (\<lambda>f. 0 < order_of orders f) (fc_accepted claim))"

definition claim_fits_capacity ::
  "string \<Rightarrow> (string \<times> int) list \<Rightarrow> field_claim \<Rightarrow> order_marks \<Rightarrow> nat \<Rightarrow> bool" where
  "claim_fits_capacity key orders claim marks capacity \<longleftrightarrow>
    length marks + length (remdups (filter (\<lambda>k. map_of marks k = None) (claimed_field_keys key orders claim))) \<le> capacity"

text \<open>\<open>dict[key] = mark; move_to_end(key)\<close>.\<close>

definition set_newest :: "field_key \<Rightarrow> order_mark \<Rightarrow> order_marks \<Rightarrow> order_marks" where
  "set_newest k mark m = od_move_to_end k (AList.update k mark m)"

definition with_claimed_marks ::
  "string \<Rightarrow> (string \<times> int) list \<Rightarrow> lane \<Rightarrow> field_claim \<Rightarrow> order_marks \<Rightarrow> secs \<Rightarrow> order_marks" where
  "with_claimed_marks key orders l claim marks now =
    fold (\<lambda>f m. case claimed_order_mark (order_of orders f) l now of
        None \<Rightarrow> m | Some mark \<Rightarrow> set_newest (key, f) mark m) (fc_accepted claim) marks"

definition fast_mark_matches :: "order_mark option \<Rightarrow> int \<Rightarrow> bool" where
  "fast_mark_matches current ord =
    (case current of None \<Rightarrow> False | Some mark \<Rightarrow> om_lane mark = Fast \<and> om_order mark = ord)"

section \<open>The state file and its journal\<close>

record order_disk =
  dk_base :: "order_marks option"
  dk_journal :: "order_marks list option"

record order_io =
  oi_path :: bool
  oi_is_dir :: bool
  oi_stat_ok :: bool
  oi_append_ok :: bool
  oi_write_ok :: bool
  oi_unlink_ok :: bool
  oi_line_bytes :: "order_marks \<Rightarrow> nat"

definition journal_compact_bytes :: nat where
  "journal_compact_bytes = 64 * 1024"

definition journal_line_bytes :: nat where
  "journal_line_bytes = 64 * 1024"

definition state_payload :: "order_marks \<Rightarrow> order_marks" where
  "state_payload marks = filter (\<lambda>p. om_lane (snd p) = Durable) marks"

definition journal_size :: "order_io \<Rightarrow> order_disk \<Rightarrow> nat option" where
  "journal_size io d = (case dk_journal d of None \<Rightarrow> None
     | Some ls \<Rightarrow> if oi_stat_ok io then Some (sum_list (map (oi_line_bytes io) ls)) else None)"

definition persist_marks :: "order_io \<Rightarrow> order_marks \<Rightarrow> order_disk \<Rightarrow> bool \<times> order_disk" where
  "persist_marks io marks d =
    (if \<not> oi_path io then (True, d)
     else if oi_write_ok io then (True, d\<lparr>dk_base := Some (state_payload marks)\<rparr>) else (False, d))"

definition compact_state :: "order_io \<Rightarrow> order_marks \<Rightarrow> order_disk \<Rightarrow> bool \<times> order_disk" where
  "compact_state io current d =
    (case persist_marks io current d of
       (False, d1) \<Rightarrow> (False, d1)
     | (True, d1) \<Rightarrow> if dk_journal d1 = None then (True, d1)
         else if oi_unlink_ok io then (True, d1\<lparr>dk_journal := None\<rparr>) else (False, d1))"

definition prepare_journal :: "order_io \<Rightarrow> order_marks \<Rightarrow> order_disk \<Rightarrow> bool \<times> order_disk" where
  "prepare_journal io current d =
    (if dk_journal d = None then (True, d)
     else case journal_size io d of
       None \<Rightarrow> (False, d)
     | Some n \<Rightarrow> if n \<le> journal_compact_bytes then (True, d) else compact_state io current d)"

definition finish_checkpoint :: "order_io \<Rightarrow> order_marks \<Rightarrow> order_disk \<Rightarrow> bool \<times> order_disk" where
  "finish_checkpoint io current d =
    (case journal_size io d of
       None \<Rightarrow> (False, d)
     | Some n \<Rightarrow> if n \<le> journal_compact_bytes then (True, d) else compact_state io current d)"

definition append_state_delta :: "order_io \<Rightarrow> order_marks \<Rightarrow> order_disk \<Rightarrow> bool \<times> order_disk" where
  "append_state_delta io marks d =
    (if journal_line_bytes < oi_line_bytes io (state_payload marks) then (False, d)
     else if oi_append_ok io
     then (True, d\<lparr>dk_journal := Some ((case dk_journal d of None \<Rightarrow> [] | Some ls \<Rightarrow> ls) @ [state_payload marks])\<rparr>)
     else (False, d))"

definition write_checkpoint :: "order_io \<Rightarrow> order_marks \<Rightarrow> order_marks \<Rightarrow> order_disk \<Rightarrow> bool \<times> order_disk" where
  "write_checkpoint io changed current d =
    (if oi_is_dir io then (False, d)
     else case prepare_journal io current d of
       (False, d1) \<Rightarrow> (False, d1)
     | (True, d1) \<Rightarrow> (case append_state_delta io changed d1 of
         (False, d2) \<Rightarrow> (False, d2)
       | (True, d2) \<Rightarrow> finish_checkpoint io current d2))"

definition checkpoint_marks :: "order_io \<Rightarrow> order_marks \<Rightarrow> order_marks \<Rightarrow> order_disk \<Rightarrow> bool \<times> order_disk" where
  "checkpoint_marks io changed current d =
    (if \<not> oi_path io \<or> changed = [] then (True, d) else write_checkpoint io changed current d)"

text \<open>Reading it back: records that are not a durable mark within the retention are skipped, as are lines too long.\<close>

definition state_mark_ok :: "secs \<Rightarrow> secs \<Rightarrow> field_key \<times> order_mark \<Rightarrow> bool" where
  "state_mark_ok now cutoff p =
    (case p of ((key, field), mark) \<Rightarrow> key \<noteq> '''' \<and> field \<noteq> '''' \<and> 0 < om_order mark \<and> om_lane mark = Durable
      \<and> cutoff < om_seen mark \<and> om_seen mark \<le> now)"

definition insert_state_mark :: "secs \<Rightarrow> secs \<Rightarrow> field_key \<times> order_mark \<Rightarrow> order_marks \<Rightarrow> order_marks" where
  "insert_state_mark now cutoff p marks = (if state_mark_ok now cutoff p then AList.update (fst p) (snd p) marks else marks)"

definition journal_records :: "order_io \<Rightarrow> order_disk \<Rightarrow> order_marks" where
  "journal_records io d = (case dk_journal d of None \<Rightarrow> []
     | Some ls \<Rightarrow> concat (filter (\<lambda>l. oi_line_bytes io l \<le> journal_line_bytes) ls))"

definition load_marks :: "order_io \<Rightarrow> secs \<Rightarrow> secs \<Rightarrow> order_disk \<Rightarrow> order_marks" where
  "load_marks io now retention d =
    (if \<not> oi_path io then []
     else fold (insert_state_mark now (now - retention))
       ((case dk_base d of None \<Rightarrow> [] | Some m \<Rightarrow> m) @ journal_records io d) [])"

section \<open>The history\<close>

record order_history =
  oh_capacity :: nat
  oh_retention :: secs
  oh_marks :: order_marks
  oh_disk :: order_disk

definition order_history_new :: "order_io \<Rightarrow> int \<Rightarrow> secs \<Rightarrow> secs \<Rightarrow> order_disk \<Rightarrow> order_history" where
  "order_history_new io capacity retention now d =
    \<lparr>oh_capacity = nat (max 1 capacity), oh_retention = max 1 retention,
     oh_marks = load_marks io now (max 1 retention) d, oh_disk = d\<rparr>"

definition pruned_marks :: "order_history \<Rightarrow> secs \<Rightarrow> field_key set \<Rightarrow> order_marks" where
  "pruned_marks h now active =
    filter (\<lambda>(k, mark). k \<in> active \<or> now - oh_retention h < om_seen mark) (oh_marks h)"

definition claim_fast ::
  "string \<Rightarrow> (string \<times> int) list \<Rightarrow> field_key set \<Rightarrow> secs \<Rightarrow> order_history \<Rightarrow> field_claim \<times> order_history" where
  "claim_fast key orders active now h =
    (let candidate = pruned_marks h now active; claim = field_claim_of key orders candidate fast_order_claim_blocked
     in if \<not> claim_fits_capacity key orders claim candidate (oh_capacity h) then (full_claim, h)
        else (claim, h\<lparr>oh_marks := with_claimed_marks key orders Fast claim candidate now\<rparr>))"

definition claim_durable ::
  "string \<Rightarrow> (string \<times> int) list \<Rightarrow> field_key set \<Rightarrow> secs \<Rightarrow> order_history \<Rightarrow> field_claim" where
  "claim_durable key orders active now h =
    (let candidate = pruned_marks h now active; claim = field_claim_of key orders candidate durable_order_claim_blocked
     in if \<not> claim_fits_capacity key orders claim candidate (oh_capacity h) then full_claim else claim)"

definition confirm_one ::
  "string \<Rightarrow> secs \<Rightarrow> string \<times> int \<Rightarrow> order_marks \<times> order_marks \<Rightarrow> order_marks \<times> order_marks" where
  "confirm_one key now p acc =
    (case acc of (updated, changed) \<Rightarrow>
       if fast_mark_matches (map_of updated (key, fst p)) (snd p)
       then let mark = \<lparr>om_order = snd p, om_lane = Durable, om_seen = now\<rparr>
            in (set_newest (key, fst p) mark updated, AList.update (key, fst p) mark changed)
       else (updated, changed))"

definition confirm_fast_applied ::
  "order_io \<Rightarrow> string \<Rightarrow> (string \<times> int) list \<Rightarrow> secs \<Rightarrow> order_history \<Rightarrow> bool \<times> order_history" where
  "confirm_fast_applied io key orders now h =
    (case fold (confirm_one key now) orders (oh_marks h, []) of (updated, changed) \<Rightarrow>
       case checkpoint_marks io changed updated (oh_disk h) of (saved, d) \<Rightarrow>
         (saved, h\<lparr>oh_marks := updated, oh_disk := d\<rparr>))"

definition confirm_durable_applied ::
  "order_io \<Rightarrow> string \<Rightarrow> (string \<times> int) list \<Rightarrow> field_key set \<Rightarrow> secs \<Rightarrow> order_history \<Rightarrow> bool \<times> order_history" where
  "confirm_durable_applied io key orders active now h =
    (let candidate = pruned_marks h now active; claim = field_claim_of key orders candidate durable_order_claim_blocked
     in if \<not> claim_fits_capacity key orders claim candidate (oh_capacity h) then (False, h)
        else let marks = with_claimed_marks key orders Durable claim candidate now;
                 changed = map (\<lambda>k. (k, the (map_of marks k))) (claimed_field_keys key orders claim)
             in case checkpoint_marks io changed marks (oh_disk h) of (saved, d) \<Rightarrow>
               (saved, h\<lparr>oh_marks := marks, oh_disk := d\<rparr>))"

definition release_one :: "string \<Rightarrow> string \<times> int \<Rightarrow> order_marks \<Rightarrow> order_marks" where
  "release_one key p marks =
    (if fast_mark_matches (map_of marks (key, fst p)) (snd p) then AList.delete (key, fst p) marks else marks)"

definition release_fast :: "string \<Rightarrow> (string \<times> int) list \<Rightarrow> order_history \<Rightarrow> order_history" where
  "release_fast key orders h = h\<lparr>oh_marks := fold (release_one key) orders (oh_marks h)\<rparr>"

end
