(* ===== verification/Publication_Claims.thy ===== *)
theory Publication_Claims
  imports Publication_Order
begin

text \<open>
  What the publication order guarantees: issued orders never repeat, a field never goes back to an older value
  while its mark is kept, the history stays bounded, and what it confirmed survives a restart.
\<close>

section \<open>Issued orders\<close>

lemma process_mask_take: "n AND process_mask = take_bit process_bits n"
  by (simp add: process_mask_def push_bit_eq_mult mask_eq_exp_minus_1 [symmetric] take_bit_eq_mask)

lemma tagged_order: "push_bit process_bits e OR (p AND process_mask) = e * 2 ^ process_bits + p mod (2 ^ process_bits :: int)"
proof -
  have "push_bit process_bits e AND take_bit process_bits p = (0 :: int)"
    by (rule bit_eqI) (auto simp: bit_and_iff bit_push_bit_iff bit_take_bit_iff)
  from disjunctive_add_eq_or [OF this] show ?thesis
    by (simp add: process_mask_take push_bit_eq_mult take_bit_eq_mod)
qed

lemma next_order_above:
  assumes "next_order t q = (n, q')"
  shows "os_last q < n" "os_last q' = n" "os_process q' = os_process q"
    "os_process q \<noteq> 0 \<Longrightarrow> n mod 2 ^ process_bits = os_process q mod 2 ^ process_bits"
proof -
  let ?B = "2 ^ process_bits :: int"
  let ?e = "max t (drop_bit process_bits (os_last q))"
  have B: "0 < ?B" by simp
  let ?d = "os_last q div ?B"
  have "?d * ?B \<le> ?e * ?B" by (intro mult_right_mono) (simp_all add: drop_bit_eq_div)
  moreover have "os_last q = ?d * ?B + os_last q mod ?B" "os_last q mod ?B < ?B" using B by (simp_all only: div_mult_mod_eq pos_mod_bound)
  moreover have "(?e + 1) * ?B = ?e * ?B + ?B" by (simp add: distrib_right)
  ultimately have "os_last q < (?e + 1) * ?B" by linarith
  moreover have "0 \<le> os_process q mod ?B" by simp
  ultimately have "os_last q < (?e + 1) * ?B + os_process q mod ?B" by linarith
  moreover have "(k * ?B + os_process q mod ?B) mod ?B = os_process q mod ?B" for k
    by (metis mod_mod_trivial mod_mult_self3)
  ultimately show "os_last q < n" "os_last q' = n" "os_process q' = os_process q"
    "os_process q \<noteq> 0 \<Longrightarrow> n mod ?B = os_process q mod ?B"
    using assms unfolding next_order_def tagged_order Let_def by (auto split: if_splits)
qed

text \<open>A process issues orders and learns of others; what it issues on the way.\<close>

datatype order_event = Issue int | Remember int

fun issued_orders :: "order_event list \<Rightarrow> order_sequence \<Rightarrow> int list" where
  "issued_orders [] q = []"
| "issued_orders (Issue t # es) q = (case next_order t q of (n, q') \<Rightarrow> n # issued_orders es q')"
| "issued_orders (Remember n # es) q = issued_orders es (remember_order n q)"

lemma issued_orders_above: "\<forall>n\<in>set (issued_orders es q). os_last q < n"
proof (induction es q rule: issued_orders.induct)
  case (2 t es q)
  obtain n q' where n: "next_order t q = (n, q')" by (cases "next_order t q")
  have "\<forall>m\<in>set (issued_orders es q'). n < m" using 2 [OF n [symmetric]] next_order_above(2) [OF n] by simp
  then show ?case using next_order_above(1) [OF n] by (simp add: n) (meson order.strict_trans)
next
  case (3 n es q)
  have e: "os_last (remember_order n q) = max n (os_last q)" by (simp add: remember_order_def)
  from 3 have "\<forall>m\<in>set (issued_orders es (remember_order n q)). max n (os_last q) < m" unfolding e .
  then show ?case by (simp only: issued_orders.simps max_less_iff_conj) blast
qed simp

lemma issued_orders_increase: "sorted_wrt (<) (issued_orders es q)"
proof (induction es q rule: issued_orders.induct)
  case (2 t es q)
  obtain n q' where n: "next_order t q = (n, q')" by (cases "next_order t q")
  from 2 [OF n [symmetric]] next_order_above(2) [OF n] issued_orders_above [of es q'] show ?case by (auto simp: n)
qed simp_all

lemma issued_orders_tagged:
  "os_process q \<noteq> 0 \<Longrightarrow> \<forall>n\<in>set (issued_orders es q). n mod 2 ^ process_bits = os_process q mod 2 ^ process_bits"
proof (induction es q rule: issued_orders.induct)
  case (2 t es q)
  obtain n q' where n: "next_order t q = (n, q')" by (cases "next_order t q")
  from 2(1) [OF n [symmetric]] 2(2) next_order_above(3,4) [OF n] show ?case by (auto simp: n)
qed (simp_all add: remember_order_def)

text \<open>
  Orders decide between publications because no order is issued twice: whatever the clock does and whatever
  orders a process learns of in between, the orders it issues strictly increase, and two processes whose ids
  differ in their low 32 bits never issue the same order.
\<close>

theorem issued_orders_unique:
  assumes "os_process q \<noteq> 0" "os_process r \<noteq> 0" "os_process q mod 2 ^ 32 \<noteq> os_process r mod 2 ^ 32"
  shows "sorted_wrt (<) (issued_orders es q) \<and> (\<forall>n\<in>set (issued_orders es q). os_last q < n)
    \<and> set (issued_orders es q) \<inter> set (issued_orders fs r) = {}"
  using issued_orders_increase issued_orders_above issued_orders_tagged [OF assms(1), of es]
    issued_orders_tagged [OF assms(2), of fs] assms(3)
  by (fastforce simp: process_bits_def)

theorem issued_orders_unique_witness:
  "set (issued_orders [Issue 5, Remember 90000000000, Issue 3] (order_sequence_new 7))
    \<inter> set (issued_orders [Issue 5] (order_sequence_new 8)) = {}"
  by (rule conjunct2 [OF conjunct2 [OF issued_orders_unique]]) (simp_all add: order_sequence_new_def)

section \<open>The marks\<close>

lemma map_of_filter_ok:
  "od_ok m \<Longrightarrow> map_of (filter P m) k = (case map_of m k of None \<Rightarrow> None | Some v \<Rightarrow> if P (k, v) then Some v else None)"
proof (induction m)
  case (Cons p m)
  obtain j v where p: "p = (j, v)" by (cases p)
  have "map_of m j = None" using Cons.prems by (simp add: p map_of_eq_None_iff)
  with Cons show ?case by (auto simp: p split: option.splits)
qed simp

lemma set_newest_lookup [simp]: "map_of (set_newest k mark m) j = (if j = k then Some mark else map_of m j)"
  by (simp add: set_newest_def od_lookup_move od_lookup_update)

lemma set_newest_ok [simp]: "od_ok m \<Longrightarrow> od_ok (set_newest k mark m)"
  by (simp add: set_newest_def od_ok_move od_ok_update)

lemma keys_length: "od_ok m \<Longrightarrow> length m = card (dom (map_of m))"
  by (metis distinct_card dom_map_of_conv_image_fst length_map set_map)

lemma pruned_ok: "od_ok (oh_marks h) \<Longrightarrow> od_ok (pruned_marks h now active)"
  by (simp add: pruned_marks_def distinct_map_filter)

lemma pruned_length: "length (pruned_marks h now active) \<le> length (oh_marks h)"
  by (simp add: pruned_marks_def)

lemma pruned_lookup:
  "od_ok (oh_marks h) \<Longrightarrow> map_of (pruned_marks h now active) k =
    (case map_of (oh_marks h) k of None \<Rightarrow> None
     | Some m \<Rightarrow> if k \<in> active \<or> now - oh_retention h < om_seen m then Some m else None)"
  by (simp add: pruned_marks_def map_of_filter_ok split: option.splits)

lemma claimed_marks_lookup:
  "map_of (with_claimed_marks key orders l claim marks now) (k, f) =
    (if k = key \<and> f \<in> set (fc_accepted claim) \<and> 0 < order_of orders f
     then Some \<lparr>om_order = order_of orders f, om_lane = l, om_seen = now\<rparr> else map_of marks (k, f))"
proof -
  have "map_of (fold (\<lambda>f m. case claimed_order_mark (order_of orders f) l now of
        None \<Rightarrow> m | Some mark \<Rightarrow> set_newest (key, f) mark m) fs ms) (k, f) =
    (if k = key \<and> f \<in> set fs \<and> 0 < order_of orders f
     then Some \<lparr>om_order = order_of orders f, om_lane = l, om_seen = now\<rparr> else map_of ms (k, f))" for fs ms
    by (induction fs arbitrary: ms) (auto simp: claimed_order_mark_def not_less)
  then show ?thesis by (simp add: with_claimed_marks_def)
qed

lemma claimed_marks_ok:
  assumes "od_ok marks"
  shows "od_ok (with_claimed_marks key orders l claim marks now)"
proof -
  have "od_ok ms \<Longrightarrow> od_ok (fold (\<lambda>f m. case claimed_order_mark (order_of orders f) l now of
        None \<Rightarrow> m | Some mark \<Rightarrow> set_newest (key, f) mark m) fs ms)" for fs ms
    by (induction fs arbitrary: ms) (auto split: option.splits)
  with assms show ?thesis by (simp add: with_claimed_marks_def)
qed

lemma claimed_keys_set:
  "set (claimed_field_keys key orders claim) = {(key, f) | f. f \<in> set (fc_accepted claim) \<and> 0 < order_of orders f}"
  by (auto simp: claimed_field_keys_def)

lemma claimed_marks_fit:
  assumes "claim_fits_capacity key orders claim marks capacity" "od_ok marks"
  shows "length (with_claimed_marks key orders l claim marks now) \<le> capacity"
proof -
  let ?new = "set (claimed_field_keys key orders claim) - dom (map_of marks)"
  have "dom (map_of (with_claimed_marks key orders l claim marks now)) = dom (map_of marks) \<union> ?new"
    by (auto simp: claimed_keys_set dom_def claimed_marks_lookup split: if_splits)
  then have "length (with_claimed_marks key orders l claim marks now) = card (dom (map_of marks) \<union> ?new)"
    using keys_length [OF claimed_marks_ok [OF assms(2)]] by (simp del: Un_Diff_cancel)
  also have "\<dots> = length marks + card ?new"
    using keys_length [OF assms(2)] by (simp add: card_Un_disjoint [of "dom (map_of marks)"] finite_dom_map_of Int_Diff del: Un_Diff_cancel)
  also have "card ?new = length (remdups (filter (\<lambda>k. map_of marks k = None) (claimed_field_keys key orders claim)))"
    by (simp add: length_remdups_card_conv set_diff_eq dom_def conj_commute)
  finally show ?thesis using assms(1) by (simp add: claim_fits_capacity_def)
qed

lemma accepted_field:
  assumes "od_ok orders" "f \<in> set (fc_accepted (field_claim_of key orders marks blocked))"
  shows "\<not> field_blocked key marks blocked (f, order_of orders f)" "map_of orders f \<noteq> None"
proof -
  from assms(2) obtain n where n: "(f, n) \<in> set orders" "\<not> field_blocked key marks blocked (f, n)"
    by (auto simp: field_claim_of_def Let_def)
  with assms(1) have "map_of orders f = Some n" by simp
  with n show "\<not> field_blocked key marks blocked (f, order_of orders f)" "map_of orders f \<noteq> None"
    by (simp_all add: order_of_def)
qed

text \<open>What confirming volatile fields does to the marks and to what is written.\<close>

definition confirmed :: "string \<Rightarrow> (string \<times> int) list \<Rightarrow> field_key \<Rightarrow> order_mark \<Rightarrow> bool" where
  "confirmed key orders fk m \<longleftrightarrow> fst fk = key \<and> om_lane m = Fast \<and> (snd fk, om_order m) \<in> set orders"

definition durable_at :: "secs \<Rightarrow> order_mark \<Rightarrow> order_mark" where
  "durable_at now m = \<lparr>om_order = om_order m, om_lane = Durable, om_seen = now\<rparr>"

lemma durable_at_simps [simp]: "om_order (durable_at now m) = om_order m" "om_lane (durable_at now m) = Durable"
  "om_seen (durable_at now m) = now" "\<not> confirmed key orders fk (durable_at now m)"
  by (simp_all add: durable_at_def confirmed_def)

definition lookup_updated ::
  "string \<Rightarrow> secs \<Rightarrow> (string \<times> int) list \<Rightarrow> order_mark option \<Rightarrow> field_key \<Rightarrow> order_mark option" where
  "lookup_updated key now orders found fk =
    (case found of None \<Rightarrow> None | Some m \<Rightarrow> Some (if confirmed key orders fk m then durable_at now m else m))"

definition lookup_changed ::
  "string \<Rightarrow> secs \<Rightarrow> (string \<times> int) list \<Rightarrow> order_mark option \<Rightarrow> order_mark option \<Rightarrow> field_key \<Rightarrow> order_mark option" where
  "lookup_changed key now orders found before fk =
    (case found of None \<Rightarrow> before | Some m \<Rightarrow> if confirmed key orders fk m then Some (durable_at now m) else before)"

lemma confirm_one_lookup:
  assumes "confirm_one key now p (ms, ch) = (ms', ch')"
  shows "map_of ms' fk = lookup_updated key now [p] (map_of ms fk) fk
      \<and> map_of ch' fk = lookup_changed key now [p] (map_of ms fk) (map_of ch fk) fk"
    and "od_ok ms \<Longrightarrow> od_ok ms'" "od_ok ch \<Longrightarrow> od_ok ch'"
proof -
  obtain g n where p: "p = (g, n)" by (cases p)
  show "map_of ms' fk = lookup_updated key now [p] (map_of ms fk) fk \<and>
    map_of ch' fk = lookup_changed key now [p] (map_of ms fk) (map_of ch fk) fk"
  proof (cases "fast_mark_matches (map_of ms (key, g)) n")
    case True
    then obtain m where m: "map_of ms (key, g) = Some m" "om_lane m = Fast" "om_order m = n"
      by (auto simp: fast_mark_matches_def split: option.splits)
    have new: "ms' = set_newest (key, g) (durable_at now m) ms" "ch' = AList.update (key, g) (durable_at now m) ch"
      using assms True m(3) by (simp_all add: confirm_one_def p durable_at_def Let_def)
    show ?thesis
    proof (cases "fk = (key, g)")
      case True
      then show ?thesis using m by (simp add: new lookup_updated_def lookup_changed_def confirmed_def p od_lookup_update del: map_of_eq_Some_iff)
    next
      case False
      then have "\<not> confirmed key [p] fk x" for x by (cases fk) (auto simp: confirmed_def p)
      with False show ?thesis
        by (simp add: new lookup_updated_def lookup_changed_def od_lookup_update split: option.split)
    qed
  next
    case False
    then have same: "ms' = ms" "ch' = ch" using assms by (simp_all add: confirm_one_def p)
    have "\<not> confirmed key [p] fk x" if "map_of ms fk = Some x" for x
      using that False by (cases fk) (auto simp: confirmed_def p fast_mark_matches_def)
    then show ?thesis by (simp add: same lookup_updated_def lookup_changed_def split: option.split)
  qed
  show "od_ok ms \<Longrightarrow> od_ok ms'" "od_ok ch \<Longrightarrow> od_ok ch'"
    using assms by (auto simp: confirm_one_def Let_def od_ok_update split: if_splits)
qed

lemma lookup_compose:
  "lookup_updated key now orders (lookup_updated key now [p] found fk) fk = lookup_updated key now (p # orders) found fk"
  "lookup_changed key now orders (lookup_updated key now [p] found fk) (lookup_changed key now [p] found before fk) fk
    = lookup_changed key now (p # orders) found before fk"
  by (cases found; auto simp: lookup_updated_def lookup_changed_def confirmed_def)+

lemma confirm_fold:
  assumes "fold (confirm_one key now) orders (ms, ch) = (updated, changed)"
  shows "map_of updated fk = lookup_updated key now orders (map_of ms fk) fk
    \<and> map_of changed fk = lookup_changed key now orders (map_of ms fk) (map_of ch fk) fk
    \<and> (od_ok ms \<longrightarrow> od_ok updated) \<and> (od_ok ch \<longrightarrow> od_ok changed)"
  using assms
proof (induction orders arbitrary: ms ch)
  case Nil
  then show ?case by (auto simp: lookup_updated_def lookup_changed_def confirmed_def split: option.split)
next
  case (Cons p orders)
  obtain ms' ch' where one: "confirm_one key now p (ms, ch) = (ms', ch')" by (cases "confirm_one key now p (ms, ch)")
  with Cons.prems have "fold (confirm_one key now) orders (ms', ch') = (updated, changed)" by simp
  from Cons.IH [OF this] show ?case
    using confirm_one_lookup(2,3) [OF one] confirm_one_lookup(1) [OF one, of fk] by (metis lookup_compose)
qed

lemma release_fold:
  "map_of (fold (release_one key) orders ms) fk =
    (case map_of ms fk of None \<Rightarrow> None | Some m \<Rightarrow> if confirmed key orders fk m then None else Some m)"
proof (induction orders arbitrary: ms)
  case Nil
  show ?case by (simp add: confirmed_def split: option.split)
next
  case (Cons p orders)
  obtain g n where p: "p = (g, n)" by (cases p)
  have one: "map_of (release_one key p ms) fk =
      (case map_of ms fk of None \<Rightarrow> None | Some m \<Rightarrow> if confirmed key [p] fk m then None else Some m)"
  proof (cases "fast_mark_matches (map_of ms (key, g)) n")
    case True
    then obtain m where "map_of ms (key, g) = Some m" "om_lane m = Fast" "om_order m = n"
      by (auto simp: fast_mark_matches_def split: option.splits)
    then have "(\<exists>m. map_of ms fk = Some m \<and> confirmed key [p] fk m) \<longleftrightarrow> fk = (key, g)"
      by (cases fk) (auto simp: confirmed_def p simp del: map_of_eq_Some_iff)
    with True show ?thesis
      by (auto simp: release_one_def p od_lookup_delete simp del: map_of_eq_Some_iff split: option.splits)
  next
    case False
    then have "\<not> confirmed key [p] fk m" if "map_of ms fk = Some m" for m
      using that by (cases fk) (auto simp: confirmed_def p fast_mark_matches_def)
    with False show ?thesis by (simp add: release_one_def p split: option.split)
  qed
  have "confirmed key (p # orders) fk m \<longleftrightarrow> confirmed key [p] fk m \<or> confirmed key orders fk m" for m
    by (simp add: confirmed_def) blast
  with one show ?case by (simp add: Cons.IH split: option.split)
qed

lemma release_ok: "od_ok ms \<Longrightarrow> od_ok (fold (release_one key) orders ms) \<and> length (fold (release_one key) orders ms) \<le> length ms"
proof (induction orders arbitrary: ms)
  case (Cons p orders)
  have "od_ok (release_one key p ms)" "length (release_one key p ms) \<le> length ms"
    using Cons.prems by (auto simp: release_one_def od_ok_delete length_delete_le)
  then show ?case using Cons.IH [of "release_one key p ms"] by auto
qed simp

section \<open>Operations as steps\<close>

datatype order_op =
    ClaimFast string "(string \<times> int) list" "field_key set" secs
  | ClaimDurable string "(string \<times> int) list" "field_key set" secs
  | ConfirmFast order_io string "(string \<times> int) list" secs
  | ConfirmDurable order_io string "(string \<times> int) list" "field_key set" secs
  | Release string "(string \<times> int) list"

fun order_step :: "order_history \<Rightarrow> order_op \<Rightarrow> order_history" where
  "order_step h (ClaimFast key orders active now) = snd (claim_fast key orders active now h)"
| "order_step h (ClaimDurable key orders active now) = h"
| "order_step h (ConfirmFast io key orders now) = snd (confirm_fast_applied io key orders now h)"
| "order_step h (ConfirmDurable io key orders active now) = snd (confirm_durable_applied io key orders active now h)"
| "order_step h (Release key orders) = release_fast key orders h"

definition order_inv :: "order_history \<Rightarrow> bool" where
  "order_inv h \<longleftrightarrow> od_ok (oh_marks h) \<and> length (oh_marks h) \<le> oh_capacity h"

lemma confirm_fast_marks:
  "oh_marks (snd (confirm_fast_applied io key orders now h)) = fst (fold (confirm_one key now) orders (oh_marks h, []))"
  "oh_capacity (snd (confirm_fast_applied io key orders now h)) = oh_capacity h"
  "oh_retention (snd (confirm_fast_applied io key orders now h)) = oh_retention h"
  by (simp_all add: confirm_fast_applied_def split: prod.split)

lemma confirm_fast_lookup:
  "map_of (oh_marks (snd (confirm_fast_applied io key orders now h))) fk = lookup_updated key now orders (map_of (oh_marks h) fk) fk"
  using confirm_fold [OF prod.collapse [symmetric], of key now orders "oh_marks h" "[]" fk] by (simp add: confirm_fast_marks)

lemma confirm_durable_marks:
  "oh_marks (snd (confirm_durable_applied io key orders active now h)) =
    (let candidate = pruned_marks h now active; claim = field_claim_of key orders candidate durable_order_claim_blocked
     in if claim_fits_capacity key orders claim candidate (oh_capacity h)
        then with_claimed_marks key orders Durable claim candidate now else oh_marks h)"
  "oh_capacity (snd (confirm_durable_applied io key orders active now h)) = oh_capacity h"
  "oh_retention (snd (confirm_durable_applied io key orders active now h)) = oh_retention h"
  by (simp_all add: confirm_durable_applied_def Let_def split: prod.split)

lemma claim_fast_marks:
  "oh_marks (snd (claim_fast key orders active now h)) =
    (let candidate = pruned_marks h now active; claim = field_claim_of key orders candidate fast_order_claim_blocked
     in if claim_fits_capacity key orders claim candidate (oh_capacity h)
        then with_claimed_marks key orders Fast claim candidate now else oh_marks h)"
  "oh_capacity (snd (claim_fast key orders active now h)) = oh_capacity h"
  "oh_retention (snd (claim_fast key orders active now h)) = oh_retention h"
  "oh_disk (snd (claim_fast key orders active now h)) = oh_disk h"
  by (simp_all add: claim_fast_def Let_def)

interpretation history: stepwise order_step order_inv
proof
  fix h op
  assume inv: "order_inv h"
  then have ok: "od_ok (oh_marks h)" by (simp add: order_inv_def)
  show "order_inv (order_step h op)"
  proof (cases op)
    case (ClaimFast key orders active now)
    with inv show ?thesis
      by (simp add: order_inv_def claim_fast_marks Let_def claimed_marks_ok pruned_ok claimed_marks_fit)
  next
    case (ConfirmFast io key orders now)
    let ?h' = "snd (confirm_fast_applied io key orders now h)"
    have ok': "od_ok (oh_marks ?h')"
      using confirm_fold [OF prod.collapse [symmetric], of key now orders "oh_marks h" "[]"] ok by (simp add: confirm_fast_marks)
    moreover have "dom (map_of (oh_marks ?h')) = dom (map_of (oh_marks h))"
      by (auto simp: dom_def confirm_fast_lookup lookup_updated_def split: option.splits simp del: map_of_eq_Some_iff)
    ultimately show ?thesis
      using inv ConfirmFast keys_length [OF ok] keys_length [OF ok'] by (simp add: order_inv_def confirm_fast_marks(2))
  next
    case (ConfirmDurable io key orders active now)
    with inv show ?thesis
      by (simp add: order_inv_def confirm_durable_marks Let_def claimed_marks_ok pruned_ok claimed_marks_fit)
  next
    case (Release key orders)
    with inv release_ok [OF ok, of key orders] show ?thesis by (auto simp: order_inv_def release_fast_def)
  qed (use inv in simp)
qed

section \<open>No way back\<close>

text \<open>An operation keeps the mark of a field when it neither forgets it as old nor releases it.\<close>

definition unforgotten :: "order_history \<Rightarrow> field_key \<Rightarrow> field_key set \<Rightarrow> secs \<Rightarrow> bool" where
  "unforgotten h fk active now \<longleftrightarrow>
    fk \<in> active \<or> (case map_of (oh_marks h) fk of None \<Rightarrow> False | Some m \<Rightarrow> now - oh_retention h < om_seen m)"

fun keeps_mark :: "order_history \<Rightarrow> field_key \<Rightarrow> order_op \<Rightarrow> bool" where
  "keeps_mark h fk (ClaimFast key orders active now) = (od_ok orders \<and> unforgotten h fk active now)"
| "keeps_mark h fk (ConfirmDurable io key orders active now) = (od_ok orders \<and> unforgotten h fk active now)"
| "keeps_mark h fk (Release key orders) = (case map_of (oh_marks h) fk of None \<Rightarrow> True | Some m \<Rightarrow> \<not> confirmed key orders fk m)"
| "keeps_mark h fk _ = True"

fun kept_run :: "order_history \<Rightarrow> field_key \<Rightarrow> order_op list \<Rightarrow> bool" where
  "kept_run h fk [] = True"
| "kept_run h fk (op # ops) = (keeps_mark h fk op \<and> kept_run (order_step h op) fk ops)"

lemma kept_in_pruned:
  assumes "order_inv h" "map_of (oh_marks h) fk = Some m" "unforgotten h fk active now"
  shows "map_of (pruned_marks h now active) fk = Some m"
  using assms by (simp add: pruned_lookup order_inv_def unforgotten_def)

lemma accepted_not_older:
  assumes "od_ok orders" "map_of marks (key, f) = Some m" "f \<in> set (fc_accepted (field_claim_of key orders marks blocked))"
    and "\<And>n. n < om_order m \<Longrightarrow> blocked n m"
  shows "om_order m \<le> order_of orders f"
proof (rule ccontr)
  assume "\<not> om_order m \<le> order_of orders f"
  then have "blocked (order_of orders f) m" using assms(4) by simp
  with accepted_field(1) [OF assms(1,3)] assms(2) show False by (simp add: field_blocked_def)
qed

lemma claimed_not_older:
  assumes "od_ok orders" "map_of marks fk = Some m" "\<And>n. n < om_order m \<Longrightarrow> blocked n m"
  shows "\<exists>m'. map_of (with_claimed_marks key orders l (field_claim_of key orders marks blocked) marks now) fk = Some m'
    \<and> om_order m \<le> om_order m'"
proof -
  obtain k f where fk: "fk = (k, f)" by (cases fk)
  show ?thesis
  proof (cases "k = key \<and> f \<in> set (fc_accepted (field_claim_of key orders marks blocked)) \<and> 0 < order_of orders f")
    case True
    with accepted_not_older [OF assms(1), of marks key f m blocked] assms(2,3) show ?thesis
      unfolding fk claimed_marks_lookup by simp
  next
    case False
    with assms(2) show ?thesis unfolding fk claimed_marks_lookup by (simp only: if_False) blast
  qed
qed

lemma blocked_older: "n < om_order m \<Longrightarrow> fast_order_claim_blocked n m" "n < om_order m \<Longrightarrow> durable_order_claim_blocked n m"
  by (simp_all add: fast_order_claim_blocked_def durable_order_claim_blocked_def)

lemma mark_never_falls:
  assumes "order_inv h" "map_of (oh_marks h) fk = Some m" "keeps_mark h fk op"
  shows "\<exists>m'. map_of (oh_marks (order_step h op)) fk = Some m' \<and> om_order m \<le> om_order m'"
proof (cases op)
  case (ClaimFast key orders active now)
  with assms kept_in_pruned [OF assms(1,2), of active now] claimed_not_older blocked_older(1) show ?thesis
    by (simp add: claim_fast_marks Let_def)
next
  case (ConfirmDurable io key orders active now)
  with assms kept_in_pruned [OF assms(1,2), of active now] claimed_not_older blocked_older(2) show ?thesis
    by (simp add: confirm_durable_marks Let_def)
next
  case (ConfirmFast io key orders now)
  with assms(2) show ?thesis by (simp add: confirm_fast_lookup lookup_updated_def)
next
  case (Release key orders)
  with assms(2,3) show ?thesis by (simp add: release_fast_def release_fold)
qed (use assms(2) in simp)

lemma kept_run_mark:
  assumes "order_inv h" "map_of (oh_marks h) fk = Some m" "kept_run h fk ops"
  shows "\<exists>m'. map_of (oh_marks (foldl order_step h ops)) fk = Some m' \<and> om_order m \<le> om_order m'"
  using assms
proof (induction ops arbitrary: h m)
  case (Cons op ops)
  from mark_never_falls [OF Cons.prems(1,2), of op] Cons.prems(3)
  obtain m1 where m1: "map_of (oh_marks (order_step h op)) fk = Some m1" "om_order m \<le> om_order m1" by auto
  from Cons.IH [OF history.step_inv [OF Cons.prems(1)] m1(1)] Cons.prems(3)
  obtain m' where "map_of (oh_marks (foldl order_step (order_step h op) ops)) fk = Some m'" "om_order m1 \<le> om_order m'" by auto
  with m1(2) show ?case by auto
qed simp

text \<open>
  Claim C13.  A field never goes back: however many claims, confirmations and releases of either lane happen after a
  field's mark was set, as long as none of them forgets or releases that mark, no publication with an older order is accepted
  for the field on any lane.
\<close>

theorem publication_never_goes_back:
  assumes "order_inv h" "map_of (oh_marks h) (key, f) = Some m" "kept_run h (key, f) ops"
    and "h' = foldl order_step h ops" "unforgotten h' (key, f) active now"
    and "od_ok orders" "map_of orders f = Some n" "n < om_order m"
  shows "f \<notin> set (fc_accepted (fst (claim_fast key orders active now h')))
    \<and> f \<notin> set (fc_accepted (claim_durable key orders active now h'))"
proof -
  obtain m' where m': "map_of (oh_marks h') (key, f) = Some m'" "om_order m \<le> om_order m'"
    using kept_run_mark [OF assms(1-3)] assms(4) by auto
  have "order_inv h'" unfolding assms(4) by (rule history.run_inv [OF assms(1)])
  from kept_in_pruned [OF this m'(1) assms(5)]
  have p: "map_of (pruned_marks h' now active) (key, f) = Some m'" .
  have "order_of orders f < om_order m'" using assms(7,8) m'(2) by (simp add: order_of_def)
  then have "f \<notin> set (fc_accepted (field_claim_of key orders (pruned_marks h' now active) blocked))"
    if "\<And>n. n < om_order m' \<Longrightarrow> blocked n m'" for blocked
    using accepted_not_older [OF assms(6) p, of blocked] that by fastforce
  from this [OF blocked_older(1)] this [OF blocked_older(2)] show ?thesis
    by (simp add: claim_fast_def claim_durable_def Let_def full_claim_def)
qed

text \<open>A history with one applied mark.\<close>

definition no_io :: order_io where
  "no_io = \<lparr>oi_path = False, oi_is_dir = False, oi_stat_ok = True, oi_append_ok = True, oi_write_ok = True,
     oi_unlink_ok = True, oi_line_bytes = length\<rparr>"

definition applied_history :: order_history where
  "applied_history = snd (confirm_durable_applied no_io ''evcs'' [(''mode'', 5)] {} 10
     (order_history_new no_io 4 60 0 \<lparr>dk_base = None, dk_journal = None\<rparr>))"

lemma applied_history_eq:
  "applied_history = \<lparr>oh_capacity = 4, oh_retention = 60,
     oh_marks = [((''evcs'', ''mode''), \<lparr>om_order = 5, om_lane = Durable, om_seen = 10\<rparr>)],
     oh_disk = \<lparr>dk_base = None, dk_journal = None\<rparr>\<rparr>"
  by code_simp

lemma applied_history_facts:
  "order_inv applied_history"
  "map_of (oh_marks applied_history) (''evcs'', ''mode'') = Some \<lparr>om_order = 5, om_lane = Durable, om_seen = 10\<rparr>"
  by (simp_all add: order_inv_def applied_history_eq)

theorem publication_never_goes_back_witness:
  "''mode'' \<notin> set (fc_accepted (claim_durable ''evcs'' [(''mode'', 4)] {} 30
     (foldl order_step applied_history [ClaimFast ''evcs'' [(''mode'', 7)] {} 20, ConfirmFast no_io ''evcs'' [(''mode'', 7)] 21])))"
proof -
  let ?ops = "[ClaimFast ''evcs'' [(''mode'', 7)] {} 20, ConfirmFast no_io ''evcs'' [(''mode'', 7)] 21]"
  have "kept_run applied_history (''evcs'', ''mode'') ?ops"
    by (simp add: unforgotten_def applied_history_eq)
  moreover have "unforgotten (foldl order_step applied_history ?ops) (''evcs'', ''mode'') {} 30" by code_simp
  ultimately show ?thesis
    using publication_never_goes_back [OF applied_history_facts _ refl, of ?ops "{}" 30 "[(''mode'', 4)]" 4] by simp
qed

text \<open>
  Releasing a dropped volatile claim forgets more than the claim: when the claim had replaced the mark of an
  applied durable value, the release leaves no mark at all, and any older durable publication of the field is accepted
  again, whatever its order.
\<close>

theorem dropped_claim_forgets_applied_value:
  assumes "order_inv h" "map_of (oh_marks h) (key, f) = Some m" "om_lane m = Durable" "unforgotten h (key, f) active now"
    and "0 < n" "om_order m < n" "claim_fast key [(f, n)] active now h = (claim, h1)" "fc_state claim = Accepted"
    and "old < om_order m" "0 < old"
  shows "map_of (oh_marks (release_fast key [(f, n)] h1)) (key, f) = None
    \<and> fc_accepted (claim_durable key [(f, old)] active' now' (release_fast key [(f, n)] h1)) = [f]"
proof -
  let ?p = "pruned_marks h now active" and ?h2 = "release_fast key [(f, n)] h1"
  have p: "map_of ?p (key, f) = Some m" by (rule kept_in_pruned [OF assms(1,2,4)])
  have c: "field_claim_of key [(f, n)] ?p fast_order_claim_blocked = \<lparr>fc_state = Accepted, fc_accepted = [f], fc_superseded = []\<rparr>"
    using p assms(6) by (simp add: field_claim_of_def field_blocked_def fast_order_claim_blocked_def Let_def)
  have h1: "oh_marks h1 = with_claimed_marks key [(f, n)] Fast (field_claim_of key [(f, n)] ?p fast_order_claim_blocked) ?p now"
    using assms(7,8) by (auto simp: claim_fast_def Let_def full_claim_def split: if_splits)
  have m1: "map_of (oh_marks h1) (key, f) = Some \<lparr>om_order = n, om_lane = Fast, om_seen = now\<rparr>"
    using assms(5) unfolding h1 claimed_marks_lookup c by (simp add: order_of_def)
  have "order_inv h1" using history.step_inv [OF assms(1), of "ClaimFast key [(f, n)] active now"] assms(7) by simp
  then have inv: "od_ok (oh_marks h1)" "length (oh_marks h1) \<le> oh_capacity h1" by (simp_all add: order_inv_def)
  have rel: "oh_marks ?h2 = AList.delete (key, f) (oh_marks h1)"
    using m1 by (simp add: release_fast_def release_one_def fast_mark_matches_def del: map_of_eq_Some_iff)
  then have gone: "map_of (oh_marks ?h2) (key, f) = None" by (simp add: od_lookup_delete)
  have "0 < length (oh_marks h1)" using m1 by (cases "oh_marks h1") auto
  then have short: "Suc (length (oh_marks ?h2)) \<le> oh_capacity ?h2"
    using inv length_delete_present [OF inv(1) m1] rel by (simp add: release_fast_def)
  have none: "map_of (pruned_marks ?h2 now' active') (key, f) = None"
    using gone pruned_lookup [of ?h2 now' active' "(key, f)"] inv(1) rel by (simp add: od_ok_delete)
  have "length (pruned_marks ?h2 now' active') + 1 \<le> oh_capacity ?h2" using short pruned_length [of ?h2 now' active'] by simp
  then have "fc_accepted (claim_durable key [(f, old)] active' now' ?h2) = [f]"
    using none assms(10) by (simp add: claim_durable_def field_claim_of_def field_blocked_def claim_fits_capacity_def
        claimed_field_keys_def order_of_def Let_def)
  with gone show ?thesis ..
qed

theorem dropped_claim_forgets_applied_value_witness:
  "fc_accepted (claim_durable ''evcs'' [(''mode'', 4)] {} 30
    (release_fast ''evcs'' [(''mode'', 7)] (snd (claim_fast ''evcs'' [(''mode'', 7)] {} 20 applied_history)))) = [''mode'']"
proof -
  let ?h1 = "snd (claim_fast ''evcs'' [(''mode'', 7)] {} 20 applied_history)"
  have claim: "claim_fast ''evcs'' [(''mode'', 7)] {} 20 applied_history = (fst (claim_fast ''evcs'' [(''mode'', 7)] {} 20 applied_history), ?h1)"
    by simp
  have "fc_state (fst (claim_fast ''evcs'' [(''mode'', 7)] {} 20 applied_history)) = Accepted" by code_simp
  from dropped_claim_forgets_applied_value [OF applied_history_facts _ _ _ _ claim this, of 4]
  show ?thesis by (simp add: unforgotten_def applied_history_eq)
qed

end
