(* ===== verification/Publication_Restart.thy ===== *)
theory Publication_Restart
  imports Publication_Claims
begin

text \<open>What a restarted gateway knows: the marks of applied publications survive in the state file and its journal.\<close>

section \<open>What is stored\<close>

definition stored_records :: "(order_marks \<Rightarrow> nat) \<Rightarrow> order_disk \<Rightarrow> order_marks" where
  "stored_records lb d = (case dk_base d of None \<Rightarrow> [] | Some m \<Rightarrow> m)
    @ (case dk_journal d of None \<Rightarrow> [] | Some ls \<Rightarrow> concat (filter (\<lambda>l. lb l \<le> journal_line_bytes) ls))"

definition short_lines :: "(order_marks \<Rightarrow> nat) \<Rightarrow> order_disk \<Rightarrow> bool" where
  "short_lines lb d \<longleftrightarrow> (\<forall>ls. dk_journal d = Some ls \<longrightarrow> (\<forall>l\<in>set ls. lb l \<le> journal_line_bytes))"

lemma load_records:
  "oi_path io \<Longrightarrow> load_marks io now ret d = fold (insert_state_mark now (now - ret)) (stored_records (oi_line_bytes io) d) []"
  by (simp add: load_marks_def stored_records_def journal_records_def)

lemma insert_marks_lookup:
  "map_of (fold (insert_state_mark now since) ps ms) fk =
    (case map_of (rev (filter (state_mark_ok now since) ps)) fk of None \<Rightarrow> map_of ms fk | Some m \<Rightarrow> Some m)"
proof (induction ps arbitrary: ms)
  case (Cons p ps)
  obtain k v where p: "p = (k, v)" by (cases p)
  show ?case
    using Cons [of "insert_state_mark now since p ms"]
    by (auto simp: insert_state_mark_def p map_of_append_if od_lookup_update simp del: map_of_append split: option.split)
qed simp

lemma map_of_filter_hit: "map_of ps k = Some v \<Longrightarrow> P (k, v) \<Longrightarrow> map_of (filter P ps) k = Some v"
  by (induction ps) (auto split: if_splits)

lemma load_restores:
  assumes "oi_path io" "map_of (rev (stored_records (oi_line_bytes io) d)) fk = Some m" "state_mark_ok now (now - ret) (fk, m)"
  shows "map_of (load_marks io now ret d) fk = Some m"
proof -
  have "map_of (rev (filter (state_mark_ok now (now - ret)) (stored_records (oi_line_bytes io) d))) fk = Some m"
    using map_of_filter_hit [OF assms(2), of "state_mark_ok now (now - ret)"] assms(3) by (simp add: rev_filter)
  then show ?thesis by (simp add: load_records [OF assms(1)] insert_marks_lookup)
qed

lemma map_of_rev_ok: "od_ok m \<Longrightarrow> map_of (rev m) = map_of m"
  by (rule map_of_inject_set [THEN iffD2]) (simp_all add: rev_map [symmetric])

lemma payload_lookup:
  "od_ok m \<Longrightarrow> map_of (rev (state_payload m)) fk = Some v \<longleftrightarrow> map_of m fk = Some v \<and> om_lane v = Durable"
  by (auto simp: map_of_rev_ok state_payload_def distinct_map_filter map_of_filter_ok simp del: map_of_eq_Some_iff split: option.split)

lemma compacted:
  assumes "compact_state io current d = (True, d')" "oi_path io"
  shows "stored_records lb d' = state_payload current" "dk_journal d' = None"
  using assms by (auto simp: compact_state_def persist_marks_def stored_records_def split: if_splits)

text \<open>What a successful checkpoint leaves stored.\<close>

definition covers :: "(order_marks \<Rightarrow> nat) \<Rightarrow> order_disk \<Rightarrow> order_marks \<Rightarrow> bool" where
  "covers lb d marks \<longleftrightarrow> short_lines lb d
    \<and> (\<forall>fk m. map_of marks fk = Some m \<and> om_lane m = Durable \<longrightarrow> map_of (rev (stored_records lb d)) fk = Some m)"

lemma compacted_covers:
  assumes "compact_state io current d = (True, d')" "oi_path io" "od_ok current"
  shows "covers lb d' current"
  using compacted [OF assms(1,2)] payload_lookup [OF assms(3)] by (simp add: covers_def short_lines_def)

lemma appended:
  assumes "append_state_delta io changed d = (True, d')" "short_lines (oi_line_bytes io) d" "\<forall>p\<in>set changed. om_lane (snd p) = Durable"
  shows "stored_records (oi_line_bytes io) d' = stored_records (oi_line_bytes io) d @ changed" "short_lines (oi_line_bytes io) d'"
  using assms
  by (auto simp: append_state_delta_def stored_records_def short_lines_def state_payload_def filter_id_conv split: if_splits option.splits)

lemma checkpoint_covers:
  assumes saved: "checkpoint_marks io changed current d = (True, d')" and io: "oi_path io" "oi_line_bytes io = lb"
    and d: "short_lines lb d" "\<And>fk m. map_of current fk = Some m \<Longrightarrow> om_lane m = Durable \<Longrightarrow> map_of changed fk = None
        \<Longrightarrow> map_of (rev (stored_records lb d)) fk = Some m"
    and current: "od_ok current" and changed: "od_ok changed"
      "\<And>fk m. map_of changed fk = Some m \<Longrightarrow> map_of current fk = Some m \<and> om_lane m = Durable"
  shows "covers lb d' current"
proof (cases "changed = []")
  case True
  with saved d show ?thesis by (auto simp: checkpoint_marks_def covers_def)
next
  case False
  with saved io(1) obtain d1 d2 where w: "prepare_journal io current d = (True, d1)" "append_state_delta io changed d1 = (True, d2)"
    "finish_checkpoint io current d2 = (True, d')"
    by (auto simp: checkpoint_marks_def write_checkpoint_def split: prod.splits if_splits bool.splits)
  have durable: "\<forall>p\<in>set changed. om_lane (snd p) = Durable"
    using changed by (metis map_of_is_SomeI prod.collapse)
  have d1: "short_lines lb d1 \<and> (\<forall>fk m. map_of current fk = Some m \<and> om_lane m = Durable \<and> map_of changed fk = None
      \<longrightarrow> map_of (rev (stored_records lb d1)) fk = Some m)"
  proof -
    have "d1 = d \<or> compact_state io current d = (True, d1)"
      using w(1) by (auto simp: prepare_journal_def split: if_splits option.splits)
    then show ?thesis
    proof
      assume "d1 = d" with d show ?thesis by blast
    next
      assume "compact_state io current d = (True, d1)"
      from compacted_covers [OF this io(1) current, of lb] show ?thesis unfolding covers_def by blast
    qed
  qed
  from appended [OF w(2)] d1 io(2) durable have d2: "stored_records lb d2 = stored_records lb d1 @ changed" "short_lines lb d2" by auto
  have "d' = d2 \<or> compact_state io current d2 = (True, d')"
    using w(3) by (auto simp: finish_checkpoint_def split: if_splits option.splits)
  then show ?thesis
  proof
    assume [simp]: "d' = d2"
    have "map_of (rev (stored_records lb d2)) fk = Some m" if m: "map_of current fk = Some m" "om_lane m = Durable" for fk m
    proof (cases "map_of changed fk")
      case None
      with d1 m have "map_of (rev (stored_records lb d1)) fk = Some m" by blast
      with None show ?thesis
        by (simp add: d2(1) map_of_append_if map_of_rev_ok [OF changed(1)] del: map_of_append)
    next
      case (Some m')
      with changed(2) m have "m' = m" by fastforce
      with Some show ?thesis by (simp add: d2(1) map_of_append_if map_of_rev_ok [OF changed(1)] del: map_of_append)
    qed
    with d2(2) show ?thesis by (simp add: covers_def)
  next
    assume "compact_state io current d2 = (True, d')"
    from compacted_covers [OF this io(1) current] show ?thesis .
  qed
qed

section \<open>Runs whose confirmations are saved\<close>

fun op_saved :: "(order_marks \<Rightarrow> nat) \<Rightarrow> order_history \<Rightarrow> order_op \<Rightarrow> bool" where
  "op_saved lb h (ConfirmFast io key orders now) =
    (oi_path io \<and> oi_line_bytes io = lb \<and> fst (confirm_fast_applied io key orders now h))"
| "op_saved lb h (ConfirmDurable io key orders active now) =
    (oi_path io \<and> oi_line_bytes io = lb \<and> od_ok orders \<and> fst (confirm_durable_applied io key orders active now h))"
| "op_saved lb h _ = True"

fun saved_run :: "(order_marks \<Rightarrow> nat) \<Rightarrow> order_history \<Rightarrow> order_op list \<Rightarrow> bool" where
  "saved_run lb h [] = True"
| "saved_run lb h (op # ops) = (op_saved lb h op \<and> saved_run lb (order_step h op) ops)"

lemma pruned_hit: "od_ok (oh_marks h) \<Longrightarrow> map_of (pruned_marks h now active) fk = Some m \<Longrightarrow> map_of (oh_marks h) fk = Some m"
  by (simp add: pruned_lookup del: map_of_eq_Some_iff split: option.splits if_splits)

lemma covers_less:
  assumes "covers lb d marks" "\<And>fk m. map_of marks' fk = Some m \<Longrightarrow> om_lane m = Durable \<Longrightarrow> map_of marks fk = Some m"
  shows "covers lb d marks'"
  using assms unfolding covers_def by blast

lemma confirm_fast_covers:
  assumes "order_inv h" "covers lb (oh_disk h) (oh_marks h)" "op_saved lb h (ConfirmFast io key orders now)"
  shows "covers lb (oh_disk (snd (confirm_fast_applied io key orders now h))) (oh_marks (snd (confirm_fast_applied io key orders now h)))"
proof -
  obtain updated changed where u: "fold (confirm_one key now) orders (oh_marks h, []) = (updated, changed)"
    by (cases "fold (confirm_one key now) orders (oh_marks h, [])")
  obtain saved d where c: "checkpoint_marks io changed updated (oh_disk h) = (saved, d)"
    by (cases "checkpoint_marks io changed updated (oh_disk h)")
  have io: "oi_path io" "oi_line_bytes io = lb" "saved" using assms(3) by (simp_all add: confirm_fast_applied_def u c)
  note look = confirm_fold [OF u]
  have ok: "od_ok updated" "od_ok changed" using look assms(1) by (auto simp: order_inv_def)
  have up: "map_of updated fk = lookup_updated key now orders (map_of (oh_marks h) fk) fk" for fk using look by blast
  have ch: "map_of changed fk = lookup_changed key now orders (map_of (oh_marks h) fk) None fk" for fk using look [of fk] by simp
  have "covers lb d updated"
  proof (rule checkpoint_covers [where changed = changed and d = "oh_disk h"])
    show "checkpoint_marks io changed updated (oh_disk h) = (True, d)" using c io(3) by simp
    show "short_lines lb (oh_disk h)" using assms(2) by (simp add: covers_def)
    fix fk m
    show "map_of (rev (stored_records lb (oh_disk h))) fk = Some m"
      if "map_of updated fk = Some m" "om_lane m = Durable" "map_of changed fk = None"
    proof -
      have "map_of (oh_marks h) fk = Some m"
        using that unfolding up ch lookup_updated_def lookup_changed_def by (simp split: option.splits if_splits)
      with that(2) assms(2) show ?thesis unfolding covers_def by blast
    qed
    show "map_of updated fk = Some m \<and> om_lane m = Durable" if "map_of changed fk = Some m"
      using that unfolding up ch lookup_updated_def lookup_changed_def by (auto split: option.splits if_splits)
  qed (use io ok in auto)
  then show ?thesis by (simp add: confirm_fast_applied_def u c)
qed

lemma confirm_durable_covers:
  assumes "order_inv h" "covers lb (oh_disk h) (oh_marks h)" "op_saved lb h (ConfirmDurable io key orders active now)"
  shows "covers lb (oh_disk (snd (confirm_durable_applied io key orders active now h)))
    (oh_marks (snd (confirm_durable_applied io key orders active now h)))"
proof -
  let ?p = "pruned_marks h now active"
  let ?claim = "field_claim_of key orders ?p durable_order_claim_blocked"
  let ?marks = "with_claimed_marks key orders Durable ?claim ?p now"
  let ?changed = "map (\<lambda>k. (k, the (map_of ?marks k))) (claimed_field_keys key orders ?claim)"
  obtain saved d where c: "checkpoint_marks io ?changed ?marks (oh_disk h) = (saved, d)"
    by (cases "checkpoint_marks io ?changed ?marks (oh_disk h)")
  have fits: "claim_fits_capacity key orders ?claim ?p (oh_capacity h)"
    using assms(3) by (auto simp: confirm_durable_applied_def Let_def split: if_splits)
  have io: "oi_path io" "oi_line_bytes io = lb" "od_ok orders" "saved"
    using assms(3) fits by (simp_all add: confirm_durable_applied_def Let_def c)
  have inv: "od_ok (oh_marks h)" using assms(1) by (simp add: order_inv_def)
  have "distinct (fc_accepted ?claim)"
    using io(3) by (simp add: field_claim_of_def Let_def distinct_map_filter)
  then have "distinct (claimed_field_keys key orders ?claim)"
    by (simp add: claimed_field_keys_def distinct_map inj_on_def)
  then have ok: "od_ok ?marks" "od_ok ?changed"
    using claimed_marks_ok [OF pruned_ok [OF inv]] by (simp_all add: o_def)
  have ch: "map_of ?changed fk = (if fk \<in> set (claimed_field_keys key orders ?claim) then Some (the (map_of ?marks fk)) else None)" for fk
    by (simp add: map_of_map_restrict restrict_map_def)
  have mk: "map_of ?marks fk = (if fk \<in> set (claimed_field_keys key orders ?claim)
      then Some \<lparr>om_order = order_of orders (snd fk), om_lane = Durable, om_seen = now\<rparr> else map_of ?p fk)" for fk
    by (cases fk) (auto simp: claimed_marks_lookup claimed_keys_set)
  have "covers lb d ?marks"
  proof (rule checkpoint_covers [where changed = ?changed and d = "oh_disk h"])
    show "checkpoint_marks io ?changed ?marks (oh_disk h) = (True, d)" using c io(4) by simp
    show "short_lines lb (oh_disk h)" using assms(2) by (simp add: covers_def)
    fix fk m
    show "map_of (rev (stored_records lb (oh_disk h))) fk = Some m"
      if "map_of ?marks fk = Some m" "om_lane m = Durable" "map_of ?changed fk = None"
    proof -
      have "fk \<notin> set (claimed_field_keys key orders ?claim)" using that(3) ch [of fk] by (metis option.distinct(1))
      then have "map_of ?p fk = Some m" using that(1) mk [of fk] by (metis (no_types))
      with pruned_hit [OF inv this] that(2) assms(2) show ?thesis unfolding covers_def by blast
    qed
    show "map_of ?marks fk = Some m \<and> om_lane m = Durable" if "map_of ?changed fk = Some m"
    proof -
      have "fk \<in> set (claimed_field_keys key orders ?claim)" using that ch [of fk] by (metis option.distinct(1))
      moreover from this have "m = the (map_of ?marks fk)" using that ch [of fk] by (metis option.inject)
      ultimately show ?thesis using mk [of fk] by (simp del: map_of_eq_Some_iff)
    qed
  qed (use io ok in auto)
  then show ?thesis by (simp add: confirm_durable_applied_def Let_def fits c)
qed

lemma step_covers:
  assumes "order_inv h" "covers lb (oh_disk h) (oh_marks h)" "op_saved lb h op"
  shows "covers lb (oh_disk (order_step h op)) (oh_marks (order_step h op))"
proof (cases op)
  case (ClaimFast key orders active now)
  have inv: "od_ok (oh_marks h)" using assms(1) by (simp add: order_inv_def)
  have "map_of (oh_marks h) fk = Some m"
    if "map_of (oh_marks (order_step h op)) fk = Some m" "om_lane m = Durable" for fk m
  proof -
    obtain k f where fk: "fk = (k, f)" by (cases fk)
    show ?thesis
      using that pruned_hit [OF inv, of now active fk m] unfolding ClaimFast fk
      by (auto simp: claim_fast_marks Let_def claimed_marks_lookup simp del: map_of_eq_Some_iff split: if_splits)
  qed
  then show ?thesis using covers_less [OF assms(2)] ClaimFast by (simp add: claim_fast_marks(4) del: map_of_eq_Some_iff)
next
  case (Release key orders)
  have "map_of (oh_marks h) fk = Some m" if "map_of (oh_marks (order_step h op)) fk = Some m" for fk m
    using that unfolding Release by (simp add: release_fast_def release_fold del: map_of_eq_Some_iff split: option.splits if_splits)
  then show ?thesis using covers_less [OF assms(2)] Release by (simp add: release_fast_def del: map_of_eq_Some_iff)
qed (use assms confirm_fast_covers confirm_durable_covers in auto)

lemma saved_run_covers:
  assumes "order_inv h" "covers lb (oh_disk h) (oh_marks h)" "saved_run lb h ops"
  shows "covers lb (oh_disk (foldl order_step h ops)) (oh_marks (foldl order_step h ops))"
  using assms
proof (induction ops arbitrary: h)
  case (Cons op ops)
  with step_covers [of h lb op] history.step_inv [of h op] show ?case by simp
qed simp


text \<open>A history on a disk that works, with one applied value.\<close>

definition file_io :: order_io where
  "file_io = no_io\<lparr>oi_path := True\<rparr>"

definition fresh_history :: order_history where
  "fresh_history = order_history_new file_io 4 60 0 \<lparr>dk_base = None, dk_journal = None\<rparr>"

definition confirmed_once :: order_history where
  "confirmed_once = foldl order_step fresh_history [ConfirmDurable file_io ''evcs'' [(''mode'', 5)] {} 10]"

lemma fresh_history_eq:
  "fresh_history = \<lparr>oh_capacity = 4, oh_retention = 60, oh_marks = [], oh_disk = \<lparr>dk_base = None, dk_journal = None\<rparr>\<rparr>"
  by code_simp

lemma confirm_once:
  "confirm_durable_applied file_io ''evcs'' [(''mode'', 5)] {} 10 fresh_history =
    (True, fresh_history\<lparr>oh_marks := [((''evcs'', ''mode''), \<lparr>om_order = 5, om_lane = Durable, om_seen = 10\<rparr>)],
       oh_disk := \<lparr>dk_base = None, dk_journal = Some [[((''evcs'', ''mode''), \<lparr>om_order = 5, om_lane = Durable, om_seen = 10\<rparr>)]]\<rparr>\<rparr>)"
  by (simp add: confirm_durable_applied_def fresh_history_eq pruned_marks_def field_claim_of_def field_blocked_def
      claim_fits_capacity_def claimed_field_keys_def order_of_def with_claimed_marks_def claimed_order_mark_def set_newest_def
      od_move_to_end_def checkpoint_marks_def write_checkpoint_def prepare_journal_def append_state_delta_def
      finish_checkpoint_def journal_size_def journal_line_bytes_def journal_compact_bytes_def state_payload_def
      file_io_def no_io_def Let_def)


end
