(* ===== verification/Publication_Payload.thy ===== *)
theory Publication_Payload
  imports Publication_Order
begin

text \<open>
  Publication commands as the transports see them: what may travel on the volatile lane
  (\<open>ipc/fast_publication_policy.py\<close>, \<open>ipc/gateway_publication.py\<close>), deadlines (\<open>ipc/deadline.py\<close>), size limits
  (\<open>ipc/fast_publication_wire.py\<close>), the field-wise merge and selection (\<open>ipc/publication_payload.py\<close>) and the
  leases of the fast queue (\<open>ipc/fast_publication_work.py\<close>).

  The number of bytes a command takes as JSON is an argument; it is \<open>None\<close> when the command cannot be encoded.
\<close>

section \<open>Values of a command\<close>

text \<open>\<open>str(command.get(name) or "")\<close>.\<close>

definition or_text :: "pyval option \<Rightarrow> string" where
  "or_text v = (case v of None \<Rightarrow> '''' | Some x \<Rightarrow> if falsy x then '''' else py_str x)"

text \<open>An integer beyond the float range is not caught.\<close>

definition command_float :: "pyval option \<Rightarrow> exc + pyfloat" where
  "command_float v = (case v of
     None \<Rightarrow> Inr (Fin 0) | Some PNone \<Rightarrow> Inr (Fin 0) | Some (PJson _) \<Rightarrow> Inr (Fin 0)
   | Some x \<Rightarrow> (case py_float x of Inr f \<Rightarrow> Inr f
       | Inl e \<Rightarrow> if e = TypeErr \<or> e = ValueErr then Inr (Fin 0) else Inl e))"

definition command_priority_rank :: "pyval option \<Rightarrow> nat" where
  "command_priority_rank v = (case v of None \<Rightarrow> 6 | Some PNone \<Rightarrow> 6
     | Some x \<Rightarrow> (case map_of [(''safety'', 0), (''user'', 1), (''publish'', 2), (''read'', 3), (''normal'', 4),
           (''optional'', 5), (''discovery'', 5), (''diagnostic'', 6)] (py_lower (py_strip (py_str x))) of
         Some n \<Rightarrow> n | None \<Rightarrow> 6))"

section \<open>What may be volatile\<close>

definition valid_field_name :: "string \<Rightarrow> bool" where
  "valid_field_name f \<longleftrightarrow> f \<noteq> '''' \<and> f = py_strip f"

definition parsed_fields :: "(string \<times> pyval) list option \<Rightarrow> (string \<times> pyval) list option" where
  "parsed_fields v = (case v of None \<Rightarrow> None
     | Some fs \<Rightarrow> if (\<forall>p\<in>set fs. valid_field_name (fst p)) \<and> fs \<noteq> [] then Some fs else None)"

fun publication_priority :: "pyval option \<Rightarrow> string option" where
  "publication_priority (Some (PStr s)) = (if s \<in> {''critical'', ''live'', ''diagnostic''} then Some s else None)"
| "publication_priority _ = None"

fun publication_service_id :: "pyval option \<Rightarrow> string option" where
  "publication_service_id (Some (PStr s)) =
    (if s \<noteq> '''' \<and> s = py_strip s \<and> (\<forall>c\<in>set s. \<not> py_space c) then Some s else None)"
| "publication_service_id _ = None"

definition parse_publish_evcs_fields :: "pub_command \<Rightarrow> ((string \<times> pyval) list \<times> string) option" where
  "parse_publish_evcs_fields c =
    (if map_of (cm_rest c) ''kind'' \<noteq> Some (PStr ''publish_evcs_fields'') then None
     else case (parsed_fields (cm_fields c), publication_priority (map_of (cm_rest c) ''publication_priority'')) of
       (Some fs, Some p) \<Rightarrow> Some (fs, p) | _ \<Rightarrow> None)"

definition parse_publish_companion_fields :: "pub_command \<Rightarrow> (string \<times> (string \<times> pyval) list \<times> string) option" where
  "parse_publish_companion_fields c =
    (if map_of (cm_rest c) ''kind'' \<noteq> Some (PStr ''publish_companion_fields'') then None
     else case (publication_service_id (map_of (cm_rest c) ''service_id''), parsed_fields (cm_fields c),
         publication_priority (map_of (cm_rest c) ''publication_priority'')) of
       (Some i, Some fs, Some p) \<Rightarrow> Some (i, fs, p) | _ \<Rightarrow> None)"

definition valid_transient_kind :: "pub_command \<Rightarrow> bool" where
  "valid_transient_kind c =
    (let kind = or_text (map_of (cm_rest c) ''kind'')
     in if kind = ''publish_evcs_fields'' then parse_publish_evcs_fields c \<noteq> None
        else if kind = ''publish_companion_fields'' then parse_publish_companion_fields c \<noteq> None
        else False)"

definition is_transient_publication :: "pub_command \<Rightarrow> bool" where
  "is_transient_publication c =
    (if or_text (map_of (cm_rest c) ''publication_priority'') \<notin> {''live'', ''diagnostic''} then False
     else valid_transient_kind c)"

section \<open>Deadlines\<close>

definition deadline_future_skew :: secs where
  "deadline_future_skew = 5"

definition transient_deadline :: secs where
  "transient_deadline = 30"

fun valid_deadline_anchor :: "pyfloat \<Rightarrow> secs \<Rightarrow> bool" where
  "valid_deadline_anchor (Fin created) now = (0 < created \<and> created \<le> now + deadline_future_skew)"
| "valid_deadline_anchor _ now = False"

definition normalized_transient_deadline :: "pyval option \<Rightarrow> exc + secs" where
  "normalized_transient_deadline v = bind_result (command_float v) (\<lambda>f. Inr
     (case f of Fin d \<Rightarrow> if d \<le> 0 then transient_deadline else min d transient_deadline | _ \<Rightarrow> transient_deadline))"

definition remaining_transient_ttl :: "pub_command \<Rightarrow> secs \<Rightarrow> exc + secs" where
  "remaining_transient_ttl c now =
    bind_result (normalized_transient_deadline (map_of (cm_rest c) ''deadline_s'')) (\<lambda>deadline.
      case map_of (cm_rest c) ''created_at'' of
        None \<Rightarrow> Inr (if map_of (cm_rest c) ''deadline_s'' \<noteq> None then 0 else deadline)
      | Some v \<Rightarrow> bind_result (command_float (Some v)) (\<lambda>created.
          case created of
            Fin t \<Rightarrow> Inr (if valid_deadline_anchor created now then max 0 (min deadline (t + deadline - now)) else 0)
          | _ \<Rightarrow> Inr 0))"

definition command_deadline_expired :: "pub_command \<Rightarrow> secs \<Rightarrow> exc + bool" where
  "command_deadline_expired c now =
    (if map_of (cm_rest c) ''deadline_s'' = None then Inr False
     else bind_result (command_float (map_of (cm_rest c) ''deadline_s'')) (\<lambda>deadline.
       bind_result (command_float (map_of (cm_rest c) ''created_at'')) (\<lambda>created.
         case deadline of
           Fin d \<Rightarrow> if d \<le> 0 then Inr False
             else (case created of
               Fin t \<Rightarrow> Inr (if valid_deadline_anchor created now then t + d < now else True)
             | _ \<Rightarrow> Inr True)
         | _ \<Rightarrow> Inr True)))"

section \<open>Limits\<close>

definition utf8_length :: "string \<Rightarrow> nat" where
  "utf8_length s = sum_list (map (\<lambda>c. if (of_char c :: nat) < 128 then 1 else 2) s)"

definition publication_fields :: "pub_command option \<Rightarrow> (string \<times> pyval) list" where
  "publication_fields c = (case c of None \<Rightarrow> [] | Some c \<Rightarrow> (case cm_fields c of None \<Rightarrow> [] | Some fs \<Rightarrow> fs))"

definition coalesce_key_limit_reason :: "pub_command \<Rightarrow> string" where
  "coalesce_key_limit_reason c = (case cm_key c of None \<Rightarrow> '''' | Some PNone \<Rightarrow> ''''
     | Some v \<Rightarrow> if 512 < utf8_length (py_str v) then ''coalesce-key-too-large'' else '''')"

definition field_shape_limit_reason :: "(string \<times> pyval) list \<Rightarrow> string" where
  "field_shape_limit_reason fs =
    (if 256 < length fs then ''field-limit''
     else if \<exists>p\<in>set fs. 256 < utf8_length (fst p) then ''field-name-too-large'' else '''')"

definition binary_payload_limit_reason :: "(pub_command \<Rightarrow> nat option) \<Rightarrow> pub_command \<Rightarrow> string" where
  "binary_payload_limit_reason body_bytes c = (case body_bytes c of None \<Rightarrow> ''payload-not-encodable''
     | Some n \<Rightarrow> if 48 * 1024 < n then ''payload-limit'' else '''')"

definition fast_publication_payload_limit_reason :: "(pub_command \<Rightarrow> nat option) \<Rightarrow> pub_command \<Rightarrow> string" where
  "fast_publication_payload_limit_reason body_bytes c =
    (if coalesce_key_limit_reason c \<noteq> '''' then coalesce_key_limit_reason c
     else if field_shape_limit_reason (publication_fields (Some c)) \<noteq> ''''
     then field_shape_limit_reason (publication_fields (Some c))
     else binary_payload_limit_reason body_bytes c)"

text \<open>The same comparisons on integers, which evaluate in binary.\<close>

lemma limit_reason_code [code]:
  "coalesce_key_limit_reason c = (case cm_key c of None \<Rightarrow> '''' | Some PNone \<Rightarrow> ''''
     | Some v \<Rightarrow> if (512 :: int) < int (utf8_length (py_str v)) then ''coalesce-key-too-large'' else '''')"
  "field_shape_limit_reason fs =
    (if (256 :: int) < int (length fs) then ''field-limit''
     else if \<exists>p\<in>set fs. (256 :: int) < int (utf8_length (fst p)) then ''field-name-too-large'' else '''')"
  "binary_payload_limit_reason body_bytes c = (case body_bytes c of None \<Rightarrow> ''payload-not-encodable''
     | Some n \<Rightarrow> if (49152 :: int) < int n then ''payload-limit'' else '''')"
  by (auto simp: coalesce_key_limit_reason_def field_shape_limit_reason_def binary_payload_limit_reason_def
      split: option.split pyval.split)

section \<open>Merging and selecting fields\<close>

text \<open>\<open>dict.update\<close>.\<close>

definition dict_update :: "('k \<times> 'v) list \<Rightarrow> ('k \<times> 'v) list \<Rightarrow> ('k \<times> 'v) list" where
  "dict_update m kvs = fold (\<lambda>(k, v). AList.update k v) kvs m"

definition set_field_orders :: "(string \<times> int) list \<Rightarrow> pub_command \<Rightarrow> pub_command" where
  "set_field_orders orders c =
    c\<lparr>cm_orders := (if \<exists>p\<in>set orders. snd p \<noteq> 0 then Some (map (\<lambda>(f, n). (f, PInt n)) orders) else None)\<rparr>"

definition accepted_candidate_fields :: "pub_command \<Rightarrow> string list option \<Rightarrow> (string \<times> pyval) list" where
  "accepted_candidate_fields c accepted = (case accepted of None \<Rightarrow> publication_fields (Some c)
     | Some fs \<Rightarrow> filter (\<lambda>p. fst p \<in> set fs) (publication_fields (Some c)))"

definition merge_candidate_field ::
  "(string \<times> int) list \<Rightarrow> string \<times> pyval \<Rightarrow> (string \<times> pyval) list \<times> (string \<times> int) list
    \<Rightarrow> (string \<times> pyval) list \<times> (string \<times> int) list" where
  "merge_candidate_field candidate_orders p m =
    (let ord = order_of candidate_orders (fst p)
     in if map_of (fst m) (fst p) = None \<or> order_of (snd m) (fst p) \<le> ord
        then (AList.update (fst p) (snd p) (fst m), AList.update (fst p) ord (snd m)) else m)"

definition merge_ordered_fields ::
  "(string \<times> pyval) list \<Rightarrow> (string \<times> pyval) list \<Rightarrow> (string \<times> int) list \<Rightarrow> (string \<times> int) list
    \<Rightarrow> (string \<times> pyval) list \<times> (string \<times> int) list" where
  "merge_ordered_fields existing candidate existing_orders candidate_orders =
    fold (merge_candidate_field candidate_orders) candidate (existing, existing_orders)"

definition field_orders_of :: "pub_command option \<Rightarrow> (string \<times> int) list" where
  "field_orders_of c = (case c of None \<Rightarrow> [] | Some c \<Rightarrow> publication_field_orders c)"

definition updated_command :: "pub_command option \<Rightarrow> pub_command \<Rightarrow> pub_command" where
  "updated_command existing c = (case existing of None \<Rightarrow> c
     | Some e \<Rightarrow> c\<lparr>cm_key := (case cm_key c of None \<Rightarrow> cm_key e | v \<Rightarrow> v),
         cm_order := (case cm_order c of None \<Rightarrow> cm_order e | v \<Rightarrow> v),
         cm_rest := dict_update (cm_rest e) (cm_rest c)\<rparr>)"

definition merge_publication_payload :: "pub_command option \<Rightarrow> pub_command \<Rightarrow> string list option \<Rightarrow> pub_command" where
  "merge_publication_payload existing c accepted =
    (case merge_ordered_fields (publication_fields existing) (accepted_candidate_fields c accepted)
         (field_orders_of existing) (publication_field_orders c) of
       (merged_fields, merged_orders) \<Rightarrow>
         set_field_orders merged_orders ((updated_command existing c)\<lparr>cm_fields := Some merged_fields\<rparr>))"

definition filter_publication_payload :: "pub_command \<Rightarrow> string list \<Rightarrow> pub_command option" where
  "filter_publication_payload c fs =
    (let vs = filter (\<lambda>p. fst p \<in> set fs) (publication_fields (Some c)); orders = publication_field_orders c
     in if vs = [] then None
        else Some (set_field_orders (map (\<lambda>p. (fst p, order_of orders (fst p))) vs) (c\<lparr>cm_fields := Some vs\<rparr>)))"

section \<open>Leases of the fast queue\<close>

record fast_work =
  fw_command :: pub_command
  fw_expires :: "(string \<times> secs) list"
  fw_retry :: secs
  fw_deferred :: bool

definition retained_fast_work :: "fast_work \<Rightarrow> secs \<Rightarrow> fast_work option" where
  "retained_fast_work w now =
    (let kept = filter (\<lambda>p. now < snd p) (fw_expires w)
     in case filter_publication_payload (fw_command w) (map fst kept) of None \<Rightarrow> None
        | Some c \<Rightarrow> Some (w\<lparr>fw_command := c, fw_expires := kept\<rparr>))"

definition fast_requeue_candidate :: "fast_work \<Rightarrow> secs \<Rightarrow> (string \<times> fast_work) option" where
  "fast_requeue_candidate w now = (case retained_fast_work w now of None \<Rightarrow> None
     | Some r \<Rightarrow> if command_key (fw_command r) = '''' then None else Some (command_key (fw_command r), r))"

definition fast_field_selection :: "fast_work \<Rightarrow> string list \<Rightarrow> (string list \<times> string list) option" where
  "fast_field_selection w fs =
    (let queued = publication_fields (Some (fw_command w));
         removed = filter (\<lambda>f. f \<in> fst ` set queued) fs
     in if removed = [] then None else Some (removed, filter (\<lambda>f. f \<notin> set removed) (map fst queued)))"

definition merged_field_expiry :: "fast_work \<Rightarrow> fast_work \<Rightarrow> (string \<times> secs) list" where
  "merged_field_expiry requeued queued =
    fold (\<lambda>(f, t) m. if map_of m f = None
          \<or> order_of (publication_field_orders (fw_command requeued)) f \<le> order_of (publication_field_orders (fw_command queued)) f
        then AList.update f t m else m)
      (fw_expires queued) (fw_expires requeued)"

definition merge_fast_work :: "fast_work \<Rightarrow> fast_work option \<Rightarrow> secs \<Rightarrow> bool \<Rightarrow> fast_work" where
  "merge_fast_work requeued queued retry_at deferred =
    (case queued of None \<Rightarrow> requeued\<lparr>fw_retry := retry_at, fw_deferred := deferred\<rparr>
     | Some w \<Rightarrow> \<lparr>fw_command = merge_publication_payload (Some (fw_command requeued)) (fw_command w) None,
         fw_expires = merged_field_expiry requeued w, fw_retry = min retry_at (fw_retry w),
         fw_deferred = (deferred \<and> fw_deferred w)\<rparr>)"

end
