(* ===== verification/Publication_Queue.thy ===== *)
theory Publication_Queue
  imports Publication_Payload "HOL-Library.Product_Lexorder"
begin

text \<open>
  The volatile publication queue of the gateway (\<open>ipc/fast_publication.py\<close>, \<open>ipc/fast_publication_ordering.py\<close>,
  \<open>ipc/fast_publication_metrics.py\<close>) and the burst that drains it (\<open>dbus_adapter/write/core.py\<close>).

  An operation reads the wall clock and the monotonic clock once.  What lies outside the queue is the record
  \<open>queue_env\<close>: the bytes a command takes as JSON, the digest of a key, the text of a float.
\<close>

record queue_env =
  qe_body :: "pub_command \<Rightarrow> nat option"
  qe_digest :: "string \<Rightarrow> string"
  qe_float_text :: "pyfloat \<Rightarrow> string"

section \<open>Counters\<close>

record fast_metrics =
  fm_counts :: "(string \<times> nat) list"
  fm_sample_at :: secs
  fm_since :: nat

definition metrics_new :: fast_metrics where
  "metrics_new = \<lparr>fm_counts = [], fm_sample_at = 0, fm_since = 0\<rparr>"

definition metrics_increment :: "string \<Rightarrow> nat \<Rightarrow> fast_metrics \<Rightarrow> fast_metrics" where
  "metrics_increment key amount m =
    m\<lparr>fm_counts := AList.update key ((case map_of (fm_counts m) key of None \<Rightarrow> 0 | Some n \<Rightarrow> n) + amount) (fm_counts m)\<rparr>"

definition success_sample_due :: "secs \<Rightarrow> fast_metrics \<Rightarrow> bool" where
  "success_sample_due now m \<longleftrightarrow> fm_sample_at m \<le> 0 \<or> 25 \<le> fm_since m \<or> 5 \<le> now - fm_sample_at m"

definition metrics_record_outcome :: "string \<Rightarrow> secs \<Rightarrow> fast_metrics \<Rightarrow> bool \<times> fast_metrics" where
  "metrics_record_outcome state now m =
    (let m1 = metrics_increment state 1 m
     in if state \<noteq> ''applied'' then (True, m1)
        else let m2 = m1\<lparr>fm_since := fm_since m1 + 1\<rparr>
        in if \<not> success_sample_due now m2 then (False, m2)
           else (True, metrics_increment ''applied_samples'' 1 (m2\<lparr>fm_sample_at := now, fm_since := 0\<rparr>)))"

section \<open>The queue\<close>

record fast_queue =
  fq_capacity :: nat
  fq_commands :: "(string \<times> fast_work) list"
  fq_history :: order_history
  fq_metrics :: fast_metrics

definition fast_queue_new :: "order_io \<Rightarrow> int \<Rightarrow> int option \<Rightarrow> secs \<Rightarrow> secs \<Rightarrow> order_disk \<Rightarrow> fast_queue" where
  "fast_queue_new io capacity order_capacity retention now d =
    (let cap = max 1 capacity;
         order_cap = max 1 (case order_capacity of None \<Rightarrow> cap * 64 | Some n \<Rightarrow> n)
     in \<lparr>fq_capacity = nat cap, fq_commands = [],
         fq_history = order_history_new io order_cap (max 1 retention) now d, fq_metrics = metrics_new\<rparr>)"

definition queue_count :: "string \<Rightarrow> nat \<Rightarrow> fast_queue \<Rightarrow> fast_queue" where
  "queue_count key amount q = q\<lparr>fq_metrics := metrics_increment key amount (fq_metrics q)\<rparr>"

definition active_fields :: "fast_queue \<Rightarrow> field_key set" where
  "active_fields q = set (concat (map (\<lambda>(key, w). map (\<lambda>p. (key, fst p)) (fw_expires w)) (fq_commands q)))"

section \<open>Enqueue\<close>

record enqueue_result =
  er_accepted :: bool
  er_id :: string
  er_reason :: string

definition fast_command_id :: "queue_env \<Rightarrow> string \<Rightarrow> string" where
  "fast_command_id env key = ''fast-'' @ qe_digest env key"

text \<open>A time of zero is replaced by the current one.\<close>

definition created_or_now :: "queue_env \<Rightarrow> pyval option \<Rightarrow> secs \<Rightarrow> exc + pyval" where
  "created_or_now env v wall = bind_result (command_float v) (\<lambda>f. Inr
    (if f = Fin 0 then PFloat (Fin wall) (qe_float_text env (Fin wall)) else PFloat f (qe_float_text env f)))"

definition stamped :: "queue_env \<Rightarrow> string \<Rightarrow> secs \<Rightarrow> pub_command \<Rightarrow> exc + pub_command" where
  "stamped env key wall c = bind_result (created_or_now env (map_of (cm_rest c) ''created_at'') wall) (\<lambda>created. Inr
    (c\<lparr>cm_rest := dict_update (cm_rest c)
       [(''id'', PStr (fast_command_id env key)), (''created_at'', created), (''queue_class'', PStr ''local-publish'')]\<rparr>))"

definition queue_payload :: "queue_env \<Rightarrow> fast_work option \<Rightarrow> pub_command \<Rightarrow> string \<Rightarrow> secs \<Rightarrow> exc + pub_command" where
  "queue_payload env existing c key wall =
    stamped env key wall (merge_publication_payload (map_option fw_command existing) c None)"

definition merged_work ::
  "queue_env \<Rightarrow> fast_work option \<Rightarrow> pub_command \<Rightarrow> string \<Rightarrow> string list \<Rightarrow> secs \<Rightarrow> secs \<Rightarrow> secs \<Rightarrow> exc + fast_work" where
  "merged_work env existing c key accepted ttl wall clk =
    bind_result (stamped env key wall (merge_publication_payload (map_option fw_command existing) c (Some accepted))) (\<lambda>payload. Inr
      \<lparr>fw_command = payload,
       fw_expires = dict_update (case existing of None \<Rightarrow> [] | Some w \<Rightarrow> fw_expires w) (map (\<lambda>f. (f, clk + ttl)) accepted),
       fw_retry = 0, fw_deferred = False\<rparr>)"

definition queue_at_capacity :: "fast_queue \<Rightarrow> fast_work option \<Rightarrow> bool" where
  "queue_at_capacity q existing \<longleftrightarrow> existing = None \<and> fq_capacity q \<le> length (fq_commands q)"

definition rejected_enqueue :: "string \<Rightarrow> string option \<Rightarrow> fast_queue \<Rightarrow> enqueue_result \<times> fast_queue" where
  "rejected_enqueue reason metric q =
    (\<lparr>er_accepted = False, er_id = '''', er_reason = reason\<rparr>,
     queue_count (case metric of Some m \<Rightarrow> m | None \<Rightarrow> map (\<lambda>c. if c = CHR ''-'' then CHR ''_'' else c) reason) 1 q)"

definition rejection_reason :: "queue_env \<Rightarrow> pub_command \<Rightarrow> string" where
  "rejection_reason env c =
    (if \<not> is_transient_publication c then ''durable-command-required''
     else if command_key c = '''' then ''missing-coalesce-key''
     else fast_publication_payload_limit_reason (qe_body env) c)"

text \<open>The candidate: the lifetime that remains, or why there is none.\<close>

definition enqueue_candidate :: "queue_env \<Rightarrow> secs \<Rightarrow> pub_command \<Rightarrow> fast_queue \<Rightarrow> exc + ((string \<times> string option) + secs)" where
  "enqueue_candidate env wall c q =
    (let key = command_key c; existing = map_of (fq_commands q) key
     in bind_result (queue_payload env existing c key wall) (\<lambda>payload.
       let reason = fast_publication_payload_limit_reason (qe_body env) payload
       in if reason \<noteq> '''' then Inr (Inl (reason, None))
          else if queue_at_capacity q existing then Inr (Inl (''queue-full'', Some ''full''))
          else bind_result (remaining_transient_ttl c wall) (\<lambda>ttl.
            if ttl \<le> 0 then Inr (Inl (''expired'', None)) else Inr (Inr ttl))))"

definition set_commands :: "string \<Rightarrow> fast_work \<Rightarrow> fast_queue \<Rightarrow> fast_queue" where
  "set_commands key w q = q\<lparr>fq_commands := od_move_to_end key (AList.update key w (fq_commands q))\<rparr>"

definition accept_claim ::
  "queue_env \<Rightarrow> secs \<Rightarrow> secs \<Rightarrow> pub_command \<Rightarrow> secs \<Rightarrow> field_claim \<Rightarrow> fast_queue \<Rightarrow> (enqueue_result, fast_queue) outcome" where
  "accept_claim env wall clk c ttl claim q =
    (let key = command_key c; existing = map_of (fq_commands q) key
     in case merged_work env existing c key (fc_accepted claim) ttl wall clk of
       Inl e \<Rightarrow> (Inl e, q)
     | Inr w \<Rightarrow>
         let q1 = queue_count ''accepted'' 1 (set_commands key w q);
             q2 = (if existing \<noteq> None then queue_count ''coalesced'' 1 q1 else q1);
             q3 = (if fc_superseded claim \<noteq> [] then queue_count ''fields_superseded'' (length (fc_superseded claim)) q2 else q2)
         in (Inr \<lparr>er_accepted = True, er_id = fast_command_id env key, er_reason = ''''\<rparr>, q3))"

definition enqueue_claimed ::
  "queue_env \<Rightarrow> secs \<Rightarrow> secs \<Rightarrow> pub_command \<Rightarrow> secs \<Rightarrow> fast_queue \<Rightarrow> (enqueue_result, fast_queue) outcome" where
  "enqueue_claimed env wall clk c ttl q =
    (case claim_fast (command_key c) (publication_field_orders c) (active_fields q) clk (fq_history q) of
       (claim, h) \<Rightarrow>
         let q1 = q\<lparr>fq_history := h\<rparr>
         in case fc_state claim of
           Superseded \<Rightarrow> (Inr \<lparr>er_accepted = True, er_id = fast_command_id env (command_key c), er_reason = ''superseded''\<rparr>,
             queue_count ''superseded'' 1 q1)
         | Full \<Rightarrow> (case rejected_enqueue ''order-history-full'' None q1 of (r, q2) \<Rightarrow> (Inr r, q2))
         | Accepted \<Rightarrow> accept_claim env wall clk c ttl claim q1)"

definition enqueue :: "queue_env \<Rightarrow> secs \<Rightarrow> secs \<Rightarrow> pub_command \<Rightarrow> fast_queue \<Rightarrow> (enqueue_result, fast_queue) outcome" where
  "enqueue env wall clk c q =
    (let rejection = rejection_reason env c
     in if rejection \<noteq> '''' then (Inr \<lparr>er_accepted = False, er_id = '''', er_reason = rejection\<rparr>, queue_count ''rejected'' 1 q)
        else case enqueue_candidate env wall c q of
          Inl e \<Rightarrow> (Inl e, q)
        | Inr (Inl (reason, metric)) \<Rightarrow> (case rejected_enqueue reason metric q of (r, q1) \<Rightarrow> (Inr r, q1))
        | Inr (Inr ttl) \<Rightarrow> enqueue_claimed env wall clk c ttl q)"

section \<open>Expiry\<close>

definition release_fast_work :: "fast_work \<Rightarrow> fast_queue \<Rightarrow> fast_queue" where
  "release_fast_work w q =
    q\<lparr>fq_history := release_fast (command_key (fw_command w)) (publication_field_orders (fw_command w)) (fq_history q)\<rparr>"

definition drop_expired_work :: "string \<Rightarrow> fast_work \<Rightarrow> fast_queue \<Rightarrow> fast_queue" where
  "drop_expired_work key w q =
    queue_count ''expired'' 1 (release_fast_work w (q\<lparr>fq_commands := AList.delete key (fq_commands q)\<rparr>))"

definition retain_unexpired_fields :: "string \<Rightarrow> fast_work \<Rightarrow> fast_work \<Rightarrow> fast_queue \<Rightarrow> fast_queue" where
  "retain_unexpired_fields key w retained q =
    (let expired = set (map fst (fw_expires w)) - set (map fst (fw_expires retained));
         orders = filter (\<lambda>p. fst p \<in> expired) (publication_field_orders (fw_command w))
     in queue_count ''fields_expired'' (card expired)
         (q\<lparr>fq_history := release_fast key orders (fq_history q), fq_commands := AList.update key retained (fq_commands q)\<rparr>))"

definition prune_fast_work :: "secs \<Rightarrow> string \<times> fast_work \<Rightarrow> fast_queue \<Rightarrow> fast_queue" where
  "prune_fast_work now p q =
    (case retained_fast_work (snd p) now of
       None \<Rightarrow> drop_expired_work (fst p) (snd p) q
     | Some retained \<Rightarrow>
         if length (fw_expires retained) \<noteq> length (fw_expires (snd p))
         then retain_unexpired_fields (fst p) (snd p) retained q else q)"

definition prune_expired :: "secs \<Rightarrow> fast_queue \<Rightarrow> fast_queue" where
  "prune_expired now q = fold (prune_fast_work now) (fq_commands q) q"

section \<open>Taking work and giving it back\<close>

definition fast_work_priority :: "secs \<Rightarrow> fast_work \<Rightarrow> nat \<times> nat \<times> secs" where
  "fast_work_priority now w =
    (command_priority_rank (map_of (cm_rest (fw_command w)) ''priority''),
     (if fw_deferred w \<and> 1 \<le> max 0 (now - fw_retry w) then 0 else if fw_deferred w then 2 else 1),
     fw_retry w)"

text \<open>\<open>min(items, key=...)\<close>: the first of the least.\<close>

fun first_min :: "('a \<Rightarrow> 'b::linorder) \<Rightarrow> 'a list \<Rightarrow> 'a option" where
  "first_min key [] = None"
| "first_min key (x # xs) = (case first_min key xs of None \<Rightarrow> Some x | Some y \<Rightarrow> if key y < key x then Some y else Some x)"

definition pop_next :: "secs \<Rightarrow> fast_queue \<Rightarrow> fast_work option \<times> fast_queue" where
  "pop_next now q =
    (let q1 = prune_expired now q;
         eligible = filter (\<lambda>p. fw_retry (snd p) \<le> now) (fq_commands q1)
     in case first_min (\<lambda>p. fast_work_priority now (snd p)) eligible of
       None \<Rightarrow> (None, q1)
     | Some (key, w) \<Rightarrow> (Some w, q1\<lparr>fq_commands := AList.delete key (fq_commands q1)\<rparr>))"

definition retry_seconds :: secs where
  "retry_seconds = 1 / 4"

definition requeue :: "fast_work \<Rightarrow> bool \<Rightarrow> secs \<Rightarrow> fast_queue \<Rightarrow> fast_queue" where
  "requeue w deferred now q =
    (case fast_requeue_candidate w now of
       None \<Rightarrow> queue_count ''expired'' 1 (release_fast_work w q)
     | Some (key, retained) \<Rightarrow>
         set_commands key (merge_fast_work retained (map_of (fq_commands q) key)
           (if deferred then now + retry_seconds else now) deferred) q)"

definition record_outcome :: "order_io \<Rightarrow> fast_work \<Rightarrow> string \<Rightarrow> secs \<Rightarrow> secs \<Rightarrow> fast_queue \<Rightarrow> bool \<times> fast_queue" where
  "record_outcome io w state clk wall q =
    (let normalized = (if state = '''' then ''unknown'' else state);
         key = command_key (fw_command w); orders = publication_field_orders (fw_command w);
         q1 = (if normalized = ''applied''
               then case confirm_fast_applied io key orders clk (fq_history q) of
                 (saved, h) \<Rightarrow> (if saved then id else queue_count ''order_state_write_errors'' 1) (q\<lparr>fq_history := h\<rparr>)
               else if normalized = ''dropped'' then release_fast_work w q else q)
     in case metrics_record_outcome normalized wall (fq_metrics q1) of (sample, m) \<Rightarrow> (sample, q1\<lparr>fq_metrics := m\<rparr>))"

section \<open>The durable fallback\<close>

datatype durable_error = PendingFast | HistoryFull

definition durable_waits_for_fast :: "(string \<times> int) list \<Rightarrow> fast_work option \<Rightarrow> bool" where
  "durable_waits_for_fast orders queued = (case queued of None \<Rightarrow> False
     | Some w \<Rightarrow> (\<exists>p\<in>set orders. case map_of (publication_field_orders (fw_command w)) (fst p) of
         None \<Rightarrow> False | Some n \<Rightarrow> snd p \<le> n))"

definition prepare_durable :: "secs \<Rightarrow> pub_command \<Rightarrow> fast_queue \<Rightarrow> (durable_error + pub_command option) \<times> fast_queue" where
  "prepare_durable now c q =
    (let q1 = prune_expired now q; key = command_key c; orders = publication_field_orders c
     in if durable_waits_for_fast orders (map_of (fq_commands q1) key)
        then (Inl PendingFast, queue_count ''durable_waiting_for_fast'' 1 q1)
        else let claim = claim_durable key orders (active_fields q1) now (fq_history q1)
        in if fc_state claim = Full then (Inl HistoryFull, queue_count ''durable_order_history_full'' 1 q1)
           else if fc_accepted claim = [] then (Inr None, queue_count ''durable_superseded'' 1 q1)
           else (Inr (filter_publication_payload c (fc_accepted claim)),
             if fc_superseded claim \<noteq> [] then queue_count ''durable_fields_superseded'' (length (fc_superseded claim)) q1 else q1))"

text \<open>Reading the expiry of a field that has none is a \<open>KeyError\<close>.\<close>

definition store_remaining_fast_fields :: "string \<Rightarrow> fast_work \<Rightarrow> string list \<Rightarrow> fast_queue \<Rightarrow> (unit, fast_queue) outcome" where
  "store_remaining_fast_fields key w remaining q =
    (case filter_publication_payload (fw_command w) remaining of
       None \<Rightarrow> (Inr (), q\<lparr>fq_commands := AList.delete key (fq_commands q)\<rparr>)
     | Some c \<Rightarrow>
         if \<exists>f\<in>set remaining. map_of (fw_expires w) f = None then (Inl KeyError, q)
         else (Inr (), q\<lparr>fq_commands := AList.update key
           (w\<lparr>fw_command := c, fw_expires := map (\<lambda>f. (f, the (map_of (fw_expires w) f))) remaining\<rparr>) (fq_commands q)\<rparr>))"

definition remove_fast_fields :: "string \<Rightarrow> string list \<Rightarrow> fast_queue \<Rightarrow> (unit, fast_queue) outcome" where
  "remove_fast_fields key fs q =
    (case map_of (fq_commands q) key of None \<Rightarrow> (Inr (), q)
     | Some w \<Rightarrow> (case fast_field_selection w fs of None \<Rightarrow> (Inr (), q)
       | Some (removed, remaining) \<Rightarrow>
           and_then (store_remaining_fast_fields key w remaining q) (\<lambda>_ q1.
             (Inr (), queue_count ''fast_fields_superseded'' (length removed) q1))))"

definition record_durable_outcome :: "order_io \<Rightarrow> pub_command \<Rightarrow> string \<Rightarrow> secs \<Rightarrow> fast_queue \<Rightarrow> (unit, fast_queue) outcome" where
  "record_durable_outcome io c state now q =
    (if state \<noteq> ''applied'' then (Inr (), q)
     else let key = command_key c; orders = publication_field_orders c
     in case confirm_durable_applied io key orders (active_fields q) now (fq_history q) of
       (saved, h) \<Rightarrow> and_then (remove_fast_fields key (map fst orders) (q\<lparr>fq_history := h\<rparr>)) (\<lambda>_ q1.
         (Inr (), if saved then q1 else queue_count ''order_state_write_errors'' 1 q1)))"

section \<open>Draining\<close>

text \<open>
  What the dispatcher makes of a candidate: nothing when the budget is used up, or an outcome (with the monotonic
  and the wall clock when it is recorded).  \<open>judge n w\<close> is its answer to the \<open>n\<close>-th candidate of the burst.
\<close>

datatype dispatch = Blocked | Ran string secs secs

fun process_fast_publish_candidate :: "order_io \<Rightarrow> secs \<Rightarrow> dispatch \<Rightarrow> fast_work \<Rightarrow> fast_queue \<Rightarrow> bool \<times> fast_queue" where
  "process_fast_publish_candidate io started Blocked w q = (False, requeue w False started q)"
| "process_fast_publish_candidate io started (Ran state clk wall) w q =
    (case record_outcome io w state clk wall q of
       (_, q1) \<Rightarrow> (True, if state = ''deferred'' then requeue w True started q1 else q1))"

fun process_fast_publish_burst ::
  "order_io \<Rightarrow> secs \<Rightarrow> (nat \<Rightarrow> fast_work \<Rightarrow> dispatch) \<Rightarrow> nat \<Rightarrow> nat \<Rightarrow> fast_queue \<Rightarrow> (nat \<times> bool) \<times> fast_queue" where
  "process_fast_publish_burst io started judge 0 n q = ((n, True), q)"
| "process_fast_publish_burst io started judge (Suc l) n q =
    (case pop_next started q of
       (None, q1) \<Rightarrow> ((n, False), q1)
     | (Some w, q1) \<Rightarrow> (case process_fast_publish_candidate io started (judge n w) w q1 of
         (False, q2) \<Rightarrow> ((n, True), q2)
       | (True, q2) \<Rightarrow> process_fast_publish_burst io started judge l (n + 1) q2))"

end
