(* ===== verification/Publication_Payload_Props.thy ===== *)
theory Publication_Payload_Props
  imports Publication_Payload Publication_Claims
begin

text \<open>
  A publication as a table from fields to values with their orders: merging keeps, per field, what is newer, and
  selecting restricts the table.
\<close>

section \<open>The table of a command\<close>

type_synonym field_table = "string \<Rightarrow> (pyval \<times> int) option"

definition field_view :: "pub_command \<Rightarrow> field_table" where
  "field_view c f = (case map_of (publication_fields (Some c)) f of None \<Rightarrow> None
     | Some v \<Rightarrow> Some (v, order_of (publication_field_orders c) f))"

definition newest :: "(pyval \<times> int) option \<Rightarrow> (pyval \<times> int) option \<Rightarrow> (pyval \<times> int) option" where
  "newest a b = (case b of None \<Rightarrow> a | Some (v, n) \<Rightarrow>
     (case a of None \<Rightarrow> b | Some (_, m) \<Rightarrow> if m \<le> n then b else a))"

lemma newest_None [simp]: "newest a None = a" "newest None b = b"
  by (simp_all add: newest_def split: option.split)

text \<open>A JSON object has distinct keys; the issuer gives every field a positive order.\<close>

definition ordered_fields :: "pub_command \<Rightarrow> bool" where
  "ordered_fields c \<longleftrightarrow> od_ok (publication_fields (Some c)) \<and> (\<forall>p\<in>set (publication_field_orders c). 0 < snd p)"

lemma field_orders_keys: "map fst (publication_field_orders c) = map fst (publication_fields (Some c))"
  by (cases "cm_fields c") (simp_all add: publication_field_orders_def publication_fields_def Let_def case_prod_unfold comp_def)

lemma field_orders_ok: "od_ok (publication_field_orders c) \<longleftrightarrow> od_ok (publication_fields (Some c))"
  by (simp only: field_orders_keys)

lemma field_orders_lookup:
  "map_of (publication_field_orders c) f = (case field_view c f of None \<Rightarrow> None | Some (v, n) \<Rightarrow> Some n)"
proof -
  have "map_of (publication_field_orders c) f = None \<longleftrightarrow> map_of (publication_fields (Some c)) f = None"
    unfolding map_of_eq_None_iff by (metis field_orders_keys set_map)
  then show ?thesis by (auto simp: field_view_def order_of_def simp del: map_of_eq_None_iff split: option.splits)
qed

lemma ordered_view: "ordered_fields c \<Longrightarrow> field_view c f = Some (v, n) \<Longrightarrow> 0 < n"
  using field_orders_lookup [of c f] by (force simp: ordered_fields_def dest: map_of_SomeD)

lemma view_dom: "field_view c f = None \<longleftrightarrow> f \<notin> fst ` set (publication_fields (Some c))"
  using map_of_eq_None_iff [of "publication_fields (Some c)" f]
  by (cases "map_of (publication_fields (Some c)) f") (simp_all add: field_view_def)

section \<open>Orders written back\<close>

lemma set_orders_fields [simp]:
  "publication_fields (Some (set_field_orders orders c)) = publication_fields (Some c)"
  "cm_fields (set_field_orders orders c) = cm_fields c" "cm_key (set_field_orders orders c) = cm_key c" "cm_rest (set_field_orders orders c) = cm_rest c"
  "command_key (set_field_orders orders c) = command_key c"
  by (simp_all add: set_field_orders_def publication_fields_def command_key_def)

lemma set_orders_view:
  assumes "cm_fields c = Some fs" "\<And>p. p \<in> set orders \<Longrightarrow> 0 < snd p" "dom (map_of fs) \<subseteq> dom (map_of orders)"
  shows "field_view (set_field_orders orders c) f = (case map_of fs f of None \<Rightarrow> None | Some v \<Rightarrow> Some (v, order_of orders f))"
proof (cases "map_of fs f")
  case (Some v)
  with assms(3) obtain n where n: "map_of orders f = Some n" by blast
  then have pos: "0 < n" using assms(2) map_of_SomeD by fastforce
  have "\<exists>p\<in>set orders. snd p \<noteq> 0" using n pos by (force dest: map_of_SomeD)
  then have cfg: "cm_orders (set_field_orders orders c) = Some (map (\<lambda>(f, n). (f, PInt n)) orders)"
    by (auto simp: set_field_orders_def)
  have look: "map_of (map (\<lambda>(f, n). (f, PInt n)) orders) f = Some (PInt n)"
    using n by (simp add: map_of_map)
  have "map_of (map (\<lambda>(f, _). (f, let n = positive_integer (map_of (map (\<lambda>(f, n). (f, PInt n)) orders) f)
      in if n \<noteq> 0 then n else k)) fs) f = Some n" for k
    using Some pos by (induction fs) (auto simp: look Let_def split: if_splits)
  then have "map_of (publication_field_orders (set_field_orders orders c)) f = Some n"
    by (simp add: publication_field_orders_def cfg assms(1) Let_def)
  with Some n assms(1) show ?thesis by (simp add: field_view_def order_of_def publication_fields_def del: map_of_eq_Some_iff)
qed (simp add: field_view_def publication_fields_def assms(1))

section \<open>Selecting\<close>

lemma map_of_tabulate: "map_of ps f = Some v \<Longrightarrow> map_of (map (\<lambda>p. (fst p, g (fst p))) ps) f = Some (g f)"
  by (induction ps) (auto split: if_splits)

lemma filter_none: "filter_publication_payload c fs = None \<longleftrightarrow> (\<forall>f\<in>set fs. field_view c f = None)"
  unfolding view_dom by (auto simp: filter_publication_payload_def Let_def filter_empty_conv)

lemma filter_view:
  assumes "filter_publication_payload c fs = Some c'" "ordered_fields c"
  shows "field_view c' f = (if f \<in> set fs then field_view c f else None)" "ordered_fields c'"
    "cm_key c' = cm_key c" "cm_rest c' = cm_rest c" "cm_fields c' \<noteq> None"
proof -
  let ?vs = "filter (\<lambda>p. fst p \<in> set fs) (publication_fields (Some c))"
  let ?orders = "map (\<lambda>p. (fst p, order_of (publication_field_orders c) (fst p))) ?vs"
  have c': "c' = set_field_orders ?orders (c\<lparr>cm_fields := Some ?vs\<rparr>)"
    using assms(1) by (auto simp: filter_publication_payload_def Let_def split: if_splits)
  have ok: "od_ok (publication_fields (Some c))" using assms(2) by (simp add: ordered_fields_def)
  have look: "map_of ?vs f = (if f \<in> set fs then map_of (publication_fields (Some c)) f else None)" for f
    using ok by (simp add: map_of_filter_ok split: option.split)
  have pos: "0 < snd p" if "p \<in> set ?orders" for p
  proof -
    from that obtain q where q: "q \<in> set (publication_fields (Some c))" "p = (fst q, order_of (publication_field_orders c) (fst q))"
      by auto
    then have "map_of (publication_fields (Some c)) (fst q) = Some (snd q)" using ok by (metis map_of_is_SomeI prod.collapse)
    then have "field_view c (fst q) = Some (snd q, snd p)" using q(2) by (simp add: field_view_def del: map_of_eq_Some_iff)
    from ordered_view [OF assms(2) this] show ?thesis .
  qed
  have "fst ` set ?vs = fst ` set ?orders" by (auto simp: image_iff)
  then have dom: "dom (map_of ?vs) \<subseteq> dom (map_of ?orders)" by (simp only: dom_map_of_conv_image_fst order.refl)
  have om: "order_of ?orders f = order_of (publication_field_orders c) f" if "map_of ?vs f = Some v" for f v
    using map_of_tabulate [OF that, of "order_of (publication_field_orders c)"] by (simp add: order_of_def)
  show view: "field_view c' f = (if f \<in> set fs then field_view c f else None)" for f
    unfolding c' using set_orders_view [of "c\<lparr>cm_fields := Some ?vs\<rparr>" ?vs ?orders f] pos dom om [of f] look [of f]
    by (auto simp: field_view_def split: option.splits)
  show "ordered_fields c'"
    unfolding ordered_fields_def
  proof (intro conjI ballI)
    show "od_ok (publication_fields (Some c'))" using ok by (simp add: c' publication_fields_def distinct_map_filter)
    then have ok': "od_ok (publication_field_orders c')" by (simp only: field_orders_ok)
    fix p assume "p \<in> set (publication_field_orders c')"
    with ok' have "map_of (publication_field_orders c') (fst p) = Some (snd p)" by (metis map_of_is_SomeI prod.collapse)
    then obtain v where "field_view c' (fst p) = Some (v, snd p)"
      unfolding field_orders_lookup by (auto split: option.splits)
    then have "field_view c (fst p) = Some (v, snd p)" using view [of "fst p"] by (metis option.distinct(1))
    from ordered_view [OF assms(2) this] show "0 < snd p" .
  qed
  show "cm_key c' = cm_key c" "cm_rest c' = cm_rest c" "cm_fields c' \<noteq> None"
    by (simp_all add: c' set_field_orders_def)
qed

section \<open>Merging\<close>

lemma merge_fold:
  assumes "od_ok cs" "od_ok es" "od_ok os" "dom (map_of es) = dom (map_of os)"
    and "fold (merge_candidate_field candidate_orders) cs (es, os) = (fs', os')"
  shows "od_ok fs' \<and> od_ok os' \<and> dom (map_of fs') = dom (map_of os') \<and>
    (\<forall>f. (case map_of fs' f of None \<Rightarrow> None | Some v \<Rightarrow> Some (v, order_of os' f)) =
      newest (case map_of es f of None \<Rightarrow> None | Some v \<Rightarrow> Some (v, order_of os f))
        (case map_of cs f of None \<Rightarrow> None | Some v \<Rightarrow> Some (v, order_of candidate_orders f)))"
  using assms
proof (induction cs arbitrary: es os)
  case Nil
  then show ?case by (auto simp: newest_def split: option.split)
next
  case (Cons p cs)
  obtain g w where p: "p = (g, w)" by (cases p)
  obtain es1 os1 where one: "merge_candidate_field candidate_orders p (es, os) = (es1, os1)"
    by (cases "merge_candidate_field candidate_orders p (es, os)")
  have "(es1, os1) = (es, os) \<or> (es1, os1) = (AList.update g w es, AList.update g (order_of candidate_orders g) os)"
    using one by (auto simp: merge_candidate_field_def p Let_def split: if_splits)
  then have inv: "od_ok es1" "od_ok os1" "dom (map_of es1) = dom (map_of os1)"
    using Cons.prems(2-4) by (elim disjE; simp add: od_ok_update update_conv')+
  have fresh: "map_of cs g = None" using Cons.prems(1) by (simp add: p map_of_eq_None_iff)
  let ?n = "order_of candidate_orders g"
  have step: "(case map_of es1 f of None \<Rightarrow> None | Some v \<Rightarrow> Some (v, order_of os1 f)) =
      newest (case map_of es f of None \<Rightarrow> None | Some v \<Rightarrow> Some (v, order_of os f)) (if f = g then Some (w, ?n) else None)" for f
  proof (cases "map_of es g = None \<or> order_of os g \<le> ?n")
    case True
    then have new: "es1 = AList.update g w es" "os1 = AList.update g ?n os"
      using one by (auto simp: merge_candidate_field_def p Let_def)
    show ?thesis
    proof (cases "f = g")
      case fg: True
      show ?thesis using True
        by (cases "map_of es g") (simp_all add: new fg newest_def od_lookup_update order_of_def del: map_of_eq_Some_iff map_of_eq_None_iff)
    qed (simp add: new newest_def od_lookup_update order_of_def split: option.split)
  next
    case False
    then have "es1 = es" "os1 = os" using one by (auto simp: merge_candidate_field_def p Let_def)
    with False show ?thesis by (cases "f = g") (auto simp: newest_def simp del: map_of_eq_Some_iff split: option.split)
  qed
  from Cons.IH [OF _ inv, of] Cons.prems(1,5) have "od_ok fs' \<and> od_ok os' \<and> dom (map_of fs') = dom (map_of os') \<and>
    (\<forall>f. (case map_of fs' f of None \<Rightarrow> None | Some v \<Rightarrow> Some (v, order_of os' f)) =
      newest (case map_of es1 f of None \<Rightarrow> None | Some v \<Rightarrow> Some (v, order_of os1 f))
        (case map_of cs f of None \<Rightarrow> None | Some v \<Rightarrow> Some (v, order_of candidate_orders f)))"
    by (simp add: one)
  moreover have "newest (newest A (if f = g then Some (w, ?n) else None))
        (case map_of cs f of None \<Rightarrow> None | Some v \<Rightarrow> Some (v, order_of candidate_orders f)) =
      newest A (case map_of (p # cs) f of None \<Rightarrow> None | Some v \<Rightarrow> Some (v, order_of candidate_orders f))" for A f
    by (cases "f = g") (simp_all add: fresh p)
  ultimately show ?case unfolding step by simp
qed

lemma merge_view:
  assumes "pred_option ordered_fields existing" "ordered_fields c"
  shows "field_view (merge_publication_payload existing c accepted) f =
      newest (case existing of None \<Rightarrow> None | Some e \<Rightarrow> field_view e f)
        (if accepted = None \<or> f \<in> set (the accepted) then field_view c f else None)"
    "ordered_fields (merge_publication_payload existing c accepted)"
    "cm_fields (merge_publication_payload existing c accepted) \<noteq> None"
proof -
  let ?es = "publication_fields existing" and ?cs = "accepted_candidate_fields c accepted"
  let ?os = "field_orders_of existing" and ?co = "publication_field_orders c"
  let ?m = "merge_publication_payload existing c accepted"
  obtain fs' os' where m: "fold (merge_candidate_field ?co) ?cs (?es, ?os) = (fs', os')"
    by (cases "fold (merge_candidate_field ?co) ?cs (?es, ?os)")
  have keys: "map fst ?os = map fst ?es"
    by (cases existing) (simp_all add: field_orders_of_def publication_fields_def [of None] field_orders_keys)
  have eok: "od_ok ?es"
    using assms(1) by (cases existing) (simp_all add: ordered_fields_def publication_fields_def [of None])
  with keys have ook: "od_ok ?os" by simp
  have cok: "od_ok ?cs"
    using assms(2) by (simp add: accepted_candidate_fields_def ordered_fields_def distinct_map_filter split: option.split)
  have dom: "dom (map_of ?es) = dom (map_of ?os)" using arg_cong [OF keys, of set] by (simp add: dom_map_of_conv_image_fst)
  note r = merge_fold [OF cok eok ook dom m]
  have old: "(case map_of ?es f of None \<Rightarrow> None | Some v \<Rightarrow> Some (v, order_of ?os f)) =
      (case existing of None \<Rightarrow> None | Some e \<Rightarrow> field_view e f)" for f
    by (cases existing) (simp_all add: field_view_def field_orders_of_def publication_fields_def [of None] split: option.split)
  have new: "(case map_of ?cs f of None \<Rightarrow> None | Some v \<Rightarrow> Some (v, order_of ?co f)) =
      (if accepted = None \<or> f \<in> set (the accepted) then field_view c f else None)" for f
    using assms(2) by (cases accepted) (auto simp: accepted_candidate_fields_def field_view_def ordered_fields_def map_of_filter_ok split: option.split)
  have view': "(case map_of fs' f of None \<Rightarrow> None | Some v \<Rightarrow> Some (v, order_of os' f)) =
      newest (case existing of None \<Rightarrow> None | Some e \<Rightarrow> field_view e f)
        (if accepted = None \<or> f \<in> set (the accepted) then field_view c f else None)" for f
    using r unfolding old new by blast
  have pos: "0 < n" if "newest (case existing of None \<Rightarrow> None | Some e \<Rightarrow> field_view e f)
        (if accepted = None \<or> f \<in> set (the accepted) then field_view c f else None) = Some (v, n)" for f v n
    using that assms ordered_view by (auto simp: newest_def split: option.splits if_splits)
  have opos: "0 < snd p" if "p \<in> set os'" for p
  proof -
    have n: "map_of os' (fst p) = Some (snd p)" using that r by (metis map_of_is_SomeI prod.collapse)
    then obtain v where "map_of fs' (fst p) = Some v" using r by blast
    with n view' [of "fst p"] have "newest (case existing of None \<Rightarrow> None | Some e \<Rightarrow> field_view e (fst p))
        (if accepted = None \<or> fst p \<in> set (the accepted) then field_view c (fst p) else None) = Some (v, snd p)"
      by (simp add: order_of_def)
    from pos [OF this] show ?thesis .
  qed
  have eq: "?m = set_field_orders os' ((updated_command existing c)\<lparr>cm_fields := Some fs'\<rparr>)"
    by (simp add: merge_publication_payload_def merge_ordered_fields_def m)
  show view: "field_view ?m f = newest (case existing of None \<Rightarrow> None | Some e \<Rightarrow> field_view e f)
        (if accepted = None \<or> f \<in> set (the accepted) then field_view c f else None)" for f
    unfolding eq using set_orders_view [of "(updated_command existing c)\<lparr>cm_fields := Some fs'\<rparr>" fs' os' f] opos r view' [of f]
    by simp
  show "ordered_fields ?m"
    unfolding ordered_fields_def
  proof (intro conjI ballI)
    show "od_ok (publication_fields (Some ?m))" using r by (simp add: eq publication_fields_def)
    then have ok': "od_ok (publication_field_orders ?m)" by (simp only: field_orders_ok)
    fix p assume "p \<in> set (publication_field_orders ?m)"
    with ok' have "map_of (publication_field_orders ?m) (fst p) = Some (snd p)" by (metis map_of_is_SomeI prod.collapse)
    then obtain v where "field_view ?m (fst p) = Some (v, snd p)"
      unfolding field_orders_lookup by (auto split: option.splits)
    then have "newest (case existing of None \<Rightarrow> None | Some e \<Rightarrow> field_view e (fst p))
        (if accepted = None \<or> fst p \<in> set (the accepted) then field_view c (fst p) else None) = Some (v, snd p)"
      unfolding view .
    from pos [OF this] show "0 < snd p" .
  qed
  show "cm_fields ?m \<noteq> None" by (simp add: eq)
qed

lemma merge_key: "command_key c \<noteq> '''' \<Longrightarrow> command_key (merge_publication_payload existing c accepted) = command_key c"
  by (cases "cm_key c") (auto simp: merge_publication_payload_def updated_command_def command_key_def split: prod.split option.split)

end
