(* ===== verification/Publication_Queue_Props.thy ===== *)
theory Publication_Queue_Props
  imports Publication_Queue Publication_Payload_Props
begin

text \<open>
  The fast queue as a table from keys and fields to values, orders and expiry times, the invariant that ties it to the marks of
  the history, and what expiry, enqueueing and taking work do to the table.
\<close>

section \<open>Table and invariant\<close>

definition work_ok :: "string \<Rightarrow> fast_work \<Rightarrow> bool" where
  "work_ok key w \<longleftrightarrow> key \<noteq> '''' \<and> command_key (fw_command w) = key \<and> ordered_fields (fw_command w) \<and> od_ok (fw_expires w)
    \<and> (\<forall>f. map_of (fw_expires w) f = None \<longleftrightarrow> field_view (fw_command w) f = None)
    \<and> (\<exists>f. field_view (fw_command w) f \<noteq> None)"

definition marked :: "order_history \<Rightarrow> string \<Rightarrow> fast_work \<Rightarrow> bool" where
  "marked h key w \<longleftrightarrow> (\<forall>f v n. field_view (fw_command w) f = Some (v, n) \<longrightarrow>
    (\<exists>m. map_of (oh_marks h) (key, f) = Some m \<and> om_order m = n \<and> om_lane m = Fast))"

definition queue_inv :: "fast_queue \<Rightarrow> bool" where
  "queue_inv q \<longleftrightarrow> od_ok (fq_commands q) \<and> order_inv (fq_history q)
    \<and> (\<forall>key w. map_of (fq_commands q) key = Some w \<longrightarrow> work_ok key w \<and> marked (fq_history q) key w)"

definition work_view :: "fast_work \<Rightarrow> string \<Rightarrow> (pyval \<times> int \<times> secs) option" where
  "work_view w f = (case field_view (fw_command w) f of None \<Rightarrow> None
     | Some (v, n) \<Rightarrow> Some (v, n, the (map_of (fw_expires w) f)))"

definition queued :: "fast_queue \<Rightarrow> string \<Rightarrow> string \<Rightarrow> (pyval \<times> int \<times> secs) option" where
  "queued q key f = (case map_of (fq_commands q) key of None \<Rightarrow> None | Some w \<Rightarrow> work_view w f)"

lemma queue_count_simps [simp]:
  "fq_commands (queue_count k n q) = fq_commands q" "fq_history (queue_count k n q) = fq_history q"
  "fq_capacity (queue_count k n q) = fq_capacity q" "queued (queue_count k n q) = queued q"
  "queue_inv (queue_count k n q) = queue_inv q" "active_fields (queue_count k n q) = active_fields q"
  by (simp_all add: queue_count_def queued_def queue_inv_def active_fields_def fun_eq_iff)

lemma rest_orders [simp]: "publication_field_orders (c\<lparr>cm_rest := r\<rparr>) = publication_field_orders c"
  "publication_fields (Some (c\<lparr>cm_rest := r\<rparr>)) = publication_fields (Some c)" "command_key (c\<lparr>cm_rest := r\<rparr>) = command_key c"
  by (cases "cm_fields c"; simp add: publication_field_orders_def publication_order_def publication_fields_def command_key_def)+

lemma view_rest [simp]: "field_view (c\<lparr>cm_rest := r\<rparr>) = field_view c" "ordered_fields (c\<lparr>cm_rest := r\<rparr>) = ordered_fields c"
  unfolding field_view_def fun_eq_iff ordered_fields_def rest_orders by simp_all

lemma active_fields_iff:
  assumes "od_ok (fq_commands q)"
  shows "(key, f) \<in> active_fields q \<longleftrightarrow> (\<exists>w. map_of (fq_commands q) key = Some w \<and> map_of (fw_expires w) f \<noteq> None)"
proof -
  have "(key, f) \<in> active_fields q \<longleftrightarrow> (\<exists>w. (key, w) \<in> set (fq_commands q) \<and> f \<in> fst ` set (fw_expires w))"
  proof
    assume "(key, f) \<in> active_fields q"
    then obtain w p where "(key, w) \<in> set (fq_commands q)" "p \<in> set (fw_expires w)" "f = fst p"
      by (auto simp: active_fields_def)
    then show "\<exists>w. (key, w) \<in> set (fq_commands q) \<and> f \<in> fst ` set (fw_expires w)" by blast
  next
    assume "\<exists>w. (key, w) \<in> set (fq_commands q) \<and> f \<in> fst ` set (fw_expires w)"
    then obtain w where w: "(key, w) \<in> set (fq_commands q)" "(key, f) \<in> (\<lambda>p. (key, fst p)) ` set (fw_expires w)" by auto
    then show "(key, f) \<in> active_fields q" unfolding active_fields_def set_concat set_map UN_iff by (auto intro!: bexI [OF _ w(1)])
  qed
  also have "\<dots> \<longleftrightarrow> (\<exists>w. map_of (fq_commands q) key = Some w \<and> map_of (fw_expires w) f \<noteq> None)"
    using assms by (simp add: map_of_eq_None_iff)
  finally show ?thesis .
qed

lemma active_queued:
  assumes "queue_inv q" "map_of (fq_commands q) key = Some w" "field_view (fw_command w) f \<noteq> None"
  shows "(key, f) \<in> active_fields q"
proof -
  have "work_ok key w" using assms(1,2) by (simp add: queue_inv_def del: map_of_eq_Some_iff)
  with assms(3) have "map_of (fw_expires w) f \<noteq> None" by (simp add: work_ok_def)
  with assms(2) active_fields_iff [of q key f] assms(1) show ?thesis by (auto simp: queue_inv_def simp del: map_of_eq_Some_iff)
qed

section \<open>Expiry\<close>

lemma retained_none:
  assumes "work_ok key w"
  shows "retained_fast_work w now = None \<longleftrightarrow> (\<forall>f t. map_of (fw_expires w) f = Some t \<longrightarrow> t \<le> now)"
proof -
  let ?kept = "filter (\<lambda>p. now < snd p) (fw_expires w)"
  have "retained_fast_work w now = None \<longleftrightarrow> (\<forall>f\<in>set (map fst ?kept). field_view (fw_command w) f = None)"
    unfolding filter_none [symmetric] by (simp add: retained_fast_work_def Let_def split: option.split)
  also have "\<dots> \<longleftrightarrow> ?kept = []"
    using assms unfolding work_ok_def by (auto simp: filter_empty_conv) (metis fst_conv image_eqI map_of_eq_None_iff snd_conv)
  also have "\<dots> \<longleftrightarrow> (\<forall>f t. map_of (fw_expires w) f = Some t \<longrightarrow> t \<le> now)"
    using assms by (auto simp: work_ok_def filter_empty_conv not_less)
  finally show ?thesis .
qed

lemma retained_view:
  assumes "retained_fast_work w now = Some r" "work_ok key w"
  shows "work_view r f = (case work_view w f of None \<Rightarrow> None | Some (v, n, t) \<Rightarrow> if now < t then Some (v, n, t) else None)"
    "work_ok key r" "fw_retry r = fw_retry w" "fw_deferred r = fw_deferred w"
    "cm_rest (fw_command r) = cm_rest (fw_command w)"
proof -
  let ?kept = "filter (\<lambda>p. now < snd p) (fw_expires w)"
  obtain c where c: "filter_publication_payload (fw_command w) (map fst ?kept) = Some c"
    and r: "r = w\<lparr>fw_command := c, fw_expires := ?kept\<rparr>"
    using assms(1) by (auto simp: retained_fast_work_def Let_def split: option.splits)
  have ord: "ordered_fields (fw_command w)" and ok: "od_ok (fw_expires w)"
    and dom: "map_of (fw_expires w) f = None \<longleftrightarrow> field_view (fw_command w) f = None" for f
    using assms(2) by (auto simp: work_ok_def)
  note fv = filter_view [OF c ord]
  have look: "map_of ?kept f = (case map_of (fw_expires w) f of None \<Rightarrow> None | Some t \<Rightarrow> if now < t then Some t else None)" for f
    using ok by (simp add: map_of_filter_ok split: option.split)
  have mem: "f \<in> set (map fst ?kept) \<longleftrightarrow> map_of ?kept f \<noteq> None" for f
    by (simp only: map_of_eq_None_iff set_map not_not)
  show "work_view r f = (case work_view w f of None \<Rightarrow> None | Some (v, n, t) \<Rightarrow> if now < t then Some (v, n, t) else None)" for f
    using dom [of f] fv(1) [of f] look [of f] mem [of f]
    by (auto simp: work_view_def r split: option.splits if_splits simp del: set_map)
  have sync: "map_of ?kept f = None \<longleftrightarrow> field_view c f = None" for f
    using dom [of f] fv(1) [of f] look [of f] mem [of f] by (auto split: option.splits if_splits simp del: set_map)
  have "\<exists>f. field_view c f \<noteq> None"
    using filter_none [of "fw_command w" "map fst ?kept"] c fv(1) by (metis option.distinct(1))
  then show "work_ok key r" using assms(2) fv sync ok
    by (auto simp: work_ok_def r distinct_map_filter command_key_def)
  show "fw_retry r = fw_retry w" "fw_deferred r = fw_deferred w" "cm_rest (fw_command r) = cm_rest (fw_command w)"
    using fv by (simp_all add: r)
qed

text \<open>What is left of a queued command when its expired fields are gone.\<close>

definition kept_work :: "secs \<Rightarrow> fast_work \<Rightarrow> fast_work option" where
  "kept_work now w = (case retained_fast_work w now of None \<Rightarrow> None
     | Some r \<Rightarrow> if length (fw_expires r) \<noteq> length (fw_expires w) then Some r else Some w)"

definition unexpired :: "secs \<Rightarrow> (pyval \<times> int \<times> secs) option \<Rightarrow> (pyval \<times> int \<times> secs) option" where
  "unexpired now e = (case e of None \<Rightarrow> None | Some (v, n, t) \<Rightarrow> if now < t then Some (v, n, t) else None)"

lemma retained_expires: "retained_fast_work w now = Some r \<Longrightarrow> fw_expires r = filter (\<lambda>p. now < snd p) (fw_expires w)"
  by (auto simp: retained_fast_work_def Let_def split: option.splits)

lemma work_view_time: "work_ok key w \<Longrightarrow> work_view w f = Some (v, n, t) \<Longrightarrow> map_of (fw_expires w) f = Some t"
  by (cases "map_of (fw_expires w) f") (auto simp: work_view_def work_ok_def simp del: map_of_eq_Some_iff split: option.splits)

lemma kept_view:
  assumes "work_ok key w"
  shows "(case kept_work now w of None \<Rightarrow> None | Some r \<Rightarrow> work_view r f) = unexpired now (work_view w f)"
    "kept_work now w = Some r \<Longrightarrow> work_ok key r \<and> fw_retry r = fw_retry w \<and> fw_deferred r = fw_deferred w
      \<and> cm_rest (fw_command r) = cm_rest (fw_command w)"
proof -
  show "(case kept_work now w of None \<Rightarrow> None | Some r \<Rightarrow> work_view r f) = unexpired now (work_view w f)"
  proof (cases "retained_fast_work w now")
    case None
    then have "t \<le> now" if "map_of (fw_expires w) f = Some t" for t using retained_none [OF assms] that by blast
    then show ?thesis using None work_view_time [OF assms, of f]
      by (fastforce simp: kept_work_def unexpired_def simp del: map_of_eq_Some_iff split: option.splits)
  next
    case (Some r)
    note v = retained_view(1) [OF Some assms, of f]
    show ?thesis
    proof (cases "length (fw_expires r) = length (fw_expires w)")
      case False
      with Some v show ?thesis by (simp add: kept_work_def unexpired_def)
    next
      case True
      then have "\<forall>p\<in>set (fw_expires w). now < snd p"
        unfolding retained_expires [OF Some] by (metis filter_id_conv filter_True length_filter_less order_less_irrefl)
      then have "now < t" if "map_of (fw_expires w) f = Some t" for t using that map_of_SomeD by fastforce
      with True Some show ?thesis using work_view_time [OF assms, of f]
        by (fastforce simp: kept_work_def unexpired_def simp del: map_of_eq_Some_iff split: option.splits)
    qed
  qed
  show "kept_work now w = Some r \<Longrightarrow> work_ok key r \<and> fw_retry r = fw_retry w \<and> fw_deferred r = fw_deferred w
      \<and> cm_rest (fw_command r) = cm_rest (fw_command w)"
    using retained_view(2-5) [OF _ assms] assms by (auto simp: kept_work_def split: option.splits if_splits)
qed

lemma field_view_work: "field_view (fw_command w) f = (case work_view w f of None \<Rightarrow> None | Some (v, n, t) \<Rightarrow> Some (v, n))"
  by (simp add: work_view_def split: option.split)

lemma kept_marked:
  assumes "work_ok key w" "kept_work now w = Some r" "marked h key w"
  shows "marked h key r"
proof -
  have "field_view (fw_command w) f = Some (v, n)" if "field_view (fw_command r) f = Some (v, n)" for f v n
    using that kept_view(1) [OF assms(1), where now = now and f = f] assms(2)
    by (auto simp: field_view_work unexpired_def split: option.splits if_splits)
  with assms(3) show ?thesis unfolding marked_def by blast
qed

text \<open>One pruning step, on a queue that still holds the command it looks at.\<close>

lemma released_marks:
  "order_inv h \<Longrightarrow> order_inv (release_fast key orders h)"
  "oh_capacity (release_fast key orders h) = oh_capacity h" "oh_retention (release_fast key orders h) = oh_retention h"
  "map_of (oh_marks (release_fast key orders h)) fk = (case map_of (oh_marks h) fk of None \<Rightarrow> None
    | Some m \<Rightarrow> if confirmed key orders fk m then None else Some m)"
proof -
  show "order_inv h \<Longrightarrow> order_inv (release_fast key orders h)"
    using history.step_inv [of h "Release key orders"] by simp
qed (simp_all add: release_fast_def release_fold)

lemma marked_other: "marked h key w \<Longrightarrow> key \<noteq> key' \<Longrightarrow> marked (release_fast key' orders h) key w"
  unfolding marked_def
proof (intro allI impI)
  fix f v n
  assume w: "\<forall>f v n. field_view (fw_command w) f = Some (v, n) \<longrightarrow>
      (\<exists>m. map_of (oh_marks h) (key, f) = Some m \<and> om_order m = n \<and> om_lane m = Fast)"
    and "key \<noteq> key'" "field_view (fw_command w) f = Some (v, n)"
  then obtain m where m: "map_of (oh_marks h) (key, f) = Some m" "om_order m = n" "om_lane m = Fast" by blast
  have "\<not> confirmed key' orders (key, f) m" using \<open>key \<noteq> key'\<close> by (simp add: confirmed_def)
  with m show "\<exists>m. map_of (oh_marks (release_fast key' orders h)) (key, f) = Some m \<and> om_order m = n \<and> om_lane m = Fast"
    by (simp add: released_marks(4) del: map_of_eq_Some_iff)
qed

lemma length_update_present: "map_of m k = Some v \<Longrightarrow> length (AList.update k x m) = length m"
  using arg_cong [OF update_keys, of length k x m] map_of_SomeD [of m k v] by (force split: if_splits)

lemma prune_one:
  assumes "queue_inv q" "map_of (fq_commands q) key = Some w" "q' = prune_fast_work now (key, w) q"
  shows "queue_inv q'" "map_of (fq_commands q') k = (if k = key then kept_work now w else map_of (fq_commands q) k)"
    "fq_capacity q' = fq_capacity q" "length (fq_commands q') \<le> length (fq_commands q)"
proof -
  have ok: "work_ok key w" "od_ok (fq_commands q)" "order_inv (fq_history q)"
    using assms(1,2) by (simp_all add: queue_inv_def del: map_of_eq_Some_iff)
  let ?o = "filter (\<lambda>p. fst p \<in> set (map fst (fw_expires w)) - set (map fst (fw_expires r))) (publication_field_orders (fw_command w))"
  obtain orders n where q': "fq_commands q' = (case kept_work now w of None \<Rightarrow> AList.delete key (fq_commands q)
        | Some r \<Rightarrow> if r = w then fq_commands q else AList.update key r (fq_commands q))"
    and h: "fq_history q' = fq_history q \<or> fq_history q' = release_fast key orders (fq_history q)"
    and o: "\<forall>r f v m. kept_work now w = Some r \<longrightarrow> field_view (fw_command r) f = Some (v, m) \<longrightarrow> f \<notin> fst ` set orders
          \<or> fq_history q' = fq_history q"
    and cap: "fq_capacity q' = fq_capacity q"
  proof (cases "retained_fast_work w now")
    case None
    show ?thesis
      by (rule that [of "publication_field_orders (fw_command w)"])
        (use None ok(1) in \<open>simp_all add: assms(3) prune_fast_work_def kept_work_def drop_expired_work_def release_fast_work_def work_ok_def\<close>)
  next
    case (Some r)
    note rv = retained_view [OF Some ok(1)]
    show ?thesis
    proof (cases "length (fw_expires r) = length (fw_expires w)")
      case True
      show ?thesis by (rule that [of "[]"]) (use Some True in \<open>simp_all add: assms(3) prune_fast_work_def kept_work_def\<close>)
    next
      case False
      let ?orders = "filter (\<lambda>p. fst p \<in> set (map fst (fw_expires w)) - set (map fst (fw_expires r))) (publication_field_orders (fw_command w))"
      have alive: "f \<notin> fst ` set ?orders" if "field_view (fw_command r) f = Some (v, m)" for f v m
      proof -
        have "map_of (fw_expires r) f \<noteq> None" using rv(2) that by (simp add: work_ok_def)
        then have "f \<in> set (map fst (fw_expires r))" by (simp only: map_of_eq_None_iff set_map not_not)
        then show ?thesis by force
      qed
      from False have "r \<noteq> w" by blast
      have kw: "kept_work now w = Some r" by (simp add: kept_work_def Some False)
      have q': "q' = retain_unexpired_fields key w r q" by (simp add: assms(3) prune_fast_work_def Some False)
      show ?thesis
      proof (rule that [of ?orders])
        show "\<forall>r f v m. kept_work now w = Some r \<longrightarrow> field_view (fw_command r) f = Some (v, m) \<longrightarrow> f \<notin> fst ` set ?orders
            \<or> fq_history q' = fq_history q"
          using kw alive by (metis option.inject)
      qed (simp_all add: q' kw \<open>r \<noteq> w\<close> retain_unexpired_fields_def Let_def)
    qed
  qed
  show look: "map_of (fq_commands q') k = (if k = key then kept_work now w else map_of (fq_commands q) k)" for k
    using assms(2) unfolding q' by (auto simp: od_lookup_delete od_lookup_update simp del: map_of_eq_Some_iff split: option.split)
  have oinv: "order_inv (fq_history q')" using h ok(3) released_marks(1) by auto
  have cok: "od_ok (fq_commands q')" using ok(2) unfolding q' by (auto simp: od_ok_delete od_ok_update split: option.split)
  have "work_ok k r \<and> marked (fq_history q') k r" if k: "map_of (fq_commands q') k = Some r" for k r
  proof (cases "k = key")
    case False
    then have "map_of (fq_commands q) k = Some r" using k look by simp
    then have "work_ok k r" "marked (fq_history q) k r" using assms(1) by (simp_all add: queue_inv_def del: map_of_eq_Some_iff)
    with h False marked_other show ?thesis by auto
  next
    case True
    then have r: "kept_work now w = Some r" using k look by simp
    have m: "marked (fq_history q) key r"
      using kept_marked [OF ok(1) r] assms(1,2) by (simp add: queue_inv_def del: map_of_eq_Some_iff)
    have "marked (fq_history q') key r"
      using h
    proof
      assume hh: "fq_history q' = release_fast key orders (fq_history q)"
      show ?thesis
        unfolding marked_def
      proof (intro allI impI)
        fix f v n assume f: "field_view (fw_command r) f = Some (v, n)"
        with m obtain mk where mk: "map_of (oh_marks (fq_history q)) (key, f) = Some mk" "om_order mk = n" "om_lane mk = Fast"
          unfolding marked_def by blast
        from o r f have "f \<notin> fst ` set orders \<or> fq_history q' = fq_history q" by blast
        then have "map_of (oh_marks (fq_history q')) (key, f) = Some mk"
        proof
          assume "f \<notin> fst ` set orders"
          then have "\<not> confirmed key orders (key, f) mk" by (force simp: confirmed_def)
          with mk(1) show ?thesis by (simp add: hh released_marks(4) del: map_of_eq_Some_iff)
        qed (use mk in simp)
        with mk show "\<exists>m. map_of (oh_marks (fq_history q')) (key, f) = Some m \<and> om_order m = n \<and> om_lane m = Fast" by blast
      qed
    qed (use m in simp)
    with kept_view(2) [OF ok(1) r] True show ?thesis by simp
  qed
  with cok oinv show "queue_inv q'" by (simp add: queue_inv_def del: map_of_eq_Some_iff)
  show "fq_capacity q' = fq_capacity q" by (rule cap)
  show "length (fq_commands q') \<le> length (fq_commands q)"
    unfolding q' by (auto simp: length_delete_le length_update_present [OF assms(2)] split: option.split)
qed

lemma prune_fold:
  assumes "queue_inv q" "distinct (map fst ps)" "\<And>k w. (k, w) \<in> set ps \<Longrightarrow> map_of (fq_commands q) k = Some w"
  shows "queue_inv (fold (prune_fast_work now) ps q) \<and> fq_capacity (fold (prune_fast_work now) ps q) = fq_capacity q
    \<and> length (fq_commands (fold (prune_fast_work now) ps q)) \<le> length (fq_commands q)
    \<and> (\<forall>k. map_of (fq_commands (fold (prune_fast_work now) ps q)) k =
        (case map_of ps k of None \<Rightarrow> map_of (fq_commands q) k | Some w \<Rightarrow> kept_work now w))"
  using assms
proof (induction ps arbitrary: q)
  case (Cons p ps)
  obtain key w where p: "p = (key, w)" by (cases p)
  have "map_of (fq_commands q) key = Some w" using Cons.prems(3) by (simp add: p)
  note one = prune_one [OF Cons.prems(1) this refl, of now]
  have fresh: "map_of ps key = None" using Cons.prems(2) by (simp add: p map_of_eq_None_iff)
  have "map_of (fq_commands (prune_fast_work now (key, w) q)) k = Some v" if "(k, v) \<in> set ps" for k v
  proof -
    have "k \<noteq> key" using that Cons.prems(2) by (force simp: p)
    with that Cons.prems(3) one(2) [of k] show ?thesis by (simp add: p del: map_of_eq_Some_iff)
  qed
  from Cons.IH [OF one(1) _ this] Cons.prems(2) one(2-4) fresh show ?case
    by (auto simp: p simp del: map_of_eq_Some_iff map_of_eq_None_iff split: option.split)
qed simp

lemma prune_lookup:
  assumes "queue_inv q"
  shows "queue_inv (prune_expired now q)" "fq_capacity (prune_expired now q) = fq_capacity q"
    "length (fq_commands (prune_expired now q)) \<le> length (fq_commands q)"
    "map_of (fq_commands (prune_expired now q)) k = (case map_of (fq_commands q) k of None \<Rightarrow> None | Some w \<Rightarrow> kept_work now w)"
proof -
  have "od_ok (fq_commands q)" using assms by (simp add: queue_inv_def)
  then have "queue_inv (prune_expired now q) \<and> fq_capacity (prune_expired now q) = fq_capacity q
    \<and> length (fq_commands (prune_expired now q)) \<le> length (fq_commands q)
    \<and> (\<forall>k. map_of (fq_commands (prune_expired now q)) k =
        (case map_of (fq_commands q) k of None \<Rightarrow> map_of (fq_commands q) k | Some w \<Rightarrow> kept_work now w))"
    unfolding prune_expired_def by (intro prune_fold assms) simp_all
  then show "queue_inv (prune_expired now q)" "fq_capacity (prune_expired now q) = fq_capacity q"
    "length (fq_commands (prune_expired now q)) \<le> length (fq_commands q)"
    "map_of (fq_commands (prune_expired now q)) k = (case map_of (fq_commands q) k of None \<Rightarrow> None | Some w \<Rightarrow> kept_work now w)"
    by (auto split: option.splits)
qed

lemma queued_prune:
  assumes "queue_inv q"
  shows "queued (prune_expired now q) key f = unexpired now (queued q key f)"
proof (cases "map_of (fq_commands q) key")
  case (Some w)
  then have "work_ok key w" using assms by (simp add: queue_inv_def del: map_of_eq_Some_iff)
  from kept_view(1) [OF this, where now = now and f = f] Some show ?thesis
    by (simp add: queued_def prune_lookup(4) [OF assms] del: map_of_eq_Some_iff)
qed (simp add: queued_def prune_lookup(4) [OF assms] unexpired_def)

section \<open>Enqueueing\<close>

lemma dict_update_lookup:
  "map_of (dict_update m (map (\<lambda>f. (f, t)) fs)) f = (if f \<in> set fs then Some t else map_of m f)"
  by (induction fs arbitrary: m) (auto simp: dict_update_def od_lookup_update)

lemma dict_update_ok: "od_ok m \<Longrightarrow> od_ok (dict_update m kvs)"
  by (induction kvs arbitrary: m) (auto simp: dict_update_def od_ok_update)

lemma set_commands_simps [simp]:
  "fq_history (set_commands key w q) = fq_history q" "fq_capacity (set_commands key w q) = fq_capacity q"
  "map_of (fq_commands (set_commands key w q)) k = (if k = key then Some w else map_of (fq_commands q) k)"
  "od_ok (fq_commands q) \<Longrightarrow> od_ok (fq_commands (set_commands key w q))"
  by (simp_all add: set_commands_def od_lookup_move od_lookup_update od_ok_move od_ok_update)

text \<open>The fields of a command that are newer than what the history knows.\<close>

definition newer_fields :: "fast_queue \<Rightarrow> pub_command \<Rightarrow> secs \<Rightarrow> string \<Rightarrow> bool" where
  "newer_fields q c now f \<longleftrightarrow> (case field_view c f of None \<Rightarrow> False
     | Some (v, n) \<Rightarrow> (case map_of (pruned_marks (fq_history q) now (active_fields q)) (command_key c, f) of
         None \<Rightarrow> True | Some m \<Rightarrow> om_order m < n))"

lemma claim_accepts:
  assumes "ordered_fields c"
  shows "f \<in> set (fc_accepted (field_claim_of (command_key c) (publication_field_orders c)
      (pruned_marks (fq_history q) now (active_fields q)) fast_order_claim_blocked)) \<longleftrightarrow> newer_fields q c now f"
proof -
  have ok: "od_ok (publication_field_orders c)" using assms by (simp only: field_orders_ok ordered_fields_def)
  have "f \<in> set (fc_accepted (field_claim_of (command_key c) (publication_field_orders c) marks fast_order_claim_blocked)) \<longleftrightarrow>
      (\<exists>n. map_of (publication_field_orders c) f = Some n \<and> \<not> field_blocked (command_key c) marks fast_order_claim_blocked (f, n))" for marks
    using ok by (force simp: field_claim_of_def Let_def image_iff)
  then show ?thesis
    by (auto simp: newer_fields_def field_orders_lookup field_blocked_def fast_order_claim_blocked_def not_le
        simp del: map_of_eq_Some_iff split: option.splits)
qed

lemma stamped_view:
  assumes "stamped env key wall c = Inr c'"
  shows "field_view c' = field_view c" "ordered_fields c' = ordered_fields c" "command_key c' = command_key c"
  using assms by (auto simp: stamped_def bind_result_Inr)

lemma claim_marks:
  assumes "claim_fast key orders active now h = (claim, h')" "fc_state claim \<noteq> Full" "od_ok orders" "order_inv h"
  shows "claim = field_claim_of key orders (pruned_marks h now active) fast_order_claim_blocked"
    "map_of (oh_marks h') (k, f) = (if k = key \<and> f \<in> set (fc_accepted claim) \<and> 0 < order_of orders f
      then Some \<lparr>om_order = order_of orders f, om_lane = Fast, om_seen = now\<rparr>
      else map_of (pruned_marks h now active) (k, f))"
    "order_inv h'"
proof -
  let ?claim = "field_claim_of key orders (pruned_marks h now active) fast_order_claim_blocked"
  have fits: "claim_fits_capacity key orders ?claim (pruned_marks h now active) (oh_capacity h)"
    by (rule ccontr) (use assms(1,2) in \<open>auto simp: claim_fast_def Let_def full_claim_def\<close>)
  show c: "claim = ?claim" using assms(1) fits by (simp add: claim_fast_def Let_def)
  have "h' = h\<lparr>oh_marks := with_claimed_marks key orders Fast claim (pruned_marks h now active) now\<rparr>"
    using assms(1) fits by (auto simp: claim_fast_def Let_def)
  then show "map_of (oh_marks h') (k, f) = (if k = key \<and> f \<in> set (fc_accepted claim) \<and> 0 < order_of orders f
      then Some \<lparr>om_order = order_of orders f, om_lane = Fast, om_seen = now\<rparr>
      else map_of (pruned_marks h now active) (k, f))" by (simp add: claimed_marks_lookup)
  show "order_inv h'" using history.step_inv [OF assms(4), of "ClaimFast key orders active now"] assms(1) by simp
qed

lemma field_claim_cases:
  "fc_state (field_claim_of key orders marks blocked) = (if fc_accepted (field_claim_of key orders marks blocked) = [] then Superseded else Accepted)"
  by (simp add: field_claim_of_def Let_def)

text \<open>What an accepted enqueue leaves behind.\<close>

definition submitted :: "fast_queue \<Rightarrow> pub_command \<Rightarrow> secs \<Rightarrow> secs \<Rightarrow> string \<Rightarrow> string \<Rightarrow> (pyval \<times> int \<times> secs) option" where
  "submitted q c now ttl key f =
    (if key = command_key c \<and> newer_fields q c now f
     then (case field_view c f of None \<Rightarrow> None | Some (v, n) \<Rightarrow> Some (v, n, now + ttl)) else queued q key f)"

lemma merged_work_view:
  assumes inv: "queue_inv q" and c: "ordered_fields c" "command_key c = key" "key \<noteq> ''''"
    and acc: "\<And>f. f \<in> set accepted \<longleftrightarrow> newer_fields q c clk f" "accepted \<noteq> []"
    and w: "merged_work env (map_of (fq_commands q) key) c key accepted ttl wall clk = Inr w"
  shows "work_ok key w \<and> work_view w f = submitted q c clk ttl key f"
proof -
  let ?ex = "map_of (fq_commands q) key"
  obtain payload where p: "stamped env key wall (merge_publication_payload (map_option fw_command ?ex) c (Some accepted)) = Inr payload"
    and weq: "w = \<lparr>fw_command = payload,
       fw_expires = dict_update (case ?ex of None \<Rightarrow> [] | Some w \<Rightarrow> fw_expires w) (map (\<lambda>f. (f, clk + ttl)) accepted),
       fw_retry = 0, fw_deferred = False\<rparr>"
    using w by (auto simp: merged_work_def bind_result_Inr)
  have old: "work_ok key e \<and> marked (fq_history q) key e" if "?ex = Some e" for e
    using inv that by (simp add: queue_inv_def del: map_of_eq_Some_iff)
  then have oldf: "pred_option ordered_fields (map_option fw_command ?ex)"
    by (cases ?ex) (auto simp: work_ok_def)
  note mv = merge_view [OF oldf c(1), where accepted = "Some accepted"] and sv = stamped_view [OF p]
  let ?old = "\<lambda>f. case ?ex of None \<Rightarrow> None | Some e \<Rightarrow> field_view (fw_command e) f"
  have newer_wins: "newest (?old f) (if f \<in> set accepted then field_view c f else None) =
      (if f \<in> set accepted then field_view c f else ?old f)" for f
  proof (cases "f \<in> set accepted")
    case True
    then have nf: "newer_fields q c clk f" using acc by simp
    then obtain v n where new: "field_view c f = Some (v, n)" by (auto simp: newer_fields_def split: option.splits)
    show ?thesis
    proof (cases "?old f")
      case (Some vn)
      then obtain e v' n' where e: "?ex = Some e" "field_view (fw_command e) f = Some (v', n')" "vn = (v', n')"
        by (cases vn) (auto simp del: map_of_eq_Some_iff split: option.splits)
      from old [OF e(1)] e(2) obtain m where m: "map_of (oh_marks (fq_history q)) (key, f) = Some m" "om_order m = n'"
        unfolding marked_def by blast
      have "(key, f) \<in> active_fields q" using active_queued [OF inv e(1)] e(2) by simp
      then have "map_of (pruned_marks (fq_history q) clk (active_fields q)) (key, f) = Some m"
        using m(1) inv by (simp add: pruned_lookup queue_inv_def order_inv_def del: map_of_eq_Some_iff)
      with nf new m(2) c(2) have "n' < n" by (simp add: newer_fields_def del: map_of_eq_Some_iff)
      with True Some new e(3) show ?thesis by (simp add: newest_def)
    qed (use True in simp)
  qed simp
  have fv: "field_view payload f = (if f \<in> set accepted then field_view c f else ?old f)" for f
    using mv(1) [of f] newer_wins [of f] unfolding sv by (cases ?ex) simp_all
  let ?oldt = "case ?ex of None \<Rightarrow> [] | Some w \<Rightarrow> fw_expires w"
  have tv: "map_of (fw_expires w) f = (if f \<in> set accepted then Some (clk + ttl) else map_of ?oldt f)" for f
    by (simp add: weq dict_update_lookup)
  have told: "map_of ?oldt f = None \<longleftrightarrow> ?old f = None" for f
    using old by (cases ?ex) (auto simp: work_ok_def simp del: map_of_eq_Some_iff)
  have shown: "field_view c f \<noteq> None" if "f \<in> set accepted" for f
    using that acc(1) [of f] by (cases "field_view c f") (auto simp: newer_fields_def)
  have "work_ok key w"
    unfolding work_ok_def
  proof (intro conjI allI)
    show "command_key (fw_command w) = key" using sv(3) merge_key [of c] c(2,3) by (simp add: weq)
    show "ordered_fields (fw_command w)" using sv(2) mv(2) by (simp add: weq)
    show "od_ok (fw_expires w)" using old by (cases ?ex) (auto simp: weq work_ok_def dict_update_ok simp del: map_of_eq_Some_iff)
    show "map_of (fw_expires w) f = None \<longleftrightarrow> field_view (fw_command w) f = None" for f
      using tv [of f] fv [of f] told [of f] shown [of f] by (simp add: weq)
    from acc(2) obtain f where "f \<in> set accepted" by (cases accepted) auto
    with fv [of f] shown [of f] show "\<exists>f. field_view (fw_command w) f \<noteq> None" by (intro exI [of _ f]) (simp add: weq)
  qed (use c in simp)
  moreover have "work_view w f = submitted q c clk ttl key f"
  proof (cases "f \<in> set accepted")
    case True
    with fv [of f] tv [of f] acc(1) [of f] c(2) show ?thesis by (simp add: work_view_def submitted_def weq split: option.split)
  next
    case False
    with fv [of f] tv [of f] acc(1) [of f] c(2) show ?thesis
      by (cases ?ex) (simp_all add: work_view_def submitted_def queued_def weq del: map_of_eq_Some_iff split: option.split)
  qed
  ultimately show ?thesis ..
qed

lemma pruned_active:
  assumes "queue_inv q" "map_of (fq_commands q) key = Some w" "field_view (fw_command w) f \<noteq> None"
    "map_of (oh_marks (fq_history q)) (key, f) = Some m"
  shows "map_of (pruned_marks (fq_history q) now (active_fields q)) (key, f) = Some m"
  using assms(4) active_queued [OF assms(1-3)] assms(1)
  by (simp add: pruned_lookup queue_inv_def order_inv_def del: map_of_eq_Some_iff)

lemma claim_keeps_marked:
  assumes inv: "queue_inv q" and c: "ordered_fields c" "command_key c \<noteq> ''''"
    and claim: "claim_fast (command_key c) (publication_field_orders c) (active_fields q) clk (fq_history q) = (claim, h)"
      "fc_state claim \<noteq> Full"
    and w: "map_of (fq_commands q) key = Some w" "key \<noteq> command_key c \<or> fc_accepted claim = []"
  shows "marked h key w"
  unfolding marked_def
proof (intro allI impI)
  fix f v n assume f: "field_view (fw_command w) f = Some (v, n)"
  have ok: "od_ok (publication_field_orders c)" "order_inv (fq_history q)"
    using c(1) inv by (simp_all only: field_orders_ok ordered_fields_def queue_inv_def)
  have "marked (fq_history q) key w" using inv w(1) by (simp add: queue_inv_def del: map_of_eq_Some_iff)
  with f obtain m where m: "map_of (oh_marks (fq_history q)) (key, f) = Some m" "om_order m = n" "om_lane m = Fast"
    unfolding marked_def by blast
  have "map_of (oh_marks h) (key, f) = Some m"
    using pruned_active [OF inv w(1) _ m(1), of clk] f w(2) by (auto simp: claim_marks(2) [OF claim ok])
  with m show "\<exists>m. map_of (oh_marks h) (key, f) = Some m \<and> om_order m = n \<and> om_lane m = Fast" by blast
qed

lemma enqueue_claimed_refines:
  assumes inv: "queue_inv q" and c: "ordered_fields c" "command_key c \<noteq> ''''"
    and e: "enqueue_claimed env wall clk c ttl q = (Inr r, q')"
  shows "queue_inv q'" "er_accepted r \<Longrightarrow> queued q' key f = submitted q c clk ttl key f"
    "er_accepted r \<Longrightarrow> er_reason r = ''superseded'' \<longleftrightarrow> (\<forall>f. \<not> newer_fields q c clk f)"
    "\<not> er_accepted r \<Longrightarrow> fq_commands q' = fq_commands q \<and> fq_history q' = fq_history q"
    "fq_capacity q' = fq_capacity q"
proof -
  obtain claim h where cl: "claim_fast (command_key c) (publication_field_orders c) (active_fields q) clk (fq_history q) = (claim, h)"
    by (cases "claim_fast (command_key c) (publication_field_orders c) (active_fields q) clk (fq_history q)")
  have ok: "od_ok (publication_field_orders c)" "order_inv (fq_history q)"
    using c(1) inv by (simp_all only: field_orders_ok ordered_fields_def queue_inv_def)
  have acc: "f \<in> set (fc_accepted claim) \<longleftrightarrow> newer_fields q c clk f" if "fc_state claim \<noteq> Full" for f
    using claim_accepts [OF c(1), of f q clk] claim_marks(1) [OF cl that ok] by simp
  have "queue_inv q' \<and> (er_accepted r \<longrightarrow> queued q' key f = submitted q c clk ttl key f)
      \<and> (er_accepted r \<longrightarrow> (er_reason r = ''superseded'' \<longleftrightarrow> (\<forall>f. \<not> newer_fields q c clk f)))
      \<and> (\<not> er_accepted r \<longrightarrow> fq_commands q' = fq_commands q \<and> fq_history q' = fq_history q) \<and> fq_capacity q' = fq_capacity q"
  proof (cases "fc_state claim")
    case Full
    then have "h = fq_history q"
      using cl by (auto simp: claim_fast_def Let_def field_claim_of_def split: if_splits)
    with Full e inv show ?thesis
      by (auto simp: enqueue_claimed_def cl rejected_enqueue_def Let_def)
  next
    case Superseded
    then have none: "fc_accepted claim = []"
      using claim_marks(1) [OF cl _ ok] field_claim_cases by (auto split: if_splits)
    have q': "r = \<lparr>er_accepted = True, er_id = fast_command_id env (command_key c), er_reason = ''superseded''\<rparr>"
      "q' = queue_count ''superseded'' 1 (q\<lparr>fq_history := h\<rparr>)"
      using e Superseded by (auto simp: enqueue_claimed_def cl Let_def)
    have "\<not> newer_fields q c clk f" for f using acc [of f] none Superseded by simp
    moreover have "queue_inv (q\<lparr>fq_history := h\<rparr>)"
      using inv claim_keeps_marked [OF inv c cl] Superseded none claim_marks(3) [OF cl _ ok]
      by (simp add: queue_inv_def del: map_of_eq_Some_iff)
    ultimately show ?thesis by (simp add: q' submitted_def queued_def)
  next
    case Accepted
    let ?key = "command_key c"
    have some: "fc_accepted claim \<noteq> []" using Accepted claim_marks(1) [OF cl _ ok] field_claim_cases by (metis claim_state.distinct(1,3))
    obtain w where w: "merged_work env (map_of (fq_commands q) ?key) c ?key (fc_accepted claim) ttl wall clk = Inr w"
      and r: "r = \<lparr>er_accepted = True, er_id = fast_command_id env ?key, er_reason = ''''\<rparr>"
      and q': "fq_commands q' = fq_commands (set_commands ?key w q)" "fq_history q' = h" "fq_capacity q' = fq_capacity q"
      using e Accepted
      by (cases "merged_work env (map_of (fq_commands q) ?key) c ?key (fc_accepted claim) ttl wall clk")
        (auto simp: enqueue_claimed_def cl accept_claim_def Let_def set_commands_def split: if_splits)
    have nf: "fc_state claim \<noteq> Full" using Accepted by simp
    have "work_ok ?key w" and wv: "work_view w f = submitted q c clk ttl ?key f" for f
      using merged_work_view [OF inv c(1) refl c(2) acc [OF nf] some w] by auto
    have view: "queued q' key f = submitted q c clk ttl key f" for key f
      using wv [of f] by (simp add: queued_def q' submitted_def)
    have "marked h ?key w"
      unfolding marked_def
    proof (intro allI impI)
      fix f v n assume f: "field_view (fw_command w) f = Some (v, n)"
      show "\<exists>m. map_of (oh_marks h) (?key, f) = Some m \<and> om_order m = n \<and> om_lane m = Fast"
      proof (cases "newer_fields q c clk f")
        case True
        then have "field_view c f = Some (v, n)"
          using f wv [of f] by (auto simp: work_view_def submitted_def newer_fields_def split: option.splits)
        then have "map_of (publication_field_orders c) f = Some n" "0 < n"
          using ordered_view [OF c(1)] by (simp_all add: field_orders_lookup)
        then show ?thesis
          using True acc [OF nf, of f] by (simp add: claim_marks(2) [OF cl nf ok] order_of_def del: map_of_eq_Some_iff)
      next
        case False
        then have "queued q ?key f = Some (v, n, the (map_of (fw_expires w) f))"
          using f wv [of f] by (simp add: work_view_def submitted_def)
        then obtain e where ex: "map_of (fq_commands q) ?key = Some e" "field_view (fw_command e) f = Some (v, n)"
          by (auto simp: queued_def field_view_work simp del: map_of_eq_Some_iff split: option.splits)
        then have "marked (fq_history q) ?key e" using inv by (simp add: queue_inv_def del: map_of_eq_Some_iff)
        with ex(2) obtain m where m: "map_of (oh_marks (fq_history q)) (?key, f) = Some m" "om_order m = n" "om_lane m = Fast"
          unfolding marked_def by blast
        have "map_of (oh_marks h) (?key, f) = Some m"
          using pruned_active [OF inv ex(1) _ m(1), of clk] ex(2) False acc [OF nf, of f]
          by (simp add: claim_marks(2) [OF cl nf ok] del: map_of_eq_Some_iff)
        with m show ?thesis by blast
      qed
    qed
    moreover have "work_ok k x \<and> marked h k x" if "k \<noteq> ?key" "map_of (fq_commands q) k = Some x" for k x
      using that claim_keeps_marked [OF inv c cl nf that(2)] inv by (simp add: queue_inv_def del: map_of_eq_Some_iff)
    moreover have "od_ok (fq_commands q')" using inv by (simp add: q' queue_inv_def)
    ultimately have "queue_inv q'"
      using \<open>work_ok ?key w\<close> claim_marks(3) [OF cl nf ok] by (simp add: queue_inv_def q' del: map_of_eq_Some_iff)
    moreover have "\<exists>f. newer_fields q c clk f" using some acc [OF nf] by (cases "fc_accepted claim") auto
    ultimately show ?thesis using view q'(3) r by simp
  qed
  then show "queue_inv q'" "er_accepted r \<Longrightarrow> queued q' key f = submitted q c clk ttl key f"
    "er_accepted r \<Longrightarrow> er_reason r = ''superseded'' \<longleftrightarrow> (\<forall>f. \<not> newer_fields q c clk f)"
    "\<not> er_accepted r \<Longrightarrow> fq_commands q' = fq_commands q \<and> fq_history q' = fq_history q"
    "fq_capacity q' = fq_capacity q" by auto
qed

end
