(* ===== verification/Publication_Queue_Ops.thy ===== *)
theory Publication_Queue_Ops
  imports Publication_Queue_Props
begin

text \<open>What enqueueing, taking, giving back, recording and the durable fallback do to the table of the queue and its invariant.\<close>

section \<open>Enqueue\<close>

lemma length_set_commands:
  "od_ok (fq_commands q) \<Longrightarrow> length (fq_commands (set_commands key w q)) =
    (if map_of (fq_commands q) key = None then length (fq_commands q) + 1 else length (fq_commands q))"
proof -
  assume ok: "od_ok (fq_commands q)"
  have "length (fq_commands (set_commands key w q)) = card (dom (map_of (fq_commands (set_commands key w q))))"
    by (rule keys_length) (simp add: ok)
  also have "dom (map_of (fq_commands (set_commands key w q))) = insert key (dom (map_of (fq_commands q)))"
    by (auto simp: dom_def simp del: map_of_eq_Some_iff)
  finally show ?thesis
    using keys_length [OF ok] by (auto simp: card_insert_if finite_dom_map_of simp del: map_of_eq_Some_iff)
qed

lemma enqueue_claimed_length:
  assumes "od_ok (fq_commands q)" "\<not> queue_at_capacity q (map_of (fq_commands q) (command_key c))"
    "length (fq_commands q) \<le> fq_capacity q"
  shows "length (fq_commands (snd (enqueue_claimed env wall clk c ttl q))) \<le> fq_capacity q"
  using assms length_set_commands [of q "command_key c"]
  by (auto simp: enqueue_claimed_def accept_claim_def rejected_enqueue_def queue_at_capacity_def Let_def set_commands_def
      simp del: map_of_eq_Some_iff split: prod.split claim_state.split sum.split)

text \<open>Once the merged command could be stamped, stamping the accepted part of it cannot raise: the claim is never left behind.\<close>

lemma merge_rest: "cm_rest (merge_publication_payload existing c accepted) = cm_rest (updated_command existing c)"
  by (simp add: merge_publication_payload_def split: prod.split)

lemma enqueue_claimed_returns:
  assumes "queue_payload env (map_of (fq_commands q) (command_key c)) c (command_key c) wall = Inr payload"
  shows "\<exists>r. fst (enqueue_claimed env wall clk c ttl q) = Inr r"
proof -
  have "\<exists>w. merged_work env (map_of (fq_commands q) (command_key c)) c (command_key c) accepted ttl wall clk = Inr w" for accepted
    using assms by (auto simp: queue_payload_def merged_work_def stamped_def bind_result_Inr merge_rest)
  then show ?thesis
    by (auto simp: enqueue_claimed_def accept_claim_def rejected_enqueue_def Let_def
        split: prod.split claim_state.split sum.split) (metis Inl_Inr_False)
qed

lemma enqueue_cases:
  assumes "enqueue env wall clk c q = (x, q')"
  shows "(\<exists>ttl r. command_key c \<noteq> '''' \<and> \<not> queue_at_capacity q (map_of (fq_commands q) (command_key c))
      \<and> remaining_transient_ttl c wall = Inr ttl \<and> 0 < ttl \<and> enqueue_claimed env wall clk c ttl q = (Inr r, q') \<and> x = Inr r)
    \<or> (\<exists>e. x = Inl e \<and> q' = q)
    \<or> (\<exists>r k. x = Inr r \<and> \<not> er_accepted r \<and> q' = queue_count k 1 q)"
proof (cases "rejection_reason env c = ''''")
  case False
  with assms show ?thesis by (auto simp: enqueue_def Let_def)
next
  case True
  then have key: "command_key c \<noteq> ''''" by (auto simp: rejection_reason_def split: if_splits)
  show ?thesis
  proof (cases "enqueue_candidate env wall c q")
    case (Inl e)
    with assms True have "x = Inl e \<and> q' = q" by (auto simp: enqueue_def)
    then show ?thesis by blast
  next
    case (Inr d)
    show ?thesis
    proof (cases d)
      case (Inl r)
      with Inr assms True show ?thesis by (cases r) (auto simp: enqueue_def rejected_enqueue_def)
    next
      case ttl: (Inr ttl)
      from Inr ttl obtain payload
        where a: "queue_payload env (map_of (fq_commands q) (command_key c)) c (command_key c) wall = Inr payload"
        and b: "\<not> queue_at_capacity q (map_of (fq_commands q) (command_key c))" "remaining_transient_ttl c wall = Inr ttl" "0 < ttl"
        by (auto simp: enqueue_candidate_def Let_def bind_result_Inr split: if_splits)
      from Inr ttl assms True have e: "enqueue_claimed env wall clk c ttl q = (x, q')" by (simp add: enqueue_def)
      with enqueue_claimed_returns [OF a, of clk ttl] obtain r where "x = Inr r" by auto
      with b e key show ?thesis by blast
    qed
  qed
qed

lemma enqueue_keeps:
  assumes "queue_inv q" "ordered_fields c" "enqueue env wall clk c q = (x, q')"
  shows "queue_inv q' \<and> fq_capacity q' = fq_capacity q
    \<and> (length (fq_commands q) \<le> fq_capacity q \<longrightarrow> length (fq_commands q') \<le> fq_capacity q)"
  using enqueue_cases [OF assms(3)]
proof (elim disjE exE conjE)
  fix ttl r
  assume a: "command_key c \<noteq> ''''" "\<not> queue_at_capacity q (map_of (fq_commands q) (command_key c))"
    "enqueue_claimed env wall clk c ttl q = (Inr r, q')"
  have ok: "od_ok (fq_commands q)" using assms(1) by (simp add: queue_inv_def)
  with enqueue_claimed_refines(1,5) [OF assms(1,2) a(1,3)] a(3) enqueue_claimed_length [OF ok a(2)] show ?thesis
    by (metis snd_conv)
qed (use assms(1) in auto)

section \<open>Taking work\<close>

lemma first_min_none: "first_min key xs = None \<longleftrightarrow> xs = []"
  by (induction xs) (auto split: option.splits)

lemma first_min_some:
  "first_min key xs = Some x \<Longrightarrow> x \<in> set xs \<and> (\<forall>y\<in>set xs. key x \<le> key y)"
  by (induction xs arbitrary: x)
    (auto simp: first_min_none split: option.splits if_splits intro: order.strict_implies_order order.trans)

lemma pop_none:
  assumes "queue_inv q" "pop_next now q = (None, q')"
  shows "q' = prune_expired now q" "map_of (fq_commands q') key = Some w \<Longrightarrow> now < fw_retry w"
proof -
  from assms(2) have f: "filter (\<lambda>p. fw_retry (snd p) \<le> now) (fq_commands (prune_expired now q)) = []"
    and q': "q' = prune_expired now q"
    by (auto simp: pop_next_def Let_def first_min_none split: option.splits)
  show "q' = prune_expired now q" by (rule q')
  show "map_of (fq_commands q') key = Some w \<Longrightarrow> now < fw_retry w"
    using f unfolding q' by (auto simp: filter_empty_conv not_le dest!: map_of_SomeD)
qed

lemma pop_some:
  assumes inv: "queue_inv q" and p: "pop_next now q = (Some w, q')"
  obtains key where "map_of (fq_commands (prune_expired now q)) key = Some w" "work_ok key w" "marked (fq_history q') key w"
    "fw_retry w \<le> now" "q' = (prune_expired now q)\<lparr>fq_commands := AList.delete key (fq_commands (prune_expired now q))\<rparr>"
    "\<forall>k x. map_of (fq_commands (prune_expired now q)) k = Some x \<and> fw_retry x \<le> now \<longrightarrow> fast_work_priority now w \<le> fast_work_priority now x"
proof -
  let ?q = "prune_expired now q"
  have i: "queue_inv ?q" by (rule prune_lookup(1) [OF inv])
  then have ok: "od_ok (fq_commands ?q)" by (simp add: queue_inv_def)
  obtain key where m: "first_min (\<lambda>p. fast_work_priority now (snd p)) (filter (\<lambda>p. fw_retry (snd p) \<le> now) (fq_commands ?q)) = Some (key, w)"
    and q': "q' = ?q\<lparr>fq_commands := AList.delete key (fq_commands ?q)\<rparr>"
    using p by (auto simp: pop_next_def Let_def split: option.splits)
  from first_min_some [OF m] have s: "(key, w) \<in> set (fq_commands ?q)" "fw_retry w \<le> now"
    "\<forall>p\<in>set (fq_commands ?q). fw_retry (snd p) \<le> now \<longrightarrow> fast_work_priority now w \<le> fast_work_priority now (snd p)" by auto
  have look: "map_of (fq_commands ?q) key = Some w" using s(1) ok by simp
  show ?thesis
  proof (rule that [OF look _ _ s(2) q'])
    show "work_ok key w" "marked (fq_history q') key w" using i look by (simp_all add: q' queue_inv_def del: map_of_eq_Some_iff)
    show "\<forall>k x. map_of (fq_commands ?q) k = Some x \<and> fw_retry x \<le> now \<longrightarrow> fast_work_priority now w \<le> fast_work_priority now x"
      using s(3) by (force dest: map_of_SomeD)
  qed
qed

lemma delete_inv: "queue_inv q \<Longrightarrow> queue_inv (q\<lparr>fq_commands := AList.delete key (fq_commands q)\<rparr>)"
  by (simp add: queue_inv_def od_ok_delete od_lookup_delete del: map_of_eq_Some_iff)

section \<open>Giving back and recording\<close>

lemma requeue_lookup:
  assumes w: "work_ok key w" and free: "map_of (fq_commands q) key = None"
    and live: "retained_fast_work w now = Some r"
  shows "map_of (fq_commands (requeue w deferred now q)) k = (if k = key
      then Some (r\<lparr>fw_retry := (if deferred then now + retry_seconds else now), fw_deferred := deferred\<rparr>) else map_of (fq_commands q) k)"
    "fq_history (requeue w deferred now q) = fq_history q" "fq_capacity (requeue w deferred now q) = fq_capacity q"
    "od_ok (fq_commands q) \<Longrightarrow> length (fq_commands (requeue w deferred now q)) = length (fq_commands q) + 1"
    "od_ok (fq_commands q) \<Longrightarrow> od_ok (fq_commands (requeue w deferred now q))"
proof -
  have "work_ok key r" by (rule retained_view(2) [OF live w])
  then have "command_key (fw_command r) = key" "key \<noteq> ''''" by (simp_all add: work_ok_def)
  then have c: "fast_requeue_candidate w now = Some (key, r)" by (simp add: fast_requeue_candidate_def live)
  have q': "requeue w deferred now q = set_commands key
      (r\<lparr>fw_retry := (if deferred then now + retry_seconds else now), fw_deferred := deferred\<rparr>) q"
    by (simp add: requeue_def c merge_fast_work_def free del: map_of_eq_None_iff)
  show "map_of (fq_commands (requeue w deferred now q)) k = (if k = key
      then Some (r\<lparr>fw_retry := (if deferred then now + retry_seconds else now), fw_deferred := deferred\<rparr>) else map_of (fq_commands q) k)"
    "fq_history (requeue w deferred now q) = fq_history q" "fq_capacity (requeue w deferred now q) = fq_capacity q"
    "od_ok (fq_commands q) \<Longrightarrow> od_ok (fq_commands (requeue w deferred now q))"
    by (simp_all add: q')
  show "od_ok (fq_commands q) \<Longrightarrow> length (fq_commands (requeue w deferred now q)) = length (fq_commands q) + 1"
    using free by (simp add: q' length_set_commands)
qed

lemma work_retry_simps:
  "work_ok key (r\<lparr>fw_retry := t, fw_deferred := d\<rparr>) = work_ok key r" "marked h key (r\<lparr>fw_retry := t, fw_deferred := d\<rparr>) = marked h key r"
  "work_view (r\<lparr>fw_retry := t, fw_deferred := d\<rparr>) = work_view r"
  by (simp_all add: work_ok_def marked_def work_view_def fun_eq_iff split: option.split)

lemma retained_marked:
  assumes "retained_fast_work w now = Some r" "work_ok key w" "marked h key w"
  shows "marked h key r"
proof -
  have "field_view (fw_command w) f = Some (v, n)" if "field_view (fw_command r) f = Some (v, n)" for f v n
    using that retained_view(1) [OF assms(1,2), of f] by (auto simp: field_view_work split: option.splits if_splits)
  with assms(3) show ?thesis unfolding marked_def by blast
qed

lemma requeue_inv:
  assumes "queue_inv q" "work_ok key w" "marked (fq_history q) key w" "map_of (fq_commands q) key = None" "retained_fast_work w now = Some r"
  shows "queue_inv (requeue w deferred now q)"
  using assms(1) requeue_lookup [OF assms(2,4,5)] retained_view(2) [OF assms(5,2)] retained_marked [OF assms(5,2,3)]
  by (simp add: queue_inv_def work_retry_simps del: map_of_eq_Some_iff)

text \<open>Recording an outcome touches only the marks of the key of the work.\<close>

lemma confirm_marks_other:
  "k \<noteq> key \<Longrightarrow> map_of (oh_marks (snd (confirm_fast_applied io key orders now h))) (k, f) = map_of (oh_marks h) (k, f)"
  by (simp add: confirm_fast_lookup lookup_updated_def confirmed_def split: option.split)

lemma marked_confirm_other: "marked h k w \<Longrightarrow> k \<noteq> key \<Longrightarrow> marked (snd (confirm_fast_applied io key orders now h)) k w"
  unfolding marked_def by (simp only: confirm_marks_other not_False_eq_True)

lemma record_outcome_simps:
  "fq_commands (snd (record_outcome io w state clk wall q)) = fq_commands q"
  "fq_capacity (snd (record_outcome io w state clk wall q)) = fq_capacity q"
  by (auto simp: record_outcome_def Let_def release_fast_work_def split: prod.split)

lemma record_outcome_history:
  "fq_history (snd (record_outcome io w state clk wall q)) =
    (if state = ''applied'' then snd (confirm_fast_applied io (command_key (fw_command w)) (publication_field_orders (fw_command w)) clk (fq_history q))
     else if state = ''dropped'' then release_fast (command_key (fw_command w)) (publication_field_orders (fw_command w)) (fq_history q)
     else fq_history q)"
  by (auto simp: record_outcome_def Let_def release_fast_work_def split: prod.split)

lemma record_outcome_inv:
  assumes "queue_inv q" "work_ok key w" "map_of (fq_commands q) key = None"
  shows "queue_inv (snd (record_outcome io w state clk wall q))"
proof -
  have key: "command_key (fw_command w) = key" using assms(2) by (simp add: work_ok_def)
  let ?h = "fq_history (snd (record_outcome io w state clk wall q))"
  have oi: "order_inv (fq_history q)" using assms(1) by (simp add: queue_inv_def)
  have "order_inv ?h"
    using history.step_inv [OF oi, of "ConfirmFast io key (publication_field_orders (fw_command w)) clk"] released_marks(1) [OF oi] oi
    by (simp add: record_outcome_history key)
  moreover have "marked ?h k x" if "map_of (fq_commands q) k = Some x" for k x
  proof -
    have "k \<noteq> key" using that assms(3) by auto
    moreover have "marked (fq_history q) k x" using assms(1) that by (simp add: queue_inv_def del: map_of_eq_Some_iff)
    ultimately show ?thesis by (simp add: record_outcome_history key marked_confirm_other marked_other)
  qed
  ultimately show ?thesis using assms(1) by (simp add: queue_inv_def record_outcome_simps del: map_of_eq_Some_iff)
qed

section \<open>Draining\<close>

text \<open>The entries a burst may take: those whose retry time has come.\<close>

definition ready_keys :: "secs \<Rightarrow> fast_queue \<Rightarrow> string set" where
  "ready_keys now q = {key. \<exists>w. map_of (fq_commands q) key = Some w \<and> fw_retry w \<le> now}"

lemma ready_finite: "finite (ready_keys now q)"
  by (rule finite_subset [of _ "dom (map_of (fq_commands q))"]) (auto simp: ready_keys_def finite_dom_map_of)

lemma ready_bound: "od_ok (fq_commands q) \<Longrightarrow> card (ready_keys now q) \<le> length (fq_commands q)"
proof -
  assume "od_ok (fq_commands q)"
  moreover have "ready_keys now q \<subseteq> dom (map_of (fq_commands q))" by (auto simp: ready_keys_def)
  ultimately show ?thesis by (simp add: keys_length card_mono finite_dom_map_of)
qed

lemma ready_prune: "queue_inv q \<Longrightarrow> ready_keys now (prune_expired t q) \<subseteq> ready_keys now q"
proof
  fix key assume inv: "queue_inv q" and "key \<in> ready_keys now (prune_expired t q)"
  then obtain r where r: "map_of (fq_commands (prune_expired t q)) key = Some r" "fw_retry r \<le> now" by (auto simp: ready_keys_def)
  then obtain w where w: "map_of (fq_commands q) key = Some w" "kept_work t w = Some r"
    by (auto simp: prune_lookup(4) [OF inv] simp del: map_of_eq_Some_iff split: option.splits)
  then have "work_ok key w" using inv by (simp add: queue_inv_def del: map_of_eq_Some_iff)
  from kept_view(2) [OF this w(2)] w(1) r(2) show "key \<in> ready_keys now q" by (auto simp: ready_keys_def)
qed

text \<open>Work that was just taken has no expired field.\<close>

lemma kept_live:
  assumes "kept_work now w = Some r" "work_ok key w"
  shows "\<forall>p\<in>set (fw_expires r). now < snd p" "\<exists>r'. retained_fast_work r now = Some r' \<and> work_view r' = work_view r"
proof -
  have k: "work_ok key r" using kept_view(2) [OF assms(2,1)] by simp
  have times: "now < t" if "work_view r f = Some (v, n, t)" for f v n t
    using that kept_view(1) [OF assms(2), where now = now and f = f] assms(1)
    by (auto simp: unexpired_def split: option.splits if_splits)
  show live: "\<forall>p\<in>set (fw_expires r). now < snd p"
  proof
    fix p assume "p \<in> set (fw_expires r)"
    then have t: "map_of (fw_expires r) (fst p) = Some (snd p)" using k by (cases p) (auto simp: work_ok_def intro: map_of_is_SomeI)
    then obtain v n where "field_view (fw_command r) (fst p) = Some (v, n)" using k unfolding work_ok_def by (metis not_None_eq surj_pair)
    with t have "work_view r (fst p) = Some (v, n, snd p)" by (simp add: work_view_def)
    from times [OF this] show "now < snd p" .
  qed
  have "\<exists>f t. map_of (fw_expires r) f = Some t" using k unfolding work_ok_def by (metis not_None_eq)
  then have "retained_fast_work r now \<noteq> None"
    using live unfolding retained_none [OF k] by (metis map_of_SomeD not_le snd_conv)
  then obtain r' where r': "retained_fast_work r now = Some r'" by auto
  have "work_view r' f = work_view r f" for f
    using retained_view(1) [OF r' k, of f] times [of f] by (auto split: option.splits if_splits)
  with r' show "\<exists>r'. retained_fast_work r now = Some r' \<and> work_view r' = work_view r" by auto
qed

text \<open>One candidate of a burst: the queue stays well formed, does not grow, and a ready entry is gone or waits.\<close>

lemma candidate_step:
  assumes inv: "queue_inv q" and p: "pop_next started q = (Some w, q1)"
    and c: "process_fast_publish_candidate io started d w q1 = (go, q2)"
  shows "queue_inv q2" "fq_capacity q2 = fq_capacity q" "length (fq_commands q2) \<le> length (fq_commands q)"
    "go \<Longrightarrow> card (ready_keys started q2) < card (ready_keys started q)" "go \<longleftrightarrow> d \<noteq> Blocked"
proof -
  let ?p = "prune_expired started q"
  obtain key where look: "map_of (fq_commands ?p) key = Some w" and w: "work_ok key w" "marked (fq_history q1) key w" "fw_retry w \<le> started"
    and q1: "q1 = ?p\<lparr>fq_commands := AList.delete key (fq_commands ?p)\<rparr>" by (rule pop_some [OF inv p])
  have pinv: "queue_inv ?p" by (rule prune_lookup(1) [OF inv])
  then have i1: "queue_inv q1" unfolding q1 by (rule delete_inv)
  have ok: "od_ok (fq_commands ?p)" "od_ok (fq_commands q1)" using pinv i1 by (simp_all add: queue_inv_def)
  have free: "map_of (fq_commands q1) key = None" by (simp add: q1 od_lookup_delete)
  have cap: "fq_capacity q1 = fq_capacity q" by (simp add: q1 prune_lookup(2) [OF inv])
  have short: "length (fq_commands q1) + 1 \<le> length (fq_commands q)"
  proof -
    have "length (fq_commands q1) = length (fq_commands ?p) - 1" by (simp add: q1 length_delete_present [OF ok(1) look])
    moreover have "0 < length (fq_commands ?p)" using look by (cases "fq_commands ?p") auto
    ultimately show ?thesis using prune_lookup(3) [OF inv, of started] by simp
  qed
  obtain w0 where w0: "map_of (fq_commands q) key = Some w0" "kept_work started w0 = Some w"
    using look by (auto simp: prune_lookup(4) [OF inv] simp del: map_of_eq_Some_iff split: option.splits)
  then have "work_ok key w0" using inv by (simp add: queue_inv_def del: map_of_eq_Some_iff)
  from kept_live(2) [OF w0(2) this] obtain r where r: "retained_fast_work w started = Some r" by blast
  have "key \<in> ready_keys started q"
    using w0 kept_view(2) [OF \<open>work_ok key w0\<close> w0(2)] w(3) by (auto simp: ready_keys_def)
  moreover have "ready_keys started q1 \<subseteq> ready_keys started q - {key}"
    using ready_prune [OF inv, of started started] by (auto simp: ready_keys_def q1 od_lookup_delete simp del: map_of_eq_Some_iff split: if_splits)
  ultimately have fewer: "card (ready_keys started q1) < card (ready_keys started q)"
    using ready_finite by (metis card_Diff1_less card_mono finite_Diff order.strict_trans1)
  show "queue_inv q2" "fq_capacity q2 = fq_capacity q" "length (fq_commands q2) \<le> length (fq_commands q)"
    "go \<Longrightarrow> card (ready_keys started q2) < card (ready_keys started q)" "go \<longleftrightarrow> d \<noteq> Blocked"
  proof -
    have "queue_inv q2 \<and> fq_capacity q2 = fq_capacity q \<and> length (fq_commands q2) \<le> length (fq_commands q)
      \<and> (go \<longrightarrow> card (ready_keys started q2) < card (ready_keys started q)) \<and> (go \<longleftrightarrow> d \<noteq> Blocked)"
    proof (cases d)
      case Blocked
      with c have "q2 = requeue w False started q1" "\<not> go" by auto
      with requeue_inv [OF i1 w(1,2) free r] requeue_lookup [OF w(1) free r] cap short ok(2) Blocked show ?thesis by simp
    next
      case (Ran state clk wall)
      let ?o = "snd (record_outcome io w state clk wall q1)"
      from c Ran have q2: "q2 = (if state = ''deferred'' then requeue w True started ?o else ?o)" and go by (auto split: prod.splits)
      have oi: "queue_inv ?o" by (rule record_outcome_inv [OF i1 w(1) free])
      have same: "ready_keys started ?o = ready_keys started q1" by (simp add: ready_keys_def record_outcome_simps)
      show ?thesis
      proof (cases "state = ''deferred''")
        case False
        with q2 oi same fewer cap short \<open>go\<close> Ran show ?thesis by (simp add: record_outcome_simps)
      next
        case True
        then have h: "fq_history ?o = fq_history q1" by (simp add: record_outcome_history)
        have free': "map_of (fq_commands ?o) key = None" using free by (simp add: record_outcome_simps)
        have m': "marked (fq_history ?o) key w" using w(2) h by simp
        have q2': "q2 = requeue w True started ?o" using q2 True by simp
        note lk = requeue_lookup [OF w(1) free' r, where deferred = True, folded q2']
        have "map_of (fq_commands q2) k = (if k = key then Some (r\<lparr>fw_retry := started + retry_seconds, fw_deferred := True\<rparr>)
            else map_of (fq_commands q1) k)" for k
          using lk(1) [of k] by (simp add: record_outcome_simps)
        then have "ready_keys started q2 = ready_keys started q1"
          using free by (auto simp: ready_keys_def retry_seconds_def simp del: map_of_eq_Some_iff)
        with requeue_inv [OF oi w(1) m' free' r, where deferred = True, folded q2'] lk(3,4) cap short ok(2) fewer \<open>go\<close> Ran show ?thesis
          by (simp add: record_outcome_simps)
      qed
    qed
    then show "queue_inv q2" "fq_capacity q2 = fq_capacity q" "length (fq_commands q2) \<le> length (fq_commands q)"
      "go \<Longrightarrow> card (ready_keys started q2) < card (ready_keys started q)" "go \<longleftrightarrow> d \<noteq> Blocked" by auto
  qed
qed

lemma burst_keeps:
  assumes "queue_inv q" "process_fast_publish_burst io started judge l n q = ((n', stopped), q')"
  shows "queue_inv q' \<and> fq_capacity q' = fq_capacity q \<and> length (fq_commands q') \<le> length (fq_commands q)
    \<and> n \<le> n' \<and> n' - n \<le> card (ready_keys started q)
    \<and> (stopped \<longrightarrow> n' = n + l \<or> (\<exists>w. judge n' w = Blocked)) \<and> (\<not> stopped \<longrightarrow> ready_keys started q' = {})"
  using assms
proof (induction l arbitrary: n q)
  case 0
  then show ?case by auto
next
  case (Suc l)
  show ?case
  proof (cases "pop_next started q")
    case (Pair w q1)
    show ?thesis
    proof (cases w)
      case None
      with Pair Suc.prems have "((n', stopped), q') = ((n, False), q1)" by simp
      moreover from pop_none [OF Suc.prems(1)] Pair None
      have "q1 = prune_expired started q" "ready_keys started q1 = {}" by (auto simp: ready_keys_def simp del: map_of_eq_Some_iff) (force dest: leD)
      ultimately show ?thesis using prune_lookup(1-3) [OF Suc.prems(1), of started] by simp
    next
      case (Some x)
      with Pair have p: "pop_next started q = (Some x, q1)" by simp
      obtain go q2 where c: "process_fast_publish_candidate io started (judge n x) x q1 = (go, q2)"
        by (cases "process_fast_publish_candidate io started (judge n x) x q1")
      note st = candidate_step [OF Suc.prems(1) p c]
      show ?thesis
      proof (cases go)
        case False
        with Suc.prems(2) p c have "((n', stopped), q') = ((n, True), q2)" by simp
        with st False show ?thesis by auto
      next
        case True
        with Suc.prems(2) p c have "process_fast_publish_burst io started judge l (n + 1) q2 = ((n', stopped), q')" by simp
        from Suc.IH [OF st(1) this] st(2-4) True show ?thesis by auto
      qed
    qed
  qed
qed

end
