(* ===== verification/Publication_Queue_Claims.thy ===== *)
theory Publication_Queue_Claims
  imports Publication_Queue_Ops
begin

text \<open>The properties of the fast publication queue and of its durable fallback.\<close>

section \<open>The durable fallback\<close>

lemma confirm_durable_keeps:
  assumes "queue_inv q" "map_of (oh_marks (fq_history q)) (k, f) = Some m" "(k, f) \<in> active_fields q"
    "k \<noteq> key \<or> map_of orders f = None"
  shows "map_of (oh_marks (snd (confirm_durable_applied io key orders (active_fields q) now (fq_history q)))) (k, f) = Some m"
proof -
  let ?p = "pruned_marks (fq_history q) now (active_fields q)"
  have p: "map_of ?p (k, f) = Some m"
    using assms(1-3) by (simp add: pruned_lookup queue_inv_def order_inv_def del: map_of_eq_Some_iff)
  have "f \<notin> set (fc_accepted (field_claim_of key orders ?p blocked))" if "map_of orders f = None" for blocked
    using that by (force simp: field_claim_of_def Let_def map_of_eq_None_iff)
  with p assms(2,4) show ?thesis
    by (auto simp: confirm_durable_marks Let_def claimed_marks_lookup simp del: map_of_eq_Some_iff)
qed

text \<open>Removing fields from the queue.\<close>

definition without_fields :: "string \<Rightarrow> string list \<Rightarrow> fast_queue \<Rightarrow> string \<Rightarrow> string \<Rightarrow> (pyval \<times> int \<times> secs) option" where
  "without_fields key fs q k f = (if k = key \<and> f \<in> set fs then None else queued q k f)"

lemma remove_fields:
  assumes ok: "od_ok (fq_commands q)" "\<And>k w. map_of (fq_commands q) k = Some w \<Longrightarrow> work_ok k w"
  shows "\<exists>q'. remove_fast_fields key fs q = (Inr (), q') \<and> od_ok (fq_commands q') \<and> fq_history q' = fq_history q
    \<and> fq_capacity q' = fq_capacity q \<and> length (fq_commands q') \<le> length (fq_commands q)
    \<and> (\<forall>k w. map_of (fq_commands q') k = Some w \<longrightarrow> work_ok k w) \<and> queued q' = without_fields key fs q"
proof (cases "map_of (fq_commands q) key")
  case None
  then show ?thesis using ok by (auto simp: remove_fast_fields_def without_fields_def queued_def fun_eq_iff)
next
  case (Some w)
  have w: "work_ok key w" by (rule ok(2) [OF Some])
  let ?queued = "publication_fields (Some (fw_command w))"
  define removed where "removed = filter (\<lambda>f. f \<in> fst ` set ?queued) fs"
  define rest where "rest = filter (\<lambda>f. f \<notin> set removed) (map fst ?queued)"
  show ?thesis
  proof (cases "removed = []")
    case True
    then have "work_view w f = None" if "f \<in> set fs" for f
      using that view_dom [of "fw_command w" f] by (auto simp: removed_def filter_empty_conv work_view_def split: option.split)
    then have "queued q = without_fields key fs q"
      using Some by (auto simp: fun_eq_iff without_fields_def queued_def)
    with True Some ok show ?thesis by (auto simp: remove_fast_fields_def fast_field_selection_def Let_def removed_def)
  next
    case False
    have ord: "ordered_fields (fw_command w)" and eok: "od_ok (fw_expires w)" and ew: "map_of (fw_expires w) f = None \<longleftrightarrow> field_view (fw_command w) f = None" for f
      using w by (auto simp: work_ok_def)
    have mem: "f \<in> set rest \<longleftrightarrow> f \<notin> set fs \<and> field_view (fw_command w) f \<noteq> None" for f
      unfolding view_dom by (auto simp: rest_def removed_def)
    have sel: "fast_field_selection w fs = Some (removed, rest)"
      using False by (simp add: fast_field_selection_def Let_def rest_def removed_def)
    show ?thesis
    proof (cases "filter_publication_payload (fw_command w) rest")
      case None
      let ?q' = "queue_count ''fast_fields_superseded'' (length removed) (q\<lparr>fq_commands := AList.delete key (fq_commands q)\<rparr>)"
      have "field_view (fw_command w) f = None" if "f \<notin> set fs" for f
        using None mem [of f] that unfolding filter_none by blast
      then have "work_view w f = None" if "f \<notin> set fs" for f using that by (simp add: work_view_def)
      then have "queued ?q' = without_fields key fs q"
        using Some by (auto simp: fun_eq_iff without_fields_def queued_def od_lookup_delete)
      moreover have "remove_fast_fields key fs q = (Inr (), ?q')"
        by (simp add: remove_fast_fields_def Some sel store_remaining_fast_fields_def None del: map_of_eq_Some_iff)
      ultimately show ?thesis
        using ok by (intro exI [of _ ?q']) (auto simp: od_ok_delete od_lookup_delete length_delete_le split: if_splits)
    next
      case (Some c)
      note fv = filter_view [OF Some ord]
      let ?w' = "w\<lparr>fw_command := c, fw_expires := map (\<lambda>f. (f, the (map_of (fw_expires w) f))) rest\<rparr>"
      let ?q' = "queue_count ''fast_fields_superseded'' (length removed) (q\<lparr>fq_commands := AList.update key ?w' (fq_commands q)\<rparr>)"
      have all: "\<not> (\<exists>f\<in>set rest. map_of (fw_expires w) f = None)" using ew mem by blast
      have ran: "remove_fast_fields key fs q = (Inr (), ?q')"
        using all by (simp add: remove_fast_fields_def \<open>map_of (fq_commands q) key = Some w\<close> sel store_remaining_fast_fields_def Some
            del: map_of_eq_Some_iff)
      have times: "map_of (map (\<lambda>f. (f, g f)) xs) f = (if f \<in> set xs then Some (g f) else None)" for g :: "string \<Rightarrow> secs" and xs f
        by (induction xs) auto
      have fexp: "map_of (fw_expires ?w') f = (if f \<in> set rest then map_of (fw_expires w) f else None)" for f
        using all by (auto simp: times)
      have wv: "work_view ?w' f = (if f \<in> set fs then None else work_view w f)" for f
        using fv(1) [of f] mem [of f] fexp [of f] by (auto simp: work_view_def split: option.split)
      have "distinct rest" using ord by (simp add: ordered_fields_def rest_def)
      then have ok': "work_ok key ?w'"
        using w fv mem fexp ew filter_none [of "fw_command w" rest] Some
        by (auto simp: work_ok_def comp_def command_key_def)
      have view: "queued ?q' = without_fields key fs q"
        using wv \<open>map_of (fq_commands q) key = Some w\<close> by (auto simp: fun_eq_iff without_fields_def queued_def od_lookup_update)
      show ?thesis
        using ran view ok ok' length_update_present [OF \<open>map_of (fq_commands q) key = Some w\<close>]
        by (intro exI [of _ ?q']) (auto simp: od_ok_update od_lookup_update split: if_splits)
    qed
  qed
qed

lemma prepare_durable_cases:
  assumes "queue_inv q" "ordered_fields c" "prepare_durable now c q = (Inr (Some c'), q1)"
  obtains q0 where "q0 = prune_expired now q" "fq_commands q1 = fq_commands q0" "fq_history q1 = fq_history q0" "fq_capacity q1 = fq_capacity q"
    "ordered_fields c'" "command_key c' = command_key c"
    "\<And>f v n. field_view c' f = Some (v, n) \<Longrightarrow> field_view c f = Some (v, n)"
    "\<And>f v d v' n t. field_view c' f = Some (v, d) \<Longrightarrow> queued q1 (command_key c) f = Some (v', n, t) \<Longrightarrow> n < d"
proof -
  let ?q0 = "prune_expired now q" and ?key = "command_key c" and ?orders = "publication_field_orders c"
  let ?claim = "claim_durable ?key ?orders (active_fields ?q0) now (fq_history ?q0)"
  have nw: "\<not> durable_waits_for_fast ?orders (map_of (fq_commands ?q0) ?key)"
    and c': "filter_publication_payload c (fc_accepted ?claim) = Some c'"
    and q1: "fq_commands q1 = fq_commands ?q0" "fq_history q1 = fq_history ?q0" "fq_capacity q1 = fq_capacity ?q0"
    using assms(3) by (auto simp: prepare_durable_def Let_def split: if_splits)
  note fv = filter_view [OF c' assms(2)]
  have sub: "field_view c f = Some (v, n)" if "field_view c' f = Some (v, n)" for f v n
    using that fv(1) [of f] by (auto split: if_splits)
  have below: "n < d" if "field_view c' f = Some (v, d)" "queued q1 ?key f = Some (v', n, t)" for f v d v' n t
  proof -
    from that(2) obtain w where w: "map_of (fq_commands ?q0) ?key = Some w" "field_view (fw_command w) f = Some (v', n)"
      by (auto simp: queued_def q1 field_view_work simp del: map_of_eq_Some_iff split: option.splits)
    have "map_of ?orders f = Some d" using sub [OF that(1)] by (simp add: field_orders_lookup)
    then have "(f, d) \<in> set ?orders" by (rule map_of_SomeD)
    moreover have "map_of (publication_field_orders (fw_command w)) f = Some n" using w(2) by (simp add: field_orders_lookup)
    ultimately show ?thesis using nw w(1) by (force simp: durable_waits_for_fast_def simp del: map_of_eq_Some_iff)
  qed
  have "command_key c' = command_key c" using fv(3) by (simp add: command_key_def)
  with that [of ?q0] q1 fv(2) sub below prune_lookup(2) [OF assms(1)] show ?thesis by simp
qed

lemma prepare_durable_keeps:
  assumes "queue_inv q"
  shows "fq_commands (snd (prepare_durable now c q)) = fq_commands (prune_expired now q)"
    "fq_history (snd (prepare_durable now c q)) = fq_history (prune_expired now q)"
    "fq_capacity (snd (prepare_durable now c q)) = fq_capacity q"
    "queue_inv (snd (prepare_durable now c q))"
proof -
  show a: "fq_commands (snd (prepare_durable now c q)) = fq_commands (prune_expired now q)"
    "fq_history (snd (prepare_durable now c q)) = fq_history (prune_expired now q)"
    "fq_capacity (snd (prepare_durable now c q)) = fq_capacity q"
    using prune_lookup(2) [OF assms] by (simp_all add: prepare_durable_def Let_def)
  show "queue_inv (snd (prepare_durable now c q))" using prune_lookup(1) [OF assms, of now] by (simp add: queue_inv_def a)
qed

lemma record_durable_keeps:
  assumes inv: "queue_inv q" and c: "ordered_fields c"
  shows "\<exists>q'. record_durable_outcome io c state now q = (Inr (), q') \<and> queue_inv q' \<and> fq_capacity q' = fq_capacity q
    \<and> length (fq_commands q') \<le> length (fq_commands q)
    \<and> queued q' = (if state = ''applied'' then without_fields (command_key c) (map fst (publication_field_orders c)) q else queued q)"
proof (cases "state = ''applied''")
  case False
  with inv show ?thesis by (simp add: record_durable_outcome_def)
next
  case True
  let ?key = "command_key c" and ?orders = "publication_field_orders c"
  obtain saved h where h: "confirm_durable_applied io ?key ?orders (active_fields q) now (fq_history q) = (saved, h)"
    by (cases "confirm_durable_applied io ?key ?orders (active_fields q) now (fq_history q)")
  let ?q1 = "q\<lparr>fq_history := h\<rparr>"
  have ok: "od_ok (fq_commands ?q1)" "\<And>k w. map_of (fq_commands ?q1) k = Some w \<Longrightarrow> work_ok k w"
    using inv by (simp_all add: queue_inv_def del: map_of_eq_Some_iff)
  from remove_fields [OF ok, of ?key "map fst ?orders"] obtain q' where q': "remove_fast_fields ?key (map fst ?orders) ?q1 = (Inr (), q')"
    "od_ok (fq_commands q')" "fq_history q' = h" "fq_capacity q' = fq_capacity q" "length (fq_commands q') \<le> length (fq_commands q)"
    "\<And>k w. map_of (fq_commands q') k = Some w \<Longrightarrow> work_ok k w" "queued q' = without_fields ?key (map fst ?orders) ?q1" by auto
  have q1: "without_fields ?key fs ?q1 = without_fields ?key fs q" for fs by (simp add: without_fields_def queued_def fun_eq_iff)
  have "order_inv h"
    using history.step_inv [of "fq_history q" "ConfirmDurable io ?key ?orders (active_fields q) now"] inv h by (simp add: queue_inv_def)
  moreover have "marked h k w" if k: "map_of (fq_commands q') k = Some w" for k w
    unfolding marked_def
  proof (intro allI impI)
    fix f v n assume f: "field_view (fw_command w) f = Some (v, n)"
    then have "queued q' k f = Some (v, n, the (map_of (fw_expires w) f))" using k by (simp add: queued_def work_view_def)
    then have old: "queued q k f = Some (v, n, the (map_of (fw_expires w) f))" "k \<noteq> ?key \<or> f \<notin> set (map fst ?orders)"
      unfolding q'(7) q1 by (auto simp: without_fields_def split: if_splits)
    then obtain x where x: "map_of (fq_commands q) k = Some x" "field_view (fw_command x) f = Some (v, n)"
      by (auto simp: queued_def field_view_work simp del: map_of_eq_Some_iff split: option.splits)
    then have "marked (fq_history q) k x" using inv by (simp add: queue_inv_def del: map_of_eq_Some_iff)
    with x(2) obtain m where m: "map_of (oh_marks (fq_history q)) (k, f) = Some m" "om_order m = n" "om_lane m = Fast"
      unfolding marked_def by blast
    have "k \<noteq> ?key \<or> map_of ?orders f = None" using old(2) by (auto simp: map_of_eq_None_iff)
    moreover have "(k, f) \<in> active_fields q" using active_queued [OF inv x(1)] x(2) by simp
    ultimately have "map_of (oh_marks h) (k, f) = Some m"
      using confirm_durable_keeps [OF inv m(1), of ?key ?orders io now] h by simp
    with m show "\<exists>m. map_of (oh_marks h) (k, f) = Some m \<and> om_order m = n \<and> om_lane m = Fast" by blast
  qed
  ultimately have "queue_inv q'" using q' by (simp add: queue_inv_def del: map_of_eq_Some_iff)
  with q' True h show ?thesis by (simp add: record_durable_outcome_def q1)
qed

section \<open>The gateway's events\<close>

datatype gateway_event =
    Submit queue_env secs secs pub_command
  | Drain order_io secs "nat \<Rightarrow> fast_work \<Rightarrow> dispatch" nat
  | Fallback order_io secs pub_command string secs
  | Look secs

fun event_ok :: "gateway_event \<Rightarrow> bool" where
  "event_ok (Submit env wall clk c) = ordered_fields c"
| "event_ok (Fallback io now c state now2) = ordered_fields c"
| "event_ok _ = True"

fun gateway_step :: "fast_queue \<Rightarrow> gateway_event \<Rightarrow> fast_queue" where
  "gateway_step q (Submit env wall clk c) = snd (enqueue env wall clk c q)"
| "gateway_step q (Drain io started judge l) = snd (process_fast_publish_burst io started judge l 0 q)"
| "gateway_step q (Fallback io now c state now2) =
    (case prepare_durable now c q of
       (Inr (Some c'), q1) \<Rightarrow> snd (record_durable_outcome io c' state now2 q1)
     | (_, q1) \<Rightarrow> q1)"
| "gateway_step q (Look now) = prune_expired now q"

definition gateway_inv :: "fast_queue \<Rightarrow> bool" where
  "gateway_inv q \<longleftrightarrow> queue_inv q \<and> length (fq_commands q) \<le> fq_capacity q"

lemma gateway_step_inv:
  assumes "gateway_inv q" "event_ok e"
  shows "gateway_inv (gateway_step q e)"
proof (cases e)
  case (Submit env wall clk c)
  obtain x q' where e: "enqueue env wall clk c q = (x, q')" by (cases "enqueue env wall clk c q")
  with enqueue_keeps [OF _ _ e] assms Submit show ?thesis by (simp add: gateway_inv_def)
next
  case (Drain io started judge l)
  obtain n b q' where d: "process_fast_publish_burst io started judge l 0 q = ((n, b), q')"
    by (cases "process_fast_publish_burst io started judge l 0 q") auto
  from burst_keeps [OF _ d] assms(1) Drain d show ?thesis by (simp add: gateway_inv_def)
next
  case (Look now)
  with prune_lookup(1-3) [of q now] assms(1) show ?thesis by (simp add: gateway_inv_def)
next
  case (Fallback io now c state now2)
  have q: "queue_inv q" "length (fq_commands q) \<le> fq_capacity q" using assms(1) by (simp_all add: gateway_inv_def)
  obtain x q1 where p: "prepare_durable now c q = (x, q1)" by (cases "prepare_durable now c q")
  have q1: "queue_inv q1" "length (fq_commands q1) \<le> fq_capacity q1"
    using prepare_durable_keeps [OF q(1), of now c] p prune_lookup(2,3) [OF q(1), of now] q(2) by simp_all
  show ?thesis
  proof (cases "\<exists>c'. x = Inr (Some c')")
    case True
    then obtain c' where c': "x = Inr (Some c')" by blast
    have "ordered_fields c" using assms(2) Fallback by simp
    from prepare_durable_cases [OF q(1) this] p c' have "ordered_fields c'" by metis
    from record_durable_keeps [OF q1(1) this, of io state now2] obtain q2
      where "record_durable_outcome io c' state now2 q1 = (Inr (), q2)" "queue_inv q2" "fq_capacity q2 = fq_capacity q1"
        "length (fq_commands q2) \<le> length (fq_commands q1)" by blast
    with p c' q1 Fallback show ?thesis by (simp add: gateway_inv_def)
  next
    case False
    with p q1 Fallback show ?thesis by (auto simp: gateway_inv_def split: sum.split option.split)
  qed
qed

interpretation gateway: guarded_steps gateway_step event_ok gateway_inv
  by unfold_locales (rule gateway_step_inv)

text \<open>
  Claim C15.  The fast queue stays consistent along every run of submissions, draining bursts, durable fallbacks and snapshots: it
  never holds more keys than its capacity, also when deferred work is put back, and the order of each queued field is the
  one the history has for it as a volatile claim, so no other publication can claim the field with an order up to it.
\<close>

theorem fast_queue_stays_consistent:
  assumes "q0 = fast_queue_new io capacity order_capacity retention t0 d" "order_inv (fq_history q0)"
    and "list_all event_ok es" "q = foldl gateway_step q0 es"
  shows "length (fq_commands q) \<le> fq_capacity q
    \<and> (\<forall>key f v n t. queued q key f = Some (v, n, t) \<longrightarrow>
        (\<exists>m. map_of (oh_marks (fq_history q)) (key, f) = Some m \<and> om_order m = n \<and> om_lane m = Fast))"
proof -
  have "gateway_inv q0" using assms(2) by (simp add: assms(1) gateway_inv_def queue_inv_def fast_queue_new_def Let_def)
  from gateway.run_inv [OF this assms(3)] have inv: "gateway_inv q" by (simp add: assms(4))
  moreover have "\<exists>m. map_of (oh_marks (fq_history q)) (key, f) = Some m \<and> om_order m = n \<and> om_lane m = Fast"
    if "queued q key f = Some (v, n, t)" for key f v n t
  proof -
    from that obtain w where w: "map_of (fq_commands q) key = Some w" "field_view (fw_command w) f = Some (v, n)"
      by (auto simp: queued_def field_view_work simp del: map_of_eq_Some_iff split: option.splits)
    then have "marked (fq_history q) key w" using inv by (simp add: gateway_inv_def queue_inv_def del: map_of_eq_Some_iff)
    with w(2) show ?thesis unfolding marked_def by blast
  qed
  ultimately show ?thesis by (simp add: gateway_inv_def)
qed

section \<open>Submissions\<close>

lemma deadline_bound: "normalized_transient_deadline v = Inr d \<Longrightarrow> 0 < d \<and> d \<le> transient_deadline"
  unfolding normalized_transient_deadline_def bind_result_Inr
  by (elim exE conjE, rename_tac x, case_tac x) (auto simp: transient_deadline_def split: if_splits)

lemma ttl_bound:
  assumes "remaining_transient_ttl c wall = Inr ttl"
  shows "ttl \<le> transient_deadline"
proof -
  obtain d where d: "normalized_transient_deadline (map_of (cm_rest c) ''deadline_s'') = Inr d"
    using assms unfolding remaining_transient_ttl_def bind_result_Inr by blast
  note bound = deadline_bound [OF d]
  show ?thesis
  proof (cases "map_of (cm_rest c) ''created_at''")
    case None
    with assms d bound show ?thesis by (auto simp: remaining_transient_ttl_def split: if_splits)
  next
    case (Some v)
    with assms d obtain x where "(case x of
            Fin t \<Rightarrow> Inr (if valid_deadline_anchor x wall then max 0 (min d (t + d - wall)) else 0)
          | _ \<Rightarrow> Inr 0) = (Inr ttl :: exc + rat)"
      by (auto simp: remaining_transient_ttl_def bind_result_Inr simp del: valid_deadline_anchor.simps)
    with bound show ?thesis by (cases x) (auto split: if_splits)
  qed
qed

text \<open>
  Claim C16.  An accepted submission updates the queue field by field: exactly the fields whose order is above what the history
  knows take the new value, with a life of at most thirty seconds, every other field of every key keeps its value, and the answer
  says superseded exactly if no field was newer.
\<close>

theorem submission_updates_newer_fields:
  assumes "queue_inv q" "ordered_fields c" "enqueue env wall clk c q = (Inr r, q')" "er_accepted r"
  shows "\<exists>ttl. 0 < ttl \<and> ttl \<le> transient_deadline \<and> queued q' = submitted q c clk ttl
    \<and> (er_reason r = ''superseded'' \<longleftrightarrow> (\<forall>f. \<not> newer_fields q c clk f))"
  using enqueue_cases [OF assms(3)]
proof (elim disjE exE conjE)
  fix ttl r'
  assume "command_key c \<noteq> ''''" "remaining_transient_ttl c wall = Inr ttl" "0 < ttl"
    "enqueue_claimed env wall clk c ttl q = (Inr r', q')" "Inr r = Inr r'"
  with enqueue_claimed_refines(2,3) [OF assms(1,2), of env wall clk ttl r' q'] assms(4) ttl_bound show ?thesis
    by (intro exI [of _ ttl]) (auto simp: fun_eq_iff)
qed (use assms(4) in auto)

section \<open>Draining\<close>


text \<open>
  Claim C18.  What the queue hands out is live and the most urgent: the work holds exactly the unexpired fields of one key, leaves the
  table with them, its retry time has come, and no other ready work has a better priority, retry class or retry time.
\<close>

theorem handed_out_work_is_live:
  assumes "queue_inv q" "pop_next now q = (Some w, q')"
  shows "\<exists>key. (\<forall>f. work_view w f = unexpired now (queued q key f)) \<and> (\<exists>f. work_view w f \<noteq> None)
    \<and> (\<forall>p\<in>set (fw_expires w). now < snd p) \<and> fw_retry w \<le> now
    \<and> (\<forall>k f. queued q' k f = (if k = key then None else unexpired now (queued q k f)))
    \<and> (\<forall>k x. map_of (fq_commands q') k = Some x \<and> fw_retry x \<le> now \<longrightarrow> fast_work_priority now w \<le> fast_work_priority now x)"
proof -
  obtain key where look: "map_of (fq_commands (prune_expired now q)) key = Some w" and w: "work_ok key w" "fw_retry w \<le> now"
    and q': "q' = (prune_expired now q)\<lparr>fq_commands := AList.delete key (fq_commands (prune_expired now q))\<rparr>"
    and best: "\<forall>k x. map_of (fq_commands (prune_expired now q)) k = Some x \<and> fw_retry x \<le> now \<longrightarrow> fast_work_priority now w \<le> fast_work_priority now x"
    by (rule pop_some [OF assms])
  obtain w0 where w0: "map_of (fq_commands q) key = Some w0" "kept_work now w0 = Some w"
    using look by (auto simp: prune_lookup(4) [OF assms(1)] simp del: map_of_eq_Some_iff split: option.splits)
  then have "work_ok key w0" using assms(1) by (simp add: queue_inv_def del: map_of_eq_Some_iff)
  note live = kept_live(1) [OF w0(2) this]
  have "work_view w f = unexpired now (queued q key f)" for f
    using queued_prune [OF assms(1), of now key f] look by (simp add: queued_def)
  moreover have "queued q' k f = (if k = key then None else unexpired now (queued q k f))" for k f
    using queued_prune [OF assms(1), of now k f] by (simp add: q' queued_def od_lookup_delete)
  moreover have "\<exists>f. work_view w f \<noteq> None"
  proof -
    obtain f where "field_view (fw_command w) f \<noteq> None" using w(1) unfolding work_ok_def by blast
    then have "work_view w f \<noteq> None" by (auto simp: work_view_def)
    then show ?thesis ..
  qed
  moreover have "fast_work_priority now w \<le> fast_work_priority now x" if "map_of (fq_commands q') k = Some x" "fw_retry x \<le> now" for k x
    using that best by (auto simp: q' od_lookup_delete simp del: map_of_eq_Some_iff split: if_splits)
  ultimately show ?thesis using live w(2) by blast
qed

section \<open>Fallbacks\<close>

text \<open>
  Claim C19.  A durable fallback never overtakes volatile work: when one is let through and applied, each field it carries is a field
  of the original command, is newer than what the queue held for it and leaves the queue, and every other queued value
  stays; nothing is lost on the way, and no step of it raises.
\<close>

theorem fallback_never_overtakes:
  assumes "queue_inv q" "ordered_fields c" "prepare_durable now c q = (Inr (Some c'), q1)"
    and "record_durable_outcome io c' ''applied'' now2 q1 = (x, q2)"
  shows "x = Inr () \<and> (\<forall>k f. queued q2 k f = (if k = command_key c \<and> field_view c' f \<noteq> None then None else queued q1 k f))
    \<and> (\<forall>f v d. field_view c' f = Some (v, d) \<longrightarrow> field_view c f = Some (v, d)
        \<and> (\<forall>v' n t. queued q1 (command_key c) f = Some (v', n, t) \<longrightarrow> n < d))"
proof -
  obtain q0 where c': "ordered_fields c'" "command_key c' = command_key c"
    "\<And>f v n. field_view c' f = Some (v, n) \<Longrightarrow> field_view c f = Some (v, n)"
    "\<And>f v d v' n t. field_view c' f = Some (v, d) \<Longrightarrow> queued q1 (command_key c) f = Some (v', n, t) \<Longrightarrow> n < d"
    using prepare_durable_cases [OF assms(1-3)] by metis
  have "queue_inv q1" using prepare_durable_keeps(4) [OF assms(1), of now c] assms(3) by simp
  from record_durable_keeps [OF this c'(1), of io "''applied''" now2] assms(4)
  have r: "x = Inr ()" "queued q2 = without_fields (command_key c) (map fst (publication_field_orders c')) q1"
    by (simp_all add: c'(2))
  have "f \<in> set (map fst (publication_field_orders c')) \<longleftrightarrow> field_view c' f \<noteq> None" for f
    by (simp only: field_orders_keys view_dom set_map not_not)
  then have "queued q2 k f = (if k = command_key c \<and> field_view c' f \<noteq> None then None else queued q1 k f)" for k f
    unfolding r(2) without_fields_def by simp
  with r(1) c'(3,4) show ?thesis by blast
qed

section \<open>Commands of an issuer\<close>

lemma set_issued_orders:
  assumes "cm_fields c = Some fs" "od_ok fs" and that: "map fst (publication_field_orders c1) = map fst fs"
  shows "publication_field_orders (c\<lparr>cm_order := Some (PInt k), cm_orders := Some (map (\<lambda>(f, n). (f, PInt n)) (publication_field_orders c1))\<rparr>)
      = map (\<lambda>(f, n). (f, if 0 < n then n else max 0 k)) (publication_field_orders c1)"
proof -
  let ?os = "publication_field_orders c1"
  have ok: "od_ok ?os" using assms(2) that by simp
  have look: "map_of (map (\<lambda>(f, n). (f, PInt n)) ?os) f = map_option PInt (map_of ?os f)" for f
    by (simp add: map_of_map)
  have "map (\<lambda>(f, _). (f, let n = positive_integer (map_of (map (\<lambda>(f, n). (f, PInt n)) ?os) f)
      in if n \<noteq> 0 then n else max 0 k)) fs = map (\<lambda>f. (f, let n = positive_integer (map_of (map (\<lambda>(f, n). (f, PInt n)) ?os) f)
      in if n \<noteq> 0 then n else max 0 k)) (map fst fs)" by (simp add: comp_def case_prod_unfold)
  also have "\<dots> = map (\<lambda>p. (fst p, let n = positive_integer (map_of (map (\<lambda>(f, n). (f, PInt n)) ?os) (fst p))
      in if n \<noteq> 0 then n else max 0 k)) ?os" unfolding that [symmetric] by (simp add: comp_def)
  also have "\<dots> = map (\<lambda>(f, n). (f, if 0 < n then n else max 0 k)) ?os"
  proof (rule map_cong [OF refl])
    fix p assume p: "p \<in> set ?os"
    with ok have "map_of ?os (fst p) = Some (snd p)" by (cases p) (simp add: map_of_is_SomeI)
    then show "(fst p, let n = positive_integer (map_of (map (\<lambda>(f, n). (f, PInt n)) ?os) (fst p)) in if n \<noteq> 0 then n else max 0 k)
        = (case p of (f, n) \<Rightarrow> (f, if 0 < n then n else max 0 k))"
      by (simp only: look) (auto simp: case_prod_unfold Let_def max_def)
  qed
  finally show ?thesis using assms(1) by (simp add: publication_field_orders_def publication_order_def Let_def)
qed

lemma publication_order_nonneg: "0 \<le> publication_order c"
  by (cases "cm_order c" rule: positive_integer.cases) (simp_all add: publication_order_def)

lemma field_orders_positive:
  assumes "0 < publication_order c" "p \<in> set (publication_field_orders c)"
  shows "0 < snd p"
proof -
  have "0 < (let n = positive_integer v in if n \<noteq> 0 then n else publication_order c)" for v
    using assms(1) by (cases v rule: positive_integer.cases) (auto simp: Let_def)
  with assms show ?thesis by (auto simp: publication_field_orders_def Let_def split: option.splits)
qed

text \<open>
  What an issuer sends is what the queue relies on: a command with a coalesce key leaves it with a positive order for
  every one of its fields, with its fields unchanged, and the sequence has seen all of these orders.
\<close>

theorem issued_commands_are_ordered:
  assumes "ordered_command t q c = (c', q')" "command_key c \<noteq> ''''" "cm_fields c = Some fs" "od_ok fs" "fs \<noteq> []" "0 \<le> os_last q"
  shows "ordered_fields c' \<and> cm_fields c' = Some fs \<and> (\<forall>p\<in>set (publication_field_orders c'). snd p \<le> os_last q')"
proof -
  obtain ord q1 c1 where c1: "(if publication_order c \<noteq> 0 then (publication_order c, remember_order (publication_order c) q, c)
      else case next_order t q of (n, q1) \<Rightarrow> (n, q1, c\<lparr>cm_order := Some (PInt n)\<rparr>)) = (ord, q1, c1)"
    using prod_cases3 by blast
  obtain n qn where n: "next_order t q = (n, qn)" by (cases "next_order t q")
  have ord: "0 < ord" "cm_fields c1 = Some fs"
    using c1 n next_order_above(1) [OF n] assms(3,6) publication_order_nonneg [of c] by (auto split: if_splits)
  let ?c2 = "c1\<lparr>cm_order := Some (PInt ord)\<rparr>" and ?os = "publication_field_orders (c1\<lparr>cm_order := Some (PInt ord)\<rparr>)"
  have keys: "map fst ?os = map fst fs" using field_orders_keys [of ?c2] ord(2) by (simp add: publication_fields_def)
  then have "?os \<noteq> []" using assms(5) by auto
  have pos: "0 < snd p" if "p \<in> set ?os" for p
    using field_orders_positive [OF _ that] ord(1) by (simp add: publication_order_def)
  let ?k = "max ord (Max (snd ` set ?os))"
  have c': "c' = c1\<lparr>cm_order := Some (PInt ?k), cm_orders := Some (map (\<lambda>(f, n). (f, PInt n)) ?os)\<rparr>"
    and q': "q' = remember_order (Max (snd ` set ?os)) q1"
    using assms(1,2) \<open>?os \<noteq> []\<close> by (simp_all add: ordered_command_def c1 Let_def)
  have os': "publication_field_orders c' = ?os"
    using set_issued_orders [OF ord(2) assms(4) keys, of ?k] pos unfolding c' by (auto simp: case_prod_unfold intro!: map_idI)
  have "od_ok (publication_fields (Some c'))" using assms(4) ord(2) by (simp add: c' publication_fields_def)
  moreover have "snd p \<le> os_last q'" if "p \<in> set ?os" for p
    using that by (auto simp: q' remember_order_def le_max_iff_disj intro: Max_ge)
  ultimately show ?thesis using pos ord(2) by (simp add: ordered_fields_def os') (simp add: c')
qed

section \<open>A queue with one publication\<close>

definition demo_env :: queue_env where
  "demo_env = \<lparr>qe_body = \<lambda>_. Some 100, qe_digest = id, qe_float_text = \<lambda>_. ''0.0''\<rparr>"

definition power_command :: "int \<Rightarrow> pyval \<Rightarrow> pub_command" where
  "power_command n v = \<lparr>cm_key = Some (PStr ''evcs''), cm_fields = Some [(''power'', v)], cm_order = Some (PInt n),
     cm_orders = None, cm_rest = [(''kind'', PStr ''publish_evcs_fields''), (''publication_priority'', PStr ''live''),
       (''priority'', PStr ''publish'')]\<rparr>"

definition demo_start :: fast_queue where
  "demo_start = fast_queue_new no_io 2 None 60 0 \<lparr>dk_base = None, dk_journal = None\<rparr>"

definition demo_queue :: fast_queue where
  "demo_queue = gateway_step demo_start (Submit demo_env 1000 10 (power_command 5 (PInt 7)))"

lemma power_command_ordered: "0 < n \<Longrightarrow> ordered_fields (power_command n v)"
  by (simp add: ordered_fields_def publication_fields_def publication_field_orders_def publication_order_def power_command_def)

lemma demo_start_inv: "gateway_inv demo_start"
  by (simp add: demo_start_def gateway_inv_def queue_inv_def fast_queue_new_def order_inv_def order_history_new_def load_marks_def no_io_def)

lemma demo_queue_inv: "gateway_inv demo_queue"
  unfolding demo_queue_def by (rule gateway_step_inv [OF demo_start_inv]) (simp add: power_command_ordered)

theorem issued_commands_are_ordered_witness:
  "ordered_fields (fst (ordered_command 3 (order_sequence_new 7) (power_command 0 (PInt 1))))"
proof -
  obtain c q where c: "ordered_command 3 (order_sequence_new 7) (power_command 0 (PInt 1)) = (c, q)" by fastforce
  have "command_key (power_command 0 (PInt 1)) \<noteq> ''''" by code_simp
  from issued_commands_are_ordered [OF c this, of "[(''power'', PInt 1)]"] c show ?thesis
    by (simp add: power_command_def order_sequence_new_def)
qed

theorem fast_queue_stays_consistent_witness:
  "\<exists>m. map_of (oh_marks (fq_history demo_queue)) (''evcs'', ''power'') = Some m \<and> om_order m = 5 \<and> om_lane m = Fast"
proof -
  have "order_inv (fq_history demo_start)" using demo_start_inv by (simp add: gateway_inv_def queue_inv_def)
  moreover have "demo_queue = foldl gateway_step demo_start [Submit demo_env 1000 10 (power_command 5 (PInt 7))]"
    by (simp add: demo_queue_def)
  moreover have "queued demo_queue ''evcs'' ''power'' = Some (PInt 7, 5, 40)" by code_simp
  ultimately show ?thesis
    using fast_queue_stays_consistent [OF demo_start_def, of "[Submit demo_env 1000 10 (power_command 5 (PInt 7))]" demo_queue]
    by (simp add: power_command_ordered)
qed

theorem submission_updates_newer_fields_witness:
  "\<exists>ttl. 0 < ttl \<and> ttl \<le> transient_deadline
    \<and> queued (snd (enqueue demo_env 1001 11 (power_command 6 (PInt 8)) demo_queue)) = submitted demo_queue (power_command 6 (PInt 8)) 11 ttl"
proof -
  have "(case fst (enqueue demo_env 1001 11 (power_command 6 (PInt 8)) demo_queue) of Inr r \<Rightarrow> er_accepted r | Inl _ \<Rightarrow> False)" by code_simp
  then obtain r q' where "enqueue demo_env 1001 11 (power_command 6 (PInt 8)) demo_queue = (Inr r, q')" "er_accepted r"
    by (cases "enqueue demo_env 1001 11 (power_command 6 (PInt 8)) demo_queue") (auto split: sum.splits)
  from submission_updates_newer_fields [OF _ _ this] demo_queue_inv this(1) show ?thesis
    by (auto simp: gateway_inv_def power_command_ordered)
qed


theorem handed_out_work_is_live_witness:
  "\<exists>w. fst (pop_next 12 demo_queue) = Some w \<and> (\<forall>p\<in>set (fw_expires w). 12 < snd p)"
proof -
  have "fst (pop_next 12 demo_queue) \<noteq> None" by code_simp
  then obtain w q' where p: "pop_next 12 demo_queue = (Some w, q')" by (cases "pop_next 12 demo_queue") auto
  from handed_out_work_is_live [OF _ p] demo_queue_inv p show ?thesis by (auto simp: gateway_inv_def)
qed

theorem fallback_never_overtakes_witness:
  "\<exists>c' q1. prepare_durable 12 (power_command 9 (PInt 1)) demo_queue = (Inr (Some c'), q1)
    \<and> fst (record_durable_outcome no_io c' ''applied'' 13 q1) = Inr ()"
proof -
  have "(case fst (prepare_durable 12 (power_command 9 (PInt 1)) demo_queue) of Inr (Some c) \<Rightarrow> True | _ \<Rightarrow> False)" by code_simp
  then obtain c' q1 where p: "prepare_durable 12 (power_command 9 (PInt 1)) demo_queue = (Inr (Some c'), q1)"
    by (cases "prepare_durable 12 (power_command 9 (PInt 1)) demo_queue") (auto split: sum.splits option.splits)
  obtain x q2 where r: "record_durable_outcome no_io c' ''applied'' 13 q1 = (x, q2)" by (cases "record_durable_outcome no_io c' ''applied'' 13 q1")
  have "queue_inv demo_queue" using demo_queue_inv by (simp add: gateway_inv_def)
  from fallback_never_overtakes [OF this power_command_ordered p r] p r show ?thesis by simp
qed

end
