(* ===== verification/Modbus_Codec.thy ===== *)
theory Modbus_Codec
  imports Py_Values "HOL-Library.Word"
begin

unbundle bit_operations_syntax

text \<open>
  The register codec of \<open>backend/modbus_client.py\<close>: Python integers and floats to and from the
  16-bit registers a Modbus device holds.  Bytes are \<open>8 word\<close>, the bit pattern of a binary32 is a
  \<open>32 word\<close>; registers stay Python integers, as in the code, so that the range checks of
  \<open>int.to_bytes\<close> are branches of the model.

  \<open>struct.pack('>f')\<close> is rounding to the nearest binary32, ties to even, with \<open>OverflowError\<close> for
  a finite value that rounds to an infinity.  The rationals have no negative zero, so the pattern
  with only the sign bit set decodes to 0, and every NaN pattern decodes to the one NaN.
\<close>

section \<open>Bytes\<close>

type_synonym byte = "8 word"

text \<open>\<open>int.to_bytes\<close> and \<open>int.from_bytes\<close>, big-endian.\<close>

fun be_bytes :: "nat \<Rightarrow> int \<Rightarrow> byte list" where
  "be_bytes 0 i = []"
| "be_bytes (Suc n) i = be_bytes n (i div 256) @ [word_of_int i]"

definition be_value :: "byte list \<Rightarrow> int" where
  "be_value bs = foldl (\<lambda>a b. a * 256 + uint b) 0 bs"

definition to_bytes :: "nat \<Rightarrow> int \<Rightarrow> exc + byte list" where
  "to_bytes n i = (if 0 \<le> i \<and> i < 256 ^ n then Inr (be_bytes n i) else Inl OverflowErr)"

definition to_bytes_signed :: "nat \<Rightarrow> int \<Rightarrow> exc + byte list" where
  "to_bytes_signed n i = (if - (256 ^ n) \<le> 2 * i \<and> 2 * i < 256 ^ n then Inr (be_bytes n i) else Inl OverflowErr)"

definition uint_from_bytes :: "byte list \<Rightarrow> int" where
  "uint_from_bytes bs = be_value bs"

definition int_from_bytes :: "byte list \<Rightarrow> int" where
  "int_from_bytes bs =
    (let v = be_value bs in if 256 ^ length bs \<le> 2 * v then v - 256 ^ length bs else v)"

definition u16_bytes :: "int \<Rightarrow> exc + byte list" where
  "u16_bytes v = to_bytes 2 v"

definition u32_bytes :: "int \<Rightarrow> exc + byte list" where
  "u32_bytes v = to_bytes 4 v"

definition i32_bytes :: "int \<Rightarrow> exc + byte list" where
  "i32_bytes v = to_bytes_signed 4 v"

text \<open>\<open>b''.join(_u16_bytes(register) for register in ...)\<close>: the first register out of range raises.\<close>

fun joined_u16 :: "int list \<Rightarrow> exc + byte list" where
  "joined_u16 [] = Inr []"
| "joined_u16 (r # rs) = bind_result (u16_bytes r) (\<lambda>b. bind_result (joined_u16 rs) (\<lambda>bs. Inr (b @ bs)))"

section \<open>Binary32\<close>

definition float32_value :: "32 word \<Rightarrow> pyfloat" where
  "float32_value w =
    (let e = unat (take_bit 8 (drop_bit 23 w)); m = uint (take_bit 23 w); neg = bit w 31 in
     if e = 255 then (if m = 0 then (if neg then NegInf else PosInf) else NaN)
     else let x = (of_int (if e = 0 then m else (2 ^ 23 + m) * 2 ^ (e - 1)) :: rat) / 2 ^ 149
          in Fin (if neg then - x else x))"

text \<open>
  A magnitude \<open>x\<close> in units of \<open>2 ^ -149\<close> is scaled by the least power of two that brings it below
  \<open>2 ^ 24\<close> and rounded; exponent and significand are then the quotient's digits.
\<close>

definition float32_exponent :: "rat \<Rightarrow> nat option" where
  "float32_exponent y = find (\<lambda>k. \<lfloor>y\<rfloor> < 2 ^ (24 + k)) [0..<254]"

definition float32_magnitude :: "rat \<Rightarrow> exc + int" where
  "float32_magnitude x =
    (let y = x * 2 ^ 149 in
     case float32_exponent y of
       None \<Rightarrow> Inl OverflowErr
     | Some k \<Rightarrow>
         let bits = int k * 2 ^ 23 + round_half_even (y / 2 ^ k)
         in if 255 * 2 ^ 23 \<le> bits then Inl OverflowErr else Inr bits)"

fun float32_bits :: "pyfloat \<Rightarrow> exc + 32 word" where
  "float32_bits PosInf = Inr 0x7F800000"
| "float32_bits NegInf = Inr 0xFF800000"
| "float32_bits NaN = Inr 0x7FC00000"
| "float32_bits (Fin x) =
    bind_result (float32_magnitude \<bar>x\<bar>)
      (\<lambda>bits. Inr (if x < 0 then word_of_int (2 ^ 31 + bits) else word_of_int bits))"

text \<open>\<open>struct.pack('>f', x)\<close> and \<open>struct.unpack('>f', payload)\<close>; \<open>struct.error\<close> is \<open>OtherExc\<close>.\<close>

definition pack_float32 :: "pyfloat \<Rightarrow> exc + byte list" where
  "pack_float32 x = bind_result (float32_bits x) (\<lambda>w. Inr (be_bytes 4 (uint w)))"

definition unpack_float32 :: "byte list \<Rightarrow> exc + pyfloat" where
  "unpack_float32 bs =
    (if length bs \<noteq> 4 then Inl OtherExc else Inr (float32_value (word_of_int (be_value bs))))"

section \<open>Scalars\<close>

text \<open>\<open>float | int | bool\<close>, with Python's conversions.\<close>

datatype scalar = SBool bool | SInt int | SFloat pyfloat

fun scalar_bool :: "scalar \<Rightarrow> bool" where
  "scalar_bool (SBool b) = b"
| "scalar_bool (SInt i) = (i \<noteq> 0)"
| "scalar_bool (SFloat x) = (x \<noteq> Fin 0)"

fun scalar_int :: "scalar \<Rightarrow> exc + int" where
  "scalar_int (SBool b) = Inr (if b then 1 else 0)"
| "scalar_int (SInt i) = Inr i"
| "scalar_int (SFloat (Fin x)) = Inr (trunc_rat x)"
| "scalar_int (SFloat NaN) = Inl ValueErr"
| "scalar_int (SFloat _) = Inl OverflowErr"

fun scalar_float :: "scalar \<Rightarrow> exc + pyfloat" where
  "scalar_float (SBool b) = Inr (Fin (if b then 1 else 0))"
| "scalar_float (SInt i) =
    (case float_of_rat (of_int i) of Fin x \<Rightarrow> Inr (Fin x) | _ \<Rightarrow> Inl OverflowErr)"
| "scalar_float (SFloat x) = Inr x"

section \<open>Word order\<close>

definition normalized_type :: "string \<Rightarrow> string" where
  "normalized_type t = py_lower (py_strip t)"

definition register_count :: "string \<Rightarrow> nat" where
  "register_count t = (if normalized_type t \<in> {''uint32'', ''int32'', ''float32''} then 2 else 1)"

definition normalized_word_order :: "string \<Rightarrow> exc + string" where
  "normalized_word_order w =
    (if py_strip w \<in> {''big'', ''little''} then Inr (py_strip w) else Inl ValueErr)"

definition ordered_registers :: "int list \<Rightarrow> string \<Rightarrow> int list" where
  "ordered_registers rs w = (if w \<noteq> ''little'' \<or> length rs < 2 then rs else rev rs)"

section \<open>Decoding\<close>

definition decoded_int16 :: "int \<Rightarrow> int" where
  "decoded_int16 v = (if v AND 0x8000 \<noteq> 0 then v - 0x10000 else v)"

definition register_decoder :: "string \<Rightarrow> (int list \<Rightarrow> byte list \<Rightarrow> exc + scalar) option" where
  "register_decoder t = map_of [
     (''bool'', \<lambda>rs _. Inr (SBool (hd rs \<noteq> 0))),
     (''uint16'', \<lambda>rs _. Inr (SInt (hd rs))),
     (''int16'', \<lambda>rs _. Inr (SInt (decoded_int16 (hd rs)))),
     (''uint32'', \<lambda>_ bs. Inr (SInt (uint_from_bytes bs))),
     (''int32'', \<lambda>_ bs. Inr (SInt (int_from_bytes bs))),
     (''float32'', \<lambda>_ bs. bind_result (unpack_float32 bs) (\<lambda>x. Inr (SFloat x)))] t"

definition decoded_register_payload :: "int list \<Rightarrow> byte list \<Rightarrow> string \<Rightarrow> exc + scalar" where
  "decoded_register_payload ordered payload t =
    (case register_decoder t of None \<Rightarrow> Inl ValueErr | Some d \<Rightarrow> d ordered payload)"

definition decode_register_value :: "int list \<Rightarrow> string \<Rightarrow> string \<Rightarrow> exc + scalar" where
  "decode_register_value registers data_type word_order =
    bind_result (normalized_word_order word_order) (\<lambda>w.
      let ordered = ordered_registers registers w in
      if ordered = [] then Inl ValueErr
      else bind_result (joined_u16 ordered) (\<lambda>payload.
        decoded_register_payload ordered payload (normalized_type data_type)))"

section \<open>Encoding\<close>

definition payload_registers :: "byte list \<Rightarrow> exc + int list" where
  "payload_registers bs =
    (if length bs \<noteq> 4 then Inl ValueErr
     else Inr [uint_from_bytes (take 2 bs), uint_from_bytes (drop 2 bs)])"

definition encode_bool_register :: "scalar \<Rightarrow> exc + int list" where
  "encode_bool_register v = Inr [if scalar_bool v then 1 else 0]"

definition encode_16bit_register :: "scalar \<Rightarrow> exc + int list" where
  "encode_16bit_register v = bind_result (scalar_int v) (\<lambda>i. Inr [i AND 0xFFFF])"

definition encode_uint32_register :: "scalar \<Rightarrow> exc + int list" where
  "encode_uint32_register v =
    bind_result (scalar_int v) (\<lambda>i. bind_result (u32_bytes i) payload_registers)"

definition encode_int32_register :: "scalar \<Rightarrow> exc + int list" where
  "encode_int32_register v =
    bind_result (scalar_int v) (\<lambda>i. bind_result (i32_bytes i) payload_registers)"

definition encode_float32_register :: "scalar \<Rightarrow> exc + int list" where
  "encode_float32_register v =
    bind_result (scalar_float v) (\<lambda>x. bind_result (pack_float32 x) payload_registers)"

definition register_encoder :: "string \<Rightarrow> (scalar \<Rightarrow> exc + int list) option" where
  "register_encoder t = map_of [
     (''bool'', encode_bool_register),
     (''uint16'', encode_16bit_register),
     (''int16'', encode_16bit_register),
     (''uint32'', encode_uint32_register),
     (''int32'', encode_int32_register),
     (''float32'', encode_float32_register)] t"

definition encoded_registers :: "scalar \<Rightarrow> string \<Rightarrow> exc + int list" where
  "encoded_registers v t = (case register_encoder t of None \<Rightarrow> Inl ValueErr | Some e \<Rightarrow> e v)"

definition encode_register_value :: "scalar \<Rightarrow> string \<Rightarrow> string \<Rightarrow> exc + int list" where
  "encode_register_value v data_type word_order =
    bind_result (normalized_word_order word_order) (\<lambda>w.
      bind_result (encoded_registers v (normalized_type data_type)) (\<lambda>rs.
        Inr (if w = ''little'' then rev rs else rs)))"

end
