(* ===== verification/Modbus_Transport.thy ===== *)
theory Modbus_Transport
  imports Modbus_Codec
begin

unbundle bit_operations_syntax

text \<open>
  The Modbus transports of \<open>backend/modbus_transport.py\<close> and \<open>modbus_transport_serial.py\<close>: CRC and
  framing, the serial RTU exchange with its port owner and retries, the one-shot TCP and UDP
  exchanges.

  What the operating system does is a script the exchange consumes: the results of the stop and
  start commands, and for each attempt on the serial line an \<open>attempt_io\<close> (whether \<open>os.open\<close> and
  the terminal set-up succeed, what each \<open>os.write\<close> returns, what arrives on the line and when
  \<open>select\<close> gives up).  \<open>os.read(fd, n)\<close> hands out at most \<open>n\<close> bytes of what has arrived and
  leaves the rest.  The clock appears only through \<open>select\<close>: \<open>Quiet\<close> is the deadline passing.  A
  script that has run out is a working command, a driver that takes the whole frame and a line
  that stays quiet.
\<close>

section \<open>Errors and requests\<close>

text \<open>
  \<open>Modbus*Error\<close> of \<open>modbus_transport_errors.py\<close> and \<open>modbus_client.py\<close>, a builtin \<open>OSError\<close> with
  its \<open>errno\<close>, the builtin \<open>TimeoutError\<close>, and every other exception by its class.
\<close>

datatype modbus_error =
    TransportErr | PortBusy | PortOwnership | ModbusTimeout | BadResponse | SlaveOffline
  | ProtocolErr | DeviceErr int
  | OsErr int | SocketTimeout | Raised exc

record modbus_request =
  rq_unit :: int
  rq_function :: int
  rq_payload :: "byte list"

definition lift_exc :: "exc + 'a \<Rightarrow> modbus_error + 'a" where
  "lift_exc r = (case r of Inl e \<Rightarrow> Inl (Raised e) | Inr a \<Rightarrow> Inr a)"

text \<open>\<open>bytes((a, b, ...))\<close>.\<close>

definition byte_of :: "int \<Rightarrow> exc + byte" where
  "byte_of i = (if 0 \<le> i \<and> i < 256 then Inr (word_of_int i) else Inl ValueErr)"

fun bytes_of :: "int list \<Rightarrow> exc + byte list" where
  "bytes_of [] = Inr []"
| "bytes_of (i # is) = bind_result (byte_of i) (\<lambda>b. bind_result (bytes_of is) (\<lambda>bs. Inr (b # bs)))"

section \<open>RTU frames\<close>

definition crc_shift :: "int \<Rightarrow> int" where
  "crc_shift crc = (if crc AND 1 \<noteq> 0 then drop_bit 1 crc XOR 0xA001 else drop_bit 1 crc)"

definition crc_byte :: "int \<Rightarrow> byte \<Rightarrow> int" where
  "crc_byte crc b = (crc_shift ^^ 8) (crc XOR uint b)"

definition modbus_crc :: "byte list \<Rightarrow> int" where
  "modbus_crc frame = foldl crc_byte 0xFFFF frame AND 0xFFFF"

definition crc_frame :: "byte list \<Rightarrow> byte list" where
  "crc_frame frame =
    (let crc = modbus_crc frame in frame @ [word_of_int (crc AND 0xFF), word_of_int (drop_bit 8 crc AND 0xFF)])"

definition expected_rtu_response_length :: "int \<Rightarrow> byte list \<Rightarrow> exc + nat" where
  "expected_rtu_response_length function_code header =
    (if length header < 3 then Inl ValueErr
     else if uint (header ! 1) AND 0x80 \<noteq> 0 then Inr 5
     else if function_code \<in> {0x01, 0x02, 0x03, 0x04} then Inr (3 + unat (header ! 2) + 2)
     else if function_code \<in> {0x05, 0x06, 0x0F, 0x10} then Inr 8
     else Inl ValueErr)"

section \<open>The serial line\<close>

datatype line_event = Quiet | Arrived "byte list" | LineError int

datatype write_result = Wrote int | WriteError int

record attempt_io =
  io_open :: "int option"
  io_setup :: "exc option"
  io_writes :: "write_result list"
  io_line :: "line_event list"

definition quiet_attempt :: attempt_io where
  "quiet_attempt = \<lparr> io_open = None, io_setup = None, io_writes = [], io_line = [] \<rparr>"

text \<open>\<open>_read_exact\<close>: read until the wanted number of bytes are there; an empty read is a closed line.\<close>

fun read_more :: "byte list \<Rightarrow> nat \<Rightarrow> line_event list \<Rightarrow> (modbus_error + byte list) \<times> line_event list" where
  "read_more chunks wanted [] = (if wanted \<le> length chunks then (Inr chunks, []) else (Inl ModbusTimeout, []))"
| "read_more chunks wanted (ev # line) =
    (if wanted \<le> length chunks then (Inr chunks, ev # line)
     else case ev of
       Quiet \<Rightarrow> (Inl ModbusTimeout, line)
     | LineError n \<Rightarrow> (Inl (OsErr n), line)
     | Arrived c \<Rightarrow>
         if c = [] then (Inl ModbusTimeout, line)
         else let n = wanted - length chunks in
           if length c \<le> n then read_more (chunks @ c) wanted line
           else (Inr (chunks @ take n c), Arrived (drop n c) # line))"

definition read_exact :: "nat \<Rightarrow> line_event list \<Rightarrow> (modbus_error + byte list) \<times> line_event list" where
  "read_exact wanted line = read_more [] wanted line"

definition positive_serial_write_count :: "int \<Rightarrow> modbus_error + nat" where
  "positive_serial_write_count written = (if written \<le> 0 then Inl PortBusy else Inr (nat written))"

text \<open>\<open>_write_all\<close>, for a frame with so many bytes left to write.\<close>

fun write_all :: "nat \<Rightarrow> write_result list \<Rightarrow> modbus_error + unit" where
  "write_all remaining [] = Inr ()"
| "write_all remaining (r # rs) =
    (if remaining = 0 then Inr ()
     else case r of
       WriteError n \<Rightarrow> Inl (OsErr n)
     | Wrote w \<Rightarrow> bind_result (positive_serial_write_count w) (\<lambda>n. write_all (remaining - n) rs))"

definition rtu_frame :: "modbus_request \<Rightarrow> exc + byte list" where
  "rtu_frame rq = bind_result (bytes_of [rq_unit rq, rq_function rq]) (\<lambda>head. Inr (crc_frame (head @ rq_payload rq)))"

text \<open>The reply as read from the line, and the check of its CRC.\<close>

definition read_reply :: "int \<Rightarrow> line_event list \<Rightarrow> modbus_error + byte list" where
  "read_reply function_code line =
    (case read_exact 3 line of
       (Inl e, _) \<Rightarrow> Inl e
     | (Inr header, line1) \<Rightarrow>
         bind_result (lift_exc (expected_rtu_response_length function_code header)) (\<lambda>total.
           case read_exact (total - length header) line1 of
             (Inl e, _) \<Rightarrow> Inl e
           | (Inr tail, _) \<Rightarrow> Inr (header @ tail)))"

definition checked_reply :: "byte list \<Rightarrow> modbus_error + byte list" where
  "checked_reply response =
    (if length response < 5 then Inl ModbusTimeout
     else let payload = take (length response - 2) response;
              received = uint (response ! (length response - 2)) OR push_bit 8 (uint (response ! (length response - 1)))
          in if received \<noteq> modbus_crc payload then Inl BadResponse else Inr (drop 1 payload))"

definition exchange_once :: "modbus_request \<Rightarrow> attempt_io \<Rightarrow> modbus_error + byte list" where
  "exchange_once rq io =
    bind_result (lift_exc (rtu_frame rq)) (\<lambda>frame.
      case io_open io of
        Some n \<Rightarrow> Inl (OsErr n)
      | None \<Rightarrow> (case io_setup io of
          Some e \<Rightarrow> Inl (Raised e)
        | None \<Rightarrow> bind_result (write_all (length frame) (io_writes io)) (\<lambda>_.
            bind_result (read_reply (rq_function rq) (io_line io)) checked_reply)))"

section \<open>The port owner\<close>

datatype command_result = Exited int | NotFound

record port_owner =
  po_stop :: string
  po_start :: "string option"
  po_owned :: bool
  po_release_registered :: bool

datatype serial_event = Ran string | Opened | Slept rat

record serial_world =
  sw_owner :: "port_owner option"
  sw_commands :: "command_result list"
  sw_attempts :: "attempt_io list"
  sw_log :: "serial_event list"

definition log_serial :: "serial_event \<Rightarrow> serial_world \<Rightarrow> serial_world" where
  "log_serial e w = w\<lparr> sw_log := sw_log w @ [e] \<rparr>"

definition set_owner :: "port_owner \<Rightarrow> serial_world \<Rightarrow> serial_world" where
  "set_owner p w = w\<lparr> sw_owner := Some p \<rparr>"

definition run_command :: "string \<Rightarrow> serial_world \<Rightarrow> (modbus_error + unit) \<times> serial_world" where
  "run_command cmd w =
    (let w' = log_serial (Ran cmd) (w\<lparr> sw_commands := tl (sw_commands w) \<rparr>) in
     case sw_commands w of
       [] \<Rightarrow> (Inr (), w')
     | Exited n # _ \<Rightarrow> (if n = 0 then Inr () else Inl PortOwnership, w')
     | NotFound # _ \<Rightarrow> (Inl PortOwnership, w'))"

definition ensure_owned :: "port_owner \<Rightarrow> serial_world \<Rightarrow> (modbus_error + unit) \<times> serial_world" where
  "ensure_owned p w =
    (if po_owned p then (Inr (), w)
     else case run_command (po_stop p) w of
       (Inl e, w') \<Rightarrow> (Inl e, w')
     | (Inr _, w') \<Rightarrow>
         (Inr (), set_owner (p\<lparr> po_owned := True,
            po_release_registered := po_release_registered p \<or> po_start p \<noteq> None \<rparr>) w'))"

definition recover_owner :: "port_owner \<Rightarrow> serial_world \<Rightarrow> (modbus_error + unit) \<times> serial_world" where
  "recover_owner p w = (if po_owned p then run_command (po_stop p) w else (Inr (), w))"

definition release_owner :: "port_owner \<Rightarrow> serial_world \<Rightarrow> serial_world" where
  "release_owner p w =
    (if \<not> po_owned p then w
     else case po_start p of
       None \<Rightarrow> w
     | Some cmd \<Rightarrow> (case run_command cmd w of
         (Inl _, w') \<Rightarrow> w'
       | (Inr _, w') \<Rightarrow> set_owner (p\<lparr> po_owned := False \<rparr>) w'))"

section \<open>Serial exchange with retries\<close>

text \<open>\<open>errno.EPERM\<close>, \<open>EACCES\<close> and \<open>EBUSY\<close> on Linux.\<close>

definition normalized_serial_os_error :: "int \<Rightarrow> modbus_error" where
  "normalized_serial_os_error n = (if n \<in> {16, 13, 1} then PortBusy else TransportErr)"

text \<open>
  \<open>_exchange_attempt\<close>: the outer exception is one that ends the exchange, the inner one is a
  failure that may be retried.
\<close>

definition classified_attempt :: "modbus_error + byte list \<Rightarrow> modbus_error + (modbus_error + byte list)" where
  "classified_attempt r =
    (case r of
       Inr reply \<Rightarrow> Inr (Inr reply)
     | Inl PortBusy \<Rightarrow> Inl PortBusy
     | Inl PortOwnership \<Rightarrow> Inl PortOwnership
     | Inl ModbusTimeout \<Rightarrow> Inr (Inl ModbusTimeout)
     | Inl SlaveOffline \<Rightarrow> Inr (Inl SlaveOffline)
     | Inl BadResponse \<Rightarrow> Inr (Inl BadResponse)
     | Inl (OsErr n) \<Rightarrow> Inr (Inl (normalized_serial_os_error n))
     | Inl SocketTimeout \<Rightarrow> Inr (Inl TransportErr)
     | Inl e \<Rightarrow> Inl e)"

definition opens_device :: "modbus_request \<Rightarrow> bool" where
  "opens_device rq \<longleftrightarrow> (case rtu_frame rq of Inl _ \<Rightarrow> False | Inr _ \<Rightarrow> True)"

definition exchange_attempt ::
  "modbus_request \<Rightarrow> serial_world \<Rightarrow> (modbus_error + (modbus_error + byte list)) \<times> serial_world" where
  "exchange_attempt rq w =
    (let io = (case sw_attempts w of [] \<Rightarrow> quiet_attempt | a # _ \<Rightarrow> a);
         w' = (if opens_device rq then log_serial Opened (w\<lparr> sw_attempts := tl (sw_attempts w) \<rparr>) else w)
     in (classified_attempt (exchange_once rq io), w'))"

definition ensure_port_owned :: "serial_world \<Rightarrow> (modbus_error + unit) \<times> serial_world" where
  "ensure_port_owned w = (case sw_owner w of None \<Rightarrow> (Inr (), w) | Some p \<Rightarrow> ensure_owned p w)"

text \<open>\<open>time.sleep\<close> refuses an infinite delay.\<close>

definition recover_after_failure :: "pyfloat \<Rightarrow> serial_world \<Rightarrow> (modbus_error + unit) \<times> serial_world" where
  "recover_after_failure delay w =
    (case (case sw_owner w of None \<Rightarrow> (Inr (), w) | Some p \<Rightarrow> recover_owner p w) of
       (Inl e, w') \<Rightarrow> (Inl e, w')
     | (Inr _, w') \<Rightarrow>
         (case delay of
            Fin d \<Rightarrow> (Inr (), if 0 < d then log_serial (Slept d) w' else w')
          | PosInf \<Rightarrow> (Inl (Raised OverflowErr), w')
          | _ \<Rightarrow> (Inr (), w')))"

definition final_serial_exchange_error :: "modbus_error \<Rightarrow> modbus_error" where
  "final_serial_exchange_error e = (if e \<in> {ModbusTimeout, SlaveOffline} then SlaveOffline else e)"

definition serial_attempt_count :: "int \<Rightarrow> nat" where
  "serial_attempt_count retries = nat (max 1 (retries + 1))"

text \<open>The loop over the attempts, with so many left.  The last one is not followed by a recovery.\<close>

fun serial_attempts ::
  "pyfloat \<Rightarrow> modbus_request \<Rightarrow> nat \<Rightarrow> serial_world \<Rightarrow> (modbus_error + byte list) \<times> serial_world" where
  "serial_attempts delay rq 0 w = (Inl TransportErr, w)"
| "serial_attempts delay rq (Suc n) w =
    (case ensure_port_owned w of
       (Inl e, w1) \<Rightarrow> (Inl e, w1)
     | (Inr _, w1) \<Rightarrow>
         (case exchange_attempt rq w1 of
            (Inl e, w2) \<Rightarrow> (Inl e, w2)
          | (Inr (Inr reply), w2) \<Rightarrow> (Inr reply, w2)
          | (Inr (Inl failure), w2) \<Rightarrow>
              if n = 0 then (Inl (final_serial_exchange_error failure), w2)
              else (case recover_after_failure delay w2 of
                 (Inl e, w3) \<Rightarrow> (Inl e, w3)
               | (Inr _, w3) \<Rightarrow> serial_attempts delay rq n w3)))"

definition serial_exchange ::
  "int \<Rightarrow> pyfloat \<Rightarrow> modbus_request \<Rightarrow> serial_world \<Rightarrow> (modbus_error + byte list) \<times> serial_world" where
  "serial_exchange retries delay rq w = serial_attempts delay rq (serial_attempt_count retries) w"

section \<open>TCP and UDP\<close>

text \<open>
  What one exchange finds on the network: a failure to connect or send, or the chunks \<open>recv\<close> will
  hand out (an exhausted list is a socket time-out, an empty chunk the peer closing).  For UDP the
  first chunk is the datagram \<open>recvfrom\<close> returns.
\<close>

record net_io =
  ni_failure :: "modbus_error option"
  ni_chunks :: "byte list list"

record net_world =
  nw_transaction :: int
  nw_io :: "net_io list"
  nw_sent :: "byte list list"

fun recv_more :: "byte list \<Rightarrow> nat \<Rightarrow> byte list list \<Rightarrow> modbus_error + byte list \<times> byte list list" where
  "recv_more chunks wanted [] = (if wanted \<le> length chunks then Inr (chunks, []) else Inl SocketTimeout)"
| "recv_more chunks wanted (c # cs) =
    (if wanted \<le> length chunks then Inr (chunks, c # cs)
     else if c = [] then Inl SocketTimeout
     else let n = wanted - length chunks in
       if length c \<le> n then recv_more (chunks @ c) wanted cs
       else Inr (chunks @ take n c, drop n c # cs))"

definition recv_exact :: "nat \<Rightarrow> byte list list \<Rightarrow> modbus_error + byte list \<times> byte list list" where
  "recv_exact wanted cs = recv_more [] wanted cs"

text \<open>\<open>struct.pack('>H', v)\<close>.\<close>

definition struct_u16 :: "int \<Rightarrow> exc + byte list" where
  "struct_u16 v = (if 0 \<le> v \<and> v < 0x10000 then Inr (be_bytes 2 v) else Inl OtherExc)"

definition mbap_frame :: "int \<Rightarrow> modbus_request \<Rightarrow> exc + byte list" where
  "mbap_frame transaction rq =
    bind_result (bytes_of [rq_function rq]) (\<lambda>code.
      let pdu = code @ rq_payload rq in
      bind_result (struct_u16 transaction) (\<lambda>tid.
        bind_result (struct_u16 (int (length pdu) + 1)) (\<lambda>len.
          bind_result (bytes_of [rq_unit rq]) (\<lambda>un.
            Inr (tid @ [0, 0] @ len @ un @ pdu)))))"

definition next_transaction :: "net_world \<Rightarrow> net_world" where
  "next_transaction w = w\<lparr> nw_transaction := (nw_transaction w + 1) AND 0xFFFF \<rparr>"

definition next_io :: "net_world \<Rightarrow> net_io" where
  "next_io w = (case nw_io w of [] \<Rightarrow> \<lparr> ni_failure = None, ni_chunks = [] \<rparr> | io # _ \<Rightarrow> io)"

definition sent_frame :: "byte list \<Rightarrow> net_world \<Rightarrow> net_world" where
  "sent_frame frame w =
    w\<lparr> nw_io := tl (nw_io w),
       nw_sent := nw_sent w @ (if ni_failure (next_io w) = None then [frame] else []) \<rparr>"

definition tcp_reply :: "byte list list \<Rightarrow> modbus_error + byte list" where
  "tcp_reply chunks =
    bind_result (recv_exact 7 chunks) (\<lambda>(header, rest).
      bind_result (recv_exact (nat (uint_from_bytes (take 2 (drop 4 header)) - 1)) rest) (\<lambda>(body, _).
        Inr body))"

definition udp_reply :: "byte list list \<Rightarrow> modbus_error + byte list" where
  "udp_reply chunks =
    (case chunks of
       [] \<Rightarrow> Inl SocketTimeout
     | datagram # _ \<Rightarrow>
         let response = take 260 datagram in
         if length response < 7 then Inl SocketTimeout
         else Inr (take (nat (uint_from_bytes (take 2 (drop 4 response)) - 1)) (drop 7 response)))"

definition net_exchange ::
  "(byte list list \<Rightarrow> modbus_error + byte list) \<Rightarrow> modbus_request \<Rightarrow> net_world \<Rightarrow>
    (modbus_error + byte list) \<times> net_world" where
  "net_exchange reply rq w =
    (let w1 = next_transaction w in
     case mbap_frame (nw_transaction w1) rq of
       Inl e \<Rightarrow> (Inl (Raised e), w1)
     | Inr frame \<Rightarrow>
         (case ni_failure (next_io w1) of
            Some e \<Rightarrow> Inl e
          | None \<Rightarrow> reply (ni_chunks (next_io w1)), sent_frame frame w1))"

definition tcp_exchange :: "modbus_request \<Rightarrow> net_world \<Rightarrow> (modbus_error + byte list) \<times> net_world" where
  "tcp_exchange rq w = net_exchange tcp_reply rq w"

definition udp_exchange :: "modbus_request \<Rightarrow> net_world \<Rightarrow> (modbus_error + byte list) \<times> net_world" where
  "udp_exchange rq w = net_exchange udp_reply rq w"

end
