(* ===== verification/Modbus_Client.thy ===== *)
theory Modbus_Client
  imports Modbus_Transport
begin

unbundle bit_operations_syntax

text \<open>
  \<open>ModbusClient\<close> of \<open>backend/modbus_client.py\<close> over any transport: \<open>exchange\<close> is the transport's
  \<open>exchange\<close> method on the transport's state, and every client method returns its outcome with the
  state the transport is left in.  A \<open>ModbusProtocolError\<close> is \<open>ProtocolErr\<close>, a
  \<open>ModbusDeviceError\<close> carries the exception code it reports.
\<close>

section \<open>One transaction\<close>

type_synonym 's exchange = "modbus_request \<Rightarrow> 's \<Rightarrow> (modbus_error + byte list) \<times> 's"

definition map_outcome :: "('a \<Rightarrow> modbus_error + 'b) \<Rightarrow> (modbus_error + 'a) \<times> 's \<Rightarrow> (modbus_error + 'b) \<times> 's" where
  "map_outcome f r = (bind_result (fst r) f, snd r)"

definition checked_pdu :: "int \<Rightarrow> byte list \<Rightarrow> modbus_error + byte list" where
  "checked_pdu function_code response =
    (case response of
       [] \<Rightarrow> Inl ProtocolErr
     | f # rest \<Rightarrow>
         if uint f = function_code OR 0x80
         then Inl (DeviceErr (case rest of [] \<Rightarrow> - 1 | code # _ \<Rightarrow> uint code))
         else if uint f \<noteq> function_code then Inl ProtocolErr
         else Inr rest)"

definition response_pdu ::
  "'s exchange \<Rightarrow> int \<Rightarrow> int \<Rightarrow> byte list \<Rightarrow> 's \<Rightarrow> (modbus_error + byte list) \<times> 's" where
  "response_pdu exchange unit_id function_code payload s =
    map_outcome (checked_pdu function_code)
      (exchange \<lparr> rq_unit = unit_id, rq_function = function_code, rq_payload = payload \<rparr> s)"

text \<open>A transaction whose request payload may fail to be built, and the check of its answer.\<close>

definition transaction ::
  "'s exchange \<Rightarrow> int \<Rightarrow> int \<Rightarrow> exc + byte list \<Rightarrow> (byte list \<Rightarrow> modbus_error + 'a) \<Rightarrow> 's \<Rightarrow>
    (modbus_error + 'a) \<times> 's" where
  "transaction exchange unit_id function_code payload check s =
    (case payload of
       Inl e \<Rightarrow> (Inl (Raised e), s)
     | Inr p \<Rightarrow> map_outcome check (response_pdu exchange unit_id function_code p s))"

definition address_payload :: "int \<Rightarrow> int \<Rightarrow> exc + byte list" where
  "address_payload address n =
    bind_result (u16_bytes address) (\<lambda>a. bind_result (u16_bytes n) (\<lambda>c. Inr (a @ c)))"

text \<open>Routines over the transport's state, run one after the other until one raises.\<close>

type_synonym ('a, 's) routine = "'s \<Rightarrow> (modbus_error + 'a) \<times> 's"

definition return :: "'a \<Rightarrow> ('a, 's) routine" where
  "return a s = (Inr a, s)"

definition seq :: "('a, 's) routine \<Rightarrow> ('a \<Rightarrow> ('b, 's) routine) \<Rightarrow> ('b, 's) routine" where
  "seq m k s = (case m s of (Inl e, s') \<Rightarrow> (Inl e, s') | (Inr a, s') \<Rightarrow> k a s')"

definition checked :: "exc + 'a \<Rightarrow> ('a, 's) routine" where
  "checked r s = (lift_exc r, s)"

section \<open>Reading\<close>

definition read_bits_function :: "string \<Rightarrow> int option" where
  "read_bits_function t = map_of [(''coil'', 0x01), (''discrete'', 0x02)] t"

definition read_registers_function :: "string \<Rightarrow> int option" where
  "read_registers_function t = map_of [(''holding'', 0x03), (''input'', 0x04)] t"

fun unpacked_bits :: "byte list \<Rightarrow> nat list \<Rightarrow> exc + bool list" where
  "unpacked_bits raw [] = Inr []"
| "unpacked_bits raw (i # is) =
    (if length raw \<le> i div 8 then Inl IndexErr
     else bind_result (unpacked_bits raw is) (\<lambda>bs. Inr (bit (raw ! (i div 8)) (i mod 8) # bs)))"

definition bits_of_response :: "nat \<Rightarrow> byte list \<Rightarrow> modbus_error + bool list" where
  "bits_of_response n response =
    (case response of
       [] \<Rightarrow> Inl ProtocolErr
     | byte_count # raw \<Rightarrow>
         if length response \<noteq> 1 + unat byte_count then Inl ProtocolErr
         else lift_exc (unpacked_bits raw [0..<n]))"

definition read_bits :: "'s exchange \<Rightarrow> int \<Rightarrow> string \<Rightarrow> int \<Rightarrow> nat \<Rightarrow> 's \<Rightarrow> (modbus_error + bool list) \<times> 's" where
  "read_bits exchange unit_id register_type address n s =
    (case read_bits_function register_type of
       None \<Rightarrow> (Inl (Raised KeyError), s)
     | Some f \<Rightarrow> transaction exchange unit_id f (address_payload address (int n)) (bits_of_response n) s)"

fun register_words :: "byte list \<Rightarrow> int list" where
  "register_words (a # b # bs) = uint_from_bytes [a, b] # register_words bs"
| "register_words [a] = [uint_from_bytes [a]]"
| "register_words [] = []"

definition registers_of_response :: "nat \<Rightarrow> byte list \<Rightarrow> modbus_error + int list" where
  "registers_of_response n response =
    (case response of
       [] \<Rightarrow> Inl ProtocolErr
     | byte_count # raw \<Rightarrow>
         if length response \<noteq> 1 + unat byte_count \<or> unat byte_count \<noteq> n * 2 then Inl ProtocolErr
         else Inr (register_words raw))"

definition read_registers :: "'s exchange \<Rightarrow> int \<Rightarrow> string \<Rightarrow> int \<Rightarrow> nat \<Rightarrow> 's \<Rightarrow> (modbus_error + int list) \<times> 's" where
  "read_registers exchange unit_id register_type address n s =
    (case read_registers_function register_type of
       None \<Rightarrow> (Inl (Raised KeyError), s)
     | Some f \<Rightarrow> transaction exchange unit_id f (address_payload address (int n)) (registers_of_response n) s)"

definition scalar_of_bits :: "string \<Rightarrow> bool list \<Rightarrow> modbus_error + scalar" where
  "scalar_of_bits t bits =
    (case bits of
       [] \<Rightarrow> Inl (Raised IndexErr)
     | b # _ \<Rightarrow> Inr (if t = ''bool'' then SBool b else SInt (if b then 1 else 0)))"

definition read_scalar ::
  "'s exchange \<Rightarrow> int \<Rightarrow> string \<Rightarrow> int \<Rightarrow> string \<Rightarrow> string \<Rightarrow> 's \<Rightarrow> (modbus_error + scalar) \<times> 's" where
  "read_scalar exchange unit_id register_type address data_type word_order s =
    (let t = normalized_type data_type; rt = normalized_type register_type in
     if read_bits_function rt \<noteq> None
     then map_outcome (scalar_of_bits t) (read_bits exchange unit_id rt address 1 s)
     else map_outcome (\<lambda>rs. lift_exc (decode_register_value rs t word_order))
       (read_registers exchange unit_id rt address (register_count t) s))"

section \<open>Writing\<close>

definition four_byte_echo :: "byte list \<Rightarrow> modbus_error + unit" where
  "four_byte_echo response = (if length response \<noteq> 4 then Inl ProtocolErr else Inr ())"

definition write_single_coil :: "'s exchange \<Rightarrow> int \<Rightarrow> int \<Rightarrow> bool \<Rightarrow> 's \<Rightarrow> (modbus_error + unit) \<times> 's" where
  "write_single_coil exchange unit_id address v s =
    transaction exchange unit_id 0x05 (address_payload address (if v then 0xFF00 else 0)) four_byte_echo s"

definition write_single_register :: "'s exchange \<Rightarrow> int \<Rightarrow> int \<Rightarrow> int \<Rightarrow> 's \<Rightarrow> (modbus_error + unit) \<times> 's" where
  "write_single_register exchange unit_id address v s =
    transaction exchange unit_id 0x06 (address_payload address (v AND 0xFFFF)) four_byte_echo s"

definition write_multiple_payload :: "int \<Rightarrow> int list \<Rightarrow> exc + byte list" where
  "write_multiple_payload address values =
    (let registers = map (\<lambda>v. v AND 0xFFFF) values in
     bind_result (joined_u16 registers) (\<lambda>payload_bytes.
       bind_result (u16_bytes address) (\<lambda>a.
         bind_result (u16_bytes (int (length registers))) (\<lambda>n.
           bind_result (bytes_of [int (length payload_bytes)]) (\<lambda>byte_count.
             Inr (a @ n @ byte_count @ payload_bytes))))))"

definition write_multiple_registers ::
  "'s exchange \<Rightarrow> int \<Rightarrow> int \<Rightarrow> int list \<Rightarrow> 's \<Rightarrow> (modbus_error + unit) \<times> 's" where
  "write_multiple_registers exchange unit_id address values s =
    transaction exchange unit_id 0x10 (write_multiple_payload address values) four_byte_echo s"

section \<open>A link that delivers\<close>

text \<open>
  What the client needs of a transport: when the peer's answer reaches the transport intact, the
  exchange returns it.  \<open>delivers s rq pdu\<close> says that in state \<open>s\<close> the answer to \<open>rq\<close> is \<open>pdu\<close>.
\<close>

locale modbus_link =
  fixes exchange :: "modbus_request \<Rightarrow> 's \<Rightarrow> (modbus_error + byte list) \<times> 's"
    and delivers :: "'s \<Rightarrow> modbus_request \<Rightarrow> byte list \<Rightarrow> bool"
  assumes delivered: "delivers s rq pdu \<Longrightarrow> fst (exchange rq s) = Inr pdu"

end
