(* ===== verification/Modbus_Charger.thy ===== *)
theory Modbus_Charger
  imports Modbus_Client Phases
begin

text \<open>
  The profile-driven Modbus charger: the register fields of \<open>backend/modbus_profile_models.py\<close> and
  the backend of \<open>backend/modbus_charger.py\<close> with its caches.  A field is read and written through
  the client over any transport; the backend's own state is a record beside the transport's.
  \<open>float_text\<close> is \<open>str()\<close> of a float.  Scaling is exact, with binary64's overflow to an infinity.
\<close>

section \<open>Fields of a profile\<close>

record read_field =
  rf_register_type :: string
  rf_address :: int
  rf_data_type :: string
  rf_scale :: rat
  rf_word_order :: string
  rf_value_map :: "(int \<times> string) list option"

record enable_write =
  ew_register_type :: string
  ew_address :: int
  ew_true_value :: int
  ew_false_value :: int

record numeric_write =
  nw_register_type :: string
  nw_address :: int
  nw_data_type :: string
  nw_scale :: rat
  nw_word_order :: string

record phase_write =
  pw_register_type :: string
  pw_address :: int
  pw_data_type :: string
  pw_word_order :: string
  pw_selection_map :: "(phase \<times> int) list"

text \<open>What a field reads: a scalar, or the text its value map gives.\<close>

datatype field_value = FScalar scalar | FText string

definition scalar_text :: "(pyfloat \<Rightarrow> string) \<Rightarrow> scalar \<Rightarrow> string" where
  "scalar_text float_text v =
    (case v of SBool b \<Rightarrow> if b then ''True'' else ''False'' | SInt i \<Rightarrow> int_text i | SFloat x \<Rightarrow> float_text x)"

definition field_text :: "(pyfloat \<Rightarrow> string) \<Rightarrow> field_value \<Rightarrow> string" where
  "field_text float_text v = (case v of FScalar s \<Rightarrow> scalar_text float_text s | FText t \<Rightarrow> t)"

definition mapped_read_value :: "(int \<times> string) list \<Rightarrow> scalar \<Rightarrow> exc + field_value" where
  "mapped_read_value value_map raw =
    bind_result (scalar_int raw) (\<lambda>i.
      Inr (FText (case map_of value_map i of Some t \<Rightarrow> t | None \<Rightarrow> int_text i)))"

text \<open>Division and multiplication of floats, for a finite factor other than zero.\<close>

definition float_divided :: "pyfloat \<Rightarrow> rat \<Rightarrow> pyfloat" where
  "float_divided x s =
    (case x of
       Fin y \<Rightarrow> float_of_rat (y / s)
     | PosInf \<Rightarrow> if 0 < s then PosInf else NegInf
     | NegInf \<Rightarrow> if 0 < s then NegInf else PosInf
     | NaN \<Rightarrow> NaN)"

definition float_times :: "pyfloat \<Rightarrow> rat \<Rightarrow> pyfloat" where
  "float_times x s =
    (case x of
       Fin y \<Rightarrow> float_of_rat (y * s)
     | PosInf \<Rightarrow> if 0 < s then PosInf else NegInf
     | NegInf \<Rightarrow> if 0 < s then NegInf else PosInf
     | NaN \<Rightarrow> NaN)"

definition scaled_read_value :: "rat \<Rightarrow> scalar \<Rightarrow> exc + field_value" where
  "scaled_read_value scale raw =
    (case raw of
       SBool b \<Rightarrow> Inr (FScalar raw)
     | _ \<Rightarrow> if scale \<notin> {0, 1}
            then bind_result (scalar_float raw) (\<lambda>x. Inr (FScalar (SFloat (float_divided x scale))))
            else Inr (FScalar raw))"

definition field_value_of :: "read_field \<Rightarrow> scalar \<Rightarrow> exc + field_value" where
  "field_value_of rf raw =
    (case rf_value_map rf of
       Some m \<Rightarrow> mapped_read_value m raw
     | None \<Rightarrow> scaled_read_value (rf_scale rf) raw)"

definition read_field_value :: "'s exchange \<Rightarrow> int \<Rightarrow> read_field \<Rightarrow> (field_value, 's) routine" where
  "read_field_value exchange unit_id rf =
    seq (read_scalar exchange unit_id (rf_register_type rf) (rf_address rf) (rf_data_type rf) (rf_word_order rf))
      (\<lambda>raw. checked (field_value_of rf raw))"

section \<open>Writes\<close>

definition write_enable :: "'s exchange \<Rightarrow> int \<Rightarrow> enable_write \<Rightarrow> bool \<Rightarrow> (unit, 's) routine" where
  "write_enable exchange unit_id ew enabled =
    (let target = (if enabled then ew_true_value ew else ew_false_value ew) in
     if ew_register_type ew = ''coil'' then write_single_coil exchange unit_id (ew_address ew) (target \<noteq> 0)
     else write_single_register exchange unit_id (ew_address ew) target)"

definition write_registers :: "'s exchange \<Rightarrow> int \<Rightarrow> int \<Rightarrow> int list \<Rightarrow> (unit, 's) routine" where
  "write_registers exchange unit_id address registers =
    (if length registers = 1 then write_single_register exchange unit_id address (hd registers)
     else write_multiple_registers exchange unit_id address registers)"

text \<open>\<open>int(round(x))\<close>.\<close>

definition int_round :: "pyfloat \<Rightarrow> exc + int" where
  "int_round x =
    (case x of Fin y \<Rightarrow> Inr (round_half_even y) | NaN \<Rightarrow> Inl ValueErr | _ \<Rightarrow> Inl OverflowErr)"

definition numeric_write_registers :: "numeric_write \<Rightarrow> pyfloat \<Rightarrow> exc + int list" where
  "numeric_write_registers nw v =
    (let scaled = float_times v (if nw_scale nw = 0 then 1 else nw_scale nw) in
     if nw_data_type nw \<noteq> ''float32''
     then bind_result (int_round scaled) (\<lambda>i. encode_register_value (SInt i) (nw_data_type nw) (nw_word_order nw))
     else encode_register_value (SFloat scaled) (nw_data_type nw) (nw_word_order nw))"

definition write_numeric :: "'s exchange \<Rightarrow> int \<Rightarrow> numeric_write \<Rightarrow> pyfloat \<Rightarrow> (unit, 's) routine" where
  "write_numeric exchange unit_id nw v =
    (if nw_register_type nw \<noteq> ''holding'' then checked (Inl ValueErr)
     else seq (checked (numeric_write_registers nw v))
       (write_registers exchange unit_id (nw_address nw)))"

definition write_phase :: "'s exchange \<Rightarrow> int \<Rightarrow> phase_write \<Rightarrow> phase \<Rightarrow> (unit, 's) routine" where
  "write_phase exchange unit_id pw selection =
    (case map_of (pw_selection_map pw) selection of
       None \<Rightarrow> checked (Inl ValueErr)
     | Some raw \<Rightarrow>
         if pw_register_type pw = ''coil'' then write_single_coil exchange unit_id (pw_address pw) (raw \<noteq> 0)
         else seq (checked (encode_register_value (SInt raw) (pw_data_type pw) (pw_word_order pw)))
           (write_registers exchange unit_id (pw_address pw)))"

section \<open>The profile\<close>

record charger_profile =
  cf_supported :: "phase list"
  cf_enabled :: "read_field option"
  cf_current :: "read_field option"
  cf_phase :: "read_field option"
  cf_actual_current :: "read_field option"
  cf_power :: "read_field option"
  cf_energy :: "read_field option"
  cf_status :: "read_field option"
  cf_fault :: "read_field option"
  cf_enable_write :: "enable_write option"
  cf_current_write :: numeric_write
  cf_phase_write :: "phase_write option"
  cf_enable_uses_current :: bool
  cf_enable_default_current :: rat

record charger_state =
  ch_enabled :: "bool option"
  ch_current :: "rat option"
  ch_phase :: "phase option"
  ch_actual_current :: "rat option"
  ch_power :: "rat option"
  ch_energy :: "rat option"
  ch_status :: "string option"
  ch_fault :: "string option"

definition optional_field_value ::
  "'s exchange \<Rightarrow> int \<Rightarrow> read_field option \<Rightarrow> field_value option \<Rightarrow> (field_value option, 's) routine" where
  "optional_field_value exchange unit_id field dflt =
    (case field of
       None \<Rightarrow> return dflt
     | Some rf \<Rightarrow> seq (read_field_value exchange unit_id rf) (\<lambda>v. return (Some v)))"

text \<open>\<open>finite_float_or_none\<close>: a bool is not a number, and a text is parsed.\<close>

definition finite_field_value :: "field_value \<Rightarrow> exc + rat option" where
  "finite_field_value v =
    (case v of
       FScalar (SBool _) \<Rightarrow> Inr None
     | FScalar s \<Rightarrow> bind_result (scalar_float s) (\<lambda>x. Inr (finite_float_or_none (Some x)))
     | FText t \<Rightarrow> Inr (finite_float_or_none (float_of_text t)))"

definition optional_float_value ::
  "'s exchange \<Rightarrow> int \<Rightarrow> read_field option \<Rightarrow> rat option \<Rightarrow> (rat option, 's) routine" where
  "optional_float_value exchange unit_id field dflt =
    (case field of
       None \<Rightarrow> return dflt
     | Some rf \<Rightarrow> seq (read_field_value exchange unit_id rf) (\<lambda>v.
         seq (checked (finite_field_value v)) (\<lambda>number.
           return (case number of None \<Rightarrow> dflt | Some x \<Rightarrow> Some x))))"

definition optional_text_value ::
  "(pyfloat \<Rightarrow> string) \<Rightarrow> 's exchange \<Rightarrow> int \<Rightarrow> read_field option \<Rightarrow> (string option, 's) routine" where
  "optional_text_value float_text exchange unit_id field =
    (case field of
       None \<Rightarrow> return None
     | Some rf \<Rightarrow> seq (read_field_value exchange unit_id rf) (\<lambda>v.
         let t = py_strip (field_text float_text v) in return (if t = '''' then None else Some t)))"

text \<open>\<open>bool(value)\<close>: a text is true unless it is empty.\<close>

definition field_bool :: "field_value \<Rightarrow> bool" where
  "field_bool v = (case v of FScalar s \<Rightarrow> scalar_bool s | FText t \<Rightarrow> t \<noteq> '''')"

definition supported_phase_selection :: "charger_profile \<Rightarrow> phase \<Rightarrow> phase" where
  "supported_phase_selection pr selection =
    (if selection \<in> set (cf_supported pr) then selection else hd (cf_supported pr))"

definition resolved_phase_selection ::
  "(pyfloat \<Rightarrow> string) \<Rightarrow> 's exchange \<Rightarrow> int \<Rightarrow> charger_profile \<Rightarrow> phase \<Rightarrow> (phase, 's) routine" where
  "resolved_phase_selection float_text exchange unit_id pr cached =
    seq (optional_field_value exchange unit_id (cf_phase pr) None) (\<lambda>raw.
      return (supported_phase_selection pr
        (case raw of None \<Rightarrow> cached | Some v \<Rightarrow> normalize_phase_selection (Some (field_text float_text v)) cached)))"

definition resolved_enabled :: "charger_profile \<Rightarrow> field_value option \<Rightarrow> rat option \<Rightarrow> field_value option" where
  "resolved_enabled pr enabled current =
    (if enabled \<noteq> None \<or> \<not> cf_enable_uses_current pr then enabled
     else case current of None \<Rightarrow> enabled | Some x \<Rightarrow> Some (FScalar (SBool (0 < x))))"

definition profile_read_state ::
  "(pyfloat \<Rightarrow> string) \<Rightarrow> 's exchange \<Rightarrow> int \<Rightarrow> charger_profile \<Rightarrow> bool option \<Rightarrow> rat option \<Rightarrow> phase \<Rightarrow>
    (charger_state, 's) routine" where
  "profile_read_state float_text exchange unit_id pr cached_enabled cached_current cached_phase =
    seq (optional_field_value exchange unit_id (cf_enabled pr) (map_option (\<lambda>b. FScalar (SBool b)) cached_enabled)) (\<lambda>enabled.
    seq (optional_float_value exchange unit_id (cf_current pr) cached_current) (\<lambda>current.
    seq (resolved_phase_selection float_text exchange unit_id pr cached_phase) (\<lambda>phase.
    seq (optional_float_value exchange unit_id (cf_actual_current pr) None) (\<lambda>actual.
    seq (optional_float_value exchange unit_id (cf_power pr) None) (\<lambda>power.
    seq (optional_float_value exchange unit_id (cf_energy pr) None) (\<lambda>energy.
    seq (optional_text_value float_text exchange unit_id (cf_status pr)) (\<lambda>status.
    seq (optional_text_value float_text exchange unit_id (cf_fault pr)) (\<lambda>fault.
      return \<lparr> ch_enabled = map_option field_bool (resolved_enabled pr enabled current), ch_current = current,
               ch_phase = Some phase, ch_actual_current = actual, ch_power = power, ch_energy = energy,
               ch_status = status, ch_fault = fault \<rparr>))))))))"

definition profile_set_enabled :: "'s exchange \<Rightarrow> int \<Rightarrow> charger_profile \<Rightarrow> bool \<Rightarrow> (unit, 's) routine" where
  "profile_set_enabled exchange unit_id pr enabled =
    (case cf_enable_write pr of None \<Rightarrow> checked (Inl ValueErr) | Some ew \<Rightarrow> write_enable exchange unit_id ew enabled)"

definition profile_set_current :: "'s exchange \<Rightarrow> int \<Rightarrow> charger_profile \<Rightarrow> pyfloat \<Rightarrow> (unit, 's) routine" where
  "profile_set_current exchange unit_id pr amps = write_numeric exchange unit_id (cf_current_write pr) amps"

definition profile_set_phase_selection :: "'s exchange \<Rightarrow> int \<Rightarrow> charger_profile \<Rightarrow> phase \<Rightarrow> (unit, 's) routine" where
  "profile_set_phase_selection exchange unit_id pr selection =
    (case cf_phase_write pr of None \<Rightarrow> checked (Inl ValueErr) | Some pw \<Rightarrow> write_phase exchange unit_id pw selection)"

section \<open>The backend\<close>

record 's charger_backend =
  cb_enabled :: "bool option"
  cb_current :: "rat option"
  cb_resume :: "rat option"
  cb_phase :: phase
  cb_transport :: 's

text \<open>Run a routine of the client on the backend's transport; the caches change only when it succeeds.\<close>

definition on_transport ::
  "('a, 's) routine \<Rightarrow> ('a \<Rightarrow> 's charger_backend \<Rightarrow> 's charger_backend) \<Rightarrow> ('a, 's charger_backend) routine" where
  "on_transport m remember b =
    (case m (cb_transport b) of
       (Inl e, t) \<Rightarrow> (Inl e, b\<lparr> cb_transport := t \<rparr>)
     | (Inr a, t) \<Rightarrow> (Inr a, remember a (b\<lparr> cb_transport := t \<rparr>)))"

definition new_charger_backend :: "charger_profile \<Rightarrow> string option \<Rightarrow> 's \<Rightarrow> 's charger_backend" where
  "new_charger_backend pr requested transport =
    \<lparr> cb_enabled = None, cb_current = None, cb_resume = None,
      cb_phase = supported_phase_selection pr (normalize_phase_selection requested P1),
      cb_transport = transport \<rparr>"

definition remember_state :: "charger_profile \<Rightarrow> charger_state \<Rightarrow> 's charger_backend \<Rightarrow> 's charger_backend" where
  "remember_state pr st b =
    b\<lparr> cb_enabled := ch_enabled st, cb_current := ch_current st,
       cb_resume := (case ch_current st of Some x \<Rightarrow> if 0 < x then Some x else cb_resume b | None \<Rightarrow> cb_resume b),
       cb_phase := (case ch_phase st of Some p \<Rightarrow> supported_phase_selection pr p | None \<Rightarrow> hd (cf_supported pr)) \<rparr>"

definition backend_read_state ::
  "(pyfloat \<Rightarrow> string) \<Rightarrow> 's exchange \<Rightarrow> int \<Rightarrow> charger_profile \<Rightarrow> (charger_state, 's charger_backend) routine" where
  "backend_read_state float_text exchange unit_id pr b =
    on_transport (profile_read_state float_text exchange unit_id pr (cb_enabled b) (cb_current b) (cb_phase b))
      (remember_state pr) b"

definition remember_current :: "rat \<Rightarrow> 's charger_backend \<Rightarrow> 's charger_backend" where
  "remember_current amps b =
    b\<lparr> cb_current := Some amps, cb_resume := (if 0 < amps then Some amps else cb_resume b) \<rparr>"

definition cached_positive_current :: "rat option \<Rightarrow> rat option" where
  "cached_positive_current v = (case v of None \<Rightarrow> None | Some x \<Rightarrow> if x \<le> 0 then None else Some x)"

definition enabled_target_current :: "charger_profile \<Rightarrow> 's charger_backend \<Rightarrow> bool \<Rightarrow> rat" where
  "enabled_target_current pr b enabled =
    (if \<not> enabled then 0
     else case cached_positive_current (cb_resume b) of
       Some x \<Rightarrow> x
     | None \<Rightarrow> (case cached_positive_current (cb_current b) of
         Some x \<Rightarrow> x
       | None \<Rightarrow> cf_enable_default_current pr))"

definition backend_set_enabled ::
  "'s exchange \<Rightarrow> int \<Rightarrow> charger_profile \<Rightarrow> bool \<Rightarrow> (unit, 's charger_backend) routine" where
  "backend_set_enabled exchange unit_id pr enabled b =
    (if cf_enable_write pr = None \<and> cf_enable_uses_current pr
     then let target = enabled_target_current pr b enabled in
       on_transport (profile_set_current exchange unit_id pr (Fin target))
         (\<lambda>_ b'. remember_current target (b'\<lparr> cb_enabled := Some enabled \<rparr>)) b
     else on_transport (profile_set_enabled exchange unit_id pr enabled)
       (\<lambda>_ b'. b'\<lparr> cb_enabled := Some enabled \<rparr>) b)"

definition backend_set_current ::
  "'s exchange \<Rightarrow> int \<Rightarrow> charger_profile \<Rightarrow> rat \<Rightarrow> (unit, 's charger_backend) routine" where
  "backend_set_current exchange unit_id pr amps b =
    on_transport (profile_set_current exchange unit_id pr (Fin amps)) (\<lambda>_. remember_current amps) b"

definition backend_set_phase_selection ::
  "'s exchange \<Rightarrow> int \<Rightarrow> charger_profile \<Rightarrow> string option \<Rightarrow> (unit, 's charger_backend) routine" where
  "backend_set_phase_selection exchange unit_id pr selection b =
    (let normalized = normalize_phase_selection selection (hd (cf_supported pr)) in
     if normalized \<notin> set (cf_supported pr) then (Inl (Raised ValueErr), b)
     else on_transport (profile_set_phase_selection exchange unit_id pr normalized)
       (\<lambda>_ b'. b'\<lparr> cb_phase := normalized \<rparr>) b)"

end
