(* ===== verification/Modbus_Config.thy ===== *)
theory Modbus_Config
  imports Modbus_Transport
begin

text \<open>
  The transport settings of \<open>backend/modbus_transport_config.py\<close>, read from a parsed backend
  configuration file, and the transport they create.  A \<open>ConfigParser\<close> is its sections with their
  keys in lower case, as \<open>configparser\<close> stores them; a key missing from a section is looked up in
  \<open>DEFAULT\<close>.  Value interpolation is not modelled.
\<close>

section \<open>Configuration files\<close>

type_synonym config_section = "(string \<times> string) list"

record config_file =
  cp_default :: config_section
  cp_sections :: "(string \<times> config_section) list"

type_synonym section_proxy = "string \<Rightarrow> string option"

definition has_section :: "config_file \<Rightarrow> string \<Rightarrow> bool" where
  "has_section p name \<longleftrightarrow> name \<in> set (map fst (cp_sections p))"

definition section_get :: "config_file \<Rightarrow> string \<Rightarrow> section_proxy" where
  "section_get p name key =
    (case map_of (case map_of (cp_sections p) name of Some s \<Rightarrow> s | None \<Rightarrow> []) (py_lower key) of
       Some v \<Rightarrow> Some v
     | None \<Rightarrow> map_of (cp_default p) (py_lower key))"

text \<open>\<open>parser[name] if parser.has_section(name) else parser["DEFAULT"]\<close>; \<open>section_get\<close> falls back to
  \<open>DEFAULT\<close> for a section that does not exist, too.\<close>

definition optional_section :: "config_file \<Rightarrow> string \<Rightarrow> section_proxy option" where
  "optional_section p name = (if has_section p name then Some (section_get p name) else None)"

section \<open>Settings\<close>

datatype transport_kind = SerialRtu | Tcp | Udp

datatype parity = ParityN | ParityE | ParityO

datatype serial_owner_kind = OwnerNone | VenusSerialStarter

record transport_settings =
  ts_kind :: transport_kind
  ts_unit_id :: int
  ts_timeout :: pyfloat
  ts_host :: "string option"
  ts_port :: "int option"
  ts_device :: "string option"
  ts_baudrate :: int
  ts_bytesize :: int
  ts_parity :: parity
  ts_stopbits :: int
  ts_owner :: serial_owner_kind
  ts_stop_command :: "string option"
  ts_start_command :: "string option"
  ts_retry_count :: int
  ts_retry_delay :: pyfloat

definition text_or_default :: "string option \<Rightarrow> string \<Rightarrow> string" where
  "text_or_default v dflt =
    (case v of None \<Rightarrow> dflt | Some t \<Rightarrow> if py_strip t = '''' then dflt else py_strip t)"

definition text_or_none :: "string option \<Rightarrow> string option" where
  "text_or_none v = (case v of None \<Rightarrow> None | Some t \<Rightarrow> if py_strip t = '''' then None else Some (py_strip t))"

text \<open>\<open>str(value)\<close> of an optional configuration value.\<close>

definition optional_text :: "string option \<Rightarrow> string" where
  "optional_text v = (case v of None \<Rightarrow> ''None'' | Some t \<Rightarrow> t)"

definition normalized_transport_kind :: "string option \<Rightarrow> transport_kind" where
  "normalized_transport_kind v =
    (let t = py_lower (py_strip (optional_text v)) in
     if t \<in> {''serial'', ''rtu'', ''serial_rtu''} then SerialRtu else if t = ''udp'' then Udp else Tcp)"

definition int_text_value :: "string \<Rightarrow> exc + int" where
  "int_text_value t = (case int_of_text t of Some i \<Rightarrow> Inr i | None \<Rightarrow> Inl ValueErr)"

text \<open>\<open>int(_text_or_default(value, default))\<close> checked against a range.\<close>

definition checked_int :: "string option \<Rightarrow> string \<Rightarrow> (int \<Rightarrow> bool) \<Rightarrow> exc + int" where
  "checked_int v dflt ok =
    bind_result (int_text_value (text_or_default v dflt)) (\<lambda>i. if ok i then Inr i else Inl ValueErr)"

definition normalized_unit_id :: "string option \<Rightarrow> exc + int" where
  "normalized_unit_id v = checked_int v ''1'' (\<lambda>i. \<not> (i < 0 \<or> 247 < i))"

definition normalized_port :: "string option \<Rightarrow> exc + int" where
  "normalized_port v = checked_int v ''502'' (\<lambda>i. \<not> (i \<le> 0 \<or> 65535 < i))"

definition normalized_baudrate :: "string option \<Rightarrow> exc + int" where
  "normalized_baudrate v = checked_int v ''9600'' (\<lambda>i. \<not> i \<le> 0)"

definition normalized_bytesize :: "string option \<Rightarrow> exc + int" where
  "normalized_bytesize v = checked_int v ''8'' (\<lambda>i. i \<in> {5, 6, 7, 8})"

definition normalized_stopbits :: "string option \<Rightarrow> exc + int" where
  "normalized_stopbits v = checked_int v ''1'' (\<lambda>i. i \<in> {1, 2})"

text \<open>The timeout of a text, or of the service's default attribute; the comparison is false for a NaN.\<close>

definition normalized_timeout_seconds :: "pyval option \<Rightarrow> pyfloat \<Rightarrow> pyfloat" where
  "normalized_timeout_seconds v dflt =
    (case v of
       None \<Rightarrow> dflt
     | Some x \<Rightarrow>
         let timeout = (case py_float (PStr (py_strip (py_str x))) of Inl _ \<Rightarrow> dflt | Inr y \<Rightarrow> y)
         in if pf_le timeout (Fin 0) then dflt else timeout)"

definition normalized_device :: "string option \<Rightarrow> exc + string" where
  "normalized_device v =
    (let device = (case v of None \<Rightarrow> '''' | Some t \<Rightarrow> py_strip t) in
     if device = '''' then Inl ValueErr else Inr device)"

definition normalized_parity :: "string option \<Rightarrow> exc + parity" where
  "normalized_parity v =
    (case text_or_none v of
       None \<Rightarrow> Inr ParityN
     | Some t \<Rightarrow> (case map_of [(''N'', ParityN), (''E'', ParityE), (''O'', ParityO)] (py_upper t) of
         None \<Rightarrow> Inl ValueErr | Some p \<Rightarrow> Inr p))"

definition normalized_serial_port_owner :: "string option \<Rightarrow> serial_owner_kind" where
  "normalized_serial_port_owner v =
    (if py_lower (py_strip (optional_text v)) \<in> {''venus'', ''venus_serial_starter'', ''serial-starter'', ''victron''}
     then VenusSerialStarter else OwnerNone)"

definition normalized_retry_count :: "string option \<Rightarrow> int \<Rightarrow> int" where
  "normalized_retry_count v dflt =
    max 0 (case int_of_text (py_strip (optional_text v)) of Some i \<Rightarrow> i | None \<Rightarrow> dflt)"

text \<open>\<open>max(0.0, x)\<close> keeps its first argument unless the second is greater.\<close>

definition normalized_retry_delay_seconds :: "string option \<Rightarrow> rat \<Rightarrow> pyfloat" where
  "normalized_retry_delay_seconds v dflt =
    (let delay = (case float_of_text (py_strip (optional_text v)) of Some x \<Rightarrow> x | None \<Rightarrow> Fin dflt)
     in if pf_less (Fin 0) delay then delay else Fin 0)"

definition service_timeout_seconds :: "pyval option \<Rightarrow> pyfloat" where
  "service_timeout_seconds attribute =
    (case attribute of
       None \<Rightarrow> Fin 2
     | Some v \<Rightarrow> normalized_timeout_seconds (if v = PNone then None else Some v) (Fin 2))"

definition optional_transport_command :: "section_proxy \<Rightarrow> string \<Rightarrow> string \<Rightarrow> string option" where
  "optional_transport_command transport key dflt =
    (let t = py_strip (case transport key of None \<Rightarrow> dflt | Some t \<Rightarrow> t) in if t = '''' then None else Some t)"

section \<open>Loading\<close>

text \<open>The fields a kind of transport fills in, on settings that hold the defaults.\<close>

definition default_runtime_settings :: "transport_kind \<Rightarrow> transport_settings" where
  "default_runtime_settings kind =
    \<lparr> ts_kind = kind, ts_unit_id = 0, ts_timeout = Fin 0, ts_host = None, ts_port = None,
      ts_device = None, ts_baudrate = 9600, ts_bytesize = 8, ts_parity = ParityN, ts_stopbits = 1,
      ts_owner = OwnerNone, ts_stop_command = None, ts_start_command = None,
      ts_retry_count = 0, ts_retry_delay = Fin (1/5) \<rparr>"

definition serial_transport_runtime_fields :: "section_proxy \<Rightarrow> transport_settings \<Rightarrow> exc + transport_settings" where
  "serial_transport_runtime_fields transport st =
    bind_result (normalized_device (transport ''Device'')) (\<lambda>device.
      bind_result (normalized_baudrate (transport ''Baudrate'')) (\<lambda>baudrate.
        bind_result (normalized_bytesize (transport ''Bytesize'')) (\<lambda>bytesize.
          bind_result (normalized_parity (transport ''Parity'')) (\<lambda>parity.
            bind_result (normalized_stopbits (transport ''StopBits'')) (\<lambda>stopbits.
              Inr (st\<lparr> ts_device := Some device, ts_baudrate := baudrate, ts_bytesize := bytesize,
                       ts_parity := parity, ts_stopbits := stopbits,
                       ts_owner := normalized_serial_port_owner (transport ''PortOwner''),
                       ts_stop_command := optional_transport_command transport ''PortOwnerStopCommand''
                         ''/opt/victronenergy/serial-starter/stop-tty.sh'',
                       ts_start_command := optional_transport_command transport ''PortOwnerStartCommand''
                         ''/opt/victronenergy/serial-starter/start-tty.sh'',
                       ts_retry_count := normalized_retry_count (transport ''RetryCount'') 1,
                       ts_retry_delay := normalized_retry_delay_seconds (transport ''RetryDelaySeconds'') (1/5) \<rparr>))))))"

definition required_host_port :: "section_proxy \<Rightarrow> string option \<Rightarrow> exc + int" where
  "required_host_port transport host =
    (if host = None then Inl ValueErr else normalized_port (transport ''Port''))"

definition transport_runtime_fields ::
  "transport_kind \<Rightarrow> section_proxy \<Rightarrow> string option \<Rightarrow> exc + transport_settings" where
  "transport_runtime_fields kind transport host =
    (if kind = SerialRtu then serial_transport_runtime_fields transport (default_runtime_settings kind)
     else bind_result (required_host_port transport host) (\<lambda>port.
       Inr ((default_runtime_settings kind)\<lparr> ts_port := Some port \<rparr>)))"

text \<open>
  \<open>service_timeout\<close> is the service's attribute \<open>shelly_request_timeout_seconds\<close>, \<open>None\<close> when it is
  missing.
\<close>

definition load_modbus_transport_settings :: "config_file \<Rightarrow> pyval option \<Rightarrow> exc + transport_settings" where
  "load_modbus_transport_settings p service_timeout =
    (let adapter = section_get p ''Adapter''; transport = section_get p ''Transport'';
         kind = normalized_transport_kind
           (case adapter ''Transport'' of Some t \<Rightarrow> Some t | None \<Rightarrow> transport ''Type'');
         timeout = normalized_timeout_seconds (map_option PStr (transport ''RequestTimeoutSeconds''))
           (service_timeout_seconds service_timeout);
         host = text_or_none (transport ''Host'')
     in bind_result (normalized_unit_id (case transport ''UnitId'' of Some t \<Rightarrow> Some t | None \<Rightarrow> transport ''SlaveId''))
       (\<lambda>unit_id.
         bind_result (transport_runtime_fields kind transport host) (\<lambda>st.
           Inr (st\<lparr> ts_unit_id := unit_id, ts_timeout := timeout, ts_host := host \<rparr>))))"

section \<open>The transport of the settings\<close>

text \<open>A transport and what its exchanges will find: a serial line, or a network.\<close>

datatype modbus_transport = SerialTransport serial_world | TcpTransport net_world | UdpTransport net_world

definition serial_port_owner :: "transport_settings \<Rightarrow> exc + port_owner option" where
  "serial_port_owner st =
    (if ts_kind st \<noteq> SerialRtu \<or> ts_owner st = OwnerNone \<or> ts_device st = None then Inr None
     else case ts_stop_command st of
       None \<Rightarrow> Inl ValueErr
     | Some stop \<Rightarrow> Inr (Some \<lparr> po_stop = stop, po_start = ts_start_command st, po_owned = False,
                               po_release_registered = False \<rparr>))"

text \<open>\<open>commands\<close>, \<open>attempts\<close> and \<open>network\<close> script the environment of the new transport.\<close>

definition create_modbus_transport ::
  "transport_settings \<Rightarrow> command_result list \<Rightarrow> attempt_io list \<Rightarrow> net_io list \<Rightarrow> exc + modbus_transport" where
  "create_modbus_transport st commands attempts network =
    (let net = \<lparr> nw_transaction = 0, nw_io = network, nw_sent = [] \<rparr> in
     case ts_kind st of
       SerialRtu \<Rightarrow> bind_result (serial_port_owner st) (\<lambda>owner.
         Inr (SerialTransport \<lparr> sw_owner = owner, sw_commands = commands, sw_attempts = attempts, sw_log = [] \<rparr>))
     | Udp \<Rightarrow> Inr (UdpTransport net)
     | Tcp \<Rightarrow> Inr (TcpTransport net))"

fun transport_exchange ::
  "transport_settings \<Rightarrow> modbus_request \<Rightarrow> modbus_transport \<Rightarrow> (modbus_error + byte list) \<times> modbus_transport" where
  "transport_exchange st rq (SerialTransport w) =
    (case serial_exchange (ts_retry_count st) (ts_retry_delay st) rq w of (r, w') \<Rightarrow> (r, SerialTransport w'))"
| "transport_exchange st rq (TcpTransport w) = (case tcp_exchange rq w of (r, w') \<Rightarrow> (r, TcpTransport w'))"
| "transport_exchange st rq (UdpTransport w) = (case udp_exchange rq w of (r, w') \<Rightarrow> (r, UdpTransport w'))"

section \<open>Reasons for diagnostics\<close>

text \<open>\<open>modbus_transport_issue_reason\<close>: the first class of the table the error is an instance of.\<close>

fun modbus_transport_issue_reason :: "modbus_error \<Rightarrow> string option" where
  "modbus_transport_issue_reason PortBusy = Some ''busy''"
| "modbus_transport_issue_reason PortOwnership = Some ''ownership''"
| "modbus_transport_issue_reason SlaveOffline = Some ''offline''"
| "modbus_transport_issue_reason ModbusTimeout = Some ''timeout''"
| "modbus_transport_issue_reason SocketTimeout = Some ''timeout''"
| "modbus_transport_issue_reason BadResponse = Some ''response''"
| "modbus_transport_issue_reason TransportErr = Some ''error''"
| "modbus_transport_issue_reason (OsErr _) = Some ''error''"
| "modbus_transport_issue_reason (Raised e) = (if e = OSError then Some ''error'' else None)"
| "modbus_transport_issue_reason ProtocolErr = None"
| "modbus_transport_issue_reason (DeviceErr _) = None"

section \<open>What the loader guarantees\<close>

definition settings_ok :: "transport_settings \<Rightarrow> bool" where
  "settings_ok st \<longleftrightarrow>
    0 \<le> ts_unit_id st \<and> ts_unit_id st \<le> 247 \<and> \<not> pf_le (ts_timeout st) (Fin 0) \<and>
    ts_baudrate st > 0 \<and> ts_bytesize st \<in> {5, 6, 7, 8} \<and> ts_stopbits st \<in> {1, 2} \<and>
    0 \<le> ts_retry_count st \<and> pf_le (Fin 0) (ts_retry_delay st) \<and>
    (if ts_kind st = SerialRtu then ts_device st \<notin> {None, Some ''''} \<and> ts_port st = None
     else ts_host st \<notin> {None, Some ''''} \<and> ts_device st = None \<and>
       (\<exists>port. ts_port st = Some port \<and> 0 < port \<and> port \<le> 65535))"

lemma timeout_not_below_zero:
  "\<not> pf_le dflt (Fin 0) \<Longrightarrow> \<not> pf_le (normalized_timeout_seconds v dflt) (Fin 0)"
  by (auto simp: normalized_timeout_seconds_def Let_def split: option.split sum.split)

lemma checked_int_Inr: "checked_int v d ok = Inr i \<Longrightarrow> ok i"
  by (auto simp: checked_int_def bind_result_Inr split: if_splits)

lemma delay_nonneg: "pf_le (Fin 0) (normalized_retry_delay_seconds v d)"
proof (cases "case float_of_text (py_strip (optional_text v)) of Some x \<Rightarrow> x | None \<Rightarrow> Fin d")
qed (simp_all add: normalized_retry_delay_seconds_def Let_def)

text \<open>
  Loading either raises or gives settings in range: a unit number of the protocol, a
  timeout that is not zero or negative, and for a serial line a device with a valid frame format,
  non-negative retries and delay, for the network a host and a valid port.
\<close>

theorem loaded_transport_settings_are_valid:
  assumes "load_modbus_transport_settings p service_timeout = Inr st"
  shows "settings_ok st"
proof -
  define transport where "transport = section_get p ''Transport''"
  define kind where "kind = normalized_transport_kind
    (case section_get p ''Adapter'' ''Transport'' of Some t \<Rightarrow> Some t | None \<Rightarrow> transport ''Type'')"
  define host where "host = text_or_none (transport ''Host'')"
  define timeout where "timeout = normalized_timeout_seconds (map_option PStr (transport ''RequestTimeoutSeconds''))
           (service_timeout_seconds service_timeout)"
  obtain unit_id st0 where u: "normalized_unit_id
      (case transport ''UnitId'' of Some t \<Rightarrow> Some t | None \<Rightarrow> transport ''SlaveId'') = Inr unit_id"
    and st0: "transport_runtime_fields kind transport host = Inr st0"
    and st: "st = st0\<lparr> ts_unit_id := unit_id, ts_timeout := timeout, ts_host := host \<rparr>"
    using assms unfolding load_modbus_transport_settings_def Let_def transport_def [symmetric]
      kind_def [symmetric] host_def [symmetric] timeout_def [symmetric]
    by (auto simp: bind_result_Inr)
  have unit_ok: "0 \<le> unit_id \<and> unit_id \<le> 247"
    using u unfolding normalized_unit_id_def by (auto dest: checked_int_Inr)
  have "\<not> pf_le (service_timeout_seconds service_timeout) (Fin 0)"
    unfolding service_timeout_seconds_def
    by (auto split: option.split simp: timeout_not_below_zero)
  then have timeout_ok: "\<not> pf_le timeout (Fin 0)"
    unfolding timeout_def by (rule timeout_not_below_zero)
  have host_ok: "host \<noteq> Some ''''"
    by (auto simp: host_def text_or_none_def split: option.splits if_splits)
  show ?thesis
  proof (cases "kind = SerialRtu")
    case True
    then obtain device baudrate bytesize stopbits where
      checked: "normalized_device (transport ''Device'') = Inr device"
        "normalized_baudrate (transport ''Baudrate'') = Inr baudrate"
        "normalized_bytesize (transport ''Bytesize'') = Inr bytesize"
        "normalized_stopbits (transport ''StopBits'') = Inr stopbits"
      and set_to: "ts_kind st0 = SerialRtu" "ts_device st0 = Some device" "ts_port st0 = None"
        "ts_baudrate st0 = baudrate" "ts_bytesize st0 = bytesize" "ts_stopbits st0 = stopbits"
        "ts_retry_count st0 = normalized_retry_count (transport ''RetryCount'') 1"
        "ts_retry_delay st0 = normalized_retry_delay_seconds (transport ''RetryDelaySeconds'') (1/5)"
      using st0
      by (auto simp: transport_runtime_fields_def serial_transport_runtime_fields_def bind_result_Inr
          default_runtime_settings_def)
    have "device \<noteq> ''''" using checked(1) by (auto simp: normalized_device_def Let_def split: if_splits)
    moreover have "0 < baudrate" using checked(2) unfolding normalized_baudrate_def by (auto dest: checked_int_Inr)
    moreover have "bytesize \<in> {5, 6, 7, 8}"
      using checked(3) unfolding normalized_bytesize_def by (rule checked_int_Inr)
    moreover have "stopbits \<in> {1, 2}"
      using checked(4) unfolding normalized_stopbits_def by (rule checked_int_Inr)
    ultimately show ?thesis
      using unit_ok timeout_ok set_to by (simp add: st settings_ok_def delay_nonneg normalized_retry_count_def)
  next
    case False
    then show ?thesis
      using st0 unit_ok timeout_ok host_ok
      by (auto simp: st transport_runtime_fields_def required_host_port_def bind_result_Inr
          settings_ok_def default_runtime_settings_def normalized_port_def
          dest!: checked_int_Inr split: if_splits)
  qed
qed

definition demo_config :: config_file where
  "demo_config = \<lparr> cp_default = [], cp_sections =
     [(''Adapter'', [(''type'', ''modbus_charger''), (''transport'', ''serial_rtu'')]),
      (''Transport'', [(''device'', '' /dev/ttyUSB0 ''), (''unitid'', ''7''), (''parity'', ''e''), (''baudrate'', ''50''), (''portownerstopcommand'', ''/stop''), (''portownerstartcommand'', ''''),
        (''requesttimeoutseconds'', ''nan''), (''retrycount'', ''-3'')])] \<rparr>"

lemmas config_text_simps = py_strip_def py_space_def py_lower_def py_upper_def optional_text_def char_of_def bit_0

lemma demo_transport:
  "section_get demo_config ''Transport'' key = map_of [(''device'', '' /dev/ttyUSB0 ''), (''unitid'', ''7''), (''parity'', ''e''), (''baudrate'', ''50''), (''portownerstopcommand'', ''/stop''), (''portownerstartcommand'', ''''),
        (''requesttimeoutseconds'', ''nan''), (''retrycount'', ''-3'')] (py_lower key)"
  by (simp add: section_get_def demo_config_def split: option.split)

lemma demo_adapter:
  "section_get demo_config ''Adapter'' ''Transport'' = Some ''serial_rtu''"
  by (simp add: section_get_def demo_config_def py_lower_def char_of_def bit_0)

lemma demo_values: "normalized_unit_id (Some ''7'') = Inr 7" 
    "normalized_timeout_seconds (Some (PStr ''nan'')) (Fin 2) = NaN"
    "normalized_baudrate (Some ''50'') = Inr 50"
    "normalized_bytesize None = Inr 8"
    "normalized_stopbits None = Inr 1"
    "normalized_retry_count (Some ''-3'') 1 = 0"
    "normalized_retry_delay_seconds None (1/5) = Fin (1/5)"
    "normalized_parity (Some ''e'') = Inr ParityE"
    "normalized_device (Some '' /dev/ttyUSB0 '') = Inr ''/dev/ttyUSB0''"
    "normalized_transport_kind (Some ''serial_rtu'') = SerialRtu"
    "normalized_serial_port_owner None = OwnerNone"
    "service_timeout_seconds None = Fin 2"
  by (simp_all add: normalized_unit_id_def checked_int_def normalized_baudrate_def normalized_bytesize_def normalized_stopbits_def text_or_default_def
  int_text_value_def int_of_text_def config_text_simps digits_value_def digit_value_def normalized_timeout_seconds_def
  float_of_text_def normalized_retry_count_def normalized_retry_delay_seconds_def decimal_of_text_def decimal_mantissa_def
  normalized_parity_def text_or_none_def normalized_device_def normalized_transport_kind_def normalized_serial_port_owner_def service_timeout_seconds_def)

theorem loaded_transport_settings_are_valid_witness:
  "\<exists>st. load_modbus_transport_settings demo_config None = Inr st \<and> settings_ok st \<and>
    ts_unit_id st = 7 \<and> ts_retry_count st = 0 \<and> ts_timeout st = NaN"
proof -
  define st where "st = (default_runtime_settings SerialRtu)\<lparr> ts_unit_id := 7, ts_timeout := NaN,
    ts_device := Some ''/dev/ttyUSB0'', ts_baudrate := 50, ts_parity := ParityE, ts_retry_count := 0,
    ts_stop_command := Some ''/stop'' \<rparr>"
  have loaded: "load_modbus_transport_settings demo_config None = Inr st"
    unfolding st_def
    by (simp add: load_modbus_transport_settings_def demo_transport demo_adapter text_or_none_def demo_values transport_runtime_fields_def serial_transport_runtime_fields_def
      optional_transport_command_def config_text_simps default_runtime_settings_def)
  then have "settings_ok st" by (rule loaded_transport_settings_are_valid)
  then show ?thesis using loaded by (intro exI [of _ st]) (simp add: st_def)
qed

end
