(* ===== verification/Modbus_Profiles.thy ===== *)
theory Modbus_Profiles
  imports Modbus_Charger Modbus_Config
begin

text \<open>
  Loading a register profile from the backend's configuration (\<open>backend/modbus_profiles.py\<close>): every
  section is validated before a profile reaches the charger.
\<close>

section \<open>Sections\<close>

definition get_or :: "section_proxy \<Rightarrow> string \<Rightarrow> string \<Rightarrow> string" where
  "get_or s key dflt = (case s key of Some t \<Rightarrow> t | None \<Rightarrow> dflt)"

definition required_int :: "section_proxy \<Rightarrow> string \<Rightarrow> exc + int" where
  "required_int s key =
    (let t = py_strip (get_or s key '''') in if t = '''' then Inl ValueErr else int_text_value t)"

definition profile_register_type :: "section_proxy \<Rightarrow> bool \<Rightarrow> exc + string" where
  "profile_register_type s for_write =
    (let t = normalized_type (get_or s ''RegisterType'' '''') in
     if t \<notin> {''holding'', ''input'', ''coil'', ''discrete''} then Inl ValueErr
     else if for_write \<and> t \<in> {''input'', ''discrete''} then Inl ValueErr
     else Inr t)"

definition profile_data_type :: "section_proxy \<Rightarrow> string \<Rightarrow> exc + string" where
  "profile_data_type s dflt =
    (let t = normalized_type (get_or s ''DataType'' dflt) in
     if t \<notin> {''bool'', ''uint16'', ''int16'', ''uint32'', ''int32'', ''float32''} then Inl ValueErr else Inr t)"

definition profile_word_order :: "section_proxy \<Rightarrow> exc + string" where
  "profile_word_order s =
    (let t = normalized_type (get_or s ''WordOrder'' ''big'') in
     if t \<notin> {''big'', ''little''} then Inl ValueErr else Inr t)"

definition finite_text :: "string option \<Rightarrow> rat option" where
  "finite_text v = (case v of None \<Rightarrow> None | Some t \<Rightarrow> finite_float_or_none (float_of_text t))"

definition profile_scale :: "section_proxy \<Rightarrow> rat" where
  "profile_scale s = (case finite_text (s ''Scale'') of None \<Rightarrow> 1 | Some x \<Rightarrow> if x = 0 then 1 else x)"

text \<open>\<open>str.partition(':')\<close> without the separator.\<close>

fun partition_colon :: "string \<Rightarrow> string \<times> string" where
  "partition_colon [] = ([], [])"
| "partition_colon (c # s) =
    (if c = CHR '':'' then ([], s) else case partition_colon s of (k, v) \<Rightarrow> (c # k, v))"

fun value_map_tokens :: "string list \<Rightarrow> (int \<times> string) list \<Rightarrow> exc + (int \<times> string) list" where
  "value_map_tokens [] parsed = Inr parsed"
| "value_map_tokens (token # tokens) parsed =
    (case partition_colon token of (key_text, value_text) \<Rightarrow>
       bind_result (int_text_value (py_strip key_text)) (\<lambda>key.
         value_map_tokens tokens (AList.update key (py_strip value_text) parsed)))"

definition parsed_value_map :: "string \<Rightarrow> exc + (int \<times> string) list option" where
  "parsed_value_map raw =
    (let t = py_strip raw in
     if t = '''' then Inr None
     else bind_result (value_map_tokens (split_at (CHR '','') t) []) (\<lambda>m. Inr (if m = [] then None else Some m)))"

fun phase_map_tokens :: "string list \<Rightarrow> (phase \<times> int) list \<Rightarrow> exc + (phase \<times> int) list" where
  "phase_map_tokens [] parsed = Inr parsed"
| "phase_map_tokens (token # tokens) parsed =
    (case partition_colon token of (key_text, value_text) \<Rightarrow>
       bind_result (int_text_value (py_strip value_text)) (\<lambda>v.
         phase_map_tokens tokens (AList.update (normalize_phase_selection (Some (py_strip key_text)) P1) v parsed)))"

definition parsed_phase_selection_map :: "string \<Rightarrow> exc + (phase \<times> int) list" where
  "parsed_phase_selection_map raw =
    (let t = py_strip raw in
     if t = '''' then Inl ValueErr else phase_map_tokens (split_at (CHR '','') t) [])"

section \<open>Fields\<close>

definition default_read_data_type :: "string \<Rightarrow> string" where
  "default_read_data_type t = (if t \<in> {''coil'', ''discrete''} then ''bool'' else ''uint16'')"

definition optional_read_field :: "config_file \<Rightarrow> string \<Rightarrow> exc + read_field option" where
  "optional_read_field p name =
    (case optional_section p name of
       None \<Rightarrow> Inr None
     | Some s \<Rightarrow>
         bind_result (profile_register_type s False) (\<lambda>rt.
         bind_result (profile_data_type s (default_read_data_type rt)) (\<lambda>dt.
         bind_result (required_int s ''Address'') (\<lambda>address.
         bind_result (profile_word_order s) (\<lambda>order.
         bind_result (parsed_value_map (get_or s ''ValueMap'' '''')) (\<lambda>m.
           Inr (Some \<lparr> rf_register_type = rt, rf_address = address, rf_data_type = dt,
                       rf_scale = profile_scale s, rf_word_order = order, rf_value_map = m \<rparr>)))))))"

definition text_int_or :: "section_proxy \<Rightarrow> string \<Rightarrow> string \<Rightarrow> exc + int" where
  "text_int_or s key dflt =
    (let t = py_strip (get_or s key dflt) in int_text_value (if t = '''' then dflt else t))"

definition required_enable_write :: "config_file \<Rightarrow> exc + enable_write" where
  "required_enable_write p =
    (case optional_section p ''EnableWrite'' of
       None \<Rightarrow> Inl ValueErr
     | Some s \<Rightarrow>
         bind_result (profile_register_type s True) (\<lambda>rt.
         bind_result (required_int s ''Address'') (\<lambda>address.
         bind_result (text_int_or s ''TrueValue'' ''1'') (\<lambda>on.
         bind_result (text_int_or s ''FalseValue'' ''0'') (\<lambda>off.
           Inr \<lparr> ew_register_type = rt, ew_address = address, ew_true_value = on, ew_false_value = off \<rparr>)))))"

definition required_current_write :: "config_file \<Rightarrow> exc + numeric_write" where
  "required_current_write p =
    (case optional_section p ''CurrentWrite'' of
       None \<Rightarrow> Inl ValueErr
     | Some s \<Rightarrow>
         bind_result (profile_register_type s True) (\<lambda>rt.
         bind_result (required_int s ''Address'') (\<lambda>address.
         bind_result (profile_data_type s ''uint16'') (\<lambda>dt.
         bind_result (profile_word_order s) (\<lambda>order.
           Inr \<lparr> nw_register_type = rt, nw_address = address, nw_data_type = dt,
                 nw_scale = profile_scale s, nw_word_order = order \<rparr>)))))"

definition optional_phase_write :: "config_file \<Rightarrow> exc + phase_write option" where
  "optional_phase_write p =
    (case optional_section p ''PhaseWrite'' of
       None \<Rightarrow> Inr None
     | Some s \<Rightarrow>
         bind_result (profile_register_type s True) (\<lambda>rt.
         bind_result (required_int s ''Address'') (\<lambda>address.
         bind_result (profile_data_type s ''uint16'') (\<lambda>dt.
         bind_result (profile_word_order s) (\<lambda>order.
         bind_result (parsed_phase_selection_map (get_or s ''Map'' '''')) (\<lambda>m.
           Inr (Some \<lparr> pw_register_type = rt, pw_address = address, pw_data_type = dt,
                       pw_word_order = order, pw_selection_map = m \<rparr>)))))))"

section \<open>Capabilities\<close>

definition supported_phase_selections :: "section_proxy option \<Rightarrow> phase_write option \<Rightarrow> phase list" where
  "supported_phase_selections capabilities pw =
    (let configured = (case capabilities of None \<Rightarrow> ''P1'' | Some s \<Rightarrow> get_or s ''SupportedPhaseSelections'' ''P1'');
         normalized = normalize_phase_selection_tuple (Single (Some configured)) [P1]
     in case pw of
          None \<Rightarrow> normalized
        | Some w \<Rightarrow>
            let writable = map fst (pw_selection_map w);
                available = filter (\<lambda>p. p \<in> set writable) normalized
            in if available \<noteq> [] then available else if writable \<noteq> [] then writable else [P1])"

definition enable_uses_current_write :: "section_proxy option \<Rightarrow> bool" where
  "enable_uses_current_write capabilities =
    (case capabilities of
       None \<Rightarrow> False
     | Some s \<Rightarrow> normalized_type (optional_text (s ''EnableUsesCurrentWrite'')) \<in> {''1'', ''true'', ''yes'', ''on''})"

definition enable_default_current_amps :: "section_proxy option \<Rightarrow> rat" where
  "enable_default_current_amps capabilities =
    (case capabilities of
       None \<Rightarrow> 6
     | Some s \<Rightarrow> (case finite_text (s ''EnableDefaultCurrentAmps'') of
         None \<Rightarrow> 6 | Some x \<Rightarrow> if x \<le> 0 then 6 else x))"

definition validate_supported_phase_writes :: "phase list \<Rightarrow> phase_write option \<Rightarrow> exc + unit" where
  "validate_supported_phase_writes supported pw =
    (if 1 < length supported \<and> pw = None then Inl ValueErr else Inr ())"

definition validated_enable_section :: "config_file \<Rightarrow> bool \<Rightarrow> exc + bool" where
  "validated_enable_section p uses_current =
    (if has_section p ''EnableWrite'' \<or> uses_current then Inr (has_section p ''EnableWrite'') else Inl ValueErr)"

section \<open>The profile\<close>

definition load_generic_modbus_charger_profile :: "config_file \<Rightarrow> exc + charger_profile" where
  "load_generic_modbus_charger_profile p =
    (let capabilities = optional_section p ''Capabilities'';
         uses_current = enable_uses_current_write capabilities in
     bind_result (optional_phase_write p) (\<lambda>pw.
     let supported = supported_phase_selections capabilities pw in
     bind_result (validate_supported_phase_writes supported pw) (\<lambda>_.
     bind_result (validated_enable_section p uses_current) (\<lambda>has_enable.
     bind_result (optional_read_field p ''StateEnabled'') (\<lambda>enabled.
     bind_result (optional_read_field p ''StateCurrent'') (\<lambda>current.
     bind_result (optional_read_field p ''StatePhase'') (\<lambda>phase.
     bind_result (optional_read_field p ''StateActualCurrent'') (\<lambda>actual.
     bind_result (optional_read_field p ''StatePower'') (\<lambda>power.
     bind_result (optional_read_field p ''StateEnergy'') (\<lambda>energy.
     bind_result (optional_read_field p ''StateStatus'') (\<lambda>status.
     bind_result (optional_read_field p ''StateFault'') (\<lambda>fault.
     bind_result (if has_enable then bind_result (required_enable_write p) (\<lambda>w. Inr (Some w)) else Inr None) (\<lambda>ew.
     bind_result (required_current_write p) (\<lambda>cw.
       Inr \<lparr> cf_supported = supported, cf_enabled = enabled, cf_current = current, cf_phase = phase,
             cf_actual_current = actual, cf_power = power, cf_energy = energy, cf_status = status,
             cf_fault = fault, cf_enable_write = ew, cf_current_write = cw, cf_phase_write = pw,
             cf_enable_uses_current = uses_current,
             cf_enable_default_current = enable_default_current_amps capabilities \<rparr>))))))))))))))"

definition profile_name :: "string option \<Rightarrow> string" where
  "profile_name v =
    (case v of None \<Rightarrow> ''generic'' | Some t \<Rightarrow> if py_strip t = '''' then ''generic'' else normalized_type t)"

definition load_modbus_charger_profile :: "config_file \<Rightarrow> exc + charger_profile" where
  "load_modbus_charger_profile p =
    (if profile_name (section_get p ''Adapter'' ''Profile'') \<noteq> ''generic'' then Inl ValueErr
     else load_generic_modbus_charger_profile p)"

section \<open>What a loaded profile guarantees\<close>

definition read_field_ok :: "read_field option \<Rightarrow> bool" where
  "read_field_ok f = (case f of None \<Rightarrow> True | Some rf \<Rightarrow>
     rf_register_type rf \<in> {''holding'', ''input'', ''coil'', ''discrete''} \<and>
     register_decoder (rf_data_type rf) \<noteq> None \<and> rf_word_order rf \<in> {''big'', ''little''} \<and>
     rf_scale rf \<noteq> 0 \<and> rf_value_map rf \<noteq> Some [])"

definition profile_ok :: "charger_profile \<Rightarrow> bool" where
  "profile_ok pr \<longleftrightarrow>
    cf_supported pr \<noteq> [] \<and>
    (\<forall>pw. cf_phase_write pr = Some pw \<longrightarrow> set (cf_supported pr) \<subseteq> dom (map_of (pw_selection_map pw)) \<and>
      pw_register_type pw \<in> {''holding'', ''coil''}) \<and>
    (cf_phase_write pr = None \<longrightarrow> length (cf_supported pr) = 1) \<and>
    (cf_enable_write pr = None \<longrightarrow> cf_enable_uses_current pr) \<and> 0 < cf_enable_default_current pr \<and>
    nw_scale (cf_current_write pr) \<noteq> 0 \<and> register_encoder (nw_data_type (cf_current_write pr)) \<noteq> None \<and>
    (\<forall>f\<in>{cf_enabled pr, cf_current pr, cf_phase pr, cf_actual_current pr, cf_power pr, cf_energy pr,
          cf_status pr, cf_fault pr}. read_field_ok f)"

lemma scale_nonzero: "profile_scale s \<noteq> 0"
  by (simp add: profile_scale_def split: option.split)

lemma data_type_known: "profile_data_type s d = Inr t \<Longrightarrow> register_decoder t \<noteq> None \<and> register_encoder t \<noteq> None"
  by (auto simp: profile_data_type_def Let_def register_decoder_def register_encoder_def split: if_splits)

lemma word_order_known: "profile_word_order s = Inr w \<Longrightarrow> w \<in> {''big'', ''little''}"
  by (auto simp: profile_word_order_def Let_def split: if_splits)

lemma register_type_known:
  "profile_register_type s b = Inr t \<Longrightarrow> t \<in> {''holding'', ''input'', ''coil'', ''discrete''} \<and> (b \<longrightarrow> t \<in> {''holding'', ''coil''})"
  by (auto simp: profile_register_type_def Let_def split: if_splits)

lemma value_map_nonempty: "parsed_value_map raw = Inr m \<Longrightarrow> m \<noteq> Some []"
  by (auto simp: parsed_value_map_def Let_def bind_result_Inr split: if_splits)

lemma optional_read_field_ok: "optional_read_field p name = Inr f \<Longrightarrow> read_field_ok f"
  by (auto simp: optional_read_field_def bind_result_Inr read_field_ok_def scale_nonzero
      dest!: register_type_known word_order_known data_type_known value_map_nonempty split: option.splits)

lemma update_nonempty: "AList.update k v m \<noteq> []"
  by (cases m) auto

lemma phase_map_nonempty: "phase_map_tokens ts parsed = Inr m \<Longrightarrow> ts \<noteq> [] \<or> parsed \<noteq> [] \<Longrightarrow> m \<noteq> []"
proof (induction ts parsed rule: phase_map_tokens.induct)
  case (2 token tokens parsed)
  then show ?case by (auto simp: bind_result_Inr update_nonempty split: prod.splits)
qed simp

lemma split_at_nonempty: "split_at c s \<noteq> []"
  by (induction s) (auto split: list.split)

lemma parsed_phase_map_nonempty: "parsed_phase_selection_map raw = Inr m \<Longrightarrow> m \<noteq> []"
  using phase_map_nonempty split_at_nonempty
  by (auto simp: parsed_phase_selection_map_def Let_def split: if_splits)

lemma normalized_tuple_nonempty: "normalize_phase_selection_tuple v [P1] \<noteq> []"
  by (simp add: normalize_phase_selection_tuple_def Let_def)

lemma supported_writable:
  "pw_selection_map w \<noteq> [] \<Longrightarrow> set (supported_phase_selections c (Some w)) \<subseteq> dom (map_of (pw_selection_map w))"
  by (auto simp: supported_phase_selections_def Let_def dom_map_of_conv_image_fst split: if_splits)

lemma supported_nonempty: "supported_phase_selections c pw \<noteq> []"
  by (auto simp: supported_phase_selections_def Let_def normalized_tuple_nonempty split: option.split)

lemma default_current_pos: "0 < enable_default_current_amps c"
  by (auto simp: enable_default_current_amps_def split: option.split)

lemma optional_phase_write_ok:
  "optional_phase_write p = Inr (Some w) \<Longrightarrow> pw_selection_map w \<noteq> [] \<and> pw_register_type w \<in> {''holding'', ''coil''}"
  by (auto simp: optional_phase_write_def bind_result_Inr dest: parsed_phase_map_nonempty register_type_known
      split: option.splits)

lemma required_current_write_ok:
  "required_current_write p = Inr w \<Longrightarrow> nw_scale w \<noteq> 0 \<and> register_encoder (nw_data_type w) \<noteq> None \<and>
    nw_register_type w \<in> {''holding'', ''coil''}"
  by (auto simp: required_current_write_def bind_result_Inr scale_nonzero
      dest: register_type_known data_type_known split: option.splits)


text \<open>
  The loader accepts a current write to a coil, but such a profile can never set a current:
  every attempt raises before anything is sent.
\<close>

theorem coil_current_write_loads_but_never_writes:
  assumes "load_modbus_charger_profile p = Inr pr" "nw_register_type (cf_current_write pr) \<noteq> ''holding''"
  shows "nw_register_type (cf_current_write pr) = ''coil'' \<and>
    profile_set_current exchange unit_id pr amps s = (Inl (Raised ValueErr), s)"
proof
  have "\<exists>cw. required_current_write p = Inr cw \<and> cf_current_write pr = cw"
    using assms(1)
    by (auto simp: load_modbus_charger_profile_def load_generic_modbus_charger_profile_def Let_def bind_result_Inr
        split: if_splits)
  then show "nw_register_type (cf_current_write pr) = ''coil''"
    using assms(2) required_current_write_ok [of p] by auto
  show "profile_set_current exchange unit_id pr amps s = (Inl (Raised ValueErr), s)"
    using assms(2) by (simp add: profile_set_current_def write_numeric_def checked_def lift_exc_def)
qed

definition demo_profile_config :: config_file where
  "demo_profile_config = \<lparr> cp_default = [], cp_sections =
     [(''EnableWrite'', [(''registertype'', ''coil''), (''address'', ''20'')]),
      (''CurrentWrite'', [(''registertype'', ''coil''), (''address'', ''30''), (''scale'', ''10'')])] \<rparr>"

definition demo_loaded_profile :: charger_profile where
  "demo_loaded_profile =
     \<lparr> cf_supported = [P1], cf_enabled = None, cf_current = None, cf_phase = None,
       cf_actual_current = None, cf_power = None, cf_energy = None, cf_status = None, cf_fault = None,
       cf_enable_write = Some \<lparr> ew_register_type = ''coil'', ew_address = 20, ew_true_value = 1, ew_false_value = 0 \<rparr>,
       cf_current_write = \<lparr> nw_register_type = ''coil'', nw_address = 30, nw_data_type = ''uint16'',
         nw_scale = 10, nw_word_order = ''big'' \<rparr>,
       cf_phase_write = None, cf_enable_uses_current = False, cf_enable_default_current = 6 \<rparr>"

lemma demo_profile_loads: "load_modbus_charger_profile demo_profile_config = Inr demo_loaded_profile"
  by code_simp


theorem coil_current_write_loads_but_never_writes_witness:
  "nw_register_type (cf_current_write demo_loaded_profile) = ''coil'' \<and>
    profile_set_current udp_exchange 1 demo_loaded_profile (Fin 16) w = (Inl (Raised ValueErr), w)"
  by (rule coil_current_write_loads_but_never_writes [OF demo_profile_loads]) (simp add: demo_loaded_profile_def)

end
