(* ===== verification/Native_Chargers.thy ===== *)
theory Native_Chargers
  imports Modbus_Charger
begin

unbundle bit_operations_syntax

text \<open>
  The two native Modbus chargers, \<open>backend/simpleevse_charger.py\<close> and \<open>smartevse_charger.py\<close>: fixed
  register maps, status and fault texts, and the validation of a current before it is written.  Both
  read and write single 16-bit holding registers of the client; a current is a finite float.
\<close>

definition read_register :: "'s exchange \<Rightarrow> int \<Rightarrow> int \<Rightarrow> (int, 's) routine" where
  "read_register exchange unit_id address =
    seq (read_scalar exchange unit_id ''holding'' address ''uint16'' ''big'') (\<lambda>v. checked (scalar_int v))"

text \<open>\<open>int(math.floor(float(amps) + 0.5))\<close>.\<close>

definition half_up :: "rat \<Rightarrow> int" where
  "half_up amps = \<lfloor>amps + 1/2\<rfloor>"

definition joined_tokens :: "string list \<Rightarrow> string option" where
  "joined_tokens faults = (if faults = [] then None else Some (py_join '','' faults))"

definition validate_fixed_phase_selection :: "string option \<Rightarrow> phase \<Rightarrow> exc + unit" where
  "validate_fixed_phase_selection selection fixed =
    (if normalize_phase_selection selection fixed \<noteq> fixed then Inl ValueErr else Inr ())"

definition fixed_supported_phase_selections :: "string option option \<Rightarrow> exc + phase list" where
  "fixed_supported_phase_selections capability =
    (let normalized = (case capability of None \<Rightarrow> [P1] | Some v \<Rightarrow> normalize_phase_selection_tuple (Single v) [P1]) in
     if length normalized \<noteq> 1 then Inl ValueErr else Inr normalized)"

section \<open>SimpleEVSE\<close>

definition simple_vehicle_status_text :: "int \<Rightarrow> string option" where
  "simple_vehicle_status_text s =
    map_of [(1, ''ready''), (2, ''vehicle-present''), (3, ''charging''), (4, ''charging-ventilation''), (5, ''error'')] s"

definition simple_evse_status_text :: "int \<Rightarrow> string option" where
  "simple_evse_status_text s = map_of [(1, ''idle''), (2, ''ready''), (3, ''disabled'')] s"

definition simple_fault_tokens :: "int \<Rightarrow> string list" where
  "simple_fault_tokens status =
    (if status AND 0x0002 \<noteq> 0 then [''diode-check-fail''] else []) @
    (if status AND 0x0004 \<noteq> 0 then [''vent-required-fail''] else []) @
    (if status AND 0x0008 \<noteq> 0 then [''pilot-release-wait''] else []) @
    (if status AND 0x0010 \<noteq> 0 then [''rcd-check-error''] else [])"

definition simple_fault_text :: "int \<Rightarrow> int \<Rightarrow> string option" where
  "simple_fault_text vehicle status =
    (let faults = simple_fault_tokens status in
     joined_tokens (if vehicle = 5 \<and> faults = [] then faults @ [''vehicle-failure''] else faults))"

definition simple_enabled :: "int \<Rightarrow> int \<Rightarrow> bool" where
  "simple_enabled control evse_state = (if evse_state = 3 then False else control AND 0x0001 = 0)"

definition simple_status_text :: "int \<Rightarrow> int \<Rightarrow> string option \<Rightarrow> string option" where
  "simple_status_text vehicle evse_state fault =
    (if fault \<notin> {None, Some ''''} then Some ''error''
     else let t = simple_vehicle_status_text vehicle in
       if t \<noteq> None \<and> t \<noteq> Some ''error'' then t else simple_evse_status_text evse_state)"

definition simple_current_setting :: "rat \<Rightarrow> exc + int" where
  "simple_current_setting amps =
    (let rounded = half_up amps in if rounded < 0 \<or> 80 < rounded then Inl ValueErr else Inr rounded)"

definition simple_write_register :: "'s exchange \<Rightarrow> int \<Rightarrow> int \<Rightarrow> int \<Rightarrow> (unit, 's) routine" where
  "simple_write_register exchange unit_id address v =
    write_multiple_registers exchange unit_id address [v AND 0xFFFF]"

definition simple_read_state :: "'s exchange \<Rightarrow> int \<Rightarrow> phase \<Rightarrow> (charger_state, 's) routine" where
  "simple_read_state exchange unit_id fixed_phase =
    seq (read_register exchange unit_id 1000) (\<lambda>current_setting.
    seq (read_register exchange unit_id 1001) (\<lambda>actual_current.
    seq (read_register exchange unit_id 1002) (\<lambda>vehicle_state.
    seq (read_register exchange unit_id 1004) (\<lambda>control_bits.
    seq (read_register exchange unit_id 1006) (\<lambda>evse_state.
    seq (read_register exchange unit_id 1007) (\<lambda>status_bits.
      let fault = simple_fault_text vehicle_state status_bits in
      return \<lparr> ch_enabled = Some (simple_enabled control_bits evse_state), ch_current = Some (of_int current_setting),
               ch_phase = Some fixed_phase, ch_actual_current = Some (of_int actual_current), ch_power = None,
               ch_energy = None, ch_status = simple_status_text vehicle_state evse_state fault, ch_fault = fault \<rparr>))))))"

definition simple_set_enabled :: "'s exchange \<Rightarrow> int \<Rightarrow> bool \<Rightarrow> (unit, 's) routine" where
  "simple_set_enabled exchange unit_id enabled =
    simple_write_register exchange unit_id 1004 (if enabled then 0 else 0x0001)"

definition simple_set_current :: "'s exchange \<Rightarrow> int \<Rightarrow> rat \<Rightarrow> (unit, 's) routine" where
  "simple_set_current exchange unit_id amps =
    seq (checked (simple_current_setting amps)) (simple_write_register exchange unit_id 1000)"

definition simple_set_phase_selection :: "phase \<Rightarrow> string option \<Rightarrow> (unit, 's) routine" where
  "simple_set_phase_selection fixed_phase selection = checked (validate_fixed_phase_selection selection fixed_phase)"

section \<open>SmartEVSE\<close>

definition smart_normalized_current :: "int \<Rightarrow> rat" where
  "smart_normalized_current raw =
    (let v = max 0 raw in if 80 < v then of_int v / 10 else of_int v)"

definition smart_current_setting :: "rat \<Rightarrow> int option \<Rightarrow> exc + int" where
  "smart_current_setting amps limit_amps =
    (let rounded = half_up amps in
     if rounded = 0 then Inr 0
     else if rounded < 6 \<or> 80 < rounded then Inl ValueErr
     else case limit_amps of
       Some m \<Rightarrow> if 6 \<le> m \<and> m < rounded then Inl ValueErr else Inr rounded
     | None \<Rightarrow> Inr rounded)"

definition smart_fault_tokens :: "int \<Rightarrow> string list" where
  "smart_fault_tokens errors =
    map snd (filter (\<lambda>(mask, _). errors AND mask \<noteq> 0)
      [(0x0001, ''less-than-6a''), (0x0002, ''no-comm''), (0x0004, ''temp-high''), (0x0010, ''rcd''), (0x0020, ''no-sun'')])"

definition smart_fault_text :: "int \<Rightarrow> string option" where
  "smart_fault_text errors = joined_tokens (smart_fault_tokens errors)"

definition smart_hard_errors :: int where
  "smart_hard_errors = 0x0001 OR 0x0002 OR 0x0004 OR 0x0010"

definition smart_waiting_for_solar :: "int \<Rightarrow> int \<Rightarrow> bool" where
  "smart_waiting_for_solar errors mode \<longleftrightarrow> errors AND 0x0020 \<noteq> 0 \<and> mode = 2"

definition smart_status_text :: "int \<Rightarrow> int \<Rightarrow> bool \<Rightarrow> int \<Rightarrow> string option" where
  "smart_status_text state errors enabled mode =
    (if errors AND smart_hard_errors \<noteq> 0 then Some ''error''
     else if smart_waiting_for_solar errors mode then Some ''waiting-solar''
     else if \<not> enabled \<and> state \<notin> {2, 6, 7, 10} then Some ''disabled''
     else map_of [(0, ''idle''), (1, ''connected''), (2, ''charging''), (3, ''waiting-ventilation''),
       (4, ''connected-load-balance''), (5, ''connected-load-balance''), (6, ''charging-load-balance''),
       (7, ''charging-load-balance''), (8, ''activation-required''), (9, ''connected-authorized''),
       (10, ''charging-authorized'')] state)"

definition smart_write_register :: "'s exchange \<Rightarrow> int \<Rightarrow> int \<Rightarrow> int \<Rightarrow> (unit, 's) routine" where
  "smart_write_register exchange unit_id address v =
    write_single_register exchange unit_id address (v AND 0xFFFF)"

definition smart_read_state :: "'s exchange \<Rightarrow> int \<Rightarrow> phase \<Rightarrow> (charger_state, 's) routine" where
  "smart_read_state exchange unit_id fixed_phase =
    seq (read_register exchange unit_id 0) (\<lambda>state_value.
    seq (read_register exchange unit_id 1) (\<lambda>error_bits.
    seq (read_register exchange unit_id 2) (\<lambda>current_setting.
    seq (read_register exchange unit_id 3) (\<lambda>mode_value.
    seq (read_register exchange unit_id 5) (\<lambda>access_value.
      let enabled = access_value \<noteq> 0 in
      return \<lparr> ch_enabled = Some enabled, ch_current = Some (smart_normalized_current current_setting),
               ch_phase = Some fixed_phase, ch_actual_current = None, ch_power = None, ch_energy = None,
               ch_status = smart_status_text state_value error_bits enabled mode_value,
               ch_fault = smart_fault_text error_bits \<rparr>)))))"

definition smart_set_enabled :: "'s exchange \<Rightarrow> int \<Rightarrow> bool \<Rightarrow> (unit, 's) routine" where
  "smart_set_enabled exchange unit_id enabled = smart_write_register exchange unit_id 5 (if enabled then 1 else 0)"

definition smart_set_current :: "'s exchange \<Rightarrow> int \<Rightarrow> rat \<Rightarrow> (unit, 's) routine" where
  "smart_set_current exchange unit_id amps =
    seq (read_register exchange unit_id 7) (\<lambda>limit_amps.
      seq (checked (smart_current_setting amps (Some limit_amps))) (smart_write_register exchange unit_id 2))"

definition smart_set_phase_selection :: "phase \<Rightarrow> string option \<Rightarrow> (unit, 's) routine" where
  "smart_set_phase_selection fixed_phase selection = checked (validate_fixed_phase_selection selection fixed_phase)"

end
