(* ===== verification/Modbus_Codec_Props.thy ===== *)
theory Modbus_Codec_Props
  imports Modbus_Codec
begin

unbundle bit_operations_syntax

text \<open>
  Facts of the register codec: bytes and integers are in bijection below the width, every register
  type reads back what was written, and the binary32 patterns are recovered from their values.
\<close>

section \<open>Bytes and integers\<close>

named_theorems byte_simps \<open>bytes, registers and their values\<close>

lemma length_be_bytes [byte_simps]: "length (be_bytes n i) = n"
  by (induction n arbitrary: i) simp_all

lemma be_value_snoc [byte_simps]: "be_value (bs @ [b]) = be_value bs * 256 + uint b"
  by (simp add: be_value_def)

lemma be_value_Nil [byte_simps]: "be_value [] = 0"
  by (simp add: be_value_def)

lemma uint_byte_lt: "uint (b :: byte) < 256"
  using uint_lt2p [of b] by simp

lemma be_value_bounds: "0 \<le> be_value bs \<and> be_value bs < 256 ^ length bs"
proof (induction bs rule: rev_induct)
  case (snoc b bs)
  then have "be_value bs * 256 + uint b < 256 ^ length bs * 256"
    using uint_byte_lt [of b] by linarith
  then show ?case using snoc by (simp add: byte_simps)
qed (simp add: byte_simps)

lemma be_value_append: "be_value (xs @ ys) = be_value xs * 256 ^ length ys + be_value ys"
proof (induction ys rule: rev_induct)
  case (snoc y ys)
  then show ?case
    using be_value_snoc [of "xs @ ys" y] by (simp add: byte_simps algebra_simps)
qed (simp add: byte_simps)

lemma uint_byte_of_int: "uint (word_of_int i :: byte) = i mod 256"
  by (simp add: uint_word_of_int)

lemma be_value_be_bytes [byte_simps]: "be_value (be_bytes n i) = i mod 256 ^ n"
proof (induction n arbitrary: i)
  case (Suc n)
  have "i div 256 mod 256 ^ n * 256 + i mod 256 = i mod (256 * 256 ^ n)"
    by (simp add: zmod_zmult2_eq)
  then show ?case using Suc by (simp add: byte_simps uint_byte_of_int)
qed (simp add: byte_simps)

lemma be_bytes_be_value [byte_simps]: "be_bytes (length bs) (be_value bs) = bs"
proof (induction bs rule: rev_induct)
  case (snoc b bs)
  have "(be_value bs * 256 + uint b) div 256 = be_value bs"
    using uint_byte_lt [of b] uint_ge_0 [of b] by (simp add: div_add1_eq)
  moreover have "(word_of_int (be_value bs * 256 + uint b) :: byte) = b"
  proof (rule word_uint_eqI)
    show "uint (word_of_int (be_value bs * 256 + uint b) :: byte) = uint b"
      using uint_byte_lt [of b] by (simp only: uint_byte_of_int) simp
  qed
  ultimately show ?case using snoc by (simp add: byte_simps)
qed simp

lemma be_bytes_eq: "length bs = n \<Longrightarrow> be_bytes n (be_value bs) = bs"
  using be_bytes_be_value [of bs] by simp

section \<open>Registers\<close>

definition registers_ok :: "int list \<Rightarrow> bool" where
  "registers_ok rs \<longleftrightarrow> (\<forall>r\<in>set rs. 0 \<le> r \<and> r < 0x10000)"

definition registers_bytes :: "int list \<Rightarrow> byte list" where
  "registers_bytes rs = concat (map (be_bytes 2) rs)"

lemma registers_bytes_simps [simp]:
  "registers_bytes [] = []" "registers_bytes (r # rs) = be_bytes 2 r @ registers_bytes rs"
  by (simp_all add: registers_bytes_def)

lemma length_registers_bytes [byte_simps]: "length (registers_bytes rs) = 2 * length rs"
  by (induction rs) (simp_all add: byte_simps)

lemma joined_u16_ok: "registers_ok rs \<Longrightarrow> joined_u16 rs = Inr (registers_bytes rs)"
  by (induction rs) (simp_all add: registers_ok_def u16_bytes_def to_bytes_def)

lemma payload_registers_ok:
  assumes "length bs = 4"
  shows "\<exists>hi lo. payload_registers bs = Inr [hi, lo] \<and> registers_ok [hi, lo] \<and>
    registers_bytes [hi, lo] = bs"
proof -
  have "be_value (take 2 bs) < 256 ^ 2" "be_value (drop 2 bs) < 256 ^ 2"
    using be_value_bounds [of "take 2 bs"] be_value_bounds [of "drop 2 bs"] assms by simp_all
  moreover have "0 \<le> be_value (take 2 bs)" "0 \<le> be_value (drop 2 bs)"
    using be_value_bounds by simp_all
  moreover have "registers_bytes [be_value (take 2 bs), be_value (drop 2 bs)] = bs"
    using assms by (simp add: be_bytes_eq)
  ultimately show ?thesis
    using assms by (simp add: payload_registers_def uint_from_bytes_def registers_ok_def)
qed

lemma and_16 [byte_simps]: "i AND 0xFFFF = i mod (0x10000 :: int)"
  using take_bit_eq_mask [of 16 i] by (simp add: mask_eq_exp_minus_1 take_bit_eq_mod)

lemma sign_16: "v AND 0x8000 \<noteq> 0 \<longleftrightarrow> odd (v div 0x8000 :: int)"
  using and_exp_eq_0_iff_not_bit [of v 15] by (simp add: bit_iff_odd)

lemma decoded_int16_mod:
  assumes "- 0x8000 \<le> i" "i < 0x8000"
  shows "decoded_int16 (i mod 0x10000) = i"
proof (cases "0 \<le> i")
  case True
  then have "i mod 0x10000 = i" using assms by simp
  moreover have "i div 0x8000 = 0" using True assms by simp
  ultimately show ?thesis by (simp add: decoded_int16_def sign_16)
next
  case False
  then have "i mod 0x10000 = i + 0x10000"
    using assms mod_pos_pos_trivial [of "i + 0x10000" "0x10000"] by simp
  moreover have "(i + 0x10000) div 0x8000 = 1"
    using False assms by (intro int_div_pos_eq [of _ _ _ "i + 0x8000"]) simp_all
  ultimately show ?thesis by (simp add: decoded_int16_def sign_16)
qed

lemma signed_value:
  assumes "- (256 ^ n) \<le> 2 * i" "2 * i < 256 ^ n"
  shows "int_from_bytes (be_bytes n i) = i"
proof (cases "0 \<le> i")
  case True
  then have "i mod 256 ^ n = i" using assms by simp
  then show ?thesis using assms by (simp add: int_from_bytes_def byte_simps)
next
  case False
  then have "i mod 256 ^ n = i + 256 ^ n"
    using assms mod_pos_pos_trivial [of "i + 256 ^ n" "256 ^ n"] by simp
  then show ?thesis using assms False by (simp add: int_from_bytes_def byte_simps)
qed

section \<open>Binary32 patterns\<close>

lemma round_half_even_int [simp]: "round_half_even (of_int i) = i"
  by (simp add: round_half_even_def Let_def)

lemma word32_fields:
  fixes w :: "32 word"
  defines "m \<equiv> uint (take_bit 23 w)" and "e \<equiv> uint (take_bit 8 (drop_bit 23 w))"
  shows "uint w = (if bit w 31 then 2 ^ 31 else 0) + (e * 2 ^ 23 + m)"
    "0 \<le> m" "m < 2 ^ 23" "0 \<le> e" "e < 256"
proof -
  define v where "v = uint w"
  have v: "0 \<le> v" "v < 2 ^ 32" using uint_lt2p [of w] by (simp_all add: v_def)
  have m: "m = v mod 2 ^ 23"
    unfolding m_def v_def unsigned_take_bit_eq by (simp add: take_bit_eq_mod)
  have e: "e = v div 2 ^ 23 mod 2 ^ 8"
    unfolding e_def v_def unsigned_take_bit_eq unsigned_drop_bit_eq
    using v by (simp add: take_bit_eq_mod drop_bit_eq_div v_def)
  have s: "bit w 31 \<longleftrightarrow> odd (v div 2 ^ 31)"
    using bit_uint_iff [of w 31] by (simp add: v_def bit_iff_odd [of "uint w"])
  show "0 \<le> m" "m < 2 ^ 23" "0 \<le> e" "e < 256" by (simp_all add: m e)
  show "uint w = (if bit w 31 then 2 ^ 31 else 0) + (e * 2 ^ 23 + m)"
  proof -
    have "v = v div 2 ^ 31 * 2 ^ 31 + (v div 2 ^ 23 mod 2 ^ 8 * 2 ^ 23 + v mod 2 ^ 23)"
      using zmod_zmult2_eq [of "2 ^ 8" v "2 ^ 23"] div_mult_mod_eq [of v "2 ^ 31"] by simp
    moreover have "v div 2 ^ 31 = 0 \<or> v div 2 ^ 31 = 1" using v by auto
    ultimately show ?thesis unfolding s m e v_def [symmetric] by auto
  qed
qed

definition pattern_magnitude :: "int \<Rightarrow> int \<Rightarrow> int" where
  "pattern_magnitude e m = (if e = 0 then m else (2 ^ 23 + m) * 2 ^ nat (e - 1))"

lemma float32_value_fields:
  fixes w :: "32 word"
  defines "m \<equiv> uint (take_bit 23 w)" and "e \<equiv> uint (take_bit 8 (drop_bit 23 w))"
  shows "float32_value w =
    (if e = 255 then (if m = 0 then (if bit w 31 then NegInf else PosInf) else NaN)
     else Fin ((if bit w 31 then - 1 else 1) * (of_int (pattern_magnitude e m) / 2 ^ 149)))"
proof -
  define n where "n = unat (take_bit 8 (drop_bit 23 w))"
  have e: "e = int n" by (simp add: e_def n_def)
  have "nat (e - 1) = n - 1" by (simp add: e)
  then show ?thesis
    unfolding float32_value_def pattern_magnitude_def m_def [symmetric] n_def [symmetric] Let_def
    by (auto simp: e)
qed

lemma pattern_exponent:
  assumes "0 \<le> m" "m < 2 ^ 23" "0 \<le> e" "e < 255"
  shows "float32_exponent (of_int (pattern_magnitude e m)) = Some (nat (e - 1))"
proof -
  define k where "k = nat (e - 1)"
  have k: "k < 254" using assms by (simp add: k_def)
  have below: "pattern_magnitude e m < 2 ^ (24 + k)"
    using assms by (simp add: pattern_magnitude_def k_def power_add)
  have above: "2 ^ (24 + j) \<le> pattern_magnitude e m" if "j < k" for j
  proof -
    have "(2 :: int) ^ (24 + j) \<le> 2 ^ (23 + k)" using that by (intro power_increasing) simp_all
    also have "\<dots> \<le> pattern_magnitude e m"
      using that assms by (simp add: pattern_magnitude_def k_def power_add)
    finally show ?thesis .
  qed
  have "find (\<lambda>j. pattern_magnitude e m < 2 ^ (24 + j)) [0..<254] = Some k"
    unfolding find_Some_iff using k below above by (intro exI [of _ k]) (auto simp: not_less)
  then show ?thesis by (simp add: float32_exponent_def k_def)
qed

lemma pattern_recovered:
  assumes "0 \<le> m" "m < 2 ^ 23" "0 \<le> e" "e < 255"
  shows "float32_magnitude (of_int (pattern_magnitude e m) / 2 ^ 149) = Inr (e * 2 ^ 23 + m)"
proof -
  define k where "k = nat (e - 1)"
  have quotient: "of_int (pattern_magnitude e m) / 2 ^ k = (of_int (if e = 0 then m else 2 ^ 23 + m) :: rat)"
    by (simp add: pattern_magnitude_def k_def)
  have bits: "int k * 2 ^ 23 + (if e = 0 then m else 2 ^ 23 + m) = e * 2 ^ 23 + m"
    using assms by (auto simp: k_def algebra_simps)
  have rounded: "round_half_even (of_int (pattern_magnitude e m) / 2 ^ k) = (if e = 0 then m else 2 ^ 23 + m)"
    by (simp only: quotient round_half_even_int)
  have "e * 2 ^ 23 + m < 255 * 2 ^ 23" using assms by simp
  then show ?thesis
    using pattern_exponent [OF assms] bits rounded
    by (simp add: float32_magnitude_def Let_def flip: k_def)
qed

lemma word32_eq: "uint w = i \<Longrightarrow> word_of_int i = (w :: 32 word)"
  by auto

lemma float32_round_trip: "\<exists>w'. float32_bits (float32_value w) = Inr w' \<and> float32_value w' = float32_value w"
proof -
  define m e where "m = uint (take_bit 23 w)" and "e = uint (take_bit 8 (drop_bit 23 w))"
  note parts = word32_fields [of w, folded m_def e_def] float32_value_fields [of w, folded m_def e_def]
  show ?thesis
  proof (cases "e = 255")
    case True
    then have "float32_value w \<in> {PosInf, NegInf, NaN}" using parts by simp
    moreover have "float32_value 0x7F800000 = PosInf" "float32_value 0xFF800000 = NegInf"
      "float32_value 0x7FC00000 = NaN"
      by (simp_all add: float32_value_def)
    ultimately show ?thesis by auto
  next
    case False
    define x :: rat where "x = of_int (pattern_magnitude e m) / 2 ^ 149"
    have field: "0 \<le> m" "m < 2 ^ 23" "0 \<le> e" "e < 255" using parts False by simp_all
    have x: "0 \<le> x" "x = 0 \<longleftrightarrow> e = 0 \<and> m = 0"
      using field by (auto simp: x_def pattern_magnitude_def add_nonneg_eq_0_iff)
    have bits: "float32_magnitude x = Inr (e * 2 ^ 23 + m)"
      unfolding x_def by (rule pattern_recovered [OF field])
    have v: "float32_value w = Fin ((if bit w 31 then - 1 else 1) * x)"
      using parts False by (simp add: x_def)
    show ?thesis
    proof (cases "x = 0")
      case True
      then have "float32_bits (float32_value w) = Inr 0" using v bits x by simp
      moreover have "float32_value 0 = Fin 0" by (simp add: float32_value_def)
      ultimately show ?thesis using v True by simp
    next
      case False
      then have "float32_bits (float32_value w) = Inr w"
        using v bits x word32_eq [OF parts(1)] by (cases "bit w 31") auto
      then show ?thesis by simp
    qed
  qed
qed

section \<open>Whole registers\<close>

text \<open>The values a register type can hold.\<close>

definition representable :: "string \<Rightarrow> scalar \<Rightarrow> bool" where
  "representable data_type v \<longleftrightarrow> (let t = normalized_type data_type in
     case v of
       SBool _ \<Rightarrow> t = ''bool''
     | SInt i \<Rightarrow>
         t = ''uint16'' \<and> 0 \<le> i \<and> i < 2 ^ 16 \<or>
         t = ''int16'' \<and> - (2 ^ 15) \<le> i \<and> i < 2 ^ 15 \<or>
         t = ''uint32'' \<and> 0 \<le> i \<and> i < 2 ^ 32 \<or>
         t = ''int32'' \<and> - (2 ^ 31) \<le> i \<and> i < 2 ^ 31
     | SFloat x \<Rightarrow> t = ''float32'' \<and> x \<in> range float32_value)"

definition wire_order :: "string \<Rightarrow> int list \<Rightarrow> int list" where
  "wire_order w rs = (if py_strip w = ''little'' then rev rs else rs)"

lemma ordered_wire: "ordered_registers (wire_order w rs) (py_strip w) = rs"
proof (cases "length rs < 2")
  case True
  then have "rev rs = rs" by (cases rs rule: rev_cases) auto
  then show ?thesis by (simp add: ordered_registers_def wire_order_def)
qed (simp add: ordered_registers_def wire_order_def)

lemma decode_wire:
  assumes "registers_ok rs" "rs \<noteq> []" "normalized_word_order w = Inr ww"
  shows "decode_register_value (wire_order w rs) data_type w =
    decoded_register_payload rs (registers_bytes rs) (normalized_type data_type)"
  using assms ordered_wire [of w rs] joined_u16_ok [of rs]
  by (auto simp: decode_register_value_def normalized_word_order_def Let_def split: if_splits)

lemma encode_wire:
  assumes "encoded_registers v (normalized_type data_type) = Inr rs" "normalized_word_order w = Inr ww"
  shows "encode_register_value v data_type w = Inr (wire_order w rs)"
  using assms by (auto simp: encode_register_value_def wire_order_def normalized_word_order_def split: if_splits)

lemma decoder_simps [simp]:
  "decoded_register_payload rs bs ''bool'' = Inr (SBool (hd rs \<noteq> 0))"
  "decoded_register_payload rs bs ''uint16'' = Inr (SInt (hd rs))"
  "decoded_register_payload rs bs ''int16'' = Inr (SInt (decoded_int16 (hd rs)))"
  "decoded_register_payload rs bs ''uint32'' = Inr (SInt (uint_from_bytes bs))"
  "decoded_register_payload rs bs ''int32'' = Inr (SInt (int_from_bytes bs))"
  "decoded_register_payload rs bs ''float32'' = bind_result (unpack_float32 bs) (\<lambda>x. Inr (SFloat x))"
  by (simp_all add: decoded_register_payload_def register_decoder_def)

lemma encoder_simps [simp]:
  "encoded_registers v ''bool'' = encode_bool_register v"
  "encoded_registers v ''uint16'' = encode_16bit_register v"
  "encoded_registers v ''int16'' = encode_16bit_register v"
  "encoded_registers v ''uint32'' = encode_uint32_register v"
  "encoded_registers v ''int32'' = encode_int32_register v"
  "encoded_registers v ''float32'' = encode_float32_register v"
  by (simp_all add: encoded_registers_def register_encoder_def)

lemma unpack_pattern: "unpack_float32 (be_bytes 4 (uint w)) = Inr (float32_value w)"
  using uint_lt2p [of w] by (simp add: unpack_float32_def byte_simps)

lemma payload_registers_be:
  "\<exists>hi lo. payload_registers (be_bytes 4 i) = Inr [hi, lo] \<and> registers_ok [hi, lo] \<and>
    registers_bytes [hi, lo] = be_bytes 4 i"
  by (rule payload_registers_ok) (simp add: byte_simps)

lemma encoded_reads_back:
  assumes "representable data_type v"
  shows "\<exists>rs. encoded_registers v (normalized_type data_type) = Inr rs \<and> registers_ok rs \<and>
    length rs = register_count data_type \<and>
    decoded_register_payload rs (registers_bytes rs) (normalized_type data_type) = Inr v"
proof (cases v)
  case (SBool b)
  then show ?thesis
    using assms by (simp add: representable_def encode_bool_register_def registers_ok_def register_count_def)
next
  case (SInt i)
  obtain hi lo where split: "payload_registers (be_bytes 4 i) = Inr [hi, lo]" "registers_ok [hi, lo]"
    "registers_bytes [hi, lo] = be_bytes 4 i"
    using payload_registers_be by blast
  consider "normalized_type data_type = ''uint16''" "0 \<le> i" "i < 2 ^ 16"
    | "normalized_type data_type = ''int16''" "- (2 ^ 15) \<le> i" "i < 2 ^ 15"
    | "normalized_type data_type = ''uint32''" "0 \<le> i" "i < 2 ^ 32"
    | "normalized_type data_type = ''int32''" "- (2 ^ 31) \<le> i" "i < 2 ^ 31"
    using assms SInt by (auto simp: representable_def Let_def)
  then show ?thesis
  proof cases
    case 1
    then show ?thesis
      using SInt by (simp add: encode_16bit_register_def byte_simps registers_ok_def register_count_def)
  next
    case 2
    then show ?thesis
      using SInt decoded_int16_mod [of i]
      by (simp add: encode_16bit_register_def byte_simps registers_ok_def register_count_def)
  next
    case 3
    then show ?thesis
      using SInt split
      by (simp add: encode_uint32_register_def u32_bytes_def to_bytes_def register_count_def
          uint_from_bytes_def byte_simps del: registers_bytes_simps)
  next
    case 4
    then show ?thesis
      using SInt split signed_value [of 4 i]
      by (simp add: encode_int32_register_def i32_bytes_def to_bytes_signed_def register_count_def
          del: registers_bytes_simps)
  qed
next
  case (SFloat x)
  then obtain w where x: "x = float32_value w" and t: "normalized_type data_type = ''float32''"
    using assms by (auto simp: representable_def Let_def)
  obtain w' where w': "float32_bits x = Inr w'" "float32_value w' = x"
    using float32_round_trip [of w] x by auto
  obtain hi lo where "payload_registers (be_bytes 4 (uint w')) = Inr [hi, lo]" "registers_ok [hi, lo]"
    "registers_bytes [hi, lo] = be_bytes 4 (uint w')"
    using payload_registers_be by blast
  then show ?thesis
    using SFloat t w' unpack_pattern [of w']
    by (simp add: encode_float32_register_def pack_float32_def register_count_def del: registers_bytes_simps)
qed

lemma register_count_pos: "0 < register_count data_type"
  by (simp add: register_count_def)

lemma registers_read_back:
  assumes "representable data_type v" "normalized_word_order w = Inr ww"
  shows "\<exists>rs. encode_register_value v data_type w = Inr (wire_order w rs) \<and> registers_ok rs \<and>
    length rs = register_count data_type \<and> decode_register_value (wire_order w rs) data_type w = Inr v"
proof -
  obtain rs where rs: "encoded_registers v (normalized_type data_type) = Inr rs" "registers_ok rs"
    "length rs = register_count data_type"
    "decoded_register_payload rs (registers_bytes rs) (normalized_type data_type) = Inr v"
    using encoded_reads_back [OF assms(1)] by blast
  moreover have "rs \<noteq> []" using rs(3) register_count_pos [of data_type] by auto
  ultimately show ?thesis
    using encode_wire [OF rs(1) assms(2)] decode_wire [OF rs(2) _ assms(2)] by auto
qed

lemma registers_ok_wire [simp]: "registers_ok (wire_order w rs) = registers_ok rs"
  by (simp add: wire_order_def registers_ok_def)

lemma length_wire [simp]: "length (wire_order w rs) = length rs"
  by (simp add: wire_order_def)

lemma encoded_facts:
  assumes "representable data_type v" "encode_register_value v data_type w = Inr rs"
  shows "registers_ok rs" "length rs = register_count data_type" "decode_register_value rs data_type w = Inr v"
proof -
  obtain ww where "normalized_word_order w = Inr ww"
    using assms(2) by (auto simp: encode_register_value_def bind_result_Inr)
  then obtain rs' where "encode_register_value v data_type w = Inr (wire_order w rs')" "registers_ok rs'"
    "length rs' = register_count data_type" "decode_register_value (wire_order w rs') data_type w = Inr v"
    using registers_read_back [OF assms(1)] by blast
  then show "registers_ok rs" "length rs = register_count data_type" "decode_register_value rs data_type w = Inr v"
    using assms(2) by auto
qed

end
