(* ===== verification/Modbus_Crc.thy ===== *)
theory Modbus_Crc
  imports Modbus_Transport Modbus_Codec_Props
begin

unbundle bit_operations_syntax

text \<open>
  The frame check as a linear map on 16-bit words: the code's unbounded integers never leave 16 bits,
  the shift register is injective, and a frame passes exactly when the register ends at zero.
\<close>

section \<open>The shift register on words\<close>

named_theorems crc_simps \<open>the CRC register\<close>

definition crc16_shift :: "16 word \<Rightarrow> 16 word" where
  "crc16_shift c = (if bit c 0 then drop_bit 1 c XOR 0xA001 else drop_bit 1 c)"

definition crc16_byte :: "16 word \<Rightarrow> byte \<Rightarrow> 16 word" where
  "crc16_byte c b = (crc16_shift ^^ 8) (c XOR ucast b)"

definition crc16 :: "byte list \<Rightarrow> 16 word" where
  "crc16 frame = foldl crc16_byte 0xFFFF frame"

lemma take_bit_16_uint [simp]: "take_bit 16 (uint (c :: 16 word)) = uint c" "take_bit 16 (uint (b :: byte)) = uint b"
  using uint_lt2p [of c] uint_lt2p [of b] by (simp_all add: take_bit_int_eq_self_iff)

lemma uint_shift: "uint (crc16_shift c) = crc_shift (uint c)"
proof -
  have "uint c AND 1 \<noteq> 0 \<longleftrightarrow> bit c 0"
    using bit_uint_iff [of c 0] by (simp add: and_one_eq bit_iff_odd odd_iff_mod_2_eq_one)
  moreover have "uint (drop_bit 1 c) = drop_bit 1 (uint c)"
    unfolding unsigned_drop_bit_eq by simp
  ultimately show ?thesis
    by (simp add: crc16_shift_def crc_shift_def unsigned_xor_eq)
qed

lemma uint_shifts: "uint ((crc16_shift ^^ n) c) = (crc_shift ^^ n) (uint c)"
  by (induction n) (simp_all add: uint_shift)

lemma uint_crc_byte: "uint (crc16_byte c b) = crc_byte (uint c) b"
  by (simp add: crc16_byte_def crc_byte_def uint_shifts unsigned_xor_eq unsigned_ucast_eq del: funpow.simps)

lemma uint_crc_fold: "uint (foldl crc16_byte c frame) = foldl crc_byte (uint c) frame"
  by (induction frame arbitrary: c) (simp_all add: uint_crc_byte)

lemma crc_is_crc16: "modbus_crc frame = uint (crc16 frame)"
  using uint_crc_fold [of "0xFFFF" frame] uint_lt2p [of "crc16 frame"] uint_ge_0 [of "crc16 frame"]
  by (simp add: modbus_crc_def crc16_def and_16)

section \<open>Linearity\<close>

lemma shift_xor [crc_simps]: "crc16_shift (a XOR b) = crc16_shift a XOR crc16_shift b"
  by (simp add: crc16_shift_def bit_xor_iff xor.assoc xor.left_commute xor.commute)

lemma shifts_xor [crc_simps]: "(crc16_shift ^^ n) (a XOR b) = (crc16_shift ^^ n) a XOR (crc16_shift ^^ n) b"
  by (induction n) (simp_all add: crc_simps)

lemma xor_eq_zero: "a XOR b = 0 \<longleftrightarrow> a = (b :: 'a::len word)"
  by (auto simp: bit_eq_iff bit_xor_iff)

lemma shift_zero: "crc16_shift x = 0 \<Longrightarrow> x = 0"
proof (cases "bit x 0")
  case True
  assume "crc16_shift x = 0"
  with True have "drop_bit 1 x = 0xA001" by (simp add: crc16_shift_def xor_eq_zero)
  then have "bit (drop_bit 1 x) 15" by simp
  then show ?thesis using bit_imp_le_length [of x 16] by (simp add: bit_drop_bit_eq)
next
  case False
  assume "crc16_shift x = 0"
  with False have none: "drop_bit 1 x = 0" by (simp add: crc16_shift_def)
  have "\<not> bit (drop_bit 1 x) n" for n by (simp only: none) simp
  then have "\<not> bit x (Suc n)" for n by (simp add: bit_drop_bit_eq)
  with False have "\<not> bit x n" for n by (cases n) simp_all
  then show ?thesis by (simp add: bit_eq_iff)
qed

lemma shift_inj [crc_simps]: "crc16_shift a = crc16_shift b \<longleftrightarrow> a = b"
  using shift_zero [of "a XOR b"] by (auto simp: crc_simps xor_eq_zero)

lemma shifts_inj [crc_simps]: "(crc16_shift ^^ n) a = (crc16_shift ^^ n) b \<longleftrightarrow> a = b"
  by (induction n) (simp_all add: crc_simps)

lemma fold_inj: "foldl crc16_byte c ys = foldl crc16_byte d ys \<longleftrightarrow> c = d"
proof (induction ys arbitrary: c d)
  case (Cons y ys)
  have "c XOR ucast y = d XOR ucast y \<longleftrightarrow> c = d"
    by (auto simp: bit_eq_iff bit_xor_iff)
  then show ?case
    using Cons by (simp add: crc16_byte_def shifts_inj del: funpow.simps)
qed simp

section \<open>Two bytes at a time\<close>

text \<open>Eight shifts of a byte in the high half bring it down unchanged.\<close>

lemma shifts_low_zero:
  "\<forall>i<n. \<not> bit w i \<Longrightarrow> (crc16_shift ^^ n) w = drop_bit n w"
proof (induction n)
  case (Suc n)
  then have "(crc16_shift ^^ n) w = drop_bit n w" by simp
  moreover have "\<not> bit (drop_bit n w) 0" using Suc.prems by (simp add: bit_drop_bit_eq)
  ultimately show ?case by (simp add: crc16_shift_def [of "drop_bit n w"])
qed simp

lemma byte_bit: "bit (b :: byte) n \<Longrightarrow> n < 8"
  using bit_imp_le_length [of b n] by simp

definition pair_word :: "byte \<Rightarrow> byte \<Rightarrow> 16 word" where
  "pair_word lo hi = ucast lo XOR push_bit 8 (ucast hi)"

lemma bit_pair:
  "bit (pair_word lo hi) n \<longleftrightarrow> (if n < 8 then bit lo n else n < 16 \<and> bit hi (n - 8))"
  by (auto simp: pair_word_def bit_xor_iff bit_push_bit_iff bit_ucast_iff dest: bit_imp_le_length)

lemma pair_inj: "pair_word a b = pair_word c d \<longleftrightarrow> a = c \<and> b = d"
proof
  assume same: "pair_word a b = pair_word c d"
  have "a = c"
  proof (rule bit_eqI)
    fix n
    show "bit a n = bit c n"
      using arg_cong [OF same, of "\<lambda>w. bit w n"] bit_imp_le_length [of a n] bit_imp_le_length [of c n]
      by (auto simp: bit_pair split: if_splits)
  qed
  moreover have "b = d"
  proof (rule bit_eqI)
    fix n
    show "bit b n = bit d n"
      using arg_cong [OF same, of "\<lambda>w. bit w (n + 8)"] bit_imp_le_length [of b n] bit_imp_le_length [of d n]
      by (auto simp: bit_pair split: if_splits)
  qed
  ultimately show "a = c \<and> b = d" by simp
qed simp

lemma crc_pair: "foldl crc16_byte c [a, b] = (crc16_shift ^^ 16) (c XOR pair_word a b)"
proof -
  have down: "(crc16_shift ^^ 8) (push_bit 8 (ucast b)) = ucast b"
    by (subst shifts_low_zero) (auto simp: bit_push_bit_iff intro!: bit_eqI
        simp: bit_drop_bit_eq bit_ucast_iff dest: byte_bit)
  have "foldl crc16_byte c [a, b] = (crc16_shift ^^ 8) ((crc16_shift ^^ 8) (c XOR ucast a) XOR ucast b)"
    by (simp add: crc16_byte_def del: funpow.simps)
  also have "\<dots> = (crc16_shift ^^ 8) ((crc16_shift ^^ 8) (c XOR ucast a XOR push_bit 8 (ucast b)))"
    by (simp only: shifts_xor down xor.assoc)
  also have "\<dots> = (crc16_shift ^^ 16) (c XOR pair_word a b)"
    using funpow_add [of 8 8 crc16_shift] by (simp add: pair_word_def xor.assoc del: funpow.simps)
  finally show ?thesis .
qed

lemma crc16_append: "crc16 (xs @ ys) = foldl crc16_byte (crc16 xs) ys"
  by (simp add: crc16_def)

lemma burst_changes_crc:
  assumes "crc16 (xs @ [a, b] @ ys) = crc16 (xs @ [c, d] @ ys)"
  shows "a = c \<and> b = d"
proof -
  have "foldl crc16_byte (crc16 xs) [a, b] = foldl crc16_byte (crc16 xs) [c, d]"
    using assms fold_inj by (simp only: crc16_append foldl_append)
  then have "crc16 xs XOR pair_word a b = crc16 xs XOR pair_word c d"
    by (simp only: crc_pair shifts_inj)
  then have "pair_word a b = pair_word c d"
    by (auto simp: bit_eq_iff bit_xor_iff)
  then show ?thesis by (simp add: pair_inj)
qed

section \<open>The check\<close>

lemma shifts_zero_word: "(crc16_shift ^^ n) 0 = 0"
  by (induction n) (simp_all add: crc16_shift_def)

lemma residue: "crc16 (p @ [lo, hi]) = 0 \<longleftrightarrow> crc16 p = pair_word lo hi"
proof -
  have "crc16 (p @ [lo, hi]) = (crc16_shift ^^ 16) (crc16 p XOR pair_word lo hi)"
    by (simp only: crc16_append crc_pair)
  moreover have "(crc16_shift ^^ 16) w = 0 \<longleftrightarrow> w = 0" for w
    using shifts_inj [of 16 w 0] by (simp only: shifts_zero_word)
  ultimately show ?thesis by (simp only: xor_eq_zero)
qed

lemma uint_pair: "uint (pair_word lo hi) = uint lo OR push_bit 8 (uint hi)"
  by (rule bit_eqI) (auto simp: bit_uint_iff bit_pair bit_or_iff bit_push_bit_iff dest: bit_imp_le_length)

lemma received_crc: "uint lo OR push_bit 8 (uint hi) = modbus_crc p \<longleftrightarrow> crc16 (p @ [lo, hi]) = 0"
  by (auto simp: residue crc_is_crc16 uint_pair [symmetric] dest: word_uint_eqI)

lemma checked_reply_iff:
  "checked_reply r = Inr q \<longleftrightarrow> 5 \<le> length r \<and> crc16 r = 0 \<and> q = drop 1 (take (length r - 2) r)"
proof (cases "5 \<le> length r")
  case True
  define p where "p = take (length r - 2) r"
  define lo where "lo = r ! (length r - 2)"
  define hi where "hi = r ! (length r - 1)"
  have tail: "drop (length r - 2) r = [lo, hi]"
    using True by (simp add: lo_def hi_def Cons_nth_drop_Suc [symmetric] Suc_diff_Suc numeral_2_eq_2)
  have r: "r = p @ [lo, hi]"
    using append_take_drop_id [of "length r - 2" r] tail by (simp add: p_def)
  have "checked_reply r = (if crc16 r = 0 then Inr (drop 1 p) else Inl BadResponse)"
    using True received_crc [of lo hi p] r
    unfolding checked_reply_def Let_def p_def [symmetric] lo_def [symmetric] hi_def [symmetric] by auto
  then show ?thesis using True by (auto simp: p_def)
qed (simp add: checked_reply_def)

lemma crc_frame_residue: "crc16 (crc_frame p) = 0"
proof -
  define c where "c = crc16 p"
  define lo hi :: byte where "lo = ucast c" and "hi = ucast (drop_bit 8 c)"
  have low: "i AND 0xFF = take_bit 8 i" for i :: int
    using take_bit_eq_mask [of 8 i] by (simp add: mask_eq_exp_minus_1)
  have frame: "crc_frame p = p @ [lo, hi]"
  proof -
    have "word_of_int (uint c AND 0xFF) = lo"
      by (rule bit_eqI) (auto simp: low lo_def bit_ucast_iff bit_word_of_int_iff bit_take_bit_iff bit_uint_iff
          dest: bit_imp_le_length)
    moreover have "word_of_int (drop_bit 8 (uint c) AND 0xFF) = hi"
      by (rule bit_eqI) (auto simp: low hi_def bit_ucast_iff bit_word_of_int_iff bit_take_bit_iff bit_uint_iff
          bit_drop_bit_eq dest: bit_imp_le_length)
    ultimately show ?thesis by (simp add: crc_frame_def crc_is_crc16 c_def Let_def)
  qed
  have "c = pair_word lo hi"
    by (rule bit_eqI) (auto simp: lo_def hi_def bit_pair bit_ucast_iff bit_drop_bit_eq dest: bit_imp_le_length)
  then show ?thesis by (simp add: frame residue c_def)
qed

lemma length_crc_frame: "length (crc_frame p) = length p + 2"
  by (simp add: crc_frame_def Let_def)

lemma take_crc_frame: "take (length p) (crc_frame p) = p"
  by (simp add: crc_frame_def Let_def)

end
