(* ===== verification/Modbus_Link.thy ===== *)
theory Modbus_Link
  imports Modbus_Client Modbus_Crc
begin

text \<open>
  The transports as links: whatever the chunks a frame arrives in, the exchange reads exactly the
  frame, and the client gets back the registers the peer sent.
\<close>

section \<open>Bytes on a line\<close>

named_theorems line_simps \<open>what a line or a socket hands out\<close>

fun chunk_of :: "line_event \<Rightarrow> byte list" where
  "chunk_of (Arrived c) = c"
| "chunk_of _ = []"

definition clean_line :: "line_event list \<Rightarrow> bool" where
  "clean_line line \<longleftrightarrow> (\<forall>ev\<in>set line. chunk_of ev \<noteq> [])"

definition arrived :: "line_event list \<Rightarrow> byte list" where
  "arrived line = concat (map chunk_of line)"

lemma line_Cons [line_simps]:
  "clean_line (ev # line) \<longleftrightarrow> (\<exists>c. ev = Arrived c \<and> c \<noteq> []) \<and> clean_line line"
  "arrived (ev # line) = chunk_of ev @ arrived line"
  "clean_line []" "arrived [] = []"
  by (cases ev) (auto simp: clean_line_def arrived_def)

lemma read_more_clean:
  assumes "clean_line line" "length chunks \<le> n" "n \<le> length chunks + length (arrived line)"
  shows "\<exists>rest. read_more chunks n line = (Inr (take n (chunks @ arrived line)), rest) \<and>
    clean_line rest \<and> arrived rest = drop (n - length chunks) (arrived line)"
  using assms
proof (induction line arbitrary: chunks)
  case (Cons ev line)
  then obtain c where c: "ev = Arrived c" "c \<noteq> []" "clean_line line" by (auto simp: line_simps)
  consider "n = length chunks" | "length chunks < n" "length c \<le> n - length chunks"
    | "length chunks < n" "n - length chunks < length c"
    using Cons.prems(2) by linarith
  then show ?case
  proof cases
    case 2
    then have "length (chunks @ c) \<le> n" "n \<le> length (chunks @ c) + length (arrived line)"
      using Cons.prems by (simp_all add: line_simps c)
    from Cons.IH [OF c(3) this] show ?thesis using 2 c by (auto simp: line_simps)
  next
    case 3
    then show ?thesis using Cons.prems c by (auto simp: line_simps Let_def)
  qed (use Cons.prems in \<open>auto simp: line_simps\<close>)
qed (simp add: line_simps)

lemma read_exact_clean:
  assumes "clean_line line" "n \<le> length (arrived line)"
  shows "\<exists>rest. read_exact n line = (Inr (take n (arrived line)), rest) \<and>
    clean_line rest \<and> arrived rest = drop n (arrived line)"
  using read_more_clean [of line "[]" n] assms by (simp add: read_exact_def)

lemma expected_head:
  "expected_rtu_response_length f [u, a, b] =
    (if uint a AND 0x80 \<noteq> 0 then Inr 5
     else if f \<in> {0x01, 0x02, 0x03, 0x04} then Inr (3 + unat b + 2)
     else if f \<in> {0x05, 0x06, 0x0F, 0x10} then Inr 8
     else Inl ValueErr)"
  by (simp add: expected_rtu_response_length_def)

definition carries :: "line_event list \<Rightarrow> byte list \<Rightarrow> bool" where
  "carries line frame \<longleftrightarrow> clean_line line \<and> take (length frame) (arrived line) = frame"

lemma read_reply_carried:
  assumes "carries line r" "3 \<le> length r" "expected_rtu_response_length f (take 3 r) = Inr (length r)"
  shows "read_reply f line = Inr r"
proof -
  have clean: "clean_line line" and front: "take (length r) (arrived line) = r"
    using assms(1) by (simp_all add: carries_def)
  have long: "length r \<le> length (arrived line)"
    using arg_cong [OF front, of length] by simp
  have head: "take 3 (arrived line) = take 3 r"
    using assms(2) front take_take [of 3 "length r" "arrived line"] by (simp add: min_def)
  obtain rest where rest: "read_exact 3 line = (Inr (take 3 r), rest)" "clean_line rest"
    "arrived rest = drop 3 (arrived line)"
    using read_exact_clean [of line 3] clean long assms(2) head by auto
  have tail: "take (length r - 3) (drop 3 (arrived line)) = drop 3 r"
    using front drop_take [of 3 "length r" "arrived line"] by simp
  have "length r - 3 \<le> length (arrived rest)"
    using rest(3) diff_le_mono [OF long, of 3] by simp
  then obtain rest' where "read_exact (length r - 3) rest = (Inr (drop 3 r), rest')"
    using read_exact_clean [of rest "length r - 3"] rest tail by auto
  moreover have "length (take 3 r) = 3" using assms(2) by simp
  ultimately show ?thesis
    using rest assms(3) by (simp add: read_reply_def lift_exc_def del: length_take)
qed

section \<open>One attempt\<close>

definition sends :: "modbus_request \<Rightarrow> attempt_io \<Rightarrow> bool" where
  "sends rq io \<longleftrightarrow> (\<exists>frame. rtu_frame rq = Inr frame \<and> io_open io = None \<and> io_setup io = None \<and>
    write_all (length frame) (io_writes io) = Inr ())"

lemma exchange_once_sends:
  "sends rq io \<Longrightarrow> exchange_once rq io = bind_result (read_reply (rq_function rq) (io_line io)) checked_reply"
  by (auto simp: sends_def exchange_once_def lift_exc_def)

lemma exchange_once_Inr:
  assumes "exchange_once rq io = Inr q"
  shows "\<exists>r. read_reply (rq_function rq) (io_line io) = Inr r \<and> 5 \<le> length r \<and> crc16 r = 0 \<and>
    q = drop 1 (take (length r - 2) r)"
  using assms
  by (auto simp: exchange_once_def bind_result_Inr checked_reply_iff split: option.splits)

text \<open>The frame of a PDU, and the PDUs whose length the reader derives from their head.\<close>

definition framed :: "byte \<Rightarrow> byte list \<Rightarrow> byte list" where
  "framed u pdu = crc_frame (u # pdu)"

definition sized_pdu :: "int \<Rightarrow> byte list \<Rightarrow> bool" where
  "sized_pdu f pdu \<longleftrightarrow> 2 \<le> length pdu \<and>
    expected_rtu_response_length f [0, pdu ! 0, pdu ! 1] = Inr (length pdu + 3)"

lemma take_3_framed: "2 \<le> length pdu \<Longrightarrow> take 3 (framed u pdu) = [u, pdu ! 0, pdu ! 1]"
  by (cases pdu; cases "tl pdu") (auto simp: framed_def crc_frame_def Let_def)

lemma length_framed [simp]: "length (framed u pdu) = length pdu + 3"
  by (simp add: framed_def length_crc_frame)

lemma sized_framed:
  "sized_pdu f pdu \<Longrightarrow> expected_rtu_response_length f (take 3 (framed u pdu)) = Inr (length (framed u pdu))"
  by (simp only: sized_pdu_def take_3_framed expected_head length_framed)

lemma checked_framed: "2 \<le> length pdu \<Longrightarrow> checked_reply (framed u pdu) = Inr pdu"
  using take_crc_frame [of "u # pdu"]
  by (simp add: checked_reply_iff crc_frame_residue framed_def length_crc_frame)

lemma exchange_once_framed:
  assumes "sends rq io" "sized_pdu (rq_function rq) pdu" "carries (io_line io) (framed u pdu)"
  shows "exchange_once rq io = Inr pdu"
proof -
  have "2 \<le> length pdu" using assms(2) by (simp add: sized_pdu_def)
  then show ?thesis
    using read_reply_carried [OF assms(3) _ sized_framed [OF assms(2)]] exchange_once_sends [OF assms(1)]
    by (simp add: checked_framed)
qed

lemma sized_read: "f \<in> {1, 2, 3, 4} \<Longrightarrow> uint b AND 0x80 = 0 \<Longrightarrow> unat n = length raw \<Longrightarrow> sized_pdu f (b # n # raw)"
  by (auto simp: sized_pdu_def expected_rtu_response_length_def)

lemma sized_exception: "uint b AND 0x80 \<noteq> 0 \<Longrightarrow> sized_pdu f [b, code]"
  by (simp add: sized_pdu_def expected_rtu_response_length_def)

section \<open>The transports as links\<close>

definition port_ready :: "serial_world \<Rightarrow> bool" where
  "port_ready w \<longleftrightarrow> (case sw_owner w of None \<Rightarrow> True
     | Some p \<Rightarrow> po_owned p \<or> sw_commands w = [] \<or> hd (sw_commands w) = Exited 0)"

definition serial_delivers :: "serial_world \<Rightarrow> modbus_request \<Rightarrow> byte list \<Rightarrow> bool" where
  "serial_delivers w rq pdu \<longleftrightarrow> port_ready w \<and> sized_pdu (rq_function rq) pdu \<and>
    (\<exists>io rest u. sw_attempts w = io # rest \<and> sends rq io \<and> carries (io_line io) (framed u pdu))"

lemma ensure_ready:
  assumes "port_ready w"
  shows "\<exists>w'. ensure_port_owned w = (Inr (), w') \<and> sw_attempts w' = sw_attempts w"
proof (cases "sw_owner w")
  case (Some p)
  show ?thesis
  proof (cases "po_owned p \<or> sw_commands w = []")
    case False
    then obtain cs where "sw_commands w = Exited 0 # cs"
      using assms Some by (cases "sw_commands w") (auto simp: port_ready_def)
    then show ?thesis
      using Some False
      by (simp add: ensure_port_owned_def ensure_owned_def run_command_def Let_def set_owner_def log_serial_def)
  qed (use Some in \<open>auto simp: ensure_port_owned_def ensure_owned_def run_command_def Let_def set_owner_def
      log_serial_def\<close>)
qed (simp add: ensure_port_owned_def)

lemma attempt_count_pos: "\<exists>n. serial_attempt_count retries = Suc n"
  by (cases "serial_attempt_count retries") (auto simp: serial_attempt_count_def)

lemma sends_opens: "sends rq io \<Longrightarrow> opens_device rq"
  by (auto simp: sends_def opens_device_def)

lemma serial_delivered:
  assumes "serial_delivers w rq pdu"
  shows "fst (serial_exchange retries delay rq w) = Inr pdu"
proof -
  obtain io rest u where io: "sw_attempts w = io # rest" "sends rq io" "carries (io_line io) (framed u pdu)"
    and sized: "sized_pdu (rq_function rq) pdu" and ready: "port_ready w"
    using assms by (auto simp: serial_delivers_def)
  obtain w' where w': "ensure_port_owned w = (Inr (), w')" "sw_attempts w' = io # rest"
    using ensure_ready [OF ready] io by auto
  obtain n where n: "serial_attempt_count retries = Suc n" using attempt_count_pos by blast
  show ?thesis
    using w' exchange_once_framed [OF io(2) sized io(3)]
    by (simp add: serial_exchange_def n exchange_attempt_def classified_attempt_def)
qed

definition mbap_ok :: "net_world \<Rightarrow> modbus_request \<Rightarrow> bool" where
  "mbap_ok w rq \<longleftrightarrow> (\<exists>frame. mbap_frame (nw_transaction (next_transaction w)) rq = Inr frame) \<and>
    ni_failure (next_io w) = None"

definition mbap_reply :: "byte list \<Rightarrow> byte \<Rightarrow> byte list \<Rightarrow> byte list" where
  "mbap_reply head u pdu = head @ be_bytes 2 (int (length pdu) + 1) @ [u] @ pdu"

definition tcp_delivers :: "net_world \<Rightarrow> modbus_request \<Rightarrow> byte list \<Rightarrow> bool" where
  "tcp_delivers w rq pdu \<longleftrightarrow> mbap_ok w rq \<and> length pdu < 0xFFFF \<and> [] \<notin> set (ni_chunks (next_io w)) \<and>
    (\<exists>head u. length head = 4 \<and> concat (ni_chunks (next_io w)) = mbap_reply head u pdu)"

definition udp_delivers :: "net_world \<Rightarrow> modbus_request \<Rightarrow> byte list \<Rightarrow> bool" where
  "udp_delivers w rq pdu \<longleftrightarrow> mbap_ok w rq \<and> length pdu \<le> 253 \<and>
    (\<exists>head u rest. length head = 4 \<and> ni_chunks (next_io w) = mbap_reply head u pdu # rest)"

lemma recv_more_clean:
  assumes "[] \<notin> set cs" "length chunks \<le> n" "n \<le> length chunks + length (concat cs)"
  shows "\<exists>rest. recv_more chunks n cs = Inr (take n (chunks @ concat cs), rest) \<and>
    [] \<notin> set rest \<and> concat rest = drop (n - length chunks) (concat cs)"
  using assms
proof (induction cs arbitrary: chunks)
  case (Cons c cs)
  consider "n = length chunks" | "length chunks < n" "length c \<le> n - length chunks"
    | "length chunks < n" "n - length chunks < length c"
    using Cons.prems(2) by linarith
  then show ?case
  proof cases
    case 2
    then have "length (chunks @ c) \<le> n" "n \<le> length (chunks @ c) + length (concat cs)"
      using Cons.prems by simp_all
    with Cons.IH [of "chunks @ c"] show ?thesis using 2 Cons.prems by auto
  next
    case 3
    then show ?thesis using Cons.prems by (auto simp: Let_def)
  qed (use Cons.prems in auto)
qed simp

lemma next_transaction_io [simp]: "next_io (next_transaction w) = next_io w"
  by (simp add: next_io_def next_transaction_def)

lemma net_exchange_ok:
  "mbap_ok w rq \<Longrightarrow> fst (net_exchange reply rq w) = reply (ni_chunks (next_io w))"
  by (auto simp: net_exchange_def mbap_ok_def Let_def)

lemma mbap_length:
  assumes "length head = 4" "length pdu < 0xFFFF"
  shows "uint_from_bytes (take 2 (drop 4 (mbap_reply head u pdu))) = int (length pdu) + 1"
  using assms by (simp add: mbap_reply_def uint_from_bytes_def byte_simps)

lemma tcp_delivered:
  assumes "tcp_delivers w rq pdu"
  shows "fst (tcp_exchange rq w) = Inr pdu"
proof -
  obtain head u where frame: "length head = 4" "concat (ni_chunks (next_io w)) = mbap_reply head u pdu"
    and facts: "mbap_ok w rq" "length pdu < 0xFFFF" "[] \<notin> set (ni_chunks (next_io w))"
    using assms by (auto simp: tcp_delivers_def)
  define r where "r = mbap_reply head u pdu"
  have long: "length r = length pdu + 7" and body: "drop 7 r = pdu"
    using frame by (simp_all add: r_def mbap_reply_def byte_simps)
  obtain rest where header: "recv_exact 7 (ni_chunks (next_io w)) = Inr (take 7 r, rest)"
    "[] \<notin> set rest" "concat rest = pdu"
    using recv_more_clean [OF facts(3), of "[]" 7] frame(2) long body
    by (auto simp: recv_exact_def simp flip: r_def)
  have n: "uint_from_bytes (take 2 (drop 4 (take 7 r))) = int (length pdu) + 1"
    using mbap_length [OF frame(1) facts(2)] by (simp add: r_def drop_take)
  obtain rest' where "recv_exact (length pdu) rest = Inr (pdu, rest')"
    using recv_more_clean [OF header(2), of "[]" "length pdu"] header(3) by (auto simp: recv_exact_def)
  then have "tcp_reply (ni_chunks (next_io w)) = Inr pdu"
    using header(1) n by (simp add: tcp_reply_def)
  then show ?thesis using net_exchange_ok [OF facts(1)] by (simp add: tcp_exchange_def)
qed

lemma udp_delivered:
  assumes "udp_delivers w rq pdu"
  shows "fst (udp_exchange rq w) = Inr pdu"
proof -
  obtain head u rest where frame: "length head = 4" "ni_chunks (next_io w) = mbap_reply head u pdu # rest"
    and facts: "mbap_ok w rq" "length pdu \<le> 253"
    using assms by (auto simp: udp_delivers_def)
  define r where "r = mbap_reply head u pdu"
  have long: "length r = length pdu + 7" and body: "drop 7 r = pdu"
    using frame by (simp_all add: r_def mbap_reply_def byte_simps)
  have "uint_from_bytes (take 2 (drop 4 r)) = int (length pdu) + 1"
    using mbap_length [OF frame(1)] facts(2) by (simp add: r_def)
  then have "udp_reply (ni_chunks (next_io w)) = Inr pdu"
    using frame(2) long body facts(2) by (simp add: udp_reply_def flip: r_def)
  then show ?thesis using net_exchange_ok [OF facts(1)] by (simp add: udp_exchange_def)
qed

interpretation serial_link: modbus_link "serial_exchange retries delay" serial_delivers for retries delay
  by unfold_locales (rule serial_delivered)

interpretation tcp_link: modbus_link tcp_exchange tcp_delivers
  by unfold_locales (rule tcp_delivered)

interpretation udp_link: modbus_link udp_exchange udp_delivers
  by unfold_locales (rule udp_delivered)

end
