(* ===== verification/Modbus_Claims.thy ===== *)
theory Modbus_Claims
  imports Modbus_Link
begin

unbundle bit_operations_syntax

text \<open>
  Properties of the Modbus stack: values survive the registers and the wire, a damaged frame is never
  taken for an answer, the retries follow their order and the tty is claimed before it is opened.
\<close>

section \<open>Reading through a link\<close>

text \<open>The PDU that answers a register read.\<close>

definition register_reply :: "int \<Rightarrow> int list \<Rightarrow> byte list" where
  "register_reply f rs = word_of_int f # word_of_int (2 * int (length rs)) # registers_bytes rs"

lemma register_words_bytes: "registers_ok rs \<Longrightarrow> register_words (registers_bytes rs) = rs"
proof (induction rs)
  case (Cons r rs)
  obtain a b where ab: "be_bytes 2 r = [a, b]"
    using length_be_bytes [of 2 r] by (cases "be_bytes 2 r"; cases "tl (be_bytes 2 r)") auto
  have "be_value [a, b] = r"
    using Cons.prems be_value_be_bytes [of 2 r] by (simp add: ab registers_ok_def)
  then show ?case using Cons by (simp add: ab registers_ok_def uint_from_bytes_def)
qed (simp add: registers_bytes_def)

lemma registers_of_reply:
  assumes "registers_ok rs" "length rs < 128"
  shows "registers_of_response (length rs) (word_of_int (2 * int (length rs)) # registers_bytes rs) = Inr rs"
proof -
  define b :: byte where "b = word_of_int (2 * int (length rs))"
  have "unat b = 2 * length rs"
    unfolding b_def using assms(2) by (simp only: unat_eq_nat_uint uint_byte_of_int) simp
  then show ?thesis
    unfolding b_def [symmetric] using assms(1) register_words_bytes [OF assms(1)]
    by (simp add: registers_of_response_def length_registers_bytes)
qed

lemma registers_function_values:
  "read_registers_function rt = Some f \<Longrightarrow> (rt = ''holding'' \<and> f = 3) \<or> (rt = ''input'' \<and> f = 4)"
  by (auto simp: read_registers_function_def split: if_splits)

lemma checked_register_reply:
  "f \<in> {3, 4} \<Longrightarrow> checked_pdu f (register_reply f rs) = Inr (word_of_int (2 * int (length rs)) # registers_bytes rs)"
  by (auto simp: checked_pdu_def register_reply_def)

lemma normalized_type_idem [simp]: "normalized_type (normalized_type t) = normalized_type t"
  by (simp add: normalized_type_def py_strip_lower py_lower_idem)

context modbus_link
begin

lemma read_registers_delivered:
  assumes f: "read_registers_function rt = Some f" and p: "address_payload address (int (length rs)) = Inr p"
    and rs: "registers_ok rs" "length rs < 128"
    and reply: "delivers s \<lparr> rq_unit = unit_id, rq_function = f, rq_payload = p \<rparr> (register_reply f rs)"
  shows "fst (read_registers exchange unit_id rt address (length rs) s) = Inr rs"
proof -
  have "f \<in> {3, 4}" using registers_function_values [OF f] by auto
  then show ?thesis
    using f p delivered [OF reply] registers_of_reply [OF rs]
    by (simp add: read_registers_def transaction_def response_pdu_def map_outcome_def checked_register_reply)
qed

lemma read_scalar_delivered:
  assumes f: "read_registers_function (normalized_type rt) = Some f"
    and value_ok: "representable t v" "encode_register_value v t word_order = Inr rs"
    and p: "address_payload address (int (register_count t)) = Inr p"
    and reply: "delivers s \<lparr> rq_unit = unit_id, rq_function = f, rq_payload = p \<rparr> (register_reply f rs)"
  shows "fst (read_scalar exchange unit_id rt address t word_order s) = Inr v"
proof -
  note rs = encoded_facts [OF value_ok]
  have short: "length rs < 128" using rs(2) by (simp add: register_count_def)
  have read: "fst (read_registers exchange unit_id (normalized_type rt) address (length rs) s) = Inr rs"
    using read_registers_delivered [OF f _ rs(1) short, of address p] p reply rs(2) by simp
  have "read_bits_function (normalized_type rt) = None"
    using registers_function_values [OF f] by (auto simp: read_bits_function_def)
  moreover have "decode_register_value rs (normalized_type t) word_order = Inr v"
    using rs(3) unfolding decode_register_value_def normalized_type_idem .
  moreover have "register_count (normalized_type t) = length rs"
    using rs(2) by (simp add: register_count_def)
  ultimately show ?thesis
    using read by (simp add: read_scalar_def map_outcome_def lift_exc_def Let_def)
qed

end

section \<open>Values\<close>

text \<open>
  Claim C20.  Every value a register type can hold (a bool, a 16- or 32-bit integer in range, a number
  that is a binary32) is encoded into the type's number of 16-bit registers, and decoding them with
  the same type and word order gives the value back.
\<close>

theorem register_value_round_trip:
  assumes "representable data_type v" "normalized_word_order word_order = Inr w"
  shows "\<exists>rs. encode_register_value v data_type word_order = Inr rs \<and>
    length rs = register_count data_type \<and> (\<forall>r\<in>set rs. 0 \<le> r \<and> r < 2 ^ 16) \<and>
    decode_register_value rs data_type word_order = Inr v"
proof -
  obtain rs where "encode_register_value v data_type word_order = Inr (wire_order word_order rs)"
    "registers_ok (wire_order word_order rs)" "length (wire_order word_order rs) = register_count data_type"
    "decode_register_value (wire_order word_order rs) data_type word_order = Inr v"
    using registers_read_back [OF assms] by auto
  then show ?thesis by (intro exI [of _ "wire_order word_order rs"]) (auto simp: registers_ok_def)
qed

theorem register_value_round_trip_witness:
  "\<exists>rs. encode_register_value (SInt (- 123456)) ''int32'' ''little'' = Inr rs \<and>
    length rs = register_count ''int32'' \<and> (\<forall>r\<in>set rs. 0 \<le> r \<and> r < 2 ^ 16) \<and>
    decode_register_value rs ''int32'' ''little'' = Inr (SInt (- 123456))"
proof (rule register_value_round_trip)
  show "representable ''int32'' (SInt (- 123456))"
    by (simp add: representable_def normalized_type_def py_strip_def py_space_def py_lower_def)
  show "normalized_word_order ''little'' = Inr ''little''"
    by (simp add: normalized_word_order_def py_strip_def py_space_def)
qed

text \<open>
  The 16-bit encoder takes any integer and keeps it modulo \<open>2 ^ 16\<close>, while the two
  32-bit encoders raise \<open>OverflowError\<close> exactly outside their range: a value too large for one
  register is written as another value, a value too large for two is refused.
\<close>

theorem narrow_writes_wrap_wide_writes_refuse:
  "encoded_registers (SInt i) ''uint16'' = Inr [i mod 2 ^ 16] \<and>
   encoded_registers (SInt i) ''int16'' = Inr [i mod 2 ^ 16] \<and>
   (encoded_registers (SInt i) ''uint32'' = Inl OverflowErr \<longleftrightarrow> i < 0 \<or> 2 ^ 32 \<le> i) \<and>
   (encoded_registers (SInt i) ''int32'' = Inl OverflowErr \<longleftrightarrow> i < - (2 ^ 31) \<or> 2 ^ 31 \<le> i)"
proof -
  obtain hi lo where "payload_registers (be_bytes 4 i) = Inr [hi, lo]"
    using payload_registers_be by blast
  then show ?thesis
    by (auto simp: encode_16bit_register_def encode_uint32_register_def encode_int32_register_def
        u32_bytes_def i32_bytes_def to_bytes_def to_bytes_signed_def byte_simps)
qed

section \<open>The wire\<close>

text \<open>
  Claim C21.  A value written into a device's registers is read back over the serial line: when the
  frame that carries the registers arrives, in chunks of any size and before the deadline, the
  client's read returns the value, for every register type, word order and register kind.
\<close>

theorem value_survives_the_serial_line:
  assumes "representable data_type v" "encode_register_value v data_type word_order = Inr rs"
    and "read_registers_function (normalized_type register_type) = Some f"
    and "address_payload address (int (register_count data_type)) = Inr p"
    and "rq = \<lparr> rq_unit = unit_id, rq_function = f, rq_payload = p \<rparr>"
    and "port_ready w" "sw_attempts w = io # rest" "sends rq io"
    and "carries (io_line io) (crc_frame (word_of_int unit_id # register_reply f rs))"
  shows "fst (read_scalar (serial_exchange retries delay) unit_id register_type address data_type word_order w) = Inr v"
proof -
  have "registers_ok rs" "length rs < 128"
    using encoded_facts [OF assms(1,2)] by (simp_all add: register_count_def)
  moreover have "f \<in> {3, 4}" using registers_function_values [OF assms(3)] by auto
  moreover have "unat (word_of_int (2 * int (length rs)) :: byte) = 2 * length rs"
    using calculation(2) by (simp only: unat_eq_nat_uint uint_byte_of_int) simp
  ultimately have "sized_pdu f (register_reply f rs)"
    unfolding register_reply_def by (intro sized_read) (auto simp: length_registers_bytes)
  then have "serial_delivers w rq (register_reply f rs)"
    using assms(5-9) by (auto simp: serial_delivers_def framed_def)
  then show ?thesis
    using serial_link.read_scalar_delivered [OF assms(3,1,2,4)] assms(5) by simp
qed


section \<open>Retries\<close>

text \<open>
  The reference: what each of the next \<open>n\<close> attempts would give on its own, and the first of them that
  settles the exchange (an answer, or an error that is not retried).
\<close>

fun attempt_results :: "modbus_request \<Rightarrow> attempt_io list \<Rightarrow> nat \<Rightarrow> (modbus_error + (modbus_error + byte list)) list" where
  "attempt_results rq ios 0 = []"
| "attempt_results rq ios (Suc n) =
    classified_attempt (exchange_once rq (case ios of [] \<Rightarrow> quiet_attempt | io # _ \<Rightarrow> io)) #
    attempt_results rq (tl ios) n"

fun settled :: "modbus_error + (modbus_error + byte list) \<Rightarrow> bool" where
  "settled (Inr (Inl _)) = False"
| "settled _ = True"

fun verdict :: "modbus_error + (modbus_error + byte list) \<Rightarrow> modbus_error + byte list" where
  "verdict (Inl e) = Inl e"
| "verdict (Inr (Inr reply)) = Inr reply"
| "verdict (Inr (Inl failure)) = Inl (final_serial_exchange_error failure)"

definition first_settled :: "(modbus_error + (modbus_error + byte list)) list \<Rightarrow> modbus_error + byte list" where
  "first_settled rs = verdict (case find settled rs of Some r \<Rightarrow> r | None \<Rightarrow> last rs)"

definition attempts_made :: "(modbus_error + (modbus_error + byte list)) list \<Rightarrow> nat" where
  "attempts_made rs = min (length rs) (Suc (length (takeWhile (\<lambda>r. \<not> settled r) rs)))"

definition openings :: "serial_world \<Rightarrow> nat" where
  "openings w = count_list (sw_log w) Opened"

lemma log_fields [simp]:
  "sw_owner (log_serial e w) = sw_owner w" "sw_attempts (log_serial e w) = sw_attempts w"
  "sw_commands (log_serial e w) = sw_commands w" "sw_log (log_serial e w) = sw_log w @ [e]"
  by (simp_all add: log_serial_def)

lemma recover_unowned:
  "sw_owner w = None \<Longrightarrow> \<exists>w'. recover_after_failure (Fin d) w = (Inr (), w') \<and> sw_owner w' = None \<and>
    sw_attempts w' = sw_attempts w \<and> openings w' = openings w"
  by (simp add: recover_after_failure_def openings_def)

lemma length_attempt_results [simp]: "length (attempt_results rq ios n) = n"
  by (induction n arbitrary: ios) simp_all

lemma unsettled_Cons:
  assumes "\<not> settled r" "rs \<noteq> []"
  shows "first_settled (r # rs) = first_settled rs" "attempts_made (r # rs) = Suc (attempts_made rs)"
  using assms by (simp_all add: first_settled_def attempts_made_def split: option.split)

lemma serial_attempts_reference:
  assumes "sw_owner w = None" "opens_device rq" "0 < n"
  shows "fst (serial_attempts (Fin d) rq n w) = first_settled (attempt_results rq (sw_attempts w) n) \<and>
    openings (snd (serial_attempts (Fin d) rq n w)) = openings w + attempts_made (attempt_results rq (sw_attempts w) n)"
  using assms
proof (induction n arbitrary: w)
  case (Suc n)
  define r where "r = classified_attempt (exchange_once rq (case sw_attempts w of [] \<Rightarrow> quiet_attempt | io # _ \<Rightarrow> io))"
  define w2 where "w2 = log_serial Opened (w\<lparr> sw_attempts := tl (sw_attempts w) \<rparr>)"
  have claim: "ensure_port_owned w = (Inr (), w)" using Suc.prems by (simp add: ensure_port_owned_def)
  have attempt: "exchange_attempt rq w = (r, w2)"
    using Suc.prems by (simp add: exchange_attempt_def r_def w2_def)
  have w2: "sw_owner w2 = None" "openings w2 = Suc (openings w)" "sw_attempts w2 = tl (sw_attempts w)"
    using Suc.prems by (simp_all add: w2_def openings_def)
  have results: "attempt_results rq (sw_attempts w) (Suc n) = r # attempt_results rq (tl (sw_attempts w)) n"
    by (simp add: r_def)
  show ?case
  proof (cases "settled r")
    case True
    then show ?thesis unfolding results
      by (cases r rule: settled.cases)
        (auto simp: claim attempt w2 first_settled_def attempts_made_def split: sum.splits)
  next
    case False
    then obtain failure where r: "r = Inr (Inl failure)" by (cases r rule: settled.cases) auto
    show ?thesis
    proof (cases n)
      case 0
      then show ?thesis unfolding results
        by (simp add: claim attempt r w2 first_settled_def attempts_made_def)
    next
      case (Suc m)
      obtain w3 where w3: "recover_after_failure (Fin d) w2 = (Inr (), w3)" "sw_owner w3 = None"
        "sw_attempts w3 = tl (sw_attempts w)" "openings w3 = Suc (openings w)"
        using recover_unowned [OF w2(1)] w2 by metis
      have next_attempts: "serial_attempts (Fin d) rq (Suc n) w = serial_attempts (Fin d) rq n w3"
        using Suc by (simp add: claim attempt r w3)
      show ?thesis
        using Suc.IH [of w3] Suc.prems w3 \<open>n = Suc m\<close> False
          unsettled_Cons [OF False, of "attempt_results rq (tl (sw_attempts w)) n"]
        unfolding next_attempts results by auto
    qed
  qed
qed simp


section \<open>The tty\<close>

lemma run_command_log:
  "run_command cmd w = (r, w') \<Longrightarrow> sw_log w' = sw_log w @ [Ran cmd] \<and> sw_owner w' = sw_owner w"
  by (auto simp: run_command_def Let_def split: list.splits command_result.splits)

lemma attempt_log:
  "exchange_attempt rq w = (r, w') \<Longrightarrow>
    \<exists>ev. sw_log w' = sw_log w @ ev \<and> set ev \<subseteq> {Opened} \<and> sw_owner w' = sw_owner w"
  by (auto simp: exchange_attempt_def Let_def split: if_splits)

lemma recover_log:
  assumes "recover_after_failure delay w = (r, w')" "sw_owner w = Some p"
  shows "\<exists>ev. sw_log w' = sw_log w @ ev \<and> set ev \<subseteq> {Ran (po_stop p)} \<union> range Slept \<and> sw_owner w' = Some p"
proof (cases "po_owned p")
  case True
  obtain r1 w1 where run: "run_command (po_stop p) w = (r1, w1)" by force
  have "w' = w1 \<or> (\<exists>d. w' = log_serial (Slept d) w1)"
    using assms run True
    by (cases r1) (auto simp: recover_after_failure_def recover_owner_def split: if_splits pyfloat.splits)
  then show ?thesis using run_command_log [OF run] assms(2) by auto
next
  case False
  then have "w' = w \<or> (\<exists>d. w' = log_serial (Slept d) w)"
    using assms by (auto simp: recover_after_failure_def recover_owner_def split: if_splits pyfloat.splits)
  then show ?thesis using assms(2) by auto
qed

lemma owned_attempts_log:
  assumes "sw_owner w = Some p" "po_owned p"
  shows "\<exists>ev. sw_log (snd (serial_attempts delay rq n w)) = sw_log w @ ev \<and>
    set ev \<subseteq> {Ran (po_stop p), Opened} \<union> range Slept \<and> sw_owner (snd (serial_attempts delay rq n w)) = Some p"
  using assms
proof (induction n arbitrary: w)
  case (Suc n)
  have claim: "ensure_port_owned w = (Inr (), w)"
    using Suc.prems by (simp add: ensure_port_owned_def ensure_owned_def)
  obtain r w2 where attempt: "exchange_attempt rq w = (r, w2)" by force
  obtain ev where ev: "sw_log w2 = sw_log w @ ev" "set ev \<subseteq> {Opened}" "sw_owner w2 = Some p"
    using attempt_log [OF attempt] Suc.prems by auto
  obtain r3 w3 where recover: "recover_after_failure delay w2 = (r3, w3)" by force
  obtain ev' where ev': "sw_log w3 = sw_log w2 @ ev'" "set ev' \<subseteq> {Ran (po_stop p)} \<union> range Slept" "sw_owner w3 = Some p"
    using recover_log [OF recover ev(3)] by auto
  obtain ev'' where ev'': "sw_log (snd (serial_attempts delay rq n w3)) = sw_log w3 @ ev''"
    "set ev'' \<subseteq> {Ran (po_stop p), Opened} \<union> range Slept" "sw_owner (snd (serial_attempts delay rq n w3)) = Some p"
    using Suc.IH [OF ev'(3) Suc.prems(2)] by auto
  have "snd (serial_attempts delay rq (Suc n) w) \<in> {w2, w3, snd (serial_attempts delay rq n w3)}"
    by (simp add: claim attempt recover split: sum.splits)
  moreover have "\<exists>evs. sw_log w3 = sw_log w @ evs \<and> set evs \<subseteq> {Ran (po_stop p), Opened} \<union> range Slept"
    using ev ev' by (intro exI [of _ "ev @ ev'"]) auto
  moreover have "\<exists>evs. sw_log (snd (serial_attempts delay rq n w3)) = sw_log w @ evs \<and>
    set evs \<subseteq> {Ran (po_stop p), Opened} \<union> range Slept"
    using ev ev' ev'' by (intro exI [of _ "ev @ ev' @ ev''"]) auto
  ultimately show ?case using ev ev' ev'' by auto
qed simp

text \<open>
  Claim C24.  A configured port owner claims the tty before the device is opened: the first thing the
  exchange does is run the stop command, nothing but that command, openings and retry delays follows,
  and when the command fails the exchange fails with the ownership error without having opened the
  device or taken the ownership mark.
\<close>

theorem tty_is_claimed_before_it_is_opened:
  assumes "sw_owner w = Some p" "\<not> po_owned p"
  shows "\<exists>ev. sw_log (snd (serial_exchange retries delay rq w)) = sw_log w @ Ran (po_stop p) # ev \<and>
    set ev \<subseteq> {Ran (po_stop p), Opened} \<union> range Slept \<and>
    (if sw_commands w = [] \<or> hd (sw_commands w) = Exited 0
     then \<exists>q. sw_owner (snd (serial_exchange retries delay rq w)) = Some q \<and> po_owned q
     else ev = [] \<and> sw_owner (snd (serial_exchange retries delay rq w)) = Some p \<and>
       fst (serial_exchange retries delay rq w) = Inl PortOwnership)"
proof -
  obtain n where n: "serial_attempt_count retries = Suc n" using attempt_count_pos by blast
  obtain r w1 where run: "run_command (po_stop p) w = (r, w1)" by force
  have log1: "sw_log w1 = sw_log w @ [Ran (po_stop p)]" and own1: "sw_owner w1 = Some p"
    using run_command_log [OF run] assms(1) by auto
  show ?thesis
  proof (cases "sw_commands w = [] \<or> hd (sw_commands w) = Exited 0")
    case True
    then have r: "r = Inr ()"
      using run by (cases "sw_commands w") (auto simp: run_command_def Let_def)
    define q where "q = p\<lparr> po_owned := True, po_release_registered := po_release_registered p \<or> po_start p \<noteq> None \<rparr>"
    define w2 where "w2 = set_owner q w1"
    have w2: "sw_owner w2 = Some q" "po_owned q" "po_stop q = po_stop p" "sw_log w2 = sw_log w1"
      by (simp_all add: w2_def set_owner_def q_def)
    have "ensure_port_owned w = (Inr (), w2)"
      using assms run r by (simp add: ensure_port_owned_def ensure_owned_def w2_def q_def)
    moreover have "ensure_port_owned w2 = (Inr (), w2)"
      using w2 by (simp add: ensure_port_owned_def ensure_owned_def)
    ultimately have same: "serial_exchange retries delay rq w = serial_exchange retries delay rq w2"
      by (simp add: serial_exchange_def n)
    obtain ev where "sw_log (snd (serial_exchange retries delay rq w2)) = sw_log w2 @ ev"
      "set ev \<subseteq> {Ran (po_stop p), Opened} \<union> range Slept" "sw_owner (snd (serial_exchange retries delay rq w2)) = Some q"
      using owned_attempts_log [OF w2(1,2), of delay rq "serial_attempt_count retries"] w2(3)
      by (auto simp: serial_exchange_def)
    then show ?thesis using True w2 log1 by (intro exI [of _ ev]) (simp add: same)
  next
    case False
    then have "r = Inl PortOwnership"
      using run by (cases "sw_commands w") (auto simp: run_command_def Let_def split: command_result.splits if_splits)
    then have "serial_exchange retries delay rq w = (Inl PortOwnership, w1)"
      using assms run by (simp add: serial_exchange_def n ensure_port_owned_def ensure_owned_def)
    then show ?thesis using False log1 own1 by simp
  qed
qed

section \<open>Whose answer it is\<close>

text \<open>
  An answer is not matched to its request: the serial exchange returns the PDU of a
  well-formed frame whatever unit it names, and the TCP exchange returns the PDU behind any
  transaction number, protocol number and unit.
\<close>

theorem answer_identity_is_not_checked:
  assumes "port_ready w" "sw_attempts w = io # rest" "sends rq io"
    and "sized_pdu (rq_function rq) pdu" "carries (io_line io) (framed u pdu)"
    and "mbap_ok n rq" "length pdu < 0xFFFF" "[] \<notin> set (ni_chunks (next_io n))"
    and "length head = 4" "concat (ni_chunks (next_io n)) = mbap_reply head u' pdu"
  shows "fst (serial_exchange retries delay rq w) = Inr pdu \<and> fst (tcp_exchange rq n) = Inr pdu"
proof
  have "serial_delivers w rq pdu" using assms(1-5) by (auto simp: serial_delivers_def)
  then show "fst (serial_exchange retries delay rq w) = Inr pdu" by (rule serial_delivered)
  have "tcp_delivers n rq pdu" using assms(6-10) by (auto simp: tcp_delivers_def)
  then show "fst (tcp_exchange rq n) = Inr pdu" by (rule tcp_delivered)
qed

section \<open>Concrete exchanges\<close>

text \<open>A charger of unit 1 asked for the two registers at address 100, answering 6 A as a binary32.\<close>

definition demo_request :: modbus_request where
  "demo_request = \<lparr> rq_unit = 1, rq_function = 3, rq_payload = [0, 100, 0, 2] \<rparr>"

definition demo_attempt :: "line_event list \<Rightarrow> attempt_io" where
  "demo_attempt line = \<lparr> io_open = None, io_setup = None, io_writes = [Wrote 3, Wrote 5], io_line = line \<rparr>"

definition demo_world :: "attempt_io list \<Rightarrow> serial_world" where
  "demo_world ios = \<lparr> sw_owner = None, sw_commands = [], sw_attempts = ios, sw_log = [] \<rparr>"

definition demo_answer :: "line_event list" where
  "demo_answer = [Arrived [1, 3], Arrived [4, 0x40, 0xC0, 0], Arrived [0, 0xEF, 0xCF]]"

definition demo_network :: net_world where
  "demo_network = \<lparr> nw_transaction = 7,
     nw_io = [\<lparr> ni_failure = None, ni_chunks = [[0, 99, 0, 0, 0], [7, 9, 3, 4, 0x40, 0xC0, 0, 0]] \<rparr>], nw_sent = [] \<rparr>"

lemma demo_frame: "rtu_frame demo_request = Inr [1, 3, 0, 100, 0, 2, 0x85, 0xD4]"
  by code_simp

lemma demo_sends: "sends demo_request (demo_attempt line)"
  by (auto simp: sends_def demo_frame demo_attempt_def positive_serial_write_count_def)

lemma demo_ready: "port_ready (demo_world ios)"
  by (simp add: port_ready_def demo_world_def)

lemma demo_mbap: "mbap_ok demo_network demo_request"
proof -
  have "mbap_frame (nw_transaction (next_transaction demo_network)) demo_request =
    Inr [0, 8, 0, 0, 0, 6, 1, 3, 0, 100, 0, 2]" by code_simp
  then show ?thesis by (simp add: mbap_ok_def demo_network_def next_io_def)
qed

lemma six_is_a_binary32: "Fin 6 \<in> range float32_value"
proof -
  have "float32_value 0x40C00000 = Fin 6" by code_simp
  then show ?thesis by (metis rangeI)
qed

theorem value_survives_the_serial_line_witness:
  "fst (read_scalar (serial_exchange 0 (Fin 0)) 1 ''holding'' 100 ''float32'' ''big'' (demo_world [demo_attempt demo_answer])) =
    Inr (SFloat (Fin 6))"
proof (rule value_survives_the_serial_line)
  show "representable ''float32'' (SFloat (Fin 6))"
    using six_is_a_binary32 by (simp add: representable_def normalized_type_def py_strip_def py_space_def py_lower_def)
  show "encode_register_value (SFloat (Fin 6)) ''float32'' ''big'' = Inr [0x40C0, 0]" by code_simp
  show "read_registers_function (normalized_type ''holding'') = Some 3" by code_simp
  show "address_payload 100 (int (register_count ''float32'')) = Inr [0, 100, 0, 2]" by code_simp
  show "demo_request = \<lparr> rq_unit = 1, rq_function = 3, rq_payload = [0, 100, 0, 2] \<rparr>"
    by (simp add: demo_request_def)
  show "port_ready (demo_world [demo_attempt demo_answer])" by (rule demo_ready)
  show "sw_attempts (demo_world [demo_attempt demo_answer]) = demo_attempt demo_answer # []"
    by (simp add: demo_world_def)
  show "sends demo_request (demo_attempt demo_answer)" by (rule demo_sends)
  show "carries (io_line (demo_attempt demo_answer)) (crc_frame (word_of_int 1 # register_reply 3 [0x40C0, 0]))"
    by code_simp
qed



definition demo_owned :: "command_result list \<Rightarrow> serial_world" where
  "demo_owned cs = (demo_world [demo_attempt demo_answer])
    \<lparr> sw_owner := Some \<lparr> po_stop = ''/stop'', po_start = None, po_owned = False, po_release_registered = False \<rparr>,
      sw_commands := cs \<rparr>"

theorem tty_is_claimed_before_it_is_opened_witness:
  "fst (serial_exchange 1 (Fin 0) demo_request (demo_owned [Exited 1])) = Inl PortOwnership \<and>
   sw_log (snd (serial_exchange 1 (Fin 0) demo_request (demo_owned [Exited 1]))) = [Ran ''/stop'']"
  using tty_is_claimed_before_it_is_opened [of "demo_owned [Exited 1]" _ 1 "Fin 0" demo_request]
  by (simp add: demo_owned_def demo_world_def)

theorem answer_identity_is_not_checked_witness:
  "fst (serial_exchange 0 (Fin 0) demo_request (demo_world [demo_attempt [Arrived [9, 3, 4, 0x40, 0xC0, 0, 0, 0x66, 0x0F]]])) =
     Inr [3, 4, 0x40, 0xC0, 0, 0] \<and> fst (tcp_exchange demo_request demo_network) = Inr [3, 4, 0x40, 0xC0, 0, 0]"
proof (rule answer_identity_is_not_checked)
  show "port_ready (demo_world [demo_attempt [Arrived [9, 3, 4, 0x40, 0xC0, 0, 0, 0x66, 0x0F]]])" by (rule demo_ready)
  show "sw_attempts (demo_world [demo_attempt [Arrived [9, 3, 4, 0x40, 0xC0, 0, 0, 0x66, 0x0F]]]) =
    demo_attempt [Arrived [9, 3, 4, 0x40, 0xC0, 0, 0, 0x66, 0x0F]] # []" by (simp add: demo_world_def)
  show "sends demo_request (demo_attempt [Arrived [9, 3, 4, 0x40, 0xC0, 0, 0, 0x66, 0x0F]])" by (rule demo_sends)
  show "sized_pdu (rq_function demo_request) [3, 4, 0x40, 0xC0, 0, 0]" by code_simp
  show "carries (io_line (demo_attempt [Arrived [9, 3, 4, 0x40, 0xC0, 0, 0, 0x66, 0x0F]])) (framed 9 [3, 4, 0x40, 0xC0, 0, 0])"
    by code_simp
  show "mbap_ok demo_network demo_request" by (rule demo_mbap)
  show "length [3, 4, 0x40, 0xC0, 0, 0 :: byte] < 0xFFFF" by simp
  show "[] \<notin> set (ni_chunks (next_io demo_network))" by (simp add: demo_network_def next_io_def)
  show "length [0, 99, 0, 0 :: byte] = 4" by simp
  show "concat (ni_chunks (next_io demo_network)) = mbap_reply [0, 99, 0, 0] 9 [3, 4, 0x40, 0xC0, 0, 0]" by code_simp
qed

end
