(* ===== verification/Modbus_Charger_Claims.thy ===== *)
theory Modbus_Charger_Claims
  imports Native_Chargers Modbus_Config Modbus_Claims
begin

unbundle bit_operations_syntax

text \<open>
  Properties of the Modbus chargers: what a written current reads back as, the caches over any run
  of operations, what enabling resumes, and what a native charger lets through to the hardware.
\<close>

section \<open>Routines\<close>

named_theorems routine_simps \<open>sequences of routines\<close>

lemma seq_Inr [routine_simps]:
  "seq m k s = (Inr b, s') \<longleftrightarrow> (\<exists>a t. m s = (Inr a, t) \<and> k a t = (Inr b, s'))"
  by (auto simp: seq_def split: prod.splits sum.splits)

lemma return_checked [routine_simps]:
  "return a s = (Inr b, s') \<longleftrightarrow> a = b \<and> s = s'"
  "checked r s = (Inr b, s') \<longleftrightarrow> r = Inr b \<and> s = s'"
  by (auto simp: return_def checked_def lift_exc_def split: sum.splits)

lemma seq_run [routine_simps]:
  "m s = (Inr a, t) \<Longrightarrow> seq m k s = k a t" "m s = (Inl e, t) \<Longrightarrow> seq m k s = (Inl e, t)"
  by (simp_all add: seq_def)

lemma on_transport_cases:
  "on_transport m f b = (r, b') \<Longrightarrow>
    (\<exists>e t. r = Inl e \<and> b' = b\<lparr> cb_transport := t \<rparr>) \<or> (\<exists>a t. r = Inr a \<and> b' = f a (b\<lparr> cb_transport := t \<rparr>))"
  by (auto simp: on_transport_def split: prod.splits sum.splits)

section \<open>A current on the wire\<close>

lemma round_half_even_near: "\<bar>of_int (round_half_even x) - x\<bar> \<le> 1/2"
proof -
  have "0 \<le> x - of_int \<lfloor>x\<rfloor>" "x - of_int \<lfloor>x\<rfloor> < 1" by linarith+
  then show ?thesis by (auto simp: round_half_even_def Let_def abs_le_iff)
qed

lemma float_of_rat_small: "\<bar>x\<bar> < float_overflow \<Longrightarrow> float_of_rat x = Fin x"
  by (auto simp: float_of_rat_def)

lemma overflow_large: "2 ^ 33 < float_overflow" "2 ^ 32 * 2 ^ 512 < float_overflow"
  by (simp_all add: float_overflow_def)

definition integer_type :: "string \<Rightarrow> bool" where
  "integer_type t \<longleftrightarrow> t \<in> {''uint16'', ''int16'', ''uint32'', ''int32''}"

lemma representable_int_small: "representable t (SInt i) \<Longrightarrow> \<bar>i\<bar> < 2 ^ 32"
  by (auto simp: representable_def Let_def)

text \<open>
  Claim C26.  A current written through an integer register at a scale reads back, through a field of
  the same type, word order and scale, within half a step of the scale of what was asked for, as long
  as the scaled value fits the register.
\<close>

theorem written_current_reads_back_within_half_a_step:
  assumes "integer_type (nw_data_type nw)" "1 / 2 ^ 512 \<le> \<bar>nw_scale nw\<bar>"
    and "representable (nw_data_type nw) (SInt (round_half_even (amps * nw_scale nw)))"
    and "normalized_word_order (nw_word_order nw) = Inr order"
    and "rf_data_type rf = nw_data_type nw" "rf_word_order rf = nw_word_order nw"
    and "rf_scale rf = nw_scale nw" "rf_value_map rf = None"
  shows "\<exists>rs v x. numeric_write_registers nw (Fin amps) = Inr rs \<and>
    decode_register_value rs (rf_data_type rf) (rf_word_order rf) = Inr v \<and>
    bind_result (field_value_of rf v) finite_field_value = Inr (Some x) \<and>
    \<bar>x - amps\<bar> \<le> 1 / (2 * \<bar>nw_scale nw\<bar>)"
proof -
  define k where "k = nw_scale nw"
  define i where "i = round_half_even (amps * k)"
  have k: "k \<noteq> 0" using assms(2) by (auto simp: k_def)
  have near: "\<bar>of_int i - amps * k\<bar> \<le> 1/2" unfolding i_def by (rule round_half_even_near)
  have fits: "representable (nw_data_type nw) (SInt i)" using assms(3) by (simp add: i_def k_def)
  have small: "\<bar>of_int i :: rat\<bar> < 2 ^ 32"
    using representable_int_small [OF fits] by (metis of_int_abs of_int_less_iff of_int_numeral of_int_power)
  then have product: "\<bar>amps * k\<bar> < float_overflow" using near overflow_large(1) by (simp add: abs_if split: if_splits)
  obtain rs where rs: "encode_register_value (SInt i) (nw_data_type nw) (nw_word_order nw) = Inr rs"
    using registers_read_back [OF fits assms(4)] by blast
  have written: "numeric_write_registers nw (Fin amps) = Inr rs"
    using assms(1,2) rs product
    by (auto simp: numeric_write_registers_def float_times_def float_of_rat_small int_round_def integer_type_def
        Let_def i_def simp flip: k_def)
  have read: "decode_register_value rs (rf_data_type rf) (rf_word_order rf) = Inr (SInt i)"
    using encoded_facts(3) [OF fits rs] assms(5,6) by simp
  have as_float: "scalar_float (SInt i) = Inr (Fin (of_int i))"
    using small overflow_large(1) by (simp add: float_of_rat_small)
  define x where "x = of_int i / k"
  have error: "\<bar>x - amps\<bar> \<le> 1 / (2 * \<bar>k\<bar>)"
  proof -
    have "x - amps = (of_int i - amps * k) / k" using k by (simp add: x_def field_simps)
    then have "\<bar>x - amps\<bar> = \<bar>of_int i - amps * k\<bar> / \<bar>k\<bar>" by simp
    also have "\<dots> \<le> (1/2) / \<bar>k\<bar>" using near by (intro divide_right_mono) simp_all
    finally show ?thesis by simp
  qed
  have "\<exists>y. bind_result (field_value_of rf (SInt i)) finite_field_value = Inr (Some y) \<and> y = x"
  proof (cases "k = 1")
    case True
    then show ?thesis
      using assms(7,8) as_float
      by (simp add: field_value_of_def scaled_read_value_def finite_field_value_def x_def flip: k_def)
  next
    case False
    have "1 / \<bar>k\<bar> \<le> 2 ^ 512"
      using assms(2) k unfolding k_def [symmetric] by (simp add: field_simps)
    then have "\<bar>of_int i\<bar> * (1 / \<bar>k\<bar>) \<le> 2 ^ 32 * 2 ^ 512"
      using small by (intro mult_mono) simp_all
    then have "\<bar>x\<bar> < float_overflow"
      using overflow_large(2) by (simp add: x_def)
    then show ?thesis
      using assms(7,8) as_float False k
      by (simp add: field_value_of_def scaled_read_value_def finite_field_value_def float_divided_def
          float_of_rat_small flip: k_def x_def)
  qed
  then show ?thesis using written read error unfolding k_def by blast
qed

section \<open>The caches\<close>

datatype charger_op = ReadState | SetEnabled bool | SetCurrent rat | SetPhase "string option"

definition charger_step ::
  "(pyfloat \<Rightarrow> string) \<Rightarrow> 's exchange \<Rightarrow> int \<Rightarrow> charger_profile \<Rightarrow> charger_op \<Rightarrow> 's charger_backend \<Rightarrow>
    (modbus_error + unit) \<times> 's charger_backend" where
  "charger_step float_text exchange unit_id pr op b =
    (case op of
       ReadState \<Rightarrow> map_outcome (\<lambda>_. Inr ()) (backend_read_state float_text exchange unit_id pr b)
     | SetEnabled enabled \<Rightarrow> backend_set_enabled exchange unit_id pr enabled b
     | SetCurrent amps \<Rightarrow> backend_set_current exchange unit_id pr amps b
     | SetPhase selection \<Rightarrow> backend_set_phase_selection exchange unit_id pr selection b)"

fun charger_run ::
  "(pyfloat \<Rightarrow> string) \<Rightarrow> 's exchange \<Rightarrow> int \<Rightarrow> charger_profile \<Rightarrow> charger_op list \<Rightarrow> 's charger_backend \<Rightarrow> 's charger_backend" where
  "charger_run float_text exchange unit_id pr [] b = b"
| "charger_run float_text exchange unit_id pr (op # ops) b =
    charger_run float_text exchange unit_id pr ops (snd (charger_step float_text exchange unit_id pr op b))"

definition caches_ok :: "charger_profile \<Rightarrow> 's charger_backend \<Rightarrow> bool" where
  "caches_ok pr b \<longleftrightarrow> cb_phase b \<in> set (cf_supported pr) \<and>
    (case cb_resume b of None \<Rightarrow> True | Some x \<Rightarrow> 0 < x) \<and>
    (case cb_current b of None \<Rightarrow> True | Some x \<Rightarrow> x \<le> 0 \<or> cb_resume b = Some x)"

definition same_caches :: "'s charger_backend \<Rightarrow> 's charger_backend \<Rightarrow> bool" where
  "same_caches b c \<longleftrightarrow> cb_enabled c = cb_enabled b \<and> cb_current c = cb_current b \<and>
    cb_resume c = cb_resume b \<and> cb_phase c = cb_phase b"

lemma supported_is_supported: "cf_supported pr \<noteq> [] \<Longrightarrow> supported_phase_selection pr p \<in> set (cf_supported pr)"
  by (simp add: supported_phase_selection_def)

lemma caches_transport [simp]: "caches_ok pr (b\<lparr> cb_transport := t \<rparr>) = caches_ok pr b"
  by (simp add: caches_ok_def split: option.split)

lemma caches_enabled [simp]: "caches_ok pr (b\<lparr> cb_enabled := e \<rparr>) = caches_ok pr b"
  by (simp add: caches_ok_def split: option.split)

lemma remember_current_ok: "caches_ok pr b \<Longrightarrow> caches_ok pr (remember_current amps b)"
  by (auto simp: caches_ok_def remember_current_def split: option.splits)

lemma remember_state_ok:
  "cf_supported pr \<noteq> [] \<Longrightarrow> caches_ok pr b \<Longrightarrow> caches_ok pr (remember_state pr st b)"
  by (auto simp: caches_ok_def remember_state_def supported_is_supported split: option.splits if_splits)

lemma remember_phase_ok: "p \<in> set (cf_supported pr) \<Longrightarrow> caches_ok pr b \<Longrightarrow> caches_ok pr (b\<lparr> cb_phase := p \<rparr>)"
  by (auto simp: caches_ok_def split: option.splits)

lemma on_transport_ok:
  assumes "caches_ok pr b" "\<And>a t. caches_ok pr (f a (b\<lparr> cb_transport := t \<rparr>))"
  shows "caches_ok pr (snd (on_transport m f b))"
  using assms by (auto simp: on_transport_def split: prod.split sum.split)

lemma on_transport_failed: "fst (on_transport m f b) = Inl e \<Longrightarrow> same_caches b (snd (on_transport m f b))"
  by (auto simp: on_transport_def same_caches_def split: prod.splits sum.splits)

lemma charger_step_ok:
  assumes "cf_supported pr \<noteq> []" "caches_ok pr b"
  shows "caches_ok pr (snd (charger_step float_text exchange unit_id pr op b))"
proof (cases op)
  case ReadState
  then show ?thesis
    using assms
    by (auto simp: charger_step_def map_outcome_def backend_read_state_def intro!: on_transport_ok remember_state_ok)
next
  case (SetEnabled enabled)
  then show ?thesis
    using assms
    by (auto simp: charger_step_def backend_set_enabled_def Let_def intro!: on_transport_ok remember_current_ok)
next
  case (SetCurrent amps)
  then show ?thesis
    using assms by (auto simp: charger_step_def backend_set_current_def intro!: on_transport_ok remember_current_ok)
next
  case (SetPhase selection)
  then show ?thesis
    using assms
    by (auto simp: charger_step_def backend_set_phase_selection_def Let_def intro!: on_transport_ok remember_phase_ok)
qed

lemma charger_step_failed:
  assumes "fst (charger_step float_text exchange unit_id pr op b) = Inl e"
  shows "same_caches b (snd (charger_step float_text exchange unit_id pr op b))"
proof (cases op)
  case ReadState
  then show ?thesis
    using assms on_transport_failed
    by (auto simp: charger_step_def map_outcome_def backend_read_state_def bind_result_def split: sum.splits)
next
  case (SetEnabled enabled)
  then show ?thesis
    using assms on_transport_failed
    by (auto simp: charger_step_def backend_set_enabled_def Let_def split: if_splits)
next
  case (SetCurrent amps)
  then show ?thesis
    using assms on_transport_failed by (auto simp: charger_step_def backend_set_current_def)
next
  case (SetPhase selection)
  show ?thesis
  proof (cases "normalize_phase_selection selection (hd (cf_supported pr)) \<in> set (cf_supported pr)")
    case True
    then show ?thesis
      using assms on_transport_failed SetPhase
      by (auto simp: charger_step_def backend_set_phase_selection_def Let_def)
  qed (simp add: SetPhase charger_step_def backend_set_phase_selection_def same_caches_def)
qed

text \<open>
  Over any run of reads and commands on any transport, from the backend's construction on,
  the cached phase layout is one the profile supports, the resume current is positive, and whenever
  the cached current is positive it is the current enabling would resume; an operation that fails
  changes none of the caches.
\<close>

theorem charger_caches_stay_consistent:
  assumes "cf_supported pr \<noteq> []"
    and "b = charger_run float_text exchange unit_id pr ops (new_charger_backend pr requested transport)"
  shows "caches_ok pr b \<and>
    (\<forall>op e. fst (charger_step float_text exchange unit_id pr op b) = Inl e \<longrightarrow>
      same_caches b (snd (charger_step float_text exchange unit_id pr op b)))"
proof -
  have "caches_ok pr (charger_run float_text exchange unit_id pr ops c)" if "caches_ok pr c" for c
    using that by (induction ops arbitrary: c) (simp_all add: charger_step_ok assms(1))
  moreover have "caches_ok pr (new_charger_backend pr requested transport)"
    using supported_is_supported [OF assms(1)] by (simp add: caches_ok_def new_charger_backend_def)
  ultimately show ?thesis using charger_step_failed assms(2) by blast
qed

text \<open>
  On a profile that enables through the current, disabling writes 0 A and enabling again
  is the command to write the current that was cached before, whatever the transport did in between.
\<close>

theorem enabling_resumes_the_current:
  assumes "cf_enable_write pr = None" "cf_enable_uses_current pr"
    and "caches_ok pr b" "cb_current b = Some amps" "0 < amps"
    and "backend_set_enabled exchange unit_id pr False b = (Inr (), off)"
    and "backend_set_enabled exchange unit_id pr True (off\<lparr> cb_transport := t \<rparr>) = (r, resumed)"
  shows "cb_current off = Some 0 \<and> cb_enabled off = Some False \<and>
    r = fst (profile_set_current exchange unit_id pr (Fin amps) t) \<and>
    (r = Inr () \<longrightarrow> cb_current resumed = Some amps \<and> cb_enabled resumed = Some True)"
proof -
  have resume: "cb_resume b = Some amps" using assms(3-5) by (auto simp: caches_ok_def)
  have off: "cb_current off = Some 0 \<and> cb_enabled off = Some False \<and> cb_resume off = Some amps"
    using assms(1,2,6) resume
    by (auto simp: backend_set_enabled_def enabled_target_current_def on_transport_def remember_current_def
        split: prod.splits sum.splits)
  define d where "d = off\<lparr> cb_transport := t \<rparr>"
  have "enabled_target_current pr d True = amps"
    using off assms(5) by (simp add: enabled_target_current_def cached_positive_current_def d_def)
  then have "backend_set_enabled exchange unit_id pr True d =
    on_transport (profile_set_current exchange unit_id pr (Fin amps))
      (\<lambda>_ b'. remember_current amps (b'\<lparr> cb_enabled := Some True \<rparr>)) d"
    using assms(1,2) by (simp add: backend_set_enabled_def)
  then have "(r, resumed) = on_transport (profile_set_current exchange unit_id pr (Fin amps))
      (\<lambda>_ b'. remember_current amps (b'\<lparr> cb_enabled := Some True \<rparr>)) d"
    using assms(7) by (simp add: d_def)
  then show ?thesis
    using off by (auto simp: on_transport_def remember_current_def d_def split: prod.splits sum.splits)
qed

lemma nat_text_nonempty: "nat_text n \<noteq> []"
  by (subst nat_text.simps) simp

lemma int_text_nonempty: "int_text i \<noteq> []"
  by (simp add: int_text_def nat_text_nonempty)

text \<open>
  A state field with a value map tells enabled from disabled only by whether its text is
  empty: when every text of the map is non-empty, whatever value the charger reports (one mapped to
  the text off too, or one the map does not know) the state that is read says enabled.
\<close>

theorem mapped_enable_state_is_always_enabled:
  assumes "cf_enabled pr = Some rf" "rf_value_map rf = Some m" "\<forall>(i, label)\<in>set m. label \<noteq> ''''"
    and "profile_read_state float_text exchange unit_id pr e c p s = (Inr st, s')"
  shows "ch_enabled st = Some True"
proof -
  obtain v t current where v: "read_field_value exchange unit_id rf s = (Inr v, t)"
    and st: "ch_enabled st = map_option field_bool (resolved_enabled pr (Some v) current)"
    using assms(1,4)
    by (auto simp: profile_read_state_def optional_field_value_def routine_simps)
  obtain raw i where mapped: "scalar_int raw = Inr i" "v = FText (case map_of m i of Some t \<Rightarrow> t | None \<Rightarrow> int_text i)"
    using v assms(2)
    by (auto simp: read_field_value_def routine_simps field_value_of_def mapped_read_value_def bind_result_Inr)
  have "field_bool v"
  proof (cases "map_of m i")
    case None
    then show ?thesis using mapped int_text_nonempty by (simp add: field_bool_def)
  next
    case (Some label)
    then have "(i, label) \<in> set m" by (rule map_of_SomeD)
    then show ?thesis using Some mapped assms(3) by (auto simp: field_bool_def)
  qed
  then show ?thesis by (simp add: st resolved_enabled_def)
qed

section \<open>Native chargers\<close>

lemma half_up_near: "\<bar>of_int (half_up amps) - amps\<bar> \<le> 1/2"
  unfolding half_up_def by linarith

text \<open>
  The SmartEVSE backend writes a current only inside the hardware's limits: after reading
  the configured maximum m it either raises without having written anything, or it writes a whole
  number of amps within half an amp of the request that is 0 or from 6 to 80 and not above m
  (when m is 6 or more), and that value reads back as itself.
\<close>

theorem smart_evse_writes_only_allowed_currents:
  assumes "read_register exchange unit_id 7 s = (Inr m, s1)"
  shows "smart_set_current exchange unit_id amps s = (Inl (Raised ValueErr), s1) \<or>
    (\<exists>r. smart_set_current exchange unit_id amps s = write_single_register exchange unit_id 2 r s1 \<and>
      \<bar>of_int r - amps\<bar> \<le> 1/2 \<and> (r = 0 \<or> 6 \<le> r \<and> r \<le> 80) \<and> (6 \<le> m \<longrightarrow> r \<le> m) \<and>
      smart_normalized_current r = of_int r)"
proof (cases "smart_current_setting amps (Some m)")
  case (Inl e)
  then have "e = ValueErr" by (auto simp: smart_current_setting_def Let_def split: if_splits)
  then show ?thesis
    using assms Inl by (simp add: smart_set_current_def seq_def checked_def lift_exc_def)
next
  case (Inr r)
  then have r: "r = half_up amps" "r = 0 \<or> 6 \<le> r \<and> r \<le> 80" "6 \<le> m \<longrightarrow> r \<le> m"
    by (auto simp: smart_current_setting_def Let_def split: if_splits)
  have "r AND 0xFFFF = r" using r(2) by (auto simp: and_16)
  then have "smart_set_current exchange unit_id amps s = write_single_register exchange unit_id 2 r s1"
    using assms Inr by (simp add: smart_set_current_def seq_def checked_def lift_exc_def smart_write_register_def)
  moreover have "smart_normalized_current r = of_int r"
    using r(2) by (auto simp: smart_normalized_current_def)
  ultimately show ?thesis using r half_up_near [of amps] by blast
qed

section \<open>A charger on the network\<close>

text \<open>
  A charger of unit 1 over TCP: each exchange finds the MBAP reply with the given PDU.
\<close>

definition demo_net :: "byte list list \<Rightarrow> net_world" where
  "demo_net pdus = \<lparr> nw_transaction = 0,
     nw_io = map (\<lambda>pdu. \<lparr> ni_failure = None, ni_chunks = [mbap_reply [0, 1, 0, 0] 1 pdu] \<rparr>) pdus, nw_sent = [] \<rparr>"

definition demo_read_field :: read_field where
  "demo_read_field = \<lparr> rf_register_type = ''coil'', rf_address = 5, rf_data_type = ''bool'', rf_scale = 1,
     rf_word_order = ''big'', rf_value_map = Some [(0, ''off''), (1, ''on:manual'')] \<rparr>"

definition demo_numeric_write :: numeric_write where
  "demo_numeric_write = \<lparr> nw_register_type = ''holding'', nw_address = 30, nw_data_type = ''uint16'',
     nw_scale = 10, nw_word_order = ''big'' \<rparr>"

definition demo_profile :: charger_profile where
  "demo_profile = \<lparr> cf_supported = [P1], cf_enabled = Some demo_read_field, cf_current = None, cf_phase = None,
     cf_actual_current = None, cf_power = None, cf_energy = None, cf_status = None, cf_fault = None,
     cf_enable_write = None, cf_current_write = demo_numeric_write, cf_phase_write = None,
     cf_enable_uses_current = True, cf_enable_default_current = 6 \<rparr>"

definition demo_charging :: "net_world charger_backend" where
  "demo_charging = \<lparr> cb_enabled = Some True, cb_current = Some 16, cb_resume = Some 16, cb_phase = P1,
     cb_transport = demo_net [[6, 0, 30, 0, 0]] \<rparr>"

theorem written_current_reads_back_within_half_a_step_witness:
  "\<exists>rs v x. numeric_write_registers demo_numeric_write (Fin (803/50)) = Inr rs \<and>
    decode_register_value rs ''uint16'' ''big'' = Inr v \<and>
    bind_result (field_value_of (demo_read_field\<lparr> rf_data_type := ''uint16'', rf_scale := 10, rf_value_map := None \<rparr>) v)
      finite_field_value = Inr (Some x) \<and> \<bar>x - 803/50\<bar> \<le> 1/20"
proof -
  define rf where "rf = demo_read_field\<lparr> rf_data_type := ''uint16'', rf_scale := 10, rf_value_map := None \<rparr>"
  have "\<exists>rs v x. numeric_write_registers demo_numeric_write (Fin (803/50)) = Inr rs \<and>
    decode_register_value rs (rf_data_type rf) (rf_word_order rf) = Inr v \<and>
    bind_result (field_value_of rf v) finite_field_value = Inr (Some x) \<and>
    \<bar>x - 803/50\<bar> \<le> 1 / (2 * \<bar>nw_scale demo_numeric_write\<bar>)"
  proof (rule written_current_reads_back_within_half_a_step)
    show "integer_type (nw_data_type demo_numeric_write)" by (simp add: integer_type_def demo_numeric_write_def)
    show "1 / 2 ^ 512 \<le> \<bar>nw_scale demo_numeric_write\<bar>" by (simp add: demo_numeric_write_def)
    show "representable (nw_data_type demo_numeric_write) (SInt (round_half_even (803/50 * nw_scale demo_numeric_write)))"
      by (simp add: demo_numeric_write_def representable_def round_half_even_def normalized_type_def py_strip_def
          py_space_def py_lower_def Let_def)
    show "normalized_word_order (nw_word_order demo_numeric_write) = Inr ''big''"
      by (simp add: demo_numeric_write_def normalized_word_order_def py_strip_def py_space_def)
  qed (simp_all add: rf_def demo_read_field_def demo_numeric_write_def)
  then show ?thesis by (simp add: rf_def demo_read_field_def demo_numeric_write_def)
qed

theorem charger_caches_stay_consistent_witness:
  "caches_ok demo_profile (charger_run (\<lambda>_. '''') tcp_exchange 1 demo_profile [SetCurrent 16, SetEnabled False, ReadState]
    (new_charger_backend demo_profile None (demo_net [[6, 0, 30, 0, 160], [6, 0, 30, 0, 0], [1, 1, 0]])))"
proof -
  have "cf_supported demo_profile \<noteq> []" by (simp add: demo_profile_def)
  from charger_caches_stay_consistent [OF this refl] show ?thesis by (rule conjunct1)
qed

theorem enabling_resumes_the_current_witness:
  "\<exists>off r resumed. backend_set_enabled tcp_exchange 1 demo_profile False demo_charging = (Inr (), off) \<and>
    backend_set_enabled tcp_exchange 1 demo_profile True (off\<lparr> cb_transport := demo_net [[6, 0, 30, 0, 160]] \<rparr>) = (r, resumed) \<and>
    cb_current off = Some 0 \<and> r = Inr () \<and> cb_current resumed = Some 16"
proof -
  obtain off where off: "backend_set_enabled tcp_exchange 1 demo_profile False demo_charging = (Inr (), off)"
  proof -
    have "fst (backend_set_enabled tcp_exchange 1 demo_profile False demo_charging) = Inr ()" by code_simp
    then show ?thesis using that by (metis prod.collapse)
  qed
  obtain r resumed where on: "backend_set_enabled tcp_exchange 1 demo_profile True
      (off\<lparr> cb_transport := demo_net [[6, 0, 30, 0, 160]] \<rparr>) = (r, resumed)" by force
  have "caches_ok demo_profile demo_charging"
    by (simp add: caches_ok_def demo_charging_def demo_profile_def)
  moreover have "fst (profile_set_current tcp_exchange 1 demo_profile (Fin 16) (demo_net [[6, 0, 30, 0, 160]])) = Inr ()"
    by code_simp
  ultimately show ?thesis
    using enabling_resumes_the_current [OF _ _ _ _ _ off on, of 16] off on
    by (auto simp: demo_profile_def demo_charging_def)
qed

theorem mapped_enable_state_is_always_enabled_witness:
  "\<exists>st s'. profile_read_state (\<lambda>_. '''') tcp_exchange 1 demo_profile None None P1 (demo_net [[1, 1, 0]]) = (Inr st, s') \<and>
    ch_enabled st = Some True"
proof -
  define r where "r = profile_read_state (\<lambda>_. '''') tcp_exchange 1 demo_profile None None P1 (demo_net [[1, 1, 0]])"
  have "case fst r of Inl _ \<Rightarrow> False | Inr _ \<Rightarrow> True" unfolding r_def by code_simp
  then obtain st s' where st: "r = (Inr st, s')" by (cases r; cases "fst r") auto
  have "ch_enabled st = Some True"
    by (rule mapped_enable_state_is_always_enabled [OF _ _ _ st [unfolded r_def]])
      (auto simp: demo_profile_def demo_read_field_def)
  then show ?thesis using st by (auto simp: r_def)
qed

theorem smart_evse_writes_only_allowed_currents_witness:
  "\<exists>s1. read_register tcp_exchange 1 7 (demo_net [[3, 2, 0, 16]]) = (Inr 16, s1) \<and>
    (smart_set_current tcp_exchange 1 20 (demo_net [[3, 2, 0, 16]]) = (Inl (Raised ValueErr), s1) \<or>
     (\<exists>r. smart_set_current tcp_exchange 1 20 (demo_net [[3, 2, 0, 16]]) = write_single_register tcp_exchange 1 2 r s1 \<and>
       \<bar>of_int r - (20 :: rat)\<bar> \<le> 1/2 \<and> (r = 0 \<or> 6 \<le> r \<and> r \<le> 80) \<and> (6 \<le> (16 :: int) \<longrightarrow> r \<le> 16) \<and>
       smart_normalized_current r = of_int r))"
proof -
  have "fst (read_register tcp_exchange 1 7 (demo_net [[3, 2, 0, 16]])) = Inr 16" by code_simp
  then obtain s1 where s1: "read_register tcp_exchange 1 7 (demo_net [[3, 2, 0, 16]]) = (Inr 16, s1)"
    by (metis prod.collapse)
  show ?thesis
    by (intro exI [of _ s1] conjI s1 smart_evse_writes_only_allowed_currents [OF s1])
qed

end
