(* ===== verification/Charger_Transport.thy ===== *)
theory Charger_Transport
  imports Auto_State Py_Values
begin

text \<open>
  What one update cycle knows about the charger: fresh readbacks
  (\<open>venus_evcharger/update/readback_resolver.py\<close>, \<open>ports/readback.py\<close>), status words
  (\<open>update/relay_charger_readback.py\<close>), and the record of a transport issue with its retry window
  (\<open>update/relay_charger_transport.py\<close>, \<open>core/common_auto.py\<close>).

  The attributes of the service that the charger health components keep are one record
  \<open>charger_svc\<close>; an attribute read with \<open>getattr(svc, name, None)\<close> is an option, and numbers that pass
  \<open>finite_float_or_none\<close> keep their non-finite values.  Effects on collaborators are appended to
  \<open>cs_log\<close>.
\<close>

section \<open>Settings and state\<close>

record charger_cfg =
  cc_worker_poll :: "secs option"
  cc_live_publish :: "secs option"
  cc_soft_fail :: "secs option"
  cc_backoff_base :: "secs option"
  cc_latch_count :: "int option"
  cc_latch_seconds :: "secs option"
  cc_charging_threshold :: watts
  cc_min_current :: "pyfloat option"
  cc_max_current :: "pyfloat option"
  cc_idle_status :: int
  cc_enable_backend :: bool
  cc_current_backend :: bool

text \<open>One charger or switch snapshot with its capture time (\<open>TimedChargerState\<close>, \<open>TimedSwitchState\<close>).\<close>

record charger_reading =
  rb_enabled :: "bool option"
  rb_actual_current :: "pyfloat option"
  rb_power :: "pyfloat option"
  rb_energy :: "pyfloat option"
  rb_status :: "string option"
  rb_fault :: "string option"

record switch_reading =
  rb_feedback_closed :: "bool option"
  rb_interlock_ok :: "bool option"

record readbacks =
  rs_charger :: "(charger_reading \<times> pyfloat) option"
  rs_switch :: "(switch_reading \<times> pyfloat) option"

datatype charger_effect =
    SetEnabled bool | SetCurrent rat | QueueRelay bool | FailureMark string | RecoveryMark string
  | Warned string | LocalPm bool | DelayRetry string secs secs

record charger_svc =
  cs_transport_reason :: "string option"
  cs_transport_source :: "string option"
  cs_transport_detail :: "string option"
  cs_transport_at :: "pyfloat option"
  cs_retry_reason :: "string option"
  cs_retry_source :: "string option"
  cs_retry_until :: "pyfloat option"
  cs_retry_after :: "(string \<times> secs) list option"
  cs_fault_counts :: "(string \<times> pyval) list option"
  cs_active_reason :: "string option"
  cs_active_since :: "pyfloat option"
  cs_lockout_reason :: "string option"
  cs_lockout_source :: string
  cs_lockout_at :: "secs option"
  cs_open_since :: "pyfloat option"
  cs_welded_since :: "pyfloat option"
  cs_target_amps :: "pyfloat option"
  cs_target_at :: "secs option"
  cs_sync_expected :: "bool option"
  cs_sync_requested_at :: "pyfloat option"
  cs_sync_deadline_at :: "pyfloat option"
  cs_sync_reported :: bool
  cs_status_source :: string
  cs_fault_active :: int
  cs_log :: "charger_effect list"

definition charger_emit :: "charger_effect \<Rightarrow> charger_svc \<Rightarrow> charger_svc" where
  "charger_emit e s = s\<lparr>cs_log := cs_log s @ [e]\<rparr>"

section \<open>Fresh readbacks\<close>

definition readback_max_age_seconds :: "charger_cfg \<Rightarrow> secs" where
  "readback_max_age_seconds c =
    (let c0 = [2];
         c1 = (case positive_service_float (cc_worker_poll c) of None \<Rightarrow> c0 | Some p \<Rightarrow> c0 @ [p * 2]);
         c2 = (case positive_service_float (cc_soft_fail c) of None \<Rightarrow> c1 | Some t \<Rightarrow> c1 @ [t])
     in max 1 (fold min (tl c2) (hd c2)))"

definition fresh_snapshot :: "('a \<times> pyfloat) option \<Rightarrow> secs \<Rightarrow> secs \<Rightarrow> 'a option" where
  "fresh_snapshot snapshot now max_age =
    (case snapshot of
       Some (state, Fin captured_at) \<Rightarrow> if max_age < \<bar>now - captured_at\<bar> then None else Some state
     | _ \<Rightarrow> None)"

definition fresh_charger :: "charger_cfg \<Rightarrow> readbacks \<Rightarrow> secs \<Rightarrow> charger_reading option" where
  "fresh_charger c rs now = fresh_snapshot (rs_charger rs) now (readback_max_age_seconds c)"

definition fresh_switch :: "charger_cfg \<Rightarrow> readbacks \<Rightarrow> secs \<Rightarrow> switch_reading option" where
  "fresh_switch c rs now = fresh_snapshot (rs_switch rs) now (readback_max_age_seconds c)"

section \<open>Words of a status text\<close>

definition token_separators :: string where
  "token_separators = ''-_/.,;:''"

text \<open>\<open>str.split()\<close>: the maximal runs without white space.\<close>

function py_words :: "string \<Rightarrow> string list" where
  "py_words [] = []"
| "py_words (c # s) =
    (if py_space c then py_words s
     else (c # takeWhile (\<lambda>x. \<not> py_space x) s) # py_words (dropWhile (\<lambda>x. \<not> py_space x) s))"
  by pat_completeness auto
termination
  by (relation "measure length") (simp_all add: le_imp_less_Suc length_dropWhile_le)

definition text_tokens :: "string option \<Rightarrow> string set" where
  "text_tokens value =
    (case value of None \<Rightarrow> {}
     | Some text \<Rightarrow> set (py_words (map (\<lambda>c. if c \<in> set token_separators then CHR '' '' else c) (py_lower (py_strip text)))))"

definition charger_fault_hint_tokens :: "string set" where
  "charger_fault_hint_tokens = {''fault'', ''error'', ''failed'', ''failure'', ''alarm'', ''offline'',
     ''unavailable'', ''lockout'', ''tripped''}"

definition charging_hint_tokens :: "string set" where
  "charging_hint_tokens = {''charging''}"

definition ready_hint_tokens :: "string set" where
  "ready_hint_tokens = {''ready'', ''connected'', ''available'', ''idle''}"

definition waiting_hint_tokens :: "string set" where
  "waiting_hint_tokens = {''paused'', ''waiting'', ''suspended'', ''sleeping''}"

definition finished_hint_tokens :: "string set" where
  "finished_hint_tokens = {''complete'', ''completed'', ''finished'', ''done''}"

definition text_indicates_fault :: "string option \<Rightarrow> bool" where
  "text_indicates_fault value =
    (let tokens = text_tokens value in
     if tokens = {} \<or> ''no'' \<in> tokens then False else tokens \<inter> charger_fault_hint_tokens \<noteq> {})"

section \<open>Transport issues and retry windows\<close>

definition charger_transport_reasons :: "string list" where
  "charger_transport_reasons = [''busy'', ''ownership'', ''timeout'', ''offline'', ''response'', ''error'']"

definition normalized_charger_transport_reason :: "string option \<Rightarrow> string option" where
  "normalized_charger_transport_reason reason =
    (case reason of None \<Rightarrow> None
     | Some text \<Rightarrow> let n = py_lower (py_strip text) in if n \<in> set charger_transport_reasons then Some n else None)"

definition charger_transport_health_reason :: "string option \<Rightarrow> string option" where
  "charger_transport_health_reason reason =
    map_option (\<lambda>n. ''charger-transport-'' @ n) (normalized_charger_transport_reason reason)"

definition charger_transport_max_age_seconds :: "charger_cfg \<Rightarrow> secs" where
  "charger_transport_max_age_seconds c =
    (let c0 = [2];
         c1 = (case positive_service_float (cc_worker_poll c) of None \<Rightarrow> c0 | Some p \<Rightarrow> c0 @ [p * 2]);
         c2 = (case positive_service_float (cc_live_publish c) of None \<Rightarrow> c1 | Some p \<Rightarrow> c1 @ [p * 2]);
         c3 = (case positive_service_float (cc_soft_fail c) of None \<Rightarrow> c2 | Some t \<Rightarrow> c2 @ [t])
     in max 1 (fold min (tl c3) (hd c3)))"

definition fresh_charger_transport_timestamp :: "charger_cfg \<Rightarrow> charger_svc \<Rightarrow> secs \<Rightarrow> secs option" where
  "fresh_charger_transport_timestamp c s now =
    (case finite_float_or_none (cs_transport_at s) of None \<Rightarrow> None
     | Some t \<Rightarrow> if charger_transport_max_age_seconds c < \<bar>now - t\<bar> then None else Some t)"

definition fresh_charger_transport_reason :: "charger_cfg \<Rightarrow> charger_svc \<Rightarrow> secs \<Rightarrow> string option" where
  "fresh_charger_transport_reason c s now =
    (if fresh_charger_transport_timestamp c s now = None then None
     else normalized_charger_transport_reason (cs_transport_reason s))"

definition fresh_charger_retry_until :: "charger_svc \<Rightarrow> secs \<Rightarrow> secs option" where
  "fresh_charger_retry_until s now =
    (case finite_float_or_none (cs_retry_until s) of None \<Rightarrow> None
     | Some t \<Rightarrow> if now < t then Some t else None)"

definition fresh_charger_retry_reason :: "charger_svc \<Rightarrow> secs \<Rightarrow> string option" where
  "fresh_charger_retry_reason s now =
    (if fresh_charger_retry_until s now = None then None
     else normalized_charger_transport_reason (cs_retry_reason s))"

definition charger_retry_remaining_seconds :: "charger_svc \<Rightarrow> secs \<Rightarrow> int" where
  "charger_retry_remaining_seconds s now =
    (case fresh_charger_retry_until s now of None \<Rightarrow> -1 | Some t \<Rightarrow> \<lceil>t - now\<rceil>)"

definition charger_transport_retry_delay_seconds :: "charger_cfg \<Rightarrow> string option \<Rightarrow> secs" where
  "charger_transport_retry_delay_seconds c reason =
    (let base = (case positive_service_float (cc_backoff_base c) of Some x \<Rightarrow> x | None \<Rightarrow> 5);
         soft = (case positive_service_float (cc_soft_fail c) of Some x \<Rightarrow> x | None \<Rightarrow> 10);
         delays = [(''busy'', max 1 (min base 5)),
                   (''ownership'', max 3 (base * 2)),
                   (''timeout'', max 2 (min soft (max (base * (3/2)) 2))),
                   (''offline'', max (max 10 soft) (base * 4)),
                   (''response'', max 3 (base * 2))]
     in case normalized_charger_transport_reason reason of
          None \<Rightarrow> max 2 (base * 2)
        | Some n \<Rightarrow> (case map_of delays n of Some d \<Rightarrow> d | None \<Rightarrow> max 2 (base * 2)))"

text \<open>\<open>str(value).strip() or None\<close>.\<close>

definition stripped_or_none :: "string \<Rightarrow> string option" where
  "stripped_or_none text = (if py_strip text = [] then None else Some (py_strip text))"

definition remember_issue :: "string \<Rightarrow> string \<Rightarrow> string \<Rightarrow> secs \<Rightarrow> charger_svc \<Rightarrow> charger_svc" where
  "remember_issue reason source detail captured_at s = s\<lparr>
     cs_transport_reason := stripped_or_none reason,
     cs_transport_source := stripped_or_none source,
     cs_transport_detail := Some detail,
     cs_transport_at := Some (Fin captured_at)\<rparr>"

definition clear_issue :: "charger_svc \<Rightarrow> charger_svc" where
  "clear_issue s = s\<lparr>cs_transport_reason := None, cs_transport_source := None,
     cs_transport_detail := None, cs_transport_at := None\<rparr>"

text \<open>
  The delay is also handed to the shared source schedule: through \<open>_delay_source_retry\<close> where the
  service has one, else in the dictionary \<open>_source_retry_after\<close>.
\<close>

definition remember_retry :: "bool \<Rightarrow> charger_cfg \<Rightarrow> string \<Rightarrow> string \<Rightarrow> secs \<Rightarrow> charger_svc \<Rightarrow> charger_svc" where
  "remember_retry delay_callable c reason source captured_at s =
    (let delay = charger_transport_retry_delay_seconds c (Some reason);
         s1 = (if delay_callable then charger_emit (DelayRetry ''charger'' captured_at delay) s
               else s\<lparr>cs_retry_after := map_option (AList.update ''charger'' (captured_at + delay)) (cs_retry_after s)\<rparr>)
     in s1\<lparr>cs_retry_reason := stripped_or_none reason,
           cs_retry_source := stripped_or_none source,
           cs_retry_until := Some (Fin (captured_at + delay))\<rparr>)"

definition clear_retry :: "charger_svc \<Rightarrow> charger_svc" where
  "clear_retry s = s\<lparr>cs_retry_reason := None, cs_retry_source := None, cs_retry_until := None,
     cs_retry_after := map_option (AList.update ''charger'' 0) (cs_retry_after s)\<rparr>"

definition retry_active :: "charger_svc \<Rightarrow> secs \<Rightarrow> bool" where
  "retry_active s now \<longleftrightarrow> fresh_charger_retry_until s now \<noteq> None"

section \<open>Facts\<close>

lemma readback_age_bounds: "1 \<le> readback_max_age_seconds c" "readback_max_age_seconds c \<le> 2"
  by (auto simp: readback_max_age_seconds_def Let_def min_def max_def split: option.splits)

lemma fresh_snapshot_recent:
  "fresh_snapshot x now (readback_max_age_seconds c) = Some st \<Longrightarrow>
    \<exists>t. x = Some (st, Fin t) \<and> \<bar>now - t\<bar> \<le> 2"
  using readback_age_bounds(2) [of c]
  by (auto simp: fresh_snapshot_def split: option.splits prod.splits pyfloat.splits if_splits)

lemma retry_delay_positive: "1 \<le> charger_transport_retry_delay_seconds c r"
  by (auto simp: charger_transport_retry_delay_seconds_def Let_def max_def split: option.splits)

lemma retry_window_opens:
  "retry_active (remember_retry b c r src t s) now \<longleftrightarrow> now < t + charger_transport_retry_delay_seconds c (Some r)"
  by (simp add: retry_active_def fresh_charger_retry_until_def remember_retry_def Let_def)

lemma retry_window_closed [simp]: "\<not> retry_active (clear_retry s) now"
  by (simp add: retry_active_def fresh_charger_retry_until_def clear_retry_def)

lemma text_tokens_nonempty: "[] \<notin> text_tokens v"
proof -
  have "[] \<notin> set (py_words s)" for s by (induction s rule: py_words.induct) auto
  then show ?thesis by (simp add: text_tokens_def split: option.splits)
qed

end
