(* ===== verification/Contactor_Health.thy ===== *)
theory Contactor_Health
  imports Charger_Transport
begin

text \<open>
  Charger and contactor health (\<open>venus_evcharger/update/relay_charger_health.py\<close>): explicit switch
  feedback and interlock faults, the latched lockout, the suspicion heuristics with their delay, the
  fault counters that latch the lockout, transport and fault health of a native charger, and the
  status hints of its text.  The clock is the \<open>now\<close> of the update cycle, which the code passes to
  every call.
\<close>

section \<open>Thresholds and observed load\<close>

definition contactor_heuristic_delay_seconds :: "charger_cfg \<Rightarrow> secs" where
  "contactor_heuristic_delay_seconds c = (case cc_soft_fail c of None \<Rightarrow> 0 | Some d \<Rightarrow> max 0 d)"

definition contactor_lockout_threshold :: "charger_cfg \<Rightarrow> int" where
  "contactor_lockout_threshold c = (case cc_latch_count c of None \<Rightarrow> 3 | Some n \<Rightarrow> max 0 n)"

definition contactor_lockout_persistence_seconds :: "charger_cfg \<Rightarrow> secs" where
  "contactor_lockout_persistence_seconds c = (case cc_latch_seconds c of None \<Rightarrow> 60 | Some d \<Rightarrow> max 0 d)"

definition contactor_power_threshold_w :: "charger_cfg \<Rightarrow> watts" where
  "contactor_power_threshold_w c = max 100 (cc_charging_threshold c)"

definition contactor_current_threshold_a :: "charger_cfg \<Rightarrow> amps" where
  "contactor_current_threshold_a c =
    (case finite_float_or_none (cc_min_current c) of None \<Rightarrow> 1 | Some a \<Rightarrow> max 1 (a / 4))"

definition pm_load_active :: "charger_cfg \<Rightarrow> watts \<Rightarrow> amps \<Rightarrow> bool \<Rightarrow> bool" where
  "pm_load_active c power_w current pm_confirmed =
    (if \<not> pm_confirmed then False
     else if contactor_power_threshold_w c \<le> power_w then True
     else contactor_current_threshold_a c \<le> current)"

definition reaches :: "rat \<Rightarrow> pyfloat option \<Rightarrow> bool" where
  "reaches threshold value = (case value of None \<Rightarrow> False | Some x \<Rightarrow> pf_le (Fin threshold) x)"

definition charger_state_load_active :: "charger_cfg \<Rightarrow> charger_reading \<Rightarrow> bool" where
  "charger_state_load_active c st =
    (if reaches (contactor_power_threshold_w c) (rb_power st) then True
     else reaches (contactor_current_threshold_a c) (rb_actual_current st))"

definition charger_state_requests_load :: "charger_cfg \<Rightarrow> charger_reading \<Rightarrow> bool" where
  "charger_state_requests_load c st =
    (if charger_state_load_active c st then True
     else text_tokens (rb_status st) \<inter> charging_hint_tokens \<noteq> {})"

definition combined_load_active ::
  "charger_cfg \<Rightarrow> watts \<Rightarrow> amps \<Rightarrow> bool \<Rightarrow> charger_reading option \<Rightarrow> bool" where
  "combined_load_active c power_w current pm_confirmed st =
    (if pm_load_active c power_w current pm_confirmed then True
     else case st of None \<Rightarrow> False | Some r \<Rightarrow> charger_state_load_active c r)"

definition requests_load_if_present :: "charger_cfg \<Rightarrow> charger_reading option \<Rightarrow> bool" where
  "requests_load_if_present c st = (case st of None \<Rightarrow> False | Some r \<Rightarrow> charger_state_requests_load c r)"

definition suspected_open_condition :: "bool \<Rightarrow> bool \<Rightarrow> bool \<Rightarrow> bool" where
  "suspected_open_condition relay_on demand_active observed_load \<longleftrightarrow> relay_on \<and> demand_active \<and> \<not> observed_load"

definition suspected_welded_condition :: "bool \<Rightarrow> bool \<Rightarrow> bool" where
  "suspected_welded_condition relay_on observed_load \<longleftrightarrow> \<not> relay_on \<and> observed_load"

section \<open>Ages, counters and the lockout\<close>

text \<open>The age of a condition, and the time stamp it started at.\<close>

definition heuristic_condition_age :: "pyfloat option \<Rightarrow> bool \<Rightarrow> secs \<Rightarrow> secs option \<times> pyfloat option" where
  "heuristic_condition_age since condition_active now =
    (if \<not> condition_active then (None, None)
     else case finite_float_or_none since of
            None \<Rightarrow> (Some 0, Some (Fin now))
          | Some started_at \<Rightarrow> (Some (max 0 (now - started_at)), since))"

definition suspected_open :: string where "suspected_open = ''contactor-suspected-open''"
definition suspected_welded :: string where "suspected_welded = ''contactor-suspected-welded''"
definition lockout_open :: string where "lockout_open = ''contactor-lockout-open''"
definition lockout_welded :: string where "lockout_welded = ''contactor-lockout-welded''"

definition base_contactor_fault_reason :: "string option \<Rightarrow> string option" where
  "base_contactor_fault_reason reason =
    (case reason of None \<Rightarrow> None
     | Some text \<Rightarrow> let n = py_strip text in if n = suspected_open \<or> n = suspected_welded then Some n else None)"

definition contactor_lockout_health_reason :: "string option \<Rightarrow> string option" where
  "contactor_lockout_health_reason reason =
    (case base_contactor_fault_reason reason of None \<Rightarrow> None
     | Some n \<Rightarrow> if n = suspected_open then Some lockout_open
                 else if n = suspected_welded then Some lockout_welded else None)"

fun normalized_contactor_fault_counts :: "(string \<times> pyval) list \<Rightarrow> (string \<times> int) list" where
  "normalized_contactor_fault_counts [] = []"
| "normalized_contactor_fault_counts ((reason, count) # m) =
    (if reason \<noteq> suspected_open \<and> reason \<noteq> suspected_welded then normalized_contactor_fault_counts m
     else case count of PInt n \<Rightarrow> (reason, max 0 n) # normalized_contactor_fault_counts m
                      | _ \<Rightarrow> normalized_contactor_fault_counts m)"

definition stored_counts :: "(string \<times> int) list \<Rightarrow> (string \<times> pyval) list option" where
  "stored_counts m = Some (map (\<lambda>(k, n). (k, PInt n)) m)"

definition contactor_fault_counts :: "charger_svc \<Rightarrow> (string \<times> int) list \<times> charger_svc" where
  "contactor_fault_counts s =
    (let n = (case cs_fault_counts s of Some m \<Rightarrow> normalized_contactor_fault_counts m | None \<Rightarrow> [])
     in (n, s\<lparr>cs_fault_counts := stored_counts n\<rparr>))"

definition dict_count :: "(string \<times> int) list \<Rightarrow> string \<Rightarrow> int" where
  "dict_count m k = (case map_of m k of None \<Rightarrow> 0 | Some n \<Rightarrow> n)"

definition contactor_fault_count :: "charger_svc \<Rightarrow> string \<Rightarrow> int \<times> charger_svc" where
  "contactor_fault_count s reason =
    (case base_contactor_fault_reason (Some reason) of None \<Rightarrow> (0, s)
     | Some n \<Rightarrow> let (counts, s1) = contactor_fault_counts s in (max 0 (dict_count counts n), s1))"

definition clear_contactor_fault_active_state :: "charger_svc \<Rightarrow> charger_svc" where
  "clear_contactor_fault_active_state s = s\<lparr>cs_active_reason := None, cs_active_since := None\<rparr>"

definition clear_contactor_lockout :: "charger_svc \<Rightarrow> charger_svc" where
  "clear_contactor_lockout s = s\<lparr>cs_lockout_reason := Some '''', cs_lockout_source := '''', cs_lockout_at := None\<rparr>"

definition clear_contactor_fault_tracking :: "charger_svc \<Rightarrow> charger_svc" where
  "clear_contactor_fault_tracking s =
    (clear_contactor_lockout (clear_contactor_fault_active_state (s\<lparr>cs_fault_counts := Some []\<rparr>)))
      \<lparr>cs_open_since := None, cs_welded_since := None\<rparr>"

definition clear_contactor_suspicions :: "charger_svc \<Rightarrow> charger_svc" where
  "clear_contactor_suspicions s =
    (clear_contactor_fault_active_state s)\<lparr>cs_open_since := None, cs_welded_since := None\<rparr>"

definition engage_contactor_lockout :: "charger_svc \<Rightarrow> string \<Rightarrow> secs \<Rightarrow> string \<Rightarrow> charger_svc" where
  "engage_contactor_lockout s base_reason now source =
    (case base_contactor_fault_reason (Some base_reason) of None \<Rightarrow> clear_contactor_lockout s
     | Some n \<Rightarrow> s\<lparr>cs_lockout_reason := Some n,
          cs_lockout_source := (if py_strip source = [] then ''count-threshold'' else py_strip source),
          cs_lockout_at := Some now\<rparr>)"

definition active_contactor_lockout_health :: "charger_svc \<Rightarrow> string option" where
  "active_contactor_lockout_health s = contactor_lockout_health_reason (cs_lockout_reason s)"

definition activate_contactor_fault_reason :: "charger_svc \<Rightarrow> string \<Rightarrow> secs \<Rightarrow> secs \<times> charger_svc" where
  "activate_contactor_fault_reason s normalized current =
    (case (base_contactor_fault_reason (cs_active_reason s), finite_float_or_none (cs_active_since s)) of
       (active, since) \<Rightarrow>
         if active = Some normalized \<and> since \<noteq> None then (the since, s)
         else let (counts, s1) = contactor_fault_counts s;
                  bumped = AList.update normalized (max 0 (dict_count counts normalized) + 1) counts
              in (current, s1\<lparr>cs_fault_counts := stored_counts bumped,
                    cs_active_reason := Some normalized, cs_active_since := Some (Fin current)\<rparr>))"

definition contactor_fault_exceeds_count_threshold :: "charger_cfg \<Rightarrow> int \<Rightarrow> bool" where
  "contactor_fault_exceeds_count_threshold c count \<longleftrightarrow>
    0 < contactor_lockout_threshold c \<and> contactor_lockout_threshold c \<le> count"

definition remember_contactor_fault ::
  "charger_cfg \<Rightarrow> charger_svc \<Rightarrow> string \<Rightarrow> secs \<Rightarrow> string option \<times> charger_svc" where
  "remember_contactor_fault c s reason now =
    (case base_contactor_fault_reason (Some reason) of
       None \<Rightarrow> (None, clear_contactor_fault_active_state s)
     | Some n \<Rightarrow>
        let (active_since, s1) = activate_contactor_fault_reason s n now;
            (count, s2) = contactor_fault_count s1 n;
            persistence = contactor_lockout_persistence_seconds c
        in if contactor_fault_exceeds_count_threshold c count
           then let s3 = engage_contactor_lockout s2 n now ''count-threshold'' in (active_contactor_lockout_health s3, s3)
           else if 0 < persistence \<and> persistence \<le> now - active_since
           then let s3 = engage_contactor_lockout s2 n now ''persistent'' in (active_contactor_lockout_health s3, s3)
           else (Some n, s2))"

section \<open>Health of the switch\<close>

definition switch_state_safety_override :: "switch_reading \<Rightarrow> bool \<Rightarrow> bool \<Rightarrow> string option" where
  "switch_state_safety_override st desired_relay relay_on =
    (if rb_interlock_ok st = Some False \<and> (desired_relay \<or> relay_on) then Some ''contactor-interlock''
     else if switch_feedback_mismatch relay_on (rb_feedback_closed st) then Some ''contactor-feedback-mismatch''
     else None)"

text \<open>What one call is given beside the service: the readbacks, the relay intent and state, and the power meter.\<close>

record health_call =
  hl_readbacks :: readbacks
  hl_desired :: bool
  hl_relay_on :: bool
  hl_power :: watts
  hl_current :: amps
  hl_confirmed :: bool
  hl_now :: secs

definition switch_safety_reason :: "charger_cfg \<Rightarrow> health_call \<Rightarrow> string option" where
  "switch_safety_reason c e =
    (case fresh_switch c (hl_readbacks e) (hl_now e) of None \<Rightarrow> None
     | Some st \<Rightarrow> switch_state_safety_override st (hl_desired e) (hl_relay_on e))"

definition switch_feedback_safety_override ::
  "charger_cfg \<Rightarrow> charger_svc \<Rightarrow> health_call \<Rightarrow> string option \<times> charger_svc" where
  "switch_feedback_safety_override c s e =
    (case switch_safety_reason c e of
       None \<Rightarrow> (None, s)
     | Some reason \<Rightarrow> (Some reason, clear_contactor_suspicions s))"

definition observed_load :: "charger_cfg \<Rightarrow> health_call \<Rightarrow> bool" where
  "observed_load c e = combined_load_active c (hl_power e) (hl_current e) (hl_confirmed e)
     (fresh_charger c (hl_readbacks e) (hl_now e))"

definition open_condition :: "charger_cfg \<Rightarrow> health_call \<Rightarrow> bool" where
  "open_condition c e = suspected_open_condition (hl_relay_on e)
     (requests_load_if_present c (fresh_charger c (hl_readbacks e) (hl_now e))) (observed_load c e)"

definition welded_condition :: "charger_cfg \<Rightarrow> health_call \<Rightarrow> bool" where
  "welded_condition c e = suspected_welded_condition (hl_relay_on e) (observed_load c e)"

definition contactor_suspected_ages ::
  "charger_cfg \<Rightarrow> charger_svc \<Rightarrow> health_call \<Rightarrow> (secs option \<times> secs option) \<times> charger_svc" where
  "contactor_suspected_ages c s e =
    (let (open_age, open_since) = heuristic_condition_age (cs_open_since s) (open_condition c e) (hl_now e);
         (welded_age, welded_since) = heuristic_condition_age (cs_welded_since s) (welded_condition c e) (hl_now e)
     in ((open_age, welded_age), s\<lparr>cs_open_since := open_since, cs_welded_since := welded_since\<rparr>))"

definition reached_delay :: "secs option \<Rightarrow> secs \<Rightarrow> bool" where
  "reached_delay age delay = (case age of None \<Rightarrow> False | Some a \<Rightarrow> delay \<le> a)"

definition switch_feedback_heuristic_override ::
  "charger_cfg \<Rightarrow> charger_svc \<Rightarrow> health_call \<Rightarrow> string option \<times> charger_svc" where
  "switch_feedback_heuristic_override c s e =
    (let ((open_age, welded_age), s1) = contactor_suspected_ages c s e;
         delay = contactor_heuristic_delay_seconds c
     in if reached_delay welded_age delay then remember_contactor_fault c s1 suspected_welded (hl_now e)
        else if reached_delay open_age delay then remember_contactor_fault c s1 suspected_open (hl_now e)
        else (None, clear_contactor_fault_active_state s1))"

definition switch_feedback_health_override ::
  "charger_cfg \<Rightarrow> charger_svc \<Rightarrow> health_call \<Rightarrow> string option \<times> charger_svc" where
  "switch_feedback_health_override c s e =
    (case switch_feedback_safety_override c s e of
       (Some reason, s1) \<Rightarrow> (Some reason, s1)
     | (None, s1) \<Rightarrow>
        case active_contactor_lockout_health s1 of
          Some lockout \<Rightarrow> (Some lockout, s1)
        | None \<Rightarrow> switch_feedback_heuristic_override c s1 e)"

section \<open>Health and status of the charger\<close>

definition active_charger_transport_health :: "charger_cfg \<Rightarrow> charger_svc \<Rightarrow> secs \<Rightarrow> string option" where
  "active_charger_transport_health c s now =
    (case fresh_charger_transport_reason c s now of
       Some reason \<Rightarrow> charger_transport_health_reason (Some reason)
     | None \<Rightarrow> (case fresh_charger_retry_reason s now of None \<Rightarrow> None
                | Some retry \<Rightarrow> charger_transport_health_reason (Some retry)))"

definition charger_state_health :: "charger_reading \<Rightarrow> string option" where
  "charger_state_health st =
    (if text_indicates_fault (rb_fault st) \<or> text_indicates_fault (rb_status st) then Some ''charger-fault'' else None)"

definition charger_health_override :: "charger_cfg \<Rightarrow> charger_svc \<Rightarrow> readbacks \<Rightarrow> secs \<Rightarrow> string option" where
  "charger_health_override c s rs now =
    (case active_charger_transport_health c s now of
       Some reason \<Rightarrow> Some reason
     | None \<Rightarrow> (case fresh_charger c rs now of None \<Rightarrow> None | Some st \<Rightarrow> charger_state_health st))"

definition charger_status_token_rules :: "charger_cfg \<Rightarrow> bool \<Rightarrow> (string set \<times> int \<times> string) list" where
  "charger_status_token_rules c auto_mode_active =
    [(finished_hint_tokens, 3, ''charger-status-finished''),
     (waiting_hint_tokens, if auto_mode_active then 4 else 6, ''charger-status-waiting''),
     (charging_hint_tokens, 2, ''charger-status-charging''),
     (ready_hint_tokens, cc_idle_status c, ''charger-status-ready'')]"

definition charger_status_override :: "charger_cfg \<Rightarrow> readbacks \<Rightarrow> bool \<Rightarrow> secs \<Rightarrow> (int \<times> string) option" where
  "charger_status_override c rs auto_mode_active now =
    (let tokens = text_tokens (case fresh_charger c rs now of None \<Rightarrow> None | Some st \<Rightarrow> rb_status st)
     in if tokens = {} then None
        else map_option snd (find (\<lambda>rule. tokens \<inter> fst rule \<noteq> {}) (charger_status_token_rules c auto_mode_active)))"

definition effective_enabled_state :: "charger_cfg \<Rightarrow> readbacks \<Rightarrow> bool \<Rightarrow> secs \<Rightarrow> bool" where
  "effective_enabled_state c rs relay_on now =
    (case fresh_charger c rs now of None \<Rightarrow> relay_on
     | Some st \<Rightarrow> (case rb_enabled st of None \<Rightarrow> relay_on | Some b \<Rightarrow> b))"

definition enable_control_source_key :: "charger_cfg \<Rightarrow> string" where
  "enable_control_source_key c = (if cc_enable_backend c then ''charger'' else ''shelly'')"

end
