(* ===== verification/Charger_Target.thy ===== *)
theory Charger_Target
  imports Contactor_Health Schedule Modbus_Config
begin

text \<open>
  The charger current target and the writes to a native charger or the relay
  (\<open>venus_evcharger/update/relay_charger_current_targets.py\<close>, \<open>relay_charger_current.py\<close>), and the
  relay decision and status code of one cycle (\<open>relay_status_publish.py\<close>).

  What the backends answer is in \<open>charger_env\<close>: a write gives \<open>None\<close> or the error it raised, one of the
  transport errors of the Modbus client or any other exception by its class.
\<close>

section \<open>The target\<close>

record target_in =
  ti_mode :: "int option"
  ti_local :: "secs \<Rightarrow> moment"
  ti_windows :: month_table
  ti_days :: enabled_days
  ti_delay :: secs
  ti_latest_end :: pyval
  ti_night_current :: "pyfloat option"
  ti_learned_state :: "string option"
  ti_learned_power :: "pyfloat option"
  ti_learned_voltage :: "pyfloat option"
  ti_learned_phase :: "string option"
  ti_phase :: "string option"
  ti_learned_at :: "pyfloat option"
  ti_max_age :: "pyfloat option"
  ti_voltage_mode :: "string option"
  ti_set_current :: "pyfloat option"

definition apply_minimum :: "rat \<Rightarrow> rat option \<Rightarrow> rat" where
  "apply_minimum target min_current = (case min_current of Some m \<Rightarrow> max target m | None \<Rightarrow> target)"

definition apply_maximum :: "rat \<Rightarrow> rat option \<Rightarrow> rat" where
  "apply_maximum target max_current =
    (case max_current of None \<Rightarrow> target | Some m \<Rightarrow> if m \<le> 0 then target else min target m)"

definition clamped_target :: "charger_cfg \<Rightarrow> rat option \<Rightarrow> rat option" where
  "clamped_target c value =
    (case value of None \<Rightarrow> None
     | Some v \<Rightarrow>
        let t = apply_maximum (apply_minimum v (finite_float_or_none (cc_min_current c)))
                  (finite_float_or_none (cc_max_current c))
        in if 0 < t then Some t else None)"

definition learned_charge_power_phases :: "string list" where
  "learned_charge_power_phases = [''L1'', ''L2'', ''L3'', ''3P'']"

definition normalize_learning_phase :: "string option \<Rightarrow> string option" where
  "normalize_learning_phase value =
    (case value of None \<Rightarrow> None
     | Some text \<Rightarrow> let p = py_upper (py_strip text) in if p \<in> set learned_charge_power_phases then Some p else None)"

definition raw_learned_phase :: "target_in \<Rightarrow> string option" where
  "raw_learned_phase i =
    (let raw = (case ti_learned_phase i of None \<Rightarrow> ti_phase i | Some p \<Rightarrow> Some p)
     in if raw \<noteq> None then normalize_learning_phase raw else Some ''L1'')"

definition positive_scalar :: "rat option \<Rightarrow> rat option" where
  "positive_scalar value = (case value of None \<Rightarrow> None | Some v \<Rightarrow> if v \<le> 0 then None else Some v)"

text \<open>The validated learned inputs: power, voltage, phase and time of the last update.\<close>

definition stable_learned_inputs :: "target_in \<Rightarrow> (rat \<times> rat \<times> string \<times> secs) option" where
  "stable_learned_inputs i =
    (if normalize_learning_state (ti_learned_state i) \<noteq> ''stable'' then None
     else case (positive_scalar (finite_float_or_none (ti_learned_power i)),
                positive_scalar (finite_float_or_none (ti_learned_voltage i))) of
            (Some p, Some v) \<Rightarrow>
              (case (raw_learned_phase i, finite_float_or_none (ti_learned_at i)) of
                 (Some ph, Some t) \<Rightarrow> Some (p, v, ph, t)
               | _ \<Rightarrow> None)
          | _ \<Rightarrow> None)"

definition learned_target_stale :: "secs \<Rightarrow> secs \<Rightarrow> secs option \<Rightarrow> bool" where
  "learned_target_stale now updated_at max_age =
    (if \<not> updated_at \<le> now + 1 then True
     else case max_age of None \<Rightarrow> False | Some m \<Rightarrow> 0 < m \<and> m < now - updated_at)"

definition learned_phase_voltage :: "target_in \<Rightarrow> string \<Rightarrow> rat \<Rightarrow> rat" where
  "learned_phase_voltage i ph voltage =
    (if ph \<noteq> ''3P'' \<or> normalized_voltage_mode (ti_voltage_mode i) = ''phase'' then voltage
     else max 0 voltage / sqrt3_float)"

definition rounded_learned_target :: "rat \<Rightarrow> rat \<Rightarrow> rat \<Rightarrow> rat option" where
  "rounded_learned_target learned phase_volts count =
    (if phase_volts \<le> 0 \<or> count \<le> 0 then None
     else Some (of_int (round_half_even (learned / (phase_volts * count)))))"

definition derived_learned_target :: "charger_cfg \<Rightarrow> target_in \<Rightarrow> secs \<Rightarrow> rat option" where
  "derived_learned_target c i now =
    (case stable_learned_inputs i of None \<Rightarrow> None
     | Some (p, v, ph, updated_at) \<Rightarrow>
        if learned_target_stale now updated_at (finite_float_or_none (ti_max_age i)) then None
        else clamped_target c (rounded_learned_target p (learned_phase_voltage i ph v) (if ph = ''3P'' then 3 else 1)))"

definition scheduled_night_active :: "target_in \<Rightarrow> secs \<Rightarrow> bool" where
  "scheduled_night_active i now =
    (case ti_mode i of None \<Rightarrow> False
     | Some m \<Rightarrow>
        if \<not> mode_uses_scheduled_logic m then False
        else ss_night_boost (scheduled_mode_snapshot (ti_local i now) (ti_windows i) (ti_days i) (ti_delay i) (ti_latest_end i)))"

definition scheduled_night_current :: "charger_cfg \<Rightarrow> target_in \<Rightarrow> rat option" where
  "scheduled_night_current c i =
    (case finite_float_or_none (ti_night_current i) of
       Some a \<Rightarrow> if 0 < a then Some a else finite_float_or_none (cc_max_current c)
     | None \<Rightarrow> finite_float_or_none (cc_max_current c))"

definition target_allowed :: "charger_cfg \<Rightarrow> bool \<Rightarrow> bool \<Rightarrow> bool" where
  "target_allowed c desired_relay auto_mode_active =
    (if \<not> auto_mode_active \<or> \<not> desired_relay then False else cc_current_backend c)"

definition current_target :: "charger_cfg \<Rightarrow> target_in \<Rightarrow> bool \<Rightarrow> secs \<Rightarrow> bool \<Rightarrow> rat option" where
  "current_target c i desired_relay now auto_mode_active =
    (if \<not> target_allowed c desired_relay auto_mode_active then None
     else if scheduled_night_active i now then clamped_target c (scheduled_night_current c i)
     else case derived_learned_target c i now of
            Some t \<Rightarrow> Some t
          | None \<Rightarrow> clamped_target c (finite_float_or_none (ti_set_current i)))"

section \<open>Writes\<close>

record charger_env =
  ce_set_current :: "rat \<Rightarrow> modbus_error option"
  ce_set_enabled :: "bool \<Rightarrow> modbus_error option"
  ce_queue_relay :: "bool \<Rightarrow> modbus_error option"
  ce_detail :: "modbus_error \<Rightarrow> string"
  ce_delay_callable :: bool
  ce_clock :: secs

text \<open>The builtin class an \<open>except\<close> clause sees.\<close>

fun error_class :: "modbus_error \<Rightarrow> exc" where
  "error_class ProtocolErr = ValueErr"
| "error_class (OsErr _) = OSError"
| "error_class SocketTimeout = OSError"
| "error_class (Raised e) = e"
| "error_class _ = RuntimeErr"

definition charger_current_apply_errors :: "exc list" where
  "charger_current_apply_errors = [OSError, RuntimeErr, TypeErr, ValueErr]"

definition relay_target_apply_errors :: "exc list" where
  "relay_target_apply_errors = [KeyError, OSError, RuntimeErr, TypeErr, ValueErr]"

definition current_reset_needed :: "bool \<Rightarrow> bool \<Rightarrow> bool" where
  "current_reset_needed desired_relay auto_mode_active \<longleftrightarrow> \<not> auto_mode_active \<or> \<not> desired_relay"

definition reset_current_target :: "charger_svc \<Rightarrow> charger_svc" where
  "reset_current_target s = s\<lparr>cs_target_amps := None, cs_target_at := None\<rparr>"

definition target_unchanged :: "rat option \<Rightarrow> rat \<Rightarrow> bool" where
  "target_unchanged last_target target =
    (case last_target of None \<Rightarrow> False | Some t \<Rightarrow> \<bar>t - target\<bar> < 1 / 100)"

definition note_transport_failure ::
  "charger_env \<Rightarrow> charger_cfg \<Rightarrow> modbus_error \<Rightarrow> string \<Rightarrow> secs \<Rightarrow> charger_svc \<Rightarrow> charger_svc" where
  "note_transport_failure env c error source now s =
    (case modbus_transport_issue_reason error of None \<Rightarrow> s
     | Some reason \<Rightarrow> remember_retry (ce_delay_callable env) c reason source now
                        (remember_issue reason source (ce_detail env error) now s))"

definition handle_current_target_failure ::
  "charger_env \<Rightarrow> charger_cfg \<Rightarrow> modbus_error \<Rightarrow> secs \<Rightarrow> charger_svc \<Rightarrow> charger_svc" where
  "handle_current_target_failure env c error now s =
    charger_emit (Warned ''charger-current-failed'')
      (charger_emit (FailureMark ''charger'') (note_transport_failure env c error ''current'' now s))"

definition remember_current_target :: "rat \<Rightarrow> secs \<Rightarrow> charger_svc \<Rightarrow> charger_svc" where
  "remember_current_target target now s =
    charger_emit (RecoveryMark ''charger'') (s\<lparr>cs_target_amps := Some (Fin target), cs_target_at := Some now\<rparr>)"

definition apply_new_current_target ::
  "charger_env \<Rightarrow> charger_cfg \<Rightarrow> rat \<Rightarrow> secs \<Rightarrow> rat option \<Rightarrow> charger_svc \<Rightarrow> (modbus_error + rat option) \<times> charger_svc" where
  "apply_new_current_target env c target now last_target s =
    (if retry_active s now then (Inr last_target, s)
     else let s1 = charger_emit (SetCurrent target) s in
       case ce_set_current env target of
         Some error \<Rightarrow>
           if error_class error \<in> set charger_current_apply_errors
           then (Inr last_target, handle_current_target_failure env c error now s1) else (Inl error, s1)
       | None \<Rightarrow> (Inr (Some target), remember_current_target target now (clear_retry (clear_issue s1))))"

definition apply_current_target ::
  "charger_env \<Rightarrow> charger_cfg \<Rightarrow> target_in \<Rightarrow> bool \<Rightarrow> secs \<Rightarrow> bool \<Rightarrow> charger_svc
    \<Rightarrow> (modbus_error + rat option) \<times> charger_svc" where
  "apply_current_target env c i desired_relay now auto_mode_active s =
    (if \<not> cc_current_backend c then (Inr None, s)
     else if current_reset_needed desired_relay auto_mode_active then (Inr None, reset_current_target s)
     else case current_target c i desired_relay now auto_mode_active of
            None \<Rightarrow> (Inr None, s)
          | Some target \<Rightarrow>
             let last_target = finite_float_or_none (cs_target_amps s)
             in if target_unchanged last_target target then (Inr last_target, s)
                else apply_new_current_target env c target now last_target s)"

text \<open>\<open>ChargerTargetController.apply_enabled_target\<close>: a native charger, else the relay queue.\<close>

definition charger_apply_enabled ::
  "charger_env \<Rightarrow> charger_cfg \<Rightarrow> bool \<Rightarrow> secs \<Rightarrow> charger_svc \<Rightarrow> (modbus_error + bool) \<times> charger_svc" where
  "charger_apply_enabled env c enabled now s =
    (if cc_enable_backend c then
       if retry_active s now then (Inr False, s)
       else let s1 = charger_emit (SetEnabled enabled) s in
         case ce_set_enabled env enabled of
           Some error \<Rightarrow> (Inl error, s1)
         | None \<Rightarrow> (Inr True, charger_emit (RecoveryMark ''charger'') (clear_retry (clear_issue s1)))
     else let s1 = charger_emit (QueueRelay enabled) s in
       case ce_queue_relay env enabled of Some error \<Rightarrow> (Inl error, s1) | None \<Rightarrow> (Inr True, s1))"

section \<open>The relay decision\<close>

definition relay_decision_noop :: "charger_svc \<Rightarrow> bool \<Rightarrow> bool \<Rightarrow> bool" where
  "relay_decision_noop s desired_relay relay_on =
    (if desired_relay = relay_on then True else cs_sync_expected s = Some desired_relay)"

definition handle_relay_decision_failure ::
  "charger_env \<Rightarrow> charger_cfg \<Rightarrow> modbus_error \<Rightarrow> charger_svc \<Rightarrow> charger_svc" where
  "handle_relay_decision_failure env c error s =
    (let key = enable_control_source_key c;
         s1 = (if key = ''charger'' then note_transport_failure env c error ''enable'' (ce_clock env) s else s)
     in charger_emit (Warned (key @ ''-switch-failed'')) (charger_emit (FailureMark key) s1))"

text \<open>Relay state, power, current and confirmation after the decision was applied.\<close>

definition apply_relay_decision ::
  "charger_env \<Rightarrow> charger_cfg \<Rightarrow> bool \<Rightarrow> bool \<times> watts \<times> amps \<times> bool \<Rightarrow> secs \<Rightarrow> charger_svc
    \<Rightarrow> (modbus_error + bool \<times> watts \<times> amps \<times> bool) \<times> charger_svc" where
  "apply_relay_decision env c desired_relay reading now s =
    (if relay_decision_noop s desired_relay (fst reading) then (Inr reading, s)
     else case charger_apply_enabled env c desired_relay now s of
            (Inl error, s1) \<Rightarrow>
              if error_class error \<in> set relay_target_apply_errors
              then (Inr reading, handle_relay_decision_failure env c error s1) else (Inl error, s1)
          | (Inr False, s1) \<Rightarrow> (Inr reading, s1)
          | (Inr True, s1) \<Rightarrow> (Inr (desired_relay, 0, 0, False), charger_emit (LocalPm desired_relay) s1))"

section \<open>The status code\<close>

definition evse_fault_status_source :: "string \<Rightarrow> string" where
  "evse_fault_status_source reason =
    (if reason = ''contactor-feedback-mismatch'' then ''contactor-feedback-fault''
     else if reason = lockout_open then lockout_open
     else if reason = lockout_welded then lockout_welded else ''evse-fault'')"

definition hard_evse_fault_status_override ::
  "charger_svc \<Rightarrow> string option \<Rightarrow> string option \<Rightarrow> int option \<times> charger_svc" where
  "hard_evse_fault_status_override s last_health health_reason =
    (case evse_fault_reason (if health_reason = None then last_health else health_reason) of
       None \<Rightarrow> (None, s)
     | Some fault \<Rightarrow>
        if fault \<notin> {''contactor-feedback-mismatch'', lockout_open, lockout_welded} then (None, s)
        else (Some 0, s\<lparr>cs_status_source := evse_fault_status_source fault\<rparr>))"

definition charger_fault_status_override ::
  "charger_cfg \<Rightarrow> charger_svc \<Rightarrow> readbacks \<Rightarrow> secs \<Rightarrow> int option \<times> charger_svc" where
  "charger_fault_status_override c s rs now =
    (if charger_health_override c s rs now \<noteq> Some ''charger-fault'' then (None, s\<lparr>cs_fault_active := 0\<rparr>)
     else (Some 0, s\<lparr>cs_status_source := ''charger-fault'', cs_fault_active := 1\<rparr>))"

definition fallback_status_code ::
  "charger_cfg \<Rightarrow> charger_svc \<Rightarrow> readbacks \<Rightarrow> bool \<Rightarrow> watts \<Rightarrow> bool \<Rightarrow> secs \<Rightarrow> int \<times> charger_svc" where
  "fallback_status_code c s rs relay_on power_w auto_mode_active now =
    (if effective_enabled_state c rs relay_on now
     then if cc_charging_threshold c \<le> power_w then (2, s\<lparr>cs_status_source := ''charging''\<rparr>)
          else (cc_idle_status c, s\<lparr>cs_status_source := ''enabled-idle''\<rparr>)
     else (if auto_mode_active then 4 else 6,
           s\<lparr>cs_status_source := (if auto_mode_active then ''auto-waiting'' else ''manual-off'')\<rparr>))"

definition derive_status_code ::
  "charger_cfg \<Rightarrow> charger_svc \<Rightarrow> readbacks \<Rightarrow> bool \<Rightarrow> watts \<Rightarrow> bool \<Rightarrow> secs \<Rightarrow> string option \<Rightarrow> string option
    \<Rightarrow> int \<times> charger_svc" where
  "derive_status_code c s rs relay_on power_w auto_mode_active now last_health health_reason =
    (case hard_evse_fault_status_override s last_health health_reason of
       (Some code, s1) \<Rightarrow> (code, s1)
     | (None, s1) \<Rightarrow>
        case charger_fault_status_override c s1 rs now of
          (Some code, s2) \<Rightarrow> (code, s2)
        | (None, s2) \<Rightarrow>
           case charger_status_override c rs auto_mode_active now of
             Some (code, source) \<Rightarrow> (code, s2\<lparr>cs_status_source := source\<rparr>)
           | None \<Rightarrow> fallback_status_code c s2 rs relay_on power_w auto_mode_active now)"

end
