(* ===== verification/Relay_Cycle.thy ===== *)
theory Relay_Cycle
  imports Charger_Target Phase_Switch Auto_Decision
begin

text \<open>
  One online update cycle as the coordinator composes it (\<open>venus_evcharger/update/runtime_cycle.py\<close>):
  the pending phase switch, the Auto decision, the health of the switch and the charger, the automatic
  phase selection, the charger current, the relay decision, the status code, and the relay
  confirmation deadline (\<open>relay_phase_publish.py\<close>).

  The three components work on one service object.  Here each keeps its record, and what they share is
  handed over at each call: the one-shot bypass of the minimum off time, the surplus of the last
  metrics, the health reasons the phase switch sets, and the enable commands it gives to the charger.
\<close>

section \<open>State\<close>

record cycle_svc =
  cy_phase :: phase_svc
  cy_auto :: auto_svc
  cy_charger :: charger_svc

text \<open>What one cycle is given: the answers of the backends, the settings, and the measured values.\<close>

record cycle_env =
  ye_phase :: phase_env
  ye_charger :: charger_env
  ye_cfg :: charger_cfg
  ye_auto_cfg :: auto_cfg
  ye_auto_in :: auto_in
  ye_target :: target_in
  ye_readbacks :: readbacks
  ye_pm_phase :: "string option"
  ye_reading :: reading
  ye_voltage :: volts
  ye_now :: secs
  ye_pv :: "watts option"
  ye_soc :: "rat option"
  ye_grid :: "watts option"

definition cycle_auto_active :: "cycle_env \<Rightarrow> bool" where
  "cycle_auto_active e = mode_uses_auto_logic (ai_mode (ye_auto_in e))"

definition class_of_error :: "modbus_error + 'a \<Rightarrow> exc + 'a" where
  "class_of_error r = (case r of Inl e \<Rightarrow> Inl (error_class e) | Inr a \<Rightarrow> Inr a)"

section \<open>The shared service\<close>

definition observed_relay_state :: "cycle_env \<Rightarrow> bool" where
  "observed_relay_state e =
    (case fresh_confirmed_relay_output (ai_relay (ye_auto_in e)) (ye_now e) of None \<Rightarrow> False | Some b \<Rightarrow> b)"

definition cycle_set_health :: "cycle_env \<Rightarrow> string \<Rightarrow> auto_svc \<Rightarrow> auto_svc" where
  "cycle_set_health e reason a = set_health (ye_auto_cfg e) a reason False (observed_relay_state e)"

text \<open>The phase components see the charger's answer to an enable command as their own.\<close>

definition cycle_phase_env :: "cycle_env \<Rightarrow> cycle_svc \<Rightarrow> phase_env" where
  "cycle_phase_env e y = (ye_phase e)\<lparr>
     pe_enable := class_of_error (fst (charger_apply_enabled (ye_charger e) (ye_cfg e) True (ye_now e) (cy_charger y)))\<rparr>"

definition phase_part :: "cycle_svc \<Rightarrow> phase_svc" where
  "phase_part y = (cy_phase y)\<lparr>ps_ignore_min_offtime_once := au_ignore_offtime (cy_auto y),
     ps_surplus := am_surplus (au_metrics (cy_auto y))\<rparr>"

fun replay_health :: "cycle_env \<Rightarrow> auto_svc \<Rightarrow> phase_effect \<Rightarrow> auto_svc" where
  "replay_health e a (SetHealth reason) = cycle_set_health e reason a"
| "replay_health e a _ = a"

fun replay_enable :: "cycle_env \<Rightarrow> charger_svc \<Rightarrow> phase_effect \<Rightarrow> charger_svc" where
  "replay_enable e s (EnableTarget b) = snd (charger_apply_enabled (ye_charger e) (ye_cfg e) b (ye_now e) s)"
| "replay_enable e s _ = s"

definition new_phase_effects :: "cycle_svc \<Rightarrow> phase_svc \<Rightarrow> phase_effect list" where
  "new_phase_effects y p = drop (length (ps_log (cy_phase y))) (ps_log p)"

definition after_phase :: "cycle_env \<Rightarrow> cycle_svc \<Rightarrow> phase_svc \<Rightarrow> cycle_svc" where
  "after_phase e y p = y\<lparr>cy_phase := p,
     cy_auto := foldl (replay_health e) ((cy_auto y)\<lparr>au_ignore_offtime := ps_ignore_min_offtime_once p\<rparr>) (new_phase_effects y p),
     cy_charger := foldl (replay_enable e) (cy_charger y) (new_phase_effects y p)\<rparr>"

section \<open>The decision\<close>

definition cycle_pending_phase_switch :: "cycle_env \<Rightarrow> cycle_svc \<Rightarrow> (reading \<times> bool option, cycle_svc) outcome" where
  "cycle_pending_phase_switch e y =
    (case orchestrate_pending_phase_switch (cycle_phase_env e y) (phase_part y) (ye_pm_phase e) (ye_reading e)
        (ye_now e) (cycle_auto_active e) of (r, p) \<Rightarrow> (r, after_phase e y p))"

definition desired_relay_target :: "cycle_env \<Rightarrow> bool \<Rightarrow> bool option \<Rightarrow> cycle_svc \<Rightarrow> (bool, cycle_svc) outcome" where
  "desired_relay_target e relay_on phase_switch_override y =
    (case phase_switch_override of
       Some b \<Rightarrow> (Inr b, y)
     | None \<Rightarrow> (case auto_decide_relay (ye_auto_cfg e) (ye_auto_in e) (cy_auto y) relay_on (ye_pv e) (ye_soc e) (ye_grid e) of
         (r, a) \<Rightarrow> (r, y\<lparr>cy_auto := a\<rparr>)))"

definition switch_feedback_warning_key :: "string \<Rightarrow> string" where
  "switch_feedback_warning_key health =
    (if health = ''contactor-interlock'' then ''switch-interlock-blocking''
     else if health = suspected_open then ''switch-suspected-open-blocking''
     else if health = suspected_welded then ''switch-suspected-welded-blocking''
     else if health = lockout_open then ''switch-lockout-open-blocking''
     else if health = lockout_welded then ''switch-lockout-welded-blocking'' else ''switch-feedback-blocking'')"

definition cycle_health_call :: "cycle_env \<Rightarrow> bool \<Rightarrow> reading \<Rightarrow> health_call" where
  "cycle_health_call e desired reading =
    (case reading of (relay_on, power_w, current_a, confirmed) \<Rightarrow>
       \<lparr> hl_readbacks = ye_readbacks e, hl_desired = desired, hl_relay_on = relay_on, hl_power = power_w,
         hl_current = current_a, hl_confirmed = confirmed, hl_now = ye_now e \<rparr>)"

definition blocking_switch_feedback_health ::
  "cycle_env \<Rightarrow> bool \<Rightarrow> reading \<Rightarrow> charger_svc \<Rightarrow> string option \<times> charger_svc" where
  "blocking_switch_feedback_health e desired reading s =
    (case switch_feedback_health_override (ye_cfg e) s (cycle_health_call e desired reading) of
       (None, s1) \<Rightarrow> (None, s1)
     | (Some health, s1) \<Rightarrow> (Some health, charger_emit (Warned (switch_feedback_warning_key health)) s1))"

definition blocking_charger_health :: "cycle_env \<Rightarrow> bool \<Rightarrow> bool \<Rightarrow> charger_svc \<Rightarrow> string option \<times> charger_svc" where
  "blocking_charger_health e desired relay_on s =
    (case charger_health_override (ye_cfg e) s (ye_readbacks e) (ye_now e) of
       None \<Rightarrow> (None, s)
     | Some health \<Rightarrow>
        (Some health,
         if desired \<or> relay_on
         then charger_emit (Warned (if take 18 health = ''charger-transport-'' then ''charger-transport-blocking''
                                    else ''charger-health-blocking'')) s
         else s))"

definition cycle_auto_phase :: "cycle_env \<Rightarrow> bool \<Rightarrow> bool \<Rightarrow> cycle_svc \<Rightarrow> (bool option, cycle_svc) outcome" where
  "cycle_auto_phase e desired relay_on y =
    (case maybe_apply_auto_phase_selection (cycle_phase_env e y) (phase_part y) desired relay_on (ye_voltage e)
        (ye_now e) (cycle_auto_active e) of (r, p) \<Rightarrow> (r, after_phase e y p))"

definition cycle_current_target :: "cycle_env \<Rightarrow> bool \<Rightarrow> cycle_svc \<Rightarrow> (rat option, cycle_svc) outcome" where
  "cycle_current_target e desired y =
    (case apply_current_target (ye_charger e) (ye_cfg e) (ye_target e) desired (ye_now e) (cycle_auto_active e) (cy_charger y) of
       (r, s) \<Rightarrow> (class_of_error r, y\<lparr>cy_charger := s\<rparr>))"

text \<open>The health verdicts on the wanted relay state, and the phase selection that follows them.\<close>

definition health_checked :: "cycle_env \<Rightarrow> bool \<Rightarrow> reading \<Rightarrow> cycle_svc \<Rightarrow> (bool \<times> string option) \<times> cycle_svc" where
  "health_checked e desired reading y =
    (let (switch_health, s1) = blocking_switch_feedback_health e desired reading (cy_charger y);
         d1 = (if switch_health \<noteq> None then False else desired);
         (charger_health, s2) = blocking_charger_health e d1 (fst reading) s1;
         d2 = (if charger_health \<noteq> None then False else d1)
     in ((d2, if switch_health \<noteq> None then switch_health else charger_health), y\<lparr>cy_charger := s2\<rparr>))"

definition resolved_relay_decision :: "cycle_env \<Rightarrow> cycle_svc \<Rightarrow> (reading \<times> bool \<times> string option, cycle_svc) outcome" where
  "resolved_relay_decision e y =
    and_then (cycle_pending_phase_switch e y) (\<lambda>(reading, override) y1.
      and_then (desired_relay_target e (fst reading) override y1) (\<lambda>desired y2.
        case health_checked e desired reading y2 of
          ((d, health), y3) \<Rightarrow>
            and_then (cycle_auto_phase e d (fst reading) y3) (\<lambda>phase_override y4.
              let d' = (case phase_override of None \<Rightarrow> d | Some b \<Rightarrow> b)
              in and_then (cycle_current_target e d' y4) (\<lambda>_ y5. (Inr (reading, d', health), y5)))))"

section \<open>Relay confirmation\<close>

definition clear_relay_sync_tracking :: "charger_svc \<Rightarrow> charger_svc" where
  "clear_relay_sync_tracking s = s\<lparr>cs_sync_expected := None, cs_sync_requested_at := None,
     cs_sync_deadline_at := None, cs_sync_reported := False\<rparr>"

definition relay_sync_before_deadline :: "pyfloat option \<Rightarrow> secs \<Rightarrow> bool" where
  "relay_sync_before_deadline deadline_at now =
    (case finite_float_or_none deadline_at of None \<Rightarrow> True | Some d \<Rightarrow> now < d)"

definition record_relay_sync_timeout :: "charger_svc \<Rightarrow> charger_svc" where
  "record_relay_sync_timeout s =
    (if cs_sync_reported s then s
     else charger_emit (Warned ''relay-sync-failed'') (charger_emit (FailureMark ''shelly'') (s\<lparr>cs_sync_reported := True\<rparr>)))"

definition relay_sync_health_override :: "bool \<Rightarrow> bool \<Rightarrow> secs \<Rightarrow> charger_svc \<Rightarrow> string option \<times> charger_svc" where
  "relay_sync_health_override relay_on pm_confirmed now s =
    (case cs_sync_expected s of
       None \<Rightarrow> (None, s)
     | Some expected \<Rightarrow>
        if pm_confirmed \<and> relay_on = expected
        then (None, clear_relay_sync_tracking (if cs_sync_reported s then charger_emit (RecoveryMark ''shelly'') s else s))
        else if relay_sync_before_deadline (cs_sync_deadline_at s) now
        then (if pm_confirmed \<and> relay_on \<noteq> expected then Some ''command-mismatch'' else None, s)
        else (Some ''relay-sync-failed'', clear_relay_sync_tracking (record_relay_sync_timeout s)))"

section \<open>The cycle\<close>

definition effective_cycle_power :: "cycle_env \<Rightarrow> watts \<Rightarrow> watts" where
  "effective_cycle_power e power_w =
    (case fresh_charger (ye_cfg e) (ye_readbacks e) (ye_now e) of None \<Rightarrow> power_w
     | Some st \<Rightarrow> (case finite_float_or_none (rb_power st) of None \<Rightarrow> power_w | Some p \<Rightarrow> max 0 p))"

definition status_after_relay_decision ::
  "cycle_env \<Rightarrow> bool \<Rightarrow> watts \<Rightarrow> string option \<Rightarrow> cycle_svc \<Rightarrow> int \<times> cycle_svc" where
  "status_after_relay_decision e relay_on power_w health y =
    (case derive_status_code (ye_cfg e) (cy_charger y) (ye_readbacks e) relay_on (effective_cycle_power e power_w)
        (cycle_auto_active e) (ye_now e) (Some (au_reason (cy_auto y))) health of
       (code, s) \<Rightarrow> (code, y\<lparr>cy_charger := s\<rparr>))"

definition apply_post_decision_health ::
  "cycle_env \<Rightarrow> bool \<Rightarrow> bool \<Rightarrow> string option \<Rightarrow> cycle_svc \<Rightarrow> cycle_svc" where
  "apply_post_decision_health e relay_on relay_confirmed health y =
    (case relay_sync_health_override relay_on relay_confirmed (ye_now e) (cy_charger y) of
       (sync_health, s) \<Rightarrow>
         let y1 = y\<lparr>cy_charger := s\<rparr> in
         case (if sync_health \<noteq> None then sync_health else health) of
           None \<Rightarrow> y1
         | Some reason \<Rightarrow> y1\<lparr>cy_auto := cycle_set_health e reason (cy_auto y1)\<rparr>)"

text \<open>
  The outcome of a cycle: the relay state it leaves, the status code, and the blocking health.  The
  relay decision takes its confirmation from the power meter status, not from the reading the phase
  switch may have replaced.
\<close>

definition decided_reading :: "cycle_env \<Rightarrow> reading \<Rightarrow> reading" where
  "decided_reading e reading =
    (case (reading, ye_reading e) of ((relay_on, power_w, current_a, _), (_, _, _, confirmed)) \<Rightarrow>
       (relay_on, power_w, current_a, confirmed))"

definition relay_cycle :: "cycle_env \<Rightarrow> cycle_svc \<Rightarrow> (reading \<times> int \<times> string option, cycle_svc) outcome" where
  "relay_cycle e y =
    and_then (resolved_relay_decision e y) (\<lambda>(reading, desired, health) y1.
      case apply_relay_decision (ye_charger e) (ye_cfg e) desired (decided_reading e reading) (ye_now e) (cy_charger y1) of
        (Inl error, s) \<Rightarrow> (Inl (error_class error), y1\<lparr>cy_charger := s\<rparr>)
      | (Inr reading', s) \<Rightarrow>
          (case status_after_relay_decision e (fst reading') (fst (snd reading')) health (y1\<lparr>cy_charger := s\<rparr>) of
             (status, y2) \<Rightarrow>
               (Inr (reading', status, health),
                apply_post_decision_health e (fst reading') (snd (snd (snd reading'))) health y2)))"

end
