(* ===== verification/Contactor_Props.thy ===== *)
theory Contactor_Props
  imports Contactor_Health
begin

text \<open>
  Facts about the contactor monitor: the two suspicions as normalised reasons, the fault counters, one
  remembered suspicion, and one health call by cases.
\<close>

section \<open>Reasons and counters\<close>

definition suspicions :: "string set" where
  "suspicions = {suspected_open, suspected_welded}"

definition lockout_of :: "string \<Rightarrow> string" where
  "lockout_of k = (if k = suspected_open then lockout_open else lockout_welded)"

definition fault_counts :: "charger_svc \<Rightarrow> (string \<times> int) list" where
  "fault_counts s = fst (contactor_fault_counts s)"

definition fault_count :: "charger_svc \<Rightarrow> string \<Rightarrow> int" where
  "fault_count s k = max 0 (dict_count (fault_counts s) k)"

definition active_fault :: "charger_svc \<Rightarrow> string \<Rightarrow> secs option" where
  "active_fault s k =
    (if base_contactor_fault_reason (cs_active_reason s) = Some k then finite_float_or_none (cs_active_since s) else None)"

lemma suspicions_simps [simp]:
  "suspected_open \<in> suspicions" "suspected_welded \<in> suspicions"
  "suspected_open \<noteq> suspected_welded" "suspected_welded \<noteq> suspected_open"
  by (simp_all add: suspicions_def suspected_open_def suspected_welded_def)

lemma strip_suspicion: "k \<in> suspicions \<Longrightarrow> py_strip k = k"
  by (auto simp: suspicions_def suspected_open_def suspected_welded_def py_strip_def py_space_def)

lemma base_suspicion [simp]: "k \<in> suspicions \<Longrightarrow> base_contactor_fault_reason (Some k) = Some k"
  by (auto simp: base_contactor_fault_reason_def strip_suspicion) (auto simp: suspicions_def)

lemma base_reason_known: "base_contactor_fault_reason r = Some k \<Longrightarrow> k \<in> suspicions"
  by (auto simp: base_contactor_fault_reason_def suspicions_def Let_def split: option.splits if_splits)

lemma lockout_health_suspicion [simp]:
  "k \<in> suspicions \<Longrightarrow> contactor_lockout_health_reason (Some k) = Some (lockout_of k)"
  by (simp add: contactor_lockout_health_reason_def lockout_of_def) (auto simp: suspicions_def)

lemma lockout_health_base:
  "contactor_lockout_health_reason r = map_option lockout_of (base_contactor_fault_reason r)"
  using base_reason_known [of r]
  by (auto simp: contactor_lockout_health_reason_def lockout_of_def suspicions_def split: option.splits)

lemma normalized_counts_known:
  "(k, n) \<in> set (normalized_contactor_fault_counts m) \<Longrightarrow> k \<in> suspicions \<and> 0 \<le> n"
  by (induction m rule: normalized_contactor_fault_counts.induct) (auto simp: suspicions_def split: if_splits pyval.splits)

lemma normalized_stored:
  "\<forall>(k, n) \<in> set m. k \<in> suspicions \<and> 0 \<le> n \<Longrightarrow> normalized_contactor_fault_counts (map (\<lambda>(k, n). (k, PInt n)) m) = m"
  by (induction m) (auto simp: suspicions_def)

lemma fault_counts_known: "(k, n) \<in> set (fault_counts s) \<Longrightarrow> k \<in> suspicions \<and> 0 \<le> n"
  by (auto simp: fault_counts_def contactor_fault_counts_def Let_def dest: normalized_counts_known split: option.splits)

lemma fault_counts_frame [simp]:
  "fault_counts (s\<lparr>cs_active_reason := a\<rparr>) = fault_counts s"
  "fault_counts (s\<lparr>cs_active_since := b\<rparr>) = fault_counts s"
  "fault_counts (s\<lparr>cs_open_since := b\<rparr>) = fault_counts s"
  "fault_counts (s\<lparr>cs_welded_since := b\<rparr>) = fault_counts s"
  "fault_counts (s\<lparr>cs_lockout_reason := a\<rparr>) = fault_counts s"
  "fault_counts (s\<lparr>cs_lockout_source := c\<rparr>) = fault_counts s"
  "fault_counts (s\<lparr>cs_lockout_at := d\<rparr>) = fault_counts s"
  by (simp_all add: fault_counts_def contactor_fault_counts_def Let_def)

lemma fault_counts_stored:
  "\<forall>(k, n) \<in> set m. k \<in> suspicions \<and> 0 \<le> n \<Longrightarrow> cs_fault_counts s = stored_counts m \<Longrightarrow> fault_counts s = m"
  by (simp add: fault_counts_def contactor_fault_counts_def stored_counts_def normalized_stored)

lemma fault_counts_read: "contactor_fault_counts s = (fault_counts s, s\<lparr>cs_fault_counts := stored_counts (fault_counts s)\<rparr>)"
  by (simp add: fault_counts_def contactor_fault_counts_def Let_def)

lemma fault_counts_reread [simp]: "fault_counts (s\<lparr>cs_fault_counts := stored_counts (fault_counts s)\<rparr>) = fault_counts s"
  by (rule fault_counts_stored) (auto dest: fault_counts_known)

lemma fault_count_read:
  "k \<in> suspicions \<Longrightarrow> contactor_fault_count s k = (fault_count s k, s\<lparr>cs_fault_counts := stored_counts (fault_counts s)\<rparr>)"
  by (simp add: contactor_fault_count_def fault_counts_read fault_count_def)

lemma fault_count_cong: "fault_counts t = fault_counts s \<Longrightarrow> fault_count t k = fault_count s k"
  by (simp add: fault_count_def)

section \<open>One remembered suspicion\<close>

lemma activate_known:
  assumes "k \<in> suspicions"
  shows "activate_contactor_fault_reason s k now =
    (case active_fault s k of
       Some u \<Rightarrow> (u, s)
     | None \<Rightarrow> (now, s\<lparr>cs_fault_counts := stored_counts (AList.update k (fault_count s k + 1) (fault_counts s)),
                      cs_active_reason := Some k, cs_active_since := Some (Fin now)\<rparr>))"
  by (auto simp: activate_contactor_fault_reason_def active_fault_def fault_counts_read fault_count_def
      split: option.splits)

text \<open>The state right after the suspicion was noted and counted, before the thresholds are looked at.\<close>

definition noted :: "charger_svc \<Rightarrow> string \<Rightarrow> secs \<Rightarrow> charger_svc" where
  "noted s k now =
    (let t = snd (activate_contactor_fault_reason s k now)
     in t\<lparr>cs_fault_counts := stored_counts (fault_counts t)\<rparr>)"

lemma update_count_known:
  assumes "k \<in> suspicions" "0 \<le> n"
  shows "\<forall>(j, m) \<in> set (AList.update k n (fault_counts s)). j \<in> suspicions \<and> 0 \<le> m"
proof -
  have "(j, m) \<in> set (AList.update k n xs) \<Longrightarrow> (j, m) \<in> set xs \<or> (j, m) = (k, n)" for j m and xs :: "(string \<times> int) list"
    by (induction xs) (auto split: if_splits)
  then show ?thesis using assms fault_counts_known by fastforce
qed

lemma noted_counts:
  assumes "k \<in> suspicions"
  shows "fault_counts (noted s k now) =
    (if active_fault s k = None then AList.update k (fault_count s k + 1) (fault_counts s) else fault_counts s)"
proof (cases "active_fault s k")
  case None
  let ?m = "AList.update k (fault_count s k + 1) (fault_counts s)"
  have known: "\<forall>(j, m) \<in> set ?m. j \<in> suspicions \<and> 0 \<le> m"
    by (rule update_count_known) (use assms in \<open>auto simp: fault_count_def\<close>)
  then have "fault_counts (snd (activate_contactor_fault_reason s k now)) = ?m"
    by (intro fault_counts_stored) (simp_all add: activate_known assms None)
  then have "fault_counts (noted s k now) = ?m"
    unfolding noted_def Let_def by (subst fault_counts_reread)
  then show ?thesis by (simp add: None)
next
  case (Some u)
  then show ?thesis by (simp add: noted_def Let_def activate_known assms)
qed

lemma noted_count:
  assumes "k \<in> suspicions"
  shows "fault_count (noted s k now) j =
    (if j = k \<and> active_fault s k = None then fault_count s k + 1 else fault_count s j)"
  using assms by (auto simp: fault_count_def noted_counts dict_count_def od_lookup_update)

lemma noted_fields [simp]:
  assumes "k \<in> suspicions"
  shows "cs_lockout_reason (noted s k now) = cs_lockout_reason s" "cs_lockout_source (noted s k now) = cs_lockout_source s"
    "cs_lockout_at (noted s k now) = cs_lockout_at s" "cs_open_since (noted s k now) = cs_open_since s"
    "cs_welded_since (noted s k now) = cs_welded_since s"
    "active_fault (noted s k now) k = Some (case active_fault s k of None \<Rightarrow> now | Some u \<Rightarrow> u)"
  using assms
  by (auto simp: noted_def Let_def activate_known active_fault_def split: option.splits)

definition lockout_due :: "charger_cfg \<Rightarrow> charger_svc \<Rightarrow> string \<Rightarrow> secs \<Rightarrow> string option" where
  "lockout_due c s k now =
    (if contactor_fault_exceeds_count_threshold c (fault_count s k) then Some ''count-threshold''
     else if 0 < contactor_lockout_persistence_seconds c
       \<and> contactor_lockout_persistence_seconds c \<le> now - the (active_fault s k) then Some ''persistent''
     else None)"

lemma engage_known:
  assumes "k \<in> suspicions" "src \<in> {''count-threshold'', ''persistent''}"
  shows "engage_contactor_lockout s k now src =
    s\<lparr>cs_lockout_reason := Some k, cs_lockout_source := src, cs_lockout_at := Some now\<rparr>"
proof -
  have "py_strip src = src" using assms(2) by (auto simp: py_strip_def py_space_def)
  then show ?thesis using assms by (auto simp: engage_contactor_lockout_def)
qed

lemma remember_known:
  assumes "k \<in> suspicions"
  shows "remember_contactor_fault c s k now =
    (case lockout_due c (noted s k now) k now of
       None \<Rightarrow> (Some k, noted s k now)
     | Some src \<Rightarrow> (Some (lockout_of k),
         (noted s k now)\<lparr>cs_lockout_reason := Some k, cs_lockout_source := src, cs_lockout_at := Some now\<rparr>))"
proof -
  obtain u t where ut: "activate_contactor_fault_reason s k now = (u, t)"
    by (cases "activate_contactor_fault_reason s k now")
  then have t: "noted s k now = t\<lparr>cs_fault_counts := stored_counts (fault_counts t)\<rparr>" by (simp add: noted_def)
  have u: "(case active_fault s k of None \<Rightarrow> now | Some u \<Rightarrow> u) = u"
    using ut by (auto simp: activate_known assms split: option.splits)
  have n: "fault_count (noted s k now) k = fault_count t k" by (simp add: t fault_count_def)
  show ?thesis
    by (simp add: remember_contactor_fault_def assms ut fault_count_read t [symmetric] engage_known lockout_due_def u n
        active_contactor_lockout_health_def Let_def)
qed

section \<open>One health call\<close>

lemma override_eq:
  "switch_feedback_health_override c s e =
    (case switch_safety_reason c e of
       Some r \<Rightarrow> (Some r, clear_contactor_suspicions s)
     | None \<Rightarrow> (case active_contactor_lockout_health s of
          Some l \<Rightarrow> (Some l, s)
        | None \<Rightarrow> switch_feedback_heuristic_override c s e))"
  by (simp add: switch_feedback_health_override_def switch_feedback_safety_override_def split: option.splits)

lemma safety_reasons: "switch_safety_reason c e = Some r \<Longrightarrow> r = ''contactor-interlock'' \<or> r = ''contactor-feedback-mismatch''"
  by (auto simp: switch_safety_reason_def switch_state_safety_override_def split: option.splits if_splits)

lemma ages_eq:
  "contactor_suspected_ages c s e =
    ((fst (heuristic_condition_age (cs_open_since s) (open_condition c e) (hl_now e)),
      fst (heuristic_condition_age (cs_welded_since s) (welded_condition c e) (hl_now e))),
     s\<lparr>cs_open_since := snd (heuristic_condition_age (cs_open_since s) (open_condition c e) (hl_now e)),
       cs_welded_since := snd (heuristic_condition_age (cs_welded_since s) (welded_condition c e) (hl_now e))\<rparr>)"
  by (simp add: contactor_suspected_ages_def Let_def split: prod.splits)

definition aged :: "charger_cfg \<Rightarrow> charger_svc \<Rightarrow> health_call \<Rightarrow> charger_svc" where
  "aged c s e = snd (contactor_suspected_ages c s e)"

definition due_suspicion :: "charger_cfg \<Rightarrow> charger_svc \<Rightarrow> health_call \<Rightarrow> string option" where
  "due_suspicion c s e =
    (if reached_delay (snd (fst (contactor_suspected_ages c s e))) (contactor_heuristic_delay_seconds c) then Some suspected_welded
     else if reached_delay (fst (fst (contactor_suspected_ages c s e))) (contactor_heuristic_delay_seconds c) then Some suspected_open
     else None)"

lemma heuristic_eq:
  "switch_feedback_heuristic_override c s e =
    (case due_suspicion c s e of
       Some k \<Rightarrow> remember_contactor_fault c (aged c s e) k (hl_now e)
     | None \<Rightarrow> (None, clear_contactor_fault_active_state (aged c s e)))"
  by (simp add: switch_feedback_heuristic_override_def due_suspicion_def aged_def split: prod.splits)

lemma due_known: "due_suspicion c s e = Some k \<Longrightarrow> k \<in> suspicions"
  by (auto simp: due_suspicion_def split: if_splits)

lemma aged_fields [simp]:
  "cs_lockout_reason (aged c s e) = cs_lockout_reason s" "cs_lockout_source (aged c s e) = cs_lockout_source s"
  "cs_lockout_at (aged c s e) = cs_lockout_at s" "fault_counts (aged c s e) = fault_counts s"
  "active_fault (aged c s e) k = active_fault s k" "fault_count (aged c s e) k = fault_count s k"
  "cs_open_since (aged c s e) = snd (heuristic_condition_age (cs_open_since s) (open_condition c e) (hl_now e))"
  "cs_welded_since (aged c s e) = snd (heuristic_condition_age (cs_welded_since s) (welded_condition c e) (hl_now e))"
  by (simp_all add: aged_def ages_eq active_fault_def fault_count_def)

lemma clear_active_fields [simp]:
  "cs_lockout_reason (clear_contactor_fault_active_state s) = cs_lockout_reason s"
  "cs_lockout_source (clear_contactor_fault_active_state s) = cs_lockout_source s"
  "cs_lockout_at (clear_contactor_fault_active_state s) = cs_lockout_at s"
  "fault_counts (clear_contactor_fault_active_state s) = fault_counts s"
  "fault_count (clear_contactor_fault_active_state s) k = fault_count s k"
  "active_fault (clear_contactor_fault_active_state s) k = None"
  "cs_open_since (clear_contactor_fault_active_state s) = cs_open_since s"
  "cs_welded_since (clear_contactor_fault_active_state s) = cs_welded_since s"
  by (simp_all add: clear_contactor_fault_active_state_def active_fault_def fault_count_def)

lemma clear_suspicions_fields [simp]:
  "cs_lockout_reason (clear_contactor_suspicions s) = cs_lockout_reason s"
  "cs_lockout_source (clear_contactor_suspicions s) = cs_lockout_source s"
  "cs_lockout_at (clear_contactor_suspicions s) = cs_lockout_at s"
  "fault_counts (clear_contactor_suspicions s) = fault_counts s"
  "fault_count (clear_contactor_suspicions s) k = fault_count s k"
  "active_fault (clear_contactor_suspicions s) k = None"
  "cs_open_since (clear_contactor_suspicions s) = None"
  "cs_welded_since (clear_contactor_suspicions s) = None"
  by (simp_all add: clear_contactor_suspicions_def clear_contactor_fault_active_state_def active_fault_def fault_count_def)

end
