(* ===== verification/Contactor_Claims.thy ===== *)
theory Contactor_Claims
  imports Contactor_Props
begin

text \<open>
  Properties of the contactor monitor over sequences of update cycles: a lockout holds until it is
  reset and names its cause, a suspicion is reported only after its delay, and a weld or a contactor
  that keeps opening ends in a lockout.
\<close>

section \<open>Runs\<close>

definition judge :: "charger_cfg \<Rightarrow> charger_svc \<Rightarrow> health_call \<Rightarrow> charger_svc" where
  "judge c s e = snd (switch_feedback_health_override c s e)"

definition judged :: "charger_cfg \<Rightarrow> charger_svc \<Rightarrow> health_call list \<Rightarrow> charger_svc" where
  "judged c s es = foldl (judge c) s es"

datatype health_event = Judge health_call | ResetTracking

fun health_step :: "charger_cfg \<Rightarrow> charger_svc \<Rightarrow> health_event \<Rightarrow> charger_svc" where
  "health_step c s (Judge e) = judge c s e"
| "health_step c s ResetTracking = clear_contactor_fault_tracking s"

lemma judged_simps [simp]:
  "judged c s [] = s" "judged c s (e # es) = judged c (judge c s e) es"
  "judged c s (es @ es') = judged c (judged c s es) es'"
  by (simp_all add: judged_def)

text \<open>The four ways one call ends.\<close>

lemma judge_cases:
  obtains (safety) r where "switch_safety_reason c e = Some r" "judge c s e = clear_contactor_suspicions s"
      "fst (switch_feedback_health_override c s e) = Some r"
  | (locked) l where "switch_safety_reason c e = None" "active_contactor_lockout_health s = Some l" "judge c s e = s"
      "fst (switch_feedback_health_override c s e) = Some l"
  | (quiet) "switch_safety_reason c e = None" "active_contactor_lockout_health s = None" "due_suspicion c s e = None"
      "judge c s e = clear_contactor_fault_active_state (aged c s e)"
      "fst (switch_feedback_health_override c s e) = None"
  | (noted) k where "switch_safety_reason c e = None" "active_contactor_lockout_health s = None"
      "due_suspicion c s e = Some k" "k \<in> suspicions"
      "lockout_due c (noted (aged c s e) k (hl_now e)) k (hl_now e) = None"
      "judge c s e = noted (aged c s e) k (hl_now e)"
      "fst (switch_feedback_health_override c s e) = Some k"
  | (latched) k src where "switch_safety_reason c e = None" "active_contactor_lockout_health s = None"
      "due_suspicion c s e = Some k" "k \<in> suspicions"
      "lockout_due c (noted (aged c s e) k (hl_now e)) k (hl_now e) = Some src"
      "judge c s e = (noted (aged c s e) k (hl_now e))\<lparr>cs_lockout_reason := Some k, cs_lockout_source := src,
         cs_lockout_at := Some (hl_now e)\<rparr>"
      "fst (switch_feedback_health_override c s e) = Some (lockout_of k)"
proof (cases "switch_safety_reason c e")
  case (Some r)
  then show thesis by (intro safety) (simp_all add: judge_def override_eq)
next
  case s: None
  show thesis
  proof (cases "active_contactor_lockout_health s")
    case (Some l)
    then show thesis by (intro locked) (simp_all add: judge_def override_eq s)
  next
    case l: None
    show thesis
    proof (cases "due_suspicion c s e")
      case None
      then show thesis by (intro quiet) (simp_all add: judge_def override_eq s l heuristic_eq)
    next
      case (Some k)
      from due_known [OF Some] have k: "k \<in> suspicions" .
      show thesis
      proof (cases "lockout_due c (noted (aged c s e) k (hl_now e)) k (hl_now e)")
        case None
        then show thesis
          using s l Some k by (intro noted) (simp_all add: judge_def override_eq heuristic_eq remember_known)
      next
        case (Some src)
        then show thesis
          using s l \<open>due_suspicion c s e = Some k\<close> k
          by (intro latched) (simp_all add: judge_def override_eq heuristic_eq remember_known)
      qed
    qed
  qed
qed

lemma lockout_active_fields:
  "active_contactor_lockout_health s = map_option lockout_of (base_contactor_fault_reason (cs_lockout_reason s))"
  by (simp add: active_contactor_lockout_health_def lockout_health_base)

section \<open>The lockout latches\<close>

text \<open>A lockout, its source and its time stamp, as one value.\<close>

definition lockout_record :: "charger_svc \<Rightarrow> string option \<times> string \<times> secs option" where
  "lockout_record s = (cs_lockout_reason s, cs_lockout_source s, cs_lockout_at s)"

lemma locked_judge:
  assumes "active_contactor_lockout_health s \<noteq> None"
  shows "lockout_record (judge c s e) = lockout_record s"
  using assms by (cases rule: judge_cases [of c e s]) (auto simp: lockout_record_def)

lemma lockout_record_health: "lockout_record t = lockout_record s \<Longrightarrow> active_contactor_lockout_health t = active_contactor_lockout_health s"
  by (simp add: lockout_record_def active_contactor_lockout_health_def)

interpretation latch: stepwise "judge c" "\<lambda>t. lockout_record t = lockout_record s \<and> active_contactor_lockout_health s \<noteq> None" for c s
proof unfold_locales
  fix t e
  assume t: "lockout_record t = lockout_record s \<and> active_contactor_lockout_health s \<noteq> None"
  then have "active_contactor_lockout_health t \<noteq> None" using lockout_record_health [of t s] by simp
  from locked_judge [OF this] t
  show "lockout_record (judge c t e) = lockout_record s \<and> active_contactor_lockout_health s \<noteq> None" by simp
qed

lemma unlocked_before:
  assumes "active_contactor_lockout_health (judge c s e) = None"
  shows "active_contactor_lockout_health s = None"
proof (rule ccontr)
  assume "active_contactor_lockout_health s \<noteq> None"
  with lockout_record_health [OF locked_judge [OF this]] assms show False by metis
qed

lemma reset_unlocks [simp]: "active_contactor_lockout_health (clear_contactor_fault_tracking s) = None"
  by (simp add: lockout_active_fields clear_contactor_fault_tracking_def clear_contactor_lockout_def
      base_contactor_fault_reason_def py_strip_def suspected_open_def suspected_welded_def)

text \<open>
  Claim C30.  A latched contactor lockout stays latched, with its source and time stamp, through any
  number of health calls.  Every one of those calls reports a fault: the explicit switch fault when
  the feedback shows one, the lockout otherwise.  Only the reset of the tracking lifts it.
\<close>

theorem lockout_holds_until_reset:
  assumes "active_contactor_lockout_health s = Some l"
  shows "lockout_record (judged c s es) = lockout_record s \<and>
    fst (switch_feedback_health_override c (judged c s es) e) =
      Some (case switch_safety_reason c e of Some r \<Rightarrow> r | None \<Rightarrow> l) \<and>
    active_contactor_lockout_health (clear_contactor_fault_tracking (judged c s es)) = None"
proof -
  have rec: "lockout_record (judged c s es) = lockout_record s"
    using latch.run_inv [of s s c es] assms by (simp add: judged_def)
  moreover have "active_contactor_lockout_health (judged c s es) = Some l"
    using assms lockout_record_health [OF rec] by simp
  ultimately show ?thesis
    by (simp add: override_eq split: option.split)
qed

section \<open>A lockout names its cause\<close>

definition lockout_justified :: "charger_cfg \<Rightarrow> charger_svc \<Rightarrow> bool" where
  "lockout_justified c s \<longleftrightarrow>
    (case base_contactor_fault_reason (cs_lockout_reason s) of
       None \<Rightarrow> True
     | Some k \<Rightarrow> cs_lockout_at s \<noteq> None \<and>
         (cs_lockout_source s = ''count-threshold'' \<and> contactor_fault_exceeds_count_threshold c (fault_count s k)
          \<or> cs_lockout_source s = ''persistent'' \<and> 0 < contactor_lockout_persistence_seconds c))"

lemma lockout_due_source:
  "lockout_due c s k now = Some src \<Longrightarrow>
    src = ''count-threshold'' \<and> contactor_fault_exceeds_count_threshold c (fault_count s k)
    \<or> src = ''persistent'' \<and> 0 < contactor_lockout_persistence_seconds c"
  by (auto simp: lockout_due_def split: if_splits)

lemma fault_count_lockout_frame [simp]:
  "fault_count (s\<lparr>cs_lockout_reason := a, cs_lockout_source := b, cs_lockout_at := d\<rparr>) k = fault_count s k"
  by (simp add: fault_count_def)

lemma justified_unlocked: "active_contactor_lockout_health s = None \<Longrightarrow> lockout_justified c s"
  by (simp add: lockout_justified_def lockout_active_fields)

lemma justified_judge: "lockout_justified c s \<Longrightarrow> lockout_justified c (judge c s e)"
proof (cases rule: judge_cases [of c e s])
  case (latched k src)
  then show ?thesis
    using lockout_due_source [OF latched(5)] by (simp add: lockout_justified_def)
next
  case (noted k)
  then show ?thesis by (intro justified_unlocked) (simp add: lockout_active_fields)
next
  case quiet
  then show ?thesis by (intro justified_unlocked) (simp add: lockout_active_fields)
qed (simp_all add: lockout_justified_def split: option.splits)

interpretation cause: stepwise "health_step c" "lockout_justified c" for c
proof unfold_locales
  fix s e show "lockout_justified c s \<Longrightarrow> lockout_justified c (health_step c s e)"
    by (cases e) (simp_all add: justified_judge justified_unlocked)
qed

text \<open>
  Whatever the cycles observe, and however often the tracking is reset, a lockout is never
  latched without its cause: it has a time stamp, and its source is either the count threshold, which
  is switched on and which the sanitised counter of that very suspicion has reached, or persistence,
  which is switched on.
\<close>

theorem lockout_names_its_cause:
  assumes "active_contactor_lockout_health s = None"
  shows "lockout_justified c (foldl (health_step c) s es)"
  using cause.run_inv justified_unlocked [OF assms] .

section \<open>A suspicion has persisted\<close>

definition suspicion_condition :: "charger_cfg \<Rightarrow> string \<Rightarrow> health_call \<Rightarrow> bool" where
  "suspicion_condition c k e = (if k = suspected_welded then welded_condition c e else open_condition c e)"

definition suspicion_since :: "string \<Rightarrow> charger_svc \<Rightarrow> pyfloat option" where
  "suspicion_since k s = (if k = suspected_welded then cs_welded_since s else cs_open_since s)"

text \<open>From call \<open>i\<close> on, every call saw the condition and no explicit switch fault.\<close>

definition held_from :: "charger_cfg \<Rightarrow> string \<Rightarrow> health_call list \<Rightarrow> nat \<Rightarrow> bool" where
  "held_from c k es i \<longleftrightarrow> (\<forall>e \<in> set (drop i es). suspicion_condition c k e \<and> switch_safety_reason c e = None)"

lemma held_snoc:
  "i \<le> length es \<Longrightarrow> held_from c k (es @ [e]) i \<longleftrightarrow>
    held_from c k es i \<and> suspicion_condition c k e \<and> switch_safety_reason c e = None"
  by (auto simp: held_from_def)

lemma since_aged:
  "suspicion_since k (aged c s e) = snd (heuristic_condition_age (suspicion_since k s) (suspicion_condition c k e) (hl_now e))"
  by (simp add: suspicion_since_def suspicion_condition_def)

lemma since_judge:
  assumes "active_contactor_lockout_health (judge c s e) = None"
  shows "suspicion_since k (judge c s e) =
    (if switch_safety_reason c e = None then suspicion_since k (aged c s e) else None)"
proof (cases rule: judge_cases [of c e s])
  case (locked l)
  with assms show ?thesis by simp
next
  case (latched j src)
  with assms show ?thesis by (simp add: lockout_active_fields)
qed (simp_all add: suspicion_since_def)

lemma since_history:
  assumes "active_contactor_lockout_health (judged c s es) = None"
    and "suspicion_since k s = None" "suspicion_since k (judged c s es) = Some x"
  shows "\<exists>i < length es. x = Fin (hl_now (es ! i)) \<and> held_from c k es i"
  using assms(1,3)
proof (induction es arbitrary: x rule: rev_induct)
  case Nil
  then show ?case using assms(2) by simp
next
  case (snoc e es)
  let ?t = "judged c s es"
  from snoc.prems have unlocked: "active_contactor_lockout_health ?t = None"
    using unlocked_before [of c ?t e] by simp
  from snoc.prems since_judge [of c ?t e k] have safe: "switch_safety_reason c e = None"
    and age: "snd (heuristic_condition_age (suspicion_since k ?t) (suspicion_condition c k e) (hl_now e)) = Some x"
    by (auto simp: since_aged split: if_splits)
  from age have cond: "suspicion_condition c k e" by (auto simp: heuristic_condition_age_def split: if_splits)
  show ?case
  proof (cases "suspicion_since k ?t")
    case None
    with age cond have "x = Fin (hl_now e)" by (simp add: heuristic_condition_age_def)
    with cond safe show ?thesis by (intro exI [of _ "length es"]) (simp add: held_from_def)
  next
    case (Some y)
    from snoc.IH [OF unlocked Some] obtain i where i: "i < length es" "y = Fin (hl_now (es ! i))" "held_from c k es i" by auto
    with age cond Some have "x = y" by (simp add: heuristic_condition_age_def)
    with i cond safe show ?thesis by (intro exI [of _ i]) (simp add: nth_append held_snoc)
  qed
qed

lemma due_reached:
  "due_suspicion c s e = Some k \<Longrightarrow>
    reached_delay (fst (heuristic_condition_age (suspicion_since k s) (suspicion_condition c k e) (hl_now e)))
      (contactor_heuristic_delay_seconds c)"
  by (auto simp: due_suspicion_def ages_eq suspicion_since_def suspicion_condition_def split: if_splits)

text \<open>
  Suspicion alone is not a fault.  When a call reports a suspected contactor, or newly
  latches a lockout for it, then every call since some earlier one saw that very condition without
  any explicit switch fault, and that earlier call lies back by at least the configured delay.
\<close>

theorem suspicion_has_persisted:
  assumes "cs_open_since s = None" "cs_welded_since s = None"
    and "active_contactor_lockout_health (judged c s es) = None" "switch_safety_reason c e = None"
    and "fst (switch_feedback_health_override c (judged c s es) e) = Some r"
  shows "\<exists>k i. (r = k \<or> r = lockout_of k) \<and> k \<in> suspicions \<and> i \<le> length es \<and> held_from c k (es @ [e]) i \<and>
    contactor_heuristic_delay_seconds c \<le> max 0 (hl_now e - hl_now ((es @ [e]) ! i))"
proof -
  let ?t = "judged c s es"
  obtain k where due: "due_suspicion c ?t e = Some k" "k \<in> suspicions" "r = k \<or> r = lockout_of k"
    using assms(3-5) by (cases rule: judge_cases [of c e ?t]) auto
  have none: "suspicion_since k s = None" using assms(1,2) by (simp add: suspicion_since_def)
  from due_reached [OF due(1)] have cond: "suspicion_condition c k e"
    by (auto simp: heuristic_condition_age_def reached_delay_def split: if_splits)
  show ?thesis
  proof (cases "suspicion_since k ?t")
    case None
    with due_reached [OF due(1)] cond have "contactor_heuristic_delay_seconds c \<le> 0"
      by (simp add: heuristic_condition_age_def reached_delay_def)
    with due cond assms(4) show ?thesis
      by (intro exI [of _ k] exI [of _ "length es"]) (simp add: held_from_def)
  next
    case (Some x)
    from since_history [OF assms(3) none Some] obtain i where
      i: "i < length es" "x = Fin (hl_now (es ! i))" "held_from c k es i" by auto
    with due_reached [OF due(1)] cond Some
    have "contactor_heuristic_delay_seconds c \<le> max 0 (hl_now e - hl_now (es ! i))"
      by (simp add: heuristic_condition_age_def reached_delay_def)
    with due i cond assms(4) show ?thesis
      by (intro exI [of _ k] exI [of _ i]) (simp add: nth_append held_snoc)
  qed
qed

section \<open>Persistence and repetition end in a lockout\<close>

lemma due_welded:
  assumes "welded_condition c e"
  shows "due_suspicion c s e =
    (if contactor_heuristic_delay_seconds c \<le>
        (case finite_float_or_none (cs_welded_since s) of None \<Rightarrow> 0 | Some t \<Rightarrow> max 0 (hl_now e - t))
     then Some suspected_welded else None)"
proof -
  have "\<not> open_condition c e"
    using assms by (simp add: open_condition_def welded_condition_def suspected_open_condition_def suspected_welded_condition_def)
  with assms show ?thesis
    by (auto simp: due_suspicion_def ages_eq heuristic_condition_age_def reached_delay_def split: option.splits)
qed

definition weld_seen :: "charger_cfg \<Rightarrow> health_call \<Rightarrow> bool" where
  "weld_seen c e \<longleftrightarrow> welded_condition c e \<and> switch_safety_reason c e = None"

text \<open>Since \<open>t0\<close> a weld has been seen; the fault, once active, is no younger than the last call \<open>u\<close>.\<close>

definition weld_watch :: "secs \<Rightarrow> secs \<Rightarrow> bool \<Rightarrow> charger_svc \<Rightarrow> bool" where
  "weld_watch t0 u active s \<longleftrightarrow>
    active_contactor_lockout_health s = Some lockout_welded
    \<or> active_contactor_lockout_health s = None \<and> cs_welded_since s = Some (Fin t0) \<and>
      (case active_fault s suspected_welded of None \<Rightarrow> \<not> active | Some a \<Rightarrow> a \<le> u)"

lemma weld_locked: "lockout_of suspected_welded = lockout_welded"
  by (simp add: lockout_of_def)

lemma weld_watch_judge:
  assumes "weld_seen c e" "weld_watch t0 u active s" "u \<le> hl_now e"
    and "active \<Longrightarrow> contactor_heuristic_delay_seconds c \<le> hl_now e - t0"
    and "active' \<Longrightarrow> contactor_heuristic_delay_seconds c \<le> hl_now e - t0"
  shows "weld_watch t0 (if active \<and> active' then u else hl_now e) active' (judge c s e)"
proof (cases rule: judge_cases [of c e s])
  case (safety r)
  with assms(1) show ?thesis by (simp add: weld_seen_def)
next
  case (locked l)
  with assms(2) show ?thesis by (auto simp: weld_watch_def)
next
  case quiet
  with assms(1,2,5) show ?thesis
    by (auto simp: weld_watch_def weld_seen_def due_welded lockout_active_fields heuristic_condition_age_def split: if_splits)
next
  case (noted k)
  with assms(1) have k: "k = suspected_welded" by (simp add: weld_seen_def due_welded split: if_splits)
  from noted assms(1-3) show ?thesis
    by (auto simp: weld_watch_def weld_seen_def lockout_active_fields heuristic_condition_age_def k split: option.splits)
next
  case (latched k src)
  with assms(1) have k: "k = suspected_welded" by (simp add: weld_seen_def due_welded split: if_splits)
  with latched show ?thesis by (simp add: weld_watch_def lockout_active_fields weld_locked)
qed

lemma weld_watch_run:
  assumes "list_all (weld_seen c) es" "sorted (map hl_now es)" "\<forall>e \<in> set es. u \<le> hl_now e"
    and "weld_watch t0 u active s" "active \<Longrightarrow> contactor_heuristic_delay_seconds c \<le> u - t0"
  shows "\<exists>v. weld_watch t0 v active (judged c s es) \<and> (active \<longrightarrow> v = u) \<and> (\<forall>w. u \<le> w \<and> (\<forall>e \<in> set es. hl_now e \<le> w) \<longrightarrow> v \<le> w)"
  using assms
proof (induction es arbitrary: s u)
  case (Cons e es)
  let ?u = "if active then u else hl_now e"
  from Cons.prems have seen: "weld_seen c e" and le: "u \<le> hl_now e" by simp_all
  from Cons.prems(5) le have reached: "active \<Longrightarrow> contactor_heuristic_delay_seconds c \<le> hl_now e - t0" by fastforce
  have watch: "weld_watch t0 ?u active (judge c s e)"
    using weld_watch_judge [OF seen Cons.prems(4) le, of active] reached by simp
  have later: "\<forall>x \<in> set es. ?u \<le> hl_now x" using Cons.prems(2,3) by auto
  from Cons.prems(5) have "active \<Longrightarrow> contactor_heuristic_delay_seconds c \<le> ?u - t0" by simp
  from Cons.IH [OF _ _ later watch this] Cons.prems(1,2) obtain v where
    v: "weld_watch t0 v active (judged c (judge c s e) es)" "active \<longrightarrow> v = ?u"
      "\<forall>w. ?u \<le> w \<and> (\<forall>x \<in> set es. hl_now x \<le> w) \<longrightarrow> v \<le> w" by auto
  then show ?case by (intro exI [of _ v]) (auto split: if_splits)
qed auto

lemma weld_watch_first:
  assumes "weld_seen c e" "cs_welded_since s = None" "cs_active_since s = None" "active_contactor_lockout_health s = None"
  shows "weld_watch (hl_now e) (hl_now e) False (judge c s e)"
proof -
  have "active_fault s suspected_welded = None" using assms(3) by (simp add: active_fault_def)
  with assms show ?thesis
    by (cases rule: judge_cases [of c e s])
       (auto simp: weld_watch_def weld_seen_def due_welded lockout_active_fields heuristic_condition_age_def weld_locked
         split: if_splits)
qed

lemma weld_watch_expired:
  assumes "weld_seen c e" "weld_watch t0 u True s"
    and "contactor_heuristic_delay_seconds c \<le> hl_now e - t0"
    and "0 < contactor_lockout_persistence_seconds c" "contactor_lockout_persistence_seconds c \<le> hl_now e - u"
  shows "active_contactor_lockout_health (judge c s e) = Some lockout_welded"
proof (cases rule: judge_cases [of c e s])
  case (safety r)
  with assms(1) show ?thesis by (simp add: weld_seen_def)
next
  case (locked l)
  with assms(2) show ?thesis by (auto simp: weld_watch_def)
next
  case quiet
  with assms(1-3) show ?thesis by (auto simp: weld_watch_def weld_seen_def due_welded split: if_splits)
next
  case (noted k)
  with assms(1) have k: "k = suspected_welded" by (simp add: weld_seen_def due_welded split: if_splits)
  from noted assms(2) obtain a where "active_fault s suspected_welded = Some a" "a \<le> u"
    by (auto simp: weld_watch_def split: option.splits)
  with noted(5) assms(4,5) show ?thesis by (simp add: k lockout_due_def split: if_splits)
next
  case (latched k src)
  with assms(1) have k: "k = suspected_welded" by (simp add: weld_seen_def due_welded split: if_splits)
  with latched show ?thesis by (simp add: lockout_active_fields weld_locked)
qed


lemma due_open:
  assumes "open_condition c e"
  shows "due_suspicion c s e =
    (if contactor_heuristic_delay_seconds c \<le>
        (case finite_float_or_none (cs_open_since s) of None \<Rightarrow> 0 | Some t \<Rightarrow> max 0 (hl_now e - t))
     then Some suspected_open else None)"
proof -
  have "\<not> welded_condition c e"
    using assms by (simp add: open_condition_def welded_condition_def suspected_open_condition_def suspected_welded_condition_def)
  with assms show ?thesis
    by (auto simp: due_suspicion_def ages_eq heuristic_condition_age_def reached_delay_def split: option.splits)
qed

text \<open>
  One episode of a contactor that does not close: two calls that see demand without load, the delay
  apart, and one that sees nothing suspicious, as after the relay was switched off.
\<close>

definition open_seen :: "charger_cfg \<Rightarrow> health_call \<Rightarrow> bool" where
  "open_seen c e \<longleftrightarrow> open_condition c e \<and> switch_safety_reason c e = None"

definition nothing_seen :: "charger_cfg \<Rightarrow> health_call \<Rightarrow> bool" where
  "nothing_seen c e \<longleftrightarrow> \<not> open_condition c e \<and> \<not> welded_condition c e \<and> switch_safety_reason c e = None"

fun open_episode :: "charger_cfg \<Rightarrow> health_call \<times> health_call \<times> health_call \<Rightarrow> bool" where
  "open_episode c (x, y, z) \<longleftrightarrow> open_seen c x \<and> open_seen c y \<and> nothing_seen c z \<and>
     contactor_heuristic_delay_seconds c \<le> hl_now y - hl_now x"

definition episode_calls :: "health_call \<times> health_call \<times> health_call \<Rightarrow> health_call list" where
  "episode_calls w = [fst w, fst (snd w), snd (snd w)]"

text \<open>Between episodes: locked out, or at rest with at least so many faults counted and the threshold not reached.\<close>

definition open_rest :: "charger_cfg \<Rightarrow> nat \<Rightarrow> charger_svc \<Rightarrow> bool" where
  "open_rest c n s \<longleftrightarrow>
    active_contactor_lockout_health s = Some lockout_open
    \<or> active_contactor_lockout_health s = None \<and> cs_open_since s = None \<and> active_fault s suspected_open = None
      \<and> int n \<le> fault_count s suspected_open
      \<and> (n = 0 \<or> \<not> contactor_fault_exceeds_count_threshold c (fault_count s suspected_open))"

text \<open>Inside an episode, once its fault is active: it is counted, and the condition began at \<open>t0\<close>.\<close>

definition open_active :: "charger_cfg \<Rightarrow> nat \<Rightarrow> charger_svc \<Rightarrow> bool" where
  "open_active c n s \<longleftrightarrow>
    active_contactor_lockout_health s = Some lockout_open
    \<or> active_contactor_lockout_health s = None \<and> active_fault s suspected_open \<noteq> None
      \<and> int n \<le> fault_count s suspected_open
      \<and> \<not> contactor_fault_exceeds_count_threshold c (fault_count s suspected_open)"

lemma open_locked: "lockout_of suspected_open = lockout_open"
  by (simp add: lockout_of_def)

lemma open_due_activates:
  assumes "open_seen c e" "due_suspicion c s e = Some suspected_open \<or> active_contactor_lockout_health s = Some lockout_open"
    and "active_contactor_lockout_health s \<in> {None, Some lockout_open}"
    and "active_fault s suspected_open = None \<and> int n \<le> fault_count s suspected_open + 1
      \<or> active_fault s suspected_open \<noteq> None \<and> int n \<le> fault_count s suspected_open
      \<or> active_contactor_lockout_health s = Some lockout_open"
  shows "open_active c n (judge c s e)"
proof (cases rule: judge_cases [of c e s])
  case (noted k)
  with assms show ?thesis
    by (auto simp: open_active_def lockout_active_fields noted_count lockout_due_def split: if_splits)
next
  case (latched k src)
  with assms show ?thesis by (auto simp: open_active_def lockout_active_fields open_locked)
qed (use assms in \<open>auto simp: open_active_def open_seen_def\<close>)

lemma nothing_due: "nothing_seen c e \<Longrightarrow> due_suspicion c s e = None"
  by (auto simp: nothing_seen_def due_suspicion_def ages_eq heuristic_condition_age_def reached_delay_def)

lemma open_episode_ends:
  assumes "nothing_seen c e" "open_active c (Suc n) s"
  shows "open_rest c (Suc n) (judge c s e)"
proof (cases rule: judge_cases [of c e s])
  case quiet
  then show ?thesis
    using assms by (auto simp: open_active_def open_rest_def lockout_active_fields nothing_seen_def heuristic_condition_age_def)
qed (use assms nothing_due [OF assms(1)] in \<open>auto simp: open_active_def open_rest_def nothing_seen_def\<close>)

lemma open_episode_begins:
  assumes "open_seen c e" "open_rest c n s"
  shows "active_contactor_lockout_health (judge c s e) = Some lockout_open
    \<or> active_contactor_lockout_health (judge c s e) = None \<and> cs_open_since (judge c s e) = Some (Fin (hl_now e)) \<and>
      (active_fault (judge c s e) suspected_open = None \<and> int (Suc n) \<le> fault_count (judge c s e) suspected_open + 1
       \<or> active_fault (judge c s e) suspected_open \<noteq> None \<and> int (Suc n) \<le> fault_count (judge c s e) suspected_open)"
proof (cases rule: judge_cases [of c e s])
  case (safety r)
  with assms(1) show ?thesis by (simp add: open_seen_def)
next
  case (locked l)
  with assms(2) show ?thesis by (auto simp: open_rest_def)
next
  case quiet
  with assms show ?thesis
    by (auto simp: open_rest_def open_seen_def lockout_active_fields heuristic_condition_age_def)
next
  case (noted k)
  with assms(1) have k: "k = suspected_open" by (simp add: open_seen_def due_open split: if_splits)
  from noted assms show ?thesis
    by (auto simp: k open_rest_def open_seen_def lockout_active_fields heuristic_condition_age_def noted_count)
next
  case (latched k src)
  with assms(1) have k: "k = suspected_open" by (simp add: open_seen_def due_open split: if_splits)
  with latched show ?thesis by (simp add: lockout_active_fields open_locked)
qed

lemma open_episode_rest:
  assumes "open_episode c w" "open_rest c n s"
  shows "open_rest c (Suc n) (judged c s (episode_calls w))"
proof -
  obtain x y z where w: "w = (x, y, z)" by (cases w)
  with assms(1) have seen: "open_seen c x" "open_seen c y" "nothing_seen c z"
    and delay: "contactor_heuristic_delay_seconds c \<le> hl_now y - hl_now x" by simp_all
  define t where "t = judge c s x"
  note begins = open_episode_begins [OF seen(1) assms(2), folded t_def]
  have due: "due_suspicion c t y = Some suspected_open \<or> active_contactor_lockout_health t = Some lockout_open"
    using begins seen(2) delay by (auto simp: open_seen_def due_open)
  have "open_active c (Suc n) (judge c t y)"
    by (rule open_due_activates [OF seen(2) due]) (use begins in blast)+
  from open_episode_ends [OF seen(3) this] show ?thesis by (simp add: w episode_calls_def t_def)
qed

lemma open_episodes_rest:
  "list_all (open_episode c) ws \<Longrightarrow> open_rest c n s \<Longrightarrow>
    open_rest c (n + length ws) (judged c s (concat (map episode_calls ws)))"
proof (induction ws arbitrary: n s)
  case (Cons w ws)
  then have "open_rest c (Suc n) (judged c s (episode_calls w))" by (intro open_episode_rest) simp_all
  from Cons.IH [OF _ this] Cons.prems(1) show ?case by simp
qed simp

text \<open>
  Repetition latches the lockout.  As many separate episodes of demand without load behind
  a closed relay as the configured count, each outlasting the suspicion delay and each ending in a
  call that sees nothing suspicious, leave the contactor locked out as open, however far apart the
  episodes are.
\<close>

theorem repeated_suspicions_lock_out:
  assumes "active_contactor_lockout_health s = None" "cs_open_since s = None" "cs_active_since s = None"
    and "list_all (open_episode c) ws"
    and "0 < contactor_lockout_threshold c" "contactor_lockout_threshold c \<le> int (length ws)"
  shows "active_contactor_lockout_health (judged c s (concat (map episode_calls ws))) = Some lockout_open"
proof -
  have "open_rest c 0 s"
    using assms(1-3) by (simp add: open_rest_def active_fault_def fault_count_def)
  from open_episodes_rest [OF assms(4) this] assms(5,6) show ?thesis
    by (auto simp: open_rest_def contactor_fault_exceeds_count_threshold_def)
qed

section \<open>Witnesses\<close>

definition demo_charger_cfg :: charger_cfg where
  "demo_charger_cfg = \<lparr> cc_worker_poll = Some 1, cc_live_publish = None, cc_soft_fail = Some 10, cc_backoff_base = None,
     cc_latch_count = Some 2, cc_latch_seconds = Some 60, cc_charging_threshold = 100, cc_min_current = Some (Fin 6),
     cc_max_current = Some (Fin 16), cc_idle_status = 1, cc_enable_backend = True, cc_current_backend = True \<rparr>"

definition demo_charger_svc :: charger_svc where
  "demo_charger_svc = \<lparr> cs_transport_reason = None, cs_transport_source = None, cs_transport_detail = None,
     cs_transport_at = None, cs_retry_reason = None, cs_retry_source = None, cs_retry_until = None,
     cs_retry_after = None, cs_fault_counts = Some [], cs_active_reason = None, cs_active_since = None,
     cs_lockout_reason = Some '''', cs_lockout_source = '''', cs_lockout_at = None, cs_open_since = None,
     cs_welded_since = None, cs_target_amps = None, cs_target_at = None, cs_sync_expected = None, cs_sync_requested_at = None, cs_sync_deadline_at = None, cs_sync_reported = False,
     cs_status_source = '''', cs_fault_active = 0, cs_log = [] \<rparr>"

text \<open>A charger that says it is charging and draws nothing, and a power meter that reads \<open>p\<close> watts.\<close>

definition demo_health_call :: "bool \<Rightarrow> watts \<Rightarrow> secs \<Rightarrow> health_call" where
  "demo_health_call on p t = \<lparr> hl_readbacks = \<lparr> rs_charger = Some (\<lparr> rb_enabled = None, rb_actual_current = None,
       rb_power = Some (Fin 0), rb_energy = None, rb_status = Some ''Charging'', rb_fault = None \<rparr>, Fin t), rs_switch = None \<rparr>,
     hl_desired = True, hl_relay_on = on, hl_power = p, hl_current = 0, hl_confirmed = True, hl_now = t \<rparr>"

lemma demo_charger_rest:
  "active_contactor_lockout_health demo_charger_svc = None" "cs_open_since demo_charger_svc = None"
  "cs_welded_since demo_charger_svc = None" "cs_active_since demo_charger_svc = None"
  by (simp_all add: demo_charger_svc_def active_contactor_lockout_health_def contactor_lockout_health_reason_def
      base_contactor_fault_reason_def py_strip_def suspected_open_def suspected_welded_def)

lemma demo_charger_delays:
  "contactor_heuristic_delay_seconds demo_charger_cfg = 10" "contactor_lockout_persistence_seconds demo_charger_cfg = 60"
  "contactor_lockout_threshold demo_charger_cfg = 2"
  by (simp_all add: demo_charger_cfg_def contactor_heuristic_delay_seconds_def contactor_lockout_persistence_seconds_def
      contactor_lockout_threshold_def)

lemma demo_weld_seen: "weld_seen demo_charger_cfg (demo_health_call False 2000 t)"
  by (simp add: weld_seen_def welded_condition_def suspected_welded_condition_def observed_load_def combined_load_active_def
      pm_load_active_def contactor_power_threshold_w_def switch_safety_reason_def fresh_switch_def fresh_snapshot_def
      demo_health_call_def demo_charger_cfg_def)

lemma demo_open_episode:
  "open_episode demo_charger_cfg (demo_health_call True 0 100, demo_health_call True 0 110, demo_health_call False 0 111)"
  "open_episode demo_charger_cfg (demo_health_call True 0 900, demo_health_call True 0 910, demo_health_call False 0 911)"
  by code_simp+

theorem lockout_holds_until_reset_witness:
  "fst (switch_feedback_health_override demo_charger_cfg
     (judged demo_charger_cfg (demo_charger_svc\<lparr>cs_lockout_reason := Some suspected_open\<rparr>) [demo_health_call True 0 5])
     (demo_health_call False 0 6)) = Some lockout_open"
proof -
  have "switch_safety_reason demo_charger_cfg (demo_health_call False 0 6) = None"
    by (simp add: switch_safety_reason_def fresh_switch_def fresh_snapshot_def demo_health_call_def)
  moreover have "active_contactor_lockout_health (demo_charger_svc\<lparr>cs_lockout_reason := Some suspected_open\<rparr>) = Some lockout_open"
    by (simp add: lockout_active_fields lockout_of_def)
  ultimately show ?thesis
    using lockout_holds_until_reset [of "demo_charger_svc\<lparr>cs_lockout_reason := Some suspected_open\<rparr>" lockout_open
        demo_charger_cfg "[demo_health_call True 0 5]" "demo_health_call False 0 6"] by simp
qed

theorem lockout_names_its_cause_witness:
  "lockout_justified demo_charger_cfg
     (foldl (health_step demo_charger_cfg) demo_charger_svc [Judge (demo_health_call True 0 5), ResetTracking])"
  by (rule lockout_names_its_cause [OF demo_charger_rest(1)])

theorem suspicion_has_persisted_witness:
  "\<exists>k i. (suspected_open = k \<or> suspected_open = lockout_of k) \<and> k \<in> suspicions \<and> i \<le> length [demo_health_call True 0 100] \<and>
     held_from demo_charger_cfg k ([demo_health_call True 0 100] @ [demo_health_call True 0 110]) i \<and>
     contactor_heuristic_delay_seconds demo_charger_cfg
       \<le> max 0 (hl_now (demo_health_call True 0 110)
           - hl_now (([demo_health_call True 0 100] @ [demo_health_call True 0 110]) ! i))"
proof (rule suspicion_has_persisted [where s = demo_charger_svc])
  show "active_contactor_lockout_health (judged demo_charger_cfg demo_charger_svc [demo_health_call True 0 100]) = None"
    by code_simp
  show "switch_safety_reason demo_charger_cfg (demo_health_call True 0 110) = None" by code_simp
  show "fst (switch_feedback_health_override demo_charger_cfg
      (judged demo_charger_cfg demo_charger_svc [demo_health_call True 0 100]) (demo_health_call True 0 110)) =
    Some suspected_open" by code_simp
qed (rule demo_charger_rest)+


theorem repeated_suspicions_lock_out_witness:
  "active_contactor_lockout_health (judged demo_charger_cfg demo_charger_svc (concat (map episode_calls
     [(demo_health_call True 0 100, demo_health_call True 0 110, demo_health_call False 0 111),
      (demo_health_call True 0 900, demo_health_call True 0 910, demo_health_call False 0 911)]))) = Some lockout_open"
  by (rule repeated_suspicions_lock_out)
     (simp_all add: demo_charger_rest demo_charger_delays demo_open_episode del: open_episode.simps)

end
