(* ===== verification/Charger_Target_Claims.thy ===== *)
theory Charger_Target_Claims
  imports Charger_Target Contactor_Claims
begin

text \<open>
  Properties of the charger writes and the status code: a written current is within the limits, no
  write reaches the charger inside a retry window, and the fault status is given exactly for a fault.
\<close>

section \<open>Limits\<close>

lemma clamped_bounds:
  assumes "clamped_target c v = Some t"
  shows "0 < t"
    and "finite_float_or_none (cc_max_current c) = Some m \<Longrightarrow> 0 < m \<Longrightarrow> t \<le> m"
    and "finite_float_or_none (cc_min_current c) = Some n \<Longrightarrow>
      (case finite_float_or_none (cc_max_current c) of None \<Rightarrow> True | Some m \<Rightarrow> m \<le> 0 \<or> n \<le> m) \<Longrightarrow> n \<le> t"
  using assms
  by (auto simp: clamped_target_def apply_minimum_def apply_maximum_def Let_def split: option.splits if_splits)

lemma current_target_clamped:
  assumes "current_target c i d now a = Some t"
  shows "d \<and> a \<and> cc_current_backend c \<and> (\<exists>v. clamped_target c v = Some t)"
  using assms
  by (auto simp: current_target_def target_allowed_def derived_learned_target_def split: if_splits option.splits)

definition new_events :: "charger_svc \<Rightarrow> charger_svc \<Rightarrow> charger_effect list" where
  "new_events s s' = drop (length (cs_log s)) (cs_log s')"

lemma note_failure_log [simp]:
  "set (cs_log (note_transport_failure env c e src now s)) \<subseteq> set (cs_log s) \<union> {x. \<exists>a b d. x = DelayRetry a b d}"
  by (auto simp: note_transport_failure_def remember_retry_def remember_issue_def charger_emit_def Let_def
      split: option.splits)

lemma note_failure_prefix: "\<exists>ev. cs_log (note_transport_failure env c e src now s) = cs_log s @ ev \<and>
    set ev \<subseteq> {x. \<exists>a b d. x = DelayRetry a b d}"
  by (auto simp: note_transport_failure_def remember_retry_def remember_issue_def charger_emit_def Let_def
      split: option.splits)

text \<open>Whatever a new target leads to, the only write it can log is that target, outside a retry window.\<close>

lemma apply_new_log:
  assumes "apply_new_current_target env c t now l s = (r, s')"
  shows "\<exists>ev. cs_log s' = cs_log s @ ev \<and> (\<forall>x. SetCurrent x \<in> set ev \<longrightarrow> x = t \<and> \<not> retry_active s now) \<and>
    (\<forall>b. SetEnabled b \<notin> set ev \<and> QueueRelay b \<notin> set ev)"
proof (cases "retry_active s now \<or> ce_set_current env t = None")
  case True
  then show ?thesis
    using assms by (auto simp: apply_new_current_target_def remember_current_target_def clear_retry_def clear_issue_def
        charger_emit_def Let_def split: if_splits)
next
  case False
  then obtain e where e: "ce_set_current env t = Some e" "\<not> retry_active s now" by auto
  obtain ev where "cs_log (note_transport_failure env c e ''current'' now (charger_emit (SetCurrent t) s)) =
      cs_log (charger_emit (SetCurrent t) s) @ ev" "set ev \<subseteq> {x. \<exists>a b d. x = DelayRetry a b d}"
    using note_failure_prefix by blast
  with assms e show ?thesis
    by (auto simp: apply_new_current_target_def handle_current_target_failure_def charger_emit_def Let_def split: if_splits)
qed

lemma apply_current_log:
  assumes "apply_current_target env c i d now a s = (r, s')"
  shows "\<exists>ev. cs_log s' = cs_log s @ ev \<and>
    (\<forall>x. SetCurrent x \<in> set ev \<longrightarrow> current_target c i d now a = Some x \<and> \<not> retry_active s now) \<and>
    (\<forall>b. SetEnabled b \<notin> set ev \<and> QueueRelay b \<notin> set ev)"
proof (cases "\<exists>t l. current_target c i d now a = Some t \<and> apply_new_current_target env c t now l s = (r, s')")
  case True
  then show ?thesis using apply_new_log by fastforce
next
  case False
  with assms show ?thesis
    by (auto simp: apply_current_target_def reset_current_target_def Let_def split: if_splits option.splits)
qed

text \<open>
  Claim C32.  A current the cycle writes to the charger is always within the configured limits: it is
  positive, not above a positive maximum and not below the minimum unless the two contradict each
  other.  It is written only in Auto mode, with the relay wanted on, outside the retry window of an
  earlier transport failure.
\<close>

theorem written_current_is_within_limits:
  assumes "apply_current_target env c i desired now auto s = (r, s')"
    and "SetCurrent x \<in> set (new_events s s')"
  shows "desired \<and> auto \<and> \<not> retry_active s now \<and> 0 < x \<and>
    (case finite_float_or_none (cc_max_current c) of None \<Rightarrow> True | Some m \<Rightarrow> m \<le> 0 \<or> x \<le> m) \<and>
    (case finite_float_or_none (cc_min_current c) of None \<Rightarrow> True
     | Some n \<Rightarrow> n \<le> x \<or> (case finite_float_or_none (cc_max_current c) of None \<Rightarrow> False | Some m \<Rightarrow> 0 < m \<and> m < n))"
proof -
  obtain ev where "cs_log s' = cs_log s @ ev"
    and ev: "\<And>x. SetCurrent x \<in> set ev \<Longrightarrow> current_target c i desired now auto = Some x \<and> \<not> retry_active s now"
    using apply_current_log [OF assms(1)] by blast
  with assms(2) have "SetCurrent x \<in> set ev" by (simp add: new_events_def)
  from ev [OF this] have t: "current_target c i desired now auto = Some x" "\<not> retry_active s now" by simp_all
  from current_target_clamped [OF t(1)] obtain v where "clamped_target c v = Some x" "desired" "auto" by blast
  with clamped_bounds [of c v x] t(2) show ?thesis by (fastforce split: option.splits)
qed

section \<open>The retry window\<close>

datatype charger_op = CurrentOp target_in bool secs bool | RelayOp bool "bool \<times> watts \<times> amps \<times> bool" secs

fun op_time :: "charger_op \<Rightarrow> secs" where
  "op_time (CurrentOp _ _ now _) = now"
| "op_time (RelayOp _ _ now) = now"

fun charger_step :: "charger_env \<Rightarrow> charger_cfg \<Rightarrow> charger_svc \<Rightarrow> charger_op \<Rightarrow> charger_svc" where
  "charger_step env c s (CurrentOp i d now a) = snd (apply_current_target env c i d now a s)"
| "charger_step env c s (RelayOp d reading now) = snd (apply_relay_decision env c d reading now s)"

text \<open>The retry window ends at \<open>u\<close>, and so much has been logged.\<close>

definition window_until :: "secs \<Rightarrow> charger_effect list \<Rightarrow> charger_svc \<Rightarrow> bool" where
  "window_until u l s \<longleftrightarrow> cs_retry_until s = Some (Fin u) \<and> cs_log s = l"

lemma window_active: "window_until u l s \<Longrightarrow> now < u \<Longrightarrow> retry_active s now"
  by (simp add: window_until_def retry_active_def fresh_charger_retry_until_def)

lemma window_step:
  assumes "cc_enable_backend c" "window_until u l s" "op_time q < u"
  shows "window_until u l (charger_step env c s q)"
proof -
  have "retry_active s (op_time q)" using assms by (auto dest: window_active)
  with assms(1,2) show ?thesis
    by (cases q) (auto simp: apply_current_target_def apply_new_current_target_def apply_relay_decision_def
        charger_apply_enabled_def reset_current_target_def window_until_def Let_def split: option.splits prod.splits if_splits)
qed

interpretation retry_window: guarded_steps "\<lambda>s q. if cc_enable_backend c then charger_step env c s q else s"
  "\<lambda>q. op_time q < u" "window_until u l" for env c u l
  by unfold_locales (auto simp: window_step)


section \<open>The status code\<close>

definition hard_faults :: "string set" where
  "hard_faults = {''contactor-feedback-mismatch'', lockout_open, lockout_welded}"

lemma hard_fault_known: "r \<in> hard_faults \<Longrightarrow> evse_fault_reason (Some r) = Some r"
  by (auto simp: hard_faults_def lockout_open_def lockout_welded_def evse_fault_reason_def base_auto_reason_def
      evse_fault_health_reasons_def)

text \<open>
  The status code is the fault code zero exactly when there is a fault: a contactor
  feedback mismatch or a latched lockout as the health reason, or a charger that reports a fault
  while no transport issue hides it.  No status text of the charger can turn a fault into another
  status.
\<close>

theorem fault_status_exactly_for_faults:
  assumes "cc_idle_status c \<noteq> 0"
  shows "fst (derive_status_code c s rs relay_on p auto now last_health health) = 0 \<longleftrightarrow>
    (\<exists>fault \<in> hard_faults. evse_fault_reason (if health = None then last_health else health) = Some fault) \<or>
    charger_health_override c s rs now = Some ''charger-fault''"
proof -
  have rules: "charger_status_override c rs auto now = Some (code, src) \<Longrightarrow> code \<noteq> 0" for code src
    using assms by (auto simp: charger_status_override_def charger_status_token_rules_def Let_def split: if_splits)
  have fallback: "fst (fallback_status_code c s2 rs relay_on p auto now) \<noteq> 0" for s2
    using assms by (simp add: fallback_status_code_def)
  show ?thesis
    using rules fallback
    by (auto simp: derive_status_code_def hard_evse_fault_status_override_def charger_fault_status_override_def
        hard_faults_def split: option.splits prod.splits if_splits)
qed

section \<open>Witnesses\<close>

definition demo_charger_env :: charger_env where
  "demo_charger_env = \<lparr> ce_set_current = (\<lambda>_. None), ce_set_enabled = (\<lambda>_. None), ce_queue_relay = (\<lambda>_. None),
     ce_detail = (\<lambda>_. ''detail''), ce_delay_callable = False, ce_clock = 100 \<rparr>"

definition demo_target_in :: target_in where
  "demo_target_in = \<lparr> ti_mode = None, ti_local = (\<lambda>_. \<lparr> dt_day = 0, dt_secs = 0 \<rparr>), ti_windows = [], ti_days = DayItems [],
     ti_delay = 3600, ti_latest_end = PStr ''04:30'', ti_night_current = None, ti_learned_state = None,
     ti_learned_power = None, ti_learned_voltage = None, ti_learned_phase = None, ti_phase = None, ti_learned_at = None,
     ti_max_age = None, ti_voltage_mode = None, ti_set_current = Some (Fin 20) \<rparr>"

lemma demo_current_write:
  "apply_current_target demo_charger_env demo_charger_cfg demo_target_in True 100 True demo_charger_svc =
    (Inr (Some 16), demo_charger_svc\<lparr>cs_target_amps := Some (Fin 16), cs_target_at := Some 100,
       cs_log := [SetCurrent 16, RecoveryMark ''charger'']\<rparr>)"
  by (simp add: apply_current_target_def current_target_def target_allowed_def scheduled_night_active_def
      derived_learned_target_def stable_learned_inputs_def normalize_learning_state_def clamped_target_def apply_minimum_def
      apply_maximum_def current_reset_needed_def target_unchanged_def apply_new_current_target_def retry_active_def
      fresh_charger_retry_until_def remember_current_target_def clear_retry_def clear_issue_def charger_emit_def
      demo_charger_env_def demo_charger_cfg_def demo_target_in_def demo_charger_svc_def)

theorem written_current_is_within_limits_witness:
  "SetCurrent 16 \<in> set (new_events demo_charger_svc
     (snd (apply_current_target demo_charger_env demo_charger_cfg demo_target_in True 100 True demo_charger_svc))) \<and>
   \<not> retry_active demo_charger_svc 100 \<and> (16 :: rat) \<le> 16"
proof -
  have written: "SetCurrent 16 \<in> set (new_events demo_charger_svc
     (snd (apply_current_target demo_charger_env demo_charger_cfg demo_target_in True 100 True demo_charger_svc)))"
    by (simp add: demo_current_write new_events_def) (simp add: demo_charger_svc_def)
  with written_current_is_within_limits [OF demo_current_write, of 16] show ?thesis
    by (simp add: demo_current_write)
qed


text \<open>A charger that says it is charging keeps the fault status of an open lockout.\<close>

theorem fault_status_exactly_for_faults_witness:
  "fst (derive_status_code demo_charger_cfg demo_charger_svc (hl_readbacks (demo_health_call True 0 100)) True 2000 True 100
     (Some ''running'') (Some lockout_open)) = 0"
proof -
  have "\<exists>fault \<in> hard_faults. evse_fault_reason (if Some lockout_open = None then Some ''running'' else Some lockout_open) = Some fault"
    by (rule bexI [of _ lockout_open]) (simp_all add: hard_fault_known hard_faults_def)
  moreover have "cc_idle_status demo_charger_cfg \<noteq> 0" by (simp add: demo_charger_cfg_def)
  ultimately show ?thesis
    using fault_status_exactly_for_faults [of demo_charger_cfg demo_charger_svc "hl_readbacks (demo_health_call True 0 100)"
        True 2000 True 100 "Some ''running''" "Some lockout_open"] by blast
qed

end
