(* ===== verification/Relay_Cycle_Props.thy ===== *)
theory Relay_Cycle_Props
  imports Relay_Cycle Charger_Target_Claims Phase_Props
begin

text \<open>
  What the parts of a cycle leave alone: which of them can command the charger on, and which keep the
  lockout.
\<close>

section \<open>The phase switch in Auto mode commands nothing\<close>

definition no_enable :: "phase_svc \<Rightarrow> phase_svc \<Rightarrow> bool" where
  "no_enable s t \<longleftrightarrow> (\<exists>ev. ps_log t = ps_log s @ ev \<and> (\<forall>b. EnableTarget b \<notin> set ev))"

lemma no_enable_refl [simp]: "no_enable s s"
  by (simp add: no_enable_def)

lemma no_enable_trans: "no_enable s t \<Longrightarrow> no_enable t u \<Longrightarrow> no_enable s u"
  by (fastforce simp: no_enable_def)

lemma no_enable_emit: "no_enable s t \<Longrightarrow> \<forall>b. x \<noteq> EnableTarget b \<Longrightarrow> no_enable s (emit x t)"
  by (force simp: no_enable_def emit_def)

lemma no_enable_same: "ps_log t = ps_log u \<Longrightarrow> no_enable s u \<Longrightarrow> no_enable s t"
  by (simp add: no_enable_def)

lemma phase_log_same [simp]:
  "ps_log (clear_auto_phase_candidate s) = ps_log s"
  "ps_log (clear_phase_switch_state s) = ps_log s"
  "ps_log (stage_phase_switch s p now d) = ps_log s"
  "ps_log (clear_phase_switch_lockout s) = ps_log s"
  "ps_log (clear_lockout_of s p) = ps_log s"
  "ps_log (record_auto_phase_metrics s c t r th) = ps_log s"
  by (simp_all add: clear_auto_phase_candidate_def clear_phase_switch_state_def stage_phase_switch_def
      clear_phase_switch_lockout_def clear_lockout_of_def record_auto_phase_metrics_def split: option.splits)

lemma clear_tracking_log [simp]: "ps_log (clear_phase_switch_mismatch_tracking s x) = ps_log s"
  by (simp add: clear_phase_switch_mismatch_tracking_def phase_switch_mismatch_counts_def Let_def split: option.splits)

lemma save_no_enable: "save_runtime_state env s = (x, t) \<Longrightarrow> no_enable s t"
  by (auto dest!: save_outcome intro: no_enable_emit)

lemma persist_no_enable: "persist_phase_switch_state_best_effort env w s = (x, t) \<Longrightarrow> no_enable s t"
  by (auto simp: persist_phase_switch_state_best_effort_def save_runtime_state_def try_except_def
      intro!: no_enable_emit split: option.splits if_splits)

lemma lockout_active_log [simp]: "ps_log (snd (phase_switch_lockout_active_for s now p)) = ps_log s"
  by (simp add: phase_switch_lockout_active_for_def current_lockout_selection_def active_lockout_selection_def
      clear_phase_switch_lockout_def Let_def split: option.splits prod.splits)

lemma remember_mismatch_log [simp]: "ps_log (snd (remember_phase_switch_mismatch s p now)) = ps_log s"
  by (simp add: remember_phase_switch_mismatch_def phase_switch_mismatch_counts_def phase_switch_mismatch_count_def Let_def
      split: prod.splits)

lemma engage_lockout_log [simp]: "ps_log (engage_phase_switch_lockout s p now) = ps_log s"
  by (simp add: engage_phase_switch_lockout_def Let_def)

lemma report_no_enable: "no_enable s (report_phase_switch_mismatch s p now)"
proof -
  have "ps_log (report_phase_switch_mismatch s p now) =
      ps_log s @ [MarkFailure ''shelly'', SetHealth ''phase-switch-mismatch'', WarnThrottled ''phase-switch-mismatch'']"
    by (simp add: report_phase_switch_mismatch_def emit_def Let_def split: prod.splits)
       (metis engage_lockout_log lockout_active_log remember_mismatch_log snd_conv)
  then show ?thesis by (simp add: no_enable_def)
qed

lemma resume_no_enable: "resume_after_phase_switch_pause env s reading True = (x, t) \<Longrightarrow> no_enable s t"
  by (auto simp: resume_after_phase_switch_pause_def and_then_cases Let_def no_enable_def emit_def
      dest!: save_outcome split: if_splits)

lemma orchestrate_no_enable:
  assumes "orchestrate_pending_phase_switch env s pm reading now True = (x, t)"
  shows "no_enable s t"
proof -
  have pending: "no_enable s t" if "apply_pending_phase_selection env s p now = (x, t)" for p x t
    using that by (auto simp: apply_pending_phase_selection_def apply_phase_selection_def and_then_cases Let_def no_enable_def
        emit_def dest!: save_outcome)
  have abort: "no_enable s t" if "abort_pending_phase_switch env s reading True = (x, t)" for s t x reading
    using resume_no_enable [of env _ reading x t] that
    by (fastforce simp: abort_pending_phase_switch_def Let_def no_enable_def emit_def)
  have waiting: "no_enable s t" if "orchestrate_waiting_phase_switch env s p reading now True = (x, t)" for p x t
    using that
    by (auto simp: orchestrate_waiting_phase_switch_def try_except_def and_then_cases
        split: if_splits prod.splits sum.splits dest: pending intro: no_enable_trans [OF pending abort])
  have mismatch: "no_enable s t"
    if "stabilizing_phase_switch_mismatch_result env s p obs reading now True = Some (x, t)" for s p obs x t
  proof -
    have "no_enable (report_phase_switch_mismatch s p now) t"
      if "abort_phase_switch_after_mismatch env (report_phase_switch_mismatch s p now) p obs reading True = (y, t)" for y t
      using resume_no_enable that by (fastforce simp: abort_phase_switch_after_mismatch_def Let_def no_enable_def)
    with that show ?thesis
      by (auto simp: stabilizing_phase_switch_mismatch_result_def and_then_cases Let_def
          intro: no_enable_trans [OF report_no_enable] split: if_splits)
  qed
  have complete: "no_enable s t" if "complete_stabilized_phase_switch env s p reading True = (x, t)" for s p x t
    using that resume_no_enable
    by (fastforce simp: complete_stabilized_phase_switch_def and_then_cases Let_def no_enable_def)
  have stabilizing: "no_enable s t" if r: "orchestrate_stabilizing_phase_switch env s p pm reading now True = (x, t)" for p x t
  proof -
    obtain obs s1 where s1: "remember_observed_phase_selection env s pm = (obs, s1)" "no_enable s s1"
      by (cases "remember_observed_phase_selection env s pm")
         (auto simp: remember_observed_phase_selection_def no_enable_def Let_def split: option.splits)
    from r have "no_enable s1 t"
      using mismatch complete
      by (auto simp: orchestrate_stabilizing_phase_switch_def s1 split: if_splits option.splits)
    with s1(2) show ?thesis by (rule no_enable_trans)
  qed
  from assms waiting stabilizing show ?thesis
    by (auto simp: orchestrate_pending_phase_switch_def no_enable_def split: option.splits if_splits)
qed

lemma maybe_apply_no_enable:
  assumes "maybe_apply_auto_phase_selection env s d r v now a = (x, t)"
  shows "no_enable s t \<and> (\<forall>b. x = Inr (Some b) \<longrightarrow> \<not> b)"
proof -
  have blocked: "no_enable s t" if "auto_phase_selection_blocked s a = (b, t)" for b t
    using that by (auto simp: auto_phase_selection_blocked_def auto_phase_selection_inactive_def Let_def no_enable_def
        split: if_splits)
  have decision: "ps_log t = ps_log s" if "auto_phase_selection_decision s d r v now = (y, t)" for s y t
    using that by (auto simp: auto_phase_selection_decision_def and_then_cases Let_def
        dest!: target_selection_state split: prod.splits)
  have ready: "ps_log t = ps_log s" if "pending_auto_phase_target_ready s c p now reason th = (y, t)" for s c p reason th y t
    using that by (auto simp: pending_auto_phase_target_ready_def auto_phase_candidate_ready_def record_auto_phase_metrics_def
        split: if_splits option.splits prod.splits bool.splits)
  have acted: "no_enable s t \<and> (\<forall>b. y = Inr (Some b) \<longrightarrow> \<not> b)" if "apply_auto_phase_target env s p d r now = (y, t)" for s p y t
    using that
    by (auto simp: apply_auto_phase_target_def apply_phase_selection_def and_then_cases Let_def no_enable_def emit_def
        dest!: persist_no_enable split: if_splits sum.splits)
  from assms show ?thesis
  proof (cases rule: maybe_apply_cases)
    case (act s1 s2 s3 c p reason th)
    have "no_enable s s3"
      by (rule no_enable_same [OF ready [OF act(3)] no_enable_same [OF decision [OF act(2)] blocked [OF act(1)]]])
    with acted [OF act(5)] show ?thesis by (auto intro: no_enable_trans)
  qed (auto dest!: blocked decision ready intro: no_enable_same)
qed

section \<open>The charger is not commanded on\<close>

fun commands_on :: "charger_effect \<Rightarrow> bool" where
  "commands_on (SetEnabled b) = b"
| "commands_on (QueueRelay b) = b"
| "commands_on (SetCurrent _) = True"
| "commands_on _ = False"

definition quiet :: "charger_svc \<Rightarrow> charger_svc \<Rightarrow> bool" where
  "quiet s t \<longleftrightarrow> (\<exists>ev. cs_log t = cs_log s @ ev \<and> (\<forall>x \<in> set ev. \<not> commands_on x))"

definition kept :: "charger_svc \<Rightarrow> charger_svc \<Rightarrow> bool" where
  "kept s t \<longleftrightarrow> quiet s t \<and> lockout_record t = lockout_record s"

lemma quiet_trans: "quiet s t \<Longrightarrow> quiet t u \<Longrightarrow> quiet s u"
  by (fastforce simp: quiet_def)

lemma kept_refl [simp]: "kept s s"
  by (simp add: kept_def quiet_def)

lemma kept_trans: "kept s t \<Longrightarrow> kept t u \<Longrightarrow> kept s u"
  by (auto simp: kept_def intro: quiet_trans)

lemma kept_emit: "\<not> commands_on x \<Longrightarrow> kept s t \<Longrightarrow> kept s (charger_emit x t)"
  by (auto simp: kept_def quiet_def charger_emit_def lockout_record_def)

lemma kept_fields:
  "cs_log t = cs_log u \<Longrightarrow> lockout_record t = lockout_record u \<Longrightarrow> kept s u \<Longrightarrow> kept s t"
  by (simp add: kept_def quiet_def)

lemma kept_clear: "kept s (clear_retry (clear_issue s))"
  by (rule kept_fields [of _ s]) (simp_all add: clear_retry_def clear_issue_def lockout_record_def)

lemma kept_note: "kept s (note_transport_failure env c x src now s)"
proof -
  have "lockout_record (note_transport_failure env c x src now s) = lockout_record s"
    by (simp add: note_transport_failure_def remember_retry_def remember_issue_def charger_emit_def lockout_record_def Let_def
        split: option.split)
  with note_failure_prefix [of env c x src now s] show ?thesis by (fastforce simp: kept_def quiet_def)
qed

lemma charger_apply_off_kept: "charger_apply_enabled env c False now s = (r, t) \<Longrightarrow> kept s t"
proof -
  have "kept s (charger_emit (SetEnabled False) s)" "kept s (charger_emit (QueueRelay False) s)"
    by (simp_all add: kept_emit)
  then show "charger_apply_enabled env c False now s = (r, t) \<Longrightarrow> kept s t"
    by (auto simp: charger_apply_enabled_def Let_def intro!: kept_emit intro: kept_trans [OF _ kept_clear]
        split: if_splits option.splits)
qed

lemma relay_decision_off_kept:
  assumes "apply_relay_decision env c False reading now s = (r, t)"
  shows "kept s t \<and> (\<forall>reading'. r = Inr reading' \<and> fst reading' \<longrightarrow> reading' = reading)"
proof -
  have failure: "kept s (handle_relay_decision_failure env c x u)" if "kept s u" for x u
    using that by (auto simp: handle_relay_decision_failure_def Let_def intro!: kept_emit intro: kept_trans [OF _ kept_note])
  show ?thesis
    using assms
    by (auto simp: apply_relay_decision_def dest!: charger_apply_off_kept intro!: kept_emit failure
        split: if_splits prod.splits sum.splits bool.splits)
qed

lemma current_target_off_kept: "apply_current_target env c i False now a s = (r, t) \<Longrightarrow> kept s t"
  by (auto simp: apply_current_target_def current_reset_needed_def reset_current_target_def lockout_record_def
      intro: kept_fields [of _ s] split: if_splits)

lemma status_kept: "status_after_relay_decision e on p h y = (code, y') \<Longrightarrow> kept (cy_charger y) (cy_charger y')"
  by (auto simp: status_after_relay_decision_def derive_status_code_def hard_evse_fault_status_override_def
      charger_fault_status_override_def fallback_status_code_def lockout_record_def Let_def
      intro: kept_fields [of _ "cy_charger y"] split: prod.splits option.splits if_splits)

lemma sync_kept: "relay_sync_health_override on pc now s = (h, t) \<Longrightarrow> kept s t"
  by (auto simp: relay_sync_health_override_def clear_relay_sync_tracking_def record_relay_sync_timeout_def
      kept_def quiet_def lockout_record_def charger_emit_def split: option.splits if_splits)

lemma post_health_kept: "kept (cy_charger y) (cy_charger (apply_post_decision_health e on pc h y))"
  by (auto simp: apply_post_decision_health_def Let_def dest!: sync_kept split: prod.split option.split)

lemma replay_none: "\<forall>b. EnableTarget b \<notin> set ev \<Longrightarrow> foldl (replay_enable e) s ev = s"
proof (induction ev arbitrary: s)
  case (Cons x ev)
  then show ?case by (cases x) auto
qed simp

lemma after_phase_charger: "no_enable (phase_part y) p \<Longrightarrow> cy_charger (after_phase e y p) = cy_charger y"
  by (auto simp: no_enable_def after_phase_def new_phase_effects_def phase_part_def replay_none)

section \<open>One cycle\<close>

text \<open>What follows the health verdicts.\<close>

definition cycle_tail ::
  "cycle_env \<Rightarrow> reading \<Rightarrow> bool \<Rightarrow> string option \<Rightarrow> cycle_svc \<Rightarrow> (reading \<times> int \<times> string option, cycle_svc) outcome" where
  "cycle_tail e reading d health y3 =
    and_then (cycle_auto_phase e d (fst reading) y3) (\<lambda>phase_override y4.
      let d' = (case phase_override of None \<Rightarrow> d | Some b \<Rightarrow> b)
      in and_then (cycle_current_target e d' y4) (\<lambda>_ y5.
        case apply_relay_decision (ye_charger e) (ye_cfg e) d' (decided_reading e reading) (ye_now e) (cy_charger y5) of
          (Inl error, s) \<Rightarrow> (Inl (error_class error), y5\<lparr>cy_charger := s\<rparr>)
        | (Inr reading', s) \<Rightarrow>
            (case status_after_relay_decision e (fst reading') (fst (snd reading')) health (y5\<lparr>cy_charger := s\<rparr>) of
               (status, y6) \<Rightarrow>
                 (Inr (reading', status, health),
                  apply_post_decision_health e (fst reading') (snd (snd (snd reading'))) health y6))))"

lemma and_then_assoc: "and_then (and_then r f) g = and_then r (\<lambda>a s. and_then (f a s) g)"
  by (cases r; cases "fst r") auto

lemma relay_cycle_eq:
  "relay_cycle e y =
    and_then (cycle_pending_phase_switch e y) (\<lambda>(reading, override) y1.
      and_then (desired_relay_target e (fst reading) override y1) (\<lambda>desired y2.
        case health_checked e desired reading y2 of
          ((d, health), y3) \<Rightarrow> cycle_tail e reading d health y3))"
proof (cases "cycle_pending_phase_switch e y")
  case (Pair r1 y1)
  show ?thesis
  proof (cases r1)
    case (Inr p)
    obtain reading override where p: "p = (reading, override)" by fastforce
    obtain r2 y2 where d: "desired_relay_target e (fst reading) override y1 = (r2, y2)" by fastforce
    show ?thesis
    proof (cases r2)
      case (Inr desired)
      obtain d health y3 where "health_checked e desired reading y2 = ((d, health), y3)"
        by (metis surj_pair)
      with Pair \<open>r1 = Inr p\<close> p d Inr show ?thesis
        by (simp add: relay_cycle_def resolved_relay_decision_def cycle_tail_def and_then_assoc Let_def)
    qed (simp add: relay_cycle_def resolved_relay_decision_def Pair \<open>r1 = Inr p\<close> p d)
  qed (simp add: relay_cycle_def resolved_relay_decision_def Pair)
qed

lemma auto_phase_off:
  assumes "cycle_auto_phase e False on y = (r, y')"
  shows "cy_charger y' = cy_charger y \<and> (\<forall>b. r = Inr (Some b) \<longrightarrow> \<not> b)"
proof -
  obtain p where p: "maybe_apply_auto_phase_selection (cycle_phase_env e y) (phase_part y) False on (ye_voltage e) (ye_now e)
      (cycle_auto_active e) = (r, p)" "y' = after_phase e y p"
    using assms by (auto simp: cycle_auto_phase_def split: prod.splits)
  from maybe_apply_no_enable [OF p(1)] show ?thesis by (auto simp: p(2) after_phase_charger)
qed

lemma cycle_tail_off:
  assumes "cycle_tail e reading False health y = (r, y')"
  shows "kept (cy_charger y) (cy_charger y') \<and>
    (\<forall>reading' status h. r = Inr (reading', status, h) \<longrightarrow> h = health \<and> (fst reading' \<longrightarrow> fst reading))"
proof -
  obtain r4 y4 where phase: "cycle_auto_phase e False (fst reading) y = (r4, y4)" by fastforce
  note off = auto_phase_off [OF phase]
  show ?thesis
  proof (cases r4)
    case (Inl x)
    with assms phase off show ?thesis by (auto simp: cycle_tail_def)
  next
    case (Inr override)
    with off have d: "(case override of None \<Rightarrow> False | Some b \<Rightarrow> b) = False" by (auto split: option.split)
    obtain r5 y5 where current: "cycle_current_target e False y4 = (r5, y5)" by fastforce
    then have y5: "kept (cy_charger y) (cy_charger y5)"
      using off current_target_off_kept by (fastforce simp: cycle_current_target_def split: prod.splits)
    show ?thesis
    proof (cases r5)
      case (Inl x)
      with assms phase Inr d current y5 show ?thesis by (auto simp: cycle_tail_def)
    next
      case (Inr t)
      obtain r6 s6 where decided: "apply_relay_decision (ye_charger e) (ye_cfg e) False (decided_reading e reading) (ye_now e)
          (cy_charger y5) = (r6, s6)" by fastforce
      note relay = relay_decision_off_kept [OF decided]
      have on: "fst (decided_reading e reading) = fst reading" by (simp add: decided_reading_def split: prod.split)
      show ?thesis
      proof (cases r6)
        case (Inl x)
        with assms phase \<open>r4 = Inr override\<close> d current Inr decided y5 relay show ?thesis
          by (auto simp: cycle_tail_def intro: kept_trans)
      next
        case (Inr reading')
        obtain st y7 where status: "status_after_relay_decision e (fst reading') (fst (snd reading')) health (y5\<lparr>cy_charger := s6\<rparr>) = (st, y7)"
          by fastforce
        from status_kept [OF status] have y7: "kept s6 (cy_charger y7)" by simp
        from assms phase \<open>r4 = Inr override\<close> d current \<open>r5 = Inr t\<close> decided Inr status
        have "r = Inr (reading', st, health)"
          and "y' = apply_post_decision_health e (fst reading') (snd (snd (snd reading'))) health y7"
          by (simp_all add: cycle_tail_def)
        with y5 relay y7 Inr on post_health_kept show ?thesis by (metis Inr_inject fst_conv kept_trans snd_conv)
      qed
    qed
  qed
qed

text \<open>The steps of a cycle that completes.\<close>

lemma cycle_tail_result:
  assumes "cycle_tail e reading d health y = (Inr (reading', status, h), y')"
  shows "h = health \<and> (\<exists>on p u. fst (status_after_relay_decision e on p health u) = status)"
proof -
  obtain r4 y4 where phase: "cycle_auto_phase e d (fst reading) y = (r4, y4)" by fastforce
  with assms obtain override where r4: "r4 = Inr override" by (cases r4) (simp_all add: cycle_tail_def)
  define d' where "d' = (case override of None \<Rightarrow> d | Some b \<Rightarrow> b)"
  obtain r5 y5 where current: "cycle_current_target e d' y4 = (r5, y5)" by fastforce
  with assms phase r4 obtain t where r5: "r5 = Inr t"
    by (cases r5) (simp_all add: cycle_tail_def d'_def [symmetric])
  obtain r6 s6 where decided: "apply_relay_decision (ye_charger e) (ye_cfg e) d' (decided_reading e reading) (ye_now e)
      (cy_charger y5) = (r6, s6)" by fastforce
  with assms phase r4 current r5 obtain rd where r6: "r6 = Inr rd"
    by (cases r6) (simp_all add: cycle_tail_def d'_def [symmetric])
  obtain st y7 where status: "status_after_relay_decision e (fst rd) (fst (snd rd)) health (y5\<lparr>cy_charger := s6\<rparr>) = (st, y7)"
    by fastforce
  from assms phase r4 current r5 decided r6 status have "h = health" "status = st"
    by (simp_all add: cycle_tail_def d'_def [symmetric])
  with status show ?thesis by (metis fst_conv)
qed

lemma relay_cycle_result:
  assumes "relay_cycle e y = (Inr (reading', status, h), y')"
  obtains reading override y1 desired y2 d y3
  where "cycle_pending_phase_switch e y = (Inr (reading, override), y1)"
    "desired_relay_target e (fst reading) override y1 = (Inr desired, y2)"
    "health_checked e desired reading y2 = ((d, h), y3)"
    "cycle_tail e reading d h y3 = (Inr (reading', status, h), y')"
proof -
  obtain r1 y1 where p: "cycle_pending_phase_switch e y = (r1, y1)" by fastforce
  with assms obtain reading override where r1: "r1 = Inr (reading, override)"
    by (cases r1) (auto simp: relay_cycle_eq)
  obtain r2 y2 where d: "desired_relay_target e (fst reading) override y1 = (r2, y2)" by fastforce
  with assms p r1 obtain desired where r2: "r2 = Inr desired" by (cases r2) (auto simp: relay_cycle_eq)
  obtain d' h' y3 where checked: "health_checked e desired reading y2 = ((d', h'), y3)" by (metis surj_pair)
  with assms p r1 d r2 have tail: "cycle_tail e reading d' h' y3 = (Inr (reading', status, h), y')" by (simp add: relay_cycle_eq)
  from cycle_tail_result [OF tail] have "h' = h" by simp
  with that p r1 d r2 checked tail show thesis by blast
qed

end
