(* ===== verification/Relay_Cycle_Claims.thy ===== *)
theory Relay_Cycle_Claims
  imports Relay_Cycle_Props Phase_Claims Auto_Claims
begin

text \<open>
  Safety of the update cycle: a health verdict keeps the charger off, a latched lockout keeps it off
  through any run of Auto cycles, and the one path on which a phase switch in manual mode does not ask
  for the verdict.
\<close>

section \<open>Health verdicts\<close>

lemma override_log:
  "switch_feedback_health_override c s e = (h, t) \<Longrightarrow> cs_log t = cs_log s"
proof -
  have noted_log: "k \<in> suspicions \<Longrightarrow> cs_log (noted u k now) = cs_log u" for u k now
    by (auto simp: noted_def Let_def activate_known split: option.splits)
  have aged_log: "cs_log (aged c s e) = cs_log s" by (simp add: aged_def ages_eq)
  show "switch_feedback_health_override c s e = (h, t) \<Longrightarrow> cs_log t = cs_log s"
    using aged_log noted_log
    by (cases rule: judge_cases [of c e s])
       (auto simp: judge_def clear_contactor_suspicions_def clear_contactor_fault_active_state_def)
qed

lemma health_checked_quiet:
  assumes "health_checked e desired reading y = ((d, h), y')"
  shows "quiet (cy_charger y) (cy_charger y') \<and> (h \<noteq> None \<longrightarrow> \<not> d)"
  using assms
  by (auto simp: health_checked_def blocking_switch_feedback_health_def blocking_charger_health_def quiet_def charger_emit_def
      Let_def dest!: override_log split: prod.splits option.splits if_splits)

lemma override_locked:
  assumes "active_contactor_lockout_health s = Some l"
  shows "\<exists>r t. switch_feedback_health_override c s e = (Some r, t) \<and> lockout_record t = lockout_record s
    \<and> (r = l \<or> r = ''contactor-interlock'' \<or> r = ''contactor-feedback-mismatch'')"
  using assms safety_reasons
  by (auto simp: override_eq lockout_record_def split: option.split)

lemma health_checked_locked:
  assumes "health_checked e desired reading y = ((d, h), y')" "active_contactor_lockout_health (cy_charger y) = Some l"
  shows "kept (cy_charger y) (cy_charger y') \<and> \<not> d \<and>
    h \<in> {Some l, Some ''contactor-interlock'', Some ''contactor-feedback-mismatch''}"
proof -
  obtain r t where rt: "switch_feedback_health_override (ye_cfg e) (cy_charger y) (cycle_health_call e desired reading) = (Some r, t)"
    "lockout_record t = lockout_record (cy_charger y)"
    "r = l \<or> r = ''contactor-interlock'' \<or> r = ''contactor-feedback-mismatch''"
    using override_locked [OF assms(2)] by blast
  from override_log [OF rt(1)] rt(2) have "kept (cy_charger y) t" by (simp add: kept_def quiet_def)
  then show ?thesis
    using assms(1) rt
    by (auto simp: health_checked_def blocking_switch_feedback_health_def blocking_charger_health_def Let_def
        intro!: kept_emit split: option.splits if_splits)
qed

section \<open>Before the verdicts\<close>

lemma pending_auto_charger:
  assumes "cycle_auto_active e" "cycle_pending_phase_switch e y = (r, y')"
  shows "cy_charger y' = cy_charger y"
proof -
  obtain p where p: "orchestrate_pending_phase_switch (cycle_phase_env e y) (phase_part y) (ye_pm_phase e) (ye_reading e)
      (ye_now e) True = (r, p)" "y' = after_phase e y p"
    using assms by (auto simp: cycle_pending_phase_switch_def split: prod.splits)
  from orchestrate_no_enable [OF p(1)] show ?thesis by (simp add: p(2) after_phase_charger)
qed

lemma desired_charger: "desired_relay_target e on override y = (r, y') \<Longrightarrow> cy_charger y' = cy_charger y"
  by (auto simp: desired_relay_target_def split: option.splits prod.splits)

text \<open>A latched lockout holds from the pending phase switch to the end of the cycle.\<close>

lemma locked_rest:
  assumes "cycle_pending_phase_switch e y = (r1, y1)" "relay_cycle e y = (r, y')"
    and "active_contactor_lockout_health (cy_charger y1) = Some l"
  shows "kept (cy_charger y1) (cy_charger y') \<and>
    (\<forall>reading status h. r = Inr (reading, status, h) \<longrightarrow>
       h \<in> {Some l, Some ''contactor-interlock'', Some ''contactor-feedback-mismatch''})"
proof (cases r1)
  case (Inl x)
  with assms show ?thesis by (auto simp: relay_cycle_eq)
next
  case (Inr p)
  obtain reading override where p: "p = (reading, override)" by fastforce
  obtain r2 y2 where d: "desired_relay_target e (fst reading) override y1 = (r2, y2)" by fastforce
  note y2 = desired_charger [OF d]
  show ?thesis
  proof (cases r2)
    case (Inl x)
    with assms(1,2) p d y2 \<open>r1 = Inr p\<close> show ?thesis by (auto simp: relay_cycle_eq)
  next
    case (Inr desired)
    obtain d' h y3 where checked: "health_checked e desired reading y2 = ((d', h), y3)" by (metis surj_pair)
    note locked = health_checked_locked [OF checked, of l]
    have "cycle_tail e reading d' h y3 = (r, y')"
      using assms(1,2) p d Inr checked \<open>r1 = Inr p\<close> by (simp add: relay_cycle_eq)
    with locked assms(3) y2 have "cycle_tail e reading False h y3 = (r, y')" by simp
    from cycle_tail_off [OF this] locked assms(3) y2 show ?thesis by (auto intro: kept_trans)
  qed
qed

text \<open>
  Claim C28.  A health verdict keeps the charger off.  A completed Auto cycle that reports a blocking
  health reason, whatever the phase switch, the Auto decision and the phase selection wanted, has
  neither enabled the charger, queued the relay on, nor written a charging current.
\<close>

theorem blocked_cycle_commands_nothing_on:
  assumes "relay_cycle e y = (Inr (reading', status, Some h), y')" "cycle_auto_active e"
  shows "\<forall>x \<in> set (new_events (cy_charger y) (cy_charger y')). \<not> commands_on x"
proof -
  from assms(1) obtain reading override y1 desired y2 d y3 where
    p: "cycle_pending_phase_switch e y = (Inr (reading, override), y1)"
    and desired: "desired_relay_target e (fst reading) override y1 = (Inr desired, y2)"
    and checked: "health_checked e desired reading y2 = ((d, Some h), y3)"
    and tail: "cycle_tail e reading d (Some h) y3 = (Inr (reading', status, Some h), y')"
    by (rule relay_cycle_result)
  note y1 = pending_auto_charger [OF assms(2) p]
  from health_checked_quiet [OF checked] have off: "quiet (cy_charger y2) (cy_charger y3)" "\<not> d" by simp_all
  with tail have "cycle_tail e reading False (Some h) y3 = (Inr (reading', status, Some h), y')" by simp
  from cycle_tail_off [OF this] off(1) y1 desired_charger [OF desired] have "quiet (cy_charger y) (cy_charger y')"
    by (auto simp: kept_def intro: quiet_trans)
  then show ?thesis by (auto simp: quiet_def new_events_def)
qed

section \<open>A lockout through many cycles\<close>

definition run_cycles :: "cycle_env list \<Rightarrow> cycle_svc \<Rightarrow> cycle_svc" where
  "run_cycles es y = foldl (\<lambda>y e. snd (relay_cycle e y)) y es"

definition locked_cycle :: "charger_svc \<Rightarrow> cycle_svc \<Rightarrow> bool" where
  "locked_cycle s y \<longleftrightarrow> kept s (cy_charger y) \<and> active_contactor_lockout_health s \<noteq> None"

lemma locked_cycle_health: "locked_cycle s y \<Longrightarrow> active_contactor_lockout_health (cy_charger y) = active_contactor_lockout_health s"
  unfolding locked_cycle_def kept_def by (blast intro: lockout_record_health)

lemma locked_cycle_step:
  assumes "locked_cycle s y" "cycle_auto_active e" "relay_cycle e y = (r, y')"
  shows "locked_cycle s y'"
proof -
  obtain r1 y1 where p: "cycle_pending_phase_switch e y = (r1, y1)" by fastforce
  have y1: "cy_charger y1 = cy_charger y" by (rule pending_auto_charger [OF assms(2) p])
  obtain l where "active_contactor_lockout_health (cy_charger y1) = Some l"
    using locked_cycle_health [OF assms(1)] assms(1) y1 by (auto simp: locked_cycle_def)
  from locked_rest [OF p assms(3) this] assms(1) y1 show ?thesis
    by (auto simp: locked_cycle_def intro: kept_trans)
qed

interpretation locked_cycles: guarded_steps "\<lambda>y e. snd (relay_cycle e y)" cycle_auto_active "locked_cycle s" for s
proof unfold_locales
  fix y e
  assume "locked_cycle s y" "cycle_auto_active e"
  then show "locked_cycle s (snd (relay_cycle e y))"
    using locked_cycle_step [of s y e "fst (relay_cycle e y)" "snd (relay_cycle e y)"] by simp
qed

lemma cycle_status:
  assumes "relay_cycle e y = (Inr (reading, status, Some h), y')" "h \<in> hard_faults"
  shows "status = 0"
proof -
  have zero: "fst (derive_status_code c s rs on p auto now lh (Some h)) = 0" for c s rs on p auto now lh
  proof -
    have "h \<in> {''contactor-feedback-mismatch'', lockout_open, lockout_welded}" using assms(2) by (simp add: hard_faults_def)
    then show ?thesis
      by (simp add: derive_status_code_def hard_evse_fault_status_override_def hard_fault_known [OF assms(2)] del: insert_iff)
  qed
  from assms(1) obtain reading0 d y3 where "cycle_tail e reading0 d (Some h) y3 = (Inr (reading, status, Some h), y')"
    by (rule relay_cycle_result)
  from cycle_tail_result [OF this] zero show ?thesis
    by (auto simp: status_after_relay_decision_def split_def)
qed


section \<open>The path that does not ask\<close>

lemma resume_relay_log:
  "resume_relay_after_phase_switch env s reading = (x, t) \<Longrightarrow>
    \<exists>ev. ps_log t = ps_log s @ EnableTarget True # ev \<and> (\<forall>b. EnableTarget b \<notin> set ev)"
  by (auto simp: resume_relay_after_phase_switch_def resume_relay_after_phase_switch_failure_def apply_enabled_target_def
      and_then_cases emit_def dest!: save_outcome split: if_splits sum.splits)

lemma manual_completion_log:
  assumes "pending_selection s = Some p" "ps_switch_state s = Some stabilizing_state" "ps_stable_until s = Some u" "u \<le> now"
    and "observed_phase_selection env pm = Some p" "ps_resume_relay s"
    and "orchestrate_pending_phase_switch env s pm reading now False = (x, t)"
  shows "\<exists>ev. ps_log t = ps_log s @ EnableTarget True # ev \<and> (\<forall>b. EnableTarget b \<notin> set ev)"
proof -
  define s3 where "s3 = clear_phase_switch_state (clear_lockout_of (clear_phase_switch_mismatch_tracking
    (s\<lparr>ps_active := Some p, ps_active := Some p\<rparr>) (Some p)) p)"
  have state: "switch_state_text s = stabilizing_state" using assms(2) by (simp add: switch_state_text_def)
  have resumes: "ps_resume_relay (clear_lockout_of (clear_phase_switch_mismatch_tracking (s\<lparr>ps_active := v\<rparr>) (Some p)) p)" for v
    using assms(6)
    by (simp add: clear_lockout_of_def clear_phase_switch_mismatch_tracking_def clear_phase_switch_lockout_def
        phase_switch_mismatch_counts_def Let_def split: option.split)
  have "orchestrate_pending_phase_switch env s pm reading now False =
      and_then (resume_relay_after_phase_switch env s3 reading) (\<lambda>r t. (Inr (r, None), t))"
    using assms(1-6) state resumes
    by (simp add: orchestrate_pending_phase_switch_def orchestrate_stabilizing_phase_switch_def
        remember_observed_phase_selection_def phase_switch_still_stabilizing_def stabilizing_phase_switch_mismatch_result_def
        complete_stabilized_phase_switch_def resume_after_phase_switch_pause_def state_active_def s3_def Let_def)
  with assms(7) obtain x' where "resume_relay_after_phase_switch env s3 reading = (x', t)"
    by (auto simp: and_then_cases)
  from resume_relay_log [OF this] show ?thesis by (simp add: s3_def)
qed

lemma charger_apply_on:
  assumes "cc_enable_backend c" "\<not> retry_active s now"
  shows "\<exists>ev. cs_log (snd (charger_apply_enabled env c b now s)) = cs_log s @ SetEnabled b # ev"
    and "lockout_record (snd (charger_apply_enabled env c b now s)) = lockout_record s"
  using assms
  by (auto simp: charger_apply_enabled_def charger_emit_def clear_retry_def clear_issue_def lockout_record_def Let_def
      split: option.split)

text \<open>
  Claim C29.  Completing a phase switch in manual mode does not ask for the health verdict.  If the
  relay is to be resumed after the switch and the contactor is locked out, the native charger is
  still sent an enable command in that cycle, before the lockout is looked at; the lockout itself
  stays.
\<close>

theorem manual_phase_switch_enables_a_locked_out_contactor:
  assumes "\<not> cycle_auto_active e" "active_contactor_lockout_health (cy_charger y) \<noteq> None"
    and "pending_selection (cy_phase y) = Some p" "ps_switch_state (cy_phase y) = Some stabilizing_state"
    and "ps_stable_until (cy_phase y) = Some u" "u \<le> ye_now e" "ps_resume_relay (cy_phase y)"
    and "observed_phase_selection (ye_phase e) (ye_pm_phase e) = Some p"
    and "cc_enable_backend (ye_cfg e)" "\<not> retry_active (cy_charger y) (ye_now e)"
  shows "SetEnabled True \<in> set (new_events (cy_charger y) (cy_charger (snd (relay_cycle e y)))) \<and>
    lockout_record (cy_charger (snd (relay_cycle e y))) = lockout_record (cy_charger y)"
proof -
  obtain r1 q where q: "orchestrate_pending_phase_switch (cycle_phase_env e y) (phase_part y) (ye_pm_phase e) (ye_reading e)
      (ye_now e) False = (r1, q)" by fastforce
  have part: "pending_selection (phase_part y) = Some p" "ps_switch_state (phase_part y) = Some stabilizing_state"
    "ps_stable_until (phase_part y) = Some u" "ps_resume_relay (phase_part y)" "ps_log (phase_part y) = ps_log (cy_phase y)"
    using assms(3-7) by (simp_all add: phase_part_def pending_selection_def)
  have "observed_phase_selection (cycle_phase_env e y) (ye_pm_phase e) = Some p"
    using assms(8) by (simp add: observed_phase_selection_def cycle_phase_env_def split: option.splits)
  from manual_completion_log [OF part(1-3) assms(6) this part(4) q] obtain ev where
    ev: "ps_log q = ps_log (cy_phase y) @ EnableTarget True # ev" "\<forall>b. EnableTarget b \<notin> set ev" by (auto simp: part(5))
  define y1 where "y1 = after_phase e y q"
  have p: "cycle_pending_phase_switch e y = (r1, y1)" using q assms(1) by (simp add: cycle_pending_phase_switch_def y1_def)
  have y1: "cy_charger y1 = snd (charger_apply_enabled (ye_charger e) (ye_cfg e) True (ye_now e) (cy_charger y))"
    using ev by (simp add: y1_def after_phase_def new_phase_effects_def replay_none)
  note on = charger_apply_on [OF assms(9,10), of "ye_charger e" True, folded y1]
  from lockout_record_health [OF on(2)] assms(2) obtain l where l: "active_contactor_lockout_health (cy_charger y1) = Some l" by auto
  from locked_rest [OF p _ l, of "fst (relay_cycle e y)"] have "kept (cy_charger y1) (cy_charger (snd (relay_cycle e y)))" by simp
  with on show ?thesis by (auto simp: kept_def quiet_def new_events_def)
qed

section \<open>Witnesses\<close>

definition demo_cycle_env :: cycle_env where
  "demo_cycle_env = \<lparr> ye_phase = sample_env, ye_charger = demo_charger_env, ye_cfg = demo_charger_cfg,
     ye_auto_cfg = default_cfg, ye_auto_in = sample_in, ye_target = demo_target_in,
     ye_readbacks = hl_readbacks (demo_health_call True 0 1000), ye_pm_phase = None, ye_reading = (True, 2000, 8, True),
     ye_voltage = 230, ye_now = 1000, ye_pv = Some 5000, ye_soc = Some 60, ye_grid = Some (- 4000) \<rparr>"

definition demo_locked_cycle :: cycle_svc where
  "demo_locked_cycle = \<lparr> cy_phase = sample_svc, cy_auto = idle_auto,
     cy_charger = demo_charger_svc\<lparr>cs_lockout_reason := Some suspected_open\<rparr> \<rparr>"

lemma demo_cycle_auto: "cycle_auto_active demo_cycle_env"
  by (simp add: cycle_auto_active_def demo_cycle_env_def sample_in_def mode_uses_auto_logic_def normalize_mode_def)

lemma demo_locked: "active_contactor_lockout_health (cy_charger demo_locked_cycle) \<noteq> None"
  by (simp add: demo_locked_cycle_def lockout_active_fields)

theorem blocked_cycle_commands_nothing_on_witness:
  "filter commands_on (new_events (cy_charger demo_locked_cycle)
     (cy_charger (snd (relay_cycle demo_cycle_env demo_locked_cycle)))) = []"
proof -
  have "fst (relay_cycle demo_cycle_env demo_locked_cycle) = Inr ((False, 0, 0, False), 0, Some lockout_open)" by code_simp
  then have "relay_cycle demo_cycle_env demo_locked_cycle =
      (Inr ((False, 0, 0, False), 0, Some lockout_open), snd (relay_cycle demo_cycle_env demo_locked_cycle))"
    by (metis prod.collapse)
  from blocked_cycle_commands_nothing_on [OF this demo_cycle_auto] show ?thesis by (simp add: filter_empty_conv)
qed


definition demo_manual_env :: cycle_env where
  "demo_manual_env = demo_cycle_env\<lparr>ye_auto_in := sample_in\<lparr>ai_mode := 0\<rparr>, ye_pm_phase := Some ''P1_P2''\<rparr>"

definition demo_resuming_cycle :: cycle_svc where
  "demo_resuming_cycle = demo_locked_cycle\<lparr>cy_phase := sample_svc\<lparr>ps_pending := Some ''P1_P2'',
     ps_switch_state := Some stabilizing_state, ps_stable_until := Some 900, ps_resume_relay := True\<rparr>\<rparr>"

theorem manual_phase_switch_enables_a_locked_out_contactor_witness:
  "SetEnabled True \<in> set (new_events (cy_charger demo_resuming_cycle)
     (cy_charger (snd (relay_cycle demo_manual_env demo_resuming_cycle))))"
proof -
  have "\<not> cycle_auto_active demo_manual_env"
    by (simp add: cycle_auto_active_def demo_manual_env_def mode_uses_auto_logic_def normalize_mode_def)
  moreover have "active_contactor_lockout_health (cy_charger demo_resuming_cycle) \<noteq> None"
    using demo_locked by (simp add: demo_resuming_cycle_def)
  moreover have "pending_selection (cy_phase demo_resuming_cycle) = Some P1_P2"
    by (simp add: demo_resuming_cycle_def pending_selection_def normalize_canonical)
  moreover have "observed_phase_selection (ye_phase demo_manual_env) (ye_pm_phase demo_manual_env) = Some P1_P2"
    by (simp add: demo_manual_env_def observed_phase_selection_def fallback_normalized_def normalize_canonical)
  moreover have "\<not> retry_active (cy_charger demo_resuming_cycle) (ye_now demo_manual_env)"
    by (simp add: retry_active_def fresh_charger_retry_until_def demo_resuming_cycle_def demo_locked_cycle_def demo_charger_svc_def)
  ultimately show ?thesis
    using manual_phase_switch_enables_a_locked_out_contactor [of demo_manual_env demo_resuming_cycle P1_P2 900]
    by (simp add: demo_resuming_cycle_def demo_manual_env_def demo_cycle_env_def demo_charger_cfg_def)
qed

end
