(* ===== verification/Grid_Fusion.thy ===== *)
theory Grid_Fusion
  imports Prelude
begin

text \<open>
  The choice between a primary and a backup grid measurement
  (\<open>venus_evcharger/energy/grid_fusion.py\<close>, \<open>grid_fusion_contracts.py\<close>,
  \<open>timestamped_measurement.py\<close>): failover with a hold, recovery with hysteresis, and the
  conservative value while the two disagree.

  A time-stamped measurement has its value and both time stamps or none of them, so it is an option;
  its constructor checks the stamps.  The power and the confidence may be non-finite.  The attribute
  that holds the last primary does not exist before the first valid one, and reading it then raises.
\<close>

section \<open>Measurements\<close>

type_synonym timed_value = "(pyfloat \<times> secs \<times> secs) option"

definition valid_timestamp :: "pyfloat option \<Rightarrow> secs option" where
  "valid_timestamp v = (case v of Some (Fin t) \<Rightarrow> if 0 \<le> t then Some t else None | _ \<Rightarrow> None)"

text \<open>\<open>TimestampedMeasurement(value, captured_at, observed_monotonic)\<close>.\<close>

definition new_timed :: "pyfloat option \<Rightarrow> pyfloat option \<Rightarrow> pyfloat option \<Rightarrow> exc + timed_value" where
  "new_timed v captured observed =
    (if v = None \<and> captured = None \<and> observed = None then Inr None
     else case (v, valid_timestamp captured, valid_timestamp observed) of
            (Some x, Some a, Some b) \<Rightarrow> Inr (Some (x, a, b))
          | _ \<Rightarrow> Inl ValueErr)"

definition timed_from_optional :: "pyfloat option \<Rightarrow> pyfloat option \<Rightarrow> pyfloat option \<Rightarrow> timed_value" where
  "timed_from_optional v captured observed =
    (case v of None \<Rightarrow> None
     | Some x \<Rightarrow> (case (valid_timestamp captured, valid_timestamp observed) of
         (Some a, Some b) \<Rightarrow> Some (x, a, b) | _ \<Rightarrow> None))"

text \<open>The lenient constructor is the strict one with its refusals read as unavailable.\<close>

lemma timed_from_optional_strict:
  "timed_from_optional v captured observed = (case new_timed v captured observed of Inr m \<Rightarrow> m | Inl _ \<Rightarrow> None)"
  by (auto simp: timed_from_optional_def new_timed_def split: option.splits)

definition timed_age :: "timed_value \<Rightarrow> secs \<Rightarrow> secs option" where
  "timed_age m now = map_option (\<lambda>(_, _, observed). max 0 (now - observed)) m"

definition timed_fresh :: "timed_value \<Rightarrow> secs \<Rightarrow> secs \<Rightarrow> secs \<Rightarrow> bool" where
  "timed_fresh m now max_age tolerance =
    (case m of None \<Rightarrow> False
     | Some (_, _, observed) \<Rightarrow> let age = now - observed in - tolerance \<le> age \<and> age \<le> max_age)"

record grid_measurement =
  gm_source :: string
  gm_timed :: timed_value
  gm_online :: bool
  gm_confidence :: pyfloat

definition measurement_is_usable :: "grid_measurement \<Rightarrow> secs \<Rightarrow> secs \<Rightarrow> rat \<Rightarrow> secs \<Rightarrow> bool" where
  "measurement_is_usable m now max_age minimum_confidence tolerance =
    (if \<not> gm_online m \<or> gm_timed m = None \<or> \<not> is_finite (fst (the (gm_timed m))) \<or> \<not> is_finite (gm_confidence m)
     then False
     else timed_fresh (gm_timed m) now max_age tolerance \<and> pf_le (Fin minimum_confidence) (gm_confidence m))"

section \<open>Policy\<close>

record grid_cfg =
  gf_enabled :: bool
  gf_primary_id :: string
  gf_backup_id :: string
  gf_primary_max_age :: secs
  gf_backup_max_age :: secs
  gf_minimum_confidence :: rat
  gf_failover_samples :: int
  gf_recovery_samples :: int
  gf_hold_seconds :: secs
  gf_mismatch_watts :: watts
  gf_mismatch_relative :: rat
  gf_mismatch_samples :: int
  gf_future_tolerance :: secs

definition valid_sample_thresholds :: "grid_cfg \<Rightarrow> bool" where
  "valid_sample_thresholds c \<longleftrightarrow> 1 \<le> gf_failover_samples c \<and> 1 \<le> gf_recovery_samples c \<and> 1 \<le> gf_mismatch_samples c"

definition valid_freshness_policy :: "grid_cfg \<Rightarrow> bool" where
  "valid_freshness_policy c \<longleftrightarrow> 0 \<le> gf_primary_max_age c \<and> 0 \<le> gf_backup_max_age c
     \<and> 0 \<le> gf_minimum_confidence c \<and> gf_minimum_confidence c \<le> 1
     \<and> 0 \<le> gf_hold_seconds c \<and> 0 \<le> gf_future_tolerance c"

definition valid_mismatch_policy :: "grid_cfg \<Rightarrow> bool" where
  "valid_mismatch_policy c \<longleftrightarrow> 0 \<le> gf_mismatch_watts c \<and> 0 \<le> gf_mismatch_relative c"

definition validate_grid_fusion_config :: "grid_cfg \<Rightarrow> exc + grid_cfg" where
  "validate_grid_fusion_config c =
    (if gf_enabled c \<and> py_strip (gf_primary_id c) = [] then Inl ValueErr
     else if py_strip (gf_backup_id c) = [] then Inl ValueErr
     else if \<not> valid_sample_thresholds c then Inl ValueErr
     else if \<not> valid_freshness_policy c then Inl ValueErr
     else if \<not> valid_mismatch_policy c then Inl ValueErr else Inr c)"

section \<open>Selection\<close>

record grid_state =
  gs_active :: "string option"
  gs_last_primary :: "grid_measurement option"
  gs_invalid :: int
  gs_recovery :: int
  gs_mismatch :: int

definition new_grid_state :: grid_state where
  "new_grid_state = \<lparr> gs_active = None, gs_last_primary = None, gs_invalid = 0, gs_recovery = 0, gs_mismatch = 0 \<rparr>"

definition measurement_usable :: "grid_cfg \<Rightarrow> grid_measurement \<Rightarrow> secs \<Rightarrow> secs \<Rightarrow> bool" where
  "measurement_usable c m now max_age =
    measurement_is_usable m now max_age (gf_minimum_confidence c) (gf_future_tolerance c)"

definition record_primary :: "grid_measurement \<Rightarrow> bool \<Rightarrow> grid_state \<Rightarrow> grid_state" where
  "record_primary m primary_valid s = (if primary_valid then s\<lparr>gs_last_primary := Some m\<rparr> else s)"

definition activate_primary :: "grid_cfg \<Rightarrow> grid_state \<Rightarrow> grid_state" where
  "activate_primary c s = s\<lparr>gs_active := Some (gf_primary_id c), gs_invalid := 0, gs_recovery := 0\<rparr>"

definition activate_backup :: "grid_cfg \<Rightarrow> grid_state \<Rightarrow> grid_state" where
  "activate_backup c s = s\<lparr>gs_active := Some (gf_backup_id c), gs_invalid := 0, gs_recovery := 0\<rparr>"

type_synonym selection = "grid_measurement option \<times> string"

definition select_initial ::
  "grid_cfg \<Rightarrow> grid_measurement \<Rightarrow> grid_measurement \<Rightarrow> bool \<Rightarrow> bool \<Rightarrow> grid_state \<Rightarrow> (selection, grid_state) outcome" where
  "select_initial c primary backup primary_valid backup_valid s =
    (if primary_valid then (Inr (Some primary, ''primary''), activate_primary c s)
     else if backup_valid then (Inr (Some backup, ''backup''), activate_backup c s)
     else (Inr (None, ''unavailable''), s))"

definition held_primary :: "grid_cfg \<Rightarrow> grid_state \<Rightarrow> secs \<Rightarrow> exc + grid_measurement option" where
  "held_primary c s now =
    (case gs_last_primary s of None \<Rightarrow> Inl AttributeErr
     | Some m \<Rightarrow> (case gm_timed m of None \<Rightarrow> Inl OtherExc
        | Some (_, _, observed) \<Rightarrow>
            Inr (if now - observed \<le> gf_primary_max_age c + gf_hold_seconds c then Some m else None)))"

definition select_while_primary ::
  "grid_cfg \<Rightarrow> grid_measurement \<Rightarrow> grid_measurement \<Rightarrow> secs \<Rightarrow> bool \<Rightarrow> bool \<Rightarrow> grid_state \<Rightarrow> (selection, grid_state) outcome" where
  "select_while_primary c primary backup now primary_valid backup_valid s =
    (if primary_valid then (Inr (Some primary, ''primary''), s\<lparr>gs_invalid := 0\<rparr>)
     else let s1 = s\<lparr>gs_invalid := gs_invalid s + 1\<rparr> in
       case held_primary c s1 now of
         Inl e \<Rightarrow> (Inl e, s1)
       | Inr held \<Rightarrow>
           if gs_invalid s1 < gf_failover_samples c \<and> held \<noteq> None then (Inr (held, ''primary-held''), s1)
           else if backup_valid then (Inr (Some backup, ''backup''), activate_backup c s1)
           else (Inr (None, ''unavailable''), s1))"

definition backup_state :: "bool \<Rightarrow> string" where
  "backup_state primary_valid = (if primary_valid then ''backup-recovery'' else ''backup'')"

definition select_while_backup ::
  "grid_cfg \<Rightarrow> grid_measurement \<Rightarrow> grid_measurement \<Rightarrow> bool \<Rightarrow> bool \<Rightarrow> grid_state \<Rightarrow> (selection, grid_state) outcome" where
  "select_while_backup c primary backup primary_valid backup_valid s =
    (let s1 = s\<lparr>gs_recovery := (if primary_valid then gs_recovery s + 1 else 0)\<rparr> in
     if primary_valid \<and> gf_recovery_samples c \<le> gs_recovery s1
     then (Inr (Some primary, ''primary''), activate_primary c s1)
     else if backup_valid then (Inr (Some backup, backup_state primary_valid), s1)
     else if primary_valid then (Inr (Some primary, ''primary-emergency''), s1)
     else (Inr (None, ''unavailable''), s1))"

definition select_measurement ::
  "grid_cfg \<Rightarrow> grid_measurement \<Rightarrow> grid_measurement \<Rightarrow> secs \<Rightarrow> bool \<Rightarrow> bool \<Rightarrow> grid_state \<Rightarrow> (selection, grid_state) outcome" where
  "select_measurement c primary backup now primary_valid backup_valid s =
    (if \<not> gf_enabled c
     then (Inr (if backup_valid then (Some backup, ''backup'') else (None, ''unavailable'')), s)
     else case gs_active s of
       None \<Rightarrow> select_initial c primary backup primary_valid backup_valid s
     | Some active \<Rightarrow>
         if active = gf_primary_id c then select_while_primary c primary backup now primary_valid backup_valid s
         else select_while_backup c primary backup primary_valid backup_valid s)"

section \<open>Disagreement\<close>

definition finite_power :: "grid_measurement \<Rightarrow> watts" where
  "finite_power m = (case gm_timed m of Some (Fin p, _) \<Rightarrow> p | _ \<Rightarrow> 0)"

definition mismatch_tolerance :: "grid_cfg \<Rightarrow> watts \<Rightarrow> watts \<Rightarrow> watts" where
  "mismatch_tolerance c primary_power backup_power =
    max (gf_mismatch_watts c) (gf_mismatch_relative c * max \<bar>primary_power\<bar> \<bar>backup_power\<bar>)"

definition plausibility ::
  "grid_cfg \<Rightarrow> grid_measurement \<Rightarrow> grid_measurement \<Rightarrow> bool \<Rightarrow> bool \<Rightarrow> grid_state \<Rightarrow> (watts \<times> watts) option \<times> grid_state" where
  "plausibility c primary backup primary_valid backup_valid s =
    (if \<not> (primary_valid \<and> backup_valid) then (None, s\<lparr>gs_mismatch := 0\<rparr>)
     else let p = finite_power primary; b = finite_power backup;
              difference = \<bar>p - b\<bar>; tolerance = mismatch_tolerance c p b
          in (Some (difference, tolerance),
              s\<lparr>gs_mismatch := (if tolerance < difference then gs_mismatch s + 1 else 0)\<rparr>))"

definition persistent_disagreement :: "grid_cfg \<Rightarrow> bool \<Rightarrow> bool \<Rightarrow> grid_state \<Rightarrow> bool" where
  "persistent_disagreement c primary_valid backup_valid s \<longleftrightarrow>
    primary_valid \<and> backup_valid \<and> gf_mismatch_samples c \<le> gs_mismatch s"

definition pf_min :: "pyfloat \<Rightarrow> pyfloat \<Rightarrow> pyfloat" where
  "pf_min x y = (if pf_less y x then y else x)"

definition conservative_measurement :: "grid_measurement \<Rightarrow> grid_measurement \<Rightarrow> grid_measurement" where
  "conservative_measurement primary backup =
    (case (gm_timed primary, gm_timed backup) of
       (Some (_, pc, po), Some (_, bc, bo)) \<Rightarrow>
         \<lparr> gm_source = ''conservative'',
           gm_timed = Some (Fin (max (finite_power primary) (finite_power backup)), min pc bc, min po bo),
           gm_online = True,
           gm_confidence = pf_min (pf_min (gm_confidence primary) (gm_confidence backup)) (Fin (1/2)) \<rparr>
     | _ \<Rightarrow> primary)"

definition apply_disagreement_limit ::
  "grid_cfg \<Rightarrow> grid_measurement \<Rightarrow> grid_measurement \<Rightarrow> selection \<Rightarrow> bool \<Rightarrow> bool \<Rightarrow> grid_state \<Rightarrow> selection" where
  "apply_disagreement_limit c primary backup selected primary_valid backup_valid s =
    (if \<not> persistent_disagreement c primary_valid backup_valid s then selected
     else (Some (conservative_measurement primary backup), ''disagreement''))"

record grid_result =
  gr_timed :: timed_value
  gr_source :: string
  gr_state :: string
  gr_confidence :: pyfloat
  gr_primary_valid :: bool
  gr_backup_valid :: bool
  gr_primary_age :: "secs option"
  gr_backup_age :: "secs option"
  gr_difference :: "(watts \<times> watts) option"
  gr_invalid :: int
  gr_recovery :: int
  gr_mismatch :: int

definition fusion_resolve ::
  "grid_cfg \<Rightarrow> grid_measurement \<Rightarrow> grid_measurement \<Rightarrow> secs \<Rightarrow> grid_state \<Rightarrow> (grid_result, grid_state) outcome" where
  "fusion_resolve c primary backup now s =
    (let primary_valid = measurement_usable c primary now (gf_primary_max_age c);
         backup_valid = measurement_usable c backup now (gf_backup_max_age c);
         s1 = record_primary primary primary_valid s
     in and_then (select_measurement c primary backup now primary_valid backup_valid s1) (\<lambda>selected s2.
       let (difference, s3) = plausibility c primary backup primary_valid backup_valid s2;
           (chosen, state) = apply_disagreement_limit c primary backup selected primary_valid backup_valid s3
       in (Inr \<lparr> gr_timed = (case chosen of None \<Rightarrow> None | Some m \<Rightarrow> gm_timed m),
                 gr_source = (case chosen of None \<Rightarrow> '''' | Some m \<Rightarrow> gm_source m),
                 gr_state = state,
                 gr_confidence = (case chosen of None \<Rightarrow> Fin 0 | Some m \<Rightarrow> gm_confidence m),
                 gr_primary_valid = primary_valid, gr_backup_valid = backup_valid,
                 gr_primary_age = timed_age (gm_timed primary) now, gr_backup_age = timed_age (gm_timed backup) now,
                 gr_difference = difference, gr_invalid = gs_invalid s3, gr_recovery = gs_recovery s3,
                 gr_mismatch = gs_mismatch s3 \<rparr>, s3)))"

end
