(* ===== verification/Grid_Claims.thy ===== *)
theory Grid_Claims
  imports Grid_Fusion
begin

text \<open>
  Properties of the grid fusion over any sequence of samples: the counters are lengths of trailing
  runs, every value handed out is recent, and switching between the sources needs the configured run.
\<close>

section \<open>Runs\<close>

type_synonym grid_sample = "grid_measurement \<times> grid_measurement \<times> secs"

definition fusion_step :: "grid_cfg \<Rightarrow> grid_state \<Rightarrow> grid_sample \<Rightarrow> grid_state" where
  "fusion_step c s x = snd (fusion_resolve c (fst x) (fst (snd x)) (snd (snd x)) s)"

definition fusion_run :: "grid_cfg \<Rightarrow> grid_sample list \<Rightarrow> grid_state" where
  "fusion_run c xs = foldl (fusion_step c) new_grid_state xs"

lemma fusion_run_simps [simp]:
  "fusion_run c [] = new_grid_state" "fusion_run c (xs @ [x]) = fusion_step c (fusion_run c xs) x"
  by (simp_all add: fusion_run_def)

definition primary_ok :: "grid_cfg \<Rightarrow> grid_sample \<Rightarrow> bool" where
  "primary_ok c x = measurement_usable c (fst x) (snd (snd x)) (gf_primary_max_age c)"

definition backup_ok :: "grid_cfg \<Rightarrow> grid_sample \<Rightarrow> bool" where
  "backup_ok c x = measurement_usable c (fst (snd x)) (snd (snd x)) (gf_backup_max_age c)"

definition in_conflict :: "grid_cfg \<Rightarrow> grid_sample \<Rightarrow> bool" where
  "in_conflict c x \<longleftrightarrow> primary_ok c x \<and> backup_ok c x \<and>
    mismatch_tolerance c (finite_power (fst x)) (finite_power (fst (snd x)))
      < \<bar>finite_power (fst x) - finite_power (fst (snd x))\<bar>"

text \<open>How many of the last samples in a row satisfy a condition.\<close>

definition trailing :: "('a \<Rightarrow> bool) \<Rightarrow> 'a list \<Rightarrow> nat" where
  "trailing P xs = length (takeWhile P (rev xs))"

lemma trailing_simps [simp]:
  "trailing P [] = 0" "trailing P (xs @ [x]) = (if P x then Suc (trailing P xs) else 0)"
  by (simp_all add: trailing_def)

lemma resolve_sample:
  "fusion_resolve c (fst x) (fst (snd x)) (snd (snd x)) s =
    and_then (select_measurement c (fst x) (fst (snd x)) (snd (snd x)) (primary_ok c x) (backup_ok c x)
        (record_primary (fst x) (primary_ok c x) s)) (\<lambda>selected s2.
      let (difference, s3) = plausibility c (fst x) (fst (snd x)) (primary_ok c x) (backup_ok c x) s2;
          (chosen, state) = apply_disagreement_limit c (fst x) (fst (snd x)) selected (primary_ok c x) (backup_ok c x) s3
      in (Inr \<lparr> gr_timed = (case chosen of None \<Rightarrow> None | Some m \<Rightarrow> gm_timed m),
                gr_source = (case chosen of None \<Rightarrow> '''' | Some m \<Rightarrow> gm_source m),
                gr_state = state,
                gr_confidence = (case chosen of None \<Rightarrow> Fin 0 | Some m \<Rightarrow> gm_confidence m),
                gr_primary_valid = primary_ok c x, gr_backup_valid = backup_ok c x,
                gr_primary_age = timed_age (gm_timed (fst x)) (snd (snd x)),
                gr_backup_age = timed_age (gm_timed (fst (snd x))) (snd (snd x)),
                gr_difference = difference, gr_invalid = gs_invalid s3, gr_recovery = gs_recovery s3,
                gr_mismatch = gs_mismatch s3 \<rparr>, s3))"
  by (simp add: fusion_resolve_def primary_ok_def backup_ok_def Let_def)

lemma plausibility_state:
  "snd (plausibility c (fst x) (fst (snd x)) (primary_ok c x) (backup_ok c x) s) =
    s\<lparr>gs_mismatch := (if in_conflict c x then gs_mismatch s + 1 else 0)\<rparr>"
  by (simp add: plausibility_def in_conflict_def Let_def)

section \<open>The selection by cases\<close>

text \<open>What the active source of the state after a selection says, and which counters it keeps.\<close>

definition grid_ok :: "grid_cfg \<Rightarrow> grid_state \<Rightarrow> bool" where
  "grid_ok c s \<longleftrightarrow>
    gs_active s \<in> {None, Some (gf_primary_id c), Some (gf_backup_id c)} \<and>
    (gs_active s = Some (gf_primary_id c) \<longrightarrow> gs_last_primary s \<noteq> None) \<and>
    (case gs_last_primary s of None \<Rightarrow> True
     | Some m \<Rightarrow> (\<exists>p a b. gm_timed m = Some (Fin p, a, b)) \<and> pf_le (Fin (gf_minimum_confidence c)) (gm_confidence m))"

lemma usable_parts:
  "measurement_usable c m now max_age \<Longrightarrow>
    (\<exists>p a b. gm_timed m = Some (Fin p, a, b) \<and> now - b \<le> max_age) \<and> is_finite (gm_confidence m) \<and>
    pf_le (Fin (gf_minimum_confidence c)) (gm_confidence m)"
  by (auto simp: measurement_usable_def measurement_is_usable_def timed_fresh_def Let_def split: if_splits option.splits
      elim!: is_finite.elims)

lemma record_ok:
  assumes "grid_ok c s"
  shows "grid_ok c (record_primary (fst x) (primary_ok c x) s)"
proof (cases "primary_ok c x")
  case True
  from usable_parts [OF True [unfolded primary_ok_def]] obtain p a b where
    "gm_timed (fst x) = Some (Fin p, a, b)" "pf_le (Fin (gf_minimum_confidence c)) (gm_confidence (fst x))" by blast
  with assms True show ?thesis by (simp add: grid_ok_def record_primary_def)
next
  case False
  with assms show ?thesis by (simp add: record_primary_def)
qed

lemma held_defined:
  assumes "grid_ok c s" "gs_active s = Some (gf_primary_id c)"
  obtains held where "held_primary c s now = Inr held" "held = None \<or> held = gs_last_primary s"
  using assms by (auto simp: grid_ok_def held_primary_def split: option.splits)

definition keeps :: "grid_cfg \<Rightarrow> grid_state \<Rightarrow> (selection, grid_state) outcome \<Rightarrow> bool" where
  "keeps c s out \<longleftrightarrow> (\<exists>sel t. out = (Inr sel, t) \<and> grid_ok c t \<and> gs_mismatch t = gs_mismatch s \<and>
    gs_last_primary t = gs_last_primary s)"

lemma initial_keeps:
  "gf_primary_id c \<noteq> gf_backup_id c \<Longrightarrow> grid_ok c s \<Longrightarrow> (pv \<Longrightarrow> gs_last_primary s \<noteq> None) \<Longrightarrow>
    keeps c s (select_initial c p b pv bv s)"
  by (auto simp: keeps_def select_initial_def activate_primary_def activate_backup_def grid_ok_def)

lemma backup_keeps:
  "gf_primary_id c \<noteq> gf_backup_id c \<Longrightarrow> grid_ok c s \<Longrightarrow> (pv \<Longrightarrow> gs_last_primary s \<noteq> None) \<Longrightarrow>
    keeps c s (select_while_backup c p b pv bv s)"
  by (auto simp: keeps_def select_while_backup_def activate_primary_def grid_ok_def Let_def)

lemma primary_keeps:
  assumes "gf_primary_id c \<noteq> gf_backup_id c" "grid_ok c s" "gs_active s = Some (gf_primary_id c)"
  shows "keeps c s (select_while_primary c p b now pv bv s)"
proof -
  let ?s = "s\<lparr>gs_invalid := gs_invalid s + 1\<rparr>"
  have s: "grid_ok c ?s" "grid_ok c (s\<lparr>gs_invalid := 0\<rparr>)" using assms(2) by (simp_all add: grid_ok_def)
  obtain held where "held_primary c ?s now = Inr held" using s(1) by (rule held_defined [where now = now]) (simp_all add: assms(3))
  moreover have "grid_ok c (activate_backup c ?s)" using assms by (simp add: grid_ok_def activate_backup_def)
  ultimately show ?thesis using s by (simp add: keeps_def select_while_primary_def Let_def activate_backup_def)
qed

lemma select_defined:
  assumes "gf_primary_id c \<noteq> gf_backup_id c" "grid_ok c s" "primary_ok c x \<Longrightarrow> gs_last_primary s \<noteq> None"
  obtains sel t where "select_measurement c (fst x) (fst (snd x)) (snd (snd x)) (primary_ok c x) (backup_ok c x) s = (Inr sel, t)"
    and "grid_ok c t" "gs_mismatch t = gs_mismatch s" "gs_last_primary t = gs_last_primary s"
proof -
  have "keeps c s (select_measurement c (fst x) (fst (snd x)) (snd (snd x)) (primary_ok c x) (backup_ok c x) s)"
  proof (cases "gf_enabled c")
    case False
    with assms(2) show ?thesis by (simp add: select_measurement_def keeps_def)
  next
    case True
    then show ?thesis using initial_keeps [OF assms] backup_keeps [OF assms] primary_keeps [OF assms(1,2)]
      by (simp add: select_measurement_def split: option.split)
  qed
  with that show thesis unfolding keeps_def by blast
qed

lemma fusion_step_state:
  assumes "gf_primary_id c \<noteq> gf_backup_id c" "grid_ok c s"
  obtains r sel t where
    "select_measurement c (fst x) (fst (snd x)) (snd (snd x)) (primary_ok c x) (backup_ok c x)
        (record_primary (fst x) (primary_ok c x) s) = (Inr sel, t)"
    "fusion_resolve c (fst x) (fst (snd x)) (snd (snd x)) s = (Inr r, fusion_step c s x)"
    "fusion_step c s x = t\<lparr>gs_mismatch := (if in_conflict c x then gs_mismatch s + 1 else 0)\<rparr>"
    "grid_ok c (fusion_step c s x)"
    "gs_last_primary t = gs_last_primary (record_primary (fst x) (primary_ok c x) s)"
proof -
  let ?s = "record_primary (fst x) (primary_ok c x) s"
  have "gs_mismatch ?s = gs_mismatch s" "primary_ok c x \<Longrightarrow> gs_last_primary ?s \<noteq> None"
    by (simp_all add: record_primary_def)
  then obtain sel t where
    sel: "select_measurement c (fst x) (fst (snd x)) (snd (snd x)) (primary_ok c x) (backup_ok c x) ?s = (Inr sel, t)"
    and t: "grid_ok c t" "gs_mismatch t = gs_mismatch s" "gs_last_primary t = gs_last_primary ?s"
    using select_defined [OF assms(1) record_ok [OF assms(2)], of x] by metis
  obtain r u where r: "fusion_resolve c (fst x) (fst (snd x)) (snd (snd x)) s = (Inr r, u)"
    and u: "u = snd (plausibility c (fst x) (fst (snd x)) (primary_ok c x) (backup_ok c x) t)"
    by (cases "plausibility c (fst x) (fst (snd x)) (primary_ok c x) (backup_ok c x) t",
        cases "apply_disagreement_limit c (fst x) (fst (snd x)) sel (primary_ok c x) (backup_ok c x)
          (snd (plausibility c (fst x) (fst (snd x)) (primary_ok c x) (backup_ok c x) t))")
       (simp add: resolve_sample sel)
  have step: "fusion_step c s x = u" by (simp add: fusion_step_def r)
  have after: "u = t\<lparr>gs_mismatch := (if in_conflict c x then gs_mismatch s + 1 else 0)\<rparr>"
    by (simp add: u plausibility_state t(2))
  then have "grid_ok c u" using t(1) by (simp add: grid_ok_def)
  with that sel r step after t(3) show thesis by blast
qed

lemma grid_ok_new: "grid_ok c new_grid_state"
  by (simp add: grid_ok_def new_grid_state_def)

section \<open>The counters are lengths of runs\<close>

definition counters_ok :: "grid_cfg \<Rightarrow> grid_sample list \<Rightarrow> grid_state \<Rightarrow> bool" where
  "counters_ok c xs s \<longleftrightarrow>
    gs_mismatch s = int (trailing (in_conflict c) xs) \<and>
    (gs_active s = Some (gf_primary_id c) \<longrightarrow> gs_invalid s = int (trailing (\<lambda>x. \<not> primary_ok c x) xs)) \<and>
    (gs_active s = Some (gf_backup_id c) \<longrightarrow> gs_recovery s = int (trailing (primary_ok c) xs))"

lemma record_primary_frame [simp]:
  "gs_active (record_primary m v s) = gs_active s" "gs_invalid (record_primary m v s) = gs_invalid s"
  "gs_recovery (record_primary m v s) = gs_recovery s" "gs_mismatch (record_primary m v s) = gs_mismatch s"
  by (simp_all add: record_primary_def)

text \<open>One selection from a good state, with the active source and the counters after it.\<close>

lemma select_counters:
  assumes "gf_primary_id c \<noteq> gf_backup_id c" "grid_ok c s" "gf_enabled c"
    and "select_measurement c p b now pv bv s = (Inr sel, t)"
  shows "gs_active s = None \<Longrightarrow> (gs_active t = Some (gf_primary_id c) \<longrightarrow> gs_invalid t = 0 \<and> pv) \<and>
      (gs_active t = Some (gf_backup_id c) \<longrightarrow> gs_recovery t = 0 \<and> \<not> pv)"
    and "gs_active s = Some (gf_primary_id c) \<Longrightarrow>
      (gs_active t = Some (gf_primary_id c) \<and> gs_invalid t = (if pv then 0 else gs_invalid s + 1)) \<or>
      (gs_active t = Some (gf_backup_id c) \<and> gs_recovery t = 0 \<and> \<not> pv \<and> bv \<and>
        (gf_failover_samples c \<le> gs_invalid s + 1 \<or> held_primary c s now = Inr None))"
    and "gs_active s = Some (gf_backup_id c) \<Longrightarrow>
      (gs_active t = Some (gf_backup_id c) \<and> gs_recovery t = (if pv then gs_recovery s + 1 else 0)) \<or>
      (gs_active t = Some (gf_primary_id c) \<and> gs_invalid t = 0 \<and> pv \<and> gf_recovery_samples c \<le> gs_recovery s + 1)"
proof -
  note enabled = assms(3) and sel = assms(4) [symmetric]
  show "gs_active s = None \<Longrightarrow> (gs_active t = Some (gf_primary_id c) \<longrightarrow> gs_invalid t = 0 \<and> pv) \<and>
      (gs_active t = Some (gf_backup_id c) \<longrightarrow> gs_recovery t = 0 \<and> \<not> pv)"
    using assms(1) sel enabled
    by (simp add: select_measurement_def select_initial_def activate_primary_def activate_backup_def split: if_splits)
  show "(gs_active t = Some (gf_backup_id c) \<and> gs_recovery t = (if pv then gs_recovery s + 1 else 0)) \<or>
      (gs_active t = Some (gf_primary_id c) \<and> gs_invalid t = 0 \<and> pv \<and> gf_recovery_samples c \<le> gs_recovery s + 1)"
    if "gs_active s = Some (gf_backup_id c)"
    using assms(1) sel enabled that
    by (auto simp add: select_measurement_def select_while_backup_def activate_primary_def Let_def split: if_splits)
  show "(gs_active t = Some (gf_primary_id c) \<and> gs_invalid t = (if pv then 0 else gs_invalid s + 1)) \<or>
      (gs_active t = Some (gf_backup_id c) \<and> gs_recovery t = 0 \<and> \<not> pv \<and> bv \<and>
        (gf_failover_samples c \<le> gs_invalid s + 1 \<or> held_primary c s now = Inr None))"
    if active: "gs_active s = Some (gf_primary_id c)"
  proof -
    obtain held where held: "held_primary c s now = Inr held" by (rule held_defined [OF assms(2) active])
    have "held_primary c (s\<lparr>gs_invalid := n\<rparr>) now = Inr held" for n using held by (simp add: held_primary_def)
    then show ?thesis using sel enabled active held assms(1)
      by (auto simp: select_measurement_def select_while_primary_def activate_backup_def Let_def split: if_splits)
  qed
qed

lemma idle_stays:
  "\<not> gf_enabled c \<Longrightarrow> select_measurement c p b now pv bv s = (Inr sel, t) \<Longrightarrow> t = s"
  by (auto simp: select_measurement_def)

definition run_ok :: "grid_cfg \<Rightarrow> grid_sample list \<Rightarrow> grid_state \<Rightarrow> bool" where
  "run_ok c xs s \<longleftrightarrow> grid_ok c s \<and> counters_ok c xs s \<and> (\<not> gf_enabled c \<longrightarrow> gs_active s = None)"

lemma record_counters [simp]: "counters_ok c xs (record_primary m v s) = counters_ok c xs s"
  by (simp add: counters_ok_def)

lemma step_run_ok:
  assumes ids: "gf_primary_id c \<noteq> gf_backup_id c" and ok: "run_ok c xs s"
  shows "run_ok c (xs @ [x]) (fusion_step c s x)"
proof -
  from ok have s: "grid_ok c s" "counters_ok c xs s" "\<not> gf_enabled c \<longrightarrow> gs_active s = None" by (simp_all add: run_ok_def)
  let ?s = "record_primary (fst x) (primary_ok c x) s"
  obtain sel t where sel: "select_measurement c (fst x) (fst (snd x)) (snd (snd x)) (primary_ok c x) (backup_ok c x) ?s = (Inr sel, t)"
    and step: "fusion_step c s x = t\<lparr>gs_mismatch := (if in_conflict c x then gs_mismatch s + 1 else 0)\<rparr>"
      "grid_ok c (fusion_step c s x)"
    by (rule fusion_step_state [OF ids s(1), of x]) blast
  have ok': "grid_ok c ?s" by (rule record_ok [OF s(1)])
  show ?thesis
  proof (cases "gf_enabled c")
    case False
    with idle_stays [OF False sel] s step show ?thesis by (simp add: run_ok_def counters_ok_def)
  next
    case True
    from s(1) consider "gs_active s = None" | "gs_active s = Some (gf_primary_id c)" | "gs_active s = Some (gf_backup_id c)"
      by (auto simp: grid_ok_def)
    then show ?thesis
    proof cases
      case 1
      with select_counters(1) [OF ids ok' True sel] s(2) step True ids show ?thesis
        by (auto simp: run_ok_def counters_ok_def)
    next
      case 2
      with select_counters(2) [OF ids ok' True sel] s(2) step True ids show ?thesis
        by (auto simp: run_ok_def counters_ok_def)
    next
      case 3
      with select_counters(3) [OF ids ok' True sel] s(2) step True ids show ?thesis
        by (auto simp: run_ok_def counters_ok_def)
    qed
  qed
qed

lemma run_run_ok: "gf_primary_id c \<noteq> gf_backup_id c \<Longrightarrow> run_ok c xs (fusion_run c xs)"
  by (induction xs rule: rev_induct)
     (simp_all add: step_run_ok, simp add: run_ok_def counters_ok_def grid_ok_new, simp add: new_grid_state_def)

section \<open>Properties\<close>

definition fused :: "grid_cfg \<Rightarrow> grid_sample list \<Rightarrow> grid_sample \<Rightarrow> exc + grid_result" where
  "fused c xs x = fst (fusion_resolve c (fst x) (fst (snd x)) (snd (snd x)) (fusion_run c xs))"

text \<open>What a consumer of the fused value may rely on.\<close>

definition trustworthy :: "grid_cfg \<Rightarrow> secs \<Rightarrow> grid_result \<Rightarrow> bool" where
  "trustworthy c now r =
    (case gr_timed r of
       None \<Rightarrow> gr_state r = ''unavailable'' \<and> gr_confidence r = Fin 0
     | Some (v, _, observed) \<Rightarrow> is_finite v \<and>
         now - observed \<le> max (gf_primary_max_age c + gf_hold_seconds c) (gf_backup_max_age c) \<and>
         pf_le (Fin (min (gf_minimum_confidence c) (1/2))) (gr_confidence r))"

text \<open>The same for a measurement before it is wrapped in a result.\<close>

definition trusted :: "grid_cfg \<Rightarrow> secs \<Rightarrow> grid_measurement \<Rightarrow> bool" where
  "trusted c now m \<longleftrightarrow> (\<exists>p a b. gm_timed m = Some (Fin p, a, b) \<and>
      now - b \<le> max (gf_primary_max_age c + gf_hold_seconds c) (gf_backup_max_age c)) \<and>
    pf_le (Fin (min (gf_minimum_confidence c) (1/2))) (gm_confidence m)"

lemma pf_le_weaken: "pf_le (Fin x) y \<Longrightarrow> pf_le (Fin (min x z)) y"
  by (cases y) auto

lemma trusted_primary: "0 \<le> gf_hold_seconds c \<Longrightarrow> primary_ok c x \<Longrightarrow> trusted c (snd (snd x)) (fst x)"
  using usable_parts [of c "fst x" "snd (snd x)" "gf_primary_max_age c"]
  by (auto simp: primary_ok_def trusted_def pf_le_weaken)

lemma trusted_backup: "backup_ok c x \<Longrightarrow> trusted c (snd (snd x)) (fst (snd x))"
  using usable_parts [of c "fst (snd x)" "snd (snd x)" "gf_backup_max_age c"]
  by (auto simp: backup_ok_def trusted_def pf_le_weaken)

lemma trusted_held:
  "grid_ok c s \<Longrightarrow> held_primary c s now = Inr (Some m) \<Longrightarrow> trusted c now m"
  by (auto simp: grid_ok_def held_primary_def trusted_def pf_le_weaken split: option.splits if_splits)

lemma pf_min_bound: "pf_le (Fin x) y \<Longrightarrow> pf_le (Fin x) z \<Longrightarrow> pf_le (Fin x) (pf_min y z)"
  by (simp add: pf_min_def)

lemma trusted_conservative:
  assumes "trusted c now p" "trusted c now b"
  shows "trusted c now (conservative_measurement p b)"
proof -
  from assms obtain v a o' w a' o'' where m: "gm_timed p = Some (Fin v, a, o')" "gm_timed b = Some (Fin w, a', o'')"
    and age: "now - o' \<le> max (gf_primary_max_age c + gf_hold_seconds c) (gf_backup_max_age c)"
      "now - o'' \<le> max (gf_primary_max_age c + gf_hold_seconds c) (gf_backup_max_age c)"
    and conf: "pf_le (Fin (min (gf_minimum_confidence c) (1/2))) (gm_confidence p)"
      "pf_le (Fin (min (gf_minimum_confidence c) (1/2))) (gm_confidence b)"
    by (auto simp: trusted_def)
  have "pf_le (Fin (min (gf_minimum_confidence c) (1/2))) (Fin (1/2))" by simp
  with conf have "pf_le (Fin (min (gf_minimum_confidence c) (1/2)))
      (pf_min (pf_min (gm_confidence p) (gm_confidence b)) (Fin (1/2)))"
    by (intro pf_min_bound)
  with m age show ?thesis by (simp add: trusted_def conservative_measurement_def min_def)
qed

definition sound_selection :: "grid_cfg \<Rightarrow> secs \<Rightarrow> selection \<Rightarrow> bool" where
  "sound_selection c now sel = (case fst sel of None \<Rightarrow> snd sel = ''unavailable'' | Some m \<Rightarrow> trusted c now m)"

lemma select_sound:
  assumes hold: "0 \<le> gf_hold_seconds c" and ok: "grid_ok c s"
    and sel: "select_measurement c (fst x) (fst (snd x)) (snd (snd x)) (primary_ok c x) (backup_ok c x) s = (Inr sel, t)"
  shows "sound_selection c (snd (snd x)) sel"
proof -
  let ?now = "snd (snd x)"
  have p: "primary_ok c x \<Longrightarrow> trusted c ?now (fst x)" and b: "backup_ok c x \<Longrightarrow> trusted c ?now (fst (snd x))"
    using trusted_primary [OF hold] trusted_backup by auto
  have held: "sound_selection c ?now sel"
    if run: "select_while_primary c (fst x) (fst (snd x)) ?now (primary_ok c x) (backup_ok c x) s = (Inr sel, t)"
      and active: "gs_active s = Some (gf_primary_id c)"
  proof -
    have ok1: "grid_ok c (s\<lparr>gs_invalid := gs_invalid s + 1\<rparr>)" using ok by (simp add: grid_ok_def)
    obtain h where h: "held_primary c (s\<lparr>gs_invalid := gs_invalid s + 1\<rparr>) ?now = Inr h"
      using ok1 by (rule held_defined [where now = ?now]) (simp_all add: active)
    with trusted_held [OF ok1] have "h \<noteq> None \<Longrightarrow> trusted c ?now (the h)" by auto
    with run h p b show ?thesis
      by (cases h) (auto simp: select_while_primary_def sound_selection_def Let_def split: if_splits)
  qed
  show ?thesis
  proof (cases "gf_enabled c")
    case False
    with sel b show ?thesis by (auto simp: select_measurement_def sound_selection_def split: if_splits)
  next
    case True
    then show ?thesis
    proof (cases "gs_active s")
      case None
      with True sel p b show ?thesis by (auto simp: select_measurement_def select_initial_def sound_selection_def split: if_splits)
    next
      case (Some a)
      show ?thesis
      proof (cases "a = gf_primary_id c")
        case True
        with Some sel held \<open>gf_enabled c\<close> show ?thesis by (simp add: select_measurement_def)
      next
        case False
        with Some sel p b \<open>gf_enabled c\<close> show ?thesis
          by (auto simp: select_measurement_def select_while_backup_def sound_selection_def Let_def split: if_splits)
      qed
    qed
  qed
qed

lemma limit_sound:
  assumes "0 \<le> gf_hold_seconds c" "sound_selection c (snd (snd x)) sel"
  shows "sound_selection c (snd (snd x)) (apply_disagreement_limit c (fst x) (fst (snd x)) sel (primary_ok c x) (backup_ok c x) s)"
  using assms trusted_conservative [OF trusted_primary [of c x] trusted_backup [of c x]]
  by (auto simp: apply_disagreement_limit_def persistent_disagreement_def sound_selection_def)

text \<open>The result of one sample after any run, in terms of the selection.\<close>

lemma fused_result:
  assumes "gf_primary_id c \<noteq> gf_backup_id c"
  obtains sel t u lim where
    "select_measurement c (fst x) (fst (snd x)) (snd (snd x)) (primary_ok c x) (backup_ok c x)
        (record_primary (fst x) (primary_ok c x) (fusion_run c xs)) = (Inr sel, t)"
    "u = fusion_run c (xs @ [x])"
    "lim = apply_disagreement_limit c (fst x) (fst (snd x)) sel (primary_ok c x) (backup_ok c x) u"
    "\<exists>r. fused c xs x = Inr r \<and> gr_timed r = (case fst lim of None \<Rightarrow> None | Some m \<Rightarrow> gm_timed m) \<and> gr_state r = snd lim \<and>
      gr_confidence r = (case fst lim of None \<Rightarrow> Fin 0 | Some m \<Rightarrow> gm_confidence m)"
proof -
  let ?s = "fusion_run c xs"
  from run_run_ok [OF assms, of xs] have ok: "grid_ok c ?s" by (simp add: run_ok_def)
  obtain sel t r where sel: "select_measurement c (fst x) (fst (snd x)) (snd (snd x)) (primary_ok c x) (backup_ok c x)
        (record_primary (fst x) (primary_ok c x) ?s) = (Inr sel, t)"
    and r: "fusion_resolve c (fst x) (fst (snd x)) (snd (snd x)) ?s = (Inr r, fusion_step c ?s x)"
    by (rule fusion_step_state [OF assms ok, of x]) blast
  let ?u = "fusion_step c ?s x"
  let ?lim = "apply_disagreement_limit c (fst x) (fst (snd x)) sel (primary_ok c x) (backup_ok c x) ?u"
  have "gr_timed r = (case fst ?lim of None \<Rightarrow> None | Some m \<Rightarrow> gm_timed m) \<and> gr_state r = snd ?lim \<and>
      gr_confidence r = (case fst ?lim of None \<Rightarrow> Fin 0 | Some m \<Rightarrow> gm_confidence m)"
    using r sel by (auto simp: resolve_sample Let_def split: prod.splits)
  with r have "\<exists>r. fused c xs x = Inr r \<and> gr_timed r = (case fst ?lim of None \<Rightarrow> None | Some m \<Rightarrow> gm_timed m) \<and>
      gr_state r = snd ?lim \<and> gr_confidence r = (case fst ?lim of None \<Rightarrow> Fin 0 | Some m \<Rightarrow> gm_confidence m)"
    by (simp add: fused_def)
  with that [OF sel _ refl] show thesis by simp
qed


text \<open>
  Claim C35.  Disagreement is persistent disagreement.  After any run of samples, the fusion reports
  ''disagreement'' exactly when the configured number of last samples in a row, this one included, had
  both sources usable and further apart than the tolerance; it then hands out the larger of the two
  powers, so that import is never understated.
\<close>

theorem disagreement_is_a_run_of_conflicts:
  assumes "validate_grid_fusion_config c = Inr c'" "gf_primary_id c \<noteq> gf_backup_id c"
  shows "\<exists>r. fused c xs x = Inr r \<and>
    (gr_state r = ''disagreement'' \<longleftrightarrow> gf_mismatch_samples c \<le> int (trailing (in_conflict c) (xs @ [x]))) \<and>
    (gr_state r = ''disagreement'' \<longrightarrow> (\<exists>a b. gr_timed r =
       Some (Fin (max (finite_power (fst x)) (finite_power (fst (snd x)))), a, b)))"
proof -
  from assms(1) have one: "1 \<le> gf_mismatch_samples c"
    by (simp add: validate_grid_fusion_config_def valid_sample_thresholds_def split: if_splits)
  obtain sel t u lm where sel: "select_measurement c (fst x) (fst (snd x)) (snd (snd x)) (primary_ok c x) (backup_ok c x)
        (record_primary (fst x) (primary_ok c x) (fusion_run c xs)) = (Inr sel, t)"
    and u: "u = fusion_run c (xs @ [x])"
    and lm: "lm = apply_disagreement_limit c (fst x) (fst (snd x)) sel (primary_ok c x) (backup_ok c x) u"
    and r: "\<exists>r. fused c xs x = Inr r \<and> gr_timed r = (case fst lm of None \<Rightarrow> None | Some m \<Rightarrow> gm_timed m) \<and>
      gr_state r = snd lm \<and> gr_confidence r = (case fst lm of None \<Rightarrow> Fin 0 | Some m \<Rightarrow> gm_confidence m)"
    by (rule fused_result [OF assms(2), of x xs]) blast
  have count: "gs_mismatch u = int (trailing (in_conflict c) (xs @ [x]))"
    using run_run_ok [OF assms(2), of "xs @ [x]"] by (simp add: u run_ok_def counters_ok_def)
  have due: "persistent_disagreement c (primary_ok c x) (backup_ok c x) u \<longleftrightarrow>
      gf_mismatch_samples c \<le> int (trailing (in_conflict c) (xs @ [x]))"
    using one by (auto simp: persistent_disagreement_def count in_conflict_def)
  have other: "snd sel \<noteq> ''disagreement''"
    using sel by (auto simp: select_measurement_def select_initial_def select_while_primary_def select_while_backup_def
        backup_state_def Let_def split: if_splits option.splits sum.splits)
  have both: "\<exists>a b. gm_timed (conservative_measurement (fst x) (fst (snd x))) =
      Some (Fin (max (finite_power (fst x)) (finite_power (fst (snd x)))), a, b)"
    if "primary_ok c x" "backup_ok c x"
    using usable_parts [OF that(1) [unfolded primary_ok_def]] usable_parts [OF that(2) [unfolded backup_ok_def]]
    by (auto simp: conservative_measurement_def)
  show ?thesis
  proof (cases "persistent_disagreement c (primary_ok c x) (backup_ok c x) u")
    case True
    then have ok: "primary_ok c x" "backup_ok c x" by (simp_all add: persistent_disagreement_def)
    from True have "lm = (Some (conservative_measurement (fst x) (fst (snd x))), ''disagreement'')"
      by (simp add: lm apply_disagreement_limit_def)
    with r both [OF ok] True due show ?thesis by auto
  next
    case False
    then have "lm = sel" by (simp add: lm apply_disagreement_limit_def)
    with r other False due show ?thesis by auto
  qed
qed


section \<open>Two sources of the same name\<close>

definition demo_grid_cfg :: grid_cfg where
  "demo_grid_cfg = \<lparr> gf_enabled = True, gf_primary_id = ''meter'', gf_backup_id = ''victron'', gf_primary_max_age = 15,
     gf_backup_max_age = 6, gf_minimum_confidence = 1/2, gf_failover_samples = 2, gf_recovery_samples = 2,
     gf_hold_seconds = 6, gf_mismatch_watts = 300, gf_mismatch_relative = 3/20, gf_mismatch_samples = 1,
     gf_future_tolerance = 1 \<rparr>"

definition demo_grid :: "string \<Rightarrow> watts option \<Rightarrow> secs \<Rightarrow> grid_measurement" where
  "demo_grid src p t = \<lparr> gm_source = src, gm_timed = map_option (\<lambda>w. (Fin w, t, t)) p, gm_online = True, gm_confidence = Fin 1 \<rparr>"

definition demo_grid_sample :: "watts option \<Rightarrow> watts option \<Rightarrow> secs \<Rightarrow> grid_sample" where
  "demo_grid_sample p b t = (demo_grid ''meter'' p t, demo_grid ''victron'' b t, t)"

text \<open>
  The two names are not required to differ.  When they are equal and the backup comes up first, the next
  sample without a usable primary reads the last primary, which does not exist yet.
\<close>

lemma equal_source_names_raise:
  "isl (fused (demo_grid_cfg\<lparr>gf_primary_id := ''victron''\<rparr>) [demo_grid_sample None (Some 100) 1] (demo_grid_sample None (Some 100) 2))"
  "\<not> isl (validate_grid_fusion_config (demo_grid_cfg\<lparr>gf_primary_id := ''victron''\<rparr>))"
  by code_simp+

section \<open>Witnesses\<close>


theorem disagreement_is_a_run_of_conflicts_witness:
  "\<exists>r. fused demo_grid_cfg [] (demo_grid_sample (Some 100) (Some 900) 1) = Inr r \<and> gr_state r = ''disagreement''"
proof -
  let ?x = "demo_grid_sample (Some 100) (Some 900) 1"
  have "validate_grid_fusion_config demo_grid_cfg = Inr demo_grid_cfg" by code_simp
  moreover have "gf_primary_id demo_grid_cfg \<noteq> gf_backup_id demo_grid_cfg" by code_simp
  moreover have "gf_mismatch_samples demo_grid_cfg \<le> int (trailing (in_conflict demo_grid_cfg) ([] @ [?x]))" by code_simp
  ultimately show ?thesis using disagreement_is_a_run_of_conflicts [of demo_grid_cfg demo_grid_cfg "[]" ?x] by blast
qed


end
