(* ===== verification/Dbus_Rate.thy ===== *)
theory Dbus_Rate
  imports Py_Values "HOL-Library.AList" "HOL-Library.List_Lexorder" "HOL-Library.Char_ord"
begin

text \<open>
  The load protection of the D-Bus gateway process: latency windows and their bounded attribution to
  sources (\<open>venus_evcharger/dbus_gateway_latency.py\<close>), the classification of errors
  (\<open>dbus_adapter/dbus_errors.py\<close>), the rate limiter and the circuit breaker
  (\<open>dbus_adapter/rate.py\<close>).

  The monotonic clock and the epoch clock are read once per operation and are arguments.  Dictionaries
  are association lists in insertion order.
\<close>

section \<open>Latency windows\<close>

type_synonym millis = rat

record latency_window =
  lw_seconds :: secs
  lw_latencies :: "(secs \<times> millis) list"
  lw_timeouts :: "secs list"

record latency_summary =
  ls_samples :: int
  ls_timeouts :: int
  ls_avg :: millis
  ls_p95 :: millis
  ls_p99 :: millis
  ls_max :: millis

definition empty_latency_summary :: latency_summary where
  "empty_latency_summary = \<lparr> ls_samples = 0, ls_timeouts = 0, ls_avg = 0, ls_p95 = 0, ls_p99 = 0, ls_max = 0 \<rparr>"

definition new_latency_window :: "secs \<Rightarrow> latency_window" where
  "new_latency_window seconds = \<lparr> lw_seconds = max 1 seconds, lw_latencies = [], lw_timeouts = [] \<rparr>"

definition prune_window :: "latency_window \<Rightarrow> secs \<Rightarrow> latency_window" where
  "prune_window w now = (let cutoff = now - lw_seconds w in
     w\<lparr>lw_latencies := dropWhile (\<lambda>e. fst e < cutoff) (lw_latencies w),
       lw_timeouts := dropWhile (\<lambda>t. t < cutoff) (lw_timeouts w)\<rparr>)"

definition window_record_latency :: "latency_window \<Rightarrow> millis \<Rightarrow> secs \<Rightarrow> latency_window" where
  "window_record_latency w latency_ms now =
    prune_window (w\<lparr>lw_latencies := lw_latencies w @ [(now, max 0 latency_ms)]\<rparr>) now"

definition window_record_timeout :: "latency_window \<Rightarrow> secs \<Rightarrow> latency_window" where
  "window_record_timeout w now = prune_window (w\<lparr>lw_timeouts := lw_timeouts w @ [now]\<rparr>) now"

definition percentile :: "millis list \<Rightarrow> rat \<Rightarrow> millis" where
  "percentile vs fraction =
    (if vs = [] then 0 else sort vs ! (nat (max 1 \<lceil>fraction * of_nat (length vs)\<rceil>) - 1))"

definition window_summary :: "latency_window \<Rightarrow> secs \<Rightarrow> latency_summary \<times> latency_window" where
  "window_summary w now =
    (let w1 = prune_window w now; latencies = map snd (lw_latencies w1)
     in (\<lparr> ls_samples = int (length latencies), ls_timeouts = int (length (lw_timeouts w1)),
           ls_avg = (if latencies = [] then 0 else sum_list latencies / of_nat (length latencies)),
           ls_p95 = percentile latencies (95/100), ls_p99 = percentile latencies (99/100),
           ls_max = (if latencies = [] then 0 else Max (set latencies)) \<rparr>, w1))"

section \<open>Attribution to sources\<close>

definition attribution_overflow_key :: string where "attribution_overflow_key = ''<other>''"

record latency_attribution =
  ba_seconds :: secs
  ba_max_kinds :: int
  ba_max_sources :: int
  ba_windows :: "(string \<times> (string \<times> latency_window) list) list"

definition new_attribution :: "secs \<Rightarrow> int \<Rightarrow> int \<Rightarrow> latency_attribution" where
  "new_attribution seconds kinds sources =
    \<lparr> ba_seconds = max 1 seconds, ba_max_kinds = max 1 kinds, ba_max_sources = max 1 sources, ba_windows = [] \<rparr>"

definition bounded_key :: "(string \<times> 'v) list \<Rightarrow> string \<Rightarrow> int \<Rightarrow> string" where
  "bounded_key m requested limit =
    (if requested \<in> fst ` set m then requested
     else if requested \<noteq> attribution_overflow_key \<and> int (length m) < limit - 1 then requested
     else attribution_overflow_key)"

text \<open>\<open>setdefault\<close>: the entry under a key, or a new one at the end.\<close>

definition dict_get :: "(string \<times> 'v) list \<Rightarrow> string \<Rightarrow> 'v \<Rightarrow> 'v" where
  "dict_get m k fresh = (case map_of m k of Some v \<Rightarrow> v | None \<Rightarrow> fresh)"

definition change_window ::
  "latency_attribution \<Rightarrow> string \<Rightarrow> string \<Rightarrow> (latency_window \<Rightarrow> latency_window) \<Rightarrow> latency_attribution" where
  "change_window a kind source f =
    (let operation_key = bounded_key (ba_windows a) kind (ba_max_kinds a);
         sources = dict_get (ba_windows a) operation_key [];
         source_key = bounded_key sources source (ba_max_sources a);
         window = dict_get sources source_key (new_latency_window (ba_seconds a))
     in a\<lparr>ba_windows := AList.update operation_key (AList.update source_key (f window) sources) (ba_windows a)\<rparr>)"

definition attribute_latency :: "latency_attribution \<Rightarrow> string \<Rightarrow> string \<Rightarrow> millis \<Rightarrow> secs \<Rightarrow> latency_attribution" where
  "attribute_latency a kind source latency_ms now =
    change_window a kind source (\<lambda>w. window_record_latency w latency_ms now)"

definition attribute_timeout :: "latency_attribution \<Rightarrow> string \<Rightarrow> string \<Rightarrow> secs \<Rightarrow> latency_attribution" where
  "attribute_timeout a kind source now = change_window a kind source (\<lambda>w. window_record_timeout w now)"

text \<open>The window a summary reads, with the keys it is stored under.\<close>

definition existing_window :: "latency_attribution \<Rightarrow> string \<Rightarrow> string \<Rightarrow> (string \<times> string \<times> latency_window) option" where
  "existing_window a kind source =
    (let kind_key = (if map_of (ba_windows a) kind = None then attribution_overflow_key else kind)
     in case map_of (ba_windows a) kind_key of
          None \<Rightarrow> None
        | Some sources \<Rightarrow>
            let source_key = (if map_of sources source = None then attribution_overflow_key else source)
            in map_option (\<lambda>w. (kind_key, source_key, w)) (map_of sources source_key))"

definition source_summary :: "latency_attribution \<Rightarrow> string \<Rightarrow> string \<Rightarrow> secs \<Rightarrow> latency_summary \<times> latency_attribution" where
  "source_summary a kind source now =
    (case existing_window a kind source of
       None \<Rightarrow> (empty_latency_summary, a)
     | Some (kind_key, source_key, w) \<Rightarrow>
         let (summary, w1) = window_summary w now
         in (summary, a\<lparr>ba_windows := AList.update kind_key
               (AList.update source_key w1 (dict_get (ba_windows a) kind_key [])) (ba_windows a)\<rparr>))"

definition attribution_summary ::
  "latency_attribution \<Rightarrow> secs \<Rightarrow> (string \<times> (string \<times> latency_summary) list) list \<times> latency_attribution" where
  "attribution_summary a now =
    (map (\<lambda>(kind, sources). (kind, map (\<lambda>(source, w). (source, fst (window_summary w now))) (sort_key fst sources)))
       (sort_key fst (ba_windows a)),
     a\<lparr>ba_windows := map (\<lambda>(kind, sources). (kind, map (\<lambda>(source, w). (source, prune_window w now)) sources)) (ba_windows a)\<rparr>)"

section \<open>Errors\<close>

text \<open>
  An exception: its text, the name of its type, whether it is a \<open>TimeoutError\<close>, and what its
  \<open>get_dbus_name\<close> answers (\<open>None\<close> when there is no such method or it fails).
\<close>

record dbus_error =
  de_text :: string
  de_type :: string
  de_timeout :: bool
  de_name :: "string option"

definition dbus_error_name :: "dbus_error \<Rightarrow> string" where
  "dbus_error_name e = (case de_name e of None \<Rightarrow> '''' | Some n \<Rightarrow> py_lower n)"

definition bounded_text :: "string \<Rightarrow> string" where
  "bounded_text v = take 256 (py_strip v)"

definition dbus_error_is_timeout :: "dbus_error \<Rightarrow> bool" where
  "dbus_error_is_timeout e \<longleftrightarrow>
    de_timeout e \<or>
    list_ex (\<lambda>marker. py_in marker (py_lower (de_text e))) [''timeout'', ''timed out'', ''noreply'', ''no_reply''] \<or>
    py_in ''noreply'' (dbus_error_name e)"

definition dbus_error_code :: "dbus_error \<Rightarrow> string" where
  "dbus_error_code e =
    (if dbus_error_name e \<noteq> [] then bounded_text (dbus_error_name e)
     else if de_timeout e then ''timeout''
     else let n = map (\<lambda>c. if c = CHR ''_'' then CHR ''-'' else c) (py_lower (py_strip (de_type e)))
          in bounded_text (if n = [] then ''dbus-error'' else n))"

section \<open>Rate limiter\<close>

record rate_limiter =
  rl_intervals :: "(string \<times> secs) list"
  rl_next_at :: "(string \<times> secs) list"

definition new_rate_limiter :: "secs \<Rightarrow> secs \<Rightarrow> secs \<Rightarrow> rate_limiter" where
  "new_rate_limiter read_interval write_interval introspection_interval =
    \<lparr> rl_intervals = [(''read'', max 0 read_interval), (''write'', max 0 write_interval),
        (''introspection'', max 0 introspection_interval)],
      rl_next_at = [(''read'', 0), (''write'', 0), (''introspection'', 0)] \<rparr>"

definition limiter_due :: "rate_limiter \<Rightarrow> string \<Rightarrow> secs \<Rightarrow> exc + bool" where
  "limiter_due l kind now = (case map_of (rl_next_at l) kind of None \<Rightarrow> Inl KeyError | Some t \<Rightarrow> Inr (t \<le> now))"

definition limiter_mark :: "rate_limiter \<Rightarrow> string \<Rightarrow> secs \<Rightarrow> (unit, rate_limiter) outcome" where
  "limiter_mark l kind now =
    (case map_of (rl_intervals l) kind of None \<Rightarrow> (Inl KeyError, l)
     | Some interval \<Rightarrow> (Inr (), l\<lparr>rl_next_at := AList.update kind (now + interval) (rl_next_at l)\<rparr>))"

text \<open>\<open>require_due\<close> raises \<open>DbusOperationDeferred\<close>, a runtime error; it reads the clock twice.\<close>

definition limiter_require_due :: "rate_limiter \<Rightarrow> string \<Rightarrow> secs \<Rightarrow> secs \<Rightarrow> (unit, rate_limiter) outcome" where
  "limiter_require_due l kind now marked =
    (case limiter_due l kind now of
       Inl e \<Rightarrow> (Inl e, l)
     | Inr ready \<Rightarrow> if \<not> ready then (Inl RuntimeErr, l) else limiter_mark l kind marked)"

section \<open>Circuit breaker\<close>

definition dbus_operation_kind :: string where "dbus_operation_kind = ''dbus''"
definition dbus_degraded_timeouts :: int where "dbus_degraded_timeouts = 3"
definition dbus_protective_timeouts :: int where "dbus_protective_timeouts = 5"

definition priority_ranks :: "(string \<times> int) list" where
  "priority_ranks = [(''safety'', 0), (''user'', 1), (''publish'', 2), (''read'', 3), (''optional'', 4),
     (''discovery'', 5), (''diagnostic'', 6)]"

definition normalized_kind :: "string \<Rightarrow> string" where
  "normalized_kind kind = (if py_strip kind = [] then dbus_operation_kind else py_strip kind)"

definition normalized_priority :: "string \<Rightarrow> string" where
  "normalized_priority priority = (let n = py_lower (py_strip priority) in if n = [] then ''diagnostic'' else n)"

definition priority_rank :: "string \<Rightarrow> int" where
  "priority_rank priority = (case map_of priority_ranks (normalized_priority priority) of Some r \<Rightarrow> r | None \<Rightarrow> 6)"

record protective_evidence =
  pe_triggered_at :: secs
  pe_protective_until :: secs
  pe_timeout_count :: int
  pe_kind :: string
  pe_source :: string
  pe_error_code :: string
  pe_latency :: "millis option"

record circuit =
  cb_latencies :: latency_window
  cb_by_kind :: "(string \<times> latency_window) list"
  cb_by_source :: latency_attribution
  cb_degraded_mono :: secs
  cb_protective_mono :: secs
  cb_degraded_epoch :: secs
  cb_protective_epoch :: secs
  cb_degraded_seconds :: secs
  cb_protective_seconds :: secs
  cb_last_success_at :: secs
  cb_last_error :: string
  cb_errors :: "(secs \<times> string) list"
  cb_successes :: "(secs \<times> string) list"
  cb_failures :: int
  cb_trigger :: "protective_evidence option"

definition new_circuit :: "secs \<Rightarrow> secs \<Rightarrow> circuit" where
  "new_circuit degraded_seconds protective_seconds =
    \<lparr> cb_latencies = new_latency_window 60, cb_by_kind = [], cb_by_source = new_attribution 60 8 16,
      cb_degraded_mono = 0, cb_protective_mono = 0, cb_degraded_epoch = 0, cb_protective_epoch = 0,
      cb_degraded_seconds = max 1 degraded_seconds, cb_protective_seconds = max 1 protective_seconds,
      cb_last_success_at = 0, cb_last_error = '''', cb_errors = [], cb_successes = [], cb_failures = 0,
      cb_trigger = None \<rparr>"

text \<open>The two deadlines can be set from outside, as epoch times.\<close>

definition epoch_deadline_to_monotonic :: "secs \<Rightarrow> secs \<Rightarrow> secs \<Rightarrow> secs" where
  "epoch_deadline_to_monotonic deadline tick epoch = (if deadline \<le> 0 then 0 else tick + max 0 (deadline - epoch))"

definition set_degraded_until :: "circuit \<Rightarrow> secs \<Rightarrow> secs \<Rightarrow> secs \<Rightarrow> circuit" where
  "set_degraded_until c v tick epoch =
    c\<lparr>cb_degraded_epoch := max 0 v, cb_degraded_mono := epoch_deadline_to_monotonic (max 0 v) tick epoch\<rparr>"

definition set_protective_until :: "circuit \<Rightarrow> secs \<Rightarrow> secs \<Rightarrow> secs \<Rightarrow> circuit" where
  "set_protective_until c v tick epoch =
    c\<lparr>cb_protective_epoch := max 0 v, cb_protective_mono := epoch_deadline_to_monotonic (max 0 v) tick epoch\<rparr>"

definition change_kind_window :: "circuit \<Rightarrow> string \<Rightarrow> (latency_window \<Rightarrow> latency_window) \<Rightarrow> circuit" where
  "change_kind_window c kind f =
    (let k = normalized_kind kind
     in c\<lparr>cb_by_kind := AList.update k (f (dict_get (cb_by_kind c) k (new_latency_window 60))) (cb_by_kind c)\<rparr>)"

definition record_latency :: "circuit \<Rightarrow> millis \<Rightarrow> string \<Rightarrow> string \<Rightarrow> secs \<Rightarrow> circuit" where
  "record_latency c latency_ms kind source tick =
    (let c1 = c\<lparr>cb_latencies := window_record_latency (cb_latencies c) latency_ms tick\<rparr>;
         c2 = change_kind_window c1 kind (\<lambda>w. window_record_latency w latency_ms tick)
     in if source = [] then c2
        else c2\<lparr>cb_by_source := attribute_latency (cb_by_source c2) kind source latency_ms tick\<rparr>)"

definition record_timeout :: "circuit \<Rightarrow> string \<Rightarrow> string \<Rightarrow> secs \<Rightarrow> circuit" where
  "record_timeout c kind source tick =
    (let c1 = c\<lparr>cb_latencies := window_record_timeout (cb_latencies c) tick\<rparr>;
         c2 = change_kind_window c1 kind (\<lambda>w. window_record_timeout w tick)
     in if source = [] then c2
        else c2\<lparr>cb_by_source := attribute_timeout (cb_by_source c2) kind source tick\<rparr>)"

definition prune_events :: "circuit \<Rightarrow> secs \<Rightarrow> circuit" where
  "prune_events c now =
    c\<lparr>cb_errors := dropWhile (\<lambda>e. fst e < now - 60) (cb_errors c),
      cb_successes := dropWhile (\<lambda>e. fst e < now - 60) (cb_successes c)\<rparr>"

definition record_success :: "circuit \<Rightarrow> millis \<Rightarrow> string \<Rightarrow> string \<Rightarrow> secs \<Rightarrow> secs \<Rightarrow> circuit" where
  "record_success c latency_ms kind source tick epoch =
    (let k = normalized_kind kind;
         c1 = record_latency c latency_ms k source tick;
         c2 = prune_events (c1\<lparr>cb_successes := cb_successes c1 @ [(tick, k)]\<rparr>) tick
     in c2\<lparr>cb_last_success_at := epoch, cb_last_error := '''', cb_failures := 0\<rparr>)"

definition extend_degraded_deadline :: "circuit \<Rightarrow> secs \<Rightarrow> secs \<Rightarrow> circuit" where
  "extend_degraded_deadline c tick epoch =
    (let candidate = tick + cb_degraded_seconds c
     in if cb_degraded_mono c < candidate
        then c\<lparr>cb_degraded_mono := candidate, cb_degraded_epoch := epoch + cb_degraded_seconds c\<rparr> else c)"

definition extend_protective_deadline :: "circuit \<Rightarrow> secs \<Rightarrow> secs \<Rightarrow> circuit" where
  "extend_protective_deadline c tick epoch =
    (let candidate = tick + cb_protective_seconds c
     in if cb_protective_mono c < candidate
        then c\<lparr>cb_protective_mono := candidate, cb_protective_epoch := epoch + cb_protective_seconds c\<rparr> else c)"

definition active_protective_trigger :: "circuit \<Rightarrow> secs \<Rightarrow> protective_evidence option" where
  "active_protective_trigger c tick = (if cb_protective_mono c \<le> tick then None else cb_trigger c)"

definition record_protective_timeout ::
  "circuit \<Rightarrow> dbus_error \<Rightarrow> string \<Rightarrow> string \<Rightarrow> millis option \<Rightarrow> secs \<Rightarrow> secs \<Rightarrow> int \<Rightarrow> circuit" where
  "record_protective_timeout c err kind source latency_ms tick epoch count =
    (let was_protective = tick < cb_protective_mono c;
         c1 = extend_protective_deadline c tick epoch
     in if \<not> was_protective \<or> active_protective_trigger c1 tick = None
        then c1\<lparr>cb_trigger := Some \<lparr> pe_triggered_at = epoch, pe_protective_until = cb_protective_epoch c1,
               pe_timeout_count = count, pe_kind = kind, pe_source = bounded_text source,
               pe_error_code = dbus_error_code err, pe_latency = map_option (max 0) latency_ms \<rparr>\<rparr>
        else c1\<lparr>cb_trigger := map_option (\<lambda>t. t\<lparr>pe_protective_until := cb_protective_epoch c1\<rparr>) (cb_trigger c1)\<rparr>)"

definition record_timeout_error ::
  "circuit \<Rightarrow> dbus_error \<Rightarrow> string \<Rightarrow> string \<Rightarrow> millis option \<Rightarrow> secs \<Rightarrow> secs \<Rightarrow> circuit" where
  "record_timeout_error c err kind source latency_ms tick epoch =
    (let c1 = record_timeout c kind source tick;
         (summary, w) = window_summary (cb_latencies c1) tick;
         c2 = c1\<lparr>cb_latencies := w\<rparr>;
         count = ls_timeouts summary
     in if dbus_protective_timeouts < count then record_protective_timeout c2 err kind source latency_ms tick epoch count
        else if dbus_degraded_timeouts \<le> count then extend_degraded_deadline c2 tick epoch
        else c2)"

definition record_error ::
  "circuit \<Rightarrow> dbus_error \<Rightarrow> string \<Rightarrow> string \<Rightarrow> millis option \<Rightarrow> secs \<Rightarrow> secs \<Rightarrow> circuit" where
  "record_error c err kind source latency_ms tick epoch =
    (let k = normalized_kind kind;
         c1 = prune_events (c\<lparr>cb_last_error := de_text err, cb_errors := cb_errors c @ [(tick, k)]\<rparr>) tick;
         c2 = c1\<lparr>cb_failures := cb_failures c1 + 1\<rparr>;
         c3 = (case latency_ms of None \<Rightarrow> c2 | Some l \<Rightarrow> record_latency c2 l k source tick)
     in if dbus_error_is_timeout err then record_timeout_error c3 err k source latency_ms tick epoch else c3)"

definition record_optional_source_failure :: "circuit \<Rightarrow> dbus_error \<Rightarrow> string \<Rightarrow> millis \<Rightarrow> secs \<Rightarrow> circuit" where
  "record_optional_source_failure c err source latency_ms tick =
    (let c1 = record_latency c latency_ms ''optional_read'' source tick
     in if source \<noteq> [] \<and> dbus_error_is_timeout err
        then c1\<lparr>cb_by_source := attribute_timeout (cb_by_source c1) ''optional_read'' source tick\<rparr> else c1)"

definition circuit_state :: "circuit \<Rightarrow> secs \<Rightarrow> string" where
  "circuit_state c tick =
    (if tick < cb_protective_mono c then ''protective''
     else if tick < cb_degraded_mono c then ''degraded'' else ''ok'')"

definition state_for_epoch :: "circuit \<Rightarrow> secs \<Rightarrow> string" where
  "state_for_epoch c captured_at =
    (if captured_at < cb_protective_epoch c then ''protective''
     else if captured_at < cb_degraded_epoch c then ''degraded'' else ''ok'')"

definition allows_priority :: "circuit \<Rightarrow> string \<Rightarrow> secs \<Rightarrow> bool" where
  "allows_priority c priority tick =
    (let rank = priority_rank priority; state = circuit_state c tick
     in if state = ''protective'' then rank \<le> 3 else if state = ''degraded'' then rank \<le> 4 else True)"

definition optional_source_interval_factor :: "circuit \<Rightarrow> string \<Rightarrow> secs \<Rightarrow> rat \<times> circuit" where
  "optional_source_interval_factor c source tick =
    (let (summary, a) = source_summary (cb_by_source c) ''optional_read'' source tick
     in (if ls_samples summary < 3 then 1 else if 750 \<le> ls_p99 summary then 5
         else if 250 \<le> ls_p95 summary then 3 else 1,
         c\<lparr>cb_by_source := a\<rparr>))"

record circuit_health =
  ch_state :: string
  ch_degraded_until :: secs
  ch_last_success_at :: secs
  ch_last_error :: string
  ch_active_trigger :: "protective_evidence option"
  ch_last_trigger :: "protective_evidence option"
  ch_errors :: int
  ch_successes :: int
  ch_failures :: int
  ch_operations :: "(string \<times> latency_summary) list"
  ch_sources :: "(string \<times> (string \<times> latency_summary) list) list"
  ch_summary :: latency_summary

text \<open>The report reads the clock once for the windows and once for the state.\<close>

definition circuit_report :: "circuit \<Rightarrow> secs \<Rightarrow> secs \<Rightarrow> circuit_health \<times> circuit" where
  "circuit_report c tick later =
    (let c1 = prune_events c tick;
         (summary, w) = window_summary (cb_latencies c1) tick;
         (by_source, a) = attribution_summary (cb_by_source c1) tick
     in (\<lparr> ch_state = circuit_state c1 later, ch_degraded_until = max (cb_degraded_epoch c1) (cb_protective_epoch c1),
           ch_last_success_at = cb_last_success_at c1, ch_last_error = cb_last_error c1,
           ch_active_trigger = active_protective_trigger c1 tick, ch_last_trigger = cb_trigger c1,
           ch_errors = int (length (cb_errors c1)), ch_successes = int (length (cb_successes c1)),
           ch_failures = cb_failures c1,
           ch_operations = map (\<lambda>(k, w). (k, fst (window_summary w tick))) (sort_key fst (cb_by_kind c1)),
           ch_sources = by_source, ch_summary = summary \<rparr>,
         c1\<lparr>cb_latencies := w, cb_by_source := a,
            cb_by_kind := map (\<lambda>(k, w). (k, prune_window w tick)) (cb_by_kind c1)\<rparr>))"

end
