(* ===== verification/Dbus_Rate_Claims.thy ===== *)
theory Dbus_Rate_Claims
  imports Dbus_Rate
begin

text \<open>
  What the load protection of the D-Bus gateway does along any run of completed operations: when work
  is suppressed, how large the attribution tables grow, what a percentile is, and how operations are
  spaced.
\<close>

section \<open>Runs of the circuit breaker\<close>

datatype circuit_event =
    Succeeded millis string string secs secs
  | Failed dbus_error string string "millis option" secs secs
  | OptionalFailed dbus_error string millis secs
  | Reported secs secs
  | Rated string secs

fun circuit_step :: "circuit \<Rightarrow> circuit_event \<Rightarrow> circuit" where
  "circuit_step c (Succeeded l kind source tick epoch) = record_success c l kind source tick epoch"
| "circuit_step c (Failed err kind source l tick epoch) = record_error c err kind source l tick epoch"
| "circuit_step c (OptionalFailed err source l tick) = record_optional_source_failure c err source l tick"
| "circuit_step c (Reported tick later) = snd (circuit_report c tick later)"
| "circuit_step c (Rated source tick) = snd (optional_source_interval_factor c source tick)"

fun event_tick :: "circuit_event \<Rightarrow> secs" where
  "event_tick (Succeeded _ _ _ t _) = t"
| "event_tick (Failed _ _ _ _ t _) = t"
| "event_tick (OptionalFailed _ _ _ t) = t"
| "event_tick (Reported t _) = t"
| "event_tick (Rated _ t) = t"

fun counts_as_timeout :: "circuit_event \<Rightarrow> bool" where
  "counts_as_timeout (Failed err _ _ _ _ _) = dbus_error_is_timeout err"
| "counts_as_timeout _ = False"

definition timeout_ticks :: "circuit_event list \<Rightarrow> secs list" where
  "timeout_ticks es = map event_tick (filter counts_as_timeout es)"

lemma timeout_ticks_simps [simp]:
  "timeout_ticks [] = []"
  "timeout_ticks (es @ [e]) = timeout_ticks es @ (if counts_as_timeout e then [event_tick e] else [])"
  by (simp_all add: timeout_ticks_def)

text \<open>The timeouts of the last minute, seen from a time.\<close>

definition minute_timeouts :: "circuit_event list \<Rightarrow> secs \<Rightarrow> int" where
  "minute_timeouts es t = int (length (filter (\<lambda>u. t - 60 \<le> u) (timeout_ticks es)))"

text \<open>The run up to and including event \<open>i\<close> ends in a timeout that makes the given number in a minute.\<close>

definition storm :: "(int \<Rightarrow> bool) \<Rightarrow> circuit_event list \<Rightarrow> nat \<Rightarrow> bool" where
  "storm enough es i \<longleftrightarrow> i < length es \<and> counts_as_timeout (es ! i) \<and>
    enough (minute_timeouts (take (Suc i) es) (event_tick (es ! i)))"

definition storm_before :: "(int \<Rightarrow> bool) \<Rightarrow> secs \<Rightarrow> circuit_event list \<Rightarrow> secs \<Rightarrow> bool" where
  "storm_before enough hold es now \<longleftrightarrow> (\<exists>i < length es. storm enough es i \<and> now < event_tick (es ! i) + hold)"

lemma storm_before_Nil [simp]: "\<not> storm_before enough hold [] now"
  by (simp add: storm_before_def)

lemma storm_before_snoc:
  "storm_before enough hold (es @ [e]) now \<longleftrightarrow> storm_before enough hold es now \<or>
    counts_as_timeout e \<and> enough (minute_timeouts (es @ [e]) (event_tick e)) \<and> now < event_tick e + hold"
proof -
  have old: "storm enough (es @ [e]) i = storm enough es i" if "i < length es" for i
    using that by (simp add: storm_def nth_append)
  have new: "storm enough (es @ [e]) (length es) \<longleftrightarrow> counts_as_timeout e \<and> enough (minute_timeouts (es @ [e]) (event_tick e))"
    by (simp add: storm_def)
  have "storm_before enough hold (es @ [e]) now \<longleftrightarrow>
      (\<exists>i < length es. storm enough (es @ [e]) i \<and> now < event_tick ((es @ [e]) ! i) + hold) \<or>
      storm enough (es @ [e]) (length es) \<and> now < event_tick ((es @ [e]) ! length es) + hold"
    unfolding storm_before_def length_append_singleton Ex_less_Suc by (rule disj_commute)
  also have "(\<exists>i < length es. storm enough (es @ [e]) i \<and> now < event_tick ((es @ [e]) ! i) + hold) \<longleftrightarrow>
      storm_before enough hold es now"
    unfolding storm_before_def by (rule ex_cong1) (auto simp only: old nth_append if_True)
  finally show ?thesis by (simp only: new nth_append_length conj_assoc)
qed

section \<open>The window holds the last minute\<close>

lemma dropWhile_sorted_less: "sorted xs \<Longrightarrow> dropWhile (\<lambda>t. t < (a :: rat)) xs = filter (\<lambda>t. a \<le> t) xs"
proof (induction xs)
  case (Cons x xs)
  then show ?case by (cases "x < a") (auto intro!: filter_True [symmetric])
qed simp

definition window_ok :: "latency_window \<Rightarrow> secs list \<Rightarrow> secs \<Rightarrow> bool" where
  "window_ok w ticks now \<longleftrightarrow> lw_seconds w = 60 \<and> (\<exists>m \<le> now - 60. lw_timeouts w = filter (\<lambda>u. m \<le> u) ticks)"

lemma window_ok_new [simp]: "window_ok (new_latency_window 60) [] now"
  by (auto simp: window_ok_def new_latency_window_def)

lemma window_ok_later: "window_ok w ticks now \<Longrightarrow> now \<le> t \<Longrightarrow> window_ok w ticks t"
  unfolding window_ok_def by (meson diff_right_mono order_trans)

lemma pruned_timeouts:
  assumes "window_ok w ticks now" "now \<le> t" "sorted ticks"
  shows "lw_timeouts (prune_window w t) = filter (\<lambda>u. t - 60 \<le> u) ticks"
proof -
  from assms(1) obtain m where m: "m \<le> now - 60" "lw_timeouts w = filter (\<lambda>u. m \<le> u) ticks" "lw_seconds w = 60"
    by (auto simp: window_ok_def)
  have "sorted (filter (\<lambda>u. m \<le> u) ticks)" using assms(3) by (rule sorted_wrt_filter)
  with m have "lw_timeouts (prune_window w t) = filter (\<lambda>u. t - 60 \<le> u) (filter (\<lambda>u. m \<le> u) ticks)"
    by (simp add: prune_window_def Let_def dropWhile_sorted_less)
  also have "\<dots> = filter (\<lambda>u. t - 60 \<le> u) ticks"
    using m(1) assms(2) by (auto simp: filter_filter intro!: filter_cong)
  finally show ?thesis .
qed

lemma window_ok_prune:
  "window_ok w ticks now \<Longrightarrow> now \<le> t \<Longrightarrow> sorted ticks \<Longrightarrow> window_ok (prune_window w t) ticks t"
  using pruned_timeouts [of w ticks now t] by (auto simp: window_ok_def prune_window_def Let_def)

lemma window_ok_latency:
  assumes "window_ok w ticks now" "now \<le> t" "sorted ticks"
  shows "window_ok (window_record_latency w l t) ticks t"
proof -
  have "window_ok (w\<lparr>lw_latencies := lw_latencies w @ [(t, max 0 l)]\<rparr>) ticks now"
    using assms(1) by (simp add: window_ok_def)
  from window_ok_prune [OF this assms(2,3)] show ?thesis by (simp add: window_record_latency_def)
qed

lemma recorded_timeouts:
  assumes "window_ok w ticks now" "now \<le> t" "sorted (ticks @ [t])"
  shows "window_ok (window_record_timeout w t) (ticks @ [t]) t"
    and "lw_timeouts (window_record_timeout w t) = filter (\<lambda>u. t - 60 \<le> u) (ticks @ [t])"
proof -
  from assms(1) obtain m where "m \<le> now - 60" "lw_timeouts w = filter (\<lambda>u. m \<le> u) ticks" "lw_seconds w = 60"
    by (auto simp: window_ok_def)
  with assms(2) have "window_ok (w\<lparr>lw_timeouts := lw_timeouts w @ [t]\<rparr>) (ticks @ [t]) now"
    by (auto simp: window_ok_def intro!: exI [of _ m])
  from pruned_timeouts [OF this assms(2,3)] window_ok_prune [OF this assms(2,3)]
  show "window_ok (window_record_timeout w t) (ticks @ [t]) t"
    and "lw_timeouts (window_record_timeout w t) = filter (\<lambda>u. t - 60 \<le> u) (ticks @ [t])"
    by (simp_all add: window_record_timeout_def)
qed

section \<open>The deadlines are those of the storms\<close>

lemma record_latency_frame [simp]:
  "cb_latencies (record_latency c l kind source t) = window_record_latency (cb_latencies c) l t"
  "cb_degraded_seconds (record_latency c l kind source t) = cb_degraded_seconds c"
  "cb_protective_seconds (record_latency c l kind source t) = cb_protective_seconds c"
  "cb_degraded_mono (record_latency c l kind source t) = cb_degraded_mono c"
  "cb_protective_mono (record_latency c l kind source t) = cb_protective_mono c"
  by (simp_all add: record_latency_def change_kind_window_def Let_def)

lemma record_timeout_frame [simp]:
  "cb_latencies (record_timeout c kind source t) = window_record_timeout (cb_latencies c) t"
  "cb_degraded_seconds (record_timeout c kind source t) = cb_degraded_seconds c"
  "cb_protective_seconds (record_timeout c kind source t) = cb_protective_seconds c"
  "cb_degraded_mono (record_timeout c kind source t) = cb_degraded_mono c"
  "cb_protective_mono (record_timeout c kind source t) = cb_protective_mono c"
  by (simp_all add: record_timeout_def change_kind_window_def Let_def)

lemma prune_events_frame [simp]:
  "cb_latencies (prune_events c t) = cb_latencies c"
  "cb_degraded_seconds (prune_events c t) = cb_degraded_seconds c"
  "cb_protective_seconds (prune_events c t) = cb_protective_seconds c"
  "cb_degraded_mono (prune_events c t) = cb_degraded_mono c"
  "cb_protective_mono (prune_events c t) = cb_protective_mono c"
  by (simp_all add: prune_events_def)

lemma summary_window [simp]: "snd (window_summary w t) = prune_window w t"
  and summary_timeouts [simp]: "ls_timeouts (fst (window_summary w t)) = int (length (lw_timeouts (prune_window w t)))"
  by (simp_all add: window_summary_def Let_def)

lemma extend_frame [simp]:
  "cb_latencies (extend_protective_deadline c t e) = cb_latencies c"
  "cb_degraded_seconds (extend_protective_deadline c t e) = cb_degraded_seconds c"
  "cb_protective_seconds (extend_protective_deadline c t e) = cb_protective_seconds c"
  "cb_degraded_mono (extend_protective_deadline c t e) = cb_degraded_mono c"
  "cb_protective_mono (extend_protective_deadline c t e) = max (cb_protective_mono c) (t + cb_protective_seconds c)"
  "cb_latencies (extend_degraded_deadline c t e) = cb_latencies c"
  "cb_degraded_seconds (extend_degraded_deadline c t e) = cb_degraded_seconds c"
  "cb_protective_seconds (extend_degraded_deadline c t e) = cb_protective_seconds c"
  "cb_protective_mono (extend_degraded_deadline c t e) = cb_protective_mono c"
  "cb_degraded_mono (extend_degraded_deadline c t e) = max (cb_degraded_mono c) (t + cb_degraded_seconds c)"
  by (simp_all add: extend_protective_deadline_def extend_degraded_deadline_def Let_def)

lemma protective_timeout_frame [simp]:
  "cb_latencies (record_protective_timeout c err kind source l t e n) = cb_latencies c"
  "cb_degraded_seconds (record_protective_timeout c err kind source l t e n) = cb_degraded_seconds c"
  "cb_protective_seconds (record_protective_timeout c err kind source l t e n) = cb_protective_seconds c"
  "cb_degraded_mono (record_protective_timeout c err kind source l t e n) = cb_degraded_mono c"
  "cb_protective_mono (record_protective_timeout c err kind source l t e n) =
    max (cb_protective_mono c) (t + cb_protective_seconds c)"
  by (simp_all add: record_protective_timeout_def Let_def)

text \<open>A timeout error by the number of timeouts it makes in the last minute.\<close>

lemma timeout_error_parts:
  fixes t :: secs and c :: circuit
  defines "n \<equiv> int (length (lw_timeouts (prune_window (window_record_timeout (cb_latencies c) t) t)))"
  shows "cb_latencies (record_timeout_error c err kind source l t e) = prune_window (window_record_timeout (cb_latencies c) t) t"
    and "cb_degraded_seconds (record_timeout_error c err kind source l t e) = cb_degraded_seconds c"
    and "cb_protective_seconds (record_timeout_error c err kind source l t e) = cb_protective_seconds c"
    and "cb_protective_mono (record_timeout_error c err kind source l t e) =
      (if 5 < n then max (cb_protective_mono c) (t + cb_protective_seconds c) else cb_protective_mono c)"
    and "cb_degraded_mono (record_timeout_error c err kind source l t e) =
      (if 3 \<le> n \<and> n \<le> 5 then max (cb_degraded_mono c) (t + cb_degraded_seconds c) else cb_degraded_mono c)"
  by (simp_all add: record_timeout_error_def n_def dbus_protective_timeouts_def dbus_degraded_timeouts_def
      Let_def split_def)

definition circuit_ok :: "secs \<Rightarrow> secs \<Rightarrow> circuit_event list \<Rightarrow> secs \<Rightarrow> circuit \<Rightarrow> bool" where
  "circuit_ok d p es now c \<longleftrightarrow>
    window_ok (cb_latencies c) (timeout_ticks es) now \<and>
    cb_degraded_seconds c = max 1 d \<and> cb_protective_seconds c = max 1 p \<and>
    (\<forall>t. t < cb_protective_mono c \<longleftrightarrow> t < 0 \<or> storm_before (\<lambda>n. 5 < n) (max 1 p) es t) \<and>
    (\<forall>t. t < cb_degraded_mono c \<longleftrightarrow> t < 0 \<or> storm_before (\<lambda>n. 3 \<le> n \<and> n \<le> 5) (max 1 d) es t)"

lemma circuit_ok_new: "circuit_ok d p [] now (new_circuit d p)"
  by (simp add: circuit_ok_def new_circuit_def)

text \<open>An event that is no counted timeout only prunes the window.\<close>

lemma quiet_event:
  assumes "circuit_ok d p es now c" "now \<le> event_tick e" "sorted (timeout_ticks es)" "\<not> counts_as_timeout e"
  shows "circuit_ok d p (es @ [e]) (event_tick e) (circuit_step c e)"
proof -
  let ?t = "event_tick e"
  from assms(1) have w: "window_ok (cb_latencies c) (timeout_ticks es) now" by (simp add: circuit_ok_def)
  have "cb_latencies (circuit_step c e) = cb_latencies c \<or> cb_latencies (circuit_step c e) = prune_window (cb_latencies c) ?t \<or>
      (\<exists>l. cb_latencies (circuit_step c e) = window_record_latency (cb_latencies c) l ?t)"
    using assms(4)
    by (cases e) (auto simp: record_success_def record_error_def record_optional_source_failure_def circuit_report_def
        optional_source_interval_factor_def Let_def split_def split: option.splits)
  then have "window_ok (cb_latencies (circuit_step c e)) (timeout_ticks es) ?t"
    using window_ok_later [OF w assms(2)] window_ok_prune [OF w assms(2,3)] window_ok_latency [OF w assms(2,3)] by auto
  moreover have "cb_degraded_seconds (circuit_step c e) = cb_degraded_seconds c"
    "cb_protective_seconds (circuit_step c e) = cb_protective_seconds c"
    "cb_degraded_mono (circuit_step c e) = cb_degraded_mono c" "cb_protective_mono (circuit_step c e) = cb_protective_mono c"
    using assms(4)
    by (cases e; auto simp: record_success_def record_error_def record_optional_source_failure_def circuit_report_def
        optional_source_interval_factor_def Let_def split_def split: option.splits)+
  ultimately show ?thesis using assms(1,4) by (simp add: circuit_ok_def storm_before_snoc)
qed

lemma loud_event:
  assumes ok: "circuit_ok d p es now c" and later: "now \<le> event_tick e"
    and srt: "sorted (timeout_ticks (es @ [e]))" and loud: "counts_as_timeout e"
  shows "circuit_ok d p (es @ [e]) (event_tick e) (circuit_step c e)"
proof -
  let ?t = "event_tick e"
  from ok have w: "window_ok (cb_latencies c) (timeout_ticks es) now" by (simp add: circuit_ok_def)
  from srt loud have srt1: "sorted (timeout_ticks es @ [?t])" and srt0: "sorted (timeout_ticks es)" by (simp_all add: sorted_append)
  from loud obtain err kind source l t epoch where e: "e = Failed err kind source l t epoch"
    and timeout: "dbus_error_is_timeout err" by (cases e) auto
  then have t: "event_tick e = t" by simp
  define k where "k = normalized_kind kind"
  define c0 where "c0 = prune_events (c\<lparr>cb_last_error := de_text err, cb_errors := cb_errors c @ [(t, k)]\<rparr>) t"
  define c1 where "c1 = c0\<lparr>cb_failures := cb_failures c0 + 1\<rparr>"
  define c3 where "c3 = (case l of None \<Rightarrow> c1 | Some l \<Rightarrow> record_latency c1 l k source t)"
  have step: "circuit_step c e = record_timeout_error c3 err k source l ?t epoch"
    by (simp add: t) (simp add: e timeout record_error_def c3_def c1_def c0_def k_def Let_def split: option.split)
  have w3: "window_ok (cb_latencies c3) (timeout_ticks es) ?t"
    using window_ok_later [OF w later] window_ok_latency [OF w later srt0]
    by (simp add: c3_def c1_def c0_def t split: option.split)
  have same: "cb_degraded_seconds c3 = cb_degraded_seconds c" "cb_protective_seconds c3 = cb_protective_seconds c"
    "cb_degraded_mono c3 = cb_degraded_mono c" "cb_protective_mono c3 = cb_protective_mono c"
    by (simp_all add: c3_def c1_def c0_def split: option.split)
  let ?w = "window_record_timeout (cb_latencies c3) ?t"
  have rec: "window_ok ?w (timeout_ticks es @ [?t]) ?t" by (rule recorded_timeouts(1) [OF w3 order_refl srt1])
  have n: "int (length (lw_timeouts (prune_window ?w ?t))) = minute_timeouts (es @ [e]) ?t"
    using pruned_timeouts [OF rec order_refl srt1] loud by (simp add: minute_timeouts_def)
  have "window_ok (cb_latencies (circuit_step c e)) (timeout_ticks (es @ [e])) ?t"
    using window_ok_prune [OF rec order_refl srt1] loud by (simp add: step timeout_error_parts)
  with ok loud show ?thesis
    unfolding circuit_ok_def step timeout_error_parts same n storm_before_snoc
    by (auto simp: less_max_iff_disj)
qed

text \<open>A run whose operations complete in the order of the clock.\<close>

definition clocked :: "circuit_event list \<Rightarrow> secs \<Rightarrow> bool" where
  "clocked es now \<longleftrightarrow> sorted (map event_tick es) \<and> (\<forall>e \<in> set es. event_tick e \<le> now)"

lemma clocked_snoc: "clocked (es @ [e]) now \<longleftrightarrow> clocked es (event_tick e) \<and> event_tick e \<le> now"
  by (auto simp: clocked_def sorted_append)

lemma clocked_timeouts: "clocked es now \<Longrightarrow> sorted (timeout_ticks es)"
  unfolding clocked_def timeout_ticks_def by (blast intro: sorted_filter)

lemma circuit_ok_later: "circuit_ok d p es now c \<Longrightarrow> now \<le> t \<Longrightarrow> circuit_ok d p es t c"
  by (auto simp: circuit_ok_def intro: window_ok_later)

lemma circuit_run_ok: "clocked es now \<Longrightarrow> circuit_ok d p es now (foldl circuit_step (new_circuit d p) es)"
proof (induction es arbitrary: now rule: rev_induct)
  case Nil
  show ?case by (simp add: circuit_ok_new)
next
  case (snoc e es)
  from snoc.prems have run: "clocked es (event_tick e)" and t: "event_tick e \<le> now" by (simp_all add: clocked_snoc)
  from snoc.prems have "clocked (es @ [e]) (event_tick e)" by (simp add: clocked_snoc)
  note srt = clocked_timeouts [OF this]
  have "circuit_ok d p (es @ [e]) (event_tick e) (circuit_step (foldl circuit_step (new_circuit d p) es) e)"
    using loud_event [OF snoc.IH [OF run] order_refl srt] quiet_event [OF snoc.IH [OF run] order_refl clocked_timeouts [OF run]]
    by blast
  from circuit_ok_later [OF this t] show ?case by simp
qed

text \<open>
  The state of the circuit: protective within the hold of a timeout that made more than five in its
  last minute, else degraded within the hold of one that made three to five.
\<close>

lemma circuit_state_run:
  assumes "clocked es now" "0 \<le> now"
  shows "circuit_state (foldl circuit_step (new_circuit d p) es) now =
    (if storm_before (\<lambda>n. 5 < n) (max 1 p) es now then ''protective''
     else if storm_before (\<lambda>n. 3 \<le> n \<and> n \<le> 5) (max 1 d) es now then ''degraded'' else ''ok'')"
  using circuit_run_ok [OF assms(1), of d p] assms(2) by (simp add: circuit_ok_def circuit_state_def)

text \<open>
  Claim C37.  Work is suppressed exactly in storms of timeouts.  After any run of completed operations
  in clock order, work of a priority is refused if and only if it ranks below normal reads and some
  failure within the protective hold was the sixth or later timeout of its last minute, or it ranks
  below optional reads (discovery, diagnostics and unknown priorities) and some failure within the
  degraded hold made three to five.  Safety, user, publish and read work is never refused, and failures
  of optional sources never count.
\<close>

theorem work_is_suppressed_exactly_in_storms:
  assumes "clocked es now" "0 \<le> now"
  shows "\<not> allows_priority (foldl circuit_step (new_circuit d p) es) priority now \<longleftrightarrow>
    3 < priority_rank priority \<and> storm_before (\<lambda>n. 5 < n) (max 1 p) es now \<or>
    4 < priority_rank priority \<and> storm_before (\<lambda>n. 3 \<le> n \<and> n \<le> 5) (max 1 d) es now"
  using circuit_state_run [OF assms] by (auto simp: allows_priority_def Let_def split: if_splits)

section \<open>Percentiles\<close>

lemma ceiling_rank:
  fixes f :: rat
  assumes "0 < f" "f \<le> 1" "0 < n"
  shows "1 \<le> nat (max 1 \<lceil>f * of_nat n\<rceil>)" "nat (max 1 \<lceil>f * of_nat n\<rceil>) \<le> n"
    and "f * of_nat n \<le> of_nat (nat (max 1 \<lceil>f * of_nat n\<rceil>))"
    and "of_nat (nat (max 1 \<lceil>f * of_nat n\<rceil>)) < f * of_nat n + 1"
proof -
  have pos: "0 < f * of_nat n" using assms by simp
  then have one: "1 \<le> \<lceil>f * of_nat n\<rceil>" by (simp add: one_le_ceiling)
  then have m: "max 1 \<lceil>f * of_nat n\<rceil> = \<lceil>f * of_nat n\<rceil>" by simp
  have le: "f * of_nat n \<le> of_int (int n)" using assms by simp
  then have "\<lceil>f * of_nat n\<rceil> \<le> int n" by (rule ceiling_le)
  with one show "1 \<le> nat (max 1 \<lceil>f * of_nat n\<rceil>)" "nat (max 1 \<lceil>f * of_nat n\<rceil>) \<le> n"
    unfolding m by linarith+
  have cast: "(of_nat (nat \<lceil>f * of_nat n\<rceil>) :: rat) = of_int \<lceil>f * of_nat n\<rceil>" using one by simp
  show "f * of_nat n \<le> of_nat (nat (max 1 \<lceil>f * of_nat n\<rceil>))" unfolding m cast by (rule le_of_int_ceiling)
  show "of_nat (nat (max 1 \<lceil>f * of_nat n\<rceil>)) < f * of_nat n + 1"
    unfolding m cast using ceiling_correct [of "f * of_nat n"] by linarith
qed

lemma below_sorted_element:
  assumes "sorted xs" "i < length xs"
  shows "Suc i \<le> length (filter (\<lambda>v. v \<le> xs ! i) xs)" "length (filter (\<lambda>v. v < xs ! i) xs) \<le> i"
proof -
  have split: "xs = take (Suc i) xs @ drop (Suc i) xs" "xs = take i xs @ drop i xs" by simp_all
  have "\<forall>v \<in> set (take (Suc i) xs). v \<le> xs ! i"
    using assms by (auto simp: in_set_conv_nth sorted_nth_mono)
  then have "filter (\<lambda>v. v \<le> xs ! i) (take (Suc i) xs) = take (Suc i) xs" by simp
  moreover have "length (filter (\<lambda>v. v \<le> xs ! i) xs) = length (filter (\<lambda>v. v \<le> xs ! i) (take (Suc i) xs)) +
      length (filter (\<lambda>v. v \<le> xs ! i) (drop (Suc i) xs))"
    by (subst split(1)) (simp only: filter_append length_append)
  ultimately show "Suc i \<le> length (filter (\<lambda>v. v \<le> xs ! i) xs)" using assms(2) by simp
  have "\<forall>v \<in> set (drop i xs). \<not> v < xs ! i"
    using assms by (auto simp: in_set_conv_nth not_less intro!: sorted_nth_mono)
  then have "filter (\<lambda>v. v < xs ! i) (drop i xs) = []" by (simp add: filter_empty_conv)
  moreover have "length (filter (\<lambda>v. v < xs ! i) xs) = length (filter (\<lambda>v. v < xs ! i) (take i xs)) +
      length (filter (\<lambda>v. v < xs ! i) (drop i xs))"
    by (subst split(2)) (simp only: filter_append length_append)
  ultimately show "length (filter (\<lambda>v. v < xs ! i) xs) \<le> i"
    by (metis length_filter_le length_take min.bounded_iff add_0_right list.size(3))
qed

lemma length_filter_sort: "length (filter P (sort vs)) = length (filter P vs)"
  by (metis filter_sort length_sort)

text \<open>
  A percentile is a sample; at least the fraction of the samples is not above it, and less than the
  fraction lies strictly below.
\<close>

lemma percentile_correct:
  assumes "vs \<noteq> []" "0 < f" "f \<le> 1"
  shows "percentile vs f \<in> set vs"
    and "f * of_nat (length vs) \<le> of_nat (length (filter (\<lambda>v. v \<le> percentile vs f) vs))"
    and "of_nat (length (filter (\<lambda>v. v < percentile vs f) vs)) < f * of_nat (length vs)"
proof -
  let ?r = "nat (max 1 \<lceil>f * of_nat (length vs)\<rceil>)"
  have n: "0 < length vs" using assms(1) by simp
  note r = ceiling_rank [OF assms(2,3) n]
  have p: "percentile vs f = sort vs ! (?r - 1)" using assms(1) by (simp add: percentile_def)
  have i: "?r - 1 < length (sort vs)" using r(1,2) by simp
  show "percentile vs f \<in> set vs" unfolding p using nth_mem [OF i] by simp
  note below = below_sorted_element [OF sorted_sort i, folded p, unfolded length_filter_sort]
  have "?r \<le> length (filter (\<lambda>v. v \<le> percentile vs f) vs)" using below(1) r(1) by simp
  then have "(of_nat ?r :: rat) \<le> of_nat (length (filter (\<lambda>v. v \<le> percentile vs f) vs))" by (rule of_nat_mono)
  with r(3) show "f * of_nat (length vs) \<le> of_nat (length (filter (\<lambda>v. v \<le> percentile vs f) vs))" by (rule order_trans)
  have "(of_nat (length (filter (\<lambda>v. v < percentile vs f) vs)) :: rat) \<le> of_nat (?r - 1)" using below(2) by (rule of_nat_mono)
  also have "\<dots> = of_nat ?r - 1" using r(1) by (simp add: of_nat_diff)
  also have "\<dots> < f * of_nat (length vs)" using r(4) by linarith
  finally show "of_nat (length (filter (\<lambda>v. v < percentile vs f) vs)) < f * of_nat (length vs)" .
qed

section \<open>The attribution tables stay bounded\<close>

definition keys_bounded :: "(string \<times> 'v) list \<Rightarrow> int \<Rightarrow> bool" where
  "keys_bounded m limit \<longleftrightarrow> distinct (map fst m) \<and>
    int (length (filter (\<lambda>k. k \<noteq> attribution_overflow_key) (map fst m))) \<le> limit - 1"

lemma keys_bounded_length: "keys_bounded m limit \<Longrightarrow> int (length m) \<le> limit"
proof -
  assume bounded: "keys_bounded m limit"
  let ?ks = "map fst m"
  from bounded have "distinct (filter (\<lambda>k. k = attribution_overflow_key) ?ks)" by (simp add: keys_bounded_def)
  moreover have "set (filter (\<lambda>k. k = attribution_overflow_key) ?ks) \<subseteq> {attribution_overflow_key}" by auto
  ultimately have "length (filter (\<lambda>k. k = attribution_overflow_key) ?ks) \<le> 1"
    by (metis card_mono distinct_card finite.emptyI finite.insertI is_singletonI is_singleton_altdef)
  moreover have "length (filter (\<lambda>k. k = attribution_overflow_key) ?ks) +
      length (filter (\<lambda>k. k \<noteq> attribution_overflow_key) ?ks) = length m"
    using sum_length_filter_compl [of "\<lambda>k. k = attribution_overflow_key" ?ks] by simp
  ultimately show "int (length m) \<le> limit" using bounded unfolding keys_bounded_def by linarith
qed

lemma keys_bounded_Nil: "1 \<le> limit \<Longrightarrow> keys_bounded [] limit"
  by (simp add: keys_bounded_def)

lemma keys_bounded_keys: "map fst m = map fst m' \<Longrightarrow> keys_bounded m limit = keys_bounded m' limit"
  by (simp add: keys_bounded_def)

lemma update_keys_new: "k \<notin> fst ` set m \<Longrightarrow> map fst (AList.update k v m) = map fst m @ [k]"
  by (simp add: AList.update_keys)

lemma update_keys_old: "k \<in> fst ` set m \<Longrightarrow> map fst (AList.update k v m) = map fst m"
  by (simp add: AList.update_keys)

lemma keys_bounded_update:
  assumes "keys_bounded m limit"
  shows "keys_bounded (AList.update (bounded_key m k limit) v m) limit"
proof (cases "bounded_key m k limit \<in> fst ` set m")
  case True
  from keys_bounded_keys [OF update_keys_old [OF True, of v]] assms show ?thesis by simp
next
  case False
  have less: "length (filter (\<lambda>k. k \<noteq> attribution_overflow_key) (map fst m)) \<le> length m"
    by (metis length_filter_le length_map)
  from False have "bounded_key m k limit = attribution_overflow_key \<or> int (length m) < limit - 1"
    by (auto simp: bounded_key_def split: if_splits)
  then have "int (length (filter (\<lambda>k. k \<noteq> attribution_overflow_key) (map fst m @ [bounded_key m k limit]))) \<le> limit - 1"
  proof
    assume "bounded_key m k limit = attribution_overflow_key"
    with assms show ?thesis by (simp add: keys_bounded_def)
  next
    let ?new = "filter (\<lambda>k. k \<noteq> attribution_overflow_key) (map fst m @ [bounded_key m k limit])"
    assume "int (length m) < limit - 1"
    moreover have "length ?new \<le> length (filter (\<lambda>k. k \<noteq> attribution_overflow_key) (map fst m)) + 1"
      unfolding filter_append length_append by (rule add_left_mono) simp
    ultimately show ?thesis using less by linarith
  qed
  with assms False show ?thesis unfolding keys_bounded_def update_keys_new [OF False] by auto
qed

definition attribution_ok :: "int \<Rightarrow> int \<Rightarrow> latency_attribution \<Rightarrow> bool" where
  "attribution_ok kinds sources a \<longleftrightarrow> ba_max_kinds a = kinds \<and> ba_max_sources a = sources \<and> 1 \<le> kinds \<and> 1 \<le> sources \<and>
    keys_bounded (ba_windows a) kinds \<and> (\<forall>m \<in> snd ` set (ba_windows a). keys_bounded m sources)"

lemma values_update: "snd ` set (AList.update k v m) \<subseteq> insert v (snd ` set m)"
  by (induction m) auto

lemma dict_get_value: "dict_get m k fresh = fresh \<or> dict_get m k fresh \<in> snd ` set m"
  by (auto simp: dict_get_def split: option.split dest!: map_of_SomeD intro: rev_image_eqI)

lemma attribution_ok_change: "attribution_ok kinds sources a \<Longrightarrow> attribution_ok kinds sources (change_window a kind source f)"
proof -
  assume ok: "attribution_ok kinds sources a"
  let ?k = "bounded_key (ba_windows a) kind (ba_max_kinds a)"
  let ?m = "dict_get (ba_windows a) ?k []"
  have "keys_bounded ?m sources"
    using dict_get_value [of "ba_windows a" ?k "[]"] ok keys_bounded_Nil by (auto simp: attribution_ok_def)
  then have "keys_bounded (AList.update (bounded_key ?m source sources) v ?m) sources" for v by (rule keys_bounded_update)
  with ok keys_bounded_update [of "ba_windows a" kinds kind] values_update [of ?k _ "ba_windows a"]
  show ?thesis by (fastforce simp: attribution_ok_def change_window_def Let_def)
qed

lemma attribution_ok_summary: "attribution_ok kinds sources a \<Longrightarrow> attribution_ok kinds sources (snd (source_summary a kind source t))"
proof (cases "existing_window a kind source")
  case (Some x)
  assume ok: "attribution_ok kinds sources a"
  obtain kk sk w where x: "x = (kk, sk, w)" by (cases x)
  from Some obtain m where m: "map_of (ba_windows a) kk = Some m" "map_of m sk = Some w"
    by (auto simp: existing_window_def Let_def x split: option.splits)
  then have in_m: "(kk, m) \<in> set (ba_windows a)" and in_w: "(sk, w) \<in> set m" by (auto dest: map_of_SomeD)
  then have keys: "kk \<in> fst ` set (ba_windows a)" "sk \<in> fst ` set m" by (force, force)
  have "keys_bounded m sources" using ok in_m by (force simp: attribution_ok_def)
  then have new: "keys_bounded (AList.update sk v m) sources" for v
    using keys_bounded_keys [OF update_keys_old [OF keys(2), of v]] by simp
  have all: "keys_bounded (AList.update kk v (ba_windows a)) kinds" for v
    using keys_bounded_keys [OF update_keys_old [OF keys(1), of v]] ok by (simp add: attribution_ok_def)
  show ?thesis using ok new all values_update [of kk _ "ba_windows a"]
    by (fastforce simp: source_summary_def Some x dict_get_def m split_def attribution_ok_def)
qed (simp add: source_summary_def)

lemma attribution_ok_report: "attribution_ok kinds sources a \<Longrightarrow> attribution_ok kinds sources (snd (attribution_summary a t))"
proof -
  assume ok: "attribution_ok kinds sources a"
  have keys: "map fst (map (\<lambda>(k, v). (k, f v)) m) = map fst m" for f and m :: "(string \<times> 'x) list" by (induction m) auto
  have "keys_bounded (map (\<lambda>(s, w). (s, prune_window w t)) m) sources" if "m \<in> snd ` set (ba_windows a)" for m
    using ok that keys_bounded_keys [OF keys, of "\<lambda>w. prune_window w t" m] by (auto simp: attribution_ok_def)
  then show ?thesis
    using ok keys_bounded_keys [OF keys, of _ "ba_windows a"] by (force simp: attribution_ok_def attribution_summary_def)
qed

lemma by_source_frame [simp]:
  "cb_by_source (change_kind_window c kind f) = cb_by_source c"
  "cb_by_source (prune_events c t) = cb_by_source c"
  "cb_by_source (extend_protective_deadline c t e) = cb_by_source c"
  "cb_by_source (extend_degraded_deadline c t e) = cb_by_source c"
  "cb_by_source (record_protective_timeout c err kind source l t e n) = cb_by_source c"
  by (simp_all add: change_kind_window_def prune_events_def extend_protective_deadline_def extend_degraded_deadline_def
      record_protective_timeout_def Let_def)

abbreviation sources_ok :: "circuit \<Rightarrow> bool" where
  "sources_ok c \<equiv> attribution_ok 8 16 (cb_by_source c)"

lemma sources_ok_latency: "sources_ok c \<Longrightarrow> sources_ok (record_latency c l kind source t)"
  by (simp add: record_latency_def attribute_latency_def attribution_ok_change Let_def)

lemma sources_ok_timeout: "sources_ok c \<Longrightarrow> sources_ok (record_timeout c kind source t)"
  by (simp add: record_timeout_def attribute_timeout_def attribution_ok_change Let_def)

lemma sources_ok_timeout_error: "sources_ok c \<Longrightarrow> sources_ok (record_timeout_error c err kind source l t e)"
  using sources_ok_timeout [of c kind source t] by (simp add: record_timeout_error_def Let_def split_def)

lemma sources_ok_step: "sources_ok c \<Longrightarrow> sources_ok (circuit_step c e)"
proof (cases e)
  case (Succeeded l kind source t ep)
  then show "sources_ok c \<Longrightarrow> ?thesis" by (simp add: record_success_def sources_ok_latency Let_def)
next
  case (Failed err kind source l t ep)
  assume ok: "sources_ok c"
  let ?c1 = "prune_events (c\<lparr>cb_last_error := de_text err, cb_errors := cb_errors c @ [(t, normalized_kind kind)]\<rparr>) t"
  let ?c2 = "?c1\<lparr>cb_failures := cb_failures ?c1 + 1\<rparr>"
  let ?c3 = "case l of None \<Rightarrow> ?c2 | Some l \<Rightarrow> record_latency ?c2 l (normalized_kind kind) source t"
  have "sources_ok ?c2" using ok by simp
  then have "sources_ok ?c3" using sources_ok_latency [of ?c2] by (cases l) simp_all
  then show ?thesis using sources_ok_timeout_error [of ?c3] by (simp add: Failed record_error_def Let_def)
next
  case (OptionalFailed err source l t)
  assume ok: "sources_ok c"
  from sources_ok_latency [OF ok] show ?thesis
    by (simp add: OptionalFailed record_optional_source_failure_def attribute_timeout_def attribution_ok_change Let_def)
next
  case (Reported t later)
  assume "sources_ok c"
  then show ?thesis
    by (simp add: Reported circuit_report_def Let_def split_def attribution_ok_report)
next
  case (Rated source t)
  assume "sources_ok c"
  then show ?thesis
    by (simp add: Rated optional_source_interval_factor_def Let_def split_def attribution_ok_summary)
qed

interpretation gateway_circuit: stepwise circuit_step sources_ok
  by unfold_locales (rule sources_ok_step)

text \<open>
  The source attribution stays within its bounds: whatever kinds and source names the operations
  carry, there are never more than eight kinds and sixteen sources per kind, the overflow entries
  included.
\<close>

lemma attribution_is_bounded:
  fixes d p :: secs and es :: "circuit_event list"
  defines "a \<equiv> cb_by_source (foldl circuit_step (new_circuit d p) es)"
  shows "length (ba_windows a) \<le> 8" "m \<in> snd ` set (ba_windows a) \<Longrightarrow> length m \<le> 16"
proof -
  have "sources_ok (new_circuit d p)" by (simp add: new_circuit_def new_attribution_def attribution_ok_def keys_bounded_Nil)
  from gateway_circuit.run_inv [OF this] have ok: "attribution_ok 8 16 a" by (simp add: a_def)
  then have "int (length (ba_windows a)) \<le> 8" by (intro keys_bounded_length) (simp add: attribution_ok_def)
  then show "length (ba_windows a) \<le> 8" by simp
  assume "m \<in> snd ` set (ba_windows a)"
  with ok have "int (length m) \<le> 16" by (intro keys_bounded_length) (auto simp: attribution_ok_def)
  then show "length m \<le> 16" by simp
qed

section \<open>Witness\<close>

definition demo_timeout :: "secs \<Rightarrow> circuit_event" where
  "demo_timeout t = Failed \<lparr> de_text = ''did not receive a reply: timed out'', de_type = ''DBusException'', de_timeout = False,
     de_name = None \<rparr> ''read'' ''battery'' (Some 1000) t t"

theorem work_is_suppressed_exactly_in_storms_witness:
  "allows_priority (foldl circuit_step (new_circuit 60 180) [demo_timeout 1, demo_timeout 2, demo_timeout 3]) ''optional'' 10 \<and>
   \<not> allows_priority (foldl circuit_step (new_circuit 60 180) [demo_timeout 1, demo_timeout 2, demo_timeout 3]) ''discovery'' 10"
proof -
  let ?es = "[demo_timeout 1, demo_timeout 2, demo_timeout 3]"
  have run: "clocked ?es 10" by (simp add: clocked_def demo_timeout_def)
  have ranks: "priority_rank ''optional'' = 4" "priority_rank ''discovery'' = 5" by code_simp+
  have loud: "dbus_error_is_timeout \<lparr> de_text = ''did not receive a reply: timed out'', de_type = ''DBusException'', de_timeout = False,
     de_name = None \<rparr>" by code_simp
  have storm: "\<not> storm_before (\<lambda>n. 5 < n) 180 ?es 10" "storm_before (\<lambda>n. 3 \<le> n \<and> n \<le> 5) 60 ?es 10"
    by (simp_all add: storm_before_def storm_def minute_timeouts_def timeout_ticks_def demo_timeout_def loud Ex_less_Suc
        numeral_3_eq_3 del: One_nat_def)
  have "(0 :: secs) \<le> 10" by simp
  from work_is_suppressed_exactly_in_storms [OF run this, of 60 180 "''optional''"]
    work_is_suppressed_exactly_in_storms [OF run this, of 60 180 "''discovery''"] storm
  show ?thesis by (simp add: ranks max_def)
qed

end
