(* ===== verification/Dbus_Broker.thy ===== *)
theory Dbus_Broker
  imports Dbus_Rate
begin

text \<open>
  The broker that runs at most one external D-Bus method at a time
  (\<open>venus_evcharger/dbus_adapter/async_broker.py\<close>, \<open>async_request.py\<close>), over the rate limiter
  and the circuit breaker of the process.

  The starter of an operation, its continuations and the pending call are outside the broker.  A
  starter is what it does: the replies it delivers before it returns, and then a pending call or an
  exception.  Each completion says which continuations raise.  The state keeps the log of what the
  broker called, which the code does not store.  A continuation that submits the next operation is the
  next event of a run; what the broker does after calling one is only to count an exception.
\<close>

section \<open>Requests\<close>

record wire_request =
  wq_service :: string
  wq_path :: string
  wq_interface :: string
  wq_method :: string
  wq_signature :: string
  wq_timeout :: pyfloat

definition positive_timeout :: "pyfloat \<Rightarrow> bool" where
  "positive_timeout t = (case t of Fin x \<Rightarrow> 0 < x | _ \<Rightarrow> False)"

definition dbus_wire_request :: "wire_request \<Rightarrow> exc + wire_request" where
  "dbus_wire_request q =
    (if wq_service q = [] \<or> wq_path q = [] \<or> wq_interface q = [] \<or> wq_method q = [] then Inl ValueErr
     else if \<not> positive_timeout (wq_timeout q) then Inl ValueErr else Inr q)"

record dbus_op =
  dop_rate_kind :: string
  dop_metric_kind :: string
  dop_source :: string
  dop_priority :: string
  dop_timeout :: secs
  dop_optional :: bool
  dop_owner :: string
  dop_failure_handler :: bool

definition dbus_async_operation :: "dbus_op \<Rightarrow> pyfloat \<Rightarrow> exc + dbus_op" where
  "dbus_async_operation op timeout =
    (case timeout of Fin t \<Rightarrow> if 0 < t then Inr (op\<lparr>dop_timeout := t\<rparr>) else Inl ValueErr | _ \<Rightarrow> Inl ValueErr)"

text \<open>A low-level call with the operation it becomes; both continuations of the call report errors.\<close>

record method_call =
  mc_request :: wire_request
  mc_rate_kind :: string
  mc_metric_kind :: string
  mc_source :: string
  mc_priority :: string
  mc_optional :: bool
  mc_owner :: string

definition dbus_method_call :: "method_call \<Rightarrow> exc + method_call" where
  "dbus_method_call m = bind_result (dbus_wire_request (mc_request m)) (\<lambda>_. Inr m)"

definition dbus_call_operation :: "method_call \<Rightarrow> exc + dbus_op" where
  "dbus_call_operation m =
    dbus_async_operation \<lparr> dop_rate_kind = mc_rate_kind m, dop_metric_kind = mc_metric_kind m, dop_source = mc_source m,
      dop_priority = mc_priority m, dop_timeout = 0, dop_optional = mc_optional m, dop_owner = mc_owner m,
      dop_failure_handler = True \<rparr> (wq_timeout (mc_request m))"

datatype dbus_reply = NoReply | OneReply pyval | ManyReplies "pyval list"

definition reply_value :: "pyval list \<Rightarrow> dbus_reply" where
  "reply_value vs = (case vs of [] \<Rightarrow> NoReply | [v] \<Rightarrow> OneReply v | _ \<Rightarrow> ManyReplies vs)"

text \<open>What an error handler is given: an exception, or the text of something else.\<close>

definition as_exception :: "dbus_error + string \<Rightarrow> dbus_error" where
  "as_exception e = (case e of Inl err \<Rightarrow> err
     | Inr t \<Rightarrow> \<lparr> de_text = t, de_type = ''RuntimeError'', de_timeout = False, de_name = None \<rparr>)"

section \<open>State\<close>

record flight =
  fl_id :: int
  fl_op :: dbus_op
  fl_started :: secs
  fl_deadline :: secs
  fl_pending :: "nat option"

text \<open>
  The log: an operation is started (with the times of the rate check, of its mark and of the start), a
  continuation or the callback-failure handler is called, a pending call is cancelled, an operation is
  given up by \<open>cancel_current\<close>.
\<close>

datatype broker_call =
    Start int dbus_op secs secs secs
  | OnSuccess int dbus_reply secs
  | OnError int dbus_error secs
  | OnCallbackFailure int dbus_error
  | CancelPending nat
  | GivenUp int

record broker =
  bk_limiter :: rate_limiter
  bk_circuit :: circuit
  bk_next_id :: int
  bk_flight :: "flight option"
  bk_submitted :: int
  bk_completed :: int
  bk_failed :: int
  bk_timed_out :: int
  bk_cancelled :: int
  bk_busy :: int
  bk_late :: int
  bk_callback_errors :: int
  bk_last_completed :: secs
  bk_last_error :: string
  bk_log :: "broker_call list"

definition new_broker :: "rate_limiter \<Rightarrow> circuit \<Rightarrow> broker" where
  "new_broker l c =
    \<lparr> bk_limiter = l, bk_circuit = c, bk_next_id = 1, bk_flight = None, bk_submitted = 0, bk_completed = 0,
      bk_failed = 0, bk_timed_out = 0, bk_cancelled = 0, bk_busy = 0, bk_late = 0, bk_callback_errors = 0,
      bk_last_completed = 0, bk_last_error = '''', bk_log = [] \<rparr>"

definition log_call :: "broker_call \<Rightarrow> broker \<Rightarrow> broker" where
  "log_call x b = b\<lparr>bk_log := bk_log b @ [x]\<rparr>"

definition broker_busy :: "broker \<Rightarrow> bool" where
  "broker_busy b \<longleftrightarrow> bk_flight b \<noteq> None"

definition owns_path :: "broker \<Rightarrow> string \<Rightarrow> bool" where
  "owns_path b path = (case bk_flight b of None \<Rightarrow> False | Some f \<Rightarrow> path \<noteq> [] \<and> dop_owner (fl_op f) = path)"

section \<open>Completion\<close>

text \<open>
  One completion: the broker's clock, the two clocks the circuit breaker then reads, and which
  continuations raise (the success continuation with its exception).
\<close>

record completion =
  cp_now :: secs
  cp_tick :: secs
  cp_epoch :: secs
  cp_success :: "dbus_error option"
  cp_error :: bool
  cp_failure :: bool

definition cancel_pending_call :: "nat option \<Rightarrow> broker \<Rightarrow> broker" where
  "cancel_pending_call p b = (case p of None \<Rightarrow> b | Some n \<Rightarrow> log_call (CancelPending n) b)"

definition take_current :: "int \<Rightarrow> broker \<Rightarrow> flight option \<times> broker" where
  "take_current i b =
    (case bk_flight b of
       None \<Rightarrow> (None, b\<lparr>bk_late := bk_late b + 1\<rparr>)
     | Some f \<Rightarrow> if fl_id f \<noteq> i then (None, b\<lparr>bk_late := bk_late b + 1\<rparr>) else (Some f, b\<lparr>bk_flight := None\<rparr>))"

definition is_current :: "int \<Rightarrow> broker \<Rightarrow> bool" where
  "is_current i b = (case bk_flight b of None \<Rightarrow> False | Some f \<Rightarrow> fl_id f = i)"

definition invoke_error :: "flight \<Rightarrow> dbus_error \<Rightarrow> completion \<Rightarrow> broker \<Rightarrow> broker" where
  "invoke_error f err cp b =
    (let b1 = log_call (OnError (fl_id f) err (cp_now cp)) b
     in if cp_error cp then b1\<lparr>bk_callback_errors := bk_callback_errors b1 + 1\<rparr> else b1)"

definition invoke_callback_failure :: "flight \<Rightarrow> dbus_error \<Rightarrow> completion \<Rightarrow> broker \<Rightarrow> broker" where
  "invoke_callback_failure f err cp b =
    (if \<not> dop_failure_handler (fl_op f) then b
     else let b1 = log_call (OnCallbackFailure (fl_id f) err) b
          in if cp_failure cp then b1\<lparr>bk_callback_errors := bk_callback_errors b1 + 1\<rparr> else b1)"

definition invoke_success :: "flight \<Rightarrow> dbus_reply \<Rightarrow> completion \<Rightarrow> broker \<Rightarrow> broker" where
  "invoke_success f v cp b =
    (let b1 = log_call (OnSuccess (fl_id f) v (cp_now cp)) b
     in case cp_success cp of None \<Rightarrow> b1
        | Some err \<Rightarrow> invoke_callback_failure f err cp (b1\<lparr>bk_callback_errors := bk_callback_errors b1 + 1\<rparr>))"

definition flight_latency :: "flight \<Rightarrow> secs \<Rightarrow> millis" where
  "flight_latency f now = max 0 (now - fl_started f) * 1000"

definition broker_record_error :: "flight \<Rightarrow> dbus_error \<Rightarrow> completion \<Rightarrow> broker \<Rightarrow> broker" where
  "broker_record_error f err cp b =
    (let latency_ms = flight_latency f (cp_now cp); op = fl_op f;
         c = (if dop_optional op
              then record_optional_source_failure (bk_circuit b) err (dop_source op) latency_ms (cp_tick cp)
              else record_error (bk_circuit b) err (dop_metric_kind op) (dop_source op) (Some latency_ms)
                     (cp_tick cp) (cp_epoch cp))
     in invoke_error f err cp (b\<lparr>bk_circuit := c, bk_failed := bk_failed b + 1,
          bk_last_completed := cp_now cp, bk_last_error := de_text err\<rparr>))"

text \<open>A number with three decimals, as \<open>:.3f\<close> prints it.\<close>

definition fixed3 :: "rat \<Rightarrow> string" where
  "fixed3 x = (let n = round_half_even (\<bar>x\<bar> * 1000); d = nat (n mod 1000) in
     (if x < 0 then ''-'' else []) @ int_text (n div 1000) @ ''.'' @
     [digit_char (d div 100), digit_char (d div 10 mod 10), digit_char (d mod 10)])"

definition broker_timeout_error :: "flight \<Rightarrow> dbus_error" where
  "broker_timeout_error f =
    \<lparr> de_text = ''DBus '' @ dop_metric_kind (fl_op f) @ '' operation timed out after '' @ fixed3 (dop_timeout (fl_op f)) @ ''s'',
      de_type = ''DbusAsyncTimeoutError'', de_timeout = True, de_name = None \<rparr>"

definition broker_record_timeout :: "flight \<Rightarrow> completion \<Rightarrow> broker \<Rightarrow> broker" where
  "broker_record_timeout f cp b =
    broker_record_error f (broker_timeout_error f) cp
      (cancel_pending_call (fl_pending f) (b\<lparr>bk_timed_out := bk_timed_out b + 1\<rparr>))"

definition finish_success :: "int \<Rightarrow> dbus_reply \<Rightarrow> completion \<Rightarrow> broker \<Rightarrow> broker" where
  "finish_success i v cp b =
    (case take_current i b of
       (None, b1) \<Rightarrow> b1
     | (Some f, b1) \<Rightarrow>
        if fl_deadline f \<le> cp_now cp then broker_record_timeout f cp b1
        else invoke_success f v cp (b1\<lparr>bk_circuit := record_success (bk_circuit b1) (flight_latency f (cp_now cp))
               (dop_metric_kind (fl_op f)) (dop_source (fl_op f)) (cp_tick cp) (cp_epoch cp),
             bk_completed := bk_completed b1 + 1, bk_last_completed := cp_now cp, bk_last_error := ''''\<rparr>))"

definition finish_error :: "int \<Rightarrow> dbus_error \<Rightarrow> completion \<Rightarrow> broker \<Rightarrow> broker" where
  "finish_error i err cp b =
    (case take_current i b of
       (None, b1) \<Rightarrow> b1
     | (Some f, b1) \<Rightarrow> if fl_deadline f \<le> cp_now cp then broker_record_timeout f cp b1 else broker_record_error f err cp b1)"

section \<open>Submission, expiry and cancellation\<close>

datatype answer = Reply "pyval list" | ErrorReply "dbus_error + string"

definition deliver :: "int \<Rightarrow> answer \<times> completion \<Rightarrow> broker \<Rightarrow> broker" where
  "deliver i x b = (case fst x of
     Reply vs \<Rightarrow> finish_success i (reply_value vs) (snd x) b
   | ErrorReply e \<Rightarrow> finish_error i (as_exception e) (snd x) b)"

datatype started = PendingCall "nat option" | StartRaises dbus_error completion

type_synonym starter = "(answer \<times> completion) list \<times> started"

definition end_start :: "int \<Rightarrow> started \<Rightarrow> broker \<Rightarrow> broker" where
  "end_start i r b = (case r of
     PendingCall p \<Rightarrow> if is_current i b
       then b\<lparr>bk_flight := map_option (\<lambda>f. f\<lparr>fl_pending := p\<rparr>) (bk_flight b)\<rparr> else b
   | StartRaises err cp \<Rightarrow> finish_error i err cp b)"

text \<open>\<open>submit\<close>: the times are those of the rate check, of the mark and of the start.\<close>

definition broker_submit :: "dbus_op \<Rightarrow> starter \<Rightarrow> secs \<times> secs \<times> secs \<Rightarrow> broker \<Rightarrow> (int, broker) outcome" where
  "broker_submit op script clocks b =
    (if broker_busy b then (Inl RuntimeErr, b\<lparr>bk_busy := bk_busy b + 1\<rparr>)
     else case clocks of (checked, marked, started_at) \<Rightarrow>
       case limiter_require_due (bk_limiter b) (dop_rate_kind op) checked marked of
         (Inl e, l) \<Rightarrow> (Inl e, b\<lparr>bk_limiter := l\<rparr>)
       | (Inr _, l) \<Rightarrow>
           let i = bk_next_id b;
               b1 = log_call (Start i op checked marked started_at)
                 (b\<lparr>bk_limiter := l, bk_next_id := i + 1, bk_submitted := bk_submitted b + 1,
                    bk_flight := Some \<lparr> fl_id = i, fl_op = op, fl_started = started_at,
                      fl_deadline = started_at + dop_timeout op, fl_pending = None \<rparr>\<rparr>)
           in (Inr i, end_start i (snd script) (foldl (\<lambda>b x. deliver i x b) b1 (fst script))))"

definition expire_due :: "completion \<Rightarrow> broker \<Rightarrow> bool \<times> broker" where
  "expire_due cp b =
    (case bk_flight b of
       None \<Rightarrow> (False, b)
     | Some f \<Rightarrow> if cp_now cp < fl_deadline f then (False, b)
                else (True, broker_record_timeout f cp (b\<lparr>bk_flight := None\<rparr>)))"

definition cancel_current :: "string \<Rightarrow> secs \<Rightarrow> broker \<Rightarrow> bool \<times> broker" where
  "cancel_current reason now b =
    (case bk_flight b of
       None \<Rightarrow> (False, b)
     | Some f \<Rightarrow> let b1 = log_call (GivenUp (fl_id f)) (cancel_pending_call (fl_pending f) (b\<lparr>bk_flight := None\<rparr>))
                in (True, b1\<lparr>bk_cancelled := bk_cancelled b1 + 1, bk_last_completed := now, bk_last_error := reason\<rparr>))"

record operation_health =
  oh_state :: string
  oh_in_flight :: bool
  oh_id :: int
  oh_kind :: string
  oh_source :: string
  oh_priority :: string
  oh_owner :: string
  oh_age :: millis
  oh_deadline_in :: millis

definition operation_report :: "broker \<Rightarrow> secs \<Rightarrow> operation_health" where
  "operation_report b now =
    (case bk_flight b of
       None \<Rightarrow> \<lparr> oh_state = ''idle'', oh_in_flight = False, oh_id = 0, oh_kind = '''', oh_source = '''',
                oh_priority = '''', oh_owner = '''', oh_age = 0, oh_deadline_in = 0 \<rparr>
     | Some f \<Rightarrow> \<lparr> oh_state = ''busy'', oh_in_flight = True, oh_id = fl_id f, oh_kind = dop_metric_kind (fl_op f),
                oh_source = dop_source (fl_op f), oh_priority = dop_priority (fl_op f), oh_owner = dop_owner (fl_op f),
                oh_age = max 0 (now - fl_started f) * 1000, oh_deadline_in = max 0 (fl_deadline f - now) * 1000 \<rparr>)"

section \<open>Runs\<close>

datatype broker_event =
    Submitted dbus_op starter "secs \<times> secs \<times> secs"
  | Answered int "answer \<times> completion"
  | ExpireDue completion
  | CancelCurrent string secs

fun broker_step :: "broker \<Rightarrow> broker_event \<Rightarrow> broker" where
  "broker_step b (Submitted op script clocks) = snd (broker_submit op script clocks b)"
| "broker_step b (Answered i x) = deliver i x b"
| "broker_step b (ExpireDue cp) = snd (expire_due cp b)"
| "broker_step b (CancelCurrent reason now) = snd (cancel_current reason now b)"

end
