(* ===== verification/Dbus_Broker_Claims.thy ===== *)
theory Dbus_Broker_Claims
  imports Dbus_Broker
begin

text \<open>
  What the broker promises along any run of submissions, replies, expiries and cancellations: it
  refines a slot that holds at most one operation, its counters balance, no success arrives after a
  deadline, and operations of one kind are spaced by the rate limiter.
\<close>

section \<open>The slot\<close>

text \<open>
  The abstract broker: an empty slot takes a started operation, a full one is emptied by the one answer
  or the cancellation of that very operation, and nothing else is allowed.
\<close>

fun slot_step :: "int option \<Rightarrow> broker_call \<Rightarrow> int option option" where
  "slot_step None (Start i _ _ _ _) = Some (Some i)"
| "slot_step (Some j) (OnSuccess i _ _) = (if i = j then Some None else None)"
| "slot_step (Some j) (OnError i _ _) = (if i = j then Some None else None)"
| "slot_step (Some j) (GivenUp i) = (if i = j then Some None else None)"
| "slot_step s (OnCallbackFailure _ _) = Some s"
| "slot_step s (CancelPending _) = Some s"
| "slot_step _ _ = None"

fun slot_run :: "int option \<Rightarrow> broker_call list \<Rightarrow> int option option" where
  "slot_run s [] = Some s"
| "slot_run s (x # xs) = (case slot_step s x of None \<Rightarrow> None | Some s' \<Rightarrow> slot_run s' xs)"

lemma slot_run_append [simp]:
  "slot_run s (xs @ ys) = (case slot_run s xs of None \<Rightarrow> None | Some s' \<Rightarrow> slot_run s' ys)"
  by (induction xs arbitrary: s) (auto split: option.split)

fun is_success :: "broker_call \<Rightarrow> bool" where
  "is_success (OnSuccess _ _ _) = True" | "is_success _ = False"

fun is_failure :: "broker_call \<Rightarrow> bool" where
  "is_failure (OnError _ _ _) = True" | "is_failure _ = False"

fun is_given_up :: "broker_call \<Rightarrow> bool" where
  "is_given_up (GivenUp _) = True" | "is_given_up _ = False"

definition tally :: "(broker_call \<Rightarrow> bool) \<Rightarrow> broker_call list \<Rightarrow> int" where
  "tally P xs = int (length (filter P xs))"

lemma tally_simps [simp]:
  "tally P [] = 0" "tally P (x # xs) = (if P x then 1 else 0) + tally P xs" "tally P (xs @ ys) = tally P xs + tally P ys"
  by (simp_all add: tally_def)

fun start_ids :: "broker_call list \<Rightarrow> int list" where
  "start_ids [] = []"
| "start_ids (Start i _ _ _ _ # xs) = i # start_ids xs"
| "start_ids (_ # xs) = start_ids xs"

lemma start_ids_append [simp]: "start_ids (xs @ ys) = start_ids xs @ start_ids ys"
  by (induction xs rule: start_ids.induct) auto

section \<open>The invariant\<close>

definition answered_in_time :: "broker_call list \<Rightarrow> bool" where
  "answered_in_time xs \<longleftrightarrow> (\<forall>i v t. OnSuccess i v t \<in> set xs \<longrightarrow>
    (\<exists>op checked marked s. Start i op checked marked s \<in> set xs \<and> t < s + dop_timeout op))"

definition flight_ok :: "broker \<Rightarrow> bool" where
  "flight_ok b = (case bk_flight b of None \<Rightarrow> True
     | Some f \<Rightarrow> fl_deadline f = fl_started f + dop_timeout (fl_op f) \<and>
         (\<exists>checked marked. Start (fl_id f) (fl_op f) checked marked (fl_started f) \<in> set (bk_log b)))"

definition balanced :: "broker \<Rightarrow> bool" where
  "balanced b \<longleftrightarrow>
    bk_submitted b = bk_completed b + bk_failed b + bk_cancelled b + (if broker_busy b then 1 else 0) \<and>
    bk_completed b = tally is_success (bk_log b) \<and> bk_failed b = tally is_failure (bk_log b) \<and>
    bk_cancelled b = tally is_given_up (bk_log b) \<and> 0 \<le> bk_timed_out b \<and> bk_timed_out b \<le> bk_failed b"

definition broker_ok :: "broker \<Rightarrow> bool" where
  "broker_ok b \<longleftrightarrow>
    slot_run None (bk_log b) = Some (map_option fl_id (bk_flight b)) \<and>
    start_ids (bk_log b) = [1..bk_submitted b] \<and> bk_next_id b = bk_submitted b + 1 \<and> 0 \<le> bk_submitted b \<and>
    balanced b \<and> flight_ok b \<and> answered_in_time (bk_log b)"

lemma broker_ok_new: "broker_ok (new_broker l c)"
  by (simp add: broker_ok_def new_broker_def balanced_def broker_busy_def flight_ok_def answered_in_time_def)

text \<open>How an operation leaves the slot: the calls made, and the one counter that moves.\<close>

definition closes :: "flight \<Rightarrow> broker \<Rightarrow> broker \<Rightarrow> bool" where
  "closes f b b' \<longleftrightarrow>
    bk_flight b' = None \<and> bk_limiter b' = bk_limiter b \<and> bk_next_id b' = bk_next_id b \<and> bk_submitted b' = bk_submitted b \<and>
    bk_timed_out b \<le> bk_timed_out b' \<and> bk_timed_out b' - bk_timed_out b \<le> bk_failed b' - bk_failed b \<and>
    (\<exists>xs x ys. bk_log b' = bk_log b @ xs @ [x] @ ys \<and> (\<forall>z \<in> set xs. \<exists>n. z = CancelPending n) \<and>
      (\<forall>z \<in> set ys. \<exists>i err. z = OnCallbackFailure i err) \<and>
      ((\<exists>v t. x = OnSuccess (fl_id f) v t \<and> t < fl_deadline f) \<or> (\<exists>err t. x = OnError (fl_id f) err t) \<or> x = GivenUp (fl_id f)) \<and>
      bk_completed b' = bk_completed b + (if is_success x then 1 else 0) \<and>
      bk_failed b' = bk_failed b + (if is_failure x then 1 else 0) \<and>
      bk_cancelled b' = bk_cancelled b + (if is_given_up x then 1 else 0))"

lemma quiet_calls:
  assumes "\<forall>z \<in> set xs. (\<exists>n. z = CancelPending n) \<or> (\<exists>i err. z = OnCallbackFailure i err)"
  shows "slot_run s xs = Some s" "start_ids xs = []" "tally is_success xs = 0" "tally is_failure xs = 0"
    "tally is_given_up xs = 0" "OnSuccess i v t \<notin> set xs"
  using assms by (induction xs arbitrary: s) auto

lemma closes_ok:
  assumes ok: "broker_ok b" and flight: "bk_flight b = Some f" and closes: "closes f b b'"
  shows "broker_ok b'"
proof -
  from closes obtain xs x ys where log: "bk_log b' = bk_log b @ xs @ [x] @ ys"
    and quiet: "\<forall>z \<in> set xs. \<exists>n. z = CancelPending n" "\<forall>z \<in> set ys. \<exists>i err. z = OnCallbackFailure i err"
    and x: "(\<exists>v t. x = OnSuccess (fl_id f) v t \<and> t < fl_deadline f) \<or> (\<exists>err t. x = OnError (fl_id f) err t) \<or> x = GivenUp (fl_id f)"
    and counts: "bk_completed b' = bk_completed b + (if is_success x then 1 else 0)"
      "bk_failed b' = bk_failed b + (if is_failure x then 1 else 0)"
      "bk_cancelled b' = bk_cancelled b + (if is_given_up x then 1 else 0)"
      "bk_timed_out b \<le> bk_timed_out b'" "bk_timed_out b' - bk_timed_out b \<le> bk_failed b' - bk_failed b"
    and same: "bk_flight b' = None" "bk_next_id b' = bk_next_id b" "bk_submitted b' = bk_submitted b"
    unfolding closes_def by blast
  have q: "\<forall>z \<in> set xs. (\<exists>n. z = CancelPending n) \<or> (\<exists>i err. z = OnCallbackFailure i err)"
    "\<forall>z \<in> set ys. (\<exists>n. z = CancelPending n) \<or> (\<exists>i err. z = OnCallbackFailure i err)" using quiet by blast+
  note q1 = quiet_calls [OF q(1)] and q2 = quiet_calls [OF q(2)]
  have kinds: "(if is_success x then 1 else 0) + (if is_failure x then 1 else 0) + (if is_given_up x then 1 else 0) = (1 :: int)"
    using x by auto
  have slot: "slot_run None (bk_log b') = Some None"
    using ok flight x by (auto simp: broker_ok_def log q1 q2)
  have ids: "start_ids (bk_log b') = start_ids (bk_log b)" using x by (auto simp: log q1 q2)
  have bal: "balanced b'"
    using ok flight kinds counts same by (auto simp: broker_ok_def balanced_def broker_busy_def log q1 q2)
  have timely: "answered_in_time (bk_log b')"
  proof -
    from ok flight obtain checked marked where "Start (fl_id f) (fl_op f) checked marked (fl_started f) \<in> set (bk_log b)"
      "fl_deadline f = fl_started f + dop_timeout (fl_op f)" "answered_in_time (bk_log b)"
      by (auto simp: broker_ok_def flight_ok_def)
    with x q1(6) q2(6) show ?thesis unfolding answered_in_time_def log by fastforce
  qed
  from ok show ?thesis by (simp add: broker_ok_def slot ids bal timely same flight_ok_def)
qed

section \<open>Every completion closes the slot\<close>

lemma log_call_fields [simp]:
  "bk_log (log_call x b) = bk_log b @ [x]" "bk_flight (log_call x b) = bk_flight b" "bk_limiter (log_call x b) = bk_limiter b"
  "bk_next_id (log_call x b) = bk_next_id b" "bk_submitted (log_call x b) = bk_submitted b"
  "bk_completed (log_call x b) = bk_completed b" "bk_failed (log_call x b) = bk_failed b"
  "bk_cancelled (log_call x b) = bk_cancelled b" "bk_timed_out (log_call x b) = bk_timed_out b"
  by (simp_all add: log_call_def)

lemma closesI:
  assumes "bk_flight b' = None" "bk_limiter b' = bk_limiter b" "bk_next_id b' = bk_next_id b" "bk_submitted b' = bk_submitted b"
    and "bk_timed_out b \<le> bk_timed_out b'" "bk_timed_out b' - bk_timed_out b \<le> bk_failed b' - bk_failed b"
    and "bk_log b' = bk_log b @ xs @ [x] @ ys" "\<forall>z \<in> set xs. \<exists>n. z = CancelPending n"
      "\<forall>z \<in> set ys. \<exists>i err. z = OnCallbackFailure i err"
      "(\<exists>v t. x = OnSuccess (fl_id f) v t \<and> t < fl_deadline f) \<or> (\<exists>err t. x = OnError (fl_id f) err t) \<or> x = GivenUp (fl_id f)"
      "bk_completed b' = bk_completed b + (if is_success x then 1 else 0)"
      "bk_failed b' = bk_failed b + (if is_failure x then 1 else 0)"
      "bk_cancelled b' = bk_cancelled b + (if is_given_up x then 1 else 0)"
  shows "closes f b b'"
proof -
  have "\<exists>xs x ys. bk_log b' = bk_log b @ xs @ [x] @ ys \<and> (\<forall>z \<in> set xs. \<exists>n. z = CancelPending n) \<and>
      (\<forall>z \<in> set ys. \<exists>i err. z = OnCallbackFailure i err) \<and>
      ((\<exists>v t. x = OnSuccess (fl_id f) v t \<and> t < fl_deadline f) \<or> (\<exists>err t. x = OnError (fl_id f) err t) \<or> x = GivenUp (fl_id f)) \<and>
      bk_completed b' = bk_completed b + (if is_success x then 1 else 0) \<and>
      bk_failed b' = bk_failed b + (if is_failure x then 1 else 0) \<and>
      bk_cancelled b' = bk_cancelled b + (if is_given_up x then 1 else 0)"
    by (rule exI [of _ xs], rule exI [of _ x], rule exI [of _ ys]) (intro conjI assms(7-13))
  then show ?thesis unfolding closes_def by (intro conjI assms(1-6))
qed

lemma error_closes:
  assumes "bk_flight b' = None" "bk_limiter b' = bk_limiter b" "bk_next_id b' = bk_next_id b" "bk_submitted b' = bk_submitted b"
    and "bk_completed b' = bk_completed b" "bk_failed b' = bk_failed b" "bk_cancelled b' = bk_cancelled b"
    and "bk_timed_out b \<le> bk_timed_out b'" "bk_timed_out b' \<le> bk_timed_out b + 1"
    and "bk_log b' = bk_log b @ xs" "\<forall>z \<in> set xs. \<exists>n. z = CancelPending n"
  shows "closes f b (broker_record_error f err cp b')"
  by (rule closesI [where xs = xs and x = "OnError (fl_id f) err (cp_now cp)" and ys = "[]"])
     (use assms in \<open>simp_all add: broker_record_error_def invoke_error_def Let_def\<close>)

lemma timeout_closes: "closes f b (broker_record_timeout f cp (b\<lparr>bk_flight := None\<rparr>))"
  unfolding broker_record_timeout_def
  by (rule error_closes [where xs = "case fl_pending f of None \<Rightarrow> [] | Some n \<Rightarrow> [CancelPending n]"])
     (auto simp: cancel_pending_call_def split: option.split)

lemma success_closes:
  assumes "cp_now cp < fl_deadline f"
    and "bk_flight b' = None" "bk_limiter b' = bk_limiter b" "bk_next_id b' = bk_next_id b" "bk_submitted b' = bk_submitted b"
    and "bk_completed b' = bk_completed b + 1" "bk_failed b' = bk_failed b" "bk_cancelled b' = bk_cancelled b"
    and "bk_timed_out b' = bk_timed_out b" "bk_log b' = bk_log b"
  shows "closes f b (invoke_success f v cp b')"
proof -
  define ys where "ys = (case cp_success cp of Some err \<Rightarrow> if dop_failure_handler (fl_op f) then [OnCallbackFailure (fl_id f) err] else []
      | None \<Rightarrow> [])"
  have "bk_log (invoke_success f v cp b') = bk_log b @ [] @ [OnSuccess (fl_id f) v (cp_now cp)] @ ys"
    using assms(10) by (simp add: invoke_success_def invoke_callback_failure_def ys_def Let_def split: option.split)
  moreover have "\<forall>z \<in> set ys. \<exists>i err. z = OnCallbackFailure i err" by (auto simp: ys_def split: option.splits)
  moreover have "bk_flight (invoke_success f v cp b') = None" "bk_limiter (invoke_success f v cp b') = bk_limiter b"
    "bk_next_id (invoke_success f v cp b') = bk_next_id b" "bk_submitted (invoke_success f v cp b') = bk_submitted b"
    "bk_completed (invoke_success f v cp b') = bk_completed b + 1" "bk_failed (invoke_success f v cp b') = bk_failed b"
    "bk_cancelled (invoke_success f v cp b') = bk_cancelled b" "bk_timed_out (invoke_success f v cp b') = bk_timed_out b"
    using assms by (simp_all add: invoke_success_def invoke_callback_failure_def Let_def split: option.split)
  ultimately show ?thesis unfolding closes_def using assms(1) by (intro conjI exI) auto
qed

text \<open>A reply or error of the operation in flight closes it; any other one is only counted as late.\<close>

definition settles :: "broker \<Rightarrow> broker \<Rightarrow> bool" where
  "settles b b' \<longleftrightarrow> (\<exists>f. bk_flight b = Some f \<and> closes f b b') \<or> b' = b\<lparr>bk_late := bk_late b'\<rparr>"

lemma finish_success_settles: "settles b (finish_success i v cp b)"
proof (cases "bk_flight b")
  case (Some f)
  show ?thesis
  proof (cases "fl_id f = i")
    case True
    have "closes f b (finish_success i v cp b)"
      using Some True timeout_closes [of f b cp]
      by (auto simp: finish_success_def take_current_def intro!: success_closes)
    with Some show ?thesis by (auto simp: settles_def)
  qed (simp add: settles_def Some finish_success_def take_current_def)
qed (simp add: settles_def finish_success_def take_current_def)

lemma finish_error_settles: "settles b (finish_error i err cp b)"
proof (cases "bk_flight b")
  case (Some f)
  show ?thesis
  proof (cases "fl_id f = i")
    case True
    have "closes f b (finish_error i err cp b)"
      using Some True timeout_closes [of f b cp]
      by (auto simp: finish_error_def take_current_def intro!: error_closes [where xs = "[]"])
    with Some show ?thesis by (auto simp: settles_def)
  qed (simp add: settles_def Some finish_error_def take_current_def)
qed (simp add: settles_def finish_error_def take_current_def)

lemma deliver_settles: "settles b (deliver i x b)"
  by (simp add: deliver_def finish_success_settles finish_error_settles split: answer.split)

lemma broker_ok_late: "broker_ok (b\<lparr>bk_late := n\<rparr>) = broker_ok b"
  by (simp add: broker_ok_def balanced_def broker_busy_def flight_ok_def split: option.split)

lemma settles_ok: "broker_ok b \<Longrightarrow> settles b b' \<Longrightarrow> broker_ok b'"
  unfolding settles_def using closes_ok broker_ok_late by metis

lemma expire_ok: "broker_ok b \<Longrightarrow> broker_ok (snd (expire_due cp b))"
  using closes_ok timeout_closes by (auto simp: expire_due_def split: option.split)

lemma cancel_closes:
  assumes "bk_flight b = Some f"
  shows "closes f b (snd (cancel_current reason now b))"
  by (rule closesI [where xs = "case fl_pending f of None \<Rightarrow> [] | Some n \<Rightarrow> [CancelPending n]" and x = "GivenUp (fl_id f)" and ys = "[]"])
     (use assms in \<open>auto simp: cancel_current_def cancel_pending_call_def Let_def split: option.split\<close>)

lemma cancel_ok: "broker_ok b \<Longrightarrow> broker_ok (snd (cancel_current reason now b))"
  using closes_ok cancel_closes by (cases "bk_flight b") (auto simp: cancel_current_def)

section \<open>Submission\<close>

definition begun :: "dbus_op \<Rightarrow> secs \<times> secs \<times> secs \<Rightarrow> rate_limiter \<Rightarrow> broker \<Rightarrow> broker" where
  "begun op clocks l b = log_call (Start (bk_next_id b) op (fst clocks) (fst (snd clocks)) (snd (snd clocks)))
    (b\<lparr>bk_limiter := l, bk_next_id := bk_next_id b + 1, bk_submitted := bk_submitted b + 1,
       bk_flight := Some \<lparr> fl_id = bk_next_id b, fl_op = op, fl_started = snd (snd clocks),
         fl_deadline = snd (snd clocks) + dop_timeout op, fl_pending = None \<rparr>\<rparr>)"

lemma begun_ok:
  assumes "broker_ok b" "bk_flight b = None"
  shows "broker_ok (begun op clocks l b)"
proof -
  from assms have "[1..bk_submitted b + 1] = [1..bk_submitted b] @ [bk_submitted b + 1]"
    using upto_rec2 [of 1 "bk_submitted b + 1"] by (simp add: broker_ok_def)
  moreover have "answered_in_time (bk_log b @ [Start (bk_next_id b) op (fst clocks) (fst (snd clocks)) (snd (snd clocks))])"
    using assms(1) unfolding broker_ok_def answered_in_time_def by (auto, blast)
  moreover have "balanced (begun op clocks l b)"
    using assms by (simp add: broker_ok_def balanced_def broker_busy_def begun_def)
  ultimately show ?thesis using assms by (auto simp: broker_ok_def begun_def flight_ok_def)
qed

lemma end_start_ok: "broker_ok b \<Longrightarrow> broker_ok (end_start i r b)"
proof -
  assume ok: "broker_ok b"
  have "broker_ok (b\<lparr>bk_flight := map_option (\<lambda>f. f\<lparr>fl_pending := p\<rparr>) (bk_flight b)\<rparr>)" for p
    using ok by (cases "bk_flight b") (simp_all add: broker_ok_def balanced_def broker_busy_def flight_ok_def)
  with ok settles_ok [OF ok finish_error_settles] show ?thesis by (simp add: end_start_def split: started.split)
qed

lemma deliveries_ok: "broker_ok b \<Longrightarrow> broker_ok (foldl (\<lambda>b x. deliver i x b) b xs)"
  by (induction xs arbitrary: b) (auto intro: settles_ok [OF _ deliver_settles])

text \<open>A submission is refused without a trace in the log, or begins an operation.\<close>

lemma submit_cases:
  obtains (refused) l n e where "broker_submit op script clocks b = (Inl e, b\<lparr>bk_limiter := l, bk_busy := n\<rparr>)"
      "l = bk_limiter b \<or> limiter_require_due (bk_limiter b) (dop_rate_kind op) (fst clocks) (fst (snd clocks)) = (Inl e, l)"
  | (begins) l where "bk_flight b = None"
      "limiter_require_due (bk_limiter b) (dop_rate_kind op) (fst clocks) (fst (snd clocks)) = (Inr (), l)"
      "broker_submit op script clocks b = (Inr (bk_next_id b),
         end_start (bk_next_id b) (snd script) (foldl (\<lambda>b' x. deliver (bk_next_id b) x b') (begun op clocks l b) (fst script)))"
proof (cases "broker_busy b")
  case True
  then show ?thesis
    by (intro refused [where e = RuntimeErr and l = "bk_limiter b" and n = "bk_busy b + 1"]) (simp_all add: broker_submit_def)
next
  case False
  then have idle: "bk_flight b = None" by (simp add: broker_busy_def)
  obtain checked marked started_at where clocks: "clocks = (checked, marked, started_at)" by (cases clocks)
  show ?thesis
  proof (cases "limiter_require_due (bk_limiter b) (dop_rate_kind op) checked marked")
    case (Pair r l)
    show ?thesis
    proof (cases r)
      case (Inl e)
      with Pair False show ?thesis
        by (intro refused [where e = e and l = l and n = "bk_busy b"]) (simp_all add: broker_submit_def clocks)
    next
      case (Inr u)
      with Pair False idle show ?thesis by (intro begins [of l]) (simp_all add: broker_submit_def clocks begun_def Let_def)
    qed
  qed
qed

lemma broker_step_ok: "broker_ok b \<Longrightarrow> broker_ok (broker_step b e)"
proof (cases e)
  case (Submitted op script clocks)
  assume ok: "broker_ok b"
  show ?thesis
  proof (cases rule: submit_cases [where op = op and script = script and clocks = clocks and b = b])
    case (refused l n e)
    with ok show ?thesis
      by (cases "bk_flight b") (simp_all add: Submitted broker_ok_def balanced_def broker_busy_def flight_ok_def)
  next
    case (begins l)
    with end_start_ok [OF deliveries_ok [OF begun_ok [OF ok begins(1)]]] show ?thesis by (simp add: Submitted)
  qed
qed (simp_all add: settles_ok [OF _ deliver_settles] expire_ok cancel_ok)

interpretation slot_broker: stepwise broker_step broker_ok
  by unfold_locales (rule broker_step_ok)

section \<open>Spacing\<close>

definition interval_of :: "rate_limiter \<Rightarrow> string \<Rightarrow> secs" where
  "interval_of l kind = (case map_of (rl_intervals l) kind of None \<Rightarrow> 0 | Some d \<Rightarrow> d)"

text \<open>Every start is checked at least the interval after the mark of an earlier start of its kind.\<close>

definition waits_for :: "rate_limiter \<Rightarrow> dbus_op \<Rightarrow> secs \<Rightarrow> broker_call \<Rightarrow> bool" where
  "waits_for l op marked x = (case x of
     Start _ op' checked' _ _ \<Rightarrow> dop_rate_kind op' = dop_rate_kind op \<longrightarrow> marked + interval_of l (dop_rate_kind op) \<le> checked'
   | _ \<Rightarrow> True)"

fun starts_spaced :: "rate_limiter \<Rightarrow> broker_call list \<Rightarrow> bool" where
  "starts_spaced l [] = True"
| "starts_spaced l (Start i op checked marked s # xs) \<longleftrightarrow> list_all (waits_for l op marked) xs \<and> starts_spaced l xs"
| "starts_spaced l (x # xs) = starts_spaced l xs"

lemma starts_spaced_quiet: "start_ids ys = [] \<Longrightarrow> starts_spaced l (xs @ ys) = starts_spaced l xs"
proof (induction xs)
  case Nil
  then show ?case by (induction ys rule: start_ids.induct) auto
next
  case (Cons x xs)
  have "list_all (waits_for l op mk) ys" for op mk
    using Cons.prems by (induction ys rule: start_ids.induct) (auto simp: waits_for_def)
  with Cons show ?case by (cases x) auto
qed

lemma starts_spaced_start:
  "starts_spaced l xs \<Longrightarrow>
   (\<And>j op' checked' marked' s'. Start j op' checked' marked' s' \<in> set xs \<Longrightarrow> dop_rate_kind op' = dop_rate_kind op \<Longrightarrow>
      marked' + interval_of l (dop_rate_kind op) \<le> checked) \<Longrightarrow>
   starts_spaced l (xs @ [Start i op checked marked s])"
proof (induction xs)
  case (Cons x xs)
  from Cons.prems(1) have tail: "starts_spaced l xs" by (cases x) auto
  have IH: "starts_spaced l (xs @ [Start i op checked marked s])"
    by (rule Cons.IH [OF tail], rule Cons.prems(2) [OF list.set_intros(2)])
  show ?case
  proof (cases x)
    case (Start j op' ck mk s')
    have "waits_for l op' mk (Start i op checked marked s)"
      using Cons.prems(2) [of j op' ck mk s'] by (auto simp: waits_for_def Start)
    with Start Cons.prems(1) IH show ?thesis by simp
  qed (use IH in simp_all)
qed simp

text \<open>The limiter's next times are not before the end of the interval of any start.\<close>

definition limiter_ok :: "rate_limiter \<Rightarrow> broker \<Rightarrow> bool" where
  "limiter_ok l b \<longleftrightarrow> rl_intervals (bk_limiter b) = rl_intervals l \<and> starts_spaced l (bk_log b) \<and>
    (\<forall>j op checked marked s. Start j op checked marked s \<in> set (bk_log b) \<longrightarrow>
      (\<exists>t. map_of (rl_next_at (bk_limiter b)) (dop_rate_kind op) = Some t \<and>
        marked + interval_of l (dop_rate_kind op) \<le> t))"

fun in_order :: "broker_event \<Rightarrow> bool" where
  "in_order (Submitted op script (checked, marked, s)) \<longleftrightarrow> checked \<le> marked \<and> marked \<le> s"
| "in_order _ \<longleftrightarrow> True"

lemma require_due_granted:
  "limiter_require_due l kind checked marked = (Inr (), l') \<longleftrightarrow>
    (\<exists>t d. map_of (rl_next_at l) kind = Some t \<and> t \<le> checked \<and> map_of (rl_intervals l) kind = Some d \<and>
      l' = l\<lparr>rl_next_at := AList.update kind (marked + d) (rl_next_at l)\<rparr>)"
  by (auto simp: limiter_require_due_def limiter_due_def limiter_mark_def split: option.splits)

lemma require_due_refused: "limiter_require_due l kind checked marked = (Inl e, l') \<Longrightarrow> l' = l"
  by (auto simp: limiter_require_due_def limiter_due_def limiter_mark_def split: option.splits if_splits)

lemma limiter_ok_quiet:
  assumes "limiter_ok l b" "bk_limiter b' = bk_limiter b" "bk_log b' = bk_log b @ xs" "start_ids xs = []"
  shows "limiter_ok l b'"
proof -
  have "Start j op ck mk s \<notin> set xs" for j op ck mk s using assms(4) by (induction xs rule: start_ids.induct) auto
  with assms starts_spaced_quiet [OF assms(4)] show ?thesis by (auto simp: limiter_ok_def)
qed

lemma closes_quiet:
  assumes "closes f b b'"
  obtains xs where "bk_limiter b' = bk_limiter b" "bk_log b' = bk_log b @ xs" "start_ids xs = []"
proof -
  from assms obtain xs x ys where log: "bk_log b' = bk_log b @ xs @ [x] @ ys"
    and quiet: "\<forall>z \<in> set xs. \<exists>n. z = CancelPending n" "\<forall>z \<in> set ys. \<exists>i err. z = OnCallbackFailure i err"
    and x: "(\<exists>v t. x = OnSuccess (fl_id f) v t \<and> t < fl_deadline f) \<or> (\<exists>err t. x = OnError (fl_id f) err t) \<or> x = GivenUp (fl_id f)"
    and same: "bk_limiter b' = bk_limiter b"
    unfolding closes_def by blast
  have "start_ids xs = []" "start_ids ys = []" using quiet by (auto intro: quiet_calls(2))
  with x have "start_ids (xs @ [x] @ ys) = []" by auto
  with that [OF same log] show thesis .
qed

lemma limiter_ok_closes: "limiter_ok l b \<Longrightarrow> closes f b b' \<Longrightarrow> limiter_ok l b'"
  by (erule closes_quiet) (rule limiter_ok_quiet)

lemma limiter_ok_settles: "limiter_ok l b \<Longrightarrow> settles b b' \<Longrightarrow> limiter_ok l b'"
  unfolding settles_def
proof (elim disjE exE conjE)
  assume "limiter_ok l b" "b' = b\<lparr>bk_late := bk_late b'\<rparr>"
  moreover from this(2) have "bk_limiter b' = bk_limiter b" "bk_log b' = bk_log b @ []" by (metis append_Nil2 broker.select_convs broker.surjective broker.update_convs)+
  ultimately show "limiter_ok l b'" by (auto intro: limiter_ok_quiet)
qed (auto intro: limiter_ok_closes)

lemma limiter_ok_begun:
  assumes ok: "limiter_ok l b" and order: "fst clocks \<le> fst (snd clocks)" and l: "\<forall>d \<in> snd ` set (rl_intervals l). 0 \<le> d"
    and grant: "limiter_require_due (bk_limiter b) (dop_rate_kind op) (fst clocks) (fst (snd clocks)) = (Inr (), l')"
  shows "limiter_ok l (begun op clocks l' b)"
proof -
  let ?k = "dop_rate_kind op"
  from grant obtain t d where t: "map_of (rl_next_at (bk_limiter b)) ?k = Some t" "t \<le> fst clocks"
    and d: "map_of (rl_intervals (bk_limiter b)) ?k = Some d"
    and l': "l' = (bk_limiter b)\<lparr>rl_next_at := AList.update ?k (fst (snd clocks) + d) (rl_next_at (bk_limiter b))\<rparr>"
    by (auto simp: require_due_granted)
  from ok have iv: "rl_intervals (bk_limiter b) = rl_intervals l" by (simp add: limiter_ok_def)
  have k: "interval_of l ?k = d" using d by (simp add: interval_of_def iv)
  have "d \<in> snd ` set (rl_intervals l)" using map_of_SomeD [OF d] by (force simp: iv)
  with l have pos: "0 \<le> d" by blast
  have before: "marked' + d \<le> fst clocks" if "Start j op' ck marked' s \<in> set (bk_log b)" "dop_rate_kind op' = ?k" for j op' ck marked' s
    using ok that t k by (force simp: limiter_ok_def)
  have "starts_spaced l (bk_log b @ [Start (bk_next_id b) op (fst clocks) (fst (snd clocks)) (snd (snd clocks))])"
    using ok before k by (intro starts_spaced_start) (auto simp: limiter_ok_def)
  moreover have "\<exists>t'. map_of (rl_next_at l') (dop_rate_kind op') = Some t' \<and> marked' + interval_of l (dop_rate_kind op') \<le> t'"
    if "Start j op' ck marked' s \<in> set (bk_log b)" for j op' ck marked' s
  proof (cases "dop_rate_kind op' = ?k")
    case True
    with before [OF that True] order k pos show ?thesis by (simp add: l' AList.update_conv')
  next
    case False
    with ok that show ?thesis by (fastforce simp: limiter_ok_def l' AList.update_conv')
  qed
  moreover have "rl_intervals l' = rl_intervals l" by (simp add: l' iv)
  moreover have "map_of (rl_next_at l') ?k = Some (fst (snd clocks) + d)" by (simp add: l' AList.update_conv')
  ultimately show ?thesis using k by (auto simp: limiter_ok_def begun_def)
qed

lemma end_start_quiet: "limiter_ok l b \<Longrightarrow> limiter_ok l (end_start i r b)"
proof (cases r)
  case (PendingCall p)
  assume ok: "limiter_ok l b"
  show ?thesis
    by (rule limiter_ok_quiet [OF ok, where xs = "[]"]) (simp_all add: PendingCall end_start_def)
next
  case (StartRaises err cp)
  assume "limiter_ok l b"
  then show ?thesis by (simp add: StartRaises end_start_def limiter_ok_settles [OF _ finish_error_settles])
qed

lemma deliveries_quiet: "limiter_ok l b \<Longrightarrow> limiter_ok l (foldl (\<lambda>b x. deliver i x b) b xs)"
  by (induction xs arbitrary: b) (auto intro: limiter_ok_settles [OF _ deliver_settles])

lemma limiter_step_ok:
  assumes l: "\<forall>d \<in> snd ` set (rl_intervals l). 0 \<le> d" and ok: "limiter_ok l b" and order: "in_order e"
  shows "limiter_ok l (broker_step b e)"
proof (cases e)
  case (Submitted op script clocks)
  show ?thesis
  proof (cases rule: submit_cases [where op = op and script = script and clocks = clocks and b = b])
    case (refused l' n e')
    have "l' = bk_limiter b" using refused(2) require_due_refused by blast
    with ok show ?thesis by (intro limiter_ok_quiet [OF ok, where xs = "[]"]) (simp_all add: Submitted refused(1))
  next
    case (begins l')
    have "fst clocks \<le> fst (snd clocks)" using order by (cases clocks) (auto simp: Submitted)
    with end_start_quiet [OF deliveries_quiet [OF limiter_ok_begun [OF ok _ l begins(2)]]] show ?thesis
      by (simp add: Submitted begins(3))
  qed
next
  case (Answered i x)
  then show ?thesis by (simp add: limiter_ok_settles [OF ok deliver_settles])
next
  case (ExpireDue cp)
  then show ?thesis
    using ok limiter_ok_closes [OF ok timeout_closes] by (auto simp: expire_due_def split: option.split)
next
  case (CancelCurrent reason now)
  then show ?thesis
    using ok limiter_ok_closes [OF ok cancel_closes] by (cases "bk_flight b") (auto simp: cancel_current_def)
qed

interpretation spaced_broker: guarded_steps broker_step in_order
    "\<lambda>b. limiter_ok l b \<and> (\<forall>d \<in> snd ` set (rl_intervals l). 0 \<le> d)" for l
  by unfold_locales (auto intro: limiter_step_ok)

section \<open>Replies reach only their own operation\<close>

fun delivered :: "int \<Rightarrow> answer \<times> completion \<Rightarrow> (int \<times> dbus_reply \<times> secs) list" where
  "delivered i (Reply vs, cp) = [(i, reply_value vs, cp_now cp)]"
| "delivered i (ErrorReply e, cp) = []"

text \<open>The replies an event delivers, with the number of the operation each is for.\<close>

fun replies_in :: "broker \<Rightarrow> broker_event \<Rightarrow> (int \<times> dbus_reply \<times> secs) list" where
  "replies_in b (Submitted op script clocks) = concat (map (delivered (bk_next_id b)) (fst script))"
| "replies_in b (Answered i x) = delivered i x"
| "replies_in b _ = []"

fun replies_of :: "broker \<Rightarrow> broker_event list \<Rightarrow> (int \<times> dbus_reply \<times> secs) list" where
  "replies_of b [] = []"
| "replies_of b (e # es) = replies_in b e @ replies_of (broker_step b e) es"

fun successes :: "broker_call list \<Rightarrow> (int \<times> dbus_reply \<times> secs) set" where
  "successes [] = {}"
| "successes (OnSuccess i v t # xs) = insert (i, v, t) (successes xs)"
| "successes (_ # xs) = successes xs"

lemma successes_append [simp]: "successes (xs @ ys) = successes xs \<union> successes ys"
  by (induction xs rule: successes.induct) auto

lemma in_successes: "(i, v, t) \<in> successes xs \<longleftrightarrow> OnSuccess i v t \<in> set xs"
  by (induction xs rule: successes.induct) auto

lemma pending_successes [simp]: "successes (bk_log (cancel_pending_call p b)) = successes (bk_log b)"
  by (simp add: cancel_pending_call_def split: option.split)

lemma error_successes [simp]: "successes (bk_log (broker_record_error f err cp b)) = successes (bk_log b)"
  by (simp add: broker_record_error_def invoke_error_def Let_def)

lemma timeout_successes [simp]: "successes (bk_log (broker_record_timeout f cp b)) = successes (bk_log b)"
  by (simp add: broker_record_timeout_def)

lemma invoke_successes: "successes (bk_log (invoke_success f v cp b)) = insert (fl_id f, v, cp_now cp) (successes (bk_log b))"
  by (simp add: invoke_success_def invoke_callback_failure_def Let_def split: option.split)

lemma finish_successes:
  "successes (bk_log (finish_success i v cp b)) \<subseteq> insert (i, v, cp_now cp) (successes (bk_log b))"
  "successes (bk_log (finish_error i err cp b)) = successes (bk_log b)"
  by (auto simp: finish_success_def finish_error_def take_current_def invoke_successes split: option.split)

lemma deliver_successes: "successes (bk_log (deliver i x b)) \<subseteq> set (delivered i x) \<union> successes (bk_log b)"
  using finish_successes by (cases x; cases "fst x") (auto simp: deliver_def)

lemma deliveries_successes:
  "successes (bk_log (foldl (\<lambda>b x. deliver i x b) b xs)) \<subseteq> set (concat (map (delivered i) xs)) \<union> successes (bk_log b)"
proof (induction xs arbitrary: b)
  case (Cons x xs)
  from Cons [of "deliver i x b"] deliver_successes [of i x b] show ?case by auto
qed simp

lemma end_start_successes: "successes (bk_log (end_start i r b)) = successes (bk_log b)"
  by (simp add: end_start_def finish_successes(2) split: started.split)

lemma step_successes: "successes (bk_log (broker_step b e)) \<subseteq> set (replies_in b e) \<union> successes (bk_log b)"
proof (cases e)
  case (Submitted op script clocks)
  show ?thesis
  proof (cases rule: submit_cases [where op = op and script = script and clocks = clocks and b = b])
    case (refused l n e')
    then show ?thesis by (simp add: Submitted)
  next
    case (begins l)
    have "successes (bk_log (begun op clocks l b)) = successes (bk_log b)" by (simp add: begun_def)
    with deliveries_successes [of "bk_next_id b" "begun op clocks l b" "fst script"] show ?thesis
      by (simp add: Submitted begins(3) end_start_successes)
  qed
next
  case (Answered i x)
  then show ?thesis using deliver_successes by simp
qed (auto simp: expire_due_def cancel_current_def Let_def split: option.split)

lemma run_successes: "successes (bk_log (foldl broker_step b es)) \<subseteq> set (replies_of b es) \<union> successes (bk_log b)"
proof (induction es arbitrary: b)
  case (Cons e es)
  from Cons [of "broker_step b e"] step_successes [of b e] show ?case by auto
qed simp

section \<open>Properties\<close>

definition broker_run :: "rate_limiter \<Rightarrow> circuit \<Rightarrow> broker_event list \<Rightarrow> broker" where
  "broker_run l c es = foldl broker_step (new_broker l c) es"

lemma broker_run_ok: "broker_ok (broker_run l c es)"
  unfolding broker_run_def by (rule slot_broker.run_inv [OF broker_ok_new])

text \<open>
  Claim C38.  The broker refines a slot for one operation.  For any run of submissions (whose starters
  may reply or fail before they return), late, repeated or foreign replies, expiries and
  cancellations, the calls the broker makes are a run of the abstract slot: an operation is started only
  when no other is in flight, it is answered exactly once or given up, by a call that carries its own
  number, and nobody is called for an operation that is over.  The slot holds what the broker reports as
  in flight, the operations are numbered in the order of their starts, and the counters balance: the
  submitted operations are the completed, the failed and the cancelled ones and the one in flight, each
  counter is the number of calls of its kind really made, and the timeouts are failures.
\<close>

theorem broker_refines_a_single_slot:
  "slot_run None (bk_log (broker_run l c es)) = Some (map_option fl_id (bk_flight (broker_run l c es))) \<and>
   start_ids (bk_log (broker_run l c es)) = [1..bk_submitted (broker_run l c es)] \<and>
   balanced (broker_run l c es)"
  using broker_run_ok [of l c es] by (simp add: broker_ok_def)

text \<open>
  Claim C39.  A success is the operation's own reply, in time.  Whatever the order in which replies
  arrive and expiry is checked, a success continuation is called only with a reply that was delivered
  for that very operation, at the time it was delivered, and never at or after the operation's
  deadline: a reply that comes too late is a timeout even when nobody has expired the operation yet,
  and a late reply of an earlier operation never reaches a later one.
\<close>

theorem success_is_the_own_reply_in_time:
  assumes "OnSuccess i v t \<in> set (bk_log (broker_run l c es))"
  shows "(i, v, t) \<in> set (replies_of (new_broker l c) es) \<and>
    (\<exists>op checked marked s. Start i op checked marked s \<in> set (bk_log (broker_run l c es)) \<and> t < s + dop_timeout op)"
  using assms broker_run_ok [of l c es] run_successes [of "new_broker l c" es] in_successes [of i v t]
  by (auto simp: broker_ok_def answered_in_time_def broker_run_def new_broker_def)

text \<open>
  Claim C40.  External operations are spaced.  With the process's limiter and whatever the operations,
  replies and failures in between, each started operation passed its rate check no earlier than the
  configured interval after the mark of every earlier started operation of its kind.
\<close>

theorem dbus_operations_are_spaced:
  assumes "list_all in_order es"
  shows "starts_spaced (new_rate_limiter r w i) (bk_log (broker_run (new_rate_limiter r w i) c es))"
proof -
  let ?l = "new_rate_limiter r w i"
  have start: "limiter_ok ?l (new_broker ?l c)" by (simp add: limiter_ok_def new_broker_def)
  have "\<forall>d \<in> snd ` set (rl_intervals ?l). 0 \<le> d" by (simp add: new_rate_limiter_def)
  from spaced_broker.run_inv [OF conjI [OF start this] assms]
  have "limiter_ok ?l (broker_run ?l c es)" unfolding broker_run_def by (rule conjunct1)
  then show ?thesis by (simp add: limiter_ok_def)
qed

section \<open>Witnesses\<close>

definition demo_dbus_op :: dbus_op where
  "demo_dbus_op = \<lparr> dop_rate_kind = ''read'', dop_metric_kind = ''read'', dop_source = ''battery'', dop_priority = ''read'',
     dop_timeout = 2, dop_optional = False, dop_owner = '''', dop_failure_handler = True \<rparr>"

definition demo_completion :: "secs \<Rightarrow> completion" where
  "demo_completion t = \<lparr> cp_now = t, cp_tick = t, cp_epoch = t, cp_success = None, cp_error = False, cp_failure = False \<rparr>"

definition demo_broker_events :: "broker_event list" where
  "demo_broker_events =
    [Submitted demo_dbus_op ([], PendingCall (Some 7)) (1, 1, 1), Answered 1 (Reply [PInt 5], demo_completion 2),
     Submitted demo_dbus_op ([], PendingCall None) (3, 3, 3), Answered 2 (Reply [], demo_completion 5)]"

lemma demo_limiter:
  "limiter_require_due (new_rate_limiter (1/4) (7/20) 2) ''read'' 1 1 =
    (Inr (), (new_rate_limiter (1/4) (7/20) 2)\<lparr>rl_next_at := [(''read'', 5/4), (''write'', 0), (''introspection'', 0)]\<rparr>)"
  by (simp add: limiter_require_due_def limiter_due_def limiter_mark_def new_rate_limiter_def)

theorem success_is_the_own_reply_in_time_witness:
  "(1, OneReply (PInt 5), 2) \<in> set (replies_of (new_broker (new_rate_limiter (1/4) (7/20) 2) (new_circuit 60 180))
      (take 2 demo_broker_events)) \<and>
   (\<exists>op checked marked s. Start 1 op checked marked s \<in>
     set (bk_log (broker_run (new_rate_limiter (1/4) (7/20) 2) (new_circuit 60 180) (take 2 demo_broker_events))) \<and>
     2 < s + dop_timeout op)"
proof -
  have "OnSuccess 1 (OneReply (PInt 5)) 2 \<in>
      set (bk_log (broker_run (new_rate_limiter (1/4) (7/20) 2) (new_circuit 60 180) (take 2 demo_broker_events)))"
    by (simp add: broker_run_def demo_broker_events_def broker_submit_def new_broker_def broker_busy_def demo_dbus_op_def
        demo_limiter end_start_def is_current_def deliver_def finish_success_def take_current_def demo_completion_def
        invoke_success_def reply_value_def log_call_def Let_def)
  then show ?thesis by (rule success_is_the_own_reply_in_time)
qed

theorem dbus_operations_are_spaced_witness:
  "starts_spaced (new_rate_limiter (1/4) (7/20) 2)
     (bk_log (broker_run (new_rate_limiter (1/4) (7/20) 2) (new_circuit 60 180) demo_broker_events))"
  by (rule dbus_operations_are_spaced) (simp add: demo_broker_events_def)

end
