(* ===== verification/Spec2Isabelle.thy ===== *)
theory Spec2Isabelle
  imports Phase_Claims Auto_Claims Control_Write_Claims Control_Api_Claims Control_Api_Safety Control_Api_Race Publication_Restart Publication_Queue_Claims Modbus_Profiles Modbus_Charger_Claims Relay_Cycle_Claims Schedule Grid_Claims Dbus_Rate_Claims Dbus_Broker_Claims
begin

text \<open>
  A verification library for the Venus OS EV charger service (Python, \<open>src/venus_evcharger\<close>): a daemon that
  switches and controls a wallbox from PV surplus, battery state and grid power, offers a local command API, and
  publishes its state on D-Bus.  This theory imports the others and holds no definitions of its own.

  \<^bold>\<open>The program's parts and how they interact.\<close>  Each update cycle samples the energy inputs and the relay, lets the Auto
  workflow decide whether the charger may run, lets the phase policy choose and switch the phase layout, and applies the
  relay.  Before a decision reaches the charger, the health of the charger and of the contactor may overrule it; the charger itself
  is a relay or a wallbox on Modbus.  Commands arrive over the Control API (HTTP or a Unix socket), pass authentication, locality, state
  token, idempotency and rate limit, are validated against the registry of writable targets, and run in the write controller,
  which changes the same attributes the update cycle reads, inside a transaction with rollback.  What the service publishes
  travels to the D-Bus gateway on two lanes, a volatile queue fed over a socket and a durable mailbox of files; orders per field
  decide which of two publications is the newer one.  All external D-Bus calls of the gateway go through one broker with a rate limiter and a circuit
  breaker.  The grid power the decisions rest on is fused from a primary and a backup meter.

  \<^bold>\<open>Theories and the code they model.\<close>
  \<^item> \<open>Prelude\<close>: exceptions as values of \<open>exc\<close>, a routine's \<open>outcome\<close> (exception or value, and the state as mutated so
    far), floats with their non-finite values, text operations, ordered dictionaries, runs of step functions, and the
    interfaces \<open>stepwise\<close> and \<open>recency_store\<close>.  \<open>Py_Values\<close>: JSON values and Python's conversions between text and numbers.
  \<^item> \<open>Phases\<close> (\<open>backend/models.py\<close>), \<open>Phase_Mismatch\<close> (\<open>update/relay_phase_switch_mismatch.py\<close>, \<open>update/relay_ports.py\<close>),
    \<open>Phase_Target\<close> (\<open>update/relay_phase_decision.py\<close>), \<open>Phase_Switch\<close> (\<open>update/relay_phase_switch_policy.py\<close>,
    \<open>relay_phase_switch_runtime*.py\<close>): the layouts, the mismatch monitor, the choice of a target layout and the state machine
    of a switch; the record \<open>phase_svc\<close> is the service's attributes they read and write.  \<open>Phase_Props\<close> holds what each operation
    keeps, \<open>Phase_Claims\<close> the properties.
  \<^item> \<open>Relay_Sample\<close>, \<open>Auto_State\<close> (\<open>core/common_auto.py\<close>, \<open>core/common_types.py\<close>, \<open>auto/logic_samples.py\<close>), \<open>Auto_Policy\<close>
    (\<open>auto/policy.py\<close>), \<open>Auto_Learning\<close> (\<open>auto/logic_learning.py\<close>), \<open>Auto_Gates\<close> (\<open>auto/logic_gates_runtime.py\<close>), \<open>Auto_Decision\<close>
    (\<open>auto/logic_decisions*.py\<close>): the confirmed relay sample, the sample window, the learned charge power, the gates and the decision
    workflow over the record \<open>auto_svc\<close>.  \<open>Auto_Props\<close> and \<open>Auto_Claims\<close> hold its lemmas and properties.
  \<^item> \<open>Schedule\<close> (\<open>core/common_schedule.py\<close>): weekday and time texts, calendar dates, the scheduled-mode snapshot.
  \<^item> \<open>Control_Limits\<close> (\<open>control/rate_limit.py\<close>, \<open>idempotency.py\<close>, \<open>events.py\<close>), \<open>Control_Command\<close> (\<open>control/service.py\<close>,
    \<open>control/models.py\<close>, \<open>core/contracts_control_surface.py\<close>), \<open>Control_Auth\<close> (\<open>control/http_api_auth.py\<close>), \<open>Control_Api\<close>
    (\<open>control/http_api_commands.py\<close> and its siblings, \<open>http_api_routing.py\<close>, \<open>audit.py\<close>): a POST from its headers to its response.
    \<open>Control_Api_Props\<close> and \<open>Control_Api_Port\<close> (the interface \<open>command_port\<close>) hold lemmas, \<open>Control_Api_Claims\<close> retries,
    \<open>Control_Api_Safety\<close> gates and missing answers, \<open>Control_Api_Race\<close> requests as threads of the server.
  \<^item> \<open>Relay_Cutover\<close> (\<open>core/contracts_snapshot.py\<close>, \<open>ports/write.py\<close>) and \<open>Control_Write\<close> (\<open>controllers/write.py\<close>,
    \<open>write_support.py\<close>, \<open>write_snapshot.py\<close>): one handler per command inside the snapshot transaction; \<open>Control_Write_Props\<close> shows
    every handler stays within a frame (\<open>contained\<close>), \<open>Control_Write_Claims\<close> what a result means.
  \<^item> \<open>Publication_Order\<close> (\<open>ipc/publication_order.py\<close>, \<open>publication_order_state.py\<close>): issuing of orders, the high-water marks of
    fields on the volatile and the durable lane, and the state file with its journal; \<open>Publication_Claims\<close> and
    \<open>Publication_Restart\<close> hold what they guarantee in a run and across a restart.  \<open>Publication_Payload\<close> (\<open>ipc/publication_payload.py\<close>,
    \<open>deadline.py\<close>, \<open>fast_publication_work.py\<close>, \<open>fast_publication_policy.py\<close>, \<open>gateway_publication.py\<close>) and \<open>Publication_Queue\<close>
    (\<open>ipc/fast_publication.py\<close>, and the burst of \<open>dbus_adapter/write/core.py\<close>): the volatile queue of the D-Bus gateway.
    \<open>Publication_Payload_Props\<close> reads a command as a table of fields, \<open>Publication_Queue_Props\<close> and \<open>Publication_Queue_Ops\<close> show what
    each operation does to the table, \<open>Publication_Queue_Claims\<close> what holds along every run of the gateway.  The refinement is of
    the queue by a table from fields to orders and values with a field-wise update in which the newer order wins.
  \<^item> \<open>Modbus_Codec\<close> and \<open>Modbus_Client\<close> (\<open>backend/modbus_client.py\<close>), \<open>Modbus_Transport\<close> (\<open>backend/modbus_transport.py\<close>,
    \<open>modbus_transport_serial.py\<close>), \<open>Modbus_Config\<close> (\<open>modbus_transport_config.py\<close>), \<open>Modbus_Profiles\<close> (\<open>modbus_profiles.py\<close>),
    \<open>Modbus_Charger\<close> (\<open>modbus_profile_models.py\<close>, \<open>modbus_charger.py\<close>) and \<open>Native_Chargers\<close> (\<open>simpleevse_charger.py\<close>,
    \<open>smartevse_charger.py\<close>): values as registers, frames, exchanges with their retries and the ownership of the serial line, the
    register profiles and the chargers with their caches.  The operating system is a script of what each read, write and command
    answers; the wire delivers bytes in chunks.  \<open>Modbus_Codec_Props\<close>, \<open>Modbus_Crc\<close> (the frame check as a linear map on words) and
    \<open>Modbus_Link\<close> hold lemmas; the locale \<open>modbus_link\<close> is what the client needs of a transport, and serial, TCP and UDP are instances
    of it.  \<open>Modbus_Claims\<close> and \<open>Modbus_Charger_Claims\<close> hold the properties.
  \<^item> \<open>Charger_Transport\<close> (\<open>update/readback_resolver.py\<close>, \<open>relay_charger_transport.py\<close>), \<open>Contactor_Health\<close>
    (\<open>update/relay_charger_health.py\<close>), \<open>Charger_Target\<close> (\<open>update/relay_charger_current_targets.py\<close>,
    \<open>relay_status_publish.py\<close>) and \<open>Relay_Cycle\<close> (\<open>update/runtime_cycle.py\<close>): fresh readbacks, transport issues and their retry
    window, the suspicions against the contactor with their counters and the latched lockout, the current written to the charger,
    the status code, and one online cycle composed of the phase switch, the Auto decision and the charger.  The three components
    share one service in the code; the model hands over what they share (the off-time bypass, the surplus, the health reasons, the
    enable commands of a resumed relay) at the point where the code passes from one to the other.  \<open>Contactor_Props\<close>,
    \<open>Contactor_Claims\<close>, \<open>Charger_Target_Claims\<close>, \<open>Relay_Cycle_Props\<close> and \<open>Relay_Cycle_Claims\<close> hold what is proved: when a lockout
    latches and how long it holds, which values are written, and that a health verdict keeps the charger off through a cycle.
  \<^item> \<open>Grid_Fusion\<close> (\<open>energy/grid_fusion.py\<close>, \<open>grid_fusion_contracts.py\<close>, \<open>timestamped_measurement.py\<close>): the choice between two
    meters; \<open>Grid_Claims\<close> shows along any run of samples that its counters are lengths of runs, when the source changes and what
    the value handed out is worth.
  \<^item> \<open>Dbus_Rate\<close> (\<open>dbus_adapter/rate.py\<close>, \<open>dbus_errors.py\<close>, \<open>dbus_gateway_latency.py\<close>) and \<open>Dbus_Broker\<close>
    (\<open>dbus_adapter/async_broker.py\<close>, \<open>async_request.py\<close>): latency windows, error classes, the rate limiter, the circuit breaker and
    the broker over them.  \<open>Dbus_Rate_Claims\<close> shows exactly when work is suppressed, that the attribution tables are bounded and what
    a percentile is; \<open>Dbus_Broker_Claims\<close> that the broker refines a slot for one operation and spaces its starts.

  \<^bold>\<open>Groups of lemmas.\<close>  Per component: what an operation changes and leaves alone, its behaviour on every branch, an invariant
  and its preservation along runs.  Across components: the decision workflow over the gates, a command over the endpoint, the store
  and the write controller, the threaded endpoint as a refinement of the sequential handler.

  \<^bold>\<open>Abstractions.\<close>  Finite floats are exact rationals (rounding is not modelled; non-finite values and the overflow of an integer
  to a float are).  A decision or a command reads the clock once, except where two readings matter.  Texts are Latin-1.  Volatility
  is compared as a variance.  Battery activity and the night-boost flag are inputs of the decision.  The charger, the phase switch,
  persistence, the gateway and the JSON parser are parameters: functions that return an exception or a value.  The starters and continuations of D-Bus calls are
  scripts of what they do.  Log lines and metrics
  texts have no effect.  CPython's limit on the digits of an integer text appears as a parser exception.  Recursion is structural
  throughout, so no fuel is needed; where a call may raise, raising is a value.

  \<^bold>\<open>Not modelled.\<close>  Sockets, files and threads as such; the configuration wizard and inventory under \<open>bootstrap\<close>, \<open>inventory\<close> and
  \<open>topology\<close> (text dialogues and file generation); the remaining processes under \<open>dbus_adapter\<close> (their loops, reads, writes and
  health files); the energy connectors and the rest of the energy inputs (network protocols and their aggregation); ESS balancing
  under \<open>update/victron_ess_balance*\<close>; the HTTP, Shelly, template and go-e backends; of the update cycle the collection of inputs,
  the learning step and the publication of paths; of Modbus the attributes of the serial line, error texts, negative zero and the
  payloads of NaN; service facades that only delegate; generated documentation and the OpenAPI text.
\<close>

end
